(* ===== verification/Prelude.thy ===== *)
theory Prelude
  imports Main "HOL-Library.Word" "HOL-Library.Multiset"
begin

text \<open>
  Shared vocabulary of the development: the machine integers of the C code (bytes, 16, 32
  and 64 bit words), the rotations and the byte packings that the hash functions use, and
  lemmas on lists, on words and on runs of 64 byte blocks that several components share.
  The platform is the one the project is built for: Linux on a little-endian x86 machine,
  where \<open>char\<close> is signed in the C libraries and unsigned in the client, which is compiled with
  \<open>-funsigned-char\<close>. Where a C type has another width on 32 and on 64 bit builds
  (\<open>unsigned long\<close>), the definitions are polymorphic in the width.
\<close>

unbundle bit_operations_syntax

type_synonym byte = "8 word"
type_synonym u16 = "16 word"
type_synonym u32 = "32 word"
type_synonym u64 = "64 word"

named_theorems len_simps \<open>lengths of the arrays that the operations return\<close>
named_theorems xor_simps \<open>cancellation of XOR\<close>

subsection \<open>XOR\<close>

lemma xor_cancel_right [xor_simps]: "(a XOR b) XOR b = (a :: 'a::len word)"
  by (simp add: xor.assoc)

lemma xor_cancel_left [xor_simps]: "b XOR (b XOR a) = (a :: 'a::len word)"
  by (simp add: xor.assoc [symmetric])

lemma xor_eq_cancel [xor_simps]: "(a XOR b = a XOR c) = (b = (c :: 'a::len word))"
  by (metis xor_cancel_left)

lemma xor_eq_cancel_right [xor_simps]: "(b XOR a = c XOR a) = (b = (c :: 'a::len word))"
  by (metis xor_cancel_right)

lemma push_bit_xor_word: "push_bit n (a XOR b) = push_bit n a XOR push_bit n (b :: 'a::len word)"
  by (rule bit_word_eqI) (auto simp: bit_simps)

lemma drop_bit_xor_word: "drop_bit n (a XOR b) = drop_bit n a XOR drop_bit n (b :: 'a::len word)"
  by (rule bit_word_eqI) (auto simp: bit_simps)

lemma and_xor_distrib_word: "(a XOR b) AND c = (a AND c) XOR (b AND (c :: 'a::len word))"
  by (rule bit_word_eqI) (auto simp: bit_simps)

subsection \<open>Masks\<close>

named_theorems mask_simps \<open>masking with a constant as \<open>take_bit\<close>\<close>

lemma and_mask_const [mask_simps]:
  fixes x :: "'a::len word"
  shows "x AND 1 = take_bit 1 x" and "x AND 3 = take_bit 2 x" and "x AND 7 = take_bit 3 x"
    and "x AND 0xF = take_bit 4 x" and "x AND 0x3F = take_bit 6 x"
    and "x AND 0xFF = take_bit 8 x" and "x AND 0xFFFF = take_bit 16 x"
    and "x AND 0xFFFFFFFF = take_bit 32 x"
  by (simp_all add: take_bit_eq_mask mask_eq_exp_minus_1)

lemma unat_and_63: "unat ((x :: 'a::len word) AND 0x3F) = unat x mod 64"
  by (simp only: mask_simps unsigned_take_bit_eq) (simp add: take_bit_eq_mod)

lemma unat_ucast_byte: "8 \<le> LENGTH('a) \<Longrightarrow> unat (ucast (x :: byte) :: 'a::len word) = unat x"
  by transfer (simp add: take_bit_take_bit min_def)

lemma unat_drop_bit: "unat (drop_bit n (x :: 'a::len word)) = unat x div 2 ^ n"
  unfolding drop_bit_eq_div [symmetric]
  by (rule bit_eqI) (auto simp: bit_simps dest: bit_imp_le_length)

lemma unat_of_nat_small: "n < 2 ^ LENGTH('a) \<Longrightarrow> unat (of_nat n :: 'a::len word) = n"
  by (simp add: unsigned_of_nat take_bit_nat_eq_self)

text \<open>The carry test of an unsigned addition, \<open>(a += b) < b\<close>.\<close>

lemma wrap_less_iff: "a < p \<Longrightarrow> b < p \<Longrightarrow> (a + b) mod p < b \<longleftrightarrow> p \<le> a + (b :: nat)"
  by (cases "p \<le> a + b") (simp_all add: le_mod_geq)

lemma div_add_carry:
  assumes "b < p"
  shows "(a + b) div p = a div p + (if p \<le> a mod p + b then 1 else 0 :: nat)"
proof -
  have "a mod p < p" using assms by simp
  then have r: "a mod p + b - p < p" using assms by linarith
  have "(a + b) div p = a div p + (a mod p + b) div p"
    using assms div_add1_eq [of a b p] by simp
  moreover have "(a mod p + b) div p = (if p \<le> a mod p + b then 1 else 0)"
    using assms r by (simp add: le_div_geq)
  ultimately show ?thesis by simp
qed

lemma word_add_carry:
  "(a + b :: 'a::len word) < b \<longleftrightarrow> 2 ^ LENGTH('a) \<le> unat a + unat b"
  by (simp only: word_less_nat_alt unat_word_ariths wrap_less_iff unsigned_less)

subsection \<open>Arrays as lists\<close>

text \<open>
  \<open>memcpy dst i src\<close> writes the bytes \<open>src\<close> into \<open>dst\<close> from index \<open>i\<close> on, as
  \<open>memcpy(dst + i, src, length src)\<close> does when the write is in bounds.
\<close>

definition memcpy :: "'a list \<Rightarrow> nat \<Rightarrow> 'a list \<Rightarrow> 'a list" where
  "memcpy dst i src = take i dst @ src @ drop (i + length src) dst"

lemma length_memcpy [len_simps]:
  "i + length src \<le> length dst \<Longrightarrow> length (memcpy dst i src) = length dst"
  by (simp add: memcpy_def)

lemma take_memcpy:
  "i \<le> length dst \<Longrightarrow> take (i + length src) (memcpy dst i src) = take i dst @ src"
  by (simp add: memcpy_def)

lemma memcpy_full: "length src = length dst \<Longrightarrow> memcpy dst 0 src = src"
  by (simp add: memcpy_def)

lemma memcpy_nil [simp]: "memcpy dst i [] = dst"
  by (simp add: memcpy_def)

text \<open>
  A write and a read that may miss the array: \<open>None\<close> when they do. The C string that a buffer holds, \<open>None\<close> when
  it has no NUL, so that reading the string runs past its end.
\<close>

definition store_at :: "'a list \<Rightarrow> nat \<Rightarrow> 'a list \<Rightarrow> 'a list option" where
  "store_at dst i src = (if i + length src \<le> length dst then Some (memcpy dst i src) else None)"

definition read_at :: "byte list \<Rightarrow> nat \<Rightarrow> nat \<Rightarrow> byte list option" where
  "read_at buf i n = (if i + n \<le> length buf then Some (take n (drop i buf)) else None)"

definition byte_at :: "byte list \<Rightarrow> nat \<Rightarrow> byte option" where
  "byte_at buf i = (if i < length buf then Some (buf ! i) else None)"

definition c_string :: "byte list \<Rightarrow> byte list option" where
  "c_string buf = (if 0 \<in> set buf then Some (takeWhile (\<lambda>c. c \<noteq> 0) buf) else None)"

lemma c_string_prefix: "0 \<notin> set s \<Longrightarrow> c_string (s @ 0 # rest) = Some s"
  by (simp add: c_string_def takeWhile_append)

lemma c_string_padded: "0 \<notin> set s \<Longrightarrow> n \<noteq> 0 \<Longrightarrow> c_string (s @ replicate n 0) = Some s"
  by (cases n) (simp_all add: c_string_prefix)

lemma replicate_numeral: "replicate (numeral k) x = x # replicate (pred_numeral k) x"
  by (simp add: numeral_eq_Suc)

lemma byte_bit: "bit (x :: 8 word) i \<Longrightarrow> i < 8"
  using bit_imp_le_length [of x i] by simp

lemma list_swap_mset:
  "i < length xs \<Longrightarrow> j < length xs \<Longrightarrow> mset (xs[i := xs ! j, j := xs ! i]) = mset xs"
  by (simp add: Multiset.mset_swap)

end
