(* ===== verification/Stream_Hash.thy ===== *)
theory Stream_Hash
  imports Prelude
begin

text \<open>
  What the five hash modules (\<open>md5\<close>, \<open>rhash\<close> SHA-1, Tiger and Whirlpool, \<open>ampheck\<close>
  RIPEMD-128) have in common: a message is cut into 64 byte blocks, each block is compressed
  into the chaining state, what is left over waits in a buffer. \<open>absorb\<close> and \<open>pending\<close> are
  the abstract account of that; the locale \<open>incremental_digest\<close> is the contract of the
  init/update/final interface as the callers use it.
\<close>

subsection \<open>Blocks of a message\<close>

function absorb :: "('h \<Rightarrow> byte list \<Rightarrow> 'h) \<Rightarrow> 'h \<Rightarrow> byte list \<Rightarrow> 'h" where
  "absorb f h m = (if length m < 64 then h else absorb f (f h (take 64 m)) (drop 64 m))"
  by pat_completeness auto
termination
  by (relation "measure (\<lambda>(f, h, m). length m)") auto

declare absorb.simps [simp del]

definition pending :: "byte list \<Rightarrow> byte list" where
  "pending m = drop (64 * (length m div 64)) m"

lemma length_pending [simp]: "length (pending m) = length m mod 64"
  by (simp add: pending_def minus_mult_div_eq_mod)

lemma absorb_short [simp]: "length m < 64 \<Longrightarrow> absorb f h m = h"
  by (simp add: absorb.simps)

lemma pending_short [simp]: "length m < 64 \<Longrightarrow> pending m = m"
  by (simp add: pending_def)

lemma absorb_block: "length b = 64 \<Longrightarrow> absorb f h (b @ m) = absorb f (f h b) m"
  by (subst absorb.simps) simp

lemma pending_block: "length b = 64 \<Longrightarrow> pending (b @ m) = pending m"
proof -
  have "(64 + length m) div 64 = Suc (length m div 64)" by simp
  then show "length b = 64 \<Longrightarrow> pending (b @ m) = pending m" by (simp only: pending_def length_append) simp
qed

lemma absorb_one: "length b = 64 \<Longrightarrow> absorb f h b = f h b"
  using absorb_block [of b f h "[]"] by simp

lemma absorb_two: "length a = 64 \<Longrightarrow> length b = 64 \<Longrightarrow> absorb f h (a @ b) = f (f h a) b"
  by (simp add: absorb_block absorb_one)

lemma absorb_pending:
  "absorb f h (m @ x) = absorb f (absorb f h m) (pending m @ x) \<and> pending (m @ x) = pending (pending m @ x)"
proof (induction f h m rule: absorb.induct)
  case (1 f h m)
  show ?case
  proof (cases "length m < 64")
    case True
    then show ?thesis by simp
  next
    case False
    define b r where "b = take 64 m" and "r = drop 64 m"
    have m: "m = b @ r" and b: "length b = 64" using False by (simp_all add: b_def r_def)
    from "1.IH" [OF False] show ?thesis
      unfolding b_def [symmetric] r_def [symmetric] m by (simp add: absorb_block pending_block b)
  qed
qed

lemmas absorb_append = absorb_pending [THEN conjunct1]
lemmas pending_append = absorb_pending [THEN conjunct2]

text \<open>A full buffer is compressed; the rest of the chunk starts on a block boundary.\<close>

lemma absorb_fill:
  assumes "length (pending m) + length a = 64"
  shows "absorb f h (m @ a @ x) = absorb f (f (absorb f h m) (pending m @ a)) x"
    and "pending (m @ a @ x) = pending x"
  using absorb_append [of f h m "a @ x"] pending_append [of m "a @ x"] assms
  by (simp_all add: absorb_block pending_block flip: append_assoc)

lemma absorb_no_fill:
  assumes "length (pending m) + length x < 64"
  shows "absorb f h (m @ x) = absorb f h m" and "pending (m @ x) = pending m @ x"
  using absorb_append [of f h m x] pending_append [of m x] assms by simp_all

lemma absorb_length:
  "(\<And>h b. length (f h b) = n) \<Longrightarrow> length h = n \<Longrightarrow> length (absorb f h m) = n"
proof (induction f h m rule: absorb.induct)
  case (1 f h m)
  then show ?case by (subst absorb.simps) simp
qed

subsection \<open>Padding\<close>

text \<open>
  The padding of a message of \<open>n\<close> bytes: one marker byte, zeros, and a length field of
  \<open>k\<close> bytes of which the last eight are \<open>tail\<close>, up to a block boundary.
\<close>

definition pad_zeros :: "nat \<Rightarrow> nat \<Rightarrow> nat" where
  "pad_zeros k n = (if n mod 64 + 1 + k \<le> 64 then 63 - k - n mod 64 else 127 - k - n mod 64)"

definition padding :: "byte \<Rightarrow> nat \<Rightarrow> byte list \<Rightarrow> nat \<Rightarrow> byte list" where
  "padding marker k tail n = marker # replicate (pad_zeros k n + (k - 8)) 0 @ tail"

lemma padding_aligned:
  assumes "length tail = 8" and "8 \<le> k" and "k \<le> 63"
  shows "64 dvd n + length (padding marker k tail n)"
proof -
  have "n mod 64 < 64" by simp
  with assms have "n mod 64 + length (padding marker k tail n) \<in> {64, 128}"
    by (auto simp: padding_def pad_zeros_def)
  then have "(n mod 64 + length (padding marker k tail n)) mod 64 = 0" by auto
  then show ?thesis by (simp add: mod_add_left_eq dvd_eq_mod_eq_0)
qed

subsection \<open>The init/update/final interface\<close>

text \<open>
  A caller holds a context, feeds it chunks and reads the digest. The provider promises a
  relation between contexts and the message absorbed so far. A chunk (type \<open>'x\<close>) has a
  content; \<open>fits\<close> is the provider's bound on a single chunk.
\<close>

locale incremental_digest =
  fixes ini :: 'c
    and upd :: "'c \<Rightarrow> 'x \<Rightarrow> 'c"
    and fin :: "'c \<Rightarrow> 'd"
    and content :: "'x \<Rightarrow> byte list"
    and fits :: "'x \<Rightarrow> bool"
    and rep :: "'c \<Rightarrow> byte list \<Rightarrow> bool"
    and digest :: "byte list \<Rightarrow> 'd"
  assumes rep_ini: "rep ini []"
    and rep_upd: "rep c m \<Longrightarrow> fits x \<Longrightarrow> rep (upd c x) (m @ content x)"
    and rep_fin: "rep c m \<Longrightarrow> fin c = digest m"
begin

lemma rep_updates:
  "rep c m \<Longrightarrow> list_all fits xs \<Longrightarrow> rep (foldl upd c xs) (m @ concat (map content xs))"
proof (induction xs arbitrary: c m)
  case Nil
  then show ?case by simp
next
  case (Cons x xs)
  then have "rep (foldl upd (upd c x) xs) ((m @ content x) @ concat (map content xs))"
    by (intro Cons.IH rep_upd) simp_all
  then show ?case by simp
qed

lemma digest_of_chunks:
  "list_all fits xs \<Longrightarrow> fin (foldl upd ini xs) = digest (concat (map content xs))"
  using rep_updates [OF rep_ini, of xs] by (simp add: rep_fin)

lemma one_shot: "fits x \<Longrightarrow> fin (upd ini x) = digest (content x)"
  using digest_of_chunks [of "[x]"] by simp

lemma chunking_irrelevant:
  assumes "list_all fits xs" and "list_all fits ys"
    and "concat (map content xs) = concat (map content ys)"
  shows "fin (foldl upd ini xs) = fin (foldl upd ini ys)"
  using assms by (simp add: digest_of_chunks)

end

text \<open>A digest of a fixed length, as the callers that copy digests into arrays rely on.\<close>

locale sized_digest = incremental_digest +
  fixes out :: "'d \<Rightarrow> byte list"
    and size :: nat
  assumes length_digest: "length (out (digest m)) = size"
begin

lemma length_final: "list_all fits xs \<Longrightarrow> length (out (fin (foldl upd ini xs))) = size"
  by (simp add: digest_of_chunks length_digest)

end

end
