(* ===== verification/Crc16.thy ===== *)
theory Crc16
  imports Prelude
begin

text \<open>
  The CRC of \<open>crc16/src/crc16.c\<close>: the 256 entry table and the byte loop, against a
  reference that divides by the polynomial \<open>x^16 + x^12 + x^5 + 1\<close> one bit at a time.
\<close>

subsection \<open>The code\<close>

definition crc16tab :: "u16 list" where
  "crc16tab =
   [0x0000, 0x1021, 0x2042, 0x3063, 0x4084, 0x50a5, 0x60c6, 0x70e7,
    0x8108, 0x9129, 0xa14a, 0xb16b, 0xc18c, 0xd1ad, 0xe1ce, 0xf1ef,
    0x1231, 0x0210, 0x3273, 0x2252, 0x52b5, 0x4294, 0x72f7, 0x62d6,
    0x9339, 0x8318, 0xb37b, 0xa35a, 0xd3bd, 0xc39c, 0xf3ff, 0xe3de,
    0x2462, 0x3443, 0x0420, 0x1401, 0x64e6, 0x74c7, 0x44a4, 0x5485,
    0xa56a, 0xb54b, 0x8528, 0x9509, 0xe5ee, 0xf5cf, 0xc5ac, 0xd58d,
    0x3653, 0x2672, 0x1611, 0x0630, 0x76d7, 0x66f6, 0x5695, 0x46b4,
    0xb75b, 0xa77a, 0x9719, 0x8738, 0xf7df, 0xe7fe, 0xd79d, 0xc7bc,
    0x48c4, 0x58e5, 0x6886, 0x78a7, 0x0840, 0x1861, 0x2802, 0x3823,
    0xc9cc, 0xd9ed, 0xe98e, 0xf9af, 0x8948, 0x9969, 0xa90a, 0xb92b,
    0x5af5, 0x4ad4, 0x7ab7, 0x6a96, 0x1a71, 0x0a50, 0x3a33, 0x2a12,
    0xdbfd, 0xcbdc, 0xfbbf, 0xeb9e, 0x9b79, 0x8b58, 0xbb3b, 0xab1a,
    0x6ca6, 0x7c87, 0x4ce4, 0x5cc5, 0x2c22, 0x3c03, 0x0c60, 0x1c41,
    0xedae, 0xfd8f, 0xcdec, 0xddcd, 0xad2a, 0xbd0b, 0x8d68, 0x9d49,
    0x7e97, 0x6eb6, 0x5ed5, 0x4ef4, 0x3e13, 0x2e32, 0x1e51, 0x0e70,
    0xff9f, 0xefbe, 0xdfdd, 0xcffc, 0xbf1b, 0xaf3a, 0x9f59, 0x8f78,
    0x9188, 0x81a9, 0xb1ca, 0xa1eb, 0xd10c, 0xc12d, 0xf14e, 0xe16f,
    0x1080, 0x00a1, 0x30c2, 0x20e3, 0x5004, 0x4025, 0x7046, 0x6067,
    0x83b9, 0x9398, 0xa3fb, 0xb3da, 0xc33d, 0xd31c, 0xe37f, 0xf35e,
    0x02b1, 0x1290, 0x22f3, 0x32d2, 0x4235, 0x5214, 0x6277, 0x7256,
    0xb5ea, 0xa5cb, 0x95a8, 0x8589, 0xf56e, 0xe54f, 0xd52c, 0xc50d,
    0x34e2, 0x24c3, 0x14a0, 0x0481, 0x7466, 0x6447, 0x5424, 0x4405,
    0xa7db, 0xb7fa, 0x8799, 0x97b8, 0xe75f, 0xf77e, 0xc71d, 0xd73c,
    0x26d3, 0x36f2, 0x0691, 0x16b0, 0x6657, 0x7676, 0x4615, 0x5634,
    0xd94c, 0xc96d, 0xf90e, 0xe92f, 0x99c8, 0x89e9, 0xb98a, 0xa9ab,
    0x5844, 0x4865, 0x7806, 0x6827, 0x18c0, 0x08e1, 0x3882, 0x28a3,
    0xcb7d, 0xdb5c, 0xeb3f, 0xfb1e, 0x8bf9, 0x9bd8, 0xabbb, 0xbb9a,
    0x4a75, 0x5a54, 0x6a37, 0x7a16, 0x0af1, 0x1ad0, 0x2ab3, 0x3a92,
    0xfd2e, 0xed0f, 0xdd6c, 0xcd4d, 0xbdaa, 0xad8b, 0x9de8, 0x8dc9,
    0x7c26, 0x6c07, 0x5c64, 0x4c45, 0x3ca2, 0x2c83, 0x1ce0, 0x0cc1,
    0xef1f, 0xff3e, 0xcf5d, 0xdf7c, 0xaf9b, 0xbfba, 0x8fd9, 0x9ff8,
    0x6e17, 0x7e36, 0x4e55, 0x5e74, 0x2e93, 0x3eb2, 0x0ed1, 0x1ef0]"

definition crc16_step :: "u16 \<Rightarrow> byte \<Rightarrow> u16" where
  "crc16_step crc b =
     push_bit 8 crc XOR crc16tab ! unat ((drop_bit 8 crc XOR ucast b) AND 0x00FF)"

fun crc16_loop :: "u16 \<Rightarrow> byte list \<Rightarrow> u16" where
  "crc16_loop crc [] = crc"
| "crc16_loop crc (b # buf) = crc16_loop (crc16_step crc b) buf"

definition crc16 :: "byte list \<Rightarrow> u16" where
  "crc16 buf = crc16_loop 0 buf"
subsection \<open>The reference: division by the polynomial, bit by bit\<close>

definition crc_bit :: "u16 \<Rightarrow> u16" where
  "crc_bit c = (if bit c 15 then push_bit 1 c XOR 0x1021 else push_bit 1 c)"

definition crc_byte_ref :: "u16 \<Rightarrow> byte \<Rightarrow> u16" where
  "crc_byte_ref c b = (crc_bit ^^ 8) (c XOR push_bit 8 (ucast b))"

definition crc16_ref :: "byte list \<Rightarrow> u16" where
  "crc16_ref buf = foldl crc_byte_ref 0 buf"

definition crc_bits8 :: "u16 \<Rightarrow> u16" where
  "crc_bits8 c = crc_bit (crc_bit (crc_bit (crc_bit (crc_bit (crc_bit (crc_bit (crc_bit c)))))))"

subsection \<open>The bit step is linear and injective\<close>

lemma crc_bit_xor: "crc_bit (a XOR b) = crc_bit a XOR crc_bit b"
  by (auto simp: crc_bit_def push_bit_xor_word bit_xor_iff ac_simps xor_simps)

lemma crc_bits_xor: "(crc_bit ^^ n) (a XOR b) = (crc_bit ^^ n) a XOR (crc_bit ^^ n) b"
  by (induction n arbitrary: a b) (simp_all add: crc_bit_xor)

lemma crc_bit_inj: "crc_bit a = crc_bit b \<Longrightarrow> a = b"
proof (rule bit_word_eqI)
  fix n assume eq: "crc_bit a = crc_bit b" and n: "n < LENGTH(16)"
  have low: "bit (crc_bit c) 0 = bit c 15" for c
    by (simp add: crc_bit_def bit_xor_iff bit_0 even_xor_iff)
  from eq have top: "bit a 15 = bit b 15" by (metis low)
  with eq have "push_bit 1 a = push_bit 1 b"
    by (simp add: crc_bit_def xor_simps split: if_splits)
  then have "bit (push_bit 1 a) (Suc n) = bit (push_bit 1 b) (Suc n)" by simp
  moreover have "bit (push_bit 1 c) (Suc n) = bit c n" if "n < 15" for c :: u16
    using that by (simp only: bit_push_bit_iff) simp
  ultimately show "bit a n = bit b n"
    using top n by (cases "n = 15") auto
qed

lemma crc_bits_inj: "(crc_bit ^^ n) a = (crc_bit ^^ n) b \<Longrightarrow> a = b"
  by (induction n arbitrary: a b) (auto dest: crc_bit_inj)

lemma crc_bits_shift:
  "\<forall>k. 16 - n \<le> k \<longrightarrow> \<not> bit c k \<Longrightarrow> (crc_bit ^^ n) c = push_bit n c"
proof (induction n)
  case 0 then show ?case by simp
next
  case (Suc n)
  then have IH: "(crc_bit ^^ n) c = push_bit n c" by (metis diff_le_mono2 le_SucI le_refl order_trans)
  have "\<not> bit (push_bit n c) 15"
    using Suc.prems by (auto simp: bit_push_bit_iff)
  then have "crc_bit (push_bit n c) = push_bit 1 (push_bit n c)" by (simp only: crc_bit_def if_False)
  then show ?case by (simp add: IH push_bit_push_bit del: push_bit_of_1)
qed

lemma crc_bits8_funpow: "crc_bit ^^ 8 = crc_bits8"
  by (simp add: fun_eq_iff crc_bits8_def numeral_eq_Suc)

lemma upt_256: "[0..<256] = 0 # Suc 0 # [2..<256]"
  by (simp add: upt_conv_Cons numeral_2_eq_2)

lemma crc16tab_eq: "crc16tab = map (\<lambda>i. crc_bits8 (push_bit 8 (of_nat i))) [0..<256]"
  by (simp add: crc16tab_def upt_256 upt_rec_numeral)
    (simp add: crc_bits8_def crc_bit_def)

lemma crc16tab_nth: "crc16tab ! unat (b :: byte) = (crc_bit ^^ 8) (push_bit 8 (ucast b))"
proof -
  have "unat b < 256" using unsigned_less [of b] by simp
  moreover have "(of_nat (unat b) :: u16) = ucast b" by simp
  ultimately show ?thesis by (simp add: crc16tab_eq crc_bits8_funpow)
qed

lemma crc16_step_ref: "crc16_step c b = crc_byte_ref c b"
proof -
  define lo hi where "lo = take_bit 8 c" and "hi = (ucast (drop_bit 8 c) :: byte)"
  have c: "c = lo XOR push_bit 8 (ucast hi)"
    unfolding lo_def hi_def by (rule bit_word_eqI) (auto simp: bit_simps)
  have lo: "\<forall>k. 16 - 8 \<le> k \<longrightarrow> \<not> bit lo k"
    by (simp add: lo_def bit_take_bit_iff)
  have idx: "(drop_bit 8 c XOR ucast b) AND 0x00FF = (ucast (hi XOR b) :: u16)"
    unfolding hi_def by (rule bit_word_eqI) (auto simp: mask_simps bit_simps dest: bit_imp_le_length)
  have push: "push_bit 8 c = push_bit 8 lo"
    unfolding lo_def by (rule bit_word_eqI) (auto simp: bit_simps)
  have "c XOR push_bit 8 (ucast b) = lo XOR push_bit 8 (ucast (hi XOR b))"
    by (subst c) (simp only: unsigned_xor_eq push_bit_xor_word xor.assoc)
  then have "crc_byte_ref c b = (crc_bit ^^ 8) (lo XOR push_bit 8 (ucast (hi XOR b)))"
    by (simp only: crc_byte_ref_def)
  also have "\<dots> = push_bit 8 lo XOR crc16tab ! unat (hi XOR b)"
    by (simp only: crc_bits_xor crc_bits_shift [OF lo] crc16tab_nth)
  finally show ?thesis by (simp add: crc16_step_def idx push unat_ucast_byte)
qed


lemma crc16_loop_ref: "crc16_loop c buf = foldl crc_byte_ref c buf"
  by (induction c buf rule: crc16_loop.induct) (simp_all add: crc16_step_ref)

text \<open>
  C39: the table driven CRC of every buffer is the CRC obtained by dividing the buffer,
  most significant bit first, by the polynomial x^16 + x^12 + x^5 + 1 (0x1021), so the table
  and the byte loop implement the polynomial that the comment in the file states.
\<close>

theorem crc16_polynomial: "crc16 buf = crc16_ref buf"
  by (simp add: crc16_def crc16_ref_def crc16_loop_ref)

lemma crc_byte_ref_inj: "crc_byte_ref c a = crc_byte_ref d a \<Longrightarrow> c = d"
  by (auto simp: crc_byte_ref_def xor_simps dest: crc_bits_inj)

lemma crc_fold_inj: "foldl crc_byte_ref c s = foldl crc_byte_ref d s \<Longrightarrow> c = d"
  by (induction s arbitrary: c d) (auto dest: crc_byte_ref_inj)

lemma crc_two_bytes:
  "crc_byte_ref (crc_byte_ref c a) b = (crc_bit ^^ 16) (c XOR (push_bit 8 (ucast a) XOR ucast b))"
proof -
  have "\<forall>k. 16 - 8 \<le> k \<longrightarrow> \<not> bit (ucast b :: u16) k"
    by (auto simp: bit_simps dest: bit_imp_le_length)
  from crc_bits_shift [OF this]
  have "crc_byte_ref (crc_byte_ref c a) b =
      (crc_bit ^^ 8) ((crc_bit ^^ 8) ((c XOR push_bit 8 (ucast a)) XOR ucast b))"
    by (simp only: crc_byte_ref_def crc_bits_xor)
  also have "\<dots> = (crc_bit ^^ (8 + 8)) ((c XOR push_bit 8 (ucast a)) XOR ucast b)"
    by (simp only: funpow_add o_apply)
  finally show ?thesis by (simp add: xor.assoc)
qed

lemma u16_bytes_inj:
  assumes "push_bit 8 (ucast a) XOR ucast b = push_bit 8 (ucast a') XOR (ucast b' :: u16)"
  shows "a = (a' :: byte) \<and> b = (b' :: byte)"
proof -
  have hi: "ucast (drop_bit 8 (push_bit 8 (ucast x) XOR ucast y :: u16)) = x"
    and lo: "ucast (push_bit 8 (ucast x) XOR ucast y :: u16) = y" for x y :: byte
    by (rule bit_word_eqI; auto simp: bit_simps dest: bit_imp_le_length)+
  from assms show ?thesis by (metis hi lo)
qed

text \<open>
  The CRC detects every corruption confined to two adjacent bytes, at any position
  of a message of any length: two messages that differ exactly there have different CRCs.
\<close>

theorem crc16_detects_16_bit_burst:
  assumes "length b = 2" and "length b' = 2" and "b \<noteq> b'"
  shows "crc16 (p @ b @ s) \<noteq> crc16 (p @ b' @ s)"
proof
  assume eq: "crc16 (p @ b @ s) = crc16 (p @ b' @ s)"
  from assms obtain u v u' v' where b: "b = [u, v]" "b' = [u', v']"
    by (auto simp: length_Suc_conv numeral_2_eq_2)
  from eq have "crc_byte_ref (crc_byte_ref c u) v = crc_byte_ref (crc_byte_ref c u') v'"
    if "c = foldl crc_byte_ref 0 p" for c
    using that by (auto simp: crc16_polynomial crc16_ref_def b dest: crc_fold_inj)
  then have "u = u' \<and> v = v'"
    by (auto simp: crc_two_bytes xor_simps dest!: crc_bits_inj u16_bytes_inj)
  with assms(3) b show False by simp
qed

theorem crc16_detects_16_bit_burst_witness:
  "crc16 ([1, 2] @ [3, 4] @ [5]) \<noteq> crc16 ([1, 2] @ [3, 5] @ [5])"
  using crc16_detects_16_bit_burst [of "[3, 4]" "[3, 5]" "[1, 2]" "[5]"] by simp

text \<open>
  a receiver can verify a message by running the CRC over the message followed by
  its CRC, most significant byte first: the result is 0.
\<close>

theorem crc16_residue: "crc16 (m @ [ucast (drop_bit 8 (crc16 m)), ucast (crc16 m)]) = 0"
proof -
  define c where "c = crc16 m"
  have split: "push_bit 8 (ucast (ucast (drop_bit 8 c) :: byte)) XOR ucast (ucast c :: byte) = c"
    by (rule bit_word_eqI) (auto simp: bit_simps)
  have "crc16 (m @ [ucast (drop_bit 8 c), ucast c]) = (crc_bit ^^ 16) (c XOR c)"
    by (simp add: crc16_polynomial crc16_ref_def crc_two_bytes split)
      (simp add: c_def crc16_polynomial crc16_ref_def)
  also have "\<dots> = 0" by (simp add: numeral_eq_Suc crc_bit_def)
  finally show ?thesis by (simp add: c_def)
qed

text \<open>
  the check value the file's comment gives, 31C3 for "123456789".
\<close>

theorem crc16_check_value: "crc16 [0x31, 0x32, 0x33, 0x34, 0x35, 0x36, 0x37, 0x38, 0x39] = 0x31C3"
  by code_simp

end
