(* ===== verification/Rc4.thy ===== *)
theory Rc4
  imports Prelude
begin

text \<open>
  The RC4 stream cipher of \<open>rc4/src/rc4.c\<close>. The S-box is an array of 256 bytes; the key is a
  C string (a byte list that holds its terminating 0), of which only the bytes before the
  terminator count. A key whose first byte is 0 makes \<open>re_T\<close> divide by zero, which is
  the result \<open>None\<close>.
\<close>

subsection \<open>The code\<close>

definition strlen :: "byte list \<Rightarrow> nat" where
  "strlen s = length (takeWhile (\<lambda>b. b \<noteq> 0) s)"

definition swap :: "'a list \<Rightarrow> nat \<Rightarrow> nat \<Rightarrow> 'a list" where
  "swap S i j = S[i := S ! j, j := S ! i]"

definition re_S :: "byte list" where
  "re_S = map of_nat [0..<256]"

definition re_T :: "byte list \<Rightarrow> byte list option" where
  "re_T key = (let keylen = strlen key
     in if keylen = 0 then None else Some (map (\<lambda>i. key ! (i mod keylen)) [0..<256]))"

function re_Sbox_loop :: "byte list \<Rightarrow> byte list \<Rightarrow> nat \<Rightarrow> nat \<Rightarrow> byte list" where
  "re_Sbox_loop S T i j =
     (if i < 256
      then let j' = (j + unat (S ! i) + unat (T ! i)) mod 256
           in re_Sbox_loop (swap S i j') T (Suc i) j'
      else S)"
  by pat_completeness auto
termination
  by (relation "measure (\<lambda>(S, T, i, j). 256 - i)") auto

declare re_Sbox_loop.simps [simp del]

definition re_Sbox :: "byte list \<Rightarrow> byte list \<Rightarrow> byte list" where
  "re_Sbox S T = re_Sbox_loop S T 0 0"

text \<open>
  The body of the \<open>while\<close> loop of \<open>RC4\<close>, one byte of the text per call: the new S-box and
  indices, and the byte XORed with the S-box entry.
\<close>

fun rc4_loop :: "byte list \<Rightarrow> nat \<Rightarrow> nat \<Rightarrow> byte list \<Rightarrow> byte list" where
  "rc4_loop S i l [] = []"
| "rc4_loop S i l (t # ts) =
     (let i' = (i + 1) mod 256;
          l' = (l + unat (S ! i')) mod 256;
          S' = swap S i' l'
      in (t XOR S' ! ((unat (S' ! i') + unat (S' ! l')) mod 256)) # rc4_loop S' i' l' ts)"

definition RC4 :: "byte list \<Rightarrow> byte list \<Rightarrow> byte list option" where
  "RC4 ts key = (case re_T key of None \<Rightarrow> None
     | Some T \<Rightarrow> Some (rc4_loop (re_Sbox re_S T) 0 0 ts))"

subsection \<open>The S-box is a permutation\<close>

definition sbox_ok :: "byte list \<Rightarrow> bool" where
  "sbox_ok S = (length S = 256 \<and> distinct S)"

lemma swap_sbox_ok: "sbox_ok S \<Longrightarrow> i < 256 \<Longrightarrow> j < 256 \<Longrightarrow> sbox_ok (swap S i j)"
  by (simp add: sbox_ok_def swap_def distinct_swap)

lemma of_nat_eq_iff_byte: "m < 256 \<Longrightarrow> n < 256 \<Longrightarrow> (of_nat m :: byte) = of_nat n \<longleftrightarrow> m = n"
  by (auto dest!: arg_cong [where f = unat] simp: unsigned_of_nat take_bit_nat_eq_self_iff take_bit_eq_mod)

lemma re_S_ok: "sbox_ok re_S"
  by (auto simp: sbox_ok_def re_S_def distinct_map inj_on_def of_nat_eq_iff_byte)

lemma re_Sbox_loop_ok: "sbox_ok S \<Longrightarrow> sbox_ok (re_Sbox_loop S T i j)"
proof (induction S T i j rule: re_Sbox_loop.induct)
  case (1 S T i j)
  then show ?case
    by (subst re_Sbox_loop.simps) (simp add: Let_def swap_sbox_ok)
qed

text \<open>
  The key schedule leaves the S-box a permutation of the 256 byte values, whatever the
  key table, so every byte value is a possible key stream byte and every lookup is in range.
\<close>

theorem re_Sbox_permutation: "set (re_Sbox re_S T) = UNIV \<and> length (re_Sbox re_S T) = 256"
proof -
  have ok: "sbox_ok (re_Sbox re_S T)"
    by (simp add: re_Sbox_def re_Sbox_loop_ok re_S_ok)
  then have "card (set (re_Sbox re_S T)) = 256"
    by (simp add: sbox_ok_def distinct_card)
  moreover have "card (UNIV :: byte set) = 256"
    by (simp add: card_word)
  ultimately have "set (re_Sbox re_S T) = UNIV"
    by (intro card_subset_eq) simp_all
  with ok show ?thesis by (simp add: sbox_ok_def)
qed

subsection \<open>The published cipher\<close>

text \<open>
  RC4 as it is published, written without the code's arrays and bytes: the permutation is a function
  on the naturals, \<open>ksa\<close> is the key schedule for a key of any length, \<open>prga S n\<close> is the permutation
  and the index \<open>j\<close> after \<open>n\<close> bytes of output (the index \<open>i\<close> is then \<open>n mod 256\<close>), and
  \<open>rc4_byte key n\<close> is the byte of the key stream at position \<open>n\<close>.
\<close>

definition transpose_at :: "(nat \<Rightarrow> nat) \<Rightarrow> nat \<Rightarrow> nat \<Rightarrow> nat \<Rightarrow> nat" where
  "transpose_at f i j = (\<lambda>x. if x = i then f j else if x = j then f i else f x)"

primrec ksa :: "nat list \<Rightarrow> nat \<Rightarrow> (nat \<Rightarrow> nat) \<times> nat" where
  "ksa key 0 = ((\<lambda>x. x), 0)"
| "ksa key (Suc i) =
     (let (f, j) = ksa key i; j' = (j + f i + key ! (i mod length key)) mod 256
      in (transpose_at f i j', j'))"

primrec prga :: "(nat \<Rightarrow> nat) \<Rightarrow> nat \<Rightarrow> (nat \<Rightarrow> nat) \<times> nat" where
  "prga f 0 = (f, 0)"
| "prga f (Suc n) =
     (let (g, j) = prga f n; i = Suc n mod 256; j' = (j + g i) mod 256
      in (transpose_at g i j', j'))"

definition rc4_byte :: "nat list \<Rightarrow> nat \<Rightarrow> nat" where
  "rc4_byte key n =
     (let (g, j) = prga (fst (ksa key 256)) (Suc n) in g ((g (Suc n mod 256) + g j) mod 256))"

text \<open>The array of the code holds the permutation of the specification.\<close>

definition holds :: "byte list \<Rightarrow> (nat \<Rightarrow> nat) \<Rightarrow> bool" where
  "holds S f = (length S = 256 \<and> (\<forall>i<256. unat (S ! i) = f i))"

lemma holds_nth: "holds S f \<Longrightarrow> i < 256 \<Longrightarrow> unat (S ! i) = f i"
  by (simp add: holds_def)

lemma holds_swap: "holds S f \<Longrightarrow> i < 256 \<Longrightarrow> j < 256 \<Longrightarrow> holds (swap S i j) (transpose_at f i j)"
  by (auto simp: holds_def swap_def transpose_at_def nth_list_update)

lemma holds_re_S: "holds re_S (\<lambda>x. x)"
  by (simp add: holds_def re_S_def unsigned_of_nat take_bit_eq_mod)

lemma re_Sbox_loop_ksa:
  "\<lbrakk>\<forall>i<256. unat (T ! i) = key ! (i mod length key); i \<le> 256; holds S (fst (ksa key i)); j = snd (ksa key i)\<rbrakk>
    \<Longrightarrow> holds (re_Sbox_loop S T i j) (fst (ksa key 256))"
proof (induction S T i j rule: re_Sbox_loop.induct)
  case (1 S T i j)
  show ?case
  proof (cases "i < 256")
    case True
    obtain f where f: "ksa key i = (f, j)" using "1.prems"(4) by (metis prod.collapse)
    then have hold: "holds S f" using "1.prems"(3) by simp
    have T: "unat (T ! i) = key ! (i mod length key)" using "1.prems"(1) True by blast
    define j' where "j' = (j + unat (S ! i) + unat (T ! i)) mod 256"
    have step: "ksa key (Suc i) = (transpose_at f i j', j')"
      by (simp add: f j'_def T holds_nth [OF hold True] Let_def)
    have "holds (swap S i j') (transpose_at f i j')"
      using hold True by (rule holds_swap) (simp add: j'_def)
    then have "holds (re_Sbox_loop (swap S i j') T (Suc i) j') (fst (ksa key 256))"
      using True "1.prems"(1) by (intro "1.IH" [OF True j'_def]) (simp_all only: step fst_conv snd_conv Suc_le_eq)
    then show ?thesis
      using True by (subst re_Sbox_loop.simps) (simp add: Let_def j'_def)
  next
    case False
    then show ?thesis using "1.prems" by (subst re_Sbox_loop.simps) simp
  qed
qed

lemma rc4_loop_prga:
  "\<lbrakk>holds S (fst (prga f n)); l = snd (prga f n); i = n mod 256\<rbrakk>
    \<Longrightarrow> rc4_loop S i l ts = map (\<lambda>k. ts ! k XOR of_nat (let (g, j) = prga f (Suc (n + k))
          in g ((g (Suc (n + k) mod 256) + g j) mod 256))) [0..<length ts]"
proof (induction S i l ts arbitrary: n rule: rc4_loop.induct)
  case (2 S i l t ts)
  obtain g where g: "prga f n = (g, l)" using "2.prems"(2) by (cases "prga f n") simp
  then have hold: "holds S g" using "2.prems"(1) by simp
  define i' where "i' = Suc n mod 256"
  define l' where "l' = (l + g i') mod 256"
  define S' where "S' = swap S i' l'"
  have range: "i' < 256" "l' < 256" by (simp_all add: i'_def l'_def)
  have code_i: "(i + 1) mod 256 = i'" using "2.prems"(3) by (simp add: i'_def mod_Suc_eq)
  have code_l: "(l + unat (S ! i')) mod 256 = l'" by (simp add: l'_def holds_nth [OF hold] range)
  have step: "prga f (Suc n) = (transpose_at g i' l', l')" by (simp add: g i'_def l'_def Let_def)
  have hold': "holds S' (transpose_at g i' l')" unfolding S'_def using hold range by (rule holds_swap)
  have IH: "rc4_loop S' i' l' ts = map (\<lambda>k. ts ! k XOR of_nat (let (g, j) = prga f (Suc (Suc n + k))
          in g ((g (Suc (Suc n + k) mod 256) + g j) mod 256))) [0..<length ts]"
    by (rule "2.IH" [OF code_i [symmetric] code_l [symmetric] S'_def])
      (simp_all add: step hold' i'_def [symmetric] del: prga.simps(2))
  have byte: "S' ! ((unat (S' ! i') + unat (S' ! l')) mod 256) =
      of_nat (transpose_at g i' l' ((transpose_at g i' l' i' + transpose_at g i' l' l') mod 256))"
    using range by (simp flip: holds_nth [OF hold'])
  have "rc4_loop S i l (t # ts) =
      (t XOR of_nat (let (g, j) = prga f (Suc n) in g ((g (Suc n mod 256) + g j) mod 256))) # rc4_loop S' i' l' ts"
    using range by (simp only: rc4_loop.simps Let_def code_i code_l S'_def [symmetric])
      (simp add: step byte i'_def [symmetric] del: prga.simps(2))
  then show ?case
    unfolding IH by (simp add: upt_conv_Cons map_Suc_upt [symmetric] o_def del: upt_Suc prga.simps rc4_loop.simps map_Suc_upt)
qed simp

lemma length_rc4_loop [len_simps]: "length (rc4_loop S i l ts) = length ts"
  by (induction S i l ts rule: rc4_loop.induct) (simp_all add: Let_def)

lemma rc4_loop_twice: "rc4_loop S i l (rc4_loop S i l ts) = ts"
  by (induction S i l ts rule: rc4_loop.induct) (simp_all add: Let_def xor_simps)

lemma re_Sbox_ksa:
  assumes "re_T key = Some T"
  shows "holds (re_Sbox re_S T) (fst (ksa (map unat (takeWhile (\<lambda>b. b \<noteq> 0) key)) 256))"
proof -
  let ?k = "takeWhile (\<lambda>b. b \<noteq> 0) key"
  have len: "length ?k \<noteq> 0" and T: "T = map (\<lambda>i. key ! (i mod length ?k)) [0..<256]"
    using assms by (auto simp: re_T_def strlen_def Let_def split: if_splits)
  have "unat (T ! i) = map unat ?k ! (i mod length (map unat ?k))" if "i < 256" for i
  proof -
    have "i mod length ?k < length ?k" using len by simp
    then show ?thesis using that by (simp add: T takeWhile_nth)
  qed
  then show ?thesis
    unfolding re_Sbox_def by (intro re_Sbox_loop_ksa) (simp_all add: holds_re_S)
qed

text \<open>
  C36: the code is RC4. For every text and every key that is not the empty string, \<open>RC4\<close> xors the
  byte at position \<open>n\<close> of the text with byte \<open>n\<close> of the published key stream of the key's characters,
  and a second call with the same key gives the text back; with an empty key there is no result, for
  the key schedule divides by the key's length.
\<close>

theorem RC4_is_published:
  "RC4 ts key =
     (if strlen key = 0 then None
      else Some (map (\<lambda>n. ts ! n XOR of_nat (rc4_byte (map unat (takeWhile (\<lambda>b. b \<noteq> 0) key)) n)) [0..<length ts])) \<and>
   Option.bind (RC4 ts key) (\<lambda>cipher. RC4 cipher key) = (if strlen key = 0 then None else Some ts)"
proof (cases "re_T key")
  case None
  then have "strlen key = 0" by (simp add: re_T_def Let_def split: if_splits)
  with None show ?thesis by (simp add: RC4_def)
next
  case (Some T)
  then have key: "strlen key \<noteq> 0" by (simp add: re_T_def Let_def split: if_splits)
  have code: "RC4 x key = Some (rc4_loop (re_Sbox re_S T) 0 0 x)" for x by (simp add: RC4_def Some)
  have stream: "rc4_loop (re_Sbox re_S T) 0 0 ts =
      map (\<lambda>n. ts ! n XOR of_nat (rc4_byte (map unat (takeWhile (\<lambda>b. b \<noteq> 0) key)) n)) [0..<length ts]"
    unfolding rc4_byte_def
    by (rule rc4_loop_prga [where n = 0, unfolded add_0]) (simp_all add: re_Sbox_ksa [OF Some])
  show ?thesis by (simp add: key code stream [symmetric] rc4_loop_twice)
qed

subsection \<open>The key is a C string\<close>

text \<open>
  The bytes of the key after its terminator, and everything behind it, do not matter: two
  keys that are the same C string give the same cipher. A key of length 0 has no result.
\<close>

theorem RC4_key_is_c_string:
  "RC4 ts (takeWhile (\<lambda>b. b \<noteq> 0) key @ 0 # junk) = RC4 ts key
    \<and> (RC4 ts key = None) = (strlen key = 0)"
proof -
  let ?k = "takeWhile (\<lambda>b. b \<noteq> 0) key"
  have len: "strlen (?k @ 0 # junk) = strlen key"
  proof -
    have "takeWhile (\<lambda>b. b \<noteq> 0) (?k @ 0 # junk) = ?k"
      by (subst takeWhile_append2) (auto dest: set_takeWhileD)
    then show ?thesis by (simp add: strlen_def)
  qed
  have "(?k @ 0 # junk) ! (i mod strlen key) = key ! (i mod strlen key)" if "strlen key \<noteq> 0" for i
  proof -
    have "i mod strlen key < length ?k" using that by (simp add: strlen_def [symmetric])
    then show ?thesis by (simp add: nth_append takeWhile_nth)
  qed
  then show ?thesis
    by (simp add: RC4_def re_T_def len Let_def)
qed

end
