(* ===== verification/Md5.thy ===== *)
theory Md5
  imports Stream_Hash
begin

text \<open>
  The MD5 module \<open>md5/src/md5c.c\<close>: the RFC 1321 reference code and the modified variant
  (suffix \<open>_Vz\<close>) that answers the authentication challenges. The file defines
  \<open>UINT4\<close> as \<open>unsigned long\<close>, which has 32 bits on a 32 bit build and 64 bits on a
  64 bit Linux build, so every definition here is polymorphic in the width \<open>'u\<close> of
  \<open>UINT4\<close>. The transform is a table of its 64 macro calls, one row per source line, with the
  roles of \<open>a, b, c, d\<close> rotating as they do in the source. \<open>inputLen\<close> is an \<open>unsigned int\<close>
  whose loop index wraps around; a read past the chunk is the result \<open>None\<close>.
\<close>

subsection \<open>The context\<close>

record 'w MD5_CTX =
  md5_state :: "'w list"
  md5_count :: "'w list"
  md5_buffer :: "byte list"

subsection \<open>The transform\<close>

definition S11 :: nat where "S11 = 7"
definition S12 :: nat where "S12 = 12"
definition S13 :: nat where "S13 = 17"
definition S14 :: nat where "S14 = 22"
definition S21 :: nat where "S21 = 5"
definition S22 :: nat where "S22 = 9"
definition S23 :: nat where "S23 = 14"
definition S24 :: nat where "S24 = 20"
definition S31 :: nat where "S31 = 4"
definition S32 :: nat where "S32 = 11"
definition S33 :: nat where "S33 = 16"
definition S34 :: nat where "S34 = 23"
definition S41 :: nat where "S41 = 6"
definition S42 :: nat where "S42 = 10"
definition S43 :: nat where "S43 = 15"
definition S44 :: nat where "S44 = 21"

definition S11_Vz :: nat where "S11_Vz = 7"
definition S12_Vz :: nat where "S12_Vz = 12"
definition S13_Vz :: nat where "S13_Vz = 17"
definition S14_Vz :: nat where "S14_Vz = 22"
definition S21_Vz :: nat where "S21_Vz = 5"
definition S22_Vz :: nat where "S22_Vz = 9"
definition S23_Vz :: nat where "S23_Vz = 14"
definition S24_Vz :: nat where "S24_Vz = 20"
definition S31_Vz :: nat where "S31_Vz = 5"
definition S32_Vz :: nat where "S32_Vz = 11"
definition S33_Vz :: nat where "S33_Vz = 16"
definition S34_Vz :: nat where "S34_Vz = 23"
definition S41_Vz :: nat where "S41_Vz = 6"
definition S42_Vz :: nat where "S42_Vz = 10"
definition S43_Vz :: nat where "S43_Vz = 15"
definition S44_Vz :: nat where "S44_Vz = 19"

definition md5_F :: "'u::len word \<Rightarrow> 'u word \<Rightarrow> 'u word \<Rightarrow> 'u word" where
  "md5_F x y z = (x AND y) OR (NOT x AND z)"

definition md5_G :: "'u::len word \<Rightarrow> 'u word \<Rightarrow> 'u word \<Rightarrow> 'u word" where
  "md5_G x y z = (x AND z) OR (y AND NOT z)"

definition md5_H :: "'u::len word \<Rightarrow> 'u word \<Rightarrow> 'u word \<Rightarrow> 'u word" where
  "md5_H x y z = x XOR y XOR z"

definition md5_I :: "'u::len word \<Rightarrow> 'u word \<Rightarrow> 'u word \<Rightarrow> 'u word" where
  "md5_I x y z = y XOR (x OR NOT z)"

definition ROTATE_LEFT :: "'u::len word \<Rightarrow> nat \<Rightarrow> 'u word" where
  "ROTATE_LEFT x n = push_bit n x OR drop_bit (32 - n) x"

text \<open>The macros \<open>FF\<close> to \<open>II\<close> and \<open>FF_Vz\<close> to \<open>II_Vz\<close>: the new value of their first argument.\<close>

definition FF :: "'u::len word \<Rightarrow> 'u word \<Rightarrow> 'u word \<Rightarrow> 'u word \<Rightarrow> 'u word \<Rightarrow> nat \<Rightarrow> 'u word \<Rightarrow> 'u word" where
  "FF a b c d x s ac = ROTATE_LEFT (a + (md5_F b c d + x + ac)) s + b"

definition GG :: "'u::len word \<Rightarrow> 'u word \<Rightarrow> 'u word \<Rightarrow> 'u word \<Rightarrow> 'u word \<Rightarrow> nat \<Rightarrow> 'u word \<Rightarrow> 'u word" where
  "GG a b c d x s ac = ROTATE_LEFT (a + (md5_G b c d + x + ac)) s + b"

definition HH :: "'u::len word \<Rightarrow> 'u word \<Rightarrow> 'u word \<Rightarrow> 'u word \<Rightarrow> 'u word \<Rightarrow> nat \<Rightarrow> 'u word \<Rightarrow> 'u word" where
  "HH a b c d x s ac = ROTATE_LEFT (a + (md5_H b c d + x + ac)) s + b"

definition II :: "'u::len word \<Rightarrow> 'u word \<Rightarrow> 'u word \<Rightarrow> 'u word \<Rightarrow> 'u word \<Rightarrow> nat \<Rightarrow> 'u word \<Rightarrow> 'u word" where
  "II a b c d x s ac = ROTATE_LEFT (a + (md5_I b c d + x + ac)) s + b"

definition FF_Vz :: "'u::len word \<Rightarrow> 'u word \<Rightarrow> 'u word \<Rightarrow> 'u word \<Rightarrow> 'u word \<Rightarrow> nat \<Rightarrow> 'u word \<Rightarrow> 'u word" where
  "FF_Vz a b c d x s ac = ROTATE_LEFT (a + (md5_F b c d + x + ac)) s + (b + 2)"

definition GG_Vz :: "'u::len word \<Rightarrow> 'u word \<Rightarrow> 'u word \<Rightarrow> 'u word \<Rightarrow> 'u word \<Rightarrow> nat \<Rightarrow> 'u word \<Rightarrow> 'u word" where
  "GG_Vz a b c d x s ac = ROTATE_LEFT (a + (md5_G b c d + x + ac)) s + (b - 2)"

definition HH_Vz :: "'u::len word \<Rightarrow> 'u word \<Rightarrow> 'u word \<Rightarrow> 'u word \<Rightarrow> 'u word \<Rightarrow> nat \<Rightarrow> 'u word \<Rightarrow> 'u word" where
  "HH_Vz a b c d x s ac = ROTATE_LEFT (a + (md5_H b c d + x + ac)) s + (b - 1)"

definition II_Vz :: "'u::len word \<Rightarrow> 'u word \<Rightarrow> 'u word \<Rightarrow> 'u word \<Rightarrow> 'u word \<Rightarrow> nat \<Rightarrow> 'u word \<Rightarrow> 'u word" where
  "II_Vz a b c d x s ac = ROTATE_LEFT (a + (md5_I b c d + x + ac)) s + (b + 1)"

text \<open>
  Sixteen macro calls in a row: a row \<open>(k, s, ac)\<close> is the call with \<open>x[k]\<close>, and the next call
  has \<open>d\<close> in the place of \<open>a\<close>, \<open>a\<close> in the place of \<open>b\<close> and so on.
\<close>

fun md5_round ::
  "('u::len word \<Rightarrow> 'u word \<Rightarrow> 'u word \<Rightarrow> 'u word \<Rightarrow> 'u word \<Rightarrow> nat \<Rightarrow> 'u word \<Rightarrow> 'u word) \<Rightarrow>
   'u word list \<Rightarrow> (nat \<times> nat \<times> 'u word) list \<Rightarrow> 'u word \<Rightarrow> 'u word \<Rightarrow> 'u word \<Rightarrow> 'u word \<Rightarrow>
   'u word \<times> 'u word \<times> 'u word \<times> 'u word" where
  "md5_round step x [] a b c d = (a, b, c, d)"
| "md5_round step x ((k, s, ac) # rows) a b c d =
     md5_round step x rows d (step a b c d (x ! k) s ac) b c"

definition md5_round1 :: "(nat \<times> nat \<times> 'u::len word) list" where
  "md5_round1 =
    [(0, S11, 0xd76aa478), (1, S12, 0xe8c7b756),
     (2, S13, 0x242070db), (3, S14, 0xc1bdceee),
     (4, S11, 0xf57c0faf), (5, S12, 0x4787c62a),
     (6, S13, 0xa8304613), (7, S14, 0xfd469501),
     (8, S11, 0x698098d8), (9, S12, 0x8b44f7af),
     (10, S13, 0xffff5bb1), (11, S14, 0x895cd7be),
     (12, S11, 0x6b901122), (13, S12, 0xfd987193),
     (14, S13, 0xa679438e), (15, S14, 0x49b40821)]"

definition md5_round2 :: "(nat \<times> nat \<times> 'u::len word) list" where
  "md5_round2 =
    [(1, S21, 0xf61e2562), (6, S22, 0xc040b340),
     (11, S23, 0x265e5a51), (0, S24, 0xe9b6c7aa),
     (5, S21, 0xd62f105d), (10, S22, 0x2441453),
     (15, S23, 0xd8a1e681), (4, S24, 0xe7d3fbc8),
     (9, S21, 0x21e1cde6), (14, S22, 0xc33707d6),
     (3, S23, 0xf4d50d87), (8, S24, 0x455a14ed),
     (13, S21, 0xa9e3e905), (2, S22, 0xfcefa3f8),
     (7, S23, 0x676f02d9), (12, S24, 0x8d2a4c8a)]"

definition md5_round3 :: "(nat \<times> nat \<times> 'u::len word) list" where
  "md5_round3 =
    [(5, S31, 0xfffa3942), (8, S32, 0x8771f681),
     (11, S33, 0x6d9d6122), (14, S34, 0xfde5380c),
     (1, S31, 0xa4beea44), (4, S32, 0x4bdecfa9),
     (7, S33, 0xf6bb4b60), (10, S34, 0xbebfbc70),
     (13, S31, 0x289b7ec6), (0, S32, 0xeaa127fa),
     (3, S33, 0xd4ef3085), (6, S34, 0x4881d05),
     (9, S31, 0xd9d4d039), (12, S32, 0xe6db99e5),
     (15, S33, 0x1fa27cf8), (2, S34, 0xc4ac5665)]"

definition md5_round4 :: "(nat \<times> nat \<times> 'u::len word) list" where
  "md5_round4 =
    [(0, S41, 0xf4292244), (7, S42, 0x432aff97),
     (14, S43, 0xab9423a7), (5, S44, 0xfc93a039),
     (12, S41, 0x655b59c3), (3, S42, 0x8f0ccc92),
     (10, S43, 0xffeff47d), (1, S44, 0x85845dd1),
     (8, S41, 0x6fa87e4f), (15, S42, 0xfe2ce6e0),
     (6, S43, 0xa3014314), (13, S44, 0x4e0811a1),
     (4, S41, 0xf7537e82), (11, S42, 0xbd3af235),
     (2, S43, 0x2ad7d2bb), (9, S44, 0xeb86d391)]"

definition md5_round1_Vz :: "(nat \<times> nat \<times> 'u::len word) list" where
  "md5_round1_Vz =
    [(0, S11_Vz, 0xd76aa478), (1, S12_Vz, 0xe8c7b756),
     (2, S13_Vz, 0x242070db), (3, S14_Vz, 0xc1bdceee),
     (4, S11_Vz, 0xf57c0faf), (5, S12_Vz, 0x4787c62a),
     (6, S13_Vz, 0xa8304613), (7, S14_Vz, 0xfd469501),
     (8, S11_Vz, 0x698098d8), (9, S12_Vz, 0x8b44f7af),
     (10, S13_Vz, 0xffff5bb1), (11, S14_Vz, 0x895cd7be),
     (12, S11_Vz, 0x6b901122), (13, S12_Vz, 0xfd987163),
     (14, S13_Vz, 0xa679438e), (15, S14_Vz, 0x49b40821)]"

definition md5_round2_Vz :: "(nat \<times> nat \<times> 'u::len word) list" where
  "md5_round2_Vz =
    [(1, S21_Vz, 0xf61e2562), (6, S22_Vz, 0xc040b340),
     (11, S23_Vz, 0x265e5a51), (0, S24_Vz, 0xe9b6c7aa),
     (5, S21_Vz, 0xd62f105d), (10, S22_Vz, 0x2442453),
     (15, S23_Vz, 0xd8a1e681), (4, S24_Vz, 0xe7d3fbc8),
     (9, S21_Vz, 0x21e1cde6), (14, S22_Vz, 0xc33707d6),
     (3, S23_Vz, 0xf4d50d87), (8, S24_Vz, 0x455a14ed),
     (13, S21_Vz, 0xa9e3e905), (2, S22_Vz, 0xfcefa3f8),
     (7, S23_Vz, 0x676f02d9), (12, S24_Vz, 0x8d2a4c8a)]"

definition md5_round3_Vz :: "byte list \<Rightarrow> (nat \<times> nat \<times> 'u::len word) list" where
  "md5_round3_Vz block =
    [(5, S31_Vz, 0xfffa3492), (8, S32_Vz, 0x8771f681),
     (11, S33_Vz, 0x6d9d6122), (14, S34_Vz, 0xfde5380c),
     (1, S31_Vz, 0xa4beea44), (4, S32_Vz, 0x4bdecfa9),
     (7, S33_Vz, 0xf6bb4b60), (10, S34_Vz, 0xbebfbc70),
     (13, S31_Vz, 0x289b7ec6), (0, S32_Vz, 0xeaa127fa),
     (3, S33_Vz, 0xd4ef3085), (6, S34_Vz, 0x4881d05 + ucast (block ! 9)),
     (9, S31_Vz, 0xd9d4d039), (12, S32_Vz, 0xe6db99e5),
     (15, S33_Vz, 0x1fa27cf8), (2, S34_Vz, 0xc4ac5665)]"

definition md5_round4_Vz :: "(nat \<times> nat \<times> 'u::len word) list" where
  "md5_round4_Vz =
    [(0, S41_Vz, 0xf4292244), (7, S42_Vz, 0x432aff97),
     (14, S43_Vz, 0xab9423a7), (5, S44_Vz, 0xfc93a039),
     (12, S41_Vz, 0x655659c3), (3, S42_Vz, 0x8f0ccc92),
     (10, S43_Vz, 0xffeff47d), (1, S44_Vz, 0x85845dd1),
     (8, S41_Vz, 0x6fa87e4f), (15, S42_Vz, 0xfe2ce6e0),
     (6, S43_Vz, 0xa3014314), (13, S44_Vz, 0x4e0811a1),
     (4, S41_Vz, 0xf7537e82), (11, S42_Vz, 0xbd3af335),
     (2, S43_Vz, 0x2ad7d2bb), (9, S44_Vz, 0xeb866391)]"

fun Decode :: "byte list \<Rightarrow> 'u::len word list" where
  "Decode (b0 # b1 # b2 # b3 # input) =
     (ucast b0 OR push_bit 8 (ucast b1) OR push_bit 16 (ucast b2) OR push_bit 24 (ucast b3))
       # Decode input"
| "Decode _ = []"

fun Encode :: "'u::len word list \<Rightarrow> byte list" where
  "Encode [] = []"
| "Encode (w # input) =
     ucast (w AND 0xff) # ucast (drop_bit 8 w AND 0xff) # ucast (drop_bit 16 w AND 0xff)
       # ucast (drop_bit 24 w AND 0xff) # Encode input"

definition MD5Transform :: "'u::len word list \<Rightarrow> byte list \<Rightarrow> 'u word list" where
  "MD5Transform state block =
     (let x = Decode block;
          (a, b, c, d) = md5_round FF x md5_round1 (state ! 0) (state ! 1) (state ! 2) (state ! 3);
          (a, b, c, d) = md5_round GG x md5_round2 a b c d;
          (a, b, c, d) = md5_round HH x md5_round3 a b c d;
          (a, b, c, d) = md5_round II x md5_round4 a b c d
      in [state ! 0 + a, state ! 1 + b, state ! 2 + c, state ! 3 + d])"

definition MD5Transform_Vz :: "'u::len word list \<Rightarrow> byte list \<Rightarrow> 'u word list" where
  "MD5Transform_Vz state block =
     (let x = Decode block;
          (a, b, c, d) = md5_round FF_Vz x md5_round1_Vz (state ! 0) (state ! 1) (state ! 2) (state ! 3);
          (a, b, c, d) = md5_round GG_Vz x md5_round2_Vz a b c d;
          (a, b, c, d) = md5_round HH_Vz x (md5_round3_Vz block) a b c d;
          (a, b, c, d) = md5_round II_Vz x md5_round4_Vz a b c d
      in [state ! 0 + a, state ! 1 + b, state ! 2 + c, state ! 3 + d])"

subsection \<open>Init, update, final\<close>

definition MD5Init :: "'u::len word MD5_CTX \<Rightarrow> 'u word MD5_CTX" where
  "MD5Init context = context\<lparr>md5_count := [0, 0],
     md5_state := [0x67452301, 0xefcdab89, 0x98badcfe, 0x10325476]\<rparr>"

definition MD5Init_Vz :: "'u::len word MD5_CTX \<Rightarrow> 'u word MD5_CTX" where
  "MD5Init_Vz context = context\<lparr>md5_count := [0, 0],
     md5_state := [0x50137246, 0x8acf9dbe, 0xc9efaced, 0x25647013]\<rparr>"

text \<open>
  The loop \<open>for (i = partLen; i + 63 < inputLen; i += 64)\<close> on \<open>unsigned int\<close>: the state and the
  final \<open>i\<close>, or \<open>None\<close> when the wrapped test lets a block past the end of the input through.
\<close>

function md5_blocks :: "('h \<Rightarrow> byte list \<Rightarrow> 'h) \<Rightarrow> 'h \<Rightarrow> byte list \<Rightarrow> u32 \<Rightarrow> u32 \<Rightarrow> ('h \<times> u32) option" where
  "md5_blocks transform state input inputLen i =
     (if i + 63 < inputLen
      then if unat i + 64 \<le> unat inputLen
           then md5_blocks transform (transform state (take 64 (drop (unat i) input)))
                  input inputLen (i + 64)
           else None
      else Some (state, i))"
  by pat_completeness auto
termination
proof (relation "measure (\<lambda>(transform, state, input, inputLen, i). unat inputLen - unat i)", goal_cases)
  case 1
  show ?case by simp
next
  case (2 transform state input inputLen i)
  have "unat inputLen < 2 ^ 32" using unsigned_less [of inputLen] by simp
  with 2 have "unat (i + 64) = unat i + 64"
    by (simp add: unat_word_ariths)
  with 2 show ?case by simp
qed

declare md5_blocks.simps [simp del]

definition md5_index :: "'u::len word MD5_CTX \<Rightarrow> nat" where
  "md5_index context = unat (drop_bit 3 (md5_count context ! 0) AND 0x3F)"

definition md5_add_count :: "'u::len word list \<Rightarrow> u32 \<Rightarrow> 'u word list" where
  "md5_add_count cnt inputLen =
     (let addend = push_bit 3 (ucast inputLen);
          c0 = cnt ! 0 + addend;
          c1 = (if c0 < addend then cnt ! 1 + 1 else cnt ! 1)
      in [c0, c1 + drop_bit 29 (ucast inputLen)])"

definition md5_update ::
  "('u::len word list \<Rightarrow> byte list \<Rightarrow> 'u word list) \<Rightarrow> 'u word MD5_CTX \<Rightarrow> byte list \<Rightarrow> 'u word MD5_CTX option" where
  "md5_update transform context input =
     (let inputLen = of_nat (length input) :: u32;
          index = md5_index context;
          context = context\<lparr>md5_count := md5_add_count (md5_count context) inputLen\<rparr>;
          partLen = 64 - index
      in if of_nat partLen \<le> inputLen
         then let context = context\<lparr>md5_buffer := memcpy (md5_buffer context) index (take partLen input)\<rparr>;
                  context = context\<lparr>md5_state := transform (md5_state context) (md5_buffer context)\<rparr>
              in case md5_blocks transform (md5_state context) input inputLen (of_nat partLen) of
                   None \<Rightarrow> None
                 | Some (state, i) \<Rightarrow> Some (context\<lparr>md5_state := state,
                     md5_buffer := memcpy (md5_buffer context) 0 (drop (unat i) input)\<rparr>)
         else Some (context\<lparr>md5_buffer := memcpy (md5_buffer context) index input\<rparr>))"

definition MD5Update :: "'u::len word MD5_CTX \<Rightarrow> byte list \<Rightarrow> 'u word MD5_CTX option" where
  "MD5Update = md5_update MD5Transform"

definition MD5Update_Vz :: "'u::len word MD5_CTX \<Rightarrow> byte list \<Rightarrow> 'u word MD5_CTX option" where
  "MD5Update_Vz = md5_update MD5Transform_Vz"

definition md5_PADDING :: "byte list" where
  "md5_PADDING = 0x80 # replicate 63 0"

text \<open>\<open>MD5Final\<close> returns the digest and the context it has zeroed.\<close>

definition md5_zeroed :: "'u::len word MD5_CTX" where
  "md5_zeroed = \<lparr>md5_state = [0, 0, 0, 0], md5_count = [0, 0], md5_buffer = replicate 64 0\<rparr>"

definition md5_final ::
  "('u::len word MD5_CTX \<Rightarrow> byte list \<Rightarrow> 'u word MD5_CTX option) \<Rightarrow> 'u word MD5_CTX \<Rightarrow>
   (byte list \<times> 'u word MD5_CTX) option" where
  "md5_final update context =
     (let bits = Encode (md5_count context);
          index = md5_index context;
          padLen = (if index < 56 then 56 - index else 120 - index)
      in case update context (take padLen md5_PADDING) of
           None \<Rightarrow> None
         | Some context \<Rightarrow>
             (case update context bits of
                None \<Rightarrow> None
              | Some context \<Rightarrow> Some (Encode (md5_state context), md5_zeroed)))"

definition MD5Final :: "'u::len word MD5_CTX \<Rightarrow> (byte list \<times> 'u word MD5_CTX) option" where
  "MD5Final = md5_final MD5Update"

definition MD5Final_Vz :: "'u::len word MD5_CTX \<Rightarrow> (byte list \<times> 'u word MD5_CTX) option" where
  "MD5Final_Vz = md5_final MD5Update_Vz"

text \<open>
  A client's calls: initialise a context whose contents are arbitrary, feed it chunks, read
  the digest.
\<close>

definition md5_feed ::
  "('c \<Rightarrow> byte list \<Rightarrow> 'c option) \<Rightarrow> 'c option \<Rightarrow> byte list \<Rightarrow> 'c option" where
  "md5_feed update context x = Option.bind context (\<lambda>ctx. update ctx x)"

definition md5_finish :: "('c \<Rightarrow> ('d \<times> 'c) option) \<Rightarrow> 'c option \<Rightarrow> 'd option" where
  "md5_finish final context = Option.bind context (\<lambda>ctx. map_option fst (final ctx))"

definition md5_digest :: "'u::len word MD5_CTX \<Rightarrow> byte list list \<Rightarrow> byte list option" where
  "md5_digest junk xs = md5_finish MD5Final (foldl (md5_feed MD5Update) (Some (MD5Init junk)) xs)"

definition md5_digest_Vz :: "'u::len word MD5_CTX \<Rightarrow> byte list list \<Rightarrow> byte list option" where
  "md5_digest_Vz junk xs =
     md5_finish MD5Final_Vz (foldl (md5_feed MD5Update_Vz) (Some (MD5Init_Vz junk)) xs)"

subsection \<open>The block loop, the counter and the update\<close>

lemma md5_blocks_absorb:
  assumes "length input = unat inputLen" and "unat inputLen < 2 ^ 32 - 63" and "unat i \<le> unat inputLen"
  shows "\<exists>j. md5_blocks transform state input inputLen i
           = Some (absorb transform state (drop (unat i) input), j)
         \<and> drop (unat j) input = pending (drop (unat i) input)"
  using assms
proof (induction transform state input inputLen i rule: md5_blocks.induct)
  case (1 transform state input inputLen i)
  have i63: "unat (i + 63) = unat i + 63"
    using "1.prems" by (simp add: unat_word_ariths)
  show ?case
  proof (cases "unat i + 63 < unat inputLen")
    case True
    then have i64: "unat (i + 64) = unat i + 64"
      using "1.prems" by (simp add: unat_word_ariths)
    have less: "i + 63 < inputLen" using True i63 by (simp add: word_less_nat_alt)
    define b where "b = take 64 (drop (unat i) input)"
    have b: "length b = 64" using True "1.prems" by (simp add: b_def)
    have split: "drop (unat i) input = b @ drop (unat (i + 64)) input"
      using append_take_drop_id [of 64 "drop (unat i) input"]
      by (simp only: b_def drop_drop i64 add.commute)
    have bound: "unat i + 64 \<le> unat inputLen" using True by simp
    have "\<exists>j. md5_blocks transform (transform state b) input inputLen (i + 64)
           = Some (absorb transform (transform state b) (drop (unat (i + 64)) input), j)
         \<and> drop (unat j) input = pending (drop (unat (i + 64)) input)"
      unfolding b_def using less bound "1.prems" i64 by (intro "1.IH") simp_all
    then show ?thesis
      using less bound by (subst md5_blocks.simps) (simp add: split absorb_block pending_block b flip: b_def)
  next
    case False
    then have "\<not> i + 63 < inputLen" using i63 by (simp add: word_less_nat_alt)
    moreover have "length (drop (unat i) input) < 64" using False "1.prems" by simp
    ultimately show ?thesis by (subst md5_blocks.simps) simp
  qed
qed

definition md5_counter :: "nat \<Rightarrow> 'u::len word list" where
  "md5_counter n = [of_nat (8 * n), of_nat (8 * n div 2 ^ LENGTH('u))]"

lemma md5_add_count_counter:
  assumes "32 \<le> LENGTH('u)" and "k < 2 ^ 29"
  shows "md5_add_count (md5_counter n :: 'u::len word list) (of_nat k) = md5_counter (n + k)"
proof -
  have pow: "(2::nat) ^ 32 \<le> 2 ^ LENGTH('u)" using assms(1) by (intro power_increasing) simp_all
  have k: "unat (of_nat k :: u32) = k" using assms(2) by (simp add: unsigned_of_nat take_bit_eq_mod)
  have uk: "ucast (of_nat k :: u32) = (of_nat k :: 'u word)"
    using of_nat_unat [of "of_nat k :: u32"] k by metis
  have low: "push_bit 3 (of_nat k :: 'u word) = of_nat (8 * k)"
    by (simp add: push_bit_eq_mult)
  have addend: "unat (of_nat (8 * k) :: 'u word) = 8 * k"
    using assms(2) pow by (simp add: unsigned_of_nat take_bit_eq_mod del: of_nat_mult)
  have high: "drop_bit 29 (of_nat k :: 'u word) = 0"
  proof -
    have "unat (of_nat k :: 'u word) = k"
      using assms(2) pow by (simp add: unsigned_of_nat take_bit_eq_mod)
    then have "unat (drop_bit 29 (of_nat k :: 'u word)) = 0"
      using assms(2) by (simp only: unat_drop_bit) simp
    then show ?thesis by (simp only: unat_eq_0)
  qed
  have sum: "(of_nat (8 * n) :: 'u word) + of_nat (8 * k) = of_nat (8 * (n + k))" by simp
  have n8: "unat (of_nat (8 * n) :: 'u word) = 8 * n mod 2 ^ LENGTH('u)"
    by (simp only: unsigned_of_nat take_bit_eq_mod of_nat_id)
  have carry: "(of_nat (8 * n) + of_nat (8 * k) :: 'u word) < of_nat (8 * k)
      \<longleftrightarrow> 2 ^ LENGTH('u) \<le> 8 * n mod 2 ^ LENGTH('u) + 8 * k"
    by (simp only: word_add_carry n8 addend)
  have quotient: "8 * (n + k) div 2 ^ LENGTH('u) = 8 * n div 2 ^ LENGTH('u)
      + (if 2 ^ LENGTH('u) \<le> 8 * n mod 2 ^ LENGTH('u) + 8 * k then 1 else 0)"
    using assms(2) pow by (simp only: distrib_left) (intro div_add_carry, simp)
  show ?thesis
    unfolding md5_add_count_def md5_counter_def uk
    by (simp only: nth_Cons_0 nth_Cons_Suc One_nat_def Let_def low high sum [symmetric] carry quotient)
       (simp del: of_nat_mult of_nat_add add: of_nat_Suc)
qed

text \<open>
  A context represents the bytes absorbed so far: the state has absorbed the full blocks, the
  rest waits at the front of the buffer, the counter has the length in bits.
\<close>

definition md5_rep ::
  "('u::len word list \<Rightarrow> byte list \<Rightarrow> 'u word list) \<Rightarrow> 'u word list \<Rightarrow> 'u word MD5_CTX \<Rightarrow> byte list \<Rightarrow> bool" where
  "md5_rep transform start ctx m \<longleftrightarrow>
     md5_state ctx = absorb transform start m \<and> md5_count ctx = md5_counter (length m) \<and>
     length (md5_buffer ctx) = 64 \<and> take (length m mod 64) (md5_buffer ctx) = pending m"

lemma md5_index_counter:
  assumes "32 \<le> LENGTH('u::len)" and "md5_count (ctx :: 'u word MD5_CTX) = md5_counter n"
  shows "md5_index ctx = n mod 64"
proof -
  have "(512::nat) dvd 2 ^ LENGTH('u)"
    using le_imp_power_dvd [of 9 "LENGTH('u)" "2::nat"] assms(1) by simp
  then have "8 * n mod 2 ^ LENGTH('u) mod 512 = 8 * n mod 512" by (rule mod_mod_cancel)
  moreover have "a mod 512 div 8 = a div 8 mod 64" for a :: nat
    using mod_mult2_eq [of a 8 64] by simp
  ultimately have "8 * n mod 2 ^ LENGTH('u) div 8 mod 64 = n mod 64"
    by (metis nonzero_mult_div_cancel_left zero_neq_numeral)
  moreover have "unat (of_nat (8 * n) :: 'u word) = 8 * n mod 2 ^ LENGTH('u)"
    by (simp only: unsigned_of_nat take_bit_eq_mod of_nat_id)
  moreover have "md5_index ctx = unat (of_nat (8 * n) :: 'u word) div 2 ^ 3 mod 64"
    unfolding md5_index_def assms(2) md5_counter_def by (simp only: unat_and_63 unat_drop_bit nth_Cons_0)
  ultimately show ?thesis by simp
qed

lemma md5_update_rep:
  assumes L: "32 \<le> LENGTH('u::len)" and rep: "md5_rep transform start (ctx :: 'u word MD5_CTX) m"
    and short: "length x < 2 ^ 29"
  shows "\<exists>ctx'. md5_update transform ctx x = Some ctx' \<and> md5_rep transform start ctx' (m @ x)"
proof -
  from rep have ctx: "md5_state ctx = absorb transform start m" "md5_count ctx = md5_counter (length m)"
    "length (md5_buffer ctx) = 64" "take (length m mod 64) (md5_buffer ctx) = pending m"
    by (simp_all add: md5_rep_def)
  define n k where "n = length m mod 64" and "k = 64 - n"
  have n: "n < 64" "0 < k" "k \<le> 64" "n + k = 64" by (simp_all add: n_def k_def)
  have index: "md5_index ctx = n" using md5_index_counter [OF L ctx(2)] by (simp add: n_def)
  define len where "len = (of_nat (length x) :: u32)"
  have len: "unat len = length x" using short by (simp add: len_def unsigned_of_nat take_bit_eq_mod)
  have cnt: "md5_add_count (md5_count ctx) len = md5_counter (length (m @ x))"
    unfolding ctx(2) len_def using L short by (simp add: md5_add_count_counter)
  have part: "unat (of_nat k :: u32) = k" using n by (simp add: unsigned_of_nat take_bit_eq_mod)
  have test: "of_nat k \<le> len \<longleftrightarrow> k \<le> length x" by (simp add: word_le_nat_alt part len)
  have pend: "length (pending m) = n" by (simp add: n_def)
  show ?thesis
  proof (cases "k \<le> length x")
    case True
    define a r where "a = take k x" and "r = drop k x"
    have x: "x = a @ r" and a: "length (pending m) + length a = 64"
      using True n by (simp_all add: a_def r_def n_def k_def)
    have buf: "memcpy (md5_buffer ctx) n a = pending m @ a"
      using a ctx by (simp add: memcpy_def flip: n_def)
    obtain j where j: "md5_blocks transform (transform (absorb transform start m) (pending m @ a)) x len (of_nat k)
        = Some (absorb transform (transform (absorb transform start m) (pending m @ a)) r, j)"
        "drop (unat j) x = pending r"
      using md5_blocks_absorb [of x len "of_nat k" transform
          "transform (absorb transform start m) (pending m @ a)"] short True
      by (auto simp: len part r_def)
    have fill: "absorb transform start (m @ x) = absorb transform (transform (absorb transform start m) (pending m @ a)) r"
        "pending (m @ x) = pending r"
      using absorb_fill [OF a] by (simp_all only: x)
    have len_r: "length (m @ x) mod 64 = length (pending r)"
      using fill(2) by (metis length_pending)
    have pr: "length (pending r) < 64" by simp
    have pa: "length (pending m @ a) = 64" using a by simp
    have "md5_update transform ctx x = Some (ctx\<lparr>md5_state := absorb transform start (m @ x),
        md5_count := md5_counter (length (m @ x)), md5_buffer := memcpy (pending m @ a) 0 (pending r)\<rparr>)"
      unfolding md5_update_def Let_def index len_def [symmetric] k_def [symmetric] cnt
      using True by (simp add: test buf j ctx(1) fill flip: a_def)
    moreover have "md5_rep transform start (ctx\<lparr>md5_state := absorb transform start (m @ x),
        md5_count := md5_counter (length (m @ x)), md5_buffer := memcpy (pending m @ a) 0 (pending r)\<rparr>) (m @ x)"
      unfolding md5_rep_def len_r using pr pa
      by (simp add: fill len_simps) (simp add: memcpy_def)
    ultimately show ?thesis by blast
  next
    case False
    have fit: "length (pending m) + length x < 64" using False n pend by linarith
    have len_m: "length (m @ x) mod 64 = n + length x"
      using fit absorb_no_fill(2) [OF fit] by (metis length_append length_pending pend)
    have "md5_update transform ctx x = Some (ctx\<lparr>md5_count := md5_counter (length (m @ x)),
        md5_buffer := memcpy (md5_buffer ctx) n x\<rparr>)"
      unfolding md5_update_def Let_def index len_def [symmetric] k_def [symmetric] cnt
      using False by (simp add: test)
    moreover have "md5_rep transform start (ctx\<lparr>md5_count := md5_counter (length (m @ x)),
        md5_buffer := memcpy (md5_buffer ctx) n x\<rparr>) (m @ x)"
      unfolding md5_rep_def len_m using ctx fit pend
      by (simp add: absorb_no_fill [OF fit] len_simps take_memcpy flip: n_def)
    ultimately show ?thesis by blast
  qed
qed

subsection \<open>The digest of a message\<close>

definition md5_padded :: "'u::len itself \<Rightarrow> byte list \<Rightarrow> byte list" where
  "md5_padded u m = m @ padding 0x80 8 (Encode (md5_counter (length m) :: 'u word list)) (length m)"

lemma length_Encode [simp]: "length (Encode ws) = 4 * length ws"
  by (induction ws) simp_all

lemma md5_final_digest:
  assumes L: "32 \<le> LENGTH('u::len)" and rep: "md5_rep transform start (ctx :: 'u word MD5_CTX) m"
  shows "map_option fst (md5_final (md5_update transform) ctx)
    = Some (Encode (absorb transform start (md5_padded TYPE('u) m)))"
proof -
  define n where "n = length m mod 64"
  have n: "n < 64" by (simp add: n_def)
  have cnt: "md5_count ctx = md5_counter (length m)" using rep by (simp add: md5_rep_def)
  have index: "md5_index ctx = n" using md5_index_counter [OF L cnt] by (simp add: n_def)
  define padLen where "padLen = (if n < 56 then 56 - n else 120 - n)"
  have pad: "take padLen md5_PADDING = 0x80 # replicate (pad_zeros 8 (length m)) 0"
    using n by (auto simp: padLen_def md5_PADDING_def pad_zeros_def n_def take_Cons' min_def)
  have "length (take padLen md5_PADDING) < 2 ^ 29" by (simp add: md5_PADDING_def min_def)
  from md5_update_rep [OF L rep this] obtain c1 where c1: "md5_update transform ctx (take padLen md5_PADDING) = Some c1"
    "md5_rep transform start c1 (m @ take padLen md5_PADDING)"
    by blast
  define bits where "bits = Encode (md5_count ctx)"
  have bits: "length bits = 8" by (simp add: bits_def cnt md5_counter_def)
  obtain c2 where c2: "md5_update transform c1 bits = Some c2"
    "md5_rep transform start c2 ((m @ take padLen md5_PADDING) @ bits)"
    using md5_update_rep [OF L c1(2), of bits] bits by auto
  have "(m @ take padLen md5_PADDING) @ bits = md5_padded TYPE('u) m"
    by (simp add: md5_padded_def pad padding_def bits_def cnt)
  then have "md5_state c2 = absorb transform start (md5_padded TYPE('u) m)"
    using c2(2) by (simp add: md5_rep_def)
  then show ?thesis
    unfolding md5_final_def Let_def index padLen_def [symmetric] bits_def [symmetric] by (simp add: c1 c2)
qed

lemma md5_contract:
  assumes L: "32 \<le> LENGTH('u::len)" and start: "md5_rep transform start (ctx :: 'u word MD5_CTX) []"
  shows "incremental_digest (Some ctx) (md5_feed (md5_update transform))
    (md5_finish (md5_final (md5_update transform))) (\<lambda>x. x) (\<lambda>x. length x < 2 ^ 29)
    (\<lambda>c m. \<exists>ctx. c = Some ctx \<and> md5_rep transform start ctx m)
    (\<lambda>m. Some (Encode (absorb transform start (md5_padded TYPE('u) m))))"
proof (unfold_locales, goal_cases)
  case 1
  show ?case using start by blast
next
  case (2 c m x)
  then show ?case using md5_update_rep [OF L] by (auto simp: md5_feed_def)
next
  case (3 c m)
  then show ?case using md5_final_digest [OF L] by (auto simp: md5_finish_def)
qed

lemma md5_rep_Init:
  "length (md5_buffer junk) = 64 \<Longrightarrow>
     md5_rep transform [0x67452301, 0xefcdab89, 0x98badcfe, 0x10325476] (MD5Init junk) []"
  "length (md5_buffer junk) = 64 \<Longrightarrow>
     md5_rep transform [0x50137246, 0x8acf9dbe, 0xc9efaced, 0x25647013] (MD5Init_Vz junk) []"
  by (simp_all add: md5_rep_def MD5Init_def MD5Init_Vz_def md5_counter_def)

definition md5_spec :: "'u::len itself \<Rightarrow> byte list \<Rightarrow> byte list" where
  "md5_spec u m = Encode (absorb MD5Transform [0x67452301, 0xefcdab89, 0x98badcfe, 0x10325476 :: 'u word]
     (md5_padded u m))"

definition md5_spec_Vz :: "'u::len itself \<Rightarrow> byte list \<Rightarrow> byte list" where
  "md5_spec_Vz u m = Encode (absorb MD5Transform_Vz [0x50137246, 0x8acf9dbe, 0xc9efaced, 0x25647013 :: 'u word]
     (md5_padded u m))"

lemma md5_digest_incremental:
  assumes "32 \<le> LENGTH('u::len)" and "length (md5_buffer (junk :: 'u word MD5_CTX)) = 64"
  shows "incremental_digest (Some (MD5Init junk)) (md5_feed MD5Update) (md5_finish MD5Final)
    (\<lambda>x. x) (\<lambda>x. length x < 2 ^ 29)
    (\<lambda>c m. \<exists>ctx. c = Some ctx \<and> md5_rep MD5Transform [0x67452301, 0xefcdab89, 0x98badcfe, 0x10325476] ctx m)
    (\<lambda>m. Some (md5_spec TYPE('u) m))"
  unfolding MD5Update_def MD5Final_def md5_spec_def by (rule md5_contract [OF assms(1) md5_rep_Init(1) [OF assms(2)]])

lemma md5_digest_incremental_Vz:
  assumes "32 \<le> LENGTH('u::len)" and "length (md5_buffer (junk :: 'u word MD5_CTX)) = 64"
  shows "incremental_digest (Some (MD5Init_Vz junk)) (md5_feed MD5Update_Vz) (md5_finish MD5Final_Vz)
    (\<lambda>x. x) (\<lambda>x. length x < 2 ^ 29)
    (\<lambda>c m. \<exists>ctx. c = Some ctx \<and> md5_rep MD5Transform_Vz [0x50137246, 0x8acf9dbe, 0xc9efaced, 0x25647013] ctx m)
    (\<lambda>m. Some (md5_spec_Vz TYPE('u) m))"
  unfolding MD5Update_Vz_def MD5Final_Vz_def md5_spec_Vz_def
  by (rule md5_contract [OF assms(1) md5_rep_Init(2) [OF assms(2)]])

lemma length_MD5Transform [len_simps]: "length (MD5Transform state block) = 4"
  by (simp add: MD5Transform_def Let_def split: prod.splits)

lemma length_MD5Transform_Vz [len_simps]: "length (MD5Transform_Vz state block) = 4"
  by (simp add: MD5Transform_Vz_def Let_def split: prod.splits)

lemma length_md5_spec [len_simps]: "length (md5_spec u m) = 16" "length (md5_spec_Vz u m) = 16"
  by (simp_all add: md5_spec_def md5_spec_Vz_def absorb_length len_simps)

lemma md5_digest_of_chunks:
  assumes "32 \<le> LENGTH('u::len)" and "length (md5_buffer (junk :: 'u word MD5_CTX)) = 64"
    and "list_all (\<lambda>x. length x < 2 ^ 29) xs"
  shows "md5_digest junk xs = Some (md5_spec TYPE('u) (concat xs))"
    and "md5_digest_Vz junk xs = Some (md5_spec_Vz TYPE('u) (concat xs))"
  using incremental_digest.digest_of_chunks [OF md5_digest_incremental [OF assms(1,2)] assms(3)]
    incremental_digest.digest_of_chunks [OF md5_digest_incremental_Vz [OF assms(1,2)] assms(3)]
  by (simp_all add: md5_digest_def md5_digest_Vz_def)

interpretation md5_32: sized_digest "Some (MD5Init (md5_zeroed :: u32 MD5_CTX))" "md5_feed MD5Update"
  "md5_finish MD5Final" "\<lambda>x. x" "\<lambda>x. length x < 2 ^ 29"
  "\<lambda>c m. \<exists>ctx. c = Some ctx \<and> md5_rep MD5Transform [0x67452301, 0xefcdab89, 0x98badcfe, 0x10325476] ctx m"
  "\<lambda>m. Some (md5_spec TYPE(32) m)" the 16
  by (intro sized_digest.intro sized_digest_axioms.intro md5_digest_incremental)
    (simp_all add: md5_zeroed_def len_simps)

interpretation md5_64: sized_digest "Some (MD5Init (md5_zeroed :: u64 MD5_CTX))" "md5_feed MD5Update"
  "md5_finish MD5Final" "\<lambda>x. x" "\<lambda>x. length x < 2 ^ 29"
  "\<lambda>c m. \<exists>ctx. c = Some ctx \<and> md5_rep MD5Transform [0x67452301, 0xefcdab89, 0x98badcfe, 0x10325476] ctx m"
  "\<lambda>m. Some (md5_spec TYPE(64) m)" the 16
  by (intro sized_digest.intro sized_digest_axioms.intro md5_digest_incremental)
    (simp_all add: md5_zeroed_def len_simps)

interpretation md5_Vz_32: sized_digest "Some (MD5Init_Vz (md5_zeroed :: u32 MD5_CTX))" "md5_feed MD5Update_Vz"
  "md5_finish MD5Final_Vz" "\<lambda>x. x" "\<lambda>x. length x < 2 ^ 29"
  "\<lambda>c m. \<exists>ctx. c = Some ctx \<and> md5_rep MD5Transform_Vz [0x50137246, 0x8acf9dbe, 0xc9efaced, 0x25647013] ctx m"
  "\<lambda>m. Some (md5_spec_Vz TYPE(32) m)" the 16
  by (intro sized_digest.intro sized_digest_axioms.intro md5_digest_incremental_Vz)
    (simp_all add: md5_zeroed_def len_simps)

interpretation md5_Vz_64: sized_digest "Some (MD5Init_Vz (md5_zeroed :: u64 MD5_CTX))" "md5_feed MD5Update_Vz"
  "md5_finish MD5Final_Vz" "\<lambda>x. x" "\<lambda>x. length x < 2 ^ 29"
  "\<lambda>c m. \<exists>ctx. c = Some ctx \<and> md5_rep MD5Transform_Vz [0x50137246, 0x8acf9dbe, 0xc9efaced, 0x25647013] ctx m"
  "\<lambda>m. Some (md5_spec_Vz TYPE(64) m)" the 16
  by (intro sized_digest.intro sized_digest_axioms.intro md5_digest_incremental_Vz)
    (simp_all add: md5_zeroed_def len_simps)


subsection \<open>The test vector of RFC 1321 on the one block message \<open>abc\<close>\<close>

lemmas md5_eval = FF_def GG_def HH_def II_def FF_Vz_def GG_Vz_def HH_Vz_def II_Vz_def
  md5_F_def md5_G_def md5_H_def md5_I_def ROTATE_LEFT_def
  S11_def S12_def S13_def S14_def S21_def S22_def S23_def S24_def
  S31_def S32_def S33_def S34_def S41_def S42_def S43_def S44_def
  S11_Vz_def S12_Vz_def S13_Vz_def S14_Vz_def S21_Vz_def S22_Vz_def S23_Vz_def S24_Vz_def
  S31_Vz_def S32_Vz_def S33_Vz_def S34_Vz_def S41_Vz_def S42_Vz_def S43_Vz_def S44_Vz_def

definition md5_abc_block :: "byte list" where
  "md5_abc_block = [0x61, 0x62, 0x63, 0x80,
     0, 0, 0, 0, 0, 0, 0, 0, 0, 0, 0, 0, 0, 0, 0, 0, 0, 0, 0, 0, 0, 0, 0, 0, 0, 0, 0, 0, 0, 0, 0, 0, 0, 0, 0, 0,
     0, 0, 0, 0, 0, 0, 0, 0, 0, 0, 0, 0, 0, 0, 0, 0, 0x18, 0, 0, 0, 0, 0, 0, 0]"

lemma md5_padded_abc:
  "md5_padded TYPE(32) [0x61, 0x62, 0x63] = md5_abc_block"
  "md5_padded TYPE(64) [0x61, 0x62, 0x63] = md5_abc_block"
  by (simp_all add: md5_padded_def padding_def pad_zeros_def md5_counter_def replicate_numeral md5_abc_block_def)

lemma length_md5_abc_block: "length md5_abc_block = 64"
  by (simp add: md5_abc_block_def)

lemma Decode_abc: "Decode md5_abc_block =
    ([0x80636261, 0, 0, 0, 0, 0, 0, 0, 0, 0, 0, 0, 0, 0, 0x18, 0] :: u32 list)"
  "Decode md5_abc_block =
    ([0x80636261, 0, 0, 0, 0, 0, 0, 0, 0, 0, 0, 0, 0, 0, 0x18, 0] :: u64 list)"
  by (simp_all add: md5_abc_block_def)

lemma md5_abc_32_round1: "md5_round FF ([0x80636261, 0, 0, 0, 0, 0, 0, 0, 0, 0, 0, 0, 0, 0, 0x18, 0] :: u32 list)
    md5_round1 0x67452301 0xefcdab89 0x98badcfe 0x10325476
  = (0xdda9b9a6, 0x72aff2e0, 0xe396856b, 0xa1051895)"
  by (simp add: md5_round1_def md5_eval)

lemma md5_abc_32_round2: "md5_round GG ([0x80636261, 0, 0, 0, 0, 0, 0, 0, 0, 0, 0, 0, 0, 0, 0x18, 0] :: u32 list)
    md5_round2 0xdda9b9a6 0x72aff2e0 0xe396856b 0xa1051895
  = (0x790a77fb, 0x726342d3, 0xa62884aa, 0x9f47e4f8)"
  by (simp add: md5_round2_def md5_eval)

lemma md5_abc_32_round3: "md5_round HH ([0x80636261, 0, 0, 0, 0, 0, 0, 0, 0, 0, 0, 0, 0, 0, 0x18, 0] :: u32 list)
    md5_round3 0x790a77fb 0x726342d3 0xa62884aa 0x9f47e4f8
  = (0x7f2e507b, 0x7beb9700, 0x8fae6399, 0x99d9679d)"
  by (simp add: md5_round3_def md5_eval)

lemma md5_abc_32_round4: "md5_round II ([0x80636261, 0, 0, 0, 0, 0, 0, 0, 0, 0, 0, 0, 0, 0, 0x18, 0] :: u32 list)
    md5_round4 0x7f2e507b 0x7beb9700 0x8fae6399 0x99d9679d
  = (0x310ade8f, 0xc08226b3, 0xe484b9d8, 0x624d8cb2)"
  by (simp add: md5_round4_def md5_eval)

lemma md5_spec_abc_32: "md5_spec TYPE(32) [0x61, 0x62, 0x63] =
    [0x90, 0x1, 0x50, 0x98, 0x3c, 0xd2, 0x4f, 0xb0, 0xd6, 0x96, 0x3f, 0x7d, 0x28, 0xe1, 0x7f, 0x72]"
  by (simp add: md5_spec_def md5_padded_abc absorb_one length_md5_abc_block MD5Transform_def Decode_abc
      md5_abc_32_round1 md5_abc_32_round2 md5_abc_32_round3 md5_abc_32_round4)

lemma md5_abc_32_Vz_round1: "md5_round FF_Vz ([0x80636261, 0, 0, 0, 0, 0, 0, 0, 0, 0, 0, 0, 0, 0, 0x18, 0] :: u32 list)
    md5_round1_Vz 0x50137246 0x8acf9dbe 0xc9efaced 0x25647013
  = (0x82dd518d, 0x128e9c56, 0x9ae7d3e9, 0x49818a16)"
  by (simp add: md5_round1_Vz_def md5_eval)

lemma md5_abc_32_Vz_round2: "md5_round GG_Vz ([0x80636261, 0, 0, 0, 0, 0, 0, 0, 0, 0, 0, 0, 0, 0, 0x18, 0] :: u32 list)
    md5_round2_Vz 0x82dd518d 0x128e9c56 0x9ae7d3e9 0x49818a16
  = (0x718f8f50, 0x8107e443, 0xf173c923, 0x2a4c124d)"
  by (simp add: md5_round2_Vz_def md5_eval)

lemma md5_abc_32_Vz_round3: "md5_round HH_Vz ([0x80636261, 0, 0, 0, 0, 0, 0, 0, 0, 0, 0, 0, 0, 0, 0x18, 0] :: u32 list)
    (md5_round3_Vz md5_abc_block) 0x718f8f50 0x8107e443 0xf173c923 0x2a4c124d
  = (0x54552959, 0x41836e64, 0x84b7286d, 0xe2e7dc77)"
  by (simp add: md5_round3_Vz_def md5_eval md5_abc_block_def)

lemma md5_abc_32_Vz_round4: "md5_round II_Vz ([0x80636261, 0, 0, 0, 0, 0, 0, 0, 0, 0, 0, 0, 0, 0, 0x18, 0] :: u32 list)
    md5_round4_Vz 0x54552959 0x41836e64 0x84b7286d 0xe2e7dc77
  = (0xc17d8f8c, 0x87ba5323, 0x444354cc, 0xb1486061)"
  by (simp add: md5_round4_Vz_def md5_eval)

lemma md5_spec_abc_32_Vz: "md5_spec_Vz TYPE(32) [0x61, 0x62, 0x63] =
    [0xd2, 0x1, 0x91, 0x11, 0xe1, 0xf0, 0x89, 0x12, 0xb9, 0x1, 0x33, 0xe, 0x74, 0xd0, 0xac, 0xd6]"
  by (simp add: md5_spec_Vz_def md5_padded_abc absorb_one length_md5_abc_block MD5Transform_Vz_def Decode_abc
      md5_abc_32_Vz_round1 md5_abc_32_Vz_round2 md5_abc_32_Vz_round3 md5_abc_32_Vz_round4)

lemma md5_abc_64_round1: "md5_round FF ([0x80636261, 0, 0, 0, 0, 0, 0, 0, 0, 0, 0, 0, 0, 0, 0x18, 0] :: u64 list)
    md5_round1 0x67452301 0xefcdab89 0x98badcfe 0x10325476
  = (0xf7877db54f74a196, 0x1585c2709ca3da2a, 0x99c606721ce9284e, 0xd5690ce32f6c37c2)"
  by (simp add: md5_round1_def md5_eval)

lemma md5_abc_64_round2: "md5_round GG ([0x80636261, 0, 0, 0, 0, 0, 0, 0, 0, 0, 0, 0, 0, 0, 0x18, 0] :: u64 list)
    md5_round2 0xf7877db54f74a196 0x1585c2709ca3da2a 0x99c606721ce9284e 0xd5690ce32f6c37c2
  = (0xa3287199fbbac56a, 0x1b2e4a6e70d53e04, 0x44ec8b6f71039f38, 0xa8714c58b107c028)"
  by (simp add: md5_round2_def md5_eval)

lemma md5_abc_64_round3: "md5_round HH ([0x80636261, 0, 0, 0, 0, 0, 0, 0, 0, 0, 0, 0, 0, 0, 0x18, 0] :: u64 list)
    md5_round3 0xa3287199fbbac56a 0x1b2e4a6e70d53e04 0x44ec8b6f71039f38 0xa8714c58b107c028
  = (0x7c1ee3e3e5858741, 0x325e97c8ac9cd394, 0x28e2d7e3a12398ef, 0x53038ce7164fbeb)"
  by (simp add: md5_round3_def md5_eval)

lemma md5_abc_64_round4: "md5_round II ([0x80636261, 0, 0, 0, 0, 0, 0, 0, 0, 0, 0, 0, 0, 0, 0x18, 0] :: u64 list)
    md5_round4 0x7c1ee3e3e5858741 0x325e97c8ac9cd394 0x28e2d7e3a12398ef 0x53038ce7164fbeb
  = (0xaafc81980e977678, 0xc69e4c8d9c972f5f, 0x956d55969f264a69, 0x6ba4ed97f346634f)"
  by (simp add: md5_round4_def md5_eval)

lemma md5_spec_abc_64: "md5_spec TYPE(64) [0x61, 0x62, 0x63] =
    [0x79, 0x99, 0xdc, 0x75, 0xe8, 0xda, 0x64, 0x8c, 0x67, 0x27, 0xe1, 0x37, 0xc5, 0xb7, 0x78, 0x3]"
  by (simp add: md5_spec_def md5_padded_abc absorb_one length_md5_abc_block MD5Transform_def Decode_abc
      md5_abc_64_round1 md5_abc_64_round2 md5_abc_64_round3 md5_abc_64_round4)

subsection \<open>Properties\<close>

text \<open>
  C5: \<open>MD5Init\<close>, any sequence of \<open>MD5Update\<close> calls on chunks below \<open>2^29\<close> bytes and
  \<open>MD5Final\<close> read no byte out of bounds and return the little-endian encoding of the state
  that the transform reaches on the padded concatenation of the chunks, whatever the
  uninitialised context held and whether \<open>UINT4\<close> has 32 bits or more. The way the message
  is cut into chunks does not matter.
\<close>

theorem MD5_digest_spec:
  assumes "32 \<le> LENGTH('u::len)" and "length (md5_buffer (junk :: 'u word MD5_CTX)) = 64"
    and "list_all (\<lambda>x. length x < 2 ^ 29) xs"
  shows "md5_digest junk xs = Some (md5_spec TYPE('u) (concat xs))"
  by (rule md5_digest_of_chunks [OF assms])

theorem MD5_digest_spec_witness:
  "md5_digest (md5_zeroed :: u32 MD5_CTX) [[0x61], [], [0x62, 0x63]] = Some (md5_spec TYPE(32) [0x61, 0x62, 0x63])"
  using MD5_digest_spec [of "md5_zeroed :: u32 MD5_CTX" "[[0x61], [], [0x62, 0x63]]"]
  by (simp add: md5_zeroed_def)

text \<open>
  The same for the modified MD5 of the challenge protocol: \<open>MD5Init_Vz\<close>,
  \<open>MD5Update_Vz\<close> and \<open>MD5Final_Vz\<close> compute the iterated \<open>MD5Transform_Vz\<close> of the
  padded message, for every way of cutting it into chunks.
\<close>

theorem MD5_Vz_digest_spec:
  assumes "32 \<le> LENGTH('u::len)" and "length (md5_buffer (junk :: 'u word MD5_CTX)) = 64"
    and "list_all (\<lambda>x. length x < 2 ^ 29) xs"
  shows "md5_digest_Vz junk xs = Some (md5_spec_Vz TYPE('u) (concat xs))"
  by (rule md5_digest_of_chunks [OF assms])

theorem MD5_Vz_digest_spec_witness:
  "md5_digest_Vz (md5_zeroed :: u64 MD5_CTX) [[1, 2], [3]] = Some (md5_spec_Vz TYPE(64) [1, 2, 3])"
  using MD5_Vz_digest_spec [of "md5_zeroed :: u64 MD5_CTX" "[[1, 2], [3]]"] by (simp add: md5_zeroed_def)

text \<open>
  with a 32 bit \<open>UINT4\<close> the module computes the value that RFC 1321 prints for the
  message \<open>abc\<close>, and the modified variant computes another one.
\<close>

theorem MD5_rfc1321_vector:
  "md5_digest (md5_zeroed :: u32 MD5_CTX) [[0x61, 0x62, 0x63]] =
     Some [0x90, 0x01, 0x50, 0x98, 0x3c, 0xd2, 0x4f, 0xb0, 0xd6, 0x96, 0x3f, 0x7d, 0x28, 0xe1, 0x7f, 0x72] \<and>
   md5_digest_Vz (md5_zeroed :: u32 MD5_CTX) [[0x61, 0x62, 0x63]] =
     Some [0xd2, 0x01, 0x91, 0x11, 0xe1, 0xf0, 0x89, 0x12, 0xb9, 0x01, 0x33, 0x0e, 0x74, 0xd0, 0xac, 0xd6]"
  using md5_32.digest_of_chunks [of "[[0x61, 0x62, 0x63]]"] md5_Vz_32.digest_of_chunks [of "[[0x61, 0x62, 0x63]]"]
  by (simp add: md5_digest_def md5_digest_Vz_def md5_spec_abc_32 md5_spec_abc_32_Vz)

text \<open>
  With a 64 bit \<open>UINT4\<close> (\<open>unsigned long\<close> on a 64 bit Linux build) \<open>ROTATE_LEFT\<close>
  keeps the bits it shifts out, so the module does not compute MD5: the digest of \<open>abc\<close>
  is another one than that of RFC 1321.
\<close>

theorem MD5_wrong_on_64_bit:
  "md5_digest (md5_zeroed :: u64 MD5_CTX) [[0x61, 0x62, 0x63]] =
     Some [0x79, 0x99, 0xdc, 0x75, 0xe8, 0xda, 0x64, 0x8c, 0x67, 0x27, 0xe1, 0x37, 0xc5, 0xb7, 0x78, 0x03] \<and>
   md5_digest (md5_zeroed :: u64 MD5_CTX) [[0x61, 0x62, 0x63]] \<noteq>
     md5_digest (md5_zeroed :: u32 MD5_CTX) [[0x61, 0x62, 0x63]]"
  using md5_32.digest_of_chunks [of "[[0x61, 0x62, 0x63]]"] md5_64.digest_of_chunks [of "[[0x61, 0x62, 0x63]]"]
  by (simp add: md5_digest_def md5_spec_abc_32 md5_spec_abc_64)

end
