(* ===== verification/D3des.thy ===== *)
theory D3des
  imports Prelude
begin

text \<open>
  The DES module \<open>d3des/src/d3des.c\<close>: key schedule, block cipher, the double and triple
  length variants and the password hashes. \<open>d3des.h\<close> enables \<open>D2_DES\<close> and \<open>D3_DES\<close>. The
  three key registers \<open>KnL\<close>, \<open>KnR\<close>, \<open>Kn3\<close> are static arrays of \<open>unsigned long\<close>: they
  are the record \<open>des_keys\<close>, polymorphic in the width of \<open>unsigned long\<close>. A block in the
  cipher is the pair \<open>block[0], block[1]\<close>.
\<close>

subsection \<open>Tables\<close>

definition Df_Key :: "byte list" where
  "Df_Key = [
    0x01, 0x23, 0x45, 0x67, 0x89, 0xab, 0xcd, 0xef,
    0xfe, 0xdc, 0xba, 0x98, 0x76, 0x54, 0x32, 0x10,
    0x89, 0xab, 0xcd, 0xef, 0x01, 0x23, 0x45, 0x67]"

definition bytebit :: "u16 list" where
  "bytebit = [128, 64, 32, 16, 8, 4, 2, 1]"

definition bigbyte :: "'u::len word list" where
  "bigbyte = [
    0x800000, 0x400000, 0x200000, 0x100000,
    0x80000, 0x40000, 0x20000, 0x10000,
    0x8000, 0x4000, 0x2000, 0x1000,
    0x800, 0x400, 0x200, 0x100,
    0x80, 0x40, 0x20, 0x10,
    0x8, 0x4, 0x2, 0x1]"

definition pc1 :: "nat list" where
  "pc1 = [
    56, 48, 40, 32, 24, 16,  8,  0, 57, 49, 41, 33, 25, 17,
     9,  1, 58, 50, 42, 34, 26, 18, 10,  2, 59, 51, 43, 35,
    62, 54, 46, 38, 30, 22, 14,  6, 61, 53, 45, 37, 29, 21,
    13,  5, 60, 52, 44, 36, 28, 20, 12,  4, 27, 19, 11,  3]"

definition totrot :: "nat list" where
  "totrot = [1, 2, 4, 6, 8, 10, 12, 14, 15, 17, 19, 21, 23, 25, 27, 28]"

definition pc2 :: "nat list" where
  "pc2 = [
    13, 16, 10, 23,  0,  4,  2, 27, 14,  5, 20,  9,
    22, 18, 11,  3, 25,  7, 15,  6, 26, 19, 12,  1,
    40, 51, 30, 36, 46, 54, 29, 39, 50, 44, 32, 47,
    43, 48, 38, 55, 33, 52, 45, 41, 49, 35, 28, 31]"

definition SP1 :: "'u::len word list" where
  "SP1 = [
    0x01010400, 0x00000000, 0x00010000, 0x01010404,
    0x01010004, 0x00010404, 0x00000004, 0x00010000,
    0x00000400, 0x01010400, 0x01010404, 0x00000400,
    0x01000404, 0x01010004, 0x01000000, 0x00000004,
    0x00000404, 0x01000400, 0x01000400, 0x00010400,
    0x00010400, 0x01010000, 0x01010000, 0x01000404,
    0x00010004, 0x01000004, 0x01000004, 0x00010004,
    0x00000000, 0x00000404, 0x00010404, 0x01000000,
    0x00010000, 0x01010404, 0x00000004, 0x01010000,
    0x01010400, 0x01000000, 0x01000000, 0x00000400,
    0x01010004, 0x00010000, 0x00010400, 0x01000004,
    0x00000400, 0x00000004, 0x01000404, 0x00010404,
    0x01010404, 0x00010004, 0x01010000, 0x01000404,
    0x01000004, 0x00000404, 0x00010404, 0x01010400,
    0x00000404, 0x01000400, 0x01000400, 0x00000000,
    0x00010004, 0x00010400, 0x00000000, 0x01010004]"

definition SP2 :: "'u::len word list" where
  "SP2 = [
    0x80108020, 0x80008000, 0x00008000, 0x00108020,
    0x00100000, 0x00000020, 0x80100020, 0x80008020,
    0x80000020, 0x80108020, 0x80108000, 0x80000000,
    0x80008000, 0x00100000, 0x00000020, 0x80100020,
    0x00108000, 0x00100020, 0x80008020, 0x00000000,
    0x80000000, 0x00008000, 0x00108020, 0x80100000,
    0x00100020, 0x80000020, 0x00000000, 0x00108000,
    0x00008020, 0x80108000, 0x80100000, 0x00008020,
    0x00000000, 0x00108020, 0x80100020, 0x00100000,
    0x80008020, 0x80100000, 0x80108000, 0x00008000,
    0x80100000, 0x80008000, 0x00000020, 0x80108020,
    0x00108020, 0x00000020, 0x00008000, 0x80000000,
    0x00008020, 0x80108000, 0x00100000, 0x80000020,
    0x00100020, 0x80008020, 0x80000020, 0x00100020,
    0x00108000, 0x00000000, 0x80008000, 0x00008020,
    0x80000000, 0x80100020, 0x80108020, 0x00108000]"

definition SP3 :: "'u::len word list" where
  "SP3 = [
    0x00000208, 0x08020200, 0x00000000, 0x08020008,
    0x08000200, 0x00000000, 0x00020208, 0x08000200,
    0x00020008, 0x08000008, 0x08000008, 0x00020000,
    0x08020208, 0x00020008, 0x08020000, 0x00000208,
    0x08000000, 0x00000008, 0x08020200, 0x00000200,
    0x00020200, 0x08020000, 0x08020008, 0x00020208,
    0x08000208, 0x00020200, 0x00020000, 0x08000208,
    0x00000008, 0x08020208, 0x00000200, 0x08000000,
    0x08020200, 0x08000000, 0x00020008, 0x00000208,
    0x00020000, 0x08020200, 0x08000200, 0x00000000,
    0x00000200, 0x00020008, 0x08020208, 0x08000200,
    0x08000008, 0x00000200, 0x00000000, 0x08020008,
    0x08000208, 0x00020000, 0x08000000, 0x08020208,
    0x00000008, 0x00020208, 0x00020200, 0x08000008,
    0x08020000, 0x08000208, 0x00000208, 0x08020000,
    0x00020208, 0x00000008, 0x08020008, 0x00020200]"

definition SP4 :: "'u::len word list" where
  "SP4 = [
    0x00802001, 0x00002081, 0x00002081, 0x00000080,
    0x00802080, 0x00800081, 0x00800001, 0x00002001,
    0x00000000, 0x00802000, 0x00802000, 0x00802081,
    0x00000081, 0x00000000, 0x00800080, 0x00800001,
    0x00000001, 0x00002000, 0x00800000, 0x00802001,
    0x00000080, 0x00800000, 0x00002001, 0x00002080,
    0x00800081, 0x00000001, 0x00002080, 0x00800080,
    0x00002000, 0x00802080, 0x00802081, 0x00000081,
    0x00800080, 0x00800001, 0x00802000, 0x00802081,
    0x00000081, 0x00000000, 0x00000000, 0x00802000,
    0x00002080, 0x00800080, 0x00800081, 0x00000001,
    0x00802001, 0x00002081, 0x00002081, 0x00000080,
    0x00802081, 0x00000081, 0x00000001, 0x00002000,
    0x00800001, 0x00002001, 0x00802080, 0x00800081,
    0x00002001, 0x00002080, 0x00800000, 0x00802001,
    0x00000080, 0x00800000, 0x00002000, 0x00802080]"

definition SP5 :: "'u::len word list" where
  "SP5 = [
    0x00000100, 0x02080100, 0x02080000, 0x42000100,
    0x00080000, 0x00000100, 0x40000000, 0x02080000,
    0x40080100, 0x00080000, 0x02000100, 0x40080100,
    0x42000100, 0x42080000, 0x00080100, 0x40000000,
    0x02000000, 0x40080000, 0x40080000, 0x00000000,
    0x40000100, 0x42080100, 0x42080100, 0x02000100,
    0x42080000, 0x40000100, 0x00000000, 0x42000000,
    0x02080100, 0x02000000, 0x42000000, 0x00080100,
    0x00080000, 0x42000100, 0x00000100, 0x02000000,
    0x40000000, 0x02080000, 0x42000100, 0x40080100,
    0x02000100, 0x40000000, 0x42080000, 0x02080100,
    0x40080100, 0x00000100, 0x02000000, 0x42080000,
    0x42080100, 0x00080100, 0x42000000, 0x42080100,
    0x02080000, 0x00000000, 0x40080000, 0x42000000,
    0x00080100, 0x02000100, 0x40000100, 0x00080000,
    0x00000000, 0x40080000, 0x02080100, 0x40000100]"

definition SP6 :: "'u::len word list" where
  "SP6 = [
    0x20000010, 0x20400000, 0x00004000, 0x20404010,
    0x20400000, 0x00000010, 0x20404010, 0x00400000,
    0x20004000, 0x00404010, 0x00400000, 0x20000010,
    0x00400010, 0x20004000, 0x20000000, 0x00004010,
    0x00000000, 0x00400010, 0x20004010, 0x00004000,
    0x00404000, 0x20004010, 0x00000010, 0x20400010,
    0x20400010, 0x00000000, 0x00404010, 0x20404000,
    0x00004010, 0x00404000, 0x20404000, 0x20000000,
    0x20004000, 0x00000010, 0x20400010, 0x00404000,
    0x20404010, 0x00400000, 0x00004010, 0x20000010,
    0x00400000, 0x20004000, 0x20000000, 0x00004010,
    0x20000010, 0x20404010, 0x00404000, 0x20400000,
    0x00404010, 0x20404000, 0x00000000, 0x20400010,
    0x00000010, 0x00004000, 0x20400000, 0x00404010,
    0x00004000, 0x00400010, 0x20004010, 0x00000000,
    0x20404000, 0x20000000, 0x00400010, 0x20004010]"

definition SP7 :: "'u::len word list" where
  "SP7 = [
    0x00200000, 0x04200002, 0x04000802, 0x00000000,
    0x00000800, 0x04000802, 0x00200802, 0x04200800,
    0x04200802, 0x00200000, 0x00000000, 0x04000002,
    0x00000002, 0x04000000, 0x04200002, 0x00000802,
    0x04000800, 0x00200802, 0x00200002, 0x04000800,
    0x04000002, 0x04200000, 0x04200800, 0x00200002,
    0x04200000, 0x00000800, 0x00000802, 0x04200802,
    0x00200800, 0x00000002, 0x04000000, 0x00200800,
    0x04000000, 0x00200800, 0x00200000, 0x04000802,
    0x04000802, 0x04200002, 0x04200002, 0x00000002,
    0x00200002, 0x04000000, 0x04000800, 0x00200000,
    0x04200800, 0x00000802, 0x00200802, 0x04200800,
    0x00000802, 0x04000002, 0x04200802, 0x04200000,
    0x00200800, 0x00000000, 0x00000002, 0x04200802,
    0x00000000, 0x00200802, 0x04200000, 0x00000800,
    0x04000002, 0x04000800, 0x00000800, 0x00200002]"

definition SP8 :: "'u::len word list" where
  "SP8 = [
    0x10001040, 0x00001000, 0x00040000, 0x10041040,
    0x10000000, 0x10001040, 0x00000040, 0x10000000,
    0x00040040, 0x10040000, 0x10041040, 0x00041000,
    0x10041000, 0x00041040, 0x00001000, 0x00000040,
    0x10040000, 0x10000040, 0x10001000, 0x00001040,
    0x00041000, 0x00040040, 0x10040040, 0x10041000,
    0x00001040, 0x00000000, 0x00000000, 0x10040040,
    0x10000040, 0x10001000, 0x00041040, 0x00040000,
    0x00041040, 0x00040000, 0x10041000, 0x00001000,
    0x00000040, 0x10040040, 0x00001000, 0x00041040,
    0x10001000, 0x00000040, 0x10000040, 0x10040000,
    0x10040040, 0x10000000, 0x00040000, 0x10001040,
    0x00000000, 0x10041040, 0x00040040, 0x10000040,
    0x10040000, 0x10001000, 0x10001040, 0x00000000,
    0x10041040, 0x00041000, 0x00041000, 0x00001040,
    0x00001040, 0x00040040, 0x10000000, 0x10041000]"

subsection \<open>The key registers and the key schedule\<close>

record 'w des_keys =
  KnL :: "'w list"
  KnR :: "'w list"
  Kn3 :: "'w list"

datatype des_mode = EN0 | DE1

definition cpkey :: "'w des_keys \<Rightarrow> 'w list" where
  "cpkey st = KnL st"

definition usekey :: "'w des_keys \<Rightarrow> 'w list \<Rightarrow> 'w des_keys" where
  "usekey st src = st\<lparr>KnL := take 32 src\<rparr>"

fun cookey_dough :: "'u::len word list \<Rightarrow> 'u word list" where
  "cookey_dough (raw0 # raw1 # raws) =
     (push_bit 6 (raw0 AND 0x00fc0000) OR push_bit 10 (raw0 AND 0x00000fc0) OR
        drop_bit 10 (raw1 AND 0x00fc0000) OR drop_bit 6 (raw1 AND 0x00000fc0)) #
     (push_bit 12 (raw0 AND 0x0003f000) OR push_bit 16 (raw0 AND 0x0000003f) OR
        drop_bit 4 (raw1 AND 0x0003f000) OR (raw1 AND 0x0000003f)) # cookey_dough raws"
| "cookey_dough _ = []"

definition cookey :: "'u::len word des_keys \<Rightarrow> 'u word list \<Rightarrow> 'u word des_keys" where
  "cookey st raw1 = usekey st (cookey_dough raw1)"

definition deskey_pc1m :: "byte list \<Rightarrow> byte list" where
  "deskey_pc1m key = map (\<lambda>l. if ucast (key ! (l div 8)) AND bytebit ! (l mod 8) \<noteq> 0 then 1 else 0) pc1"

definition deskey_pcr :: "byte list \<Rightarrow> nat \<Rightarrow> byte list" where
  "deskey_pcr pc1m i =
     map (\<lambda>j. let l = j + totrot ! i in if l < 28 then pc1m ! l else pc1m ! (l - 28)) [0..<28] @
     map (\<lambda>j. let l = j + totrot ! i in if l < 56 then pc1m ! l else pc1m ! (l - 28)) [28..<56]"

definition deskey_kn :: "byte list \<Rightarrow> 'u::len word \<times> 'u word" where
  "deskey_kn pcr = foldl (\<lambda>(km, kn) j.
     (if pcr ! (pc2 ! j) \<noteq> 0 then km OR bigbyte ! j else km,
      if pcr ! (pc2 ! (j + 24)) \<noteq> 0 then kn OR bigbyte ! j else kn)) (0, 0) [0..<24]"

definition deskey_schedule :: "byte list \<Rightarrow> des_mode \<Rightarrow> 'u::len word list" where
  "deskey_schedule key edf =
     (let pc1m = deskey_pc1m key
      in foldl (\<lambda>kn i. let m = (case edf of DE1 \<Rightarrow> 2 * (15 - i) | EN0 \<Rightarrow> 2 * i); n = m + 1;
                          (km, kn') = deskey_kn (deskey_pcr pc1m i)
                      in kn[m := km, n := kn']) (replicate 32 0) [0..<16])"

definition deskey :: "'u::len word des_keys \<Rightarrow> byte list \<Rightarrow> des_mode \<Rightarrow> 'u word des_keys" where
  "deskey st key edf = cookey st (deskey_schedule key edf)"

subsection \<open>The block cipher\<close>

definition scrunch :: "byte list \<Rightarrow> 'u::len word \<times> 'u word" where
  "scrunch b =
     (push_bit 24 (ucast (b ! 0)) OR push_bit 16 (ucast (b ! 1)) OR push_bit 8 (ucast (b ! 2)) OR ucast (b ! 3),
      push_bit 24 (ucast (b ! 4)) OR push_bit 16 (ucast (b ! 5)) OR push_bit 8 (ucast (b ! 6)) OR ucast (b ! 7))"

definition unscrun :: "'u::len word \<times> 'u word \<Rightarrow> byte list" where
  "unscrun = (\<lambda>(l, r). [
     ucast (drop_bit 24 l AND 0xff), ucast (drop_bit 16 l AND 0xff), ucast (drop_bit 8 l AND 0xff), ucast (l AND 0xff),
     ucast (drop_bit 24 r AND 0xff), ucast (drop_bit 16 r AND 0xff), ucast (drop_bit 8 r AND 0xff), ucast (r AND 0xff)])"

text \<open>
  The statement triple \<open>work = ((a >> n) ^ b) & m; b ^= work; a ^= (work << n)\<close> that the two
  permutations of \<open>desfunc\<close> repeat.
\<close>

definition swapmove :: "nat \<Rightarrow> 'u::len word \<Rightarrow> 'u word \<times> 'u word \<Rightarrow> 'u word \<times> 'u word" where
  "swapmove n m = (\<lambda>(a, b). let work = (drop_bit n a XOR b) AND m in (a XOR push_bit n work, b XOR work))"

definition desfunc_ip :: "'u::len word \<times> 'u word \<Rightarrow> 'u word \<times> 'u word" where
  "desfunc_ip = (\<lambda>(leftt, right).
     let (leftt, right) = swapmove 4 0x0f0f0f0f (leftt, right);
         (leftt, right) = swapmove 16 0x0000ffff (leftt, right);
         (right, leftt) = swapmove 2 0x33333333 (right, leftt);
         (right, leftt) = swapmove 8 0x00ff00ff (right, leftt);
         right = (push_bit 1 right OR (drop_bit 31 right AND 1)) AND 0xffffffff;
         work = (leftt XOR right) AND 0xaaaaaaaa;
         leftt = leftt XOR work;
         right = right XOR work;
         leftt = (push_bit 1 leftt OR (drop_bit 31 leftt AND 1)) AND 0xffffffff
     in (leftt, right))"

text \<open>The value \<open>fval\<close> of a half round.\<close>

definition des_fval :: "'u::len word \<Rightarrow> 'u word \<Rightarrow> 'u word \<Rightarrow> 'u word" where
  "des_fval x k0 k1 =
     (let work = (push_bit 28 x OR drop_bit 4 x) XOR k0;
          fval = SP7 ! unat (work AND 0x3f) OR SP5 ! unat (drop_bit 8 work AND 0x3f) OR
            SP3 ! unat (drop_bit 16 work AND 0x3f) OR SP1 ! unat (drop_bit 24 work AND 0x3f);
          work = x XOR k1
      in fval OR SP8 ! unat (work AND 0x3f) OR SP6 ! unat (drop_bit 8 work AND 0x3f) OR
            SP4 ! unat (drop_bit 16 work AND 0x3f) OR SP2 ! unat (drop_bit 24 work AND 0x3f))"

fun desfunc_rounds :: "'u::len word list \<Rightarrow> 'u word \<times> 'u word \<Rightarrow> 'u word \<times> 'u word" where
  "desfunc_rounds (k0 # k1 # k2 # k3 # keys) (leftt, right) =
     (let leftt = leftt XOR des_fval right k0 k1;
          right = right XOR des_fval leftt k2 k3
      in desfunc_rounds keys (leftt, right))"
| "desfunc_rounds _ lr = lr"

definition desfunc_fp :: "'u::len word \<times> 'u word \<Rightarrow> 'u word \<times> 'u word" where
  "desfunc_fp = (\<lambda>(leftt, right).
     let right = push_bit 31 right OR drop_bit 1 right;
         work = (leftt XOR right) AND 0xaaaaaaaa;
         leftt = leftt XOR work;
         right = right XOR work;
         leftt = push_bit 31 leftt OR drop_bit 1 leftt;
         (leftt, right) = swapmove 8 0x00ff00ff (leftt, right);
         (leftt, right) = swapmove 2 0x33333333 (leftt, right);
         (right, leftt) = swapmove 16 0x0000ffff (right, leftt);
         (right, leftt) = swapmove 4 0x0f0f0f0f (right, leftt)
     in (right, leftt))"

definition desfunc :: "'u::len word \<times> 'u word \<Rightarrow> 'u word list \<Rightarrow> 'u word \<times> 'u word" where
  "desfunc block keys = desfunc_fp (desfunc_rounds (take 32 keys) (desfunc_ip block))"

definition des :: "'u::len word des_keys \<Rightarrow> byte list \<Rightarrow> byte list" where
  "des st inblock = unscrun (desfunc (scrunch inblock) (KnL st))"

subsection \<open>Double and triple length keys\<close>

definition des2key :: "'u::len word des_keys \<Rightarrow> byte list \<Rightarrow> des_mode \<Rightarrow> 'u word des_keys" where
  "des2key st hexkey mode =
     (let revmod = (case mode of EN0 \<Rightarrow> DE1 | DE1 \<Rightarrow> EN0);
          st = deskey st (drop 8 hexkey) revmod;
          st = st\<lparr>KnR := cpkey st\<rparr>;
          st = deskey st hexkey mode
      in st\<lparr>Kn3 := cpkey st\<rparr>)"

definition des3key :: "'u::len word des_keys \<Rightarrow> byte list \<Rightarrow> des_mode \<Rightarrow> 'u word des_keys" where
  "des3key st hexkey mode =
     (let (revmod, first, third) = (case mode of
            EN0 \<Rightarrow> (DE1, hexkey, drop 16 hexkey)
          | DE1 \<Rightarrow> (EN0, drop 16 hexkey, hexkey));
          st = deskey st (drop 8 hexkey) revmod;
          st = st\<lparr>KnR := cpkey st\<rparr>;
          st = deskey st third mode;
          st = st\<lparr>Kn3 := cpkey st\<rparr>
      in deskey st first mode)"

definition cp3key :: "'w des_keys \<Rightarrow> 'w list" where
  "cp3key st = cpkey st @ KnR st @ Kn3 st"

definition use3key :: "'w des_keys \<Rightarrow> 'w list \<Rightarrow> 'w des_keys" where
  "use3key st src =
     (let st = usekey st src
      in st\<lparr>KnR := take 32 (drop 32 src), Kn3 := take 32 (drop 64 src)\<rparr>)"

definition Ddes :: "'u::len word des_keys \<Rightarrow> byte list \<Rightarrow> byte list" where
  "Ddes st src =
     (let work = scrunch src;
          work = desfunc work (KnL st);
          work = desfunc work (KnR st);
          work = desfunc work (Kn3 st)
      in unscrun work)"

definition D2des :: "'u::len word des_keys \<Rightarrow> byte list \<Rightarrow> byte list" where
  "D2des st src =
     (let (l0, l1) = desfunc (scrunch src) (KnL st);
          (r0, r1) = desfunc (scrunch (drop 8 src)) (KnL st);
          (l1, r0) = (r0, l1);
          (l0, l1) = desfunc (l0, l1) (KnR st);
          (r0, r1) = desfunc (r0, r1) (KnR st);
          (l1, r0) = (r0, l1);
          leftt = desfunc (l0, l1) (Kn3 st);
          right = desfunc (r0, r1) (Kn3 st)
      in unscrun leftt @ unscrun right)"

definition D3des :: "'u::len word des_keys \<Rightarrow> byte list \<Rightarrow> byte list" where
  "D3des st src =
     (let (l0, l1) = desfunc (scrunch src) (KnL st);
          (m0, m1) = desfunc (scrunch (drop 8 src)) (KnL st);
          (r0, r1) = desfunc (scrunch (drop 16 src)) (KnL st);
          (l1, m0) = (m0, l1);
          (m1, r0) = (r0, m1);
          (l0, l1) = desfunc (l0, l1) (KnR st);
          (m0, m1) = desfunc (m0, m1) (KnR st);
          (r0, r1) = desfunc (r0, r1) (KnR st);
          (l1, m0) = (m0, l1);
          (m1, r0) = (r0, m1);
          leftt = desfunc (l0, l1) (Kn3 st);
          middl = desfunc (m0, m1) (Kn3 st);
          right = desfunc (r0, r1) (Kn3 st)
      in unscrun leftt @ unscrun middl @ unscrun right)"

subsection \<open>Keys from passwords\<close>

text \<open>
  The inner loop XORs up to \<open>n\<close> characters of the password into the key; the outer loop
  encrypts the key in place after every such run. The password is overwritten with zeros.
\<close>

fun xor_password :: "byte list \<Rightarrow> byte list \<Rightarrow> byte list" where
  "xor_password (k # ks) (a # as) = (k XOR (a AND 0x7f)) # xor_password ks as"
| "xor_password ks [] = ks"
| "xor_password [] as = []"

function makekey_loop :: "(byte list \<Rightarrow> byte list) \<Rightarrow> nat \<Rightarrow> byte list \<Rightarrow> bool \<Rightarrow> byte list \<Rightarrow> byte list" where
  "makekey_loop cipher n aptr first kptr =
     (if aptr \<noteq> [] \<or> first
      then makekey_loop cipher n (drop (Suc n) aptr) False
             (cipher (xor_password kptr (take (Suc n) aptr)))
      else kptr)"
  by pat_completeness auto
termination
  by (relation "measure (\<lambda>(cipher, n, aptr, first, kptr). length aptr + (if first then 1 else 0))") auto

declare makekey_loop.simps [simp del]

definition makekey :: "'u::len word des_keys \<Rightarrow> byte list \<Rightarrow> 'u word des_keys \<times> byte list \<times> byte list" where
  "makekey st aptr =
     (let savek = cp3key st;
          st = des2key st Df_Key EN0;
          kptr = makekey_loop (Ddes st) 7 aptr True (take 8 Df_Key)
      in (use3key st savek, kptr, replicate (length aptr) 0))"

definition make2key :: "'u::len word des_keys \<Rightarrow> byte list \<Rightarrow> 'u word des_keys \<times> byte list \<times> byte list" where
  "make2key st aptr =
     (let savek = cp3key st;
          st = des2key st Df_Key EN0;
          kptr = makekey_loop (D2des st) 15 aptr True (take 16 Df_Key)
      in (use3key st savek, kptr, replicate (length aptr) 0))"

definition make3key :: "'u::len word des_keys \<Rightarrow> byte list \<Rightarrow> 'u word des_keys \<times> byte list \<times> byte list" where
  "make3key st aptr =
     (let savek = cp3key st;
          st = des3key st Df_Key EN0;
          kptr = makekey_loop (D3des st) 23 aptr True (take 24 Df_Key)
      in (use3key st savek, kptr, replicate (length aptr) 0))"

subsection \<open>The key schedule of decryption is that of encryption backwards\<close>

fun rev_pairs :: "'a list \<Rightarrow> 'a list" where
  "rev_pairs (a # b # xs) = rev_pairs xs @ [a, b]"
| "rev_pairs xs = xs"

lemma upt_16: "[0..<16] = [0, 1, 2, 3, 4, 5, 6, 7, 8, 9, 10, 11, 12, 13, 14, 15 :: nat]"
  by (simp add: upt_rec)

lemma schedule_store:
  "foldl (\<lambda>kn i. kn[2 * i := fst (g i), Suc (2 * i) := snd (g i)]) (replicate 32 0) [0..<16]
     = concat (map (\<lambda>i. [fst (g i), snd (g i)]) [0..<16])"
  "foldl (\<lambda>kn i. kn[2 * (15 - i) := fst (g i), Suc (2 * (15 - i)) := snd (g i)]) (replicate 32 0) [0..<16]
     = rev_pairs (concat (map (\<lambda>i. [fst (g i), snd (g i)]) [0..<16]))"
  by (simp_all add: upt_16 replicate_numeral)

lemma deskey_schedule_DE1: "deskey_schedule key DE1 = rev_pairs (deskey_schedule key EN0)"
  by (simp add: deskey_schedule_def Let_def split_beta schedule_store)

lemma length_deskey_schedule [len_simps]: "length (deskey_schedule key EN0) = 32"
  by (simp add: deskey_schedule_def Let_def split_beta schedule_store upt_16)

lemma cookey_append:
  "even (length xs) \<Longrightarrow> cookey_dough (xs @ ys) = cookey_dough xs @ cookey_dough ys"
  by (induction xs rule: cookey_dough.induct) simp_all

lemma length_cookey [len_simps]: "even (length xs) \<Longrightarrow> length (cookey_dough xs) = length xs"
  by (induction xs rule: cookey_dough.induct) simp_all

lemma length_rev_pairs [len_simps]: "length (rev_pairs xs) = length xs"
  by (induction xs rule: rev_pairs.induct) simp_all

lemma cookey_rev_pairs: "even (length xs) \<Longrightarrow> cookey_dough (rev_pairs xs) = rev_pairs (cookey_dough xs)"
  by (induction xs rule: cookey_dough.induct) (simp_all add: cookey_append len_simps)

definition des_cooked :: "byte list \<Rightarrow> 'u::len word list" where
  "des_cooked key = cookey_dough (deskey_schedule key EN0)"

lemma length_des_cooked [len_simps]: "length (des_cooked key) = 32"
  by (simp add: des_cooked_def len_simps)

lemma deskey_cooked:
  "deskey st key EN0 = st\<lparr>KnL := des_cooked key\<rparr>"
  "deskey st key DE1 = st\<lparr>KnL := rev_pairs (des_cooked key)\<rparr>"
  by (simp_all add: deskey_def cookey_def usekey_def des_cooked_def deskey_schedule_DE1 cookey_rev_pairs len_simps)

subsection \<open>The permutations of a block\<close>

lemma swapmove_swapmove:
  fixes a b :: u32
  assumes "drop_bit n (push_bit n m) = m"
  shows "swapmove n m (swapmove n m (a, b)) = (a, b)"
proof -
  define w where "w = (drop_bit n a XOR b) AND m"
  have "drop_bit n (push_bit n w) = w"
  proof (rule bit_word_eqI)
    fix i assume "i < LENGTH(32)"
    have "bit (drop_bit n (push_bit n m)) i = bit m i" by (simp only: assms)
    then show "bit (drop_bit n (push_bit n w)) i = bit w i"
      by (auto simp: bit_simps w_def)
  qed
  then have "drop_bit n (a XOR push_bit n w) XOR (b XOR w) = drop_bit n a XOR b"
    by (simp add: drop_bit_xor_word xor.assoc xor.left_commute [of w] xor_simps)
  then have again: "(drop_bit n (a XOR push_bit n w) XOR (b XOR w)) AND m = w"
    by (simp only: w_def)
  have "swapmove n m (a, b) = (a XOR push_bit n w, b XOR w)"
    by (simp only: swapmove_def Let_def split_conv w_def)
  moreover have "swapmove n m (a XOR push_bit n w, b XOR w) = (a, b)"
    by (simp only: swapmove_def Let_def split_conv again xor_cancel_right)
  ultimately show ?thesis by simp
qed

lemma and_ffffffff: "(x :: u32) AND 0xffffffff = x"
  by (simp only: mask_simps take_bit_word_eq_self len_num1 len_num0 len_bit0)

lemma bit_rotl1:
  "bit (push_bit 1 x OR (drop_bit 31 x AND 1) :: u32) i =
     (if i = 0 then bit x 31 else i < 32 \<and> bit x (i - 1))"
  by (cases i) (simp_all only: bit_or_iff bit_and_iff bit_push_bit_iff bit_drop_bit_eq bit_1_iff, auto)

lemma bit_rotr1:
  "bit (push_bit 31 x OR drop_bit 1 x :: u32) i =
     (if i = 31 then bit x 0 else i < 31 \<and> bit x (Suc i))"
  by (simp only: bit_or_iff bit_push_bit_iff bit_drop_bit_eq) (auto dest: bit_imp_le_length)

lemma rotr1_rotl1: "push_bit 31 (push_bit 1 x OR (drop_bit 31 x AND 1)) OR
    drop_bit 1 (push_bit 1 x OR (drop_bit 31 x AND 1)) = (x :: u32)"
  by (rule bit_word_eqI) (simp only: bit_rotl1 bit_rotr1, auto split: if_splits)

lemma rotl1_rotr1: "push_bit 1 (push_bit 31 x OR drop_bit 1 x) OR
    (drop_bit 31 (push_bit 31 x OR drop_bit 1 x) AND 1) = (x :: u32)"
  by (rule bit_word_eqI) (simp only: bit_rotl1 bit_rotr1, auto split: if_splits)

lemma swapmove_inverse:
  "swapmove 4 0x0f0f0f0f (swapmove 4 0x0f0f0f0f p) = (p :: u32 \<times> u32)"
  "swapmove 16 0x0000ffff (swapmove 16 0x0000ffff p) = (p :: u32 \<times> u32)"
  "swapmove 2 0x33333333 (swapmove 2 0x33333333 p) = (p :: u32 \<times> u32)"
  "swapmove 8 0x00ff00ff (swapmove 8 0x00ff00ff p) = (p :: u32 \<times> u32)"
  by (cases p; simp add: swapmove_swapmove)+

lemma swapmove_back:
  "swapmove 4 0x0f0f0f0f p = q \<Longrightarrow> swapmove 4 0x0f0f0f0f q = (p :: u32 \<times> u32)"
  "swapmove 16 0x0000ffff p = q \<Longrightarrow> swapmove 16 0x0000ffff q = (p :: u32 \<times> u32)"
  "swapmove 2 0x33333333 p = q \<Longrightarrow> swapmove 2 0x33333333 q = (p :: u32 \<times> u32)"
  "swapmove 8 0x00ff00ff p = q \<Longrightarrow> swapmove 8 0x00ff00ff q = (p :: u32 \<times> u32)"
  using swapmove_inverse by blast+

lemma xor_mask_swap:
  "((a XOR ((a XOR b) AND m)) XOR (b XOR ((a XOR b) AND m))) AND m = (a XOR b) AND (m :: u32)"
  by (rule bit_word_eqI) (auto simp: bit_simps)

lemma ip_fp: "desfunc_ip (desfunc_fp (l, r)) = (r, l :: u32)"
proof -
  define r1 where "r1 = push_bit 31 r OR drop_bit 1 r"
  define w where "w = (l XOR r1) AND 0xaaaaaaaa"
  define l1 where "l1 = push_bit 31 (l XOR w) OR drop_bit 1 (l XOR w)"
  obtain l2 r2 where s8: "swapmove 8 0x00ff00ff (l1, r1 XOR w) = (l2, r2)" by fastforce
  obtain l3 r3 where s2: "swapmove 2 0x33333333 (l2, r2) = (l3, r3)" by fastforce
  obtain r4 l4 where s16: "swapmove 16 0x0000ffff (r3, l3) = (r4, l4)" by fastforce
  obtain r5 l5 where s4: "swapmove 4 0x0f0f0f0f (r4, l4) = (r5, l5)" by fastforce
  have fp: "desfunc_fp (l, r) = (r5, l5)"
    by (simp only: desfunc_fp_def Let_def split_conv r1_def [symmetric] w_def [symmetric] l1_def [symmetric] s8 s2 s16 s4)
  have work: "((r1 XOR w) XOR (l XOR w)) AND 0xaaaaaaaa = w"
    using xor_mask_swap [where a = r1 and b = l and m = "0xaaaaaaaa"] by (simp only: w_def xor.commute [of l r1])
  have l1: "push_bit 1 l1 OR (drop_bit 31 l1 AND 1) = l XOR w" by (simp only: l1_def rotl1_rotr1)
  have r1: "push_bit 1 r1 OR (drop_bit 31 r1 AND 1) = r" by (simp only: r1_def rotl1_rotr1)
  show ?thesis
    by (simp only: fp desfunc_ip_def Let_def split_conv swapmove_back(1) [OF s4] swapmove_back(2) [OF s16]
        swapmove_back(3) [OF s2] swapmove_back(4) [OF s8] and_ffffffff l1 work xor_cancel_right r1)
qed

lemma fp_ip: "desfunc_fp (snd (desfunc_ip b), fst (desfunc_ip b)) = (b :: u32 \<times> u32)"
proof -
  obtain l r where b: "b = (l, r)" by fastforce
  obtain l1 r1 where s4: "swapmove 4 0x0f0f0f0f (l, r) = (l1, r1)" by fastforce
  obtain l2 r2 where s16: "swapmove 16 0x0000ffff (l1, r1) = (l2, r2)" by fastforce
  obtain r3 l3 where s2: "swapmove 2 0x33333333 (r2, l2) = (r3, l3)" by fastforce
  obtain r4 l4 where s8: "swapmove 8 0x00ff00ff (r3, l3) = (r4, l4)" by fastforce
  define r5 where "r5 = push_bit 1 r4 OR (drop_bit 31 r4 AND 1)"
  define w where "w = (l4 XOR r5) AND 0xaaaaaaaa"
  define l5 where "l5 = push_bit 1 (l4 XOR w) OR (drop_bit 31 (l4 XOR w) AND 1)"
  have ip: "desfunc_ip b = (l5, r5 XOR w)"
    by (simp only: b desfunc_ip_def Let_def split_conv s4 s16 s2 s8 and_ffffffff
        r5_def [symmetric] w_def [symmetric] l5_def [symmetric])
  have l5: "push_bit 31 l5 OR drop_bit 1 l5 = l4 XOR w" by (simp only: l5_def rotr1_rotl1)
  have r5: "push_bit 31 r5 OR drop_bit 1 r5 = r4" by (simp only: r5_def rotr1_rotl1)
  have work: "((r5 XOR w) XOR (l4 XOR w)) AND 0xaaaaaaaa = w"
    using xor_mask_swap [where a = r5 and b = l4 and m = "0xaaaaaaaa"] by (simp only: w_def xor.commute [of l4 r5])
  show ?thesis
    by (simp only: ip fst_conv snd_conv desfunc_fp_def Let_def split_conv l5 work xor_cancel_right r5
        swapmove_back(1) [OF s4] swapmove_back(2) [OF s16] swapmove_back(3) [OF s2] swapmove_back(4) [OF s8]) (simp only: b)
qed

subsection \<open>The rounds run backwards\<close>

lemma rounds_append:
  "length ks mod 4 = 0 \<Longrightarrow> desfunc_rounds (ks @ ks') lr = desfunc_rounds ks' (desfunc_rounds ks lr)"
proof (induction ks lr rule: desfunc_rounds.induct)
  case (1 k0 k1 k2 k3 keys leftt right)
  then show ?case by (simp add: Let_def)
qed (simp_all)

lemma rounds_reverse:
  "length ks mod 4 = 0 \<Longrightarrow> desfunc_rounds ks (l, r) = (l', r') \<Longrightarrow>
     desfunc_rounds (rev_pairs ks) (r', l') = (r, l)"
proof (induction ks "(l, r)" arbitrary: l r rule: desfunc_rounds.induct)
  case (1 k0 k1 k2 k3 keys l r)
  define a b where "a = l XOR des_fval r k0 k1" and "b = r XOR des_fval a k2 k3"
  have "desfunc_rounds (rev_pairs keys) (r', l') = (b, a)"
    using 1 by (simp add: Let_def a_def b_def)
  moreover have "length (rev_pairs keys) mod 4 = 0" using "1.prems" by (simp add: len_simps)
  ultimately show ?case
    by (simp add: rounds_append Let_def) (simp add: b_def a_def xor_simps)
qed simp_all

lemma desfunc_reverse:
  assumes "length keys = 32"
  shows "desfunc (desfunc b keys) (rev_pairs keys) = (b :: u32 \<times> u32)"
proof -
  obtain l r where ip: "desfunc_ip b = (l, r)" by fastforce
  obtain l' r' where rounds: "desfunc_rounds keys (l, r) = (l', r')" by fastforce
  have "desfunc_ip (desfunc b keys) = (r', l')"
    using assms by (simp add: desfunc_def ip rounds ip_fp)
  moreover have "desfunc_rounds (rev_pairs keys) (r', l') = (r, l)"
    by (rule rounds_reverse [OF _ rounds]) (simp add: assms)
  moreover have "desfunc_fp (r, l) = b" using fp_ip [of b] by (simp add: ip)
  ultimately show ?thesis using assms by (simp add: desfunc_def len_simps)
qed

lemma rev_pairs_append: "even (length xs) \<Longrightarrow> rev_pairs (xs @ ys) = rev_pairs ys @ rev_pairs xs"
  by (induction xs rule: rev_pairs.induct) simp_all

lemma rev_pairs_rev_pairs: "even (length xs) \<Longrightarrow> rev_pairs (rev_pairs xs) = xs"
  by (induction xs rule: rev_pairs.induct) (simp_all add: rev_pairs_append len_simps)

lemma desfunc_reverse':
  assumes "length keys = 32"
  shows "desfunc (desfunc b (rev_pairs keys)) keys = (b :: u32 \<times> u32)"
  using desfunc_reverse [of "rev_pairs keys" b] assms by (simp add: rev_pairs_rev_pairs len_simps)

subsection \<open>The width of unsigned long does not matter\<close>

text \<open>
  The low 32 bits of the cipher's words depend on the low 32 bits of its inputs only: what a
  wider \<open>unsigned long\<close> carries above them is masked out where it could come back.
\<close>

definition low :: "'u::len word \<Rightarrow> u32" where
  "low x = ucast x"

definition low2 :: "'u::len word \<times> 'u word \<Rightarrow> u32 \<times> u32" where
  "low2 = map_prod low low"

lemma bit_low: "32 \<le> LENGTH('u) \<Longrightarrow> bit (low (x :: 'u::len word)) i \<longleftrightarrow> i < 32 \<and> bit x i"
  by (auto simp: low_def bit_simps)

lemma low_xor: "32 \<le> LENGTH('u) \<Longrightarrow> low (x XOR y :: 'u::len word) = low x XOR low y"
  and low_or: "32 \<le> LENGTH('u) \<Longrightarrow> low (x OR y :: 'u::len word) = low x OR low y"
  and low_and: "32 \<le> LENGTH('u) \<Longrightarrow> low (x AND y :: 'u::len word) = low x AND low y"
  by (rule bit_word_eqI; auto simp: bit_low bit_xor_iff bit_or_iff bit_and_iff)+

lemma low_push: "32 \<le> LENGTH('u) \<Longrightarrow> low (push_bit n x :: 'u::len word) = push_bit n (low x)"
  by (rule bit_word_eqI) (auto simp: bit_low bit_push_bit_iff)

lemma low_swapmove:
  assumes "32 \<le> LENGTH('u)" and "m AND push_bit (32 - n) (mask n) = 0" and "n \<le> 32"
  shows "low2 (swapmove n (ucast m) ab :: 'u::len word \<times> 'u word) = swapmove n m (low2 ab)"
proof -
  obtain a b where ab: "ab = (a, b)" by fastforce
  have m: "n + i < 32" if "bit m i" for i
  proof (rule ccontr)
    assume "\<not> n + i < 32"
    moreover have "i < 32" using that bit_imp_le_length by force
    ultimately have "bit (m AND push_bit (32 - n) (mask n)) i"
      using that \<open>n \<le> 32\<close> by (auto simp: bit_and_iff bit_push_bit_iff bit_mask_iff)
    then show False by (simp add: assms(2))
  qed
  have "low ((drop_bit n a XOR b) AND ucast m) = (drop_bit n (low a) XOR low b) AND m"
    using assms(1) m
    by (intro bit_word_eqI) (auto simp: bit_low bit_and_iff bit_xor_iff bit_drop_bit_eq bit_ucast_iff)
  then show ?thesis
    by (simp only: ab swapmove_def low2_def Let_def split_conv map_prod_simp low_xor [OF assms(1)] low_push [OF assms(1)])
qed

lemma low_numeral: "32 \<le> LENGTH('u) \<Longrightarrow> low (numeral n :: 'u::len word) = numeral n"
  by (rule bit_word_eqI) (auto simp: bit_low)

lemma low_rotl1:
  assumes "32 \<le> LENGTH('u)"
  shows "low ((push_bit 1 x OR (drop_bit 31 x AND 1)) AND 0xffffffff :: 'u::len word)
    = (push_bit 1 (low x) OR (drop_bit 31 (low x) AND 1)) AND 0xffffffff"
proof -
  have "low (0xffffffff :: 'u word) = 0xffffffff" using assms by (rule low_numeral)
  moreover have "low (drop_bit 31 x AND 1) = drop_bit 31 (low x) AND 1"
    using assms by (intro bit_word_eqI) (auto simp: bit_low bit_and_iff bit_drop_bit_eq bit_1_iff)
  ultimately show ?thesis by (simp only: low_and [OF assms] low_or [OF assms] low_push [OF assms])
qed

lemma low_swapmoves:
  assumes "32 \<le> LENGTH('u)"
  shows "low2 (swapmove 4 0x0f0f0f0f ab :: 'u::len word \<times> 'u word) = swapmove 4 0x0f0f0f0f (low2 ab)"
    and "low2 (swapmove 16 0x0000ffff ab :: 'u::len word \<times> 'u word) = swapmove 16 0x0000ffff (low2 ab)"
    and "low2 (swapmove 2 0x33333333 ab :: 'u::len word \<times> 'u word) = swapmove 2 0x33333333 (low2 ab)"
    and "low2 (swapmove 8 0x00ff00ff ab :: 'u::len word \<times> 'u word) = swapmove 8 0x00ff00ff (low2 ab)"
  using low_swapmove [of "0x0f0f0f0f" 4 ab] low_swapmove [of "0x0000ffff" 16 ab]
    low_swapmove [of "0x33333333" 2 ab] low_swapmove [of "0x00ff00ff" 8 ab] assms
  by (simp_all add: mask_eq_exp_minus_1)

lemma low2_pair: "low2 (a, b) = (low a, low b)"
  by (simp add: low2_def)

lemma low_ip:
  assumes L: "32 \<le> LENGTH('u)"
  shows "low2 (desfunc_ip ab :: 'u::len word \<times> 'u word) = desfunc_ip (low2 ab)"
proof -
  obtain a b where ab: "ab = (a, b)" by fastforce
  obtain l1 r1 where s4: "swapmove 4 0x0f0f0f0f (a, b) = (l1, r1)" by fastforce
  obtain l2 r2 where s16: "swapmove 16 0x0000ffff (l1, r1) = (l2, r2)" by fastforce
  obtain r3 l3 where s2: "swapmove 2 0x33333333 (r2, l2) = (r3, l3)" by fastforce
  obtain r4 l4 where s8: "swapmove 8 0x00ff00ff (r3, l3) = (r4, l4)" by fastforce
  define r5 where "r5 = (push_bit 1 r4 OR (drop_bit 31 r4 AND 1)) AND 0xffffffff"
  define w where "w = (l4 XOR r5) AND 0xaaaaaaaa"
  have e4: "swapmove 4 0x0f0f0f0f (low a, low b) = (low l1, low r1)"
    using low_swapmoves(1) [OF L, of "(a, b)"] s4 by (simp only: low2_pair)
  have e16: "swapmove 16 0x0000ffff (low l1, low r1) = (low l2, low r2)"
    using low_swapmoves(2) [OF L, of "(l1, r1)"] s16 by (simp only: low2_pair)
  have e2: "swapmove 2 0x33333333 (low r2, low l2) = (low r3, low l3)"
    using low_swapmoves(3) [OF L, of "(r2, l2)"] s2 by (simp only: low2_pair)
  have e8: "swapmove 8 0x00ff00ff (low r3, low l3) = (low r4, low l4)"
    using low_swapmoves(4) [OF L, of "(r3, l3)"] s8 by (simp only: low2_pair)
  have r5: "(push_bit 1 (low r4) OR (drop_bit 31 (low r4) AND 1)) AND 0xffffffff = low r5"
    by (simp only: r5_def low_rotl1 [OF L])
  have w: "(low l4 XOR low r5) AND 0xaaaaaaaa = low w"
    by (simp only: w_def low_xor [OF L] low_and [OF L] low_numeral [OF L])
  show ?thesis
    by (simp only: ab low2_pair desfunc_ip_def Let_def split_conv s4 s16 s2 s8 e4 e16 e2 e8
        r5_def [symmetric] w_def [symmetric] r5 w low_rotl1 [OF L] low_xor [OF L])
qed

text \<open>The converse: what has no bits above the lower 32.\<close>

definition up :: "u32 \<Rightarrow> 'u::len word" where
  "up x = ucast x"

lemma bit_up: "32 \<le> LENGTH('u) \<Longrightarrow> bit (up x :: 'u::len word) i \<longleftrightarrow> bit x i"
  by (auto simp: up_def bit_simps dest: bit_imp_le_length)

lemma low_up: "32 \<le> LENGTH('u) \<Longrightarrow> low (up x :: 'u::len word) = x"
  by (rule bit_word_eqI) (auto simp: bit_low bit_up)

lemma up_or: "32 \<le> LENGTH('u) \<Longrightarrow> (up (x OR y) :: 'u::len word) = up x OR up y"
  and up_xor: "32 \<le> LENGTH('u) \<Longrightarrow> (up (x XOR y) :: 'u::len word) = up x XOR up y"
  by (rule bit_word_eqI; auto simp: bit_up bit_or_iff bit_xor_iff)+

lemma up_numeral_and:
  "32 \<le> LENGTH('u) \<Longrightarrow> (up (low x AND 0xffffffff) :: 'u::len word) = x AND 0xffffffff"
  "32 \<le> LENGTH('u) \<Longrightarrow> (up (low x AND 0xaaaaaaaa) :: 'u::len word) = x AND 0xaaaaaaaa"
proof -
  have m: "(0xffffffff :: 'b::len word) = mask 32" by (simp add: mask_eq_exp_minus_1)
  assume L: "32 \<le> LENGTH('u)"
  show 1: "(up (low x AND 0xffffffff) :: 'u::len word) = x AND 0xffffffff" for x :: "'u word"
    unfolding m by (rule bit_word_eqI) (auto simp: bit_low bit_up bit_and_iff bit_mask_iff L)
  have "x AND 0xaaaaaaaa = (x AND 0xaaaaaaaa) AND 0xffffffff" by (simp add: and.assoc)
  also have "\<dots> = up (low (x AND 0xaaaaaaaa) AND 0xffffffff)" by (rule 1 [symmetric])
  also have "\<dots> = up (low x AND 0xaaaaaaaa)" by (simp only: low_and [OF L] low_numeral [OF L] and_ffffffff)
  finally show "(up (low x AND 0xaaaaaaaa) :: 'u::len word) = x AND 0xaaaaaaaa" by (rule sym)
qed

lemma low_drop_up: "32 \<le> LENGTH('u) \<Longrightarrow> low (drop_bit n (up x) :: 'u::len word) = drop_bit n x"
  by (rule bit_word_eqI) (auto simp: bit_low bit_up bit_drop_bit_eq dest: bit_imp_le_length)

lemma unat_field_low:
  assumes "32 \<le> LENGTH('u)" and "n \<le> 26"
  shows "unat (drop_bit n (x :: 'u::len word) AND 0x3f) = unat (drop_bit n (low x) AND 0x3f)"
proof (rule bit_eqI)
  fix i
  have m: "(0x3f :: 'b::len word) = mask 6" by (simp add: mask_eq_exp_minus_1)
  show "bit (unat (drop_bit n x AND 0x3f)) i = bit (unat (drop_bit n (low x) AND 0x3f)) i"
    unfolding m using assms
    by (auto simp: bit_unsigned_iff bit_and_iff bit_drop_bit_eq bit_mask_iff bit_low)
qed

lemma table_up: "T = map up S \<Longrightarrow> i < length S \<Longrightarrow> T ! i = up (S ! i)"
  by simp

lemma SP_up:
  assumes "32 \<le> LENGTH('u)"
  shows "(SP1 :: 'u::len word list) = map up SP1" "(SP2 :: 'u::len word list) = map up SP2"
    "(SP3 :: 'u::len word list) = map up SP3" "(SP4 :: 'u::len word list) = map up SP4"
    "(SP5 :: 'u::len word list) = map up SP5" "(SP6 :: 'u::len word list) = map up SP6"
    "(SP7 :: 'u::len word list) = map up SP7" "(SP8 :: 'u::len word list) = map up SP8"
  using assms by (simp_all add: SP1_def SP2_def SP3_def SP4_def SP5_def SP6_def SP7_def SP8_def up_def)

lemma length_SP:
  "length SP1 = 64" "length SP2 = 64" "length SP3 = 64" "length SP4 = 64"
  "length SP5 = 64" "length SP6 = 64" "length SP7 = 64" "length SP8 = 64"
  by (simp_all add: SP1_def SP2_def SP3_def SP4_def SP5_def SP6_def SP7_def SP8_def)

lemma unat_and_3f: "unat ((x :: 'a::len word) AND 0x3f) < 64"
  unfolding unat_and_63 by simp

lemma low_fval:
  assumes L: "32 \<le> LENGTH('u)"
  shows "(des_fval (up x) k0 k1 :: 'u::len word) = up (des_fval x (low k0) (low k1))"
proof -
  have w0: "low ((push_bit 28 (up x) OR drop_bit 4 (up x)) XOR k0) = (push_bit 28 x OR drop_bit 4 x) XOR low k0"
    by (simp only: low_xor [OF L] low_or [OF L] low_push [OF L] low_drop_up [OF L] low_up [OF L])
  have w1: "low (up x XOR k1) = x XOR low k1"
    by (simp only: low_xor [OF L] low_up [OF L])
  note field = unat_field_low [OF L]
  have f0: "unat (w AND 0x3f) = unat (low w AND 0x3f)" for w :: "'u word"
    using field [of 0 w] by simp
  note sp = SP_up [OF L, THEN table_up, unfolded length_SP, OF unat_and_3f]
  show ?thesis
    unfolding des_fval_def Let_def
    by (simp only: field [of 8] field [of 16] field [of 24] numeral_le_iff semiring_norm)
      (simp only: f0 w0 w1 sp up_or [OF L])
qed

definition up2 :: "u32 \<times> u32 \<Rightarrow> 'u::len word \<times> 'u word" where
  "up2 = map_prod up up"

lemma low_rounds:
  assumes L: "32 \<le> LENGTH('u)"
  shows "(desfunc_rounds keys (up2 lr) :: 'u::len word \<times> 'u word) = up2 (desfunc_rounds (map low keys) lr)"
proof (induction "map low keys" lr arbitrary: keys rule: desfunc_rounds.induct)
  case (1 k0 k1 k2 k3 ks l r)
  then obtain a b c d keys' where keys: "keys = a # b # c # d # keys'" by (auto simp: map_eq_Cons_conv Cons_eq_map_conv)
  show ?case
    using 1 by (simp add: keys up2_def Let_def low_fval [OF L] flip: up_xor [OF L])
qed (auto simp: up2_def map_eq_Cons_conv Cons_eq_map_conv)

lemma up_low_mask:
  assumes L: "32 \<le> LENGTH('u)"
  shows "up (low (x AND 0xffffffff)) = (x AND 0xffffffff :: 'u::len word)"
    and "up (low (x AND 0xaaaaaaaa)) = (x AND 0xaaaaaaaa :: 'u::len word)"
  by (simp_all only: low_and [OF L] low_numeral [OF L] up_numeral_and [OF L])

lemma ip_up:
  assumes L: "32 \<le> LENGTH('u)"
  shows "(desfunc_ip b :: 'u::len word \<times> 'u word) = up2 (desfunc_ip (low2 b))"
proof -
  obtain l r where b: "b = (l, r)" by fastforce
  obtain l1 r1 where s4: "swapmove 4 0x0f0f0f0f (l, r) = (l1, r1)" by fastforce
  obtain l2 r2 where s16: "swapmove 16 0x0000ffff (l1, r1) = (l2, r2)" by fastforce
  obtain r3 l3 where s2: "swapmove 2 0x33333333 (r2, l2) = (r3, l3)" by fastforce
  obtain r4 l4 where s8: "swapmove 8 0x00ff00ff (r3, l3) = (r4, l4)" by fastforce
  define rot :: "'u word \<Rightarrow> 'u word" where "rot = (\<lambda>x. (push_bit 1 x OR (drop_bit 31 x AND 1)) AND 0xffffffff)"
  define w where "w = (l4 XOR rot r4) AND 0xaaaaaaaa"
  have ip: "desfunc_ip b = (rot (l4 XOR w), rot r4 XOR w)"
    by (simp only: b desfunc_ip_def Let_def split_conv s4 s16 s2 s8 rot_def w_def)
  have "up (low (rot x)) = rot x" for x by (simp only: rot_def up_low_mask [OF L])
  moreover have "up (low w) = w" by (simp only: w_def up_low_mask [OF L])
  ultimately show ?thesis
    by (simp only: low_ip [OF L, symmetric] ip low2_pair up2_def map_prod_simp low_xor [OF L] up_xor [OF L])
qed

lemma fp_low:
  assumes L: "32 \<le> LENGTH('u)"
  shows "low2 (desfunc_fp (up2 lr) :: 'u::len word \<times> 'u word) = desfunc_fp lr"
proof -
  obtain l r where lr: "lr = (l, r)" by fastforce
  define ul ur where "ul = (up l :: 'u word)" and "ur = (up r :: 'u word)"
  define r1 where "r1 = push_bit 31 ur OR drop_bit 1 ur"
  define w where "w = (ul XOR r1) AND 0xaaaaaaaa"
  define l1 where "l1 = push_bit 31 (ul XOR w) OR drop_bit 1 (ul XOR w)"
  obtain l2 r2 where s8: "swapmove 8 0x00ff00ff (l1, r1 XOR w) = (l2, r2)" by fastforce
  obtain l3 r3 where s2: "swapmove 2 0x33333333 (l2, r2) = (l3, r3)" by fastforce
  obtain r4 l4 where s16: "swapmove 16 0x0000ffff (r3, l3) = (r4, l4)" by fastforce
  obtain r5 l5 where s4: "swapmove 4 0x0f0f0f0f (r4, l4) = (r5, l5)" by fastforce
  have rot: "low (push_bit 31 (up x) OR drop_bit 1 (up x) :: 'u word) = push_bit 31 x OR drop_bit 1 x" for x
    by (simp only: low_or [OF L] low_push [OF L] low_up [OF L] low_drop_up [OF L])
  have r1: "low r1 = push_bit 31 r OR drop_bit 1 r" by (simp only: r1_def ur_def rot)
  have w: "w = up ((l XOR low r1) AND 0xaaaaaaaa)"
    using up_numeral_and(2) [OF L, of "ul XOR r1"]
    by (simp only: w_def low_xor [OF L] ul_def low_up [OF L])
  define v where "v = (l XOR low r1) AND 0xaaaaaaaa"
  have wv: "w = up v" by (simp only: w v_def)
  have l1: "low l1 = push_bit 31 (l XOR v) OR drop_bit 1 (l XOR v)"
    by (simp only: l1_def ul_def wv rot flip: up_xor [OF L])
  have x1: "low (r1 XOR w) = low r1 XOR v" by (simp only: low_xor [OF L] wv low_up [OF L])
  have e8: "swapmove 8 0x00ff00ff (low l1, low r1 XOR v) = (low l2, low r2)"
    using low_swapmoves(4) [OF L, of "(l1, r1 XOR w)"] s8 by (simp only: low2_pair x1)
  have e2: "swapmove 2 0x33333333 (low l2, low r2) = (low l3, low r3)"
    using low_swapmoves(3) [OF L, of "(l2, r2)"] s2 by (simp only: low2_pair)
  have e16: "swapmove 16 0x0000ffff (low r3, low l3) = (low r4, low l4)"
    using low_swapmoves(2) [OF L, of "(r3, l3)"] s16 by (simp only: low2_pair)
  have e4: "swapmove 4 0x0f0f0f0f (low r4, low l4) = (low r5, low l5)"
    using low_swapmoves(1) [OF L, of "(r4, l4)"] s4 by (simp only: low2_pair)
  have "desfunc_fp (ul, ur) = (r5, l5)"
    by (simp only: desfunc_fp_def Let_def split_conv r1_def [symmetric] w_def [symmetric] l1_def [symmetric] s8 s2 s16 s4)
  moreover have "desfunc_fp (l, r) = (low r5, low l5)"
    by (simp only: desfunc_fp_def Let_def split_conv r1 [symmetric] v_def [symmetric] l1 [symmetric] e8 e2 e16 e4)
  ultimately show ?thesis by (simp only: lr up2_def map_prod_simp low2_pair ul_def ur_def)
qed

lemma low_desfunc:
  assumes L: "32 \<le> LENGTH('u)"
  shows "low2 (desfunc b keys :: 'u::len word \<times> 'u word) = desfunc (low2 b) (map low keys)"
  by (simp only: desfunc_def ip_up [OF L] low_rounds [OF L] fp_low [OF L] take_map)

lemma low_scrunch: "32 \<le> LENGTH('u) \<Longrightarrow> low2 (scrunch b :: 'u::len word \<times> 'u word) = scrunch b"
proof -
  assume L: "32 \<le> LENGTH('u)"
  have "i < 8" if "bit (x :: byte) i" for x i using bit_imp_le_length [OF that] by simp
  then have "low (ucast x :: 'u word) = ucast (x :: byte)" for x
    using L by (intro bit_word_eqI) (force simp: bit_low bit_ucast_iff)
  then show ?thesis by (simp only: scrunch_def low2_pair low_or [OF L] low_push [OF L])
qed

lemma unscrun_low: "32 \<le> LENGTH('u) \<Longrightarrow> unscrun (lr :: 'u::len word \<times> 'u word) = unscrun (low2 lr)"
proof -
  assume L: "32 \<le> LENGTH('u)"
  obtain l r where lr: "lr = (l, r)" by fastforce
  have m: "(0xff :: 'b::len word) = mask 8" by (simp add: mask_eq_exp_minus_1)
  have d: "(ucast (drop_bit n x AND 0xff) :: byte) = ucast (drop_bit n (low x) AND 0xff)" if "n \<le> 24" for n and x :: "'u word"
    unfolding m using that L
    by (intro bit_word_eqI) (auto simp: bit_ucast_iff bit_and_iff bit_drop_bit_eq bit_mask_iff bit_low)
  have d0: "(ucast (x AND 0xff) :: byte) = ucast (low x AND 0xff)" for x :: "'u word"
    using d [of 0 x] by simp
  show ?thesis
    by (simp only: lr low2_pair unscrun_def split_conv d [of 24] d [of 16] d [of 8] numeral_le_iff semiring_norm)
      (simp only: d0)
qed

lemma bigbyte_up: "32 \<le> LENGTH('u) \<Longrightarrow> map low (bigbyte :: 'u::len word list) = bigbyte"
  by (simp add: bigbyte_def low_numeral) (simp add: low_def)

lemma low_deskey_kn:
  assumes L: "32 \<le> LENGTH('u)"
  shows "low2 (deskey_kn pcr :: 'u::len word \<times> 'u word) = deskey_kn pcr"
proof -
  have len: "length (bigbyte :: 'u word list) = 24" by (simp add: bigbyte_def)
  have big: "low (bigbyte ! j :: 'u word) = bigbyte ! j" if "j < 24" for j
    using that bigbyte_up [OF L] len by (metis nth_map)
  have "low2 (foldl (\<lambda>(km, kn) j.
     (if pcr ! (pc2 ! j) \<noteq> 0 then km OR bigbyte ! j else km,
      if pcr ! (pc2 ! (j + 24)) \<noteq> 0 then kn OR bigbyte ! j else kn)) p js :: 'u word \<times> 'u word) =
     foldl (\<lambda>(km, kn) j.
     (if pcr ! (pc2 ! j) \<noteq> 0 then km OR bigbyte ! j else km,
      if pcr ! (pc2 ! (j + 24)) \<noteq> 0 then kn OR bigbyte ! j else kn)) (low2 p) js"
    if "\<forall>j\<in>set js. j < 24" for p js
    using that
  proof (induction js arbitrary: p)
    case Nil
    then show ?case by simp
  next
    case (Cons j js)
    then show ?case by (cases p) (simp add: low2_pair low_or [OF L] big)
  qed
  moreover have "low (0 :: 'u word) = 0" by (simp add: low_def)
  ultimately show ?thesis by (simp add: deskey_kn_def low2_pair)
qed

lemma low_cookey:
  assumes L: "32 \<le> LENGTH('u)"
  shows "map low (cookey_dough ws :: 'u::len word list) = cookey_dough (map low ws)"
proof -
  have d: "low (drop_bit n (x AND numeral m) :: 'u word) = drop_bit n (low x AND numeral m)"
    if "(numeral m :: 'u word) = up (numeral m)" for n m x
  proof (rule bit_word_eqI)
    fix i assume "i < LENGTH(32)"
    have "bit (numeral m :: 'u word) k = bit (numeral m :: u32) k" for k
      using bit_up [OF L] that by metis
    then show "bit (low (drop_bit n (x AND numeral m) :: 'u word)) i = bit (drop_bit n (low x AND numeral m)) i"
      using \<open>i < LENGTH(32)\<close>
      by (auto simp only: bit_low [OF L] bit_and_iff bit_drop_bit_eq comp_def) (auto dest: bit_imp_le_length)
  qed
  have u: "(0xfc0000 :: 'u word) = up 0xfc0000" "(0xfc0 :: 'u word) = up 0xfc0" "(0x3f000 :: 'u word) = up 0x3f000"
    by (simp_all add: up_def)
  show ?thesis
    by (induction ws rule: cookey_dough.induct)
      (simp_all only: cookey_dough.simps list.map low_or [OF L] low_push [OF L] d [OF u(1)] d [OF u(2)] d [OF u(3)]
        low_and [OF L] low_numeral [OF L])
qed

lemma low_deskey_schedule:
  assumes L: "32 \<le> LENGTH('u)"
  shows "map low (deskey_schedule key EN0 :: 'u::len word list) = deskey_schedule key EN0"
proof -
  have "low (fst (deskey_kn pcr) :: 'u word) = fst (deskey_kn pcr)"
    "low (snd (deskey_kn pcr) :: 'u word) = snd (deskey_kn pcr)" for pcr
    using low_deskey_kn [OF L, of pcr] by (auto simp: low2_def prod_eq_iff)
  then show ?thesis by (simp add: deskey_schedule_def Let_def split_beta schedule_store map_concat comp_def)
qed

lemma low_des_cooked: "32 \<le> LENGTH('u) \<Longrightarrow> map low (des_cooked key :: 'u::len word list) = des_cooked key"
  by (simp add: des_cooked_def low_cookey low_deskey_schedule)

lemma map_rev_pairs: "map f (rev_pairs xs) = rev_pairs (map f xs)"
  by (induction xs rule: rev_pairs.induct) simp_all

subsection \<open>Encryption, decryption and the chained variants\<close>

definition low_keys :: "'u::len word des_keys \<Rightarrow> u32 des_keys" where
  "low_keys st = \<lparr>KnL = map low (KnL st), KnR = map low (KnR st), Kn3 = map low (Kn3 st)\<rparr>"

lemma low_keys_ops:
  assumes L: "32 \<le> LENGTH('u)"
  shows "low_keys (deskey st key edf :: 'u::len word des_keys) = deskey (low_keys st) key edf"
    and "low_keys (des2key st key edf :: 'u word des_keys) = des2key (low_keys st) key edf"
    and "low_keys (des3key st key edf :: 'u word des_keys) = des3key (low_keys st) key edf"
  by (cases edf; simp add: low_keys_def deskey_cooked des2key_def des3key_def Let_def cpkey_def map_rev_pairs
      low_des_cooked [OF L])+

lemma low_ciphers:
  assumes L: "32 \<le> LENGTH('u)"
  shows "des (low_keys st) b = des (st :: 'u::len word des_keys) b"
    and "Ddes (low_keys st) b = Ddes st b"
    and "D2des (low_keys st) b = D2des st b"
    and "D3des (low_keys st) b = D3des st b"
proof -
  have d: "desfunc (low x, low y) (map low ks) = low2 (desfunc (x, y) ks)" for x y :: "'u word" and ks
    by (simp only: low_desfunc [OF L] low2_pair)
  have d2: "desfunc (low2 p) (map low ks) = low2 (desfunc p ks)" for p :: "'u word \<times> 'u word" and ks
    by (simp only: low_desfunc [OF L])
  have proj: "fst (low2 p) = low (fst p)" "snd (low2 p) = low (snd p)" for p :: "'u word \<times> 'u word"
    by (simp_all add: low2_def)
  have out: "unscrun (low2 p) = unscrun p" for p :: "'u word \<times> 'u word"
    by (rule unscrun_low [OF L, symmetric])
  have sc: "scrunch c = low2 (scrunch c :: 'u word \<times> 'u word)" for c by (rule low_scrunch [OF L, symmetric])
  note defs = des_def Ddes_def D2des_def D3des_def Let_def split_beta low_keys_def fst_conv snd_conv des_keys.simps
  show "des (low_keys st) b = des st b" by (simp only: defs sc d d2 proj out)
  show "Ddes (low_keys st) b = Ddes st b" by (simp only: defs sc d d2 proj out)
  show "D2des (low_keys st) b = D2des st b" by (simp only: defs sc d d2 proj out)
  show "D3des (low_keys st) b = D3des st b" by (simp only: defs sc d d2 proj out)
qed

lemma mask_ff: "(0xff :: 'b::len word) = mask 8"
  by (simp add: mask_eq_exp_minus_1)

lemma unscrun_word:
  fixes a b c d :: byte
  defines "w \<equiv> push_bit 24 (ucast a) OR push_bit 16 (ucast b) OR push_bit 8 (ucast c) OR (ucast d :: u32)"
  shows "ucast (drop_bit 24 w AND 0xff) = a" "ucast (drop_bit 16 w AND 0xff) = b"
    "ucast (drop_bit 8 w AND 0xff) = c" "ucast (w AND 0xff) = d"
  unfolding mask_ff w_def
  by (rule bit_word_eqI; force simp: bit_ucast_iff bit_and_iff bit_or_iff bit_drop_bit_eq bit_push_bit_iff bit_mask_iff
      dest: byte_bit)+

lemma scrunch_word:
  "push_bit 24 (ucast (ucast (drop_bit 24 w AND 0xff) :: byte)) OR
   push_bit 16 (ucast (ucast (drop_bit 16 w AND 0xff) :: byte)) OR
   push_bit 8 (ucast (ucast (drop_bit 8 w AND 0xff) :: byte)) OR
   ucast (ucast (w AND 0xff) :: byte) = (w :: u32)"
proof (unfold mask_ff, rule bit_word_eqI)
  fix i assume "i < LENGTH(32)"
  then consider "i < 8" | "8 \<le> i" "i < 16" | "16 \<le> i" "i < 24" | "24 \<le> i" "i < 32" by fastforce
  then show "bit (push_bit 24 (ucast (ucast (drop_bit 24 w AND mask 8) :: byte)) OR
   push_bit 16 (ucast (ucast (drop_bit 16 w AND mask 8) :: byte)) OR
   push_bit 8 (ucast (ucast (drop_bit 8 w AND mask 8) :: byte)) OR
   ucast (ucast (w AND mask 8) :: byte) :: u32) i = bit w i"
    by cases (auto simp: bit_ucast_iff bit_and_iff bit_or_iff bit_drop_bit_eq bit_push_bit_iff bit_mask_iff)
qed

lemma scrunch_bytes: "scrunch [b0, b1, b2, b3, b4, b5, b6, b7] =
    (push_bit 24 (ucast b0) OR push_bit 16 (ucast b1) OR push_bit 8 (ucast b2) OR ucast b3,
     push_bit 24 (ucast b4) OR push_bit 16 (ucast b5) OR push_bit 8 (ucast b6) OR ucast b7)"
  by (simp add: scrunch_def)

lemma scrunch_unscrun: "scrunch (unscrun p) = (p :: u32 \<times> u32)"
  by (cases p) (simp only: unscrun_def split_conv scrunch_bytes scrunch_word)

lemma unscrun_scrunch:
  assumes "length b = 8"
  shows "unscrun (scrunch b :: u32 \<times> u32) = b"
proof -
  obtain b0 b1 b2 b3 b4 b5 b6 b7 where b: "b = [b0, b1, b2, b3, b4, b5, b6, b7]"
    using assms by (auto simp: numeral_eq_Suc length_Suc_conv)
  show ?thesis
    unfolding b scrunch_bytes unscrun_def split_conv by (simp only: unscrun_word)
qed

lemma length_unscrun [len_simps]: "length (unscrun p) = 8"
  by (simp add: unscrun_def split_beta)

lemma scrunch_take: "scrunch (take 8 b) = scrunch b"
  by (simp add: scrunch_def)

lemma scrunch_append: "8 \<le> length x \<Longrightarrow> scrunch (x @ y) = scrunch x"
  by (subst (1 2) scrunch_take [symmetric]) simp

lemma des_inverse_32:
  assumes "length b = 8"
  shows "des (deskey st' key DE1 :: u32 des_keys) (des (deskey st key EN0 :: u32 des_keys) b) = b"
  using assms by (simp add: des_def deskey_cooked scrunch_unscrun desfunc_reverse len_simps unscrun_scrunch)

text \<open>A key register set that undoes another: the registers in the opposite order, each reversed.\<close>

definition undoes :: "u32 des_keys \<Rightarrow> u32 des_keys \<Rightarrow> bool" where
  "undoes d e \<longleftrightarrow> (\<forall>b. desfunc (desfunc b (KnL e)) (Kn3 d) = b) \<and>
     (\<forall>b. desfunc (desfunc b (KnR e)) (KnR d) = b) \<and> (\<forall>b. desfunc (desfunc b (Kn3 e)) (KnL d) = b)"

lemma des2key_undoes: "undoes (des2key st' key DE1) (des2key st key EN0)"
  by (simp add: undoes_def des2key_def Let_def deskey_cooked cpkey_def desfunc_reverse desfunc_reverse' len_simps)

lemma des3key_undoes: "undoes (des3key st' key DE1) (des3key st key EN0)"
  by (simp add: undoes_def des3key_def Let_def deskey_cooked cpkey_def desfunc_reverse desfunc_reverse' len_simps)

lemma undoesD:
  assumes "undoes d e"
  shows "desfunc (desfunc b (KnL e)) (Kn3 d) = b" "desfunc (desfunc b (KnR e)) (KnR d) = b"
    "desfunc (desfunc b (Kn3 e)) (KnL d) = b"
  using assms unfolding undoes_def by blast+

lemma Ddes_undo: "undoes d e \<Longrightarrow> length b = 8 \<Longrightarrow> Ddes d (Ddes e b) = b"
  by (simp add: undoesD Ddes_def Let_def scrunch_unscrun unscrun_scrunch)

lemma blocks_16: "length b = 16 \<Longrightarrow> unscrun (scrunch b :: u32 \<times> u32) @ unscrun (scrunch (drop 8 b) :: u32 \<times> u32) = b"
  using unscrun_scrunch [of "take 8 b"] unscrun_scrunch [of "drop 8 b"] by (simp add: scrunch_take)

lemma blocks_24: "length b = 24 \<Longrightarrow> unscrun (scrunch b :: u32 \<times> u32) @ unscrun (scrunch (drop 8 b) :: u32 \<times> u32)
    @ unscrun (scrunch (drop 16 b) :: u32 \<times> u32) = b"
  using unscrun_scrunch [of "take 8 b"] blocks_16 [of "drop 8 b"] append_take_drop_id [of 8 b]
  by (simp add: scrunch_take del: append_take_drop_id)

lemma D2des_undo:
  assumes u: "undoes d e" and "length b = 16"
  shows "D2des d (D2des e b) = b"
proof -
  obtain l0 l1 where l: "desfunc (scrunch b) (KnL e) = (l0, l1)" by fastforce
  obtain r0 r1 where r: "desfunc (scrunch (drop 8 b)) (KnL e) = (r0, r1)" by fastforce
  obtain l2 l3 where l2: "desfunc (l0, r0) (KnR e) = (l2, l3)" by fastforce
  obtain r2 r3 where r2: "desfunc (l1, r1) (KnR e) = (r2, r3)" by fastforce
  note undo = undoesD [OF u]
  have "D2des e b = unscrun (desfunc (l2, r2) (Kn3 e)) @ unscrun (desfunc (l3, r3) (Kn3 e))"
    by (simp add: D2des_def l r l2 r2)
  moreover have "D2des d \<dots> = unscrun (scrunch b :: u32 \<times> u32) @ unscrun (scrunch (drop 8 b) :: u32 \<times> u32)"
    using undo(2) [of "(l0, r0)"] undo(2) [of "(l1, r1)"] undo(1) [of "scrunch b"] undo(1) [of "scrunch (drop 8 b)"]
    by (simp add: D2des_def scrunch_append len_simps scrunch_unscrun undo(3) l r l2 r2)
  ultimately show ?thesis using assms(2) by (simp add: blocks_16)
qed

lemma D3des_undo:
  assumes u: "undoes d e" and "length b = 24"
  shows "D3des d (D3des e b) = b"
proof -
  obtain l0 l1 where l: "desfunc (scrunch b) (KnL e) = (l0, l1)" by fastforce
  obtain m0 m1 where m: "desfunc (scrunch (drop 8 b)) (KnL e) = (m0, m1)" by fastforce
  obtain r0 r1 where r: "desfunc (scrunch (drop 16 b)) (KnL e) = (r0, r1)" by fastforce
  obtain l2 l3 where l2: "desfunc (l0, m0) (KnR e) = (l2, l3)" by fastforce
  obtain m2 m3 where m2: "desfunc (l1, r0) (KnR e) = (m2, m3)" by fastforce
  obtain r2 r3 where r2: "desfunc (m1, r1) (KnR e) = (r2, r3)" by fastforce
  note undo = undoesD [OF u]
  have "D3des e b = unscrun (desfunc (l2, m2) (Kn3 e)) @ unscrun (desfunc (l3, r2) (Kn3 e)) @
      unscrun (desfunc (m3, r3) (Kn3 e))"
    by (simp add: D3des_def l m r l2 m2 r2)
  moreover have "D3des d \<dots> = unscrun (scrunch b :: u32 \<times> u32) @ unscrun (scrunch (drop 8 b) :: u32 \<times> u32)
      @ unscrun (scrunch (drop 16 b) :: u32 \<times> u32)"
    using undo(2) [of "(l0, m0)"] undo(2) [of "(l1, r0)"] undo(2) [of "(m1, r1)"]
      undo(1) [of "scrunch b"] undo(1) [of "scrunch (drop 8 b)"] undo(1) [of "scrunch (drop 16 b)"]
    by (simp add: D3des_def scrunch_append len_simps scrunch_unscrun undo(3) l m r l2 m2 r2)
  ultimately show ?thesis using assms(2) by (simp add: blocks_24)
qed

subsection \<open>The validation sets of the source\<close>

lemma deskey_pcr_rotate:
  assumes "length p = 56" and "totrot ! i = t" and "t \<le> 28"
  shows "deskey_pcr p i = drop t (take 28 p) @ take t p @ drop (28 + t) p @ take t (drop 28 p)"
proof -
  have "map (\<lambda>j. let l = j + t in if l < 28 then p ! l else p ! (l - 28)) [0..<28] = drop t (take 28 p) @ take t p"
    using assms by (intro nth_equalityI) (auto simp: nth_append Let_def add.commute simp del: upt_rec_numeral)
  moreover have "map (\<lambda>j. let l = j + t in if l < 56 then p ! l else p ! (l - 28)) [28..<56]
      = drop (28 + t) p @ take t (drop 28 p)"
    using assms by (intro nth_equalityI) (auto simp: nth_append Let_def ac_simps simp del: upt_rec_numeral)
  ultimately show ?thesis by (simp add: deskey_pcr_def assms(2))
qed

lemma deskey_schedule_EN0: "deskey_schedule key EN0 = concat (map (\<lambda>i.
    [fst (deskey_kn (deskey_pcr (deskey_pc1m key) i)), snd (deskey_kn (deskey_pcr (deskey_pc1m key) i))]) [0..<16])"
  by (simp add: deskey_schedule_def Let_def split_beta schedule_store)

lemma upt_24: "[0..<24] = [0, 1, 2, 3, 4, 5, 6, 7, 8, 9, 10, 11, 12, 13, 14, 15, 16, 17, 18, 19, 20, 21, 22, 23 :: nat]"
  by (simp add: upt_rec)

lemma deskey_kn_cons:
  "(deskey_kn pcr :: 'u::len word \<times> 'u word) =
     foldl (\<lambda>(km, kn) (a, b, v). (if pcr ! a \<noteq> 0 then km OR v else km, if pcr ! b \<noteq> 0 then kn OR v else kn))
     (0, 0) (zip (take 24 pc2) (zip (drop 24 pc2) bigbyte))"
proof -
  have "zip (take 24 pc2) (zip (drop 24 pc2) (bigbyte :: 'u word list)) = map (\<lambda>j. (pc2 ! j, pc2 ! (j + 24), bigbyte ! j)) [0..<24]"
    by (simp add: upt_24 pc2_def bigbyte_def)
  then show ?thesis by (simp only: deskey_kn_def foldl_map) (rule foldl_cong, auto)
qed

definition des_pc1m_k1 :: "byte list" where
  "des_pc1m_k1 = [1, 1, 1, 1, 0, 0, 0, 0, 1, 1, 0, 0, 1, 1, 0, 0, 1, 0, 1, 0, 1, 0, 1, 0, 0, 0, 0, 0,
     1, 0, 1, 0, 1, 0, 1, 0, 1, 1, 0, 0, 1, 1, 0, 0, 1, 1, 1, 1, 0, 0, 0, 0, 0, 0, 0, 0]"

lemma des_pc1m_k1: "deskey_pc1m [0x1, 0x23, 0x45, 0x67, 0x89, 0xab, 0xcd, 0xef] = des_pc1m_k1"
  by (simp add: deskey_pc1m_def des_pc1m_k1_def pc1_def bytebit_def)

lemma des_kn_k1:
  "deskey_kn (deskey_pcr des_pc1m_k1 0) = (0xb0267, 0x9b49a5 :: u32)"
  "deskey_kn (deskey_pcr des_pc1m_k1 (Suc 0)) = (0x69a659, 0x256a26 :: u32)"
  "deskey_kn (deskey_pcr des_pc1m_k1 2) = (0x45d48a, 0xb428d2 :: u32)"
  "deskey_kn (deskey_pcr des_pc1m_k1 3) = (0x7289d2, 0xa58257 :: u32)"
  "deskey_kn (deskey_pcr des_pc1m_k1 4) = (0x3ce803, 0x17a6c2 :: u32)"
  "deskey_kn (deskey_pcr des_pc1m_k1 5) = (0x23251e, 0x3c8545 :: u32)"
  "deskey_kn (deskey_pcr des_pc1m_k1 6) = (0x6c0495, 0xae4c6 :: u32)"
  "deskey_kn (deskey_pcr des_pc1m_k1 7) = (0x578838, 0x6ce581 :: u32)"
  "deskey_kn (deskey_pcr des_pc1m_k1 8) = (0xc0c9e9, 0x26b839 :: u32)"
  "deskey_kn (deskey_pcr des_pc1m_k1 9) = (0x91e307, 0x631d72 :: u32)"
  "deskey_kn (deskey_pcr des_pc1m_k1 10) = (0x211f83, 0xd893a :: u32)"
  "deskey_kn (deskey_pcr des_pc1m_k1 11) = (0x7130e5, 0x455c54 :: u32)"
  "deskey_kn (deskey_pcr des_pc1m_k1 12) = (0x91c4d0, 0x4980fc :: u32)"
  "deskey_kn (deskey_pcr des_pc1m_k1 13) = (0x5443b6, 0x81dc8d :: u32)"
  "deskey_kn (deskey_pcr des_pc1m_k1 14) = (0xb69105, 0xa16b5 :: u32)"
  "deskey_kn (deskey_pcr des_pc1m_k1 15) = (0xca3d03, 0xb87032 :: u32)"
  by (simp add: deskey_pcr_rotate des_pc1m_k1_def totrot_def deskey_kn_cons pc2_def bigbyte_def)+

lemma des_cooked_k1: "des_cooked [0x1, 0x23, 0x45, 0x67, 0x89, 0xab, 0xcd, 0xef] = ([0x2092626, 0x30273425, 0x1a190928, 0x1a191626, 0x11122d23, 0x1d0a0212, 0x1c272909, 0x28121817,
     0xf20051b, 0xe033a02, 0x8140f15, 0x321e0805, 0x1b120213, 0x152e06, 0x15201b16, 0x38380e01,
     0x30270920, 0xc292b39, 0x240c1835, 0x1e073132, 0x83e0324, 0x1103183a, 0x1c031131, 0x13251514,
     0x24131203, 0x1c10183c, 0x150e2032, 0x4361d0d, 0x2d04021a, 0x29052135, 0x32342e00, 0x23030732] :: u32 list)"
  by (simp add: des_cooked_def deskey_schedule_EN0 des_pc1m_k1 des_kn_k1 upt_16)

text \<open>The cipher with its intermediate values as arguments, which the simplifier evaluates first.\<close>

definition eval_fval :: "u32 \<Rightarrow> u32 \<Rightarrow> u32" where
  "eval_fval w v = SP7 ! unat (w AND 0x3f) OR SP5 ! unat (drop_bit 8 w AND 0x3f) OR
     SP3 ! unat (drop_bit 16 w AND 0x3f) OR SP1 ! unat (drop_bit 24 w AND 0x3f) OR
     SP8 ! unat (v AND 0x3f) OR SP6 ! unat (drop_bit 8 v AND 0x3f) OR
     SP4 ! unat (drop_bit 16 v AND 0x3f) OR SP2 ! unat (drop_bit 24 v AND 0x3f)"

definition eval_rounds :: "u32 list \<Rightarrow> u32 \<Rightarrow> u32 \<Rightarrow> u32 \<Rightarrow> u32 \<Rightarrow> u32 \<times> u32" where
  "eval_rounds ks k2 k3 l r = desfunc_rounds ks (l, r XOR des_fval l k2 k3)"

lemma desfunc_eval:
  "des_fval x k0 k1 = eval_fval ((push_bit 28 x OR drop_bit 4 x) XOR k0) (x XOR k1)"
  "desfunc_rounds (k0 # k1 # k2 # k3 # ks) (l, r) = eval_rounds ks k2 k3 (l XOR des_fval r k0 k1) r"
  by (simp_all add: des_fval_def eval_fval_def eval_rounds_def Let_def or.assoc)

lemma SP1_at:
  "SP1 ! 4 = (0x01010004 :: u32)"
  "SP1 ! 8 = (0x00000400 :: u32)"
  "SP1 ! 12 = (0x01000404 :: u32)"
  "SP1 ! 19 = (0x00010400 :: u32)"
  "SP1 ! 28 = (0x00000000 :: u32)"
  "SP1 ! 32 = (0x00010000 :: u32)"
  "SP1 ! 33 = (0x01010404 :: u32)"
  "SP1 ! 34 = (0x00000004 :: u32)"
  "SP1 ! 35 = (0x01010000 :: u32)"
  "SP1 ! 37 = (0x01000000 :: u32)"
  "SP1 ! 50 = (0x01010000 :: u32)"
  "SP1 ! 56 = (0x00000404 :: u32)"
  "SP1 ! 57 = (0x01000400 :: u32)"
  "SP1 ! 58 = (0x01000400 :: u32)"
  by (simp_all add: SP1_def)

lemma SP2_at:
  "SP2 ! 0 = (0x80108020 :: u32)"
  "SP2 ! 12 = (0x80008000 :: u32)"
  "SP2 ! 14 = (0x00000020 :: u32)"
  "SP2 ! 17 = (0x00100020 :: u32)"
  "SP2 ! 23 = (0x80100000 :: u32)"
  "SP2 ! 26 = (0x00000000 :: u32)"
  "SP2 ! 30 = (0x80100000 :: u32)"
  "SP2 ! 31 = (0x00008020 :: u32)"
  "SP2 ! 33 = (0x00108020 :: u32)"
  "SP2 ! 36 = (0x80008020 :: u32)"
  "SP2 ! 47 = (0x80000000 :: u32)"
  "SP2 ! 48 = (0x00008020 :: u32)"
  "SP2 ! 50 = (0x00100000 :: u32)"
  "SP2 ! 59 = (0x00008020 :: u32)"
  by (simp_all add: SP2_def)

lemma SP3_at:
  "SP3 ! 12 = (0x08020208 :: u32)"
  "SP3 ! 14 = (0x08020000 :: u32)"
  "SP3 ! 16 = (0x08000000 :: u32)"
  "SP3 ! 23 = (0x00020208 :: u32)"
  "SP3 ! 24 = (0x08000208 :: u32)"
  "SP3 ! 28 = (0x00000008 :: u32)"
  "SP3 ! 32 = (0x08020200 :: u32)"
  "SP3 ! 35 = (0x00000208 :: u32)"
  "SP3 ! 40 = (0x00000200 :: u32)"
  "SP3 ! 47 = (0x08020008 :: u32)"
  "SP3 ! 51 = (0x08020208 :: u32)"
  "SP3 ! 54 = (0x00020200 :: u32)"
  "SP3 ! 56 = (0x08020000 :: u32)"
  "SP3 ! 58 = (0x00000208 :: u32)"
  "SP3 ! 59 = (0x08020000 :: u32)"
  "SP3 ! 62 = (0x08020008 :: u32)"
  by (simp_all add: SP3_def)

lemma SP4_at:
  "SP4 ! 4 = (0x00802080 :: u32)"
  "SP4 ! 6 = (0x00800001 :: u32)"
  "SP4 ! 16 = (0x00000001 :: u32)"
  "SP4 ! 18 = (0x00800000 :: u32)"
  "SP4 ! 19 = (0x00802001 :: u32)"
  "SP4 ! 28 = (0x00002000 :: u32)"
  "SP4 ! 32 = (0x00800080 :: u32)"
  "SP4 ! 40 = (0x00002080 :: u32)"
  "SP4 ! 41 = (0x00800080 :: u32)"
  "SP4 ! 50 = (0x00000001 :: u32)"
  "SP4 ! 51 = (0x00002000 :: u32)"
  "SP4 ! 57 = (0x00002080 :: u32)"
  "SP4 ! 62 = (0x00002000 :: u32)"
  "SP4 ! 63 = (0x00802080 :: u32)"
  by (simp_all add: SP4_def)

lemma SP5_at:
  "SP5 ! 2 = (0x02080000 :: u32)"
  "SP5 ! 4 = (0x00080000 :: u32)"
  "SP5 ! 7 = (0x02080000 :: u32)"
  "SP5 ! 8 = (0x40080100 :: u32)"
  "SP5 ! 11 = (0x40080100 :: u32)"
  "SP5 ! 12 = (0x42000100 :: u32)"
  "SP5 ! 22 = (0x42080100 :: u32)"
  "SP5 ! 26 = (0x00000000 :: u32)"
  "SP5 ! 38 = (0x42000100 :: u32)"
  "SP5 ! 40 = (0x02000100 :: u32)"
  "SP5 ! 42 = (0x42080000 :: u32)"
  "SP5 ! 44 = (0x40080100 :: u32)"
  "SP5 ! 50 = (0x42000000 :: u32)"
  "SP5 ! 56 = (0x00080100 :: u32)"
  "SP5 ! 61 = (0x40080000 :: u32)"
  "SP5 ! 63 = (0x40000100 :: u32)"
  by (simp_all add: SP5_def)

lemma SP6_at:
  "SP6 ! 2 = (0x00004000 :: u32)"
  "SP6 ! 9 = (0x00404010 :: u32)"
  "SP6 ! 12 = (0x00400010 :: u32)"
  "SP6 ! 19 = (0x00004000 :: u32)"
  "SP6 ! 21 = (0x20004010 :: u32)"
  "SP6 ! 30 = (0x20404000 :: u32)"
  "SP6 ! 31 = (0x20000000 :: u32)"
  "SP6 ! 37 = (0x00400000 :: u32)"
  "SP6 ! 38 = (0x00004010 :: u32)"
  "SP6 ! 44 = (0x20000010 :: u32)"
  "SP6 ! 46 = (0x00404000 :: u32)"
  "SP6 ! 51 = (0x20400010 :: u32)"
  "SP6 ! 53 = (0x00004000 :: u32)"
  "SP6 ! 55 = (0x00404010 :: u32)"
  by (simp_all add: SP6_def)

lemma SP7_at:
  "SP7 ! 2 = (0x04000802 :: u32)"
  "SP7 ! 4 = (0x00000800 :: u32)"
  "SP7 ! 6 = (0x00200802 :: u32)"
  "SP7 ! 9 = (0x00200000 :: u32)"
  "SP7 ! 12 = (0x00000002 :: u32)"
  "SP7 ! 14 = (0x04200002 :: u32)"
  "SP7 ! 33 = (0x00200800 :: u32)"
  "SP7 ! 34 = (0x00200000 :: u32)"
  "SP7 ! 36 = (0x04000802 :: u32)"
  "SP7 ! 40 = (0x00200002 :: u32)"
  "SP7 ! 46 = (0x00200802 :: u32)"
  "SP7 ! 51 = (0x04200000 :: u32)"
  "SP7 ! 52 = (0x00200800 :: u32)"
  "SP7 ! 53 = (0x00000000 :: u32)"
  "SP7 ! 58 = (0x04200000 :: u32)"
  by (simp_all add: SP7_def)

lemma SP8_at:
  "SP8 ! 0 = (0x10001040 :: u32)"
  "SP8 ! 3 = (0x10041040 :: u32)"
  "SP8 ! 4 = (0x10000000 :: u32)"
  "SP8 ! 8 = (0x00040040 :: u32)"
  "SP8 ! 17 = (0x10000040 :: u32)"
  "SP8 ! 22 = (0x10040040 :: u32)"
  "SP8 ! 33 = (0x00040000 :: u32)"
  "SP8 ! 34 = (0x10041000 :: u32)"
  "SP8 ! 41 = (0x00000040 :: u32)"
  "SP8 ! 42 = (0x10000040 :: u32)"
  "SP8 ! 43 = (0x10040000 :: u32)"
  "SP8 ! 48 = (0x00000000 :: u32)"
  "SP8 ! 49 = (0x10041040 :: u32)"
  "SP8 ! 51 = (0x10000040 :: u32)"
  "SP8 ! 52 = (0x10040000 :: u32)"
  "SP8 ! 55 = (0x00000000 :: u32)"
  by (simp_all add: SP8_def)

lemma des_v1_ip: "desfunc_ip (0x1234567, 0x89abcde7) = (0x980199ff, 0xe154e155 :: u32)"
  by (simp add: desfunc_ip_def swapmove_def)

lemma des_v1_rounds: "desfunc_rounds (des_cooked [0x1, 0x23, 0x45, 0x67, 0x89, 0xab, 0xcd, 0xef]) (0x980199ff, 0xe154e155) = (0x823162e4, 0xefc55d96 :: u32)"
  by (simp del: desfunc_rounds.simps(1) add: des_cooked_k1 desfunc_eval eval_rounds_def eval_fval_def SP1_at SP2_at SP3_at SP4_at SP5_at SP6_at SP7_at SP8_at)

lemma des_v1_fp: "desfunc_fp (0x823162e4, 0xefc55d96) = (0xc9574425, 0x6a5ed31d :: u32)"
  by (simp add: desfunc_fp_def swapmove_def)

lemma des_undo:
  fixes st st' :: "'u::len word des_keys"
  assumes "32 \<le> LENGTH('u)" and "length b = 8"
  shows "des (deskey st' key DE1) (des (deskey st key EN0) b) = b"
  using des_inverse_32 [OF assms(2), of "low_keys st'" key "low_keys st"]
  by (simp flip: low_keys_ops(1) [OF assms(1)] add: low_ciphers(1) [OF assms(1)])

subsection \<open>Properties\<close>

text \<open>
  C6: decryption undoes encryption: after \<open>deskey(key, EN0)\<close> and \<open>des\<close>, \<open>deskey\<close> with the
  same key and \<open>DE1\<close> followed by \<open>des\<close> gives the block back, whatever the key registers held
  before and whether \<open>unsigned long\<close> has 32 bits or more.
\<close>

theorem des_decrypts:
  fixes st st' :: "'u::len word des_keys"
  assumes "32 \<le> LENGTH('u)" and "length b = 8"
  shows "des (deskey st' key DE1) (des (deskey st key EN0) b) = b"
  using assms by (rule des_undo)

theorem des_decrypts_witness:
  "des (deskey \<lparr>KnL = [], KnR = [], Kn3 = []\<rparr> [1, 2, 3, 4, 5, 6, 7, 8] DE1 :: u64 des_keys)
     (des (deskey \<lparr>KnL = [], KnR = [], Kn3 = []\<rparr> [1, 2, 3, 4, 5, 6, 7, 8] EN0 :: u64 des_keys)
        [0, 1, 0, 1, 0, 1, 0, 1]) = [0, 1, 0, 1, 0, 1, 0, 1]"
  by (rule des_decrypts) simp_all

text \<open>
  C37: the same for the double and triple length keys with the single, double and triple length
  block routines: \<open>Ddes\<close>, \<open>D2des\<close> and \<open>D3des\<close> after \<open>des2key\<close> or \<open>des3key\<close> with
  \<open>DE1\<close> undo what they did after the same call with \<open>EN0\<close>.
\<close>

theorem triple_des_decrypts:
  fixes st st' :: "'u::len word des_keys"
  assumes "32 \<le> LENGTH('u)" and "length b = 8" and "length b2 = 16" and "length b3 = 24"
  shows "Ddes (des2key st' key DE1) (Ddes (des2key st key EN0) b) = b \<and>
     Ddes (des3key st' key DE1) (Ddes (des3key st key EN0) b) = b \<and>
     D2des (des2key st' key DE1) (D2des (des2key st key EN0) b2) = b2 \<and>
     D3des (des3key st' key DE1) (D3des (des3key st key EN0) b3) = b3"
proof (intro conjI)
  note L = assms(1)
  note undo2 = des2key_undoes [of "low_keys st'" key "low_keys st"]
  note undo3 = des3key_undoes [of "low_keys st'" key "low_keys st"]
  show "Ddes (des2key st' key DE1) (Ddes (des2key st key EN0) b) = b"
    using Ddes_undo [OF undo2 assms(2)] by (simp flip: low_keys_ops(2) [OF L] add: low_ciphers(2) [OF L])
  show "Ddes (des3key st' key DE1) (Ddes (des3key st key EN0) b) = b"
    using Ddes_undo [OF undo3 assms(2)] by (simp flip: low_keys_ops(3) [OF L] add: low_ciphers(2) [OF L])
  show "D2des (des2key st' key DE1) (D2des (des2key st key EN0) b2) = b2"
    using D2des_undo [OF undo2 assms(3)] by (simp flip: low_keys_ops(2) [OF L] add: low_ciphers(3) [OF L])
  show "D3des (des3key st' key DE1) (D3des (des3key st key EN0) b3) = b3"
    using D3des_undo [OF undo3 assms(4)] by (simp flip: low_keys_ops(3) [OF L] add: low_ciphers(4) [OF L])
qed

theorem triple_des_decrypts_witness:
  "D3des (des3key \<lparr>KnL = [], KnR = [], Kn3 = []\<rparr> Df_Key DE1 :: u64 des_keys)
     (D3des (des3key \<lparr>KnL = [], KnR = [], Kn3 = []\<rparr> Df_Key EN0 :: u64 des_keys) (replicate 24 7)) = replicate 24 7"
  using triple_des_decrypts [where b = "replicate 8 0" and ?b2.0 = "replicate 16 0" and ?b3.0 = "replicate 24 7"
      and st = "\<lparr>KnL = [], KnR = [], Kn3 = []\<rparr> :: u64 des_keys" and st' = "\<lparr>KnL = [], KnR = [], Kn3 = []\<rparr>"
      and key = Df_Key]
  by simp

text \<open>
  The results do not depend on the width of \<open>unsigned long\<close>: with any width of at least 32
  bits the block routines give what they give with exactly 32, on key registers that agree in
  their low 32 bits, and so do the key set-up routines.
\<close>

theorem des_width_irrelevant:
  fixes st :: "'u::len word des_keys"
  assumes "32 \<le> LENGTH('u)"
  shows "des (deskey st key edf) b = des (deskey (low_keys st) key edf) b \<and>
     Ddes (des3key st key edf) b = Ddes (des3key (low_keys st) key edf) b \<and>
     D2des (des2key st key edf) b = D2des (des2key (low_keys st) key edf) b \<and>
     D3des (des3key st key edf) b = D3des (des3key (low_keys st) key edf) b"
  by (simp_all flip: low_keys_ops [OF assms] add: low_ciphers [OF assms])

theorem des_width_irrelevant_witness:
  "Ddes (des3key (\<lparr>KnL = [], KnR = [], Kn3 = []\<rparr> :: u64 des_keys) Df_Key EN0) [1, 2, 3, 4, 5, 6, 7, 8] =
   Ddes (des3key (\<lparr>KnL = [], KnR = [], Kn3 = []\<rparr> :: u32 des_keys) Df_Key EN0) [1, 2, 3, 4, 5, 6, 7, 8]"
  using des_width_irrelevant [of "\<lparr>KnL = [], KnR = [], Kn3 = []\<rparr> :: u64 des_keys" Df_Key EN0 "[1, 2, 3, 4, 5, 6, 7, 8]"]
  by (simp add: low_keys_def)

text \<open>
  The single length entry of the validation sets at the end of \<open>d3des.c\<close>: the key
  0123456789abcdef takes the block 0123456789abcde7 to c95744256a5ed31d.
\<close>

theorem des_validation_set:
  "des (deskey (st :: u32 des_keys) [0x01, 0x23, 0x45, 0x67, 0x89, 0xab, 0xcd, 0xef] EN0)
     [0x01, 0x23, 0x45, 0x67, 0x89, 0xab, 0xcd, 0xe7] = [0xc9, 0x57, 0x44, 0x25, 0x6a, 0x5e, 0xd3, 0x1d]"
proof -
  have "scrunch [0x01, 0x23, 0x45, 0x67, 0x89, 0xab, 0xcd, 0xe7] = (0x1234567, 0x89abcde7 :: u32)"
    by (simp add: scrunch_def)
  moreover have "KnL (deskey st [0x01, 0x23, 0x45, 0x67, 0x89, 0xab, 0xcd, 0xef] EN0) =
      des_cooked [0x01, 0x23, 0x45, 0x67, 0x89, 0xab, 0xcd, 0xef]"
    by (simp add: deskey_cooked)
  ultimately have "des (deskey st [0x01, 0x23, 0x45, 0x67, 0x89, 0xab, 0xcd, 0xef] EN0)
     [0x01, 0x23, 0x45, 0x67, 0x89, 0xab, 0xcd, 0xe7] = unscrun (0xc9574425, 0x6a5ed31d :: u32)"
    by (simp only: des_def desfunc_def des_v1_ip des_v1_rounds des_v1_fp take_all len_simps order_refl)
  then show ?thesis by (simp add: unscrun_def)
qed

text \<open>
  \<open>makekey\<close>, \<open>make2key\<close> and \<open>make3key\<close> leave the three key registers as they found them
  and overwrite the password with zeros.
\<close>

theorem makekey_restores:
  assumes "length (KnL st) = 32" and "length (KnR st) = 32" and "length (Kn3 st) = 32"
  shows "(\<exists>key. makekey st pw = (st, key, replicate (length pw) 0)) \<and>
     (\<exists>key. make2key st pw = (st, key, replicate (length pw) 0)) \<and>
     (\<exists>key. make3key st pw = (st, key, replicate (length pw) 0))"
  using assms by (simp_all add: makekey_def make2key_def make3key_def Let_def cp3key_def use3key_def usekey_def cpkey_def)

theorem makekey_restores_witness:
  "\<exists>key. makekey (\<lparr>KnL = replicate 32 1, KnR = replicate 32 2, Kn3 = replicate 32 3\<rparr> :: u64 des_keys) [0x70, 0x77]
     = (\<lparr>KnL = replicate 32 1, KnR = replicate 32 2, Kn3 = replicate 32 3\<rparr>, key, [0, 0])"
  using makekey_restores [of "\<lparr>KnL = replicate 32 1, KnR = replicate 32 2, Kn3 = replicate 32 3\<rparr> :: u64 des_keys" "[0x70, 0x77]"]
  by (simp add: replicate_numeral)

end
