(* ===== verification/Rhash.thy ===== *)
theory Rhash
  imports Stream_Hash
begin

text \<open>
  The parts that the \<open>rhash\<close> modules \<open>sha1.c\<close>, \<open>tiger.c\<close> and \<open>whirlpool.c\<close> share: the byte
  order helpers of \<open>byte_order.h\<close> and \<open>byte_order.c\<close>, the contexts, the update functions
  (which are the same text for the three hashes up to the block function and the alignment
  test) and the zero filling loops of the final functions. Memory is a list of bytes, a word
  in memory is little-endian, an address is a natural number that only the alignment tests
  look at.
\<close>

subsection \<open>Words in memory\<close>

definition bytes_le32 :: "u32 \<Rightarrow> byte list" where
  "bytes_le32 w = [ucast w, ucast (drop_bit 8 w), ucast (drop_bit 16 w), ucast (drop_bit 24 w)]"

definition word_le32 :: "byte list \<Rightarrow> u32" where
  "word_le32 b = ucast (b ! 0) OR push_bit 8 (ucast (b ! 1)) OR push_bit 16 (ucast (b ! 2)) OR push_bit 24 (ucast (b ! 3))"

definition bytes_le64 :: "u64 \<Rightarrow> byte list" where
  "bytes_le64 w = bytes_le32 (ucast w) @ bytes_le32 (ucast (drop_bit 32 w))"

definition word_le64 :: "byte list \<Rightarrow> u64" where
  "word_le64 b = ucast (word_le32 b) OR push_bit 32 (ucast (word_le32 (drop 4 b)))"

definition bswap_32 :: "u32 \<Rightarrow> u32" where
  "bswap_32 x = (let x = (push_bit 8 x AND 0xFF00FF00) OR (drop_bit 8 x AND 0x00FF00FF)
     in drop_bit 16 x OR push_bit 16 x)"

definition bswap_64 :: "u64 \<Rightarrow> u64" where
  "bswap_64 x = (let w0 = ucast x; w1 = ucast (drop_bit 32 x) :: u32
     in ucast (bswap_32 w1) OR push_bit 32 (ucast (bswap_32 w0)))"

definition be2me_32 :: "u32 \<Rightarrow> u32" where "be2me_32 x = bswap_32 x"
definition be2me_64 :: "u64 \<Rightarrow> u64" where "be2me_64 x = bswap_64 x"
definition le2me_64 :: "u64 \<Rightarrow> u64" where "le2me_64 x = x"

definition ROTL32 :: "u32 \<Rightarrow> nat \<Rightarrow> u32" where
  "ROTL32 dword n = push_bit n dword XOR drop_bit (32 - n) dword"

text \<open>The \<open>t\<close>-th word of a block, \<open>block[t]\<close>.\<close>

definition block32 :: "byte list \<Rightarrow> nat \<Rightarrow> u32" where
  "block32 b t = word_le32 [b ! (4 * t), b ! (4 * t + 1), b ! (4 * t + 2), b ! (4 * t + 3)]"

definition block64 :: "byte list \<Rightarrow> nat \<Rightarrow> u64" where
  "block64 b t = word_le64 (map (\<lambda>i. b ! (8 * t + i)) [0, 1, 2, 3, 4, 5, 6, 7])"

subsection \<open>The copying functions of byte\_order.c\<close>

text \<open>
  \<open>rhash_u32_swap_copy\<close> takes the addresses of the two buffers and their contents; the length
  is that of \<open>src\<close>. The first branch stores byte-swapped words, the second scatters bytes.
\<close>

function swap_copy_words32 :: "byte list \<Rightarrow> nat \<Rightarrow> byte list \<Rightarrow> byte list" where
  "swap_copy_words32 dst i src =
     (if src = [] then dst
      else swap_copy_words32 (memcpy dst i (bytes_le32 (bswap_32 (word_le32 src)))) (i + 4) (drop 4 src))"
  by pat_completeness auto
termination by (relation "measure (\<lambda>(dst, i, src). length src)") auto

fun swap_copy_bytes :: "nat \<Rightarrow> byte list \<Rightarrow> nat \<Rightarrow> byte list \<Rightarrow> byte list" where
  "swap_copy_bytes x dst i [] = dst"
| "swap_copy_bytes x dst i (b # src) = swap_copy_bytes x (dst[i XOR x := b]) (Suc i) src"

definition rhash_u32_swap_copy :: "nat \<Rightarrow> byte list \<Rightarrow> nat \<Rightarrow> nat \<Rightarrow> byte list \<Rightarrow> byte list" where
  "rhash_u32_swap_copy to_addr dst index from_addr src =
     (if (to_addr OR from_addr OR index OR length src) AND 3 = 0
      then swap_copy_words32 dst index src else swap_copy_bytes 3 dst index src)"

function swap_copy_words64 :: "byte list \<Rightarrow> nat \<Rightarrow> byte list \<Rightarrow> byte list" where
  "swap_copy_words64 dst i src =
     (if src = [] then dst
      else swap_copy_words64 (memcpy dst i (bytes_le64 (bswap_64 (word_le64 src)))) (i + 8) (drop 8 src))"
  by pat_completeness auto
termination by (relation "measure (\<lambda>(dst, i, src). length src)") auto

definition rhash_u64_swap_copy :: "nat \<Rightarrow> byte list \<Rightarrow> nat \<Rightarrow> nat \<Rightarrow> byte list \<Rightarrow> byte list" where
  "rhash_u64_swap_copy to_addr dst index from_addr src =
     (if (to_addr OR from_addr OR index OR length src) AND 7 = 0
      then swap_copy_words64 dst index src else swap_copy_bytes 7 dst index src)"

definition rhash_u32_memswap :: "u32 list \<Rightarrow> u32 list" where
  "rhash_u32_memswap arr = map bswap_32 arr"

declare swap_copy_words32.simps [simp del] swap_copy_words64.simps [simp del]

subsection \<open>Contexts and updates\<close>

record 'w rhash_ctx =
  rh_message :: "byte list"
  rh_length :: u64
  rh_hash :: "'w list"

definition rhash_index :: "('w, 'z) rhash_ctx_scheme \<Rightarrow> nat" where
  "rhash_index ctx = unat ((ucast (rh_length ctx) :: u32) AND 63)"

function rhash_blocks ::
  "nat \<Rightarrow> ('w list \<Rightarrow> byte list \<Rightarrow> 'w list) \<Rightarrow> ('w, 'z) rhash_ctx_scheme \<Rightarrow> nat \<Rightarrow> byte list \<Rightarrow> ('w, 'z) rhash_ctx_scheme"
where
  "rhash_blocks al process ctx addr msg =
     (if 64 \<le> length msg
      then rhash_blocks al process
             (if addr mod al = 0
              then ctx\<lparr>rh_hash := process (rh_hash ctx) (take 64 msg)\<rparr>
              else let ctx = ctx\<lparr>rh_message := memcpy (rh_message ctx) 0 (take 64 msg)\<rparr>
                   in ctx\<lparr>rh_hash := process (rh_hash ctx) (rh_message ctx)\<rparr>)
             (addr + 64) (drop 64 msg)
      else if msg \<noteq> [] then ctx\<lparr>rh_message := memcpy (rh_message ctx) 0 msg\<rparr>
      else ctx)"
  by pat_completeness auto
termination by (relation "measure (\<lambda>(al, process, ctx, addr, msg). length msg)") auto

declare rhash_blocks.simps [simp del]

definition rhash_update ::
  "nat \<Rightarrow> ('w list \<Rightarrow> byte list \<Rightarrow> 'w list) \<Rightarrow> ('w, 'z) rhash_ctx_scheme \<Rightarrow> nat \<Rightarrow> byte list \<Rightarrow> ('w, 'z) rhash_ctx_scheme"
where
  "rhash_update al process ctx addr msg =
     (let index = rhash_index ctx;
          ctx = ctx\<lparr>rh_length := rh_length ctx + of_nat (length msg)\<rparr>
      in if index \<noteq> 0
         then let left = 64 - index;
                  ctx = ctx\<lparr>rh_message := memcpy (rh_message ctx) index (take left msg)\<rparr>
              in if length msg < left then ctx
                 else rhash_blocks al process
                   (ctx\<lparr>rh_hash := process (rh_hash ctx) (rh_message ctx)\<rparr>) (addr + left) (drop left msg)
         else rhash_blocks al process ctx addr msg)"

text \<open>The loops \<open>while(index < n) message[index++] = 0\<close> and \<open>while(index < n) msg32[index++] = 0\<close>.\<close>

function fill8 :: "byte list \<Rightarrow> nat \<Rightarrow> nat \<Rightarrow> byte list" where
  "fill8 m i n = (if i < n then fill8 (m[i := 0]) (Suc i) n else m)"
  by pat_completeness auto
termination by (relation "measure (\<lambda>(m, i, n). n - i)") auto

function fill32 :: "byte list \<Rightarrow> nat \<Rightarrow> nat \<Rightarrow> byte list" where
  "fill32 m i n = (if i < n then fill32 (memcpy m (4 * i) (bytes_le32 0)) (Suc i) n else m)"
  by pat_completeness auto
termination by (relation "measure (\<lambda>(m, i, n). n - i)") auto

declare fill8.simps [simp del] fill32.simps [simp del]

subsection \<open>Words and bytes\<close>

lemma length_bytes_le [len_simps]: "length (bytes_le32 w) = 4" "length (bytes_le64 v) = 8"
  by (simp_all add: bytes_le32_def bytes_le64_def)

lemma bytes_le32_bswap:
  assumes "length b = 4"
  shows "bytes_le32 (bswap_32 (word_le32 b)) = rev b"
proof -
  obtain b0 b1 b2 b3 where b: "b = [b0, b1, b2, b3]"
    using assms by (auto simp: numeral_eq_Suc length_Suc_conv)
  define w where "w = word_le32 b"
  have w: "bit w i = (if i < 8 then bit b0 i else if i < 16 then bit b1 (i - 8)
      else if i < 24 then bit b2 (i - 16) else if i < 32 then bit b3 (i - 24) else False)" for i
    unfolding w_def word_le32_def b
    by (auto simp: bit_or_iff bit_push_bit_iff bit_ucast_iff dest: byte_bit)
  have m: "(0xFF00FF00 :: u32) = push_bit 8 (mask 8) OR push_bit 24 (mask 8)"
    "(0x00FF00FF :: u32) = mask 8 OR push_bit 16 (mask 8)"
    by (simp_all add: mask_eq_exp_minus_1)
  have sw: "bit (bswap_32 w) i = (if i < 8 then bit b3 i else if i < 16 then bit b2 (i - 8)
      else if i < 24 then bit b1 (i - 16) else if i < 32 then bit b0 (i - 24) else False)" for i
    unfolding bswap_32_def Let_def m
    by (auto simp: bit_or_iff bit_and_iff bit_push_bit_iff bit_drop_bit_eq bit_mask_iff w dest: byte_bit)
  have "ucast (bswap_32 w) = b3" "ucast (drop_bit 8 (bswap_32 w)) = b2"
    "ucast (drop_bit 16 (bswap_32 w)) = b1" "ucast (drop_bit 24 (bswap_32 w)) = b0"
    by (rule bit_word_eqI; simp add: bit_ucast_iff bit_drop_bit_eq sw)+
  then show ?thesis by (simp only: bytes_le32_def w_def [symmetric]) (simp add: b)
qed

lemma bytes_le64_bswap:
  assumes "length b = 8"
  shows "bytes_le64 (bswap_64 (word_le64 b)) = rev b"
proof -
  have lo: "ucast (ucast x OR push_bit 32 (ucast y) :: u64) = (x :: u32)"
    and hi: "ucast (drop_bit 32 (ucast x OR push_bit 32 (ucast y) :: u64)) = y" for x y :: u32
    by (rule bit_word_eqI; auto simp: bit_ucast_iff bit_or_iff bit_drop_bit_eq bit_push_bit_iff dest: bit_imp_le_length)+
  have "bytes_le64 (bswap_64 (word_le64 b)) =
      bytes_le32 (bswap_32 (word_le32 (drop 4 b))) @ bytes_le32 (bswap_32 (word_le32 b))"
    by (simp only: bytes_le64_def bswap_64_def word_le64_def Let_def lo hi)
  moreover have "word_le32 (take 4 b) = word_le32 b" by (simp add: word_le32_def)
  ultimately show ?thesis
    using assms bytes_le32_bswap [of "take 4 b"] bytes_le32_bswap [of "drop 4 b"]
    by (simp flip: rev_append)
qed

subsection \<open>The two branches of a swapping copy agree\<close>

text \<open>Every group of \<open>n\<close> bytes backwards.\<close>

function swapped :: "nat \<Rightarrow> byte list \<Rightarrow> byte list" where
  "swapped n xs = (if n = 0 \<or> xs = [] then [] else rev (take n xs) @ swapped n (drop n xs))"
  by pat_completeness auto
termination by (relation "measure (\<lambda>(n, xs). length xs)") auto

declare swapped.simps [simp del]

lemma swapped_nil [simp]: "swapped n [] = []"
  by (simp add: swapped.simps)

lemma swapped_group: "0 < n \<Longrightarrow> length g = n \<Longrightarrow> swapped n (g @ xs) = rev g @ swapped n xs"
  by (subst swapped.simps) auto

lemma length_swapped [len_simps]: "0 < n \<Longrightarrow> length (swapped n xs) = length xs"
  by (induction n xs rule: swapped.induct) (subst swapped.simps, auto)

lemma memcpy_memcpy:
  "i + length a + length b \<le> length dst \<Longrightarrow> memcpy (memcpy dst i a) (i + length a) b = memcpy dst i (a @ b)"
  by (simp add: memcpy_def ac_simps)

lemma drop_update_self: "n < length xs \<Longrightarrow> drop n (xs[n := x]) = x # drop (Suc n) xs"
  by (intro nth_equalityI) (auto simp: nth_Cons nth_list_update split: nat.splits)

lemma memcpy_update:
  assumes "i + length a < length dst"
  shows "memcpy (dst[i + length a := x]) i a = memcpy dst i (a @ [x])"
proof -
  have "take i (dst[i + length a := x]) = take i dst" by (cases "length a") simp_all
  then show ?thesis using assms by (simp add: memcpy_def drop_update_self)
qed

lemma swap_copy_bytes_group:
  assumes x: "\<And>r. r < n \<Longrightarrow> (i + r) XOR x = i + (n - 1 - r)"
  shows "r + length c = n \<Longrightarrow> i + n \<le> length dst \<Longrightarrow>
    swap_copy_bytes x dst (i + r) (c @ src) = swap_copy_bytes x (memcpy dst i (rev c)) (i + n) src"
proof (induction c arbitrary: r dst)
  case Nil
  then show ?case by simp
next
  case (Cons a c)
  have "n - 1 - r = length c" using Cons.prems by simp
  then have "swap_copy_bytes x dst (i + r) ((a # c) @ src)
      = swap_copy_bytes x (dst[i + length (rev c) := a]) (i + Suc r) (c @ src)"
    using x [of r] Cons.prems by simp
  also have "\<dots> = swap_copy_bytes x (memcpy (dst[i + length (rev c) := a]) i (rev c)) (i + n) src"
    using Cons.prems by (intro Cons.IH) simp_all
  also have "memcpy (dst[i + length (rev c) := a]) i (rev c) = memcpy dst i (rev (a # c))"
    using Cons.prems by (subst memcpy_update) simp_all
  finally show ?case .
qed

lemma xor_1: "(2 * q) XOR 1 = Suc (2 * q)" "Suc (2 * q) XOR 1 = 2 * q" for q :: nat
  by (subst xor_nat_unfold; simp)+

lemma xor_double_Suc:
  "(2 * a) XOR Suc (2 * b) = Suc (2 * (a XOR b))" "Suc (2 * a) XOR Suc (2 * b) = 2 * (a XOR b)" for a b :: nat
  by (subst xor_nat_unfold; simp)+

lemma xor_3: "r < 4 \<Longrightarrow> (4 * q + r) XOR 3 = 4 * q + (3 - r)" for q r :: nat
proof -
  assume r: "r < 4"
  define s where "s = r div 2"
  have s: "s = 0 \<or> s = 1" using r by (auto simp: s_def)
  have 1: "(2 * q + s) XOR 1 = 2 * q + (1 - s)" using s xor_1 [of q] by auto
  have h: "(2 * a) XOR 3 = Suc (2 * (a XOR 1))" "Suc (2 * a) XOR 3 = 2 * (a XOR 1)" for a :: nat
    using xor_double_Suc [of a 1] by simp_all
  consider "r = 2 * s" | "r = Suc (2 * s)" by (fastforce simp: s_def)
  then show ?thesis
  proof cases
    case 1
    then show ?thesis using h(1) [of "2 * q + s"] \<open>(2 * q + s) XOR 1 = _\<close> s by auto
  next
    case 2
    then show ?thesis using h(2) [of "2 * q + s"] \<open>(2 * q + s) XOR 1 = _\<close> s by auto
  qed
qed

lemma xor_7: "r < 8 \<Longrightarrow> (8 * q + r) XOR 7 = 8 * q + (7 - r)" for q r :: nat
proof -
  assume r: "r < 8"
  define s where "s = r div 2"
  have s: "s < 4" using r by (simp add: s_def)
  have h: "(2 * a) XOR 7 = Suc (2 * (a XOR 3))" "Suc (2 * a) XOR 7 = 2 * (a XOR 3)" for a :: nat
    using xor_double_Suc [of a 3] by simp_all
  consider "r = 2 * s" | "r = Suc (2 * s)" by (fastforce simp: s_def)
  then show ?thesis
  proof cases
    case 1
    then show ?thesis using h(1) [of "4 * q + s"] xor_3 [OF s, of q] s by simp
  next
    case 2
    then show ?thesis using h(2) [of "4 * q + s"] xor_3 [OF s, of q] s by simp
  qed
qed

lemma xor_low:
  "i mod 4 = 0 \<Longrightarrow> r < 4 \<Longrightarrow> (i + r) XOR 3 = i + (3 - r :: nat)"
  "i mod 8 = 0 \<Longrightarrow> r < 8 \<Longrightarrow> (i + r) XOR 7 = i + (7 - r :: nat)"
  by (auto simp: xor_3 xor_7 elim!: dvdE dest!: mod_0_imp_dvd)

text \<open>A word loop or a byte loop that advances by groups writes the swapped source.\<close>

lemma copy_groups:
  fixes copy :: "byte list \<Rightarrow> nat \<Rightarrow> byte list \<Rightarrow> byte list"
  assumes step: "\<And>dst i g src. length g = n \<Longrightarrow> i mod n = 0 \<Longrightarrow> i + n \<le> length dst \<Longrightarrow>
      copy dst i (g @ src) = copy (memcpy dst i (rev g)) (i + n) src"
    and nil: "\<And>dst i. copy dst i [] = dst" and n: "0 < n"
  shows "length src mod n = 0 \<Longrightarrow> i mod n = 0 \<Longrightarrow> i + length src \<le> length dst \<Longrightarrow>
    copy dst i src = memcpy dst i (swapped n src)"
proof (induction "length src" arbitrary: src dst i rule: less_induct)
  case less
  show ?case
  proof (cases "src = []")
    case True
    then show ?thesis by (simp add: nil)
  next
    case False
    then have "n \<le> length src" using less.prems(1) mod_less [of "length src" n] by force
    define g rest where "g = take n src" and "rest = drop n src"
    have src: "src = g @ rest" and g: "length g = n" using \<open>n \<le> length src\<close> by (simp_all add: g_def rest_def)
    have "copy dst i src = copy (memcpy dst i (rev g)) (i + n) rest"
      unfolding src using less.prems g by (intro step) (simp_all add: src)
    also have "\<dots> = memcpy (memcpy dst i (rev g)) (i + n) (swapped n rest)"
      using less.prems g n by (intro less.hyps) (simp_all add: src len_simps)
    also have "\<dots> = memcpy dst i (rev g @ swapped n rest)"
      using memcpy_memcpy [of i "rev g" "swapped n rest" dst] less.prems(3) g n by (simp add: src len_simps)
    finally show ?thesis using n g by (simp add: src swapped_group)
  qed
qed

lemma swap_copy_words32_spec:
  assumes "length src mod 4 = 0" "i mod 4 = 0" "i + length src \<le> length dst"
  shows "swap_copy_words32 dst i src = memcpy dst i (swapped 4 src)"
proof (rule copy_groups [OF _ _ _ assms])
  fix dst :: "byte list" and i g src assume "length (g :: byte list) = 4"
  moreover have "word_le32 (g @ src) = word_le32 g" if "length g = 4" using that by (simp add: word_le32_def nth_append)
  ultimately show "swap_copy_words32 dst i (g @ src) = swap_copy_words32 (memcpy dst i (rev g)) (i + 4) src"
    by (subst swap_copy_words32.simps) (auto simp: bytes_le32_bswap)
qed (simp_all add: swap_copy_words32.simps)

lemma swap_copy_words64_spec:
  assumes "length src mod 8 = 0" "i mod 8 = 0" "i + length src \<le> length dst"
  shows "swap_copy_words64 dst i src = memcpy dst i (swapped 8 src)"
proof (rule copy_groups [OF _ _ _ assms])
  fix dst :: "byte list" and i g src assume "length (g :: byte list) = 8"
  moreover have "word_le64 (g @ src) = word_le64 g" if "length g = 8"
    using that by (simp add: word_le64_def word_le32_def nth_append)
  ultimately show "swap_copy_words64 dst i (g @ src) = swap_copy_words64 (memcpy dst i (rev g)) (i + 8) src"
    by (subst swap_copy_words64.simps) (auto simp: bytes_le64_bswap)
qed (simp_all add: swap_copy_words64.simps)

lemma swap_copy_bytes_spec:
  "length src mod 4 = 0 \<Longrightarrow> i mod 4 = 0 \<Longrightarrow> i + length src \<le> length dst \<Longrightarrow>
     swap_copy_bytes 3 dst i src = memcpy dst i (swapped 4 src)"
  "length src mod 8 = 0 \<Longrightarrow> i mod 8 = 0 \<Longrightarrow> i + length src \<le> length dst \<Longrightarrow>
     swap_copy_bytes 7 dst i src = memcpy dst i (swapped 8 src)"
proof -
  assume a: "length src mod 4 = 0" "i mod 4 = 0" "i + length src \<le> length dst"
  show "swap_copy_bytes 3 dst i src = memcpy dst i (swapped 4 src)"
  proof (rule copy_groups [OF _ _ _ a])
    fix dst :: "byte list" and i g src assume "length (g :: byte list) = 4" "i mod 4 = 0" "i + 4 \<le> length dst"
    then show "swap_copy_bytes 3 dst i (g @ src) = swap_copy_bytes 3 (memcpy dst i (rev g)) (i + 4) src"
      using swap_copy_bytes_group [of 4 i 3 0 g dst src] xor_low(1) by simp
  qed simp_all
next
  assume a: "length src mod 8 = 0" "i mod 8 = 0" "i + length src \<le> length dst"
  show "swap_copy_bytes 7 dst i src = memcpy dst i (swapped 8 src)"
  proof (rule copy_groups [OF _ _ _ a])
    fix dst :: "byte list" and i g src assume "length (g :: byte list) = 8" "i mod 8 = 0" "i + 8 \<le> length dst"
    then show "swap_copy_bytes 7 dst i (g @ src) = swap_copy_bytes 7 (memcpy dst i (rev g)) (i + 8) src"
      using swap_copy_bytes_group [of 8 i 7 0 g dst src] xor_low(2) by simp
  qed simp_all
qed

lemma swap_copy_spec:
  "length src mod 4 = 0 \<Longrightarrow> i mod 4 = 0 \<Longrightarrow> i + length src \<le> length dst \<Longrightarrow>
     rhash_u32_swap_copy ta dst i fa src = memcpy dst i (swapped 4 src)"
  "length src mod 8 = 0 \<Longrightarrow> i mod 8 = 0 \<Longrightarrow> i + length src \<le> length dst \<Longrightarrow>
     rhash_u64_swap_copy ta dst i fa src = memcpy dst i (swapped 8 src)"
  by (simp_all add: rhash_u32_swap_copy_def rhash_u64_swap_copy_def swap_copy_words32_spec swap_copy_words64_spec
      swap_copy_bytes_spec)

subsection \<open>Updates absorb the message\<close>

lemma rhash_blocks_absorb:
  "length (rh_message ctx) = 64 \<Longrightarrow>
     \<exists>buf. rhash_blocks al process ctx addr msg =
         ctx\<lparr>rh_hash := absorb process (rh_hash ctx) msg, rh_message := buf\<rparr> \<and>
       length buf = 64 \<and> take (length msg mod 64) buf = pending msg"
proof (induction al process ctx addr msg rule: rhash_blocks.induct)
  case (1 al process ctx addr msg)
  show ?case
  proof (cases "64 \<le> length msg")
    case True
    define b r where "b = take 64 msg" and "r = drop 64 msg"
    have msg: "msg = b @ r" and b: "length b = 64" using True by (simp_all add: b_def r_def)
    define ctx' where "ctx' = (if addr mod al = 0
              then ctx\<lparr>rh_hash := process (rh_hash ctx) (take 64 msg)\<rparr>
              else let ctx = ctx\<lparr>rh_message := memcpy (rh_message ctx) 0 (take 64 msg)\<rparr>
                   in ctx\<lparr>rh_hash := process (rh_hash ctx) (rh_message ctx)\<rparr>)"
    have ctx': "rh_hash ctx' = process (rh_hash ctx) b" "length (rh_message ctx') = 64"
      "ctx'\<lparr>rh_hash := h, rh_message := x\<rparr> = ctx\<lparr>rh_hash := h, rh_message := x\<rparr>" for h x
      using b "1.prems" unfolding ctx'_def b_def [symmetric]
      by (simp_all add: Let_def memcpy_full len_simps)
    obtain buf where "rhash_blocks al process ctx' (addr + 64) r =
         ctx'\<lparr>rh_hash := absorb process (rh_hash ctx') r, rh_message := buf\<rparr>"
       "length buf = 64" "take (length r mod 64) buf = pending r"
      using "1.IH" [OF True] ctx'(2) unfolding ctx'_def [symmetric] r_def [symmetric] by blast
    moreover have "rhash_blocks al process ctx addr msg = rhash_blocks al process ctx' (addr + 64) r"
      using True by (subst rhash_blocks.simps) (simp add: ctx'_def r_def)
    moreover have "length msg mod 64 = length r mod 64" using b by (simp add: msg)
    ultimately show ?thesis by (auto simp: ctx' msg absorb_block pending_block b)
  next
    case False
    show ?thesis
    proof (cases "msg = []")
      case True
      then show ?thesis using "1.prems"
        by (intro exI [of _ "rh_message ctx"]) (subst rhash_blocks.simps, simp)
    next
      case ne: False
      then show ?thesis using False "1.prems"
        by (intro exI [of _ "memcpy (rh_message ctx) 0 msg"])
          (subst rhash_blocks.simps, simp add: len_simps, simp add: memcpy_def)
    qed
  qed
qed

definition rhash_rep :: "('w list \<Rightarrow> byte list \<Rightarrow> 'w list) \<Rightarrow> 'w list \<Rightarrow> ('w, 'z) rhash_ctx_scheme \<Rightarrow> byte list \<Rightarrow> bool" where
  "rhash_rep process start ctx m \<longleftrightarrow>
     rh_hash ctx = absorb process start m \<and> rh_length ctx = of_nat (length m) \<and>
     length (rh_message ctx) = 64 \<and> take (length m mod 64) (rh_message ctx) = pending m"

lemma rhash_index_length: "rh_length ctx = of_nat n \<Longrightarrow> rhash_index ctx = n mod 64"
proof -
  assume len: "rh_length ctx = of_nat n"
  have "rhash_index ctx = unat (of_nat n :: u64) mod 2 ^ 32 mod 64"
    by (simp only: rhash_index_def len unat_and_63 unsigned_ucast_eq take_bit_eq_mod len_num1 len_num0 len_bit0)
      simp
  also have "\<dots> = n mod 2 ^ 64 mod 2 ^ 32 mod 64"
    by (simp only: unsigned_of_nat take_bit_eq_mod of_nat_id len_num1 len_num0 len_bit0) simp
  also have "\<dots> = n mod 64" by (simp add: mod_mod_cancel)
  finally show ?thesis .
qed

lemma rhash_update_rep:
  assumes rep: "rhash_rep process start ctx m"
  shows "rhash_rep process start (rhash_update al process ctx addr x) (m @ x)"
proof -
  from rep have ctx: "rh_hash ctx = absorb process start m" "rh_length ctx = of_nat (length m)"
    "length (rh_message ctx) = 64" "take (length m mod 64) (rh_message ctx) = pending m"
    by (simp_all add: rhash_rep_def)
  define n where "n = length m mod 64"
  have index: "rhash_index ctx = n" using rhash_index_length [OF ctx(2)] by (simp add: n_def)
  have n: "n < 64" by (simp add: n_def)
  have pend: "length (pending m) = n" by (simp add: n_def)
  define ctx1 where "ctx1 = ctx\<lparr>rh_length := rh_length ctx + of_nat (length x)\<rparr>"
  have len1: "rh_length ctx1 = of_nat (length (m @ x))" by (simp add: ctx1_def ctx(2))
  show ?thesis
  proof (cases "n = 0")
    case True
    then have p: "pending m = []" using pend by (metis length_0_conv)
    obtain buf where buf: "rhash_blocks al process ctx1 addr x = ctx1\<lparr>rh_hash := absorb process (rh_hash ctx1) x, rh_message := buf\<rparr>"
      "length buf = 64" "take (length x mod 64) buf = pending x"
      using rhash_blocks_absorb [of ctx1 al process addr x] ctx(3) by (auto simp: ctx1_def)
    have "length (m @ x) mod 64 = length x mod 64" using True by (simp add: n_def mod_add_eq [symmetric])
    then show ?thesis
      using True buf len1 absorb_append [of process start m x] pending_append [of m x]
      by (simp add: rhash_update_def index flip: ctx1_def) (simp add: rhash_rep_def p ctx1_def ctx(1))
  next
    case False
    define left where "left = 64 - n"
    show ?thesis
    proof (cases "length x < left")
      case True
      then have fit: "length (pending m) + length x < 64" using pend by (simp add: left_def)
      have len_m: "length (m @ x) mod 64 = n + length x"
        using fit absorb_no_fill(2) [OF fit] by (metis length_append length_pending pend)
      have "rhash_update al process ctx addr x = ctx1\<lparr>rh_message := memcpy (rh_message ctx) n x\<rparr>"
        using False True by (simp add: rhash_update_def index Let_def left_def ctx1_def)
      then show ?thesis
        unfolding rhash_rep_def len_m using ctx fit pend len1
        by (simp add: absorb_no_fill [OF fit] len_simps take_memcpy ctx1_def flip: n_def)
    next
      case nlt: False
      define a r where "a = take left x" and "r = drop left x"
      have x: "x = a @ r" and a: "length (pending m) + length a = 64"
        using nlt n pend by (simp_all add: a_def r_def left_def)
      have mem: "memcpy (rh_message ctx) n a = pending m @ a"
        using a ctx by (simp add: memcpy_def flip: n_def)
      define ctx2 where "ctx2 = ctx1\<lparr>rh_message := pending m @ a, rh_hash := process (rh_hash ctx) (pending m @ a)\<rparr>"
      obtain buf where buf: "rhash_blocks al process ctx2 (addr + left) r
          = ctx2\<lparr>rh_hash := absorb process (rh_hash ctx2) r, rh_message := buf\<rparr>"
        "length buf = 64" "take (length r mod 64) buf = pending r"
        using rhash_blocks_absorb [of ctx2 al process "addr + left" r] a by (auto simp: ctx2_def)
      have upd: "rhash_update al process ctx addr x = rhash_blocks al process ctx2 (addr + left) r"
        using False nlt mem by (simp add: rhash_update_def index Let_def ctx2_def ctx1_def a_def r_def left_def)
      have fill: "absorb process start (m @ x) = absorb process (process (absorb process start m) (pending m @ a)) r"
          "pending (m @ x) = pending r"
        using absorb_fill [OF a] by (simp_all only: x)
      have "length (m @ x) mod 64 = length r mod 64"
        using fill(2) by (metis length_pending)
      then show ?thesis
        unfolding upd buf(1) rhash_rep_def using buf(2,3) len1 by (simp add: fill ctx2_def ctx(1))
    qed
  qed
qed

subsection \<open>The last blocks\<close>

lemma fill8_spec: "i \<le> n \<Longrightarrow> n \<le> length m \<Longrightarrow> fill8 m i n = take i m @ replicate (n - i) 0 @ drop n m"
proof (induction m i n rule: fill8.induct)
  case (1 m i n)
  show ?case
  proof (cases "i < n")
    case True
    have "fill8 (m[i := 0]) (Suc i) n = take (Suc i) (m[i := 0]) @ replicate (n - Suc i) 0 @ drop n (m[i := 0])"
      using True "1.prems" by (intro "1.IH") simp_all
    moreover have "take (Suc i) (m[i := 0]) = take i m @ [0]" using True "1.prems" by (simp add: take_Suc_conv_app_nth)
    moreover have "0 # replicate (n - Suc i) 0 = replicate (n - i) (0 :: byte)"
      using True by (simp add: Suc_diff_Suc flip: replicate_Suc)
    ultimately show ?thesis using True by (subst fill8.simps) simp
  next
    case False
    then show ?thesis using "1.prems" by (subst fill8.simps) simp
  qed
qed

lemma fill32_spec:
  "i \<le> n \<Longrightarrow> 4 * n \<le> length m \<Longrightarrow> fill32 m i n = take (4 * i) m @ replicate (4 * (n - i)) 0 @ drop (4 * n) m"
proof (induction m i n rule: fill32.induct)
  case (1 m i n)
  show ?case
  proof (cases "i < n")
    case True
    have zero: "bytes_le32 0 = replicate 4 0" by (simp add: bytes_le32_def numeral_eq_Suc)
    define m' where "m' = memcpy m (4 * i) (bytes_le32 0)"
    have m': "m' = take (4 * i) m @ replicate 4 0 @ drop (4 * i + 4) m" by (simp add: m'_def memcpy_def zero)
    have "fill32 m' (Suc i) n = take (4 * Suc i) m' @ replicate (4 * (n - Suc i)) 0 @ drop (4 * n) m'"
      using True "1.prems" unfolding m'_def by (intro "1.IH") (simp_all add: len_simps)
    moreover have "take (4 * Suc i) m' = take (4 * i) m @ replicate 4 0"
      using True "1.prems" by (simp add: m')
    moreover have "drop (4 * n) m' = drop (4 * n) m"
      using True "1.prems" by (simp add: m' min_def)
    moreover have "replicate 4 0 @ replicate (4 * (n - Suc i)) 0 @ z = replicate (4 * (n - i)) (0 :: byte) @ z" for z
      using True by (simp flip: replicate_add append_assoc)
    ultimately show ?thesis using True by (subst fill32.simps) (simp flip: m'_def)
  next
    case False
    then show ?thesis using "1.prems" by (subst fill32.simps) simp
  qed
qed

lemma absorb_padding:
  assumes "length tail = 8" and "8 \<le> k" and "k \<le> 63"
  shows "absorb f h (m @ padding marker k tail (length m)) =
    (if length m mod 64 + 1 + k \<le> 64
     then f (absorb f h m) (pending m @ marker # replicate (55 - length m mod 64) 0 @ tail)
     else f (f (absorb f h m) (pending m @ marker # replicate (63 - length m mod 64) 0)) (replicate 56 0 @ tail))"
proof -
  define n where "n = length m mod 64"
  have n: "n < 64" "length (pending m) = n" by (simp_all add: n_def)
  have eq: "absorb f h (m @ padding marker k tail (length m))
      = absorb f (absorb f h m) (pending m @ padding marker k tail (length m))"
    by (rule absorb_append)
  show ?thesis
  proof (cases "n + 1 + k \<le> 64")
    case True
    then have "pad_zeros k (length m) + (k - 8) = 55 - n"
      using assms by (simp add: pad_zeros_def n_def)
    then show ?thesis
      unfolding eq unfolding padding_def using True n assms by (simp add: absorb_one n_def)
  next
    case False
    then have z: "pad_zeros k (length m) + (k - 8) = (63 - n) + 56"
      using assms n by (simp add: pad_zeros_def n_def)
    have "pending m @ padding marker k tail (length m)
        = (pending m @ marker # replicate (63 - n) 0) @ replicate 56 0 @ tail"
      unfolding padding_def z replicate_add by simp
    then have "absorb f h (m @ padding marker k tail (length m))
        = f (f (absorb f h m) (pending m @ marker # replicate (63 - n) 0)) (replicate 56 0 @ tail)"
      unfolding eq using n assms by (simp only:) (subst absorb_two; simp)
    then show ?thesis using False by (simp add: n_def)
  qed
qed

definition bytes_be64 :: "u64 \<Rightarrow> byte list" where
  "bytes_be64 w = rev (bytes_le64 w)"

definition bytes_be32 :: "u32 \<Rightarrow> byte list" where
  "bytes_be32 w = rev (bytes_le32 w)"

lemma length_bytes_be [len_simps]: "length (bytes_be32 w) = 4" "length (bytes_be64 v) = 8"
  by (simp_all add: bytes_be32_def bytes_be64_def len_simps)

lemma word_le32_bytes: "word_le32 (bytes_le32 w @ x) = w"
proof (rule bit_word_eqI)
  fix i assume "i < LENGTH(32)"
  then consider "i < 8" | "8 \<le> i" "i < 16" | "16 \<le> i" "i < 24" | "24 \<le> i" "i < 32" by fastforce
  then show "bit (word_le32 (bytes_le32 w @ x)) i = bit w i"
    unfolding word_le32_def bytes_le32_def
    by cases (auto simp: bit_ucast_iff bit_or_iff bit_drop_bit_eq bit_push_bit_iff)
qed

lemma word_le64_bytes: "word_le64 (bytes_le64 w @ x) = w"
proof -
  have "word_le64 (bytes_le64 w @ x) = ucast (ucast w :: u32) OR push_bit 32 (ucast (ucast (drop_bit 32 w) :: u32))"
    by (simp add: word_le64_def bytes_le64_def word_le32_bytes len_simps)
  also have "\<dots> = w"
  proof (rule bit_word_eqI)
    fix i assume "i < LENGTH(64)"
    then show "bit (ucast (ucast w :: u32) OR push_bit 32 (ucast (ucast (drop_bit 32 w) :: u32)) :: u64) i = bit w i"
      by (cases "i < 32") (auto simp: bit_ucast_iff bit_or_iff bit_drop_bit_eq bit_push_bit_iff)
  qed
  finally show ?thesis .
qed

lemma bytes_swapped: "bytes_le32 (be2me_32 w) = bytes_be32 w" "bytes_le64 (be2me_64 v) = bytes_be64 v"
  using bytes_le32_bswap [of "bytes_le32 w"] word_le32_bytes [of w "[]"]
    bytes_le64_bswap [of "bytes_le64 v"] word_le64_bytes [of v "[]"]
  by (simp_all add: be2me_32_def be2me_64_def bytes_be32_def bytes_be64_def len_simps)

lemma swapped_words:
  "swapped 4 (concat (map bytes_le32 ws)) = concat (map bytes_be32 ws)"
  "swapped 8 (concat (map bytes_le64 vs)) = concat (map bytes_be64 vs)"
  by (induction ws, simp_all add: swapped_group len_simps bytes_be32_def)
    (induction vs, simp_all add: swapped_group len_simps bytes_be64_def)

lemma length_concat_words [len_simps]:
  "length (concat (map bytes_le32 ws)) = 4 * length ws" "length (concat (map bytes_le64 vs)) = 8 * length vs"
  "length (concat (map bytes_be32 ws)) = 4 * length ws" "length (concat (map bytes_be64 vs)) = 8 * length vs"
  by (induction ws; induction vs; simp add: len_simps)+

lemma of_nat_bits: "push_bit 3 (of_nat n) = (of_nat (8 * n) :: u64)"
  by (simp add: push_bit_eq_mult)

lemma length_field_be:
  "bytes_be32 (ucast (drop_bit 29 (of_nat n :: u64))) @ bytes_be32 (ucast (push_bit 3 (of_nat n :: u64)))
     = bytes_be64 (of_nat (8 * n))"
proof -
  have "(ucast (drop_bit 29 x) :: u32) = ucast (drop_bit 32 (push_bit 3 x))" for x :: u64
    by (rule bit_word_eqI) (auto simp: bit_ucast_iff bit_drop_bit_eq bit_push_bit_iff)
  then have "bytes_be64 (of_nat (8 * n)) = bytes_be32 (ucast (drop_bit 29 (of_nat n :: u64)))
      @ bytes_be32 (ucast (push_bit 3 (of_nat n :: u64)))"
    by (simp only: bytes_be64_def bytes_be32_def bytes_le64_def rev_append of_nat_bits)
  then show ?thesis by (rule sym)
qed

end
