(* ===== verification/Sha1.thy ===== *)
theory Sha1
  imports Rhash
begin

text \<open>
  SHA-1 and its modified variant, \<open>rhash/src/sha1.c\<close>: the block functions on a block of 64
  bytes in memory, the instances of the shared update, the final functions, the reference
  description of FIPS 180-4 and the digest of a message.
\<close>

subsection \<open>The block functions\<close>

type_synonym sha1_vars = "u32 \<times> u32 \<times> u32 \<times> u32 \<times> u32"
type_synonym sha1_ctx = "u32 rhash_ctx"

definition sha1_W :: "byte list \<Rightarrow> u32 list" where
  "sha1_W block =
     foldl (\<lambda>W t. W @ [ROTL32 (W ! (t - 3) XOR W ! (t - 8) XOR W ! (t - 14) XOR W ! (t - 16)) 1])
       (map (\<lambda>t. be2me_32 (block32 block t)) [0..<16]) [16..<80]"

text \<open>One of the loops \<open>for(t = ...; t < ...; t++)\<close> with its function and its added constant.\<close>

definition sha1_steps ::
  "(u32 \<Rightarrow> u32 \<Rightarrow> u32 \<Rightarrow> u32) \<Rightarrow> u32 \<Rightarrow> u32 list \<Rightarrow> nat list \<Rightarrow> sha1_vars \<Rightarrow> sha1_vars" where
  "sha1_steps f k W ts vars = foldl (\<lambda>(A, B, C, D, E) t.
     (ROTL32 A 5 + f B C D + E + W ! t + k, A, ROTL32 B 30, C, D)) vars ts"

definition rhash_sha1_process_block :: "u32 list \<Rightarrow> byte list \<Rightarrow> u32 list" where
  "rhash_sha1_process_block hash block =
     (let W = sha1_W block;
          vars = (hash ! 0, hash ! 1, hash ! 2, hash ! 3, hash ! 4);
          vars = sha1_steps (\<lambda>B C D. ((C XOR D) AND B) XOR D) 0x5A827999 W [0..<20] vars;
          vars = sha1_steps (\<lambda>B C D. B XOR C XOR D) 0x6ED9EBA1 W [20..<40] vars;
          vars = sha1_steps (\<lambda>B C D. (B AND C) OR (B AND D) OR (C AND D)) 0x8F1BBCDC W [40..<60] vars;
          (A, B, C, D, E) = sha1_steps (\<lambda>B C D. B XOR C XOR D) 0xCA62C1D6 W [60..<80] vars
      in [hash ! 0 + A, hash ! 1 + B, hash ! 2 + C, hash ! 3 + D, hash ! 4 + E])"

definition rhash_sha1_process_block_Vz :: "u32 list \<Rightarrow> byte list \<Rightarrow> u32 list" where
  "rhash_sha1_process_block_Vz hash block =
     (let W = sha1_W block;
          vars = (hash ! 0, hash ! 1, hash ! 2, hash ! 3, hash ! 4);
          vars = sha1_steps (\<lambda>B C D. ((C XOR D) AND B) XOR D) 0xA2955B2C W [0..<20] vars;
          vars = sha1_steps (\<lambda>B C D. B XOR C XOR D) (0x16AE9DEB + ucast (block ! 0)) W [20..<40] vars;
          vars = sha1_steps (\<lambda>B C D. (B AND C) OR (B AND D) OR (C AND D)) 0xCBFCD1B8 W [40..<61] vars;
          (A, B, C, D, E) = sha1_steps (\<lambda>B C D. B XOR C XOR D) 0xA32C616D W [61..<80] vars
      in [hash ! 0 + (A + 1), hash ! 1 + B, hash ! 2 + C, hash ! 3 + D, hash ! 4 + E])"

subsection \<open>Init, update, final\<close>

definition rhash_sha1_init :: "sha1_ctx \<Rightarrow> sha1_ctx" where
  "rhash_sha1_init ctx = ctx\<lparr>rh_length := 0,
     rh_hash := [0x67452301, 0xefcdab89, 0x98badcfe, 0x10325476, 0xc3d2e1f0]\<rparr>"

definition rhash_sha1_init_Vz :: "sha1_ctx \<Rightarrow> sha1_ctx" where
  "rhash_sha1_init_Vz ctx = ctx\<lparr>rh_length := 0,
     rh_hash := [0x32075416, 0xf8dae9bc, 0x73541260, 0x8acb9dfe, 0xfd0c2e1b]\<rparr>"

definition rhash_sha1_update :: "sha1_ctx \<Rightarrow> nat \<Rightarrow> byte list \<Rightarrow> sha1_ctx" where
  "rhash_sha1_update = rhash_update 4 rhash_sha1_process_block"

definition rhash_sha1_update_Vz :: "sha1_ctx \<Rightarrow> nat \<Rightarrow> byte list \<Rightarrow> sha1_ctx" where
  "rhash_sha1_update_Vz = rhash_update 4 rhash_sha1_process_block_Vz"

lemma round_up_4:
  assumes "i mod 4 \<noteq> 0"
  shows "(Suc i + 3) div 4 = (i + 3) div 4 \<and> i < 4 * ((i + 3) div 4)"
proof -
  define q where "q = i div 4"
  have "i = 4 * q + i mod 4" by (simp add: q_def)
  moreover have "i mod 4 = 1 \<or> i mod 4 = 2 \<or> i mod 4 = 3" using assms mod_less_divisor [of 4 i] by linarith
  ultimately have "i = 4 * q + 1 \<or> i = 4 * q + 2 \<or> i = 4 * q + 3" by metis
  then show ?thesis by (elim disjE) simp_all
qed

text \<open>The loop \<open>while((index & 3) != 0) ctx->message[index++] = 0\<close>.\<close>

function align32 :: "byte list \<Rightarrow> nat \<Rightarrow> byte list \<times> nat" where
  "align32 m i = (if i mod 4 \<noteq> 0 then align32 (m[i := 0]) (Suc i) else (m, i))"
  by pat_completeness auto
termination
proof (relation "measure (\<lambda>(m, i). 4 * ((i + 3) div 4) - i)", goal_cases)
  case 1
  show ?case by simp
next
  case (2 m i)
  then show ?case using round_up_4 [OF 2] by (simp only: in_measure split_conv) linarith
qed

declare align32.simps [simp del]

text \<open>
  The two final functions, with the block function as a parameter. The result goes to the
  buffer \<open>res\<close> at address \<open>ra\<close>; the hash words lie at address \<open>ha\<close>.
\<close>

definition sha1_final ::
  "(u32 list \<Rightarrow> byte list \<Rightarrow> u32 list) \<Rightarrow> sha1_ctx \<Rightarrow> nat \<Rightarrow> byte list \<Rightarrow> nat \<Rightarrow> byte list" where
  "sha1_final process ctx ra res ha =
     (let index = rhash_index ctx;
          hash = rh_hash ctx;
          message = (rh_message ctx)[index := 0x80];
          (message, index) = align32 message (index + 1);
          index = index div 4;
          (hash, message, index) =
            (if index > 14
             then let message = fill32 message index 16
                  in (process hash message, message, 0)
             else (hash, message, index));
          message = fill32 message index 14;
          message = memcpy message (4 * 14) (bytes_le32 (be2me_32 (ucast (drop_bit 29 (rh_length ctx)))));
          message = memcpy message (4 * 15) (bytes_le32 (be2me_32 (ucast (push_bit 3 (rh_length ctx)))));
          hash = process hash message
      in rhash_u32_swap_copy ra res 0 ha (take 20 (concat (map bytes_le32 hash))))"

definition rhash_sha1_final :: "sha1_ctx \<Rightarrow> nat \<Rightarrow> byte list \<Rightarrow> nat \<Rightarrow> byte list" where
  "rhash_sha1_final = sha1_final rhash_sha1_process_block"

definition rhash_sha1_final_Vz :: "sha1_ctx \<Rightarrow> nat \<Rightarrow> byte list \<Rightarrow> nat \<Rightarrow> byte list" where
  "rhash_sha1_final_Vz = sha1_final rhash_sha1_process_block_Vz"

subsection \<open>The reference: FIPS 180-4\<close>

definition fips_Ch :: "u32 \<Rightarrow> u32 \<Rightarrow> u32 \<Rightarrow> u32" where
  "fips_Ch x y z = (x AND y) XOR (NOT x AND z)"

definition fips_Maj :: "u32 \<Rightarrow> u32 \<Rightarrow> u32 \<Rightarrow> u32" where
  "fips_Maj x y z = (x AND y) XOR (x AND z) XOR (y AND z)"

definition fips_f :: "nat \<Rightarrow> u32 \<Rightarrow> u32 \<Rightarrow> u32 \<Rightarrow> u32" where
  "fips_f t x y z = (if t < 20 then fips_Ch x y z else if t < 40 then x XOR y XOR z
     else if t < 60 then fips_Maj x y z else x XOR y XOR z)"

definition fips_K :: "nat \<Rightarrow> u32" where
  "fips_K t = (if t < 20 then 0x5a827999 else if t < 40 then 0x6ed9eba1
     else if t < 60 then 0x8f1bbcdc else 0xca62c1d6)"

text \<open>The message schedule: word \<open>t\<close> of a block whose words are big-endian.\<close>

fun fips_W :: "byte list \<Rightarrow> nat \<Rightarrow> u32" where
  "fips_W block t =
     (if t < 16 then push_bit 24 (ucast (block ! (4 * t))) OR push_bit 16 (ucast (block ! (4 * t + 1))) OR
        push_bit 8 (ucast (block ! (4 * t + 2))) OR ucast (block ! (4 * t + 3))
      else word_rotl 1 (fips_W block (t - 3) XOR fips_W block (t - 8) XOR fips_W block (t - 14) XOR fips_W block (t - 16)))"

declare fips_W.simps [simp del]

fun fips_rounds :: "byte list \<Rightarrow> nat \<Rightarrow> sha1_vars \<Rightarrow> sha1_vars" where
  "fips_rounds block 0 v = v"
| "fips_rounds block (Suc t) v = (case fips_rounds block t v of (a, b, c, d, e) \<Rightarrow>
     (word_rotl 5 a + fips_f t b c d + e + fips_K t + fips_W block t, a, word_rotl 30 b, c, d))"

definition fips_compress :: "u32 list \<Rightarrow> byte list \<Rightarrow> u32 list" where
  "fips_compress H block =
     (case fips_rounds block 80 (H ! 0, H ! 1, H ! 2, H ! 3, H ! 4) of (a, b, c, d, e) \<Rightarrow>
        [a + H ! 0, b + H ! 1, c + H ! 2, d + H ! 3, e + H ! 4])"

definition sha1_padded :: "byte list \<Rightarrow> byte list" where
  "sha1_padded m = m @ padding 0x80 8 (bytes_be64 (of_nat (8 * length m))) (length m)"

definition fips_sha1 :: "byte list \<Rightarrow> byte list" where
  "fips_sha1 m = concat (map bytes_be32 (absorb fips_compress
     [0x67452301, 0xefcdab89, 0x98badcfe, 0x10325476, 0xc3d2e1f0] (sha1_padded m)))"

definition sha1_Vz_spec :: "byte list \<Rightarrow> byte list" where
  "sha1_Vz_spec m = concat (map bytes_be32 (absorb rhash_sha1_process_block_Vz
     [0x32075416, 0xf8dae9bc, 0x73541260, 0x8acb9dfe, 0xfd0c2e1b] (sha1_padded m)))"

subsection \<open>The final function\<close>

lemma align32_spec: "align32 m i = (fill8 m i (4 * ((i + 3) div 4)), 4 * ((i + 3) div 4))"
proof (induction m i rule: align32.induct)
  case (1 m i)
  show ?case
  proof (cases "i mod 4 = 0")
    case True
    then have "4 * ((i + 3) div 4) = i" by (auto elim!: dvdE dest!: mod_0_imp_dvd)
    then show ?thesis using True by (subst align32.simps) (simp add: fill8.simps)
  next
    case False
    then have "align32 m i = align32 (m[i := 0]) (Suc i)" by (subst align32.simps) simp
    also have "\<dots> = (fill8 (m[i := 0]) (Suc i) (4 * ((i + 3) div 4)), 4 * ((i + 3) div 4))"
      using "1.IH" [OF False] round_up_4 [OF False] by (simp only:)
    also have "fill8 (m[i := 0]) (Suc i) (4 * ((i + 3) div 4)) = fill8 m i (4 * ((i + 3) div 4))"
      using round_up_4 [OF False] by (subst (2) fill8.simps) simp
    finally show ?thesis .
  qed
qed

lemma sha1_length_words:
  assumes "length b = 56" and "rh_length ctx = of_nat n" and "length rest = 8"
  shows "memcpy (memcpy (b @ rest) 56 (bytes_le32 (be2me_32 (ucast (drop_bit 29 (rh_length ctx))))))
    60 (bytes_le32 (be2me_32 (ucast (push_bit 3 (rh_length ctx))))) = b @ bytes_be64 (of_nat (8 * n))"
  unfolding length_field_be [symmetric] assms(2) bytes_swapped using assms(1,3)
  by (simp add: memcpy_def len_simps)

lemma sha1_final_digest:
  assumes rep: "rhash_rep process start ctx m"
    and words: "\<And>h b. length (process h b) = 5" and res: "length res = 20"
  shows "sha1_final process ctx ra res ha = concat (map bytes_be32 (absorb process start (sha1_padded m)))"
proof -
  from rep have ctx: "rh_hash ctx = absorb process start m" "rh_length ctx = of_nat (length m)"
    "length (rh_message ctx) = 64" "take (length m mod 64) (rh_message ctx) = pending m"
    by (simp_all add: rhash_rep_def)
  define n where "n = length m mod 64"
  have n: "n < 64" "length (pending m) = n" by (simp_all add: n_def)
  have index: "rhash_index ctx = n" using rhash_index_length [OF ctx(2)] by (simp add: n_def)
  define m1 where "m1 = (rh_message ctx)[n := 0x80]"
  have m1: "length m1 = 64" "take (Suc n) m1 = pending m @ [0x80]"
    using ctx n by (simp_all add: m1_def take_Suc_conv_app_nth n_def [symmetric])
  define j where "j = (n + 1 + 3) div 4"
  define r where "r = (n + 1 + 3) mod 4"
  have "n + 1 + 3 = 4 * j + r" "r < 4" by (simp_all only: j_def r_def mult_div_mod_eq mod_less_divisor zero_less_numeral)
  then have j: "n + 1 \<le> 4 * j" "4 * j \<le> 64" "j \<le> 16" "(j > 14) = (n > 55)" using n(1) by presburger+
  define m2 where "m2 = fill8 m1 (n + 1) (4 * j)"
  have m2: "m2 = pending m @ 0x80 # replicate (4 * j - Suc n) 0 @ drop (4 * j) m1"
    unfolding m2_def using fill8_spec [of "n + 1" "4 * j" m1] j m1 by simp
  have take_m2: "take (4 * j) m2 = pending m @ 0x80 # replicate (4 * j - Suc n) 0"
    and drop_m2: "4 * j \<le> x \<Longrightarrow> drop x m2 = drop x m1" for x
  proof -
    define p where "p = pending m @ [0x80]"
    have "length p = Suc n" using n by (simp add: p_def)
    moreover have "m2 = p @ replicate (4 * j - Suc n) 0 @ drop (4 * j) m1" by (simp add: m2 p_def)
    ultimately have "take (4 * j) m2 = p @ replicate (4 * j - Suc n) 0"
      and "4 * j \<le> x \<Longrightarrow> drop x m2 = drop x m1" using j(1) by simp_all
    then show "take (4 * j) m2 = pending m @ 0x80 # replicate (4 * j - Suc n) 0"
      "4 * j \<le> x \<Longrightarrow> drop x m2 = drop x m1" by (simp_all add: p_def)
  qed
  have len_m2: "length m2 = 64" using n j m1 by (simp add: m2)
  have align: "align32 m1 (n + 1) = (m2, 4 * j)" by (simp add: align32_spec m2_def j_def)
  have out: "rhash_u32_swap_copy ra res 0 ha (take 20 (concat (map bytes_le32 ws))) = concat (map bytes_be32 ws)"
    if "length ws = 5" for ws
    using that res swap_copy_spec(1) [of "concat (map bytes_le32 ws)" 0 res ra ha]
    by (simp add: len_simps swapped_words memcpy_full)
  show ?thesis
  proof (cases "n \<le> 55")
    case True
    then have nj: "\<not> j > 14" using j(4) by simp
    have m3: "fill32 m2 j 14 = (pending m @ 0x80 # replicate (55 - n) 0) @ drop 56 m1"
    proof -
      have "fill32 m2 j 14 = take (4 * j) m2 @ replicate (4 * (14 - j)) 0 @ drop 56 m2"
        using nj len_m2 by (subst fill32_spec) simp_all
      moreover have "drop 56 m2 = drop 56 m1" using nj by (simp add: drop_m2)
      moreover have "replicate (4 * j - Suc n) (0 :: byte) @ replicate (4 * (14 - j)) 0 @ z = replicate (55 - n) 0 @ z" for z
        using nj j by (simp flip: replicate_add append_assoc)
      ultimately show ?thesis by (simp add: take_m2)
    qed
    have "sha1_final process ctx ra res ha = concat (map bytes_be32 (process (rh_hash ctx)
        ((pending m @ 0x80 # replicate (55 - n) 0) @ bytes_be64 (of_nat (8 * length m)))))"
      unfolding sha1_final_def Let_def index m1_def [symmetric] align split_conv
      using nj m1 n True
      by (simp add: m3 sha1_length_words [OF _ ctx(2)] out words del: append_assoc append_Cons)
    moreover have "absorb process start (sha1_padded m) = process (rh_hash ctx)
        ((pending m @ 0x80 # replicate (55 - n) 0) @ bytes_be64 (of_nat (8 * length m)))"
      unfolding sha1_padded_def using True by (subst absorb_padding) (simp_all add: n_def ctx(1) len_simps)
    ultimately show ?thesis by simp
  next
    case False
    then have j14: "j > 14" using j(4) by simp
    have m3: "fill32 m2 j 16 = pending m @ 0x80 # replicate (63 - n) 0"
    proof -
      have "fill32 m2 j 16 = take (4 * j) m2 @ replicate (4 * (16 - j)) 0 @ drop 64 m2"
        using j len_m2 by (subst fill32_spec) simp_all
      moreover have "drop 64 m2 = []" using len_m2 by simp
      moreover have "replicate (4 * j - Suc n) (0 :: byte) @ replicate (4 * (16 - j)) 0 = replicate (63 - n) 0"
        using j by (simp flip: replicate_add)
      ultimately show ?thesis by (simp add: take_m2)
    qed
    define h1 where "h1 = process (rh_hash ctx) (pending m @ 0x80 # replicate (63 - n) 0)"
    have m4: "fill32 (pending m @ 0x80 # replicate (63 - n) 0) 0 14
        = replicate 56 0 @ drop 56 (pending m @ 0x80 # replicate (63 - n) 0)"
      using n by (subst fill32_spec) simp_all
    have l4: "length (drop 56 (pending m @ 0x80 # replicate (63 - n) (0 :: byte))) = 8" using n by simp
    have "sha1_final process ctx ra res ha = concat (map bytes_be32 (process h1
        (replicate 56 0 @ bytes_be64 (of_nat (8 * length m)))))"
      unfolding sha1_final_def Let_def index m1_def [symmetric] align split_conv
      using j14 n False
      by (simp add: m3 m4 sha1_length_words [OF length_replicate ctx(2) l4] out words flip: h1_def
          del: append_assoc append_Cons drop_append)
    moreover have "absorb process start (sha1_padded m) = process h1 (replicate 56 0 @ bytes_be64 (of_nat (8 * length m)))"
      unfolding sha1_padded_def using False
      by (subst absorb_padding) (simp_all add: n_def ctx(1) len_simps h1_def)
    ultimately show ?thesis by simp
  qed
qed


subsection \<open>The block function is that of FIPS 180-4\<close>

lemma ROTL32_rotl:
  assumes "n < 32"
  shows "ROTL32 x n = word_rotl n x"
proof (rule bit_word_eqI)
  fix i assume "i < LENGTH(32)"
  then have i: "i < 32" by simp
  have "(i + (32 - n mod 32)) mod 32 = (if n \<le> i then i - n else 32 + i - n)"
    using assms i by (cases "n \<le> i") (simp_all add: le_mod_geq)
  then show "bit (ROTL32 x n) i = bit (word_rotl n x) i"
    using assms i
    by (auto simp: ROTL32_def bit_xor_iff bit_push_bit_iff bit_drop_bit_eq bit_word_rotl_iff dest: bit_imp_le_length)
qed

lemma be2me_block:
  "be2me_32 (block32 block t) = push_bit 24 (ucast (block ! (4 * t))) OR push_bit 16 (ucast (block ! (4 * t + 1))) OR
     push_bit 8 (ucast (block ! (4 * t + 2))) OR ucast (block ! (4 * t + 3))"
proof -
  have "be2me_32 (word_le32 b) = word_le32 (rev b)" if "length b = 4" for b
    using bytes_le32_bswap [OF that] word_le32_bytes [of "bswap_32 (word_le32 b)" "[]"] by (simp add: be2me_32_def)
  then show ?thesis by (simp add: block32_def) (simp add: word_le32_def ac_simps)
qed

lemma sha1_W_fips: "sha1_W block = map (fips_W block) [0..<80]"
proof -
  have "foldl (\<lambda>W t. W @ [ROTL32 (W ! (t - 3) XOR W ! (t - 8) XOR W ! (t - 14) XOR W ! (t - 16)) 1])
       (map (fips_W block) [0..<16]) [16..<n] = map (fips_W block) [0..<n]" if "16 \<le> n" for n
    using that
  proof (induction n rule: nat_induct_at_least)
    case base
    then show ?case by (simp del: upt_rec_numeral)
  next
    case (Suc n)
    have "fips_W block n = ROTL32 (fips_W block (n - 3) XOR fips_W block (n - 8) XOR fips_W block (n - 14) XOR fips_W block (n - 16)) 1"
      using Suc.hyps by (subst fips_W.simps) (simp add: ROTL32_rotl)
    then show ?case
      using Suc by (simp add: upt_Suc_append del: upt_rec_numeral upt_Suc)
  qed
  note loop = this [of 80]
  have ini: "map (\<lambda>t. be2me_32 (block32 block t)) [0..<16] = map (fips_W block) [0..<16]"
    by (rule map_cong [OF refl], subst fips_W.simps) (simp add: be2me_block)
  show ?thesis unfolding sha1_W_def ini by (rule loop) simp
qed

lemma sha1_steps_fips:
  assumes "\<And>t x y z. lo \<le> t \<Longrightarrow> t < hi \<Longrightarrow> f x y z = fips_f t x y z" and "\<And>t. lo \<le> t \<Longrightarrow> t < hi \<Longrightarrow> k = fips_K t"
    and "lo \<le> hi" and "hi \<le> 80"
  shows "sha1_steps f k (sha1_W block) [lo..<hi] (fips_rounds block lo v) = fips_rounds block hi v"
proof -
  have "sha1_steps f k (sha1_W block) [lo..<n] (fips_rounds block lo v) = fips_rounds block n v"
    if "lo \<le> n" "n \<le> hi" for n
    using that
  proof (induction n rule: nat_induct_at_least)
    case base
    then show ?case by (simp add: sha1_steps_def)
  next
    case (Suc n)
    then show ?case using assms
      by (simp add: sha1_steps_def sha1_W_fips ROTL32_rotl ac_simps split: prod.splits)
  qed
  then show ?thesis using assms(3) by simp
qed

lemma sha1_process_fips: "rhash_sha1_process_block hash block = fips_compress hash block"
proof -
  have ch: "((c XOR d) AND b) XOR d = fips_Ch b c d" for b c d
    unfolding fips_Ch_def by (rule bit_word_eqI) (auto simp: bit_simps)
  have maj: "(b AND c) OR (b AND d) OR (c AND d) = fips_Maj b c d" for b c d
    unfolding fips_Maj_def by (rule bit_word_eqI) (auto simp: bit_simps)
  define v where "v = (hash ! 0, hash ! 1, hash ! 2, hash ! 3, hash ! 4)"
  note step = sha1_steps_fips [where block = block and v = v]
  have "sha1_steps (\<lambda>B C D. ((C XOR D) AND B) XOR D) 0x5A827999 (sha1_W block) [0..<20] v = fips_rounds block 20 v"
    using step [of 0 20 "\<lambda>B C D. ((C XOR D) AND B) XOR D" "0x5A827999"] by (simp add: fips_f_def fips_K_def ch)
  moreover have "sha1_steps (\<lambda>B C D. B XOR C XOR D) 0x6ED9EBA1 (sha1_W block) [20..<40] (fips_rounds block 20 v) = fips_rounds block 40 v"
    by (rule step) (simp_all add: fips_f_def fips_K_def)
  moreover have "sha1_steps (\<lambda>B C D. (B AND C) OR (B AND D) OR (C AND D)) 0x8F1BBCDC (sha1_W block) [40..<60]
      (fips_rounds block 40 v) = fips_rounds block 60 v"
    by (rule step) (simp_all add: fips_f_def fips_K_def maj)
  moreover have "sha1_steps (\<lambda>B C D. B XOR C XOR D) 0xCA62C1D6 (sha1_W block) [60..<80] (fips_rounds block 60 v) = fips_rounds block 80 v"
    by (rule step) (simp_all add: fips_f_def fips_K_def)
  ultimately show ?thesis
    by (simp only: rhash_sha1_process_block_def Let_def v_def [symmetric])
      (simp add: fips_compress_def v_def add.commute split: prod.splits)
qed

subsection \<open>The test vector abc\<close>

definition sha1_abc_block :: "byte list" where
  "sha1_abc_block = [0x61, 0x62, 0x63, 0x80,
     0, 0, 0, 0, 0, 0, 0, 0, 0, 0, 0, 0, 0, 0, 0, 0, 0, 0, 0, 0, 0, 0, 0, 0, 0, 0, 0, 0, 0, 0, 0, 0, 0, 0, 0, 0,
     0, 0, 0, 0, 0, 0, 0, 0, 0, 0, 0, 0, 0, 0, 0, 0, 0, 0, 0, 0, 0, 0, 0, 0x18]"

lemma sha1_abc_block_0: "sha1_abc_block ! 0 = 0x61"
  by (simp add: sha1_abc_block_def)

lemma sha1_padded_abc: "sha1_padded [0x61, 0x62, 0x63] = sha1_abc_block"
  by (simp add: sha1_padded_def padding_def pad_zeros_def replicate_numeral sha1_abc_block_def
      bytes_be64_def bytes_le64_def bytes_le32_def)

definition sha1_abc_W :: "u32 list" where
  "sha1_abc_W = [
     0x61626380, 0x0, 0x0, 0x0, 0x0, 0x0, 0x0, 0x0,
     0x0, 0x0, 0x0, 0x0, 0x0, 0x0, 0x0, 0x18,
     0xc2c4c700, 0x0, 0x30, 0x85898e01, 0x0, 0x60, 0xb131c03, 0x30,
     0x85898ec1, 0x16263806, 0x0, 0x180, 0x2c4c700c, 0xf0, 0x93afb507, 0x5898e048,
     0x8e9a9202, 0x600, 0xb131c0f0, 0x16263bc6, 0x4ebed41e, 0x626380a1, 0x16263806, 0x18c0,
     0xd2e138c4, 0xf00, 0x3afb5079, 0x898e04e5, 0xe2ba3c2b, 0x60c0, 0x53a37cd, 0x74458547,
     0xda9415ed, 0x26380a16, 0x626383a1, 0x4ebf54de, 0x3835b44b, 0xf600, 0x1e84c7a3, 0x98e04d98,
     0x651d16a0, 0x62658ca1, 0x458544d6, 0x44584cb7, 0x7ba06619, 0x6380aea2, 0xae55269, 0x627b49a1,
     0x7cd45c9d, 0xf0000, 0xfb50753a, 0xec6765e8, 0xba3c2be2, 0x60c000, 0x3a37cd05, 0x458546f4,
     0xb8599dd6, 0x380a1a26, 0x1e02203, 0xe7cc3456, 0xe6e60b69, 0xf60a00, 0x5795ef4f, 0x822e0879]"

lemma sha1_W_abc: "sha1_W sha1_abc_block = sha1_abc_W"
proof -
  have ini: "map (\<lambda>t. be2me_32 (block32 sha1_abc_block t)) [0..<16] = take 16 sha1_abc_W"
    by (simp add: upt_rec be2me_block sha1_abc_block_def sha1_abc_W_def)
  define Z where "Z = map (\<lambda>(a, b, c, d). ROTL32 (a XOR b XOR c XOR d) 1)
      (zip (drop 13 sha1_abc_W) (zip (drop 8 sha1_abc_W) (zip (drop 2 sha1_abc_W) sha1_abc_W)))"
  have Z: "take 64 Z = drop 16 sha1_abc_W" by (simp add: Z_def sha1_abc_W_def ROTL32_def)
  have len: "length sha1_abc_W = 80" by (simp add: sha1_abc_W_def)
  have step: "sha1_abc_W ! t = ROTL32 (sha1_abc_W ! (t - 3) XOR sha1_abc_W ! (t - 8) XOR sha1_abc_W ! (t - 14)
      XOR sha1_abc_W ! (t - 16)) 1" if "16 \<le> t" "t < 80" for t
  proof -
    define i where "i = t - 16"
    have t: "t = 16 + i" "i < 64" using that by (simp_all add: i_def)
    have "sha1_abc_W ! t = take 64 Z ! i" unfolding Z using t len by simp
    also have "\<dots> = Z ! i" using t by simp
    also have "\<dots> = ROTL32 (sha1_abc_W ! (13 + i) XOR sha1_abc_W ! (8 + i) XOR sha1_abc_W ! (2 + i) XOR sha1_abc_W ! i) 1"
      unfolding Z_def using t len by simp
    finally show ?thesis using t by simp
  qed
  have "foldl (\<lambda>W t. W @ [ROTL32 (W ! (t - 3) XOR W ! (t - 8) XOR W ! (t - 14) XOR W ! (t - 16)) 1])
      (take 16 sha1_abc_W) [16..<n] = take n sha1_abc_W" if "16 \<le> n" "n \<le> 80" for n
    using that
  proof (induction n rule: nat_induct_at_least)
    case base
    then show ?case by (simp del: upt_rec_numeral)
  next
    case (Suc n)
    then have "n < length sha1_abc_W" by (simp add: sha1_abc_W_def)
    then show ?case using Suc step [of n]
      by (simp add: upt_Suc_append take_Suc_conv_app_nth del: upt_rec_numeral upt_Suc)
  qed
  then show ?thesis unfolding sha1_W_def ini by (rule trans) (simp_all add: len)
qed

lemma sha1_steps_slice:
  "hi \<le> length W \<Longrightarrow> lo \<le> hi \<Longrightarrow> sha1_steps f k W [lo..<hi] v =
     foldl (\<lambda>(A, B, C, D, E) w. (ROTL32 A 5 + f B C D + E + w + k, A, ROTL32 B 30, C, D)) v (take (hi - lo) (drop lo W))"
proof -
  assume "hi \<le> length W" "lo \<le> hi"
  then have "take (hi - lo) (drop lo W) = map ((!) W) [lo..<hi]"
    by (intro nth_equalityI) auto
  then show ?thesis by (simp add: sha1_steps_def foldl_map) (rule foldl_cong, auto)
qed

lemma length_sha1_abc_W: "length sha1_abc_W = 80"
  by (simp add: sha1_abc_W_def)

lemma sha1_abc_1: "sha1_steps (\<lambda>B C D. ((C XOR D) AND B) XOR D) 0x5a827999 sha1_abc_W [0..<20]
    (0x67452301, 0xefcdab89, 0x98badcfe, 0x10325476, 0xc3d2e1f0) = (0xfd9e1d7d, 0xdc64901d, 0x20aa99ca, 0xd3a49608, 0xc82f758b)"
  by (subst sha1_steps_slice) (simp_all add: length_sha1_abc_W sha1_abc_W_def ROTL32_def)

lemma sha1_abc_2: "sha1_steps (\<lambda>B C D. B XOR C XOR D) 0x6ed9eba1 sha1_abc_W [20..<40]
    (0xfd9e1d7d, 0xdc64901d, 0x20aa99ca, 0xd3a49608, 0xc82f758b) = (0x32de1cba, 0x4c986405, 0xf718e5cf, 0x3d447f6, 0xf72eec32)"
  by (subst sha1_steps_slice) (simp_all add: length_sha1_abc_W sha1_abc_W_def ROTL32_def)

lemma sha1_abc_3: "sha1_steps (\<lambda>B C D. (B AND C) OR (B AND D) OR (C AND D)) 0x8f1bbcdc sha1_abc_W [40..<60]
    (0x32de1cba, 0x4c986405, 0xf718e5cf, 0x3d447f6, 0xf72eec32) = (0x3f52de5a, 0x9d785fd, 0x3498bfd4, 0xf211824f, 0xd79915ab)"
  by (subst sha1_steps_slice) (simp_all add: length_sha1_abc_W sha1_abc_W_def ROTL32_def)

lemma sha1_abc_4: "sha1_steps (\<lambda>B C D. B XOR C XOR D) 0xca62c1d6 sha1_abc_W [60..<80]
    (0x3f52de5a, 0x9d785fd, 0x3498bfd4, 0xf211824f, 0xd79915ab) = (0x42541b35, 0x5738d5e1, 0x21834873, 0x681e6df6, 0xd8fdf6ad)"
  by (subst sha1_steps_slice) (simp_all add: length_sha1_abc_W sha1_abc_W_def ROTL32_def)

lemma sha1_abc: "rhash_sha1_process_block [0x67452301, 0xefcdab89, 0x98badcfe, 0x10325476, 0xc3d2e1f0] sha1_abc_block =
    [0xa9993e36, 0x4706816a, 0xba3e2571, 0x7850c26c, 0x9cd0d89d]"
  using sha1_abc_1 sha1_abc_2 sha1_abc_3 sha1_abc_4
  by (simp add: rhash_sha1_process_block_def sha1_W_abc del: upt_rec_numeral)

lemma sha1_abc_Vz_1: "sha1_steps (\<lambda>B C D. ((C XOR D) AND B) XOR D) 0xa2955b2c sha1_abc_W [0..<20]
    (0x32075416, 0xf8dae9bc, 0x73541260, 0x8acb9dfe, 0xfd0c2e1b) = (0xb3b9c525, 0x6b96a30f, 0x982b5f73, 0x2f210649, 0xd8e66a3e)"
  by (subst sha1_steps_slice) (simp_all add: length_sha1_abc_W sha1_abc_W_def ROTL32_def)

lemma sha1_abc_Vz_2: "sha1_steps (\<lambda>B C D. B XOR C XOR D) 0x16ae9e4c sha1_abc_W [20..<40]
    (0xb3b9c525, 0x6b96a30f, 0x982b5f73, 0x2f210649, 0xd8e66a3e) = (0xdfdb2ed0, 0xf463f631, 0x63a38100, 0x5b964f55, 0x615e45b3)"
  by (subst sha1_steps_slice) (simp_all add: length_sha1_abc_W sha1_abc_W_def ROTL32_def)

lemma sha1_abc_Vz_3: "sha1_steps (\<lambda>B C D. (B AND C) OR (B AND D) OR (C AND D)) 0xcbfcd1b8 sha1_abc_W [40..<61]
    (0xdfdb2ed0, 0xf463f631, 0x63a38100, 0x5b964f55, 0x615e45b3) = (0x526bc7da, 0xddba4566, 0x286fdcf, 0xaf2941fc, 0xf458898b)"
  by (subst sha1_steps_slice) (simp_all add: length_sha1_abc_W sha1_abc_W_def ROTL32_def)

lemma sha1_abc_Vz_4: "sha1_steps (\<lambda>B C D. B XOR C XOR D) 0xa32c616d sha1_abc_W [61..<80]
    (0x526bc7da, 0xddba4566, 0x286fdcf, 0xaf2941fc, 0xf458898b) = (0xe11681c8, 0xad7d052c, 0x23e2e103, 0x3780c3a4, 0xa7b25b4e)"
  by (subst sha1_steps_slice) (simp_all add: length_sha1_abc_W sha1_abc_W_def ROTL32_def)

lemma sha1_abc_Vz: "rhash_sha1_process_block_Vz [0x32075416, 0xf8dae9bc, 0x73541260, 0x8acb9dfe, 0xfd0c2e1b] sha1_abc_block =
    [0x131dd5df, 0xa657eee8, 0x9736f363, 0xc24c61a2, 0xa4be8969]"
  using sha1_abc_Vz_1 sha1_abc_Vz_2 sha1_abc_Vz_3 sha1_abc_Vz_4
  by (simp add: rhash_sha1_process_block_Vz_def sha1_W_abc sha1_abc_block_0 del: upt_rec_numeral)

subsection \<open>Properties\<close>

definition sha1_run :: "sha1_ctx \<Rightarrow> (nat \<times> byte list) list \<Rightarrow> sha1_ctx" where
  "sha1_run = foldl (\<lambda>ctx (addr, msg). rhash_sha1_update ctx addr msg)"

definition sha1_run_Vz :: "sha1_ctx \<Rightarrow> (nat \<times> byte list) list \<Rightarrow> sha1_ctx" where
  "sha1_run_Vz = foldl (\<lambda>ctx (addr, msg). rhash_sha1_update_Vz ctx addr msg)"

lemma sha1_length_process: "length (rhash_sha1_process_block h b) = 5" "length (rhash_sha1_process_block_Vz h b) = 5"
  by (simp_all add: rhash_sha1_process_block_def rhash_sha1_process_block_Vz_def Let_def split: prod.splits)

lemma sha1_process_fips': "rhash_sha1_process_block = fips_compress"
  by (intro ext) (rule sha1_process_fips)

lemma sha1_rep_init:
  "length (rh_message ctx) = 64 \<Longrightarrow>
     rhash_rep rhash_sha1_process_block [0x67452301, 0xefcdab89, 0x98badcfe, 0x10325476, 0xc3d2e1f0] (rhash_sha1_init ctx) []"
  "length (rh_message ctx) = 64 \<Longrightarrow>
     rhash_rep rhash_sha1_process_block_Vz [0x32075416, 0xf8dae9bc, 0x73541260, 0x8acb9dfe, 0xfd0c2e1b] (rhash_sha1_init_Vz ctx) []"
  by (simp_all add: rhash_rep_def rhash_sha1_init_def rhash_sha1_init_Vz_def)

definition sha1_blank :: sha1_ctx where
  "sha1_blank = \<lparr>rh_message = replicate 64 0, rh_length = 0, rh_hash = []\<rparr>"

interpretation rhash_sha1: sized_digest "rhash_sha1_init sha1_blank" "\<lambda>ctx (addr, msg). rhash_sha1_update ctx addr msg"
  "\<lambda>ctx. rhash_sha1_final ctx 0 (replicate 20 0) 0" snd "\<lambda>_. True"
  "rhash_rep rhash_sha1_process_block [0x67452301, 0xefcdab89, 0x98badcfe, 0x10325476, 0xc3d2e1f0]"
  fips_sha1 "\<lambda>d. d" 20
proof (unfold_locales, goal_cases)
  case 1
  show ?case by (rule sha1_rep_init) (simp add: sha1_blank_def)
next
  case (2 c m x)
  then show ?case by (simp add: rhash_sha1_update_def rhash_update_rep split_beta)
next
  case (3 c m)
  show ?case
    unfolding rhash_sha1_final_def fips_sha1_def sha1_process_fips' [symmetric]
    by (rule sha1_final_digest [OF 3 sha1_length_process(1)]) simp
next
  case (4 m)
  show ?case by (simp add: fips_sha1_def len_simps absorb_length fips_compress_def split_beta)
qed

interpretation rhash_sha1_Vz: sized_digest "rhash_sha1_init_Vz sha1_blank" "\<lambda>ctx (addr, msg). rhash_sha1_update_Vz ctx addr msg"
  "\<lambda>ctx. rhash_sha1_final_Vz ctx 0 (replicate 20 0) 0" snd "\<lambda>_. True"
  "rhash_rep rhash_sha1_process_block_Vz [0x32075416, 0xf8dae9bc, 0x73541260, 0x8acb9dfe, 0xfd0c2e1b]"
  sha1_Vz_spec "\<lambda>d. d" 20
proof (unfold_locales, goal_cases)
  case 1
  show ?case by (rule sha1_rep_init) (simp add: sha1_blank_def)
next
  case (2 c m x)
  then show ?case by (simp add: rhash_sha1_update_Vz_def rhash_update_rep split_beta)
next
  case (3 c m)
  then show ?case
    by (simp add: rhash_sha1_final_Vz_def sha1_final_digest [OF 3 sha1_length_process(2)] sha1_Vz_spec_def)
next
  case (4 m)
  show ?case by (simp add: sha1_Vz_spec_def len_simps absorb_length sha1_length_process)
qed

text \<open>
  C8: \<open>rhash_sha1_init\<close>, any sequence of \<open>rhash_sha1_update\<close> calls and \<open>rhash_sha1_final\<close>
  compute SHA-1 as FIPS 180-4 describes it, on the concatenation of the chunks: neither the
  cutting into chunks, nor the alignment of the chunks, the hash words and the result buffer,
  nor what the context and the buffer held before matters.
\<close>

theorem sha1_is_fips:
  assumes "length (rh_message ctx) = 64" and "length res = 20"
  shows "rhash_sha1_final (sha1_run (rhash_sha1_init ctx) xs) ra res ha = fips_sha1 (concat (map snd xs))"
proof -
  have "rhash_rep rhash_sha1_process_block [0x67452301, 0xefcdab89, 0x98badcfe, 0x10325476, 0xc3d2e1f0]
      (sha1_run (rhash_sha1_init ctx) xs) (concat (map snd xs))"
    using rhash_sha1.rep_updates [OF sha1_rep_init(1) [OF assms(1)], of xs]
    by (simp add: sha1_run_def list_all_iff)
  then show ?thesis
    unfolding rhash_sha1_final_def fips_sha1_def sha1_process_fips' [symmetric]
    by (rule sha1_final_digest [OF _ sha1_length_process(1) assms(2)])
qed

theorem sha1_is_fips_witness:
  "rhash_sha1_final (sha1_run (rhash_sha1_init sha1_blank) [(3, [1, 2]), (8, [3])]) 1 (replicate 20 9) 4 = fips_sha1 [1, 2, 3]"
  using sha1_is_fips [of sha1_blank "replicate 20 9" "[(3, [1, 2]), (8, [3])]" 1 4] by (simp add: sha1_blank_def)

text \<open>
  The modified SHA-1 of the challenge protocol is the iterated block function
  \<open>rhash_sha1_process_block_Vz\<close> on the SHA-1 padding of the concatenated chunks, with the
  same independence of chunks, alignment and previous contents.
\<close>

theorem sha1_Vz_digest:
  assumes "length (rh_message ctx) = 64" and "length res = 20"
  shows "rhash_sha1_final_Vz (sha1_run_Vz (rhash_sha1_init_Vz ctx) xs) ra res ha = sha1_Vz_spec (concat (map snd xs))"
proof -
  have "rhash_rep rhash_sha1_process_block_Vz [0x32075416, 0xf8dae9bc, 0x73541260, 0x8acb9dfe, 0xfd0c2e1b]
      (sha1_run_Vz (rhash_sha1_init_Vz ctx) xs) (concat (map snd xs))"
    using rhash_sha1_Vz.rep_updates [OF sha1_rep_init(2) [OF assms(1)], of xs]
    by (simp add: sha1_run_Vz_def list_all_iff)
  from sha1_final_digest [OF this sha1_length_process(2) assms(2)] show ?thesis
    by (simp add: rhash_sha1_final_Vz_def sha1_Vz_spec_def)
qed

theorem sha1_Vz_digest_witness:
  "rhash_sha1_final_Vz (sha1_run_Vz (rhash_sha1_init_Vz sha1_blank) [(3, [1, 2]), (8, [3])]) 1 (replicate 20 9) 4
     = sha1_Vz_spec [1, 2, 3]"
  using sha1_Vz_digest [of sha1_blank "replicate 20 9" "[(3, [1, 2]), (8, [3])]" 1 4] by (simp add: sha1_blank_def)

text \<open>
  the digest of the one block message \<open>abc\<close>: the value that FIPS 180 prints for SHA-1,
  and the value of the modified variant.
\<close>

theorem sha1_test_vector:
  "rhash_sha1_final (rhash_sha1_update (rhash_sha1_init sha1_blank) 0 [0x61, 0x62, 0x63]) 0 (replicate 20 0) 0 =
     [0xa9, 0x99, 0x3e, 0x36, 0x47, 0x06, 0x81, 0x6a, 0xba, 0x3e, 0x25, 0x71, 0x78, 0x50, 0xc2, 0x6c, 0x9c, 0xd0, 0xd8, 0x9d] \<and>
   rhash_sha1_final_Vz (rhash_sha1_update_Vz (rhash_sha1_init_Vz sha1_blank) 0 [0x61, 0x62, 0x63]) 0 (replicate 20 0) 0 =
     [0x13, 0x1d, 0xd5, 0xdf, 0xa6, 0x57, 0xee, 0xe8, 0x97, 0x36, 0xf3, 0x63, 0xc2, 0x4c, 0x61, 0xa2, 0xa4, 0xbe, 0x89, 0x69]"
proof -
  have "fips_sha1 [0x61, 0x62, 0x63] = concat (map bytes_be32 (rhash_sha1_process_block
      [0x67452301, 0xefcdab89, 0x98badcfe, 0x10325476, 0xc3d2e1f0] sha1_abc_block))"
    by (simp add: fips_sha1_def sha1_padded_abc absorb_one sha1_abc_block_def sha1_process_fips)
  moreover have "sha1_Vz_spec [0x61, 0x62, 0x63] = concat (map bytes_be32 (rhash_sha1_process_block_Vz
      [0x32075416, 0xf8dae9bc, 0x73541260, 0x8acb9dfe, 0xfd0c2e1b] sha1_abc_block))"
    by (simp add: sha1_Vz_spec_def sha1_padded_abc absorb_one sha1_abc_block_def)
  ultimately show ?thesis
    using rhash_sha1.one_shot [of "(0, [0x61, 0x62, 0x63])"] rhash_sha1_Vz.one_shot [of "(0, [0x61, 0x62, 0x63])"]
    by (simp add: sha1_abc sha1_abc_Vz bytes_be32_def bytes_le32_def)
qed

end
