(* ===== verification/Tiger.thy ===== *)
theory Tiger
  imports Tiger_Sbox
begin

text \<open>
  Tiger and its modified variant, \<open>rhash/src/tiger.c\<close>: the macros \<open>round\<close>, \<open>pass\<close> and
  \<open>key_schedule\<close> in the versions that the file selects for x86-64 and for IA32, the block
  functions in both versions, the instances of the shared update and the final functions.
\<close>

subsection \<open>The block functions\<close>

type_synonym tiger_vars = "u64 \<times> u64 \<times> u64"

definition byte_at :: "u64 \<Rightarrow> nat \<Rightarrow> nat" where
  "byte_at c n = unat (ucast (drop_bit (n * 8) c) :: byte)"

text \<open>\<open>round(a,b,c,x,mul)\<close> for x86-64, with the four S-boxes as the argument \<open>t\<close>.\<close>

definition tiger_round :: "u64 list list \<Rightarrow> tiger_vars \<Rightarrow> u64 \<Rightarrow> u64 \<Rightarrow> tiger_vars" where
  "tiger_round t = (\<lambda>(a, b, c) x mul.
     let c = c XOR x;
         a = a - ((t ! 0) ! byte_at c 0 XOR (t ! 1) ! byte_at c 2 XOR (t ! 2) ! byte_at c 4 XOR (t ! 3) ! byte_at c 6);
         b = b + ((t ! 3) ! byte_at c 1 XOR (t ! 2) ! byte_at c 3 XOR (t ! 1) ! byte_at c 5 XOR (t ! 0) ! byte_at c 7)
     in (a, b * mul, c))"

text \<open>The same macro for IA32, which works on 32 bit halves of \<open>c\<close>.\<close>

definition tiger_round_IA32 :: "u64 list list \<Rightarrow> tiger_vars \<Rightarrow> u64 \<Rightarrow> u64 \<Rightarrow> tiger_vars" where
  "tiger_round_IA32 t = (\<lambda>(a, b, c) x mul.
     let c = c XOR x;
         lo = ucast c :: u32;
         hi = ucast (drop_bit (4 * 8) c) :: u32;
         a = a - ((t ! 0) ! unat (ucast c :: byte) XOR (t ! 1) ! unat (ucast (drop_bit (2 * 8) lo) :: byte) XOR
               (t ! 2) ! unat (ucast (drop_bit (4 * 8) c) :: byte) XOR (t ! 3) ! unat (ucast (drop_bit (2 * 8) hi) :: byte));
         b = b + ((t ! 3) ! unat (ucast (drop_bit (1 * 8) lo) :: byte) XOR (t ! 2) ! unat (ucast (drop_bit (3 * 8) lo) :: byte) XOR
               (t ! 1) ! unat (ucast (drop_bit (1 * 8) hi) :: byte) XOR (t ! 0) ! unat (ucast (drop_bit (3 * 8) hi) :: byte))
     in (a, b * mul, c))"

text \<open>
  \<open>pass(a,b,c,mul)\<close>: eight rounds, each with the roles of the variables moved on by one. The
  result lists the variables in the order of the macro's parameters.
\<close>

definition tiger_pass :: "(tiger_vars \<Rightarrow> u64 \<Rightarrow> u64 \<Rightarrow> tiger_vars) \<Rightarrow> tiger_vars \<Rightarrow> u64 list \<Rightarrow> u64 \<Rightarrow> tiger_vars" where
  "tiger_pass rnd = (\<lambda>(a, b, c) x mul.
     let (a, b, c) = rnd (a, b, c) (x ! 0) mul;
         (b, c, a) = rnd (b, c, a) (x ! 1) mul;
         (c, a, b) = rnd (c, a, b) (x ! 2) mul;
         (a, b, c) = rnd (a, b, c) (x ! 3) mul;
         (b, c, a) = rnd (b, c, a) (x ! 4) mul;
         (c, a, b) = rnd (c, a, b) (x ! 5) mul;
         (a, b, c) = rnd (a, b, c) (x ! 6) mul;
         (b, c, a) = rnd (b, c, a) (x ! 7) mul
     in (a, b, c))"

definition tiger_key_schedule :: "u64 \<Rightarrow> u64 list \<Rightarrow> u64 list" where
  "tiger_key_schedule k x =
     (let x0 = x ! 0 - (x ! 7 XOR k);
          x1 = x ! 1 XOR x0;
          x2 = x ! 2 + x1;
          x3 = x ! 3 - (x2 XOR push_bit 19 (NOT x1));
          x4 = x ! 4 XOR x3;
          x5 = x ! 5 + x4;
          x6 = x ! 6 - (x5 XOR drop_bit 23 (NOT x4));
          x7 = x ! 7 XOR x6;
          x0 = x0 + x7;
          x1 = x1 - (x0 XOR push_bit 19 (NOT x7));
          x2 = x2 XOR x1;
          x3 = x3 + x2;
          x4 = x4 - (x3 XOR drop_bit 23 (NOT x2));
          x5 = x5 XOR x4;
          x6 = x6 + x5;
          x7 = x7 - (x6 XOR 0x0123456789ABCDEF)
      in [x0, x1, x2, x3, x4, x5, x6, x7])"

definition key_schedule :: "u64 list \<Rightarrow> u64 list" where
  "key_schedule = tiger_key_schedule 0xA5A5A5A5A5A5A5A5"

definition key_schedule_Vz :: "u64 list \<Rightarrow> u64 list" where
  "key_schedule_Vz = tiger_key_schedule 0xA5A5B5A5A5A5A7A5"

definition tiger_block :: "byte list \<Rightarrow> u64 list" where
  "tiger_block block = map (\<lambda>i. le2me_64 (block64 block i)) [0, 1, 2, 3, 4, 5, 6, 7]"

definition tiger_feedforward :: "tiger_vars \<Rightarrow> u64 list \<Rightarrow> u64 list" where
  "tiger_feedforward = (\<lambda>(a, b, c) state. [a XOR state ! 0, b - state ! 1, c + state ! 2])"

text \<open>The three passes as x86-64 code has them.\<close>

definition tiger_process :: "u64 list list \<Rightarrow> (u64 list \<Rightarrow> u64 list) \<Rightarrow> u64 list \<Rightarrow> byte list \<Rightarrow> u64 list" where
  "tiger_process t schedule state block =
     (let x = tiger_block block;
          (a, b, c) = tiger_pass (tiger_round t) (state ! 0, state ! 1, state ! 2) x 5;
          x = schedule x;
          (c, a, b) = tiger_pass (tiger_round t) (c, a, b) x 7;
          x = schedule x;
          (b, c, a) = tiger_pass (tiger_round t) (b, c, a) x 9
      in tiger_feedforward (a, b, c) state)"

text \<open>The loop of the IA32 code, \<open>for(i = 0; i < 3; i++)\<close>.\<close>

definition tiger_process_IA32 :: "u64 list list \<Rightarrow> (u64 list \<Rightarrow> u64 list) \<Rightarrow> u64 list \<Rightarrow> byte list \<Rightarrow> u64 list" where
  "tiger_process_IA32 t schedule state block =
     (let (x, abc) = foldl (\<lambda>(x, abc) i.
            let x = (if i \<noteq> 0 then schedule x else x);
                (a, b, c) = tiger_pass (tiger_round_IA32 t) abc x (if i = 0 then 5 else if i = 1 then 7 else 9);
                tmp = a;
                a = c;
                c = b;
                b = tmp
            in (x, a, b, c)) (tiger_block block, state ! 0, state ! 1, state ! 2) [0, 1, 2 :: nat]
      in tiger_feedforward abc state)"

definition rhash_tiger_process_block :: "u64 list \<Rightarrow> byte list \<Rightarrow> u64 list" where
  "rhash_tiger_process_block = tiger_process rhash_tiger_sboxes key_schedule"

definition rhash_tiger_process_block_Vz :: "u64 list \<Rightarrow> byte list \<Rightarrow> u64 list" where
  "rhash_tiger_process_block_Vz = tiger_process rhash_tiger_sboxes_Vz key_schedule_Vz"

subsection \<open>Init, update, final\<close>

record tiger_ctx = "u64 rhash_ctx" +
  tiger2 :: int

definition rhash_tiger_init :: "tiger_ctx \<Rightarrow> tiger_ctx" where
  "rhash_tiger_init ctx = ctx\<lparr>rh_length := 0, tiger2 := 0,
     rh_hash := [0x0123456789ABCDEF, 0xFEDCBA9876543210, 0xF096A5B4C3B2E187]\<rparr>"

definition rhash_tiger_init_Vz :: "tiger_ctx \<Rightarrow> tiger_ctx" where
  "rhash_tiger_init_Vz ctx = ctx\<lparr>rh_length := 0, tiger2 := 0,
     rh_hash := [0x158E427AC96B03DF, 0xF025C13B8E9DA784, 0xB690AB45C3E21B74]\<rparr>"

definition rhash_tiger_update :: "tiger_ctx \<Rightarrow> nat \<Rightarrow> byte list \<Rightarrow> tiger_ctx" where
  "rhash_tiger_update = rhash_update 8 rhash_tiger_process_block"

definition rhash_tiger_update_Vz :: "tiger_ctx \<Rightarrow> nat \<Rightarrow> byte list \<Rightarrow> tiger_ctx" where
  "rhash_tiger_update_Vz = rhash_update 8 rhash_tiger_process_block_Vz"

definition tiger_final :: "(u64 list \<Rightarrow> byte list \<Rightarrow> u64 list) \<Rightarrow> tiger_ctx \<Rightarrow> byte list" where
  "tiger_final process ctx =
     (let index = rhash_index ctx;
          hash = rh_hash ctx;
          message = (rh_message ctx)[index := (if tiger2 ctx \<noteq> 0 then 0x80 else 0x01)];
          index = index + 1;
          (hash, message, index) =
            (if index > 56
             then let message = fill8 message index 64
                  in (process hash message, message, 0)
             else (hash, message, index));
          message = fill8 message index 56;
          message = memcpy message (8 * 7) (bytes_le64 (le2me_64 (push_bit 3 (rh_length ctx))));
          hash = process hash message
      in take 24 (concat (map bytes_le64 hash)))"

definition rhash_tiger_final :: "tiger_ctx \<Rightarrow> byte list" where
  "rhash_tiger_final = tiger_final rhash_tiger_process_block"

definition rhash_tiger_final_Vz :: "tiger_ctx \<Rightarrow> byte list" where
  "rhash_tiger_final_Vz = tiger_final rhash_tiger_process_block_Vz"

definition tiger_padded :: "byte list \<Rightarrow> byte list" where
  "tiger_padded m = m @ padding 0x01 8 (bytes_le64 (of_nat (8 * length m))) (length m)"

definition tiger_spec :: "byte list \<Rightarrow> byte list" where
  "tiger_spec m = concat (map bytes_le64 (absorb rhash_tiger_process_block
     [0x0123456789ABCDEF, 0xFEDCBA9876543210, 0xF096A5B4C3B2E187] (tiger_padded m)))"

definition tiger_Vz_spec :: "byte list \<Rightarrow> byte list" where
  "tiger_Vz_spec m = concat (map bytes_le64 (absorb rhash_tiger_process_block_Vz
     [0x158E427AC96B03DF, 0xF025C13B8E9DA784, 0xB690AB45C3E21B74] (tiger_padded m)))"

subsection \<open>The two versions of the block function agree\<close>

lemma byte_of_halves:
  "n < 4 \<Longrightarrow> (ucast (drop_bit (n * 8) (ucast c :: u32)) :: byte) = ucast (drop_bit (n * 8) (c :: u64))"
  "n < 4 \<Longrightarrow> (ucast (drop_bit (n * 8) (ucast (drop_bit 32 c) :: u32)) :: byte) = ucast (drop_bit ((n + 4) * 8) (c :: u64))"
  by (rule bit_word_eqI; auto simp: bit_ucast_iff bit_drop_bit_eq ac_simps)+

lemma tiger_round_IA32: "tiger_round_IA32 t = tiger_round t"
proof -
  have "tiger_round_IA32 t (a, b, c) x mul = tiger_round t (a, b, c) x mul" for a b c x mul
    using byte_of_halves(1) [of 2 "c XOR x"] byte_of_halves(1) [of 1 "c XOR x"] byte_of_halves(1) [of 3 "c XOR x"]
      byte_of_halves(2) [of 2 "c XOR x"] byte_of_halves(2) [of 1 "c XOR x"] byte_of_halves(2) [of 3 "c XOR x"]
    by (simp add: tiger_round_IA32_def tiger_round_def Let_def byte_at_def)
  then show ?thesis by (intro ext) (metis prod_cases3)
qed

lemma tiger_process_IA32: "tiger_process_IA32 t schedule state block = tiger_process t schedule state block"
  unfolding tiger_process_IA32_def tiger_process_def tiger_round_IA32
  by (simp only: Let_def foldl.simps split_beta fst_conv snd_conv prod.collapse) simp

subsection \<open>The final function\<close>

lemma tiger_length_field:
  assumes "length b = 56" and "rh_length ctx = of_nat n" and "length rest = 8"
  shows "memcpy (b @ rest) 56 (bytes_le64 (le2me_64 (push_bit 3 (rh_length ctx)))) = b @ bytes_le64 (of_nat (8 * n))"
  unfolding le2me_64_def assms(2) of_nat_bits using assms(1,3) by (simp add: memcpy_def len_simps)

lemma tiger_final_digest:
  assumes rep: "rhash_rep process start ctx m" and t2: "tiger2 ctx = 0"
    and words: "\<And>h b. length (process h b) = 3"
  shows "tiger_final process ctx = concat (map bytes_le64 (absorb process start (tiger_padded m)))"
proof -
  from rep have ctx: "rh_hash ctx = absorb process start m" "rh_length ctx = of_nat (length m)"
    "length (rh_message ctx) = 64" "take (length m mod 64) (rh_message ctx) = pending m"
    by (simp_all add: rhash_rep_def)
  define n where "n = length m mod 64"
  have n: "n < 64" "length (pending m) = n" by (simp_all add: n_def)
  have index: "rhash_index ctx = n" using rhash_index_length [OF ctx(2)] by (simp add: n_def)
  define m1 where "m1 = (rh_message ctx)[n := 0x01]"
  define p where "p = pending m @ [0x01]"
  have m1: "length m1 = 64" "take (Suc n) m1 = p"
    using ctx n by (simp_all add: m1_def p_def take_Suc_conv_app_nth n_def [symmetric])
  have out: "take 24 (concat (map bytes_le64 (process h b))) = concat (map bytes_le64 (process h b))" for h b
    by (simp add: len_simps words)
  define len where "len = bytes_le64 (of_nat (8 * length m))"
  have pad: "absorb process start (tiger_padded m) = (if n \<le> 55
      then process (rh_hash ctx) ((p @ replicate (55 - n) 0) @ len)
      else process (process (rh_hash ctx) (p @ replicate (63 - n) 0)) (replicate 56 0 @ len))"
    unfolding tiger_padded_def len_def p_def by (subst absorb_padding) (simp_all add: n_def ctx(1) len_simps)
  show ?thesis
  proof (cases "n \<le> 55")
    case True
    then have m2: "fill8 m1 (Suc n) 56 = (p @ replicate (55 - n) 0) @ drop 56 m1"
      using m1 by (subst fill8_spec) simp_all
    have l: "length (p @ replicate (55 - n) 0) = 56" "length (drop 56 m1) = 8" using True n m1 by (simp_all add: p_def)
    have "tiger_final process ctx = concat (map bytes_le64 (process (rh_hash ctx) ((p @ replicate (55 - n) 0) @ len)))"
      using True by (simp add: tiger_final_def Let_def index t2 m2 tiger_length_field [OF l(1) ctx(2) l(2), folded len_def] out
        del: append_assoc flip: m1_def)
    then show ?thesis using True by (simp only: pad if_True)
  next
    case False
    then have m2: "fill8 m1 (Suc n) 64 = p @ replicate (63 - n) 0"
      using m1 n by (subst fill8_spec) simp_all
    define q where "q = p @ replicate (63 - n) 0"
    have q: "length q = 64" using n by (simp add: q_def p_def)
    then have m3: "fill8 q 0 56 = replicate 56 0 @ drop 56 q" by (subst fill8_spec) simp_all
    have l: "length (drop 56 q) = 8" using q by simp
    have "tiger_final process ctx = concat (map bytes_le64 (process (process (rh_hash ctx) q) (replicate 56 0 @ len)))"
      using False by (simp add: tiger_final_def Let_def index t2 m2 m3 tiger_length_field [OF length_replicate ctx(2) l, folded len_def] out
        del: drop_append flip: m1_def q_def)
    then show ?thesis using False by (simp only: pad if_False q_def)
  qed
qed

subsection \<open>Properties\<close>

definition tiger_run :: "tiger_ctx \<Rightarrow> (nat \<times> byte list) list \<Rightarrow> tiger_ctx" where
  "tiger_run = foldl (\<lambda>ctx (addr, msg). rhash_tiger_update ctx addr msg)"

definition tiger_run_Vz :: "tiger_ctx \<Rightarrow> (nat \<times> byte list) list \<Rightarrow> tiger_ctx" where
  "tiger_run_Vz = foldl (\<lambda>ctx (addr, msg). rhash_tiger_update_Vz ctx addr msg)"

lemma tiger_length_process: "length (tiger_process t s h b) = 3"
  by (simp add: tiger_process_def tiger_feedforward_def Let_def split: prod.splits)

lemma tiger_rep_init:
  "length (rh_message ctx) = 64 \<Longrightarrow> rhash_rep rhash_tiger_process_block
     [0x0123456789ABCDEF, 0xFEDCBA9876543210, 0xF096A5B4C3B2E187] (rhash_tiger_init ctx) [] \<and> tiger2 (rhash_tiger_init ctx) = 0"
  "length (rh_message ctx) = 64 \<Longrightarrow> rhash_rep rhash_tiger_process_block_Vz
     [0x158E427AC96B03DF, 0xF025C13B8E9DA784, 0xB690AB45C3E21B74] (rhash_tiger_init_Vz ctx) [] \<and> tiger2 (rhash_tiger_init_Vz ctx) = 0"
  by (simp_all add: rhash_rep_def rhash_tiger_init_def rhash_tiger_init_Vz_def)

lemma tiger2_blocks: "tiger2 (rhash_blocks al process ctx addr msg) = tiger2 ctx"
  by (induction al process ctx addr msg rule: rhash_blocks.induct) (subst rhash_blocks.simps, simp add: Let_def)

lemma tiger2_update: "tiger2 (rhash_update al process ctx addr msg) = tiger2 ctx"
  by (simp add: rhash_update_def Let_def tiger2_blocks)

definition tiger_blank :: tiger_ctx where
  "tiger_blank = \<lparr>rh_message = replicate 64 0, rh_length = 0, rh_hash = [], tiger2 = 0\<rparr>"

interpretation rhash_tiger: sized_digest "rhash_tiger_init tiger_blank" "\<lambda>ctx (addr, msg). rhash_tiger_update ctx addr msg"
  rhash_tiger_final snd "\<lambda>_. True"
  "\<lambda>c m. rhash_rep rhash_tiger_process_block [0x0123456789ABCDEF, 0xFEDCBA9876543210, 0xF096A5B4C3B2E187] c m \<and> tiger2 c = 0"
  tiger_spec "\<lambda>d. d" 24
proof (unfold_locales, goal_cases)
  case 1
  show ?case by (rule tiger_rep_init) (simp add: tiger_blank_def)
next
  case (2 c m x)
  then show ?case by (simp add: rhash_tiger_update_def rhash_update_rep tiger2_update split_beta)
next
  case (3 c m)
  then show ?case
    unfolding rhash_tiger_final_def tiger_spec_def
    by (intro tiger_final_digest) (simp_all add: rhash_tiger_process_block_def tiger_length_process)
next
  case (4 m)
  show ?case by (simp add: tiger_spec_def len_simps absorb_length rhash_tiger_process_block_def tiger_length_process)
qed

interpretation rhash_tiger_Vz: sized_digest "rhash_tiger_init_Vz tiger_blank" "\<lambda>ctx (addr, msg). rhash_tiger_update_Vz ctx addr msg"
  rhash_tiger_final_Vz snd "\<lambda>_. True"
  "\<lambda>c m. rhash_rep rhash_tiger_process_block_Vz [0x158E427AC96B03DF, 0xF025C13B8E9DA784, 0xB690AB45C3E21B74] c m \<and> tiger2 c = 0"
  tiger_Vz_spec "\<lambda>d. d" 24
proof (unfold_locales, goal_cases)
  case 1
  show ?case by (rule tiger_rep_init) (simp add: tiger_blank_def)
next
  case (2 c m x)
  then show ?case by (simp add: rhash_tiger_update_Vz_def rhash_update_rep tiger2_update split_beta)
next
  case (3 c m)
  then show ?case
    unfolding rhash_tiger_final_Vz_def tiger_Vz_spec_def
    by (intro tiger_final_digest) (simp_all add: rhash_tiger_process_block_Vz_def tiger_length_process)
next
  case (4 m)
  show ?case by (simp add: tiger_Vz_spec_def len_simps absorb_length rhash_tiger_process_block_Vz_def tiger_length_process)
qed

text \<open>
  Tiger and its modified variant: after the init function, any sequence of updates and the
  final function give the little-endian hash words that the block function reaches on the
  message followed by the byte 1, zeros and the 64 bit length in bits, whatever the cutting into
  chunks, their alignment and the previous contents of the context.
\<close>

theorem tiger_digest:
  assumes "length (rh_message ctx) = 64"
  shows "rhash_tiger_final (tiger_run (rhash_tiger_init ctx) xs) = tiger_spec (concat (map snd xs)) \<and>
    rhash_tiger_final_Vz (tiger_run_Vz (rhash_tiger_init_Vz ctx) xs) = tiger_Vz_spec (concat (map snd xs))"
  using rhash_tiger.rep_fin [OF rhash_tiger.rep_updates [OF tiger_rep_init(1) [OF assms], of xs]]
    rhash_tiger_Vz.rep_fin [OF rhash_tiger_Vz.rep_updates [OF tiger_rep_init(2) [OF assms], of xs]]
  by (simp add: tiger_run_def tiger_run_Vz_def list_all_iff)

theorem tiger_digest_witness:
  "rhash_tiger_final (tiger_run (rhash_tiger_init tiger_blank) [(1, [1, 2]), (16, [3])]) = tiger_spec [1, 2, 3]"
  using tiger_digest [of tiger_blank "[(1, [1, 2]), (16, [3])]"] by (simp add: tiger_blank_def)

text \<open>
  The code for 32 bit x86 computes the same block functions as the code for x86-64: the
  macro \<open>round\<close> on 32 bit halves equals the one on 64 bit words, and the loop that rotates
  \<open>a, b, c\<close> after each pass equals the three passes with permuted arguments.
\<close>

theorem tiger_IA32_agrees:
  "tiger_process_IA32 rhash_tiger_sboxes key_schedule state block = rhash_tiger_process_block state block \<and>
   tiger_process_IA32 rhash_tiger_sboxes_Vz key_schedule_Vz state block = rhash_tiger_process_block_Vz state block"
  by (simp add: tiger_process_IA32 rhash_tiger_process_block_def rhash_tiger_process_block_Vz_def)

end
