(* ===== verification/Whirlpool.thy ===== *)
theory Whirlpool
  imports Whirlpool_Sbox
begin

text \<open>
  Whirlpool and its modified variant, \<open>rhash/src/whirlpool.c\<close>: the block functions, the
  instances of the shared update and the final functions. The variant updates its key and its
  state in place, so each assignment sees the words assigned before it.
\<close>

subsection \<open>The block functions\<close>

definition WHIRLPOOL_OP :: "u64 list list \<Rightarrow> u64 list \<Rightarrow> nat \<Rightarrow> u64" where
  "WHIRLPOOL_OP sbox src shift =
     (sbox ! 0) ! unat (drop_bit 56 (src ! (shift mod 8))) XOR
     (sbox ! 1) ! unat (drop_bit 48 (src ! ((shift + 7) mod 8)) AND 0xff) XOR
     (sbox ! 2) ! unat (drop_bit 40 (src ! ((shift + 6) mod 8)) AND 0xff) XOR
     (sbox ! 3) ! unat (drop_bit 32 (src ! ((shift + 5) mod 8)) AND 0xff) XOR
     (sbox ! 4) ! unat (drop_bit 24 (src ! ((shift + 4) mod 8)) AND 0xff) XOR
     (sbox ! 5) ! unat (drop_bit 16 (src ! ((shift + 3) mod 8)) AND 0xff) XOR
     (sbox ! 6) ! unat (drop_bit 8 (src ! ((shift + 2) mod 8)) AND 0xff) XOR
     (sbox ! 7) ! unat (src ! ((shift + 1) mod 8) AND 0xff)"

definition whirlpool_rc :: "u64 list" where
  "whirlpool_rc = [
     0x1823c6e887b8014f, 0x36a6d2f5796f9152, 0x60bc9b8ea30c7b35, 0x1de0d7c22e4bfe57, 0x157737e59ff04ada,
     0x58c9290ab1a06b85, 0xbd5d10f4cb3e0567, 0xe427418ba77d95d8, 0xfbee7c66dd17479e, 0xca2dbf07ad5a8333]"

text \<open>The computation of one key array from the other, and of one state array from the other.\<close>

definition whirlpool_key :: "u64 list \<Rightarrow> nat \<Rightarrow> u64 list" where
  "whirlpool_key K i =
     [WHIRLPOOL_OP rhash_whirlpool_sbox K 0 XOR whirlpool_rc ! i,
      WHIRLPOOL_OP rhash_whirlpool_sbox K 1, WHIRLPOOL_OP rhash_whirlpool_sbox K 2,
      WHIRLPOOL_OP rhash_whirlpool_sbox K 3, WHIRLPOOL_OP rhash_whirlpool_sbox K 4,
      WHIRLPOOL_OP rhash_whirlpool_sbox K 5, WHIRLPOOL_OP rhash_whirlpool_sbox K 6,
      WHIRLPOOL_OP rhash_whirlpool_sbox K 7]"

definition whirlpool_state :: "u64 list \<Rightarrow> u64 list \<Rightarrow> u64 list" where
  "whirlpool_state state K =
     map (\<lambda>j. WHIRLPOOL_OP rhash_whirlpool_sbox state j XOR K ! j) [0, 1, 2, 3, 4, 5, 6, 7]"

text \<open>\<open>state1[i] = hash[i] = be2me_64(p_block[i]) ^ (K1[i] = hash[i])\<close>: \<open>K1\<close>, \<open>hash\<close>, \<open>state1\<close>.\<close>

definition whirlpool_map :: "u64 list \<Rightarrow> byte list \<Rightarrow> u64 list \<times> u64 list \<times> u64 list" where
  "whirlpool_map hash block =
     (let h = map (\<lambda>i. be2me_64 (block64 block i) XOR hash ! i) [0, 1, 2, 3, 4, 5, 6, 7]
      in (map (\<lambda>i. hash ! i) [0, 1, 2, 3, 4, 5, 6, 7], h, h))"

definition whirlpool_feedforward :: "u64 list \<Rightarrow> u64 list \<Rightarrow> u64 list" where
  "whirlpool_feedforward hash state1 = map (\<lambda>i. hash ! i XOR state1 ! i) [0, 1, 2, 3, 4, 5, 6, 7]"

definition rhash_whirlpool_process_block :: "u64 list \<Rightarrow> byte list \<Rightarrow> u64 list" where
  "rhash_whirlpool_process_block hash block =
     (let (K1, hash, state1) = whirlpool_map hash block;
          (K1, state1) = foldl (\<lambda>(K1, state1) i.
             let K2 = whirlpool_key K1 i;
                 state2 = whirlpool_state state1 K2;
                 i = i + 1;
                 K1 = whirlpool_key K2 i;
                 state1 = whirlpool_state state2 K1
             in (K1, state1)) (K1, state1) [0, 2, 4, 6, 8]
      in whirlpool_feedforward hash state1)"

definition whirlpool_key_Vz :: "u64 list \<Rightarrow> nat \<Rightarrow> u64 list" where
  "whirlpool_key_Vz K1 i =
     (let K1 = K1[0 := WHIRLPOOL_OP rhash_whirlpool_sbox_Vz K1 0 XOR whirlpool_rc ! i];
          K1 = K1[1 := WHIRLPOOL_OP rhash_whirlpool_sbox_Vz K1 1];
          K1 = K1[2 := WHIRLPOOL_OP rhash_whirlpool_sbox_Vz K1 2];
          K1 = K1[3 := WHIRLPOOL_OP rhash_whirlpool_sbox_Vz K1 3];
          K1 = K1[5 := WHIRLPOOL_OP rhash_whirlpool_sbox_Vz K1 5];
          K1 = K1[6 := WHIRLPOOL_OP rhash_whirlpool_sbox_Vz K1 6];
          K1 = K1[7 := WHIRLPOOL_OP rhash_whirlpool_sbox_Vz K1 7];
          K1 = K1[4 := WHIRLPOOL_OP rhash_whirlpool_sbox_Vz K1 4]
      in K1)"

definition whirlpool_state_Vz :: "u64 list \<Rightarrow> u64 list \<Rightarrow> u64 list" where
  "whirlpool_state_Vz s K1 =
     (let s = s[0 := WHIRLPOOL_OP rhash_whirlpool_sbox_Vz s 0 XOR K1 ! 0];
          s = s[1 := WHIRLPOOL_OP rhash_whirlpool_sbox_Vz s 1 XOR K1 ! 1];
          s = s[3 := WHIRLPOOL_OP rhash_whirlpool_sbox_Vz s 3 XOR K1 ! 3];
          s = s[4 := WHIRLPOOL_OP rhash_whirlpool_sbox_Vz s 4 XOR K1 ! 4];
          s = s[5 := (WHIRLPOOL_OP rhash_whirlpool_sbox_Vz s 5 XOR K1 ! 5) + 1];
          s = s[6 := (WHIRLPOOL_OP rhash_whirlpool_sbox_Vz s 6 XOR K1 ! 6) + 1];
          s = s[7 := WHIRLPOOL_OP rhash_whirlpool_sbox_Vz s 7 XOR K1 ! 7];
          s = s[2 := (WHIRLPOOL_OP rhash_whirlpool_sbox_Vz s 2 XOR K1 ! 2) + 1]
      in s)"

definition rhash_whirlpool_process_block_Vz :: "u64 list \<Rightarrow> byte list \<Rightarrow> u64 list" where
  "rhash_whirlpool_process_block_Vz hash block =
     (let (K1, hash, state1) = whirlpool_map hash block;
          (K1, state1) = foldl (\<lambda>(K1, state1) i.
             let K1 = whirlpool_key_Vz K1 i;
                 state1 = whirlpool_state_Vz state1 K1
             in (K1, state1)) (K1, state1) [0..<10]
      in whirlpool_feedforward hash state1)"

subsection \<open>Init, update, final\<close>

type_synonym whirlpool_ctx = "u64 rhash_ctx"

definition rhash_whirlpool_init :: "whirlpool_ctx \<Rightarrow> whirlpool_ctx" where
  "rhash_whirlpool_init ctx = ctx\<lparr>rh_length := 0, rh_hash := replicate 8 0\<rparr>"

definition rhash_whirlpool_init_Vz :: "whirlpool_ctx \<Rightarrow> whirlpool_ctx" where
  "rhash_whirlpool_init_Vz ctx = ctx\<lparr>rh_length := 0, rh_hash := [0, 3, 5, 2, 1, 7, 4, 6]\<rparr>"

definition rhash_whirlpool_update :: "whirlpool_ctx \<Rightarrow> nat \<Rightarrow> byte list \<Rightarrow> whirlpool_ctx" where
  "rhash_whirlpool_update = rhash_update 8 rhash_whirlpool_process_block"

definition rhash_whirlpool_update_Vz :: "whirlpool_ctx \<Rightarrow> nat \<Rightarrow> byte list \<Rightarrow> whirlpool_ctx" where
  "rhash_whirlpool_update_Vz = rhash_update 8 rhash_whirlpool_process_block_Vz"

definition whirlpool_final ::
  "(u64 list \<Rightarrow> byte list \<Rightarrow> u64 list) \<Rightarrow> whirlpool_ctx \<Rightarrow> nat \<Rightarrow> byte list \<Rightarrow> nat \<Rightarrow> byte list" where
  "whirlpool_final process ctx ra res ha =
     (let index = rhash_index ctx;
          hash = rh_hash ctx;
          message = (rh_message ctx)[index := 0x80];
          index = index + 1;
          (hash, message, index) =
            (if index > 32
             then let message = fill8 message index 64
                  in (process hash message, message, 0)
             else (hash, message, index));
          message = fill8 message index 56;
          message = memcpy message (8 * 7) (bytes_le64 (be2me_64 (push_bit 3 (rh_length ctx))));
          hash = process hash message
      in rhash_u64_swap_copy ra res 0 ha (take 64 (concat (map bytes_le64 hash))))"

definition rhash_whirlpool_final :: "whirlpool_ctx \<Rightarrow> nat \<Rightarrow> byte list \<Rightarrow> nat \<Rightarrow> byte list" where
  "rhash_whirlpool_final = whirlpool_final rhash_whirlpool_process_block"

definition rhash_whirlpool_final_Vz :: "whirlpool_ctx \<Rightarrow> nat \<Rightarrow> byte list \<Rightarrow> nat \<Rightarrow> byte list" where
  "rhash_whirlpool_final_Vz = whirlpool_final rhash_whirlpool_process_block_Vz"

text \<open>The length field of Whirlpool has 32 bytes, of which the code fills the last eight.\<close>

definition whirlpool_padded :: "byte list \<Rightarrow> byte list" where
  "whirlpool_padded m = m @ padding 0x80 32 (bytes_be64 (of_nat (8 * length m))) (length m)"

definition whirlpool_spec :: "byte list \<Rightarrow> byte list" where
  "whirlpool_spec m = concat (map bytes_be64 (absorb rhash_whirlpool_process_block (replicate 8 0) (whirlpool_padded m)))"

definition whirlpool_Vz_spec :: "byte list \<Rightarrow> byte list" where
  "whirlpool_Vz_spec m = concat (map bytes_be64
     (absorb rhash_whirlpool_process_block_Vz [0, 3, 5, 2, 1, 7, 4, 6] (whirlpool_padded m)))"

subsection \<open>The final function\<close>

lemma whirlpool_length_field:
  assumes "length b = 56" and "rh_length ctx = of_nat n" and "length rest = 8"
  shows "memcpy (b @ rest) 56 (bytes_le64 (be2me_64 (push_bit 3 (rh_length ctx)))) = b @ bytes_be64 (of_nat (8 * n))"
  unfolding bytes_swapped assms(2) of_nat_bits using assms(1,3) by (simp add: memcpy_def len_simps)

lemma whirlpool_final_digest:
  assumes rep: "rhash_rep process start ctx m"
    and words: "\<And>h b. length (process h b) = 8" and res: "length res = 64"
  shows "whirlpool_final process ctx ra res ha = concat (map bytes_be64 (absorb process start (whirlpool_padded m)))"
proof -
  from rep have ctx: "rh_hash ctx = absorb process start m" "rh_length ctx = of_nat (length m)"
    "length (rh_message ctx) = 64" "take (length m mod 64) (rh_message ctx) = pending m"
    by (simp_all add: rhash_rep_def)
  define n where "n = length m mod 64"
  have n: "n < 64" "length (pending m) = n" by (simp_all add: n_def)
  have index: "rhash_index ctx = n" using rhash_index_length [OF ctx(2)] by (simp add: n_def)
  define m1 where "m1 = (rh_message ctx)[n := 0x80]"
  define p where "p = pending m @ [0x80]"
  have m1: "length m1 = 64" "take (Suc n) m1 = p"
    using ctx n by (simp_all add: m1_def p_def take_Suc_conv_app_nth n_def [symmetric])
  have out: "rhash_u64_swap_copy ra res 0 ha (take 64 (concat (map bytes_le64 (process h b))))
      = concat (map bytes_be64 (process h b))" for h b
    using res swap_copy_spec(2) [of "concat (map bytes_le64 (process h b))" 0 res ra ha]
    by (simp add: len_simps words swapped_words memcpy_full)
  define len where "len = bytes_be64 (of_nat (8 * length m))"
  have pad: "absorb process start (whirlpool_padded m) = (if n \<le> 31
      then process (rh_hash ctx) ((p @ replicate (55 - n) 0) @ len)
      else process (process (rh_hash ctx) (p @ replicate (63 - n) 0)) (replicate 56 0 @ len))"
    unfolding whirlpool_padded_def len_def p_def by (subst absorb_padding) (simp_all add: n_def ctx(1) len_simps)
  show ?thesis
  proof (cases "n \<le> 31")
    case True
    then have m2: "fill8 m1 (Suc n) 56 = (p @ replicate (55 - n) 0) @ drop 56 m1"
      using m1 by (subst fill8_spec) simp_all
    have l: "length (p @ replicate (55 - n) 0) = 56" "length (drop 56 m1) = 8" using True n m1 by (simp_all add: p_def)
    have "whirlpool_final process ctx ra res ha
        = concat (map bytes_be64 (process (rh_hash ctx) ((p @ replicate (55 - n) 0) @ len)))"
      using True by (simp add: whirlpool_final_def Let_def index m2
        whirlpool_length_field [OF l(1) ctx(2) l(2), folded len_def] out del: append_assoc flip: m1_def)
    then show ?thesis using True by (simp only: pad if_True)
  next
    case False
    then have m2: "fill8 m1 (Suc n) 64 = p @ replicate (63 - n) 0"
      using m1 n by (subst fill8_spec) simp_all
    define q where "q = p @ replicate (63 - n) 0"
    have q: "length q = 64" using n by (simp add: q_def p_def)
    then have m3: "fill8 q 0 56 = replicate 56 0 @ drop 56 q" by (subst fill8_spec) simp_all
    have l: "length (drop 56 q) = 8" using q by simp
    have "whirlpool_final process ctx ra res ha
        = concat (map bytes_be64 (process (process (rh_hash ctx) q) (replicate 56 0 @ len)))"
      using False by (simp add: whirlpool_final_def Let_def index m2 m3
        whirlpool_length_field [OF length_replicate ctx(2) l, folded len_def] out del: drop_append flip: m1_def q_def)
    then show ?thesis using False by (simp only: pad if_False q_def)
  qed
qed

subsection \<open>Properties\<close>

definition whirlpool_run :: "whirlpool_ctx \<Rightarrow> (nat \<times> byte list) list \<Rightarrow> whirlpool_ctx" where
  "whirlpool_run = foldl (\<lambda>ctx (addr, msg). rhash_whirlpool_update ctx addr msg)"

definition whirlpool_run_Vz :: "whirlpool_ctx \<Rightarrow> (nat \<times> byte list) list \<Rightarrow> whirlpool_ctx" where
  "whirlpool_run_Vz = foldl (\<lambda>ctx (addr, msg). rhash_whirlpool_update_Vz ctx addr msg)"

lemma whirlpool_length_process:
  "length (rhash_whirlpool_process_block h b) = 8" "length (rhash_whirlpool_process_block_Vz h b) = 8"
  by (simp_all add: rhash_whirlpool_process_block_def rhash_whirlpool_process_block_Vz_def
      whirlpool_feedforward_def Let_def split: prod.splits)

lemma whirlpool_rep_init:
  "length (rh_message ctx) = 64 \<Longrightarrow>
     rhash_rep rhash_whirlpool_process_block (replicate 8 0) (rhash_whirlpool_init ctx) []"
  "length (rh_message ctx) = 64 \<Longrightarrow>
     rhash_rep rhash_whirlpool_process_block_Vz [0, 3, 5, 2, 1, 7, 4, 6] (rhash_whirlpool_init_Vz ctx) []"
  by (simp_all add: rhash_rep_def rhash_whirlpool_init_def rhash_whirlpool_init_Vz_def)

definition whirlpool_blank :: whirlpool_ctx where
  "whirlpool_blank = \<lparr>rh_message = replicate 64 0, rh_length = 0, rh_hash = []\<rparr>"

interpretation rhash_whirlpool: sized_digest "rhash_whirlpool_init whirlpool_blank"
  "\<lambda>ctx (addr, msg). rhash_whirlpool_update ctx addr msg" "\<lambda>ctx. rhash_whirlpool_final ctx 0 (replicate 64 0) 0"
  snd "\<lambda>_. True" "rhash_rep rhash_whirlpool_process_block (replicate 8 0)" whirlpool_spec "\<lambda>d. d" 64
proof (unfold_locales, goal_cases)
  case 1
  show ?case by (rule whirlpool_rep_init) (simp add: whirlpool_blank_def)
next
  case (2 c m x)
  then show ?case by (simp add: rhash_whirlpool_update_def rhash_update_rep split_beta)
next
  case (3 c m)
  show ?case
    unfolding rhash_whirlpool_final_def whirlpool_spec_def
    by (rule whirlpool_final_digest [OF 3 whirlpool_length_process(1)]) simp
next
  case (4 m)
  show ?case by (simp add: whirlpool_spec_def len_simps absorb_length whirlpool_length_process)
qed

interpretation rhash_whirlpool_Vz: sized_digest "rhash_whirlpool_init_Vz whirlpool_blank"
  "\<lambda>ctx (addr, msg). rhash_whirlpool_update_Vz ctx addr msg" "\<lambda>ctx. rhash_whirlpool_final_Vz ctx 0 (replicate 64 0) 0"
  snd "\<lambda>_. True" "rhash_rep rhash_whirlpool_process_block_Vz [0, 3, 5, 2, 1, 7, 4, 6]" whirlpool_Vz_spec "\<lambda>d. d" 64
proof (unfold_locales, goal_cases)
  case 1
  show ?case by (rule whirlpool_rep_init) (simp add: whirlpool_blank_def)
next
  case (2 c m x)
  then show ?case by (simp add: rhash_whirlpool_update_Vz_def rhash_update_rep split_beta)
next
  case (3 c m)
  show ?case
    unfolding rhash_whirlpool_final_Vz_def whirlpool_Vz_spec_def
    by (rule whirlpool_final_digest [OF 3 whirlpool_length_process(2)]) simp
next
  case (4 m)
  show ?case by (simp add: whirlpool_Vz_spec_def len_simps absorb_length whirlpool_length_process)
qed

text \<open>
  Whirlpool and its modified variant: after the init function, any sequence of updates and
  the final function give the big-endian hash words that the block function reaches on the
  message followed by the byte 128, zeros and a length field of 32 bytes, whatever the cutting
  into chunks, the alignment of chunks, hash and result, and the previous contents.
\<close>

theorem whirlpool_digest:
  assumes "length (rh_message ctx) = 64" and "length res = 64"
  shows "rhash_whirlpool_final (whirlpool_run (rhash_whirlpool_init ctx) xs) ra res ha = whirlpool_spec (concat (map snd xs)) \<and>
    rhash_whirlpool_final_Vz (whirlpool_run_Vz (rhash_whirlpool_init_Vz ctx) xs) ra res ha = whirlpool_Vz_spec (concat (map snd xs))"
proof -
  have "rhash_rep rhash_whirlpool_process_block (replicate 8 0) (whirlpool_run (rhash_whirlpool_init ctx) xs) (concat (map snd xs))"
    "rhash_rep rhash_whirlpool_process_block_Vz [0, 3, 5, 2, 1, 7, 4, 6] (whirlpool_run_Vz (rhash_whirlpool_init_Vz ctx) xs) (concat (map snd xs))"
    using rhash_whirlpool.rep_updates [OF whirlpool_rep_init(1) [OF assms(1)], of xs]
      rhash_whirlpool_Vz.rep_updates [OF whirlpool_rep_init(2) [OF assms(1)], of xs]
    by (simp_all add: whirlpool_run_def whirlpool_run_Vz_def list_all_iff)
  from whirlpool_final_digest [OF this(1) whirlpool_length_process(1) assms(2)]
    whirlpool_final_digest [OF this(2) whirlpool_length_process(2) assms(2)]
  show ?thesis
    by (simp add: rhash_whirlpool_final_def rhash_whirlpool_final_Vz_def whirlpool_spec_def whirlpool_Vz_spec_def)
qed

theorem whirlpool_digest_witness:
  "rhash_whirlpool_final (whirlpool_run (rhash_whirlpool_init whirlpool_blank) [(1, [1, 2]), (16, [3])]) 3 (replicate 64 9) 8
     = whirlpool_spec [1, 2, 3]"
  using whirlpool_digest [of whirlpool_blank "replicate 64 9" "[(1, [1, 2]), (16, [3])]" 3 8]
  by (simp add: whirlpool_blank_def)

end
