(* ===== verification/Dictionary.thy ===== *)
theory Dictionary
  imports Prelude "HOL-Library.Char_ord"
begin

text \<open>
  The string dictionary of \<open>iniparser/src/dictionary.c\<close>: parallel arrays of keys, values and
  hashes with free slots, first fit insertion from slot \<open>n\<close> on, growth by doubling. A C string
  is the \<open>string\<close> of its characters before the NUL, a pointer that may be \<open>NULL\<close> is an
  \<open>option\<close>. The outcomes of the allocations are an argument (\<open>dict_mem\<close>), so the error
  paths of the code are branches of the model; the one loop that could run forever is a
  \<open>partial_function (option)\<close>. Sizes and counts are natural
  numbers: the counter \<open>n\<close>, an \<open>unsigned\<close> in the code, is shown to be at most the number of calls, and
  the capacity, a \<open>size_t\<close>, only doubles when arrays of that length have been allocated. The
  interface \<open>string_map\<close> states what a client of the dictionary relies on, and its interpretation
  shows that the dictionary keeps it.
\<close>

subsection \<open>The data\<close>

record dictionary =
  dict_n :: nat
  dict_size :: nat
  dict_val :: "string option list"
  dict_key :: "string option list"
  dict_hash :: "u32 list"

record dict_mem =
  grow_ok :: bool
  key_ok :: bool
  val_ok :: bool

definition DICTMINSZ :: nat where "DICTMINSZ = 128"

definition xstrdup :: "bool \<Rightarrow> string option \<Rightarrow> string option" where
  "xstrdup ok s = (if ok then s else None)"

subsection \<open>The operations\<close>

text \<open>\<open>(unsigned)key[i]\<close> sign extends the \<open>char\<close>.\<close>

definition hash_char :: "u32 \<Rightarrow> char \<Rightarrow> u32" where
  "hash_char hash c =
     (let hash = hash + scast (of_char c :: byte);
          hash = hash + push_bit 10 hash
      in hash XOR drop_bit 6 hash)"

definition dictionary_hash :: "string option \<Rightarrow> u32" where
  "dictionary_hash key = (case key of None \<Rightarrow> 0
     | Some s \<Rightarrow> let hash = foldl hash_char 0 s;
          hash = hash + push_bit 3 hash;
          hash = hash XOR drop_bit 11 hash
        in hash + push_bit 15 hash)"

definition dictionary_new :: "nat \<Rightarrow> dictionary" where
  "dictionary_new sz =
     (let sz = (if sz < DICTMINSZ then DICTMINSZ else sz)
      in \<lparr>dict_n = 0, dict_size = sz, dict_val = replicate sz None,
           dict_key = replicate sz None, dict_hash = replicate sz 0\<rparr>)"

definition dictionary_grow :: "bool \<Rightarrow> dictionary \<Rightarrow> dictionary option" where
  "dictionary_grow ok d =
     (if \<not> ok then None
      else Some (d\<lparr>dict_size := dict_size d * 2,
                   dict_val := dict_val d @ replicate (dict_size d) None,
                   dict_key := dict_key d @ replicate (dict_size d) None,
                   dict_hash := dict_hash d @ replicate (dict_size d) 0\<rparr>))"

text \<open>
  The search loop that \<open>dictionary_get\<close>, \<open>dictionary_set\<close> and \<open>dictionary_unset\<close> share: the
  first slot from \<open>i\<close> on that holds the key, or the size of the dictionary.
\<close>

function dict_find :: "dictionary \<Rightarrow> string \<Rightarrow> u32 \<Rightarrow> nat \<Rightarrow> nat" where
  "dict_find d key hash i =
     (if i < dict_size d
      then (case dict_key d ! i of
              None \<Rightarrow> dict_find d key hash (i + 1)
            | Some k \<Rightarrow> if hash = dict_hash d ! i \<and> key = k then i else dict_find d key hash (i + 1))
      else i)"
  by pat_completeness auto
termination by (relation "measure (\<lambda>(d, _, _, i). dict_size d - i)") auto

text \<open>\<open>dictionary_get\<close> returns a stored pointer or the default pointer of the caller.\<close>

definition dictionary_get :: "dictionary option \<Rightarrow> string option \<Rightarrow> (string option \<Rightarrow> 'p) \<Rightarrow> 'p \<Rightarrow> 'p" where
  "dictionary_get d key ptr def = (case (d, key) of
     (Some d, Some k) \<Rightarrow>
       (let i = dict_find d k (dictionary_hash key) 0
        in if i < dict_size d then ptr (dict_val d ! i) else def)
   | _ \<Rightarrow> def)"

text \<open>The loop that looks for a free slot: \<open>None\<close> when it never ends.\<close>

partial_function (option) free_slot :: "string option list \<Rightarrow> nat \<Rightarrow> nat \<Rightarrow> nat option" where
  "free_slot keys sz i =
     (if keys ! i \<noteq> None
      then free_slot keys sz (if i + 1 = sz then 0 else i + 1)
      else Some i)"

definition dict_insert :: "dict_mem \<Rightarrow> dictionary \<Rightarrow> string \<Rightarrow> string option \<Rightarrow> u32 \<Rightarrow> dictionary option" where
  "dict_insert m d key val hash =
     map_option (\<lambda>i. d\<lparr>dict_key := (dict_key d)[i := xstrdup (key_ok m) (Some key)],
                       dict_val := (dict_val d)[i := xstrdup (val_ok m) val],
                       dict_hash := (dict_hash d)[i := hash],
                       dict_n := dict_n d + 1\<rparr>)
       (free_slot (dict_key d) (dict_size d) (dict_n d))"

text \<open>
  The result of \<open>dictionary_set\<close> is the returned integer with the new dictionary; \<open>None\<close> stands
  for a call that does not return.
\<close>

definition dictionary_set ::
  "dict_mem \<Rightarrow> dictionary option \<Rightarrow> string option \<Rightarrow> string option \<Rightarrow> (int \<times> dictionary option) option" where
  "dictionary_set m d key val = (case (d, key) of
     (Some d, Some k) \<Rightarrow>
       (let hash = dictionary_hash key;
            i = (if dict_n d > 0 then dict_find d k hash 0 else dict_size d)
        in if i < dict_size d
           then Some (0, Some (d\<lparr>dict_val := (dict_val d)[i := xstrdup (val_ok m) val]\<rparr>))
           else (case if dict_n d = dict_size d then dictionary_grow (grow_ok m) d else Some d of
                   None \<Rightarrow> Some (-1, Some d)
                 | Some d \<Rightarrow> map_option (\<lambda>d. (0, Some d)) (dict_insert m d k val hash)))
   | _ \<Rightarrow> Some (-1, d))"

definition dictionary_unset :: "dictionary option \<Rightarrow> string option \<Rightarrow> dictionary option" where
  "dictionary_unset d key = (case (d, key) of
     (Some d, Some k) \<Rightarrow>
       (let i = dict_find d k (dictionary_hash key) 0
        in if i \<ge> dict_size d then Some d
           else Some (d\<lparr>dict_key := (dict_key d)[i := None],
                        dict_val := (dict_val d)[i := None],
                        dict_hash := (dict_hash d)[i := 0],
                        dict_n := dict_n d - 1\<rparr>))
   | _ \<Rightarrow> d)"

text \<open>\<open>dictionary_dump\<close>: the text that is printed; \<open>%20s\<close> pads on the left.\<close>

definition pad_left :: "nat \<Rightarrow> string \<Rightarrow> string" where
  "pad_left w s = replicate (w - length s) CHR 0x20 @ s"

definition dictionary_dump :: "dictionary option \<Rightarrow> string" where
  "dictionary_dump d = (case d of None \<Rightarrow> []
     | Some d \<Rightarrow>
         if dict_n d < 1 then ''empty dictionary'' @ [CHR 0x0A]
         else concat (map (\<lambda>i. case dict_key d ! i of None \<Rightarrow> []
                | Some k \<Rightarrow> pad_left 20 k @ [CHR 0x09, CHR ''[''] @
                    (case dict_val d ! i of Some v \<Rightarrow> v | None \<Rightarrow> ''UNDEF'') @ [CHR '']'', CHR 0x0A])
              [0..<dict_size d]))"

subsection \<open>The abstract map\<close>

text \<open>The entries in slot order, and the finite map they stand for.\<close>

fun slot_entries :: "string option list \<Rightarrow> string option list \<Rightarrow> (string \<times> string option) list" where
  "slot_entries (Some k # ks) (v # vs) = (k, v) # slot_entries ks vs"
| "slot_entries (None # ks) (v # vs) = slot_entries ks vs"
| "slot_entries _ _ = []"

definition dict_entries :: "dictionary \<Rightarrow> (string \<times> string option) list" where
  "dict_entries d = slot_entries (dict_key d) (dict_val d)"

definition dict_map :: "dictionary \<Rightarrow> string \<rightharpoonup> string option" where
  "dict_map d = map_of (dict_entries d)"

definition live_keys :: "string option list \<Rightarrow> string list" where
  "live_keys ks = map the (filter (\<lambda>k. k \<noteq> None) ks)"

text \<open>
  The invariant that holds whatever the allocations do: the arrays have the recorded size, no
  key occurs twice, every stored hash is the hash of its key, and \<open>n\<close> counts at least the used
  slots. Without failing allocations \<open>n\<close> counts them exactly.
\<close>

definition dict_ok :: "dictionary \<Rightarrow> bool" where
  "dict_ok d \<longleftrightarrow> 0 < dict_size d \<and> length (dict_key d) = dict_size d \<and> length (dict_val d) = dict_size d \<and>
     length (dict_hash d) = dict_size d \<and> distinct (live_keys (dict_key d)) \<and>
     (\<forall>i < dict_size d. \<forall>k. dict_key d ! i = Some k \<longrightarrow> dict_hash d ! i = dictionary_hash (Some k)) \<and>
     length (live_keys (dict_key d)) \<le> dict_n d \<and> dict_n d \<le> dict_size d"

definition dict_exact :: "dictionary \<Rightarrow> bool" where
  "dict_exact d \<longleftrightarrow> dict_ok d \<and> dict_n d = length (live_keys (dict_key d))"


subsection \<open>Lemmas on slots\<close>

lemma slot_entries_append:
  "length a = length c \<Longrightarrow> slot_entries (a @ b) (c @ d) = slot_entries a c @ slot_entries b d"
  by (induction a c rule: slot_entries.induct) auto

lemma slot_entries_keys: "length ks = length vs \<Longrightarrow> map fst (slot_entries ks vs) = live_keys ks"
  by (induction ks vs rule: slot_entries.induct) (auto simp: live_keys_def)

lemma slot_entries_free [simp]: "slot_entries (replicate m None) vs = []"
proof (induction m arbitrary: vs)
  case (Suc m)
  then show ?case by (cases vs) simp_all
qed simp

lemma live_keys_simps [simp]:
  "live_keys [] = []" "live_keys (None # ks) = live_keys ks" "live_keys (Some k # ks) = k # live_keys ks"
  "live_keys (a @ b) = live_keys a @ live_keys b" "live_keys (replicate m None) = []"
  by (simp_all add: live_keys_def)

lemma live_keys_set: "set (live_keys ks) = {k. Some k \<in> set ks}"
proof (induction ks)
  case (Cons k ks)
  then show ?case by (cases k) auto
qed simp

lemma length_live_keys_free: "length (live_keys ks) < length ks \<longleftrightarrow> None \<in> set ks"
proof (induction ks)
  case (Cons k ks)
  have "length (live_keys ks) \<le> length ks" by (simp add: live_keys_def)
  with Cons show ?case by (cases k) auto
qed simp

text \<open>A used or a free slot splits the arrays around it.\<close>

lemma slot_split:
  assumes "i < length ks" and "length vs = length ks"
  obtains A B C D where "ks = A @ ks ! i # B" and "vs = C @ vs ! i # D" and "length A = i" and "length C = i"
    and "length B = length D" and "\<And>x. ks[i := x] = A @ x # B" and "\<And>x. vs[i := x] = C @ x # D"
  using assms that [of "take i ks" "drop (Suc i) ks" "take i vs" "drop (Suc i) vs"]
  by (simp add: id_take_nth_drop upd_conv_take_nth_drop)

lemma slot_map_put:
  assumes "length A = length C" and "length B = length D" and "k \<notin> set (live_keys (A @ B))"
  shows "map_of (slot_entries (A @ Some k # B) (C @ v # D)) = (map_of (slot_entries (A @ B) (C @ D)))(k \<mapsto> v)"
proof -
  have "map_of (slot_entries A C) k = None"
    using assms slot_entries_keys [of A C] by (auto simp: map_of_eq_None_iff simp flip: list.set_map)
  then show ?thesis
    using assms(1) by (auto simp: slot_entries_append fun_eq_iff map_add_def split: option.splits)
qed

lemma slot_map_free:
  "length A = length C \<Longrightarrow> slot_entries (A @ None # B) (C @ v # D) = slot_entries (A @ B) (C @ D)"
  by (simp add: slot_entries_append)


subsection \<open>Searching\<close>

lemma live_key_unique:
  assumes "distinct (live_keys ks)" and "i < j" and "j < length ks" and "ks ! i = Some k"
  shows "ks ! j \<noteq> Some k"
proof
  assume j: "ks ! j = Some k"
  have "ks = take i ks @ Some k # drop (Suc i) ks"
    using assms by (metis id_take_nth_drop less_trans)
  then have "distinct (live_keys (take i ks @ Some k # drop (Suc i) ks))"
    using assms(1) by simp
  then have "k \<notin> set (live_keys (drop (Suc i) ks))" by simp
  moreover have "drop (Suc i) ks ! (j - Suc i) = Some k" "j - Suc i < length (drop (Suc i) ks)"
    using assms j by simp_all
  ultimately show False by (metis live_keys_set mem_Collect_eq nth_mem)
qed

lemmas dict_ok_simps = dict_ok_def dict_exact_def
lemmas [simp del] = dict_find.simps

lemma dict_find_at:
  assumes "dict_ok d" and "j < dict_size d" and "dict_key d ! j = Some k" and "i \<le> j"
  shows "dict_find d k (dictionary_hash (Some k)) i = j"
  using assms(4)
proof (induction "j - i" arbitrary: i)
  case 0
  then show ?case using assms by (subst dict_find.simps) (simp add: dict_ok_def)
next
  case (Suc n)
  then have "i < j" "dict_find d k (dictionary_hash (Some k)) (i + 1) = j" by simp_all
  moreover have "dict_key d ! i \<noteq> Some k"
    using live_key_unique [of "dict_key d" i j k] assms \<open>i < j\<close> by (auto simp: dict_ok_def)
  ultimately show ?case using assms by (subst dict_find.simps) (auto split: option.split)
qed

lemma dict_find_absent:
  assumes "dict_ok d" and "Some k \<notin> set (dict_key d)" and "i \<le> dict_size d"
  shows "dict_find d k hash i = dict_size d"
  using assms(3)
proof (induction "dict_size d - i" arbitrary: i)
  case 0
  then show ?case by (subst dict_find.simps) simp
next
  case (Suc n)
  then have "i < length (dict_key d)" using assms by (simp add: dict_ok_def)
  then have "dict_key d ! i \<noteq> Some k" using assms(2) by (metis nth_mem)
  with Suc show ?case by (subst dict_find.simps) (auto split: option.split)
qed

lemma dict_split:
  assumes "dict_ok d" and "i < dict_size d"
  obtains A B C D where "dict_key d = A @ dict_key d ! i # B" and "dict_val d = C @ dict_val d ! i # D"
    and "length A = i" and "length C = i" and "length B = length D"
    and "\<And>x. (dict_key d)[i := x] = A @ x # B" and "\<And>x. (dict_val d)[i := x] = C @ x # D"
  using slot_split [of i "dict_key d" "dict_val d"] assms unfolding dict_ok_def by metis

lemma dict_map_at:
  assumes "dict_ok d" and "i < dict_size d" and "dict_key d ! i = Some k"
  shows "dict_map d k = Some (dict_val d ! i)"
proof -
  obtain A B C D where s: "dict_key d = A @ Some k # B" "dict_val d = C @ dict_val d ! i # D"
      "length A = i" "length C = i" "length B = length D"
    using dict_split [OF assms(1,2)] assms(3) by metis
  then have "k \<notin> set (live_keys (A @ B))" using assms(1) by (auto simp: dict_ok_def)
  then have "map_of (slot_entries (A @ Some k # B) (C @ dict_val d ! i # D)) k = Some (dict_val d ! i)"
    using s(3-5) by (subst slot_map_put) simp_all
  then show ?thesis using s(1,2) by (simp add: dict_map_def dict_entries_def)
qed

lemma dict_map_absent:
  "dict_ok d \<Longrightarrow> Some k \<notin> set (dict_key d) \<Longrightarrow> dict_map d k = None"
  by (simp add: dict_map_def dict_entries_def map_of_eq_None_iff slot_entries_keys dict_ok_def live_keys_set
      flip: list.set_map)

lemma dict_cases:
  assumes "dict_ok d"
  obtains i where "i < dict_size d" and "dict_key d ! i = Some k" | "Some k \<notin> set (dict_key d)"
  using assms that by (auto simp: dict_ok_def in_set_conv_nth)

lemma dictionary_get_map:
  assumes "dict_ok d"
  shows "dictionary_get (Some d) (Some k) ptr def = (case dict_map d k of None \<Rightarrow> def | Some v \<Rightarrow> ptr v)"
  using assms
  by (rule dict_cases [where k = k])
     (simp_all add: assms dictionary_get_def dict_find_at dict_find_absent dict_map_at dict_map_absent)


subsection \<open>The loop for a free slot ends\<close>

lemma free_slot_ahead:
  assumes "i \<le> j" and "j < length ks" and "ks ! j = None"
  shows "\<exists>r. free_slot ks (length ks) i = Some r \<and> r < length ks \<and> ks ! r = None"
  using assms(1)
proof (induction "j - i" arbitrary: i)
  case 0
  then show ?case using assms by (subst free_slot.simps) simp
next
  case (Suc n)
  then have "\<exists>r. free_slot ks (length ks) (i + 1) = Some r \<and> r < length ks \<and> ks ! r = None" by simp
  moreover have "i + 1 < length ks" "i < length ks" using Suc assms by auto
  ultimately show ?case by (subst free_slot.simps) auto
qed

lemma free_slot_wraps:
  assumes "i < length ks" and "\<forall>j. i \<le> j \<and> j < length ks \<longrightarrow> ks ! j \<noteq> None"
  shows "free_slot ks (length ks) i = free_slot ks (length ks) 0"
  using assms
proof (induction "length ks - Suc i" arbitrary: i)
  case 0
  then have "ks ! i \<noteq> None" "i + 1 = length ks" by auto
  then show ?case by (subst free_slot.simps) simp
next
  case (Suc n)
  have step: "ks ! i \<noteq> None" "i + 1 < length ks" using Suc.prems Suc.hyps(2) by auto
  have "free_slot ks (length ks) i = free_slot ks (length ks) (i + 1)"
    by (subst free_slot.simps) (use step in simp)
  also have "\<dots> = free_slot ks (length ks) 0"
    using Suc.prems Suc.hyps step by (intro Suc.hyps(1)) auto
  finally show ?case .
qed

lemma free_slot_ends:
  assumes "None \<in> set ks" and "i < length ks"
  shows "\<exists>r. free_slot ks (length ks) i = Some r \<and> r < length ks \<and> ks ! r = None"
proof (cases "\<exists>j. i \<le> j \<and> j < length ks \<and> ks ! j = None")
  case True
  then show ?thesis using free_slot_ahead by blast
next
  case False
  moreover obtain j where "j < length ks" "ks ! j = None" using assms(1) by (auto simp: in_set_conv_nth)
  ultimately show ?thesis using free_slot_wraps [OF assms(2)] free_slot_ahead [of 0 j ks] by force
qed

subsection \<open>What the operations do to the map\<close>

text \<open>The three ways to change one slot keep the invariant.\<close>

lemma dict_ok_value:
  assumes "dict_ok d" and "i < dict_size d" and "dict_key d ! i = Some k"
  shows "dict_ok (d\<lparr>dict_val := (dict_val d)[i := v]\<rparr>)"
    and "dict_map (d\<lparr>dict_val := (dict_val d)[i := v]\<rparr>) = (dict_map d)(k \<mapsto> v)"
proof -
  show "dict_ok (d\<lparr>dict_val := (dict_val d)[i := v]\<rparr>)" using assms by (simp add: dict_ok_def)
  obtain A B C D where s: "dict_key d = A @ Some k # B" "dict_val d = C @ dict_val d ! i # D"
      "length A = i" "length C = i" "length B = length D" "\<And>x. (dict_val d)[i := x] = C @ x # D"
    using dict_split [OF assms(1,2)] assms(3) by metis
  then have "k \<notin> set (live_keys (A @ B))" using assms(1) by (auto simp: dict_ok_def)
  then have "map_of (slot_entries (A @ Some k # B) (C @ x # D)) = (map_of (slot_entries (A @ B) (C @ D)))(k \<mapsto> x)" for x
    using s(3-5) by (subst slot_map_put) simp_all
  then show "dict_map (d\<lparr>dict_val := (dict_val d)[i := v]\<rparr>) = (dict_map d)(k \<mapsto> v)"
    by (simp add: dict_map_def dict_entries_def s(1,6)) (metis fun_upd_upd s(2))
qed

abbreviation dict_put :: "nat \<Rightarrow> string \<Rightarrow> string option \<Rightarrow> dictionary \<Rightarrow> dictionary" where
  "dict_put i k v d \<equiv> d\<lparr>dict_key := (dict_key d)[i := Some k], dict_val := (dict_val d)[i := v],
     dict_hash := (dict_hash d)[i := dictionary_hash (Some k)], dict_n := dict_n d + 1\<rparr>"

abbreviation dict_clear :: "nat \<Rightarrow> dictionary \<Rightarrow> dictionary" where
  "dict_clear i d \<equiv> d\<lparr>dict_key := (dict_key d)[i := None], dict_val := (dict_val d)[i := None],
     dict_hash := (dict_hash d)[i := 0], dict_n := dict_n d - 1\<rparr>"

lemma dict_ok_put:
  assumes "dict_ok d" and "i < dict_size d" and "dict_key d ! i = None" and "Some k \<notin> set (dict_key d)"
    and "dict_n d < dict_size d"
  shows "dict_ok (dict_put i k v d)" and "dict_map (dict_put i k v d) = (dict_map d)(k \<mapsto> v)" and "dict_exact d \<Longrightarrow> dict_exact (dict_put i k v d)"
proof -
  obtain A B C D where s: "dict_key d = A @ None # B" "dict_val d = C @ dict_val d ! i # D"
      "length A = i" "length C = i" "length B = length D" "\<And>x. (dict_val d)[i := x] = C @ x # D"
      "\<And>x. (dict_key d)[i := x] = A @ x # B"
    using dict_split [OF assms(1,2)] assms(3) by metis
  have k: "k \<notin> set (live_keys A)" "k \<notin> set (live_keys B)" using assms(4) by (auto simp: live_keys_set s(1))
  have m: "dict_map d = map_of (slot_entries (A @ B) (C @ D))"
    unfolding dict_map_def dict_entries_def by (subst s(1), subst s(2)) (simp add: slot_map_free s(3,4))
  show "dict_map (dict_put i k v d) = (dict_map d)(k \<mapsto> v)"
    using k s(3-5) m by (simp add: dict_map_def dict_entries_def s(6,7) slot_map_put)
  have h: "\<forall>j < dict_size d. \<forall>k'. (dict_key d)[i := Some k] ! j = Some k' \<longrightarrow>
      (dict_hash d)[i := dictionary_hash (Some k)] ! j = dictionary_hash (Some k')"
    using assms(1,2) by (auto simp: dict_ok_def nth_list_update)
  have live: "live_keys ((dict_key d)[i := Some k]) = live_keys A @ k # live_keys B"
    by (subst s(7)) simp
  have old: "live_keys (dict_key d) = live_keys A @ live_keys B" by (subst s(1)) simp
  show ok: "dict_ok (dict_put i k v d)" using assms(1,5) h k by (simp add: dict_ok_def live old)
  then show "dict_exact (dict_put i k v d)" if "dict_exact d" using that by (simp add: dict_exact_def live old)
qed

lemma dict_ok_remove:
  assumes "dict_ok d" and "i < dict_size d" and "dict_key d ! i = Some k"
  shows "dict_ok (dict_clear i d)" and "dict_map (dict_clear i d) = (dict_map d)(k := None)" and "dict_exact d \<Longrightarrow> dict_exact (dict_clear i d)"
proof -
  obtain A B C D where s: "dict_key d = A @ Some k # B" "dict_val d = C @ dict_val d ! i # D"
      "length A = i" "length C = i" "length B = length D" "\<And>x. (dict_val d)[i := x] = C @ x # D"
      "\<And>x. (dict_key d)[i := x] = A @ x # B"
    using dict_split [OF assms(1,2)] assms(3) by metis
  have k: "k \<notin> set (live_keys A)" "k \<notin> set (live_keys B)" using assms(1) by (auto simp: dict_ok_def s(1))
  have m: "map_of (slot_entries (A @ B) (C @ D)) k = None"
    using k s(3-5) by (simp add: map_of_eq_None_iff slot_entries_keys flip: list.set_map)
  have "map_of (slot_entries (A @ Some k # B) (C @ dict_val d ! i # D)) =
      (map_of (slot_entries (A @ B) (C @ D)))(k \<mapsto> dict_val d ! i)"
    using k s(3-5) by (subst slot_map_put) simp_all
  then have "(dict_map d)(k := None) = map_of (slot_entries (A @ B) (C @ D))"
    using s(1,2) m by (metis dict_entries_def dict_map_def fun_upd_triv fun_upd_upd)
  then show "dict_map (dict_clear i d) = (dict_map d)(k := None)"
    using s(3,4) by (simp add: dict_map_def dict_entries_def s(6,7) slot_map_free)
  have live: "live_keys ((dict_key d)[i := None]) = live_keys A @ live_keys B"
    by (subst s(7)) simp
  have old: "live_keys (dict_key d) = live_keys A @ k # live_keys B" by (subst s(1)) simp
  have h: "\<forall>j < dict_size d. \<forall>k'. (dict_key d)[i := None] ! j = Some k' \<longrightarrow>
      (dict_hash d)[i := 0] ! j = dictionary_hash (Some k')"
    using assms(1,2) by (auto simp: dict_ok_def nth_list_update split: if_splits)
  show ok: "dict_ok (dict_clear i d)" using assms(1) h by (auto simp: dict_ok_def live old)
  then show "dict_exact (dict_clear i d)" if "dict_exact d" using that by (simp add: dict_exact_def live old)
qed


lemma dict_grown:
  assumes "dict_ok d" and "dictionary_grow g d = Some d'"
  shows "dict_ok d'" and "dict_map d' = dict_map d" and "dict_exact d \<Longrightarrow> dict_exact d'"
    and "set (dict_key d') = insert None (set (dict_key d))" and "dict_n d < dict_size d'" and "dict_n d' = dict_n d"
proof -
  from assms have d': "d' = d\<lparr>dict_size := dict_size d * 2, dict_val := dict_val d @ replicate (dict_size d) None,
      dict_key := dict_key d @ replicate (dict_size d) None, dict_hash := dict_hash d @ replicate (dict_size d) 0\<rparr>"
    by (simp add: dictionary_grow_def split: if_splits)
  show ok: "dict_ok d'" using assms(1) by (auto simp: d' dict_ok_def nth_append)
  show "dict_map d' = dict_map d" using assms(1)
    by (simp add: d' dict_map_def dict_entries_def dict_ok_def slot_entries_append)
  show "dict_exact d'" if "dict_exact d" using ok that by (simp add: d' dict_exact_def)
  show "set (dict_key d') = insert None (set (dict_key d))" "dict_n d < dict_size d'" "dict_n d' = dict_n d"
    using assms(1) by (auto simp: d' dict_ok_def)
qed

text \<open>The three outcomes of \<open>dictionary_set\<close>, for any outcome of the allocations.\<close>

lemma set_found:
  assumes "dict_ok d" and "i < dict_size d" and "dict_key d ! i = Some k"
  shows "dictionary_set m (Some d) (Some k) v =
    Some (0, Some (d\<lparr>dict_val := (dict_val d)[i := xstrdup (val_ok m) v]\<rparr>))"
proof -
  from assms have "Some k \<in> set (dict_key d)" by (metis dict_ok_def nth_mem)
  then have "live_keys (dict_key d) \<noteq> []" using live_keys_set [of "dict_key d"] by auto
  then have "0 < length (live_keys (dict_key d))" by simp
  then have "0 < dict_n d" using assms(1) unfolding dict_ok_def by linarith
  with assms show ?thesis by (simp add: dictionary_set_def dict_find_at)
qed

lemma insert_free:
  assumes "dict_ok d" and "dict_n d < dict_size d"
  obtains i where "i < dict_size d" and "dict_key d ! i = None"
    and "dict_insert m d k v hash = Some (d\<lparr>dict_key := (dict_key d)[i := xstrdup (key_ok m) (Some k)],
       dict_val := (dict_val d)[i := xstrdup (val_ok m) v], dict_hash := (dict_hash d)[i := hash], dict_n := dict_n d + 1\<rparr>)"
proof -
  have "None \<in> set (dict_key d)" "dict_n d < length (dict_key d)"
    using assms length_live_keys_free [of "dict_key d"] by (auto simp: dict_ok_def)
  then obtain r where "free_slot (dict_key d) (length (dict_key d)) (dict_n d) = Some r" "r < length (dict_key d)"
      "dict_key d ! r = None"
    using free_slot_ends by blast
  then show thesis using that [of r] assms by (simp add: dict_insert_def dict_ok_def)
qed

lemma set_absent:
  assumes "dict_ok d" and "Some k \<notin> set (dict_key d)"
  shows "dictionary_set m (Some d) (Some k) v =
     (case if dict_n d = dict_size d then dictionary_grow (grow_ok m) d else Some d of
        None \<Rightarrow> Some (-1, Some d)
      | Some d \<Rightarrow> map_option (\<lambda>d. (0, Some d)) (dict_insert m d k v (dictionary_hash (Some k))))"
  using assms by (simp add: dictionary_set_def dict_find_absent Let_def)

text \<open>A key that could not be duplicated leaves a slot that is counted and not used.\<close>

lemma dict_ok_lost:
  assumes "dict_ok d" and "dict_n d < dict_size d" and "i < dict_size d" and "dict_key d ! i = None"
  defines "d' \<equiv> \<lambda>v h. d\<lparr>dict_key := (dict_key d)[i := None], dict_val := (dict_val d)[i := v],
     dict_hash := (dict_hash d)[i := h], dict_n := dict_n d + 1\<rparr>"
  shows "dict_ok (d' v h)" and "dict_map (d' v h) = dict_map d"
proof -
  have same: "(dict_key d)[i := None] = dict_key d" by (metis assms(4) list_update_id)
  show "dict_ok (d' v h)" using assms(1-4) by (auto simp: d'_def same dict_ok_def nth_list_update)
  obtain A B C D where s: "dict_key d = A @ None # B" "dict_val d = C @ dict_val d ! i # D"
      "length A = i" "length C = i" "length B = length D" "\<And>x. (dict_val d)[i := x] = C @ x # D"
    using dict_split [OF assms(1,3)] assms(4) by metis
  have "slot_entries (dict_key d) (C @ x # D) = slot_entries (A @ B) (C @ D)" for x
    by (subst s(1)) (simp add: slot_map_free s(3,4))
  then have "slot_entries (dict_key d) ((dict_val d)[i := v]) = slot_entries (dict_key d) (dict_val d)"
    by (metis s(2) s(6))
  then show "dict_map (d' v h) = dict_map d" by (simp add: d'_def same dict_map_def dict_entries_def)
qed


lemma dictionary_new_ok: "dict_exact (dictionary_new sz)" "dict_map (dictionary_new sz) = Map.empty"
  by (simp_all add: dictionary_new_def dict_exact_def dict_ok_def DICTMINSZ_def dict_map_def dict_entries_def Let_def)

text \<open>Every call of \<open>dictionary_set\<close> returns, whatever the allocations do.\<close>

lemma dictionary_set_returns:
  assumes "dict_ok d"
  shows "\<exists>r d'. dictionary_set m (Some d) (Some k) v = Some (r, Some d') \<and> dict_ok d' \<and>
    (r = 0 \<or> r = -1 \<and> d' = d \<and> \<not> grow_ok m \<and> dict_n d = dict_size d)"
proof (rule dict_cases [OF assms, of k])
  fix i assume "i < dict_size d" "dict_key d ! i = Some k"
  then show ?thesis using assms by (simp add: set_found dict_ok_value)
next
  assume absent: "Some k \<notin> set (dict_key d)"
  have room: "\<exists>d'. map_option (\<lambda>d. (0 :: int, Some d)) (dict_insert m e k v (dictionary_hash (Some k))) = Some (0, Some d') \<and> dict_ok d'"
    if e: "dict_ok e" "dict_n e < dict_size e" "Some k \<notin> set (dict_key e)" for e
    using dict_ok_put [OF e(1) _ _ e(3,2)] dict_ok_lost [OF e(1,2)]
    by (cases "key_ok m") (rule insert_free [OF e(1,2), where m = m and k = k and v = v]; fastforce simp: xstrdup_def)+
  show ?thesis
  proof (cases "dictionary_grow (grow_ok m) d")
    case None
    then show ?thesis using room [of d] assms absent
      by (auto simp: set_absent dictionary_grow_def dict_ok_def split: if_splits)
  next
    case (Some e)
    then have "dict_ok e" "dict_n e < dict_size e" "Some k \<notin> set (dict_key e)"
      using dict_grown [OF assms Some] absent by auto
    then show ?thesis using room [of e] room [of d] Some assms absent
      by (auto simp: set_absent dict_ok_def)
  qed
qed

lemma dictionary_set_map:
  assumes "dict_exact d" and "grow_ok m" and "key_ok m" and "val_ok m"
  shows "\<exists>d'. dictionary_set m (Some d) (Some k) v = Some (0, Some d') \<and> dict_exact d' \<and>
    dict_map d' = (dict_map d)(k \<mapsto> v)"
proof -
  have ok: "dict_ok d" using assms(1) by (simp add: dict_exact_def)
  show ?thesis
  proof (rule dict_cases [OF ok, of k])
    fix i assume "i < dict_size d" "dict_key d ! i = Some k"
    then show ?thesis using dict_ok_value [OF ok] assms by (simp add: set_found xstrdup_def dict_exact_def)
  next
    assume absent: "Some k \<notin> set (dict_key d)"
    obtain e where e: "dict_exact e" "dict_map e = dict_map d" "Some k \<notin> set (dict_key e)" "dict_n e < dict_size e"
        "(if dict_n d = dict_size d then dictionary_grow (grow_ok m) d else Some d) = Some e"
    proof (cases "dict_n d = dict_size d")
      case True
      obtain e where "dictionary_grow (grow_ok m) d = Some e" using assms(2) by (simp add: dictionary_grow_def)
      with dict_grown [OF ok this] show thesis using that [of e] assms(1) absent True by auto
    next
      case False
      then show thesis using that [of d] assms(1) absent by (simp add: dict_exact_def dict_ok_def)
    qed
    then have "dict_ok e" by (simp add: dict_exact_def)
    then obtain i where i: "i < dict_size e" "dict_key e ! i = None"
        "dict_insert m e k v (dictionary_hash (Some k)) = Some (dict_put i k v e)"
      using insert_free [of e m k v "dictionary_hash (Some k)"] e(4) assms(3,4) by (auto simp: xstrdup_def)
    then show ?thesis
      using dict_ok_put [OF \<open>dict_ok e\<close> i(1,2) e(3,4)] e ok absent by (simp add: set_absent)
  qed
qed

lemma dictionary_unset_map:
  assumes "dict_ok d"
  shows "\<exists>d'. dictionary_unset (Some d) (Some k) = Some d' \<and> dict_ok d' \<and> dict_map d' = (dict_map d)(k := None) \<and>
    (dict_exact d \<longrightarrow> dict_exact d')"
proof (rule dict_cases [OF assms, of k])
  fix i assume i: "i < dict_size d" "dict_key d ! i = Some k"
  then show ?thesis using dict_ok_remove [OF assms i] assms
    by (simp add: dictionary_unset_def dict_find_at)
next
  assume absent: "Some k \<notin> set (dict_key d)"
  then have "(dict_map d)(k := None) = dict_map d" using dict_map_absent [OF assms] by (simp add: fun_upd_idem)
  then show ?thesis using assms absent by (simp add: dictionary_unset_def dict_find_absent)
qed


subsection \<open>The interface of a string map\<close>

text \<open>
  What a client relies on: storing returns 0 and changes the map at the key, deleting removes
  the key. \<open>run_ops\<close> runs a sequence of calls, checking the results.
\<close>

datatype dict_op = Put string "string option" | Del string

fun run_ops ::
  "('d \<Rightarrow> string \<Rightarrow> string option \<Rightarrow> (int \<times> 'd option) option) \<Rightarrow> ('d \<Rightarrow> string \<Rightarrow> 'd option) \<Rightarrow> 'd \<Rightarrow> dict_op list \<Rightarrow> 'd option" where
  "run_ops set_fn del_fn d [] = Some d"
| "run_ops set_fn del_fn d (Put k v # ops) =
     (case set_fn d k v of Some (r, Some d') \<Rightarrow> if r = 0 then run_ops set_fn del_fn d' ops else None | _ \<Rightarrow> None)"
| "run_ops set_fn del_fn d (Del k # ops) =
     (case del_fn d k of Some d' \<Rightarrow> run_ops set_fn del_fn d' ops | None \<Rightarrow> None)"

fun map_op :: "(string \<rightharpoonup> string option) \<Rightarrow> dict_op \<Rightarrow> (string \<rightharpoonup> string option)" where
  "map_op m (Put k v) = m(k \<mapsto> v)"
| "map_op m (Del k) = m(k := None)"

locale string_map =
  fixes abs :: "'d \<Rightarrow> string \<rightharpoonup> string option"
    and ok :: "'d \<Rightarrow> bool"
    and set_fn :: "'d \<Rightarrow> string \<Rightarrow> string option \<Rightarrow> (int \<times> 'd option) option"
    and del_fn :: "'d \<Rightarrow> string \<Rightarrow> 'd option"
  assumes set_law: "ok d \<Longrightarrow> \<exists>d'. set_fn d k v = Some (0, Some d') \<and> ok d' \<and> abs d' = (abs d)(k \<mapsto> v)"
    and del_law: "ok d \<Longrightarrow> \<exists>d'. del_fn d k = Some d' \<and> ok d' \<and> abs d' = (abs d)(k := None)"
begin

lemma run_ops_refines:
  assumes "ok d"
  shows "\<exists>d'. run_ops set_fn del_fn d ops = Some d' \<and> ok d' \<and> abs d' = foldl map_op (abs d) ops"
  using assms
proof (induction ops arbitrary: d)
  case (Cons x ops)
  show ?case
  proof (cases x)
    case (Put k v)
    from set_law [OF Cons.prems, of k v] obtain d' where "set_fn d k v = Some (0, Some d')" "ok d'"
        "abs d' = (abs d)(k \<mapsto> v)" by blast
    with Cons.IH [of d'] Put show ?thesis by (simp del: fun_upd_apply)
  next
    case (Del k)
    from del_law [OF Cons.prems, of k] obtain d' where "del_fn d k = Some d'" "ok d'"
        "abs d' = (abs d)(k := None)" by blast
    with Cons.IH [of d'] Del show ?thesis by (simp del: fun_upd_apply)
  qed
qed simp

lemma set_unchanged:
  assumes "ok d" and "abs d k = Some v"
  shows "\<exists>d'. set_fn d k v = Some (0, Some d') \<and> ok d' \<and> abs d' = abs d"
  using set_law [OF assms(1), of k v] assms(2) by (metis fun_upd_triv)

end

abbreviation mem_ok :: dict_mem where
  "mem_ok \<equiv> \<lparr>grow_ok = True, key_ok = True, val_ok = True\<rparr>"

lemma exact_ok: "dict_exact d \<Longrightarrow> dict_ok d"
  by (simp add: dict_exact_def)

interpretation dict: string_map dict_map dict_exact "\<lambda>d k. dictionary_set mem_ok (Some d) (Some k)"
  "\<lambda>d k. dictionary_unset (Some d) (Some k)"
  using dictionary_set_map [of _ mem_ok] dictionary_unset_map exact_ok by unfold_locales (simp, metis)

abbreviation dict_run :: "dictionary \<Rightarrow> dict_op list \<Rightarrow> dictionary option" where
  "dict_run \<equiv> run_ops (\<lambda>d k. dictionary_set mem_ok (Some d) (Some k)) (\<lambda>d k. dictionary_unset (Some d) (Some k))"

lemma finite_dict_map: "finite (dom (dict_map d))"
  by (simp add: dict_map_def finite_dom_map_of)

lemma dict_exact_card: "dict_exact d \<Longrightarrow> dict_n d = card (dom (dict_map d))"
  by (simp add: dict_exact_def dict_ok_def dict_map_def dict_entries_def dom_map_of_conv_image_fst
      slot_entries_keys distinct_card flip: list.set_map)

subsection \<open>Properties\<close>

text \<open>
  With allocations that all succeed a dictionary is a finite map, and \<open>n\<close> is the number of its
  entries.
\<close>

lemma dictionary_map_mem_ok:
  "\<exists>d. dict_run (dictionary_new sz) ops = Some d \<and> dict_map d = foldl map_op Map.empty ops \<and>
     dict_n d = card (dom (foldl map_op Map.empty ops))"
  using dict.run_ops_refines [OF dictionary_new_ok(1), of sz ops]
  by (auto simp: dictionary_new_ok(2) dict_exact_card)

text \<open>
  Runs in which every allocation succeeds or fails on its own: a call of \<open>dictionary_set\<close> comes with
  the outcomes of its allocations. \<open>dict_calls\<close> collects the returned integers; it is \<open>None\<close> when a
  call does not return.
\<close>

datatype dict_call = Set_Call dict_mem string "string option" | Unset_Call string

fun dict_calls :: "dictionary \<Rightarrow> dict_call list \<Rightarrow> (int list \<times> dictionary) option" where
  "dict_calls d [] = Some ([], d)"
| "dict_calls d (Set_Call mem k v # cs) =
     (case dictionary_set mem (Some d) (Some k) v of
        Some (r, Some d') \<Rightarrow> map_option (\<lambda>(rs, d). (r # rs, d)) (dict_calls d' cs)
      | _ \<Rightarrow> None)"
| "dict_calls d (Unset_Call k # cs) =
     (case dictionary_unset (Some d) (Some k) of Some d' \<Rightarrow> dict_calls d' cs | None \<Rightarrow> None)"

text \<open>
  The specification: a finite map, the counter and the capacity. A value whose duplicate cannot be
  allocated is stored as \<open>NULL\<close>; a new key whose duplicate cannot be allocated is counted, and is not
  in the map; when the counter has reached the capacity, a new key doubles it or is refused.
\<close>

type_synonym dict_spec = "(string \<rightharpoonup> string option) \<times> nat \<times> nat"

fun spec_set :: "dict_mem \<Rightarrow> string \<Rightarrow> string option \<Rightarrow> dict_spec \<Rightarrow> int \<times> dict_spec" where
  "spec_set mem k v (f, n, room) =
     (let stored = (if val_ok mem then v else None)
      in if k \<in> dom f then (0, (f(k \<mapsto> stored), n, room))
         else if n = room \<and> \<not> grow_ok mem then (-1, (f, n, room))
         else (0, (if key_ok mem then f(k \<mapsto> stored) else f, n + 1, if n = room then 2 * room else room)))"

fun spec_unset :: "string \<Rightarrow> dict_spec \<Rightarrow> dict_spec" where
  "spec_unset k (f, n, room) = (if k \<in> dom f then (f(k := None), n - 1, room) else (f, n, room))"

fun spec_calls :: "dict_spec \<Rightarrow> dict_call list \<Rightarrow> int list \<times> dict_spec" where
  "spec_calls a [] = ([], a)"
| "spec_calls a (Set_Call mem k v # cs) =
     (let (r, a) = spec_set mem k v a; (rs, a) = spec_calls a cs in (r # rs, a))"
| "spec_calls a (Unset_Call k # cs) = spec_calls (spec_unset k a) cs"

definition dict_abs :: "dictionary \<Rightarrow> dict_spec" where
  "dict_abs d = (dict_map d, dict_n d, dict_size d)"

lemma dictionary_grow_size: "dictionary_grow g d = Some d' \<Longrightarrow> dict_size d' = 2 * dict_size d"
  by (auto simp: dictionary_grow_def split: if_splits)

lemma dict_insert_spec:
  assumes "dict_ok e" and "dict_n e < dict_size e" and "Some k \<notin> set (dict_key e)"
  shows "\<exists>d'. dict_insert mem e k v (dictionary_hash (Some k)) = Some d' \<and> dict_ok d' \<and>
    dict_map d' = (if key_ok mem then (dict_map e)(k \<mapsto> xstrdup (val_ok mem) v) else dict_map e) \<and>
    dict_n d' = dict_n e + 1 \<and> dict_size d' = dict_size e"
proof -
  obtain i where i: "i < dict_size e" "dict_key e ! i = None"
      "dict_insert mem e k v (dictionary_hash (Some k)) = Some (e\<lparr>dict_key := (dict_key e)[i := xstrdup (key_ok mem) (Some k)],
       dict_val := (dict_val e)[i := xstrdup (val_ok mem) v], dict_hash := (dict_hash e)[i := dictionary_hash (Some k)],
       dict_n := dict_n e + 1\<rparr>)"
    using insert_free [OF assms(1,2)] by blast
  then show ?thesis
    using dict_ok_put [OF assms(1) i(1,2) assms(3,2)] dict_ok_lost [OF assms(1,2) i(1,2)]
    by (auto simp: xstrdup_def)
qed

lemma dictionary_set_spec:
  assumes "dict_ok d"
  shows "\<exists>r d'. dictionary_set mem (Some d) (Some k) v = Some (r, Some d') \<and> dict_ok d' \<and>
    spec_set mem k v (dict_abs d) = (r, dict_abs d')"
proof (rule dict_cases [OF assms, of k])
  fix i assume i: "i < dict_size d" "dict_key d ! i = Some k"
  then have "k \<in> dom (dict_map d)" using dict_map_at [OF assms i] by blast
  then show ?thesis
    using dict_ok_value [OF assms i] set_found [OF assms i] by (simp add: dict_abs_def Let_def xstrdup_def)
next
  assume absent: "Some k \<notin> set (dict_key d)"
  then have new: "k \<notin> dom (dict_map d)" using dict_map_absent [OF assms] by auto
  have bound: "dict_n d \<le> dict_size d" using assms by (simp add: dict_ok_def)
  show ?thesis
  proof (cases "dict_n d = dict_size d \<and> \<not> grow_ok mem")
    case True
    then show ?thesis using new assms by (simp add: set_absent [OF assms absent] dictionary_grow_def dict_abs_def Let_def)
  next
    case False
    obtain e where e: "(if dict_n d = dict_size d then dictionary_grow (grow_ok mem) d else Some d) = Some e"
        "dict_ok e" "dict_map e = dict_map d" "dict_n e = dict_n d" "dict_n e < dict_size e" "Some k \<notin> set (dict_key e)"
        "dict_size e = (if dict_n d = dict_size d then 2 * dict_size d else dict_size d)"
    proof (cases "dict_n d = dict_size d")
      case True
      with False obtain e where e: "dictionary_grow (grow_ok mem) d = Some e" by (simp add: dictionary_grow_def)
      then show thesis
        using dict_grown [OF assms e] that [of e] absent True by (simp add: dictionary_grow_size)
    next
      case False
      then show thesis using that [of d] assms absent bound by simp
    qed
    obtain d' where "dict_insert mem e k v (dictionary_hash (Some k)) = Some d'" "dict_ok d'"
        "dict_map d' = (if key_ok mem then (dict_map e)(k \<mapsto> xstrdup (val_ok mem) v) else dict_map e)"
        "dict_n d' = dict_n e + 1" "dict_size d' = dict_size e"
      using dict_insert_spec [OF e(2,5,6)] by blast
    then show ?thesis
      using e False new by (auto simp: set_absent [OF assms absent] dict_abs_def Let_def xstrdup_def)
  qed
qed

lemma dictionary_unset_spec:
  assumes "dict_ok d"
  shows "\<exists>d'. dictionary_unset (Some d) (Some k) = Some d' \<and> dict_ok d' \<and> spec_unset k (dict_abs d) = dict_abs d'"
proof (rule dict_cases [OF assms, of k])
  fix i assume i: "i < dict_size d" "dict_key d ! i = Some k"
  then have "k \<in> dom (dict_map d)" using dict_map_at [OF assms i] by blast
  then show ?thesis
    using dict_ok_remove [OF assms i] i assms by (simp add: dictionary_unset_def dict_find_at dict_abs_def)
next
  assume absent: "Some k \<notin> set (dict_key d)"
  then have "k \<notin> dom (dict_map d)" using dict_map_absent [OF assms] by auto
  then show ?thesis using assms absent by (simp add: dictionary_unset_def dict_find_absent dict_abs_def)
qed

lemma dict_calls_spec:
  "dict_ok d \<Longrightarrow> \<exists>rs d'. dict_calls d cs = Some (rs, d') \<and> dict_ok d' \<and> spec_calls (dict_abs d) cs = (rs, dict_abs d')"
proof (induction cs arbitrary: d)
  case (Cons c cs)
  show ?case
  proof (cases c)
    case (Set_Call mem k v)
    obtain r d1 where "dictionary_set mem (Some d) (Some k) v = Some (r, Some d1)" "dict_ok d1"
        "spec_set mem k v (dict_abs d) = (r, dict_abs d1)"
      using dictionary_set_spec [OF Cons.prems] by blast
    then show ?thesis using Cons.IH [of d1] Set_Call by auto
  next
    case (Unset_Call k)
    then show ?thesis using dictionary_unset_spec [OF Cons.prems, of k] Cons.IH by fastforce
  qed
qed simp

lemma spec_calls_count:
  "fst (snd (snd (spec_calls a cs))) \<le> fst (snd a) + length cs"
proof (induction cs arbitrary: a)
  case (Cons c cs)
  obtain f n room where a: "a = (f, n, room)" by (cases a)
  show ?case
  proof (cases c)
    case (Set_Call mem k v)
    then show ?thesis
      using Cons.IH [of "snd (spec_set mem k v a)"] by (auto simp: a Let_def split: prod.splits if_splits)
  next
    case (Unset_Call k)
    then show ?thesis using Cons.IH [of "spec_unset k a"] by (auto simp: a split: if_splits)
  qed
qed simp

text \<open>
  C3: a dictionary is a finite map with a counter and a capacity, whatever the allocations of its
  calls do. After \<open>dictionary_new\<close> and any sequence of \<open>dictionary_set\<close> and \<open>dictionary_unset\<close> every
  call has returned, with the results of the specification (0, or -1 exactly for a new key in full
  arrays that cannot grow); \<open>dictionary_get\<close> answers for every key as the map of the specification,
  hash collisions included; a key that was set to \<open>NULL\<close> is in that map, a removed one is not, so the
  two differ although the comment of \<open>dictionary_set\<close> calls them equivalent; and the counter is at
  most the number of calls, so that the \<open>unsigned\<close> of the code cannot wrap in the first \<open>2 ^ 32 - 1\<close>
  of them.
\<close>

theorem dictionary_refines_map:
  "\<exists>rs d f n room. dict_calls (dictionary_new sz) cs = Some (rs, d) \<and>
     spec_calls (Map.empty, 0, max sz 128) cs = (rs, f, n, room) \<and>
     (\<forall>k. dictionary_get (Some d) (Some k) ptr def = (case f k of None \<Rightarrow> def | Some v \<Rightarrow> ptr v)) \<and>
     dict_n d = n \<and> dict_size d = room \<and> dict_n d \<le> length cs"
proof -
  have new: "dict_ok (dictionary_new sz)" "dict_abs (dictionary_new sz) = (Map.empty, 0, max sz 128)"
    using dictionary_new_ok [of sz]
    by (auto simp: exact_ok dict_abs_def dictionary_new_def DICTMINSZ_def Let_def max_def)
  obtain rs d where d: "dict_calls (dictionary_new sz) cs = Some (rs, d)" "dict_ok d"
      "spec_calls (Map.empty, 0, max sz 128) cs = (rs, dict_abs d)"
    using dict_calls_spec [OF new(1), of cs] new(2) by auto
  then have "dict_n d \<le> length cs"
    using spec_calls_count [of "(Map.empty, 0, max sz 128)" cs] by (simp add: dict_abs_def)
  then show ?thesis using d dictionary_get_map [OF d(2)] by (auto simp: dict_abs_def)
qed

text \<open>
  \<open>dictionary_set\<close> always returns: whatever the allocations do, the loop for a free slot
  ends and the invariant of the arrays is kept; the result is -1, with the dictionary
  unchanged, only when the arrays were full and could not be grown.
\<close>

theorem dictionary_set_total:
  assumes "dict_ok d"
  shows "\<exists>r d'. dictionary_set m (Some d) (Some k) v = Some (r, Some d') \<and> dict_ok d' \<and>
    (r = 0 \<or> r = -1 \<and> d' = d \<and> \<not> grow_ok m \<and> dict_n d = dict_size d)"
  using assms by (rule dictionary_set_returns)

theorem dictionary_set_total_witness:
  "\<exists>r d'. dictionary_set \<lparr>grow_ok = False, key_ok = False, val_ok = True\<rparr> (Some (dictionary_new 3)) (Some ''k'') None =
      Some (r, Some d') \<and> dict_ok d' \<and> r = 0"
  using dictionary_set_total [of "dictionary_new 3" "\<lparr>grow_ok = False, key_ok = False, val_ok = True\<rparr>" "''k''" None]
    dictionary_new_ok(1) [of 3] by (auto simp: dict_exact_def dictionary_new_def DICTMINSZ_def)

text \<open>
  When the duplicate of a new key cannot be allocated, \<open>dictionary_set\<close> still counts the
  entry and returns 0, but the key is not stored: a later \<open>dictionary_get\<close> does not find it.
\<close>

theorem dictionary_set_loses_key:
  assumes "dict_ok d" and "dict_n d < dict_size d" and "dict_map d k = None" and "\<not> key_ok m"
  shows "\<exists>d'. dictionary_set m (Some d) (Some k) v = Some (0, Some d') \<and> dict_n d' = dict_n d + 1 \<and>
    dictionary_get (Some d') (Some k) ptr def = def"
proof -
  have absent: "Some k \<notin> set (dict_key d)"
    using assms(1,3) dict_map_at [OF assms(1)] by (auto simp: in_set_conv_nth dict_ok_def)
  obtain i where i: "i < dict_size d" "dict_key d ! i = None"
      "dict_insert m d k v (dictionary_hash (Some k)) = Some (d\<lparr>dict_key := (dict_key d)[i := None],
       dict_val := (dict_val d)[i := xstrdup (val_ok m) v], dict_hash := (dict_hash d)[i := dictionary_hash (Some k)],
       dict_n := dict_n d + 1\<rparr>)"
    using insert_free [OF assms(1,2), of m k v "dictionary_hash (Some k)"] assms(4) by (auto simp: xstrdup_def)
  with dict_ok_lost [OF assms(1,2) i(1,2)] show ?thesis
    using assms absent by (simp add: set_absent dictionary_get_map)
qed

theorem dictionary_set_loses_key_witness:
  "\<exists>d'. dictionary_set \<lparr>grow_ok = True, key_ok = False, val_ok = True\<rparr> (Some (dictionary_new 0)) (Some ''k'') (Some ''v'') =
      Some (0, Some d') \<and> dict_n d' = 1 \<and> dictionary_get (Some d') (Some ''k'') id None = None"
  using dictionary_set_loses_key [of "dictionary_new 0" "''k''" "\<lparr>grow_ok = True, key_ok = False, val_ok = True\<rparr>"
      "Some ''v''" id None] dictionary_new_ok [of 0]
  by (auto simp: dict_exact_def dictionary_new_def DICTMINSZ_def)

text \<open>
  Setting a key to \<open>NULL\<close> is not the same as removing it: afterwards the key is still
  counted and \<open>dictionary_get\<close> returns \<open>NULL\<close>, not the caller's default, which it returns
  after \<open>dictionary_unset\<close>.
\<close>

theorem dictionary_null_is_not_unset:
  assumes "dict_exact d"
  shows "(\<exists>d'. dictionary_set mem_ok (Some d) (Some k) None = Some (0, Some d') \<and>
       dictionary_get (Some d') (Some k) ptr def = ptr None \<and> dict_n d' = card (insert k (dom (dict_map d)))) \<and>
     (\<exists>d'. dictionary_unset (Some d) (Some k) = Some d' \<and>
       dictionary_get (Some d') (Some k) ptr def = def \<and> dict_n d' = card (dom (dict_map d) - {k}))"
  using dict.set_law [OF assms, of k None] dict.del_law [OF assms, of k]
  by (auto simp: dict_exact_card dictionary_get_map exact_ok)

theorem dictionary_null_is_not_unset_witness:
  "\<exists>d'. dictionary_set mem_ok (Some (dictionary_new 0)) (Some ''s'') None = Some (0, Some d') \<and>
     dictionary_get (Some d') (Some ''s'') Inr (Inl ()) = Inr None \<and> dict_n d' = 1"
  using dictionary_null_is_not_unset [of "dictionary_new 0" "''s''" Inr "Inl ()"] dictionary_new_ok [of 0] by auto

end
