(* ===== verification/Iniparser.thy ===== *)
theory Iniparser
  imports Dictionary
begin

text \<open>
  The ini file reader and writer of \<open>iniparser/src/iniparser.c\<close> on top of the dictionary: the
  line parser with its \<open>sscanf\<close> formats, the loader with its line buffer, continuation lines
  and error counts, the getters, and the writer with its escape buffer. Strings are the
  characters before the NUL, in the "C" locale. A write past the end of one of the fixed
  buffers is the result \<open>None\<close> of the writer.
\<close>

definition ASCIILINESZ :: nat where "ASCIILINESZ = 1024"

datatype line_status = LINE_UNPROCESSED | LINE_ERROR | LINE_EMPTY | LINE_COMMENT | LINE_SECTION | LINE_VALUE

abbreviation NL :: char where "NL \<equiv> CHR 0x0A"
abbreviation NUL :: char where "NUL \<equiv> CHR 0x00"
abbreviation BACKSLASH :: char where "BACKSLASH \<equiv> CHR 0x5C"
abbreviation DQUOTE :: char where "DQUOTE \<equiv> CHR 0x22"
abbreviation SQUOTE :: char where "SQUOTE \<equiv> CHR 0x27"

subsection \<open>The C library in the "C" locale\<close>

definition isspace :: "char \<Rightarrow> bool" where
  "isspace c \<longleftrightarrow> c \<in> {CHR 0x09, CHR 0x0A, CHR 0x0B, CHR 0x0C, CHR 0x0D, CHR 0x20}"

definition tolower :: "char \<Rightarrow> char" where
  "tolower c = (if 65 \<le> (of_char c :: nat) \<and> (of_char c :: nat) \<le> 90 then char_of ((of_char c :: nat) + 32) else c)"

text \<open>\<open>%[...]\<close>, a blank and a literal character in a \<open>sscanf\<close> format.\<close>

definition scan_set :: "(char \<Rightarrow> bool) \<Rightarrow> string \<Rightarrow> (string \<times> string) option" where
  "scan_set P s = (if takeWhile P s = [] then None else Some (takeWhile P s, dropWhile P s))"

definition scan_ws :: "string \<Rightarrow> string" where
  "scan_ws s = dropWhile isspace s"

definition scan_lit :: "char \<Rightarrow> string \<Rightarrow> string option" where
  "scan_lit c s = (case s of [] \<Rightarrow> None | x # xs \<Rightarrow> if x = c then Some xs else None)"

text \<open>
  The formats \<open>%[^=]<directives>%[<set>]\<close>: the number of conversions, and the two buffers,
  of which a conversion that fails leaves its own unchanged.
\<close>

definition sscanf_kv ::
  "(string \<Rightarrow> string option) \<Rightarrow> (char \<Rightarrow> bool) \<Rightarrow> string \<Rightarrow> string \<Rightarrow> string \<Rightarrow> int \<times> string \<times> string" where
  "sscanf_kv mid P line key val =
     (case scan_set (\<lambda>c. c \<noteq> CHR ''='') line of
        None \<Rightarrow> (if line = [] then -1 else 0, key, val)
      | Some (k, rest) \<Rightarrow>
          (case Option.bind (mid rest) (scan_set P) of
             None \<Rightarrow> (1, k, val)
           | Some (v, _) \<Rightarrow> (2, k, v)))"

definition scan_eq :: "string \<Rightarrow> string option" where
  "scan_eq s = map_option scan_ws (scan_lit CHR ''='' (scan_ws s))"

definition sscanf_quoted :: "char \<Rightarrow> string \<Rightarrow> string \<Rightarrow> string \<Rightarrow> int \<times> string \<times> string" where
  "sscanf_quoted q = sscanf_kv (\<lambda>s. Option.bind (scan_eq s) (scan_lit q)) (\<lambda>c. c \<noteq> NL)"

definition sscanf_plain :: "string \<Rightarrow> string \<Rightarrow> string \<Rightarrow> int \<times> string \<times> string" where
  "sscanf_plain = sscanf_kv scan_eq (\<lambda>c. c \<notin> {CHR '';'', CHR ''#''})"

definition sscanf_comment :: "string \<Rightarrow> string \<Rightarrow> string \<Rightarrow> int \<times> string \<times> string" where
  "sscanf_comment = sscanf_kv scan_eq (\<lambda>c. c \<in> {CHR '';'', CHR ''#''})"

definition sscanf_bare :: "string \<Rightarrow> string \<Rightarrow> string \<Rightarrow> int \<times> string \<times> string" where
  "sscanf_bare = sscanf_kv (\<lambda>s. Some (scan_ws s)) (\<lambda>c. c = CHR ''='')"

subsection \<open>String helpers\<close>

fun strlwc_loop :: "string \<Rightarrow> nat \<Rightarrow> string" where
  "strlwc_loop (c # s) (Suc room) = tolower c # strlwc_loop s room"
| "strlwc_loop _ _ = []"

definition strlwc :: "string option \<Rightarrow> nat \<Rightarrow> string option" where
  "strlwc s len = (case s of None \<Rightarrow> None
     | Some s \<Rightarrow> if len = 0 then None else Some (strlwc_loop s (len - 1)))"

definition rstrip :: "string \<Rightarrow> string" where
  "rstrip s = rev (dropWhile isspace (rev s))"

definition strstrip :: "string \<Rightarrow> string" where
  "strstrip s = rstrip (dropWhile isspace s)"

fun escape_loop :: "string \<Rightarrow> string" where
  "escape_loop [] = []"
| "escape_loop (c # s) = (if c = BACKSLASH \<or> c = DQUOTE then [BACKSLASH, c] else [c]) @ escape_loop s"

text \<open>The buffer keeps its old contents when there is no value.\<close>

definition escape_value :: "string \<Rightarrow> string option \<Rightarrow> string" where
  "escape_value escaped val = (case val of None \<Rightarrow> escaped | Some v \<Rightarrow> escape_loop v)"

fun quoted_loop :: "char \<Rightarrow> bool \<Rightarrow> string \<Rightarrow> string" where
  "quoted_loop quote esc [] = []"
| "quoted_loop quote True (c # s) = c # quoted_loop quote False s"
| "quoted_loop quote False (c # s) =
     (if c = BACKSLASH then quoted_loop quote True s
      else if c = quote then [] else c # quoted_loop quote False s)"

definition parse_quoted_value :: "bool \<Rightarrow> string \<Rightarrow> char \<Rightarrow> string" where
  "parse_quoted_value ok val quote = (if ok then quoted_loop quote False val else [])"

subsection \<open>One line\<close>

record ini_mem = dict_mem +
  line_ok :: bool
  quoted_ok :: bool

record ini_buffers =
  ini_section :: string
  ini_key :: string
  ini_value :: string

definition ini_section_line :: "string \<Rightarrow> string \<Rightarrow> string" where
  "ini_section_line line section =
     (let section = (case Option.bind (scan_lit CHR ''['' line) (scan_set (\<lambda>c. c \<noteq> NL)) of
            Some (s, _) \<Rightarrow> s | None \<Rightarrow> section);
          len = length section;
          section = (if section \<noteq> [] \<and> last section = CHR '']'' then butlast section else section);
          section = strstrip section
      in case strlwc (Some section) len of Some s \<Rightarrow> s | None \<Rightarrow> section)"

definition ini_key_of :: "string \<Rightarrow> nat \<Rightarrow> string" where
  "ini_key_of key len = (let key = strstrip key in case strlwc (Some key) len of Some s \<Rightarrow> s | None \<Rightarrow> key)"

definition iniparser_line :: "ini_mem \<Rightarrow> string \<Rightarrow> ini_buffers \<Rightarrow> line_status \<times> ini_buffers" where
  "iniparser_line m input_line b =
     (let line = (case xstrdup (line_ok m) (Some input_line) of None \<Rightarrow> [] | Some s \<Rightarrow> strstrip s);
          len = length line
      in if len < 1 then (LINE_EMPTY, b)
         else if line ! 0 = CHR ''#'' \<or> line ! 0 = CHR '';'' then (LINE_COMMENT, b)
         else if line ! 0 = CHR ''['' \<and> line ! (len - 1) = CHR '']''
         then (LINE_SECTION, b\<lparr>ini_section := ini_section_line line (ini_section b)\<rparr>)
         else
           let (d_quote, key, val) = sscanf_quoted DQUOTE line (ini_key b) (ini_value b);
               (s_quote, key, val) = (if d_quote = 2 then (2, key, val) else sscanf_quoted SQUOTE line key val)
           in if s_quote = 2
              then (LINE_VALUE, b\<lparr>ini_key := ini_key_of key len,
                     ini_value := parse_quoted_value (quoted_ok m) val (if d_quote = 2 then DQUOTE else SQUOTE)\<rparr>)
              else
                let (n, key, val) = sscanf_plain line key val
                in if n = 2
                   then (LINE_VALUE, b\<lparr>ini_key := ini_key_of key len,
                          ini_value := (let v = strstrip val
                            in if v = [DQUOTE, DQUOTE] \<or> v = [SQUOTE, SQUOTE] then [] else v)\<rparr>)
                   else
                     let (n, key, val) = sscanf_comment line key val;
                         (n, key, val) = (if n = 2 then (n, key, val) else sscanf_bare line key val)
                     in if n = 2 then (LINE_VALUE, b\<lparr>ini_key := ini_key_of key len, ini_value := []\<rparr>)
                        else (LINE_ERROR, b\<lparr>ini_key := key, ini_value := val\<rparr>))"

subsection \<open>Loading a file\<close>

text \<open>\<open>fgets\<close> with a buffer of \<open>n\<close> bytes: the characters read, the rest of the file, end of file met.\<close>

fun fgets_chars :: "nat \<Rightarrow> string \<Rightarrow> string \<times> string" where
  "fgets_chars (Suc n) (c # s) =
     (if c = NL then ([c], s) else let (a, r) = fgets_chars n s in (c # a, r))"
| "fgets_chars _ s = ([], s)"

definition fgets :: "nat \<Rightarrow> string \<Rightarrow> (string \<times> string \<times> bool) option" where
  "fgets n input =
     (if n = 0 then None
      else if n = 1 then Some ([], input, False)
      else if input = [] then None
      else let (a, r) = fgets_chars (n - 1) input
           in Some (a, r, r = [] \<and> length a < n - 1 \<and> last a \<noteq> NL))"

datatype load_msg = Cannot_Open string | Too_Long nat | Syntax_Error nat string | Mem_Failure

record load_state =
  ld_dict :: dictionary
  ld_buf :: ini_buffers
  ld_line :: string
  ld_last :: nat
  ld_lineno :: nat
  ld_errs :: nat
  ld_log :: "load_msg list"

datatype load_step = Next load_state | Break load_state | Abort load_state

text \<open>The part of the loop body behind the line assembly, with the switch on the line status.\<close>

definition load_parse :: "ini_mem \<Rightarrow> load_state \<Rightarrow> load_step option" where
  "load_parse m st =
     (let (status, b) = iniparser_line m (ld_line st) (ld_buf st);
          st = st\<lparr>ld_buf := b\<rparr>;
          done = (\<lambda>mem_err st. let st = st\<lparr>ld_line := [], ld_last := 0\<rparr>
             in if mem_err < (0 :: int) then Break (st\<lparr>ld_log := ld_log st @ [Mem_Failure]\<rparr>) else Next st);
          store = (\<lambda>key val. case dictionary_set (dict_mem.truncate m) (Some (ld_dict st)) (Some key) val of
                Some (r, Some d) \<Rightarrow> Some (done r (st\<lparr>ld_dict := d\<rparr>))
              | _ \<Rightarrow> None)
      in case status of
           LINE_SECTION \<Rightarrow> store (ini_section b) None
         | LINE_VALUE \<Rightarrow> store (ini_section b @ '':'' @ ini_key b) (Some (ini_value b))
         | LINE_ERROR \<Rightarrow> Some (done 0 (st\<lparr>ld_log := ld_log st @ [Syntax_Error (ld_lineno st) (ld_line st)],
                                          ld_errs := ld_errs st + 1\<rparr>))
         | _ \<Rightarrow> Some (done 0 st))"

definition load_chunk :: "ini_mem \<Rightarrow> string \<Rightarrow> bool \<Rightarrow> load_state \<Rightarrow> load_step option" where
  "load_chunk m chunk eof st =
     (let line = takeWhile (\<lambda>c. c \<noteq> NUL) (take (ld_last st) (ld_line st) @ chunk);
          st = st\<lparr>ld_lineno := ld_lineno st + 1, ld_line := line\<rparr>;
          len = int (length line) - 1
      in if len \<le> 0 then Some (Next st)
         else if last line \<noteq> NL \<and> \<not> eof
         then Some (Abort (st\<lparr>ld_log := ld_log st @ [Too_Long (ld_lineno st)]\<rparr>))
         else
           let line = rstrip line
           in if line \<noteq> [] \<and> last line = BACKSLASH
              then Some (Next (st\<lparr>ld_line := line, ld_last := length line - 1\<rparr>))
              else load_parse m (st\<lparr>ld_line := line, ld_last := 0\<rparr>))"

text \<open>The loop over the file; the allocations of line \<open>n\<close> have the outcome \<open>mem n\<close>.\<close>

partial_function (option) load_loop :: "(nat \<Rightarrow> ini_mem) \<Rightarrow> string \<Rightarrow> load_state \<Rightarrow> load_step option" where
  "load_loop mem input st =
     (case fgets (ASCIILINESZ - ld_last st) input of
        None \<Rightarrow> Some (Break st)
      | Some (chunk, rest, eof) \<Rightarrow>
          Option.bind (load_chunk (mem (ld_lineno st + 1)) chunk eof st)
            (\<lambda>r. case r of Next st' \<Rightarrow> load_loop mem rest st' | _ \<Rightarrow> Some r))"

definition load_start :: load_state where
  "load_start = \<lparr>ld_dict = dictionary_new 0, ld_buf = \<lparr>ini_section = [], ini_key = [], ini_value = []\<rparr>,
     ld_line = [], ld_last = 0, ld_lineno = 0, ld_errs = 0, ld_log = []\<rparr>"

definition iniparser_load_file :: "(nat \<Rightarrow> ini_mem) \<Rightarrow> string \<Rightarrow> (dictionary option \<times> load_msg list) option" where
  "iniparser_load_file mem input =
     map_option (\<lambda>r. case r of
          Abort st \<Rightarrow> (None, ld_log st)
        | Next st \<Rightarrow> (None, ld_log st)
        | Break st \<Rightarrow> (if ld_errs st > 0 then None else Some (ld_dict st), ld_log st))
       (load_loop mem input load_start)"


text \<open>\<open>iniparser_load\<close>: the file system is an argument.\<close>

definition iniparser_load ::
  "(string \<Rightarrow> string option) \<Rightarrow> (nat \<Rightarrow> ini_mem) \<Rightarrow> string \<Rightarrow> (dictionary option \<times> load_msg list) option" where
  "iniparser_load files mem ininame = (case files ininame of
     None \<Rightarrow> Some (None, [Cannot_Open ininame])
   | Some input \<Rightarrow> iniparser_load_file mem input)"

subsection \<open>Getters\<close>

text \<open>The pointers that a getter returns: \<open>INI_INVALID_KEY\<close> is \<open>(char*)-1\<close>.\<close>

datatype char_ptr = Null | INI_INVALID_KEY | Chars string

definition ptr_of :: "string option \<Rightarrow> char_ptr" where
  "ptr_of s = (case s of None \<Rightarrow> Null | Some s \<Rightarrow> Chars s)"

definition iniparser_getstring :: "dictionary option \<Rightarrow> string option \<Rightarrow> char_ptr \<Rightarrow> char_ptr" where
  "iniparser_getstring d key def =
     (if d = None \<or> key = None then def
      else dictionary_get d (strlwc key (ASCIILINESZ + 1)) ptr_of def)"

definition iniparser_find_entry :: "dictionary option \<Rightarrow> string option \<Rightarrow> int" where
  "iniparser_find_entry ini entry =
     (if iniparser_getstring ini entry INI_INVALID_KEY \<noteq> INI_INVALID_KEY then 1 else 0)"

definition iniparser_getboolean :: "dictionary option \<Rightarrow> string option \<Rightarrow> int \<Rightarrow> int" where
  "iniparser_getboolean d key notfound =
     (case iniparser_getstring d key INI_INVALID_KEY of
        Chars c \<Rightarrow>
          (if c \<noteq> [] \<and> hd c \<in> {CHR ''y'', CHR ''Y'', CHR ''1'', CHR ''t'', CHR ''T''} then 1
           else if c \<noteq> [] \<and> hd c \<in> {CHR ''n'', CHR ''N'', CHR ''0'', CHR ''f'', CHR ''F''} then 0
           else notfound)
      | _ \<Rightarrow> notfound)"

text \<open>\<open>strtol(str, NULL, 0)\<close> for a signed type of \<open>w\<close> bits: blanks, a sign, a prefix, digits, saturation.\<close>

definition digit_value :: "char \<Rightarrow> nat" where
  "digit_value c = (let n = (of_char c :: nat) in
     if 48 \<le> n \<and> n \<le> 57 then n - 48 else if 97 \<le> n \<and> n \<le> 122 then n - 87
     else if 65 \<le> n \<and> n \<le> 90 then n - 55 else 99)"

fun strtol_digits :: "nat \<Rightarrow> string \<Rightarrow> int \<Rightarrow> int" where
  "strtol_digits base [] acc = acc"
| "strtol_digits base (c # s) acc =
     (if digit_value c < base then strtol_digits base s (acc * int base + int (digit_value c)) else acc)"

definition strtol_value :: "string \<Rightarrow> int" where
  "strtol_value s =
     (let s = scan_ws s;
          neg = (s \<noteq> [] \<and> hd s = CHR ''-'');
          s = (if s \<noteq> [] \<and> hd s \<in> {CHR ''-'', CHR ''+''} then tl s else s);
          n = (if take 1 s = ''0''
               then (if length s > 2 \<and> s ! 1 \<in> {CHR ''x'', CHR ''X''} \<and> digit_value (s ! 2) < 16
                     then strtol_digits 16 (drop 2 s) 0 else strtol_digits 8 s 0)
               else strtol_digits 10 s 0)
      in if neg then - n else n)"

definition strtol :: "nat \<Rightarrow> string \<Rightarrow> int" where
  "strtol w s = max (- (2 ^ (w - 1))) (min (2 ^ (w - 1) - 1) (strtol_value s))"

definition strtoumax :: "string \<Rightarrow> u64" where
  "strtoumax s = (let n = strtol_value s in if \<bar>n\<bar> \<ge> 2 ^ 64 then - 1 else of_int n)"

text \<open>\<open>long\<close> has \<open>w\<close> bits: 32 or 64 by the build.\<close>

definition iniparser_getlongint :: "nat \<Rightarrow> dictionary option \<Rightarrow> string option \<Rightarrow> int \<Rightarrow> int" where
  "iniparser_getlongint w d key notfound =
     (case iniparser_getstring d key INI_INVALID_KEY of Chars str \<Rightarrow> strtol w str | _ \<Rightarrow> notfound)"

definition iniparser_getint64 :: "dictionary option \<Rightarrow> string option \<Rightarrow> int \<Rightarrow> int" where
  "iniparser_getint64 d key notfound =
     (case iniparser_getstring d key INI_INVALID_KEY of Chars str \<Rightarrow> strtol 64 str | _ \<Rightarrow> notfound)"

definition iniparser_getuint64 :: "dictionary option \<Rightarrow> string option \<Rightarrow> u64 \<Rightarrow> u64" where
  "iniparser_getuint64 d key notfound =
     (case iniparser_getstring d key INI_INVALID_KEY of Chars str \<Rightarrow> strtoumax str | _ \<Rightarrow> notfound)"

definition iniparser_getint :: "nat \<Rightarrow> dictionary option \<Rightarrow> string option \<Rightarrow> int \<Rightarrow> int" where
  "iniparser_getint w d key notfound = signed_take_bit 31 (iniparser_getlongint w d key notfound)"

definition iniparser_set ::
  "dict_mem \<Rightarrow> dictionary option \<Rightarrow> string option \<Rightarrow> string option \<Rightarrow> (int \<times> dictionary option) option" where
  "iniparser_set m ini entry val =
     dictionary_set m ini (strlwc entry (ASCIILINESZ + 1)) (map_option (take ASCIILINESZ) val)"

definition iniparser_unset :: "dictionary option \<Rightarrow> string option \<Rightarrow> dictionary option" where
  "iniparser_unset ini entry = dictionary_unset ini (strlwc entry (ASCIILINESZ + 1))"

subsection \<open>Sections and the writer\<close>

text \<open>The loops over the slots of a dictionary.\<close>

fun nsec_loop :: "string option list \<Rightarrow> int \<Rightarrow> int" where
  "nsec_loop [] nsec = nsec"
| "nsec_loop (None # ks) nsec = nsec_loop ks nsec"
| "nsec_loop (Some k # ks) nsec = nsec_loop ks (if CHR '':'' \<in> set k then nsec else nsec + 1)"

definition iniparser_getnsec :: "dictionary option \<Rightarrow> int" where
  "iniparser_getnsec d = (case d of None \<Rightarrow> -1 | Some d \<Rightarrow> nsec_loop (take (dict_size d) (dict_key d)) 0)"

fun secname_loop :: "int \<Rightarrow> string option list \<Rightarrow> int \<Rightarrow> string option" where
  "secname_loop n [] found = None"
| "secname_loop n (None # ks) found = secname_loop n ks found"
| "secname_loop n (Some k # ks) found =
     (if CHR '':'' \<in> set k then secname_loop n ks found
      else if found + 1 > n then Some k else secname_loop n ks (found + 1))"

definition iniparser_getsecname :: "dictionary option \<Rightarrow> int \<Rightarrow> string option" where
  "iniparser_getsecname d n = (case d of None \<Rightarrow> None
     | Some d \<Rightarrow> if n < 0 then None else secname_loop n (take (dict_size d) (dict_key d)) 0)"

definition iniparser_dump :: "dictionary option \<Rightarrow> string" where
  "iniparser_dump d = (case d of None \<Rightarrow> []
     | Some d \<Rightarrow> concat (map (\<lambda>i. case dict_key d ! i of None \<Rightarrow> []
          | Some k \<Rightarrow> (case dict_val d ! i of
                Some v \<Rightarrow> ''['' @ k @ '']=['' @ v @ '']'' @ [NL]
              | None \<Rightarrow> ''['' @ k @ '']=UNDEF'' @ [NL])) [0..<dict_size d]))"

definition pad_right :: "nat \<Rightarrow> string \<Rightarrow> string" where
  "pad_right w s = s @ replicate (w - length s) CHR 0x20"

text \<open>
  The keys of a section with the escape buffer threaded through; \<open>None\<close> when an escaped value
  and its NUL do not fit in the buffer.
\<close>

fun dump_keys :: "(string \<Rightarrow> string option) \<Rightarrow> string \<Rightarrow> (string option \<times> string option) list \<Rightarrow> string option" where
  "dump_keys name escaped [] = Some []"
| "dump_keys name escaped ((None, v) # kvs) = dump_keys name escaped kvs"
| "dump_keys name escaped ((Some k, v) # kvs) =
     (case name k of
        None \<Rightarrow> dump_keys name escaped kvs
      | Some out \<Rightarrow>
          (let escaped = escape_value escaped v
           in if length escaped + 1 > ASCIILINESZ * 2 + 2 then None
              else map_option (\<lambda>rest. out @ '' = '' @ [DQUOTE] @ escaped @ [DQUOTE, NL] @ rest)
                     (dump_keys name escaped kvs)))"

definition dict_slots :: "dictionary \<Rightarrow> (string option \<times> string option) list" where
  "dict_slots d = map (\<lambda>i. (dict_key d ! i, dict_val d ! i)) [0..<dict_size d]"

text \<open>
  \<open>iniparser_dumpsection_ini\<close>: the text printed; \<open>None\<close> when \<open>sprintf\<close> writes past the end of
  \<open>keym\<close> or the escape buffer overflows.
\<close>

definition iniparser_dumpsection_ini :: "dictionary option \<Rightarrow> string \<Rightarrow> string option" where
  "iniparser_dumpsection_ini d s = (case d of None \<Rightarrow> Some []
     | Some dict \<Rightarrow>
         if iniparser_find_entry d (Some s) = 0 then Some []
         else if length s > ASCIILINESZ + 1 then Some []
         else if length s + 2 > ASCIILINESZ + 1 then None
         else
           let keym = s @ '':'';
               seclen = length s
           in map_option (\<lambda>body. [NL] @ ''['' @ s @ '']'' @ [NL] @ body @ [NL])
                (dump_keys (\<lambda>k. if take (seclen + 1) k = keym then Some (pad_right 30 (drop (seclen + 1) k)) else None)
                   [] (dict_slots dict)))"

fun dump_sections :: "dictionary option \<Rightarrow> nat \<Rightarrow> nat \<Rightarrow> string option" where
  "dump_sections d i 0 = Some []"
| "dump_sections d i (Suc n) =
     Option.bind (Option.bind (iniparser_getsecname d (int i)) (iniparser_dumpsection_ini d))
       (\<lambda>out. map_option (\<lambda>rest. out @ rest) (dump_sections d (i + 1) n))"

definition iniparser_dump_ini :: "dictionary option \<Rightarrow> string option" where
  "iniparser_dump_ini d = (case d of None \<Rightarrow> Some []
     | Some dict \<Rightarrow>
         (let nsec = iniparser_getnsec d
          in if nsec < 1 then dump_keys Some [] (dict_slots dict)
             else map_option (\<lambda>out. out @ [NL]) (dump_sections d 0 (nat nsec))))"

text \<open>
  The keys of a section: \<open>keym\<close> is the lower case name with the colon at index \<open>seclen\<close>, which
  is outside the buffer for a name longer than the buffer (\<open>None\<close>).
\<close>

definition seckeys :: "dictionary \<Rightarrow> string \<Rightarrow> string list" where
  "seckeys d s = filter (\<lambda>k. take (length s + 1) k = map tolower s @ '':'') (live_keys (dict_key d))"

definition iniparser_getsecnkeys :: "dictionary option \<Rightarrow> string \<Rightarrow> nat option" where
  "iniparser_getsecnkeys d s = (case d of None \<Rightarrow> Some 0
     | Some dict \<Rightarrow>
         if iniparser_find_entry d (Some s) = 0 then Some 0
         else if length s > ASCIILINESZ then None
         else Some (length (seckeys dict s)))"

definition iniparser_getseckeys :: "dictionary option \<Rightarrow> string \<Rightarrow> string list option option" where
  "iniparser_getseckeys d s = (case d of None \<Rightarrow> Some None
     | Some dict \<Rightarrow>
         if iniparser_find_entry d (Some s) = 0 then Some None
         else if length s > ASCIILINESZ then None
         else Some (Some (seckeys dict s)))"


subsection \<open>Blanks\<close>

lemma isspace_NL [simp]: "isspace NL"
  by (simp add: isspace_def)

lemma rstrip_append [simp]: "isspace c \<Longrightarrow> rstrip (s @ [c]) = rstrip s"
  by (simp add: rstrip_def)

lemma rstrip_keep: "s \<noteq> [] \<Longrightarrow> \<not> isspace (last s) \<Longrightarrow> rstrip s = s"
  by (cases s rule: rev_cases) (simp_all add: rstrip_def)

lemma length_rstrip: "length (rstrip s) \<le> length s"
  using length_dropWhile_le [of isspace "rev s"] by (simp add: rstrip_def)

lemma rstrip_dropWhile: "rstrip (dropWhile isspace (rstrip s)) = rstrip (dropWhile isspace s)"
proof (induction s rule: rev_induct)
  case (snoc c s)
  show ?case
  proof (cases "isspace c")
    case True
    then show ?thesis using snoc by (simp add: dropWhile_append3 dropWhile_append)
      (metis dropWhile_eq_Nil_conv rstrip_append)
  next
    case False
    then show ?thesis by (simp add: rstrip_keep)
  qed
qed (simp add: rstrip_def)

lemma strstrip_rstrip: "strstrip (rstrip s) = strstrip s"
  by (simp add: strstrip_def rstrip_dropWhile)

lemma iniparser_line_rstrip: "iniparser_line m (rstrip l) b = iniparser_line m l b"
  by (simp add: iniparser_line_def xstrdup_def strstrip_rstrip)

subsection \<open>The loader always returns\<close>

lemma fgets_chars_split:
  "fgets_chars n s = (a, r) \<Longrightarrow> s = a @ r \<and> length a \<le> n \<and> (0 < n \<and> s \<noteq> [] \<longrightarrow> a \<noteq> [])"
  by (induction n s arbitrary: a r rule: fgets_chars.induct) (auto split: if_splits prod.splits)

lemma load_parse_returns:
  assumes "dict_ok (ld_dict st)"
  shows "\<exists>r. load_parse m st = Some r \<and> (\<forall>st'. r = Next st' \<longrightarrow> dict_ok (ld_dict st') \<and> ld_last st' = 0)"
proof -
  obtain status b where line: "iniparser_line m (ld_line st) (ld_buf st) = (status, b)" by force
  have store: "\<exists>r d. dictionary_set (dict_mem.truncate m) (Some (ld_dict st)) (Some k) v = Some (r, Some d) \<and> dict_ok d" for k v
    using dictionary_set_returns [OF assms] by blast
  show ?thesis
  proof (cases status)
    case LINE_SECTION
    obtain r d where "dictionary_set (dict_mem.truncate m) (Some (ld_dict st)) (Some (ini_section b)) None = Some (r, Some d)"
        "dict_ok d"
      using store by blast
    then show ?thesis using LINE_SECTION by (cases "r < 0") (simp_all add: load_parse_def line Let_def)
  next
    case LINE_VALUE
    obtain r d where "dictionary_set (dict_mem.truncate m) (Some (ld_dict st))
          (Some (ini_section b @ '':'' @ ini_key b)) (Some (ini_value b)) = Some (r, Some d)" "dict_ok d"
      using store by blast
    then show ?thesis using LINE_VALUE by (cases "r < 0") (simp_all add: load_parse_def line Let_def)
  qed (use assms in \<open>simp_all add: load_parse_def line Let_def\<close>)
qed

text \<open>The line buffer has room for at least two more characters whenever \<open>fgets\<close> is called.\<close>

definition load_inv :: "load_state \<Rightarrow> bool" where
  "load_inv st \<longleftrightarrow> dict_ok (ld_dict st) \<and> ld_last st + 3 \<le> ASCIILINESZ"

lemma load_chunk_returns:
  assumes inv: "load_inv st" and read: "fgets (ASCIILINESZ - ld_last st) input = Some (chunk, rest, eof)"
  shows "\<exists>r. load_chunk m chunk eof st = Some r \<and> (\<forall>st'. r = Next st' \<longrightarrow> load_inv st')"
proof -
  define line where "line = takeWhile (\<lambda>c. c \<noteq> NUL) (take (ld_last st) (ld_line st) @ chunk)"
  have len: "length line \<le> ld_last st + length chunk"
    using length_takeWhile_le [of "\<lambda>c. c \<noteq> NUL" "take (ld_last st) (ld_line st) @ chunk"] by (simp add: line_def)
  have chunk: "length chunk \<le> ASCIILINESZ - ld_last st - 1"
      "eof \<Longrightarrow> length chunk < ASCIILINESZ - ld_last st - 1"
    using read inv by (auto simp: fgets_def Let_def load_inv_def split: if_splits prod.splits dest: fgets_chars_split)
  have next_last: "length (rstrip line) - 1 + 3 \<le> ASCIILINESZ" if "last line = NL \<or> eof" "line \<noteq> []"
  proof (cases eof)
    case True
    then show ?thesis using chunk(2) len length_rstrip [of line] inv unfolding load_inv_def by arith
  next
    case False
    then have "line = butlast line @ [NL]" using that by (metis append_butlast_last_id)
    then have "rstrip line = rstrip (butlast line)" by (metis isspace_NL rstrip_append)
    then have "length (rstrip line) \<le> length line - 1" using length_rstrip [of "butlast line"] by simp
    then show ?thesis using chunk(1) len inv unfolding load_inv_def by arith
  qed
  have ch: "load_chunk m chunk eof st =
      (let st = st\<lparr>ld_lineno := ld_lineno st + 1, ld_line := line\<rparr>
       in if int (length line) - 1 \<le> 0 then Some (Next st)
          else if last line \<noteq> NL \<and> \<not> eof then Some (Abort (st\<lparr>ld_log := ld_log st @ [Too_Long (ld_lineno st)]\<rparr>))
          else if rstrip line \<noteq> [] \<and> last (rstrip line) = BACKSLASH
          then Some (Next (st\<lparr>ld_line := rstrip line, ld_last := length (rstrip line) - 1\<rparr>))
          else load_parse m (st\<lparr>ld_line := rstrip line, ld_last := 0\<rparr>))"
    by (simp add: load_chunk_def line_def Let_def)
  consider "length line \<le> 1" | "1 < length line" "last line \<noteq> NL \<and> \<not> eof"
    | "1 < length line" "last line = NL \<or> eof" "rstrip line \<noteq> [] \<and> last (rstrip line) = BACKSLASH"
    | "1 < length line" "last line = NL \<or> eof" "\<not> (rstrip line \<noteq> [] \<and> last (rstrip line) = BACKSLASH)"
    by linarith
  then show ?thesis
  proof cases
    case 1
    then show ?thesis using inv by (simp add: ch load_inv_def Let_def)
  next
    case 2
    then show ?thesis unfolding ch by (simp add: Let_def)
  next
    case 3
    then have "line \<noteq> []" by auto
    with 3 next_last inv show ?thesis by (auto simp: ch load_inv_def Let_def)
  next
    case 4
    define st1 where "st1 = st\<lparr>ld_lineno := ld_lineno st + 1, ld_line := rstrip line, ld_last := 0\<rparr>"
    have "load_chunk m chunk eof st = load_parse m st1" using 4 by (auto simp: ch Let_def st1_def)
    moreover have "dict_ok (ld_dict st1)" using inv by (simp add: st1_def load_inv_def)
    ultimately show ?thesis using load_parse_returns [of st1 m]
      by (auto simp: load_inv_def ASCIILINESZ_def)
  qed
qed

lemma load_loop_returns: "load_inv st \<Longrightarrow> \<exists>r. load_loop mem input st = Some r"
proof (induction "length input" arbitrary: input st rule: less_induct)
  case less
  show ?case
  proof (cases "fgets (ASCIILINESZ - ld_last st) input")
    case None
    then show ?thesis by (subst load_loop.simps) simp
  next
    case (Some t)
    then obtain chunk rest eof where read: "fgets (ASCIILINESZ - ld_last st) input = Some (chunk, rest, eof)"
      by (cases t) auto
    then have shorter: "length rest < length input"
      using less.prems by (auto simp: fgets_def Let_def load_inv_def split: if_splits prod.splits dest: fgets_chars_split)
    obtain r where r: "load_chunk (mem (ld_lineno st + 1)) chunk eof st = Some r" "\<forall>st'. r = Next st' \<longrightarrow> load_inv st'"
      using load_chunk_returns [OF less.prems read] by blast
    show ?thesis
      using less.hyps [OF shorter] r by (subst load_loop.simps) (auto simp: read split: load_step.split)
  qed
qed


subsection \<open>The loader as a map of lines to updates\<close>

abbreviation all_ok :: ini_mem where
  "all_ok \<equiv> \<lparr>grow_ok = True, key_ok = True, val_ok = True, line_ok = True, quoted_ok = True\<rparr>"

definition ini_text :: "string list \<Rightarrow> string" where
  "ini_text ls = concat (map (\<lambda>l. l @ [NL]) ls)"

lemma ini_text_simps [simp]: "ini_text [] = []" "ini_text (l # ls) = l @ NL # ini_text ls"
    "ini_text (ls @ ls') = ini_text ls @ ini_text ls'"
  by (simp_all add: ini_text_def)

text \<open>What a list of lines does: the updates of the map, and the number of lines with an error.\<close>

fun ini_ops :: "ini_buffers \<Rightarrow> string list \<Rightarrow> dict_op list" where
  "ini_ops b [] = []"
| "ini_ops b (l # ls) =
     (let (status, b) = iniparser_line all_ok l b
      in (case status of
            LINE_SECTION \<Rightarrow> [Put (ini_section b) None]
          | LINE_VALUE \<Rightarrow> [Put (ini_section b @ '':'' @ ini_key b) (Some (ini_value b))]
          | _ \<Rightarrow> []) @ ini_ops b ls)"

fun ini_errs :: "ini_buffers \<Rightarrow> string list \<Rightarrow> nat" where
  "ini_errs b [] = 0"
| "ini_errs b (l # ls) =
     (let (status, b) = iniparser_line all_ok l b
      in (if status = LINE_ERROR then 1 else 0) + ini_errs b ls)"

definition plain_line :: "string \<Rightarrow> bool" where
  "plain_line l \<longleftrightarrow> NL \<notin> set l \<and> NUL \<notin> set l \<and> length l \<le> 1022 \<and> (rstrip l = [] \<or> last (rstrip l) \<noteq> BACKSLASH)"

lemma fgets_chars_line:
  "NL \<notin> set l \<Longrightarrow> length l < n \<Longrightarrow> fgets_chars n (l @ NL # rest) = (l @ [NL], rest)"
proof (induction l arbitrary: n)
  case Nil
  then show ?case by (cases n) simp_all
next
  case (Cons c l)
  then show ?case by (cases n) auto
qed

lemma iniparser_line_nil: "iniparser_line m [] b = (LINE_EMPTY, b)"
  by (simp add: iniparser_line_def xstrdup_def strstrip_def rstrip_def)

lemma load_chunk_line:
  assumes "plain_line l" and "ld_last st = 0"
  shows "load_chunk m (l @ [NL]) False st =
    (let st = st\<lparr>ld_lineno := ld_lineno st + 1\<rparr>
     in if l = [] then Some (Next (st\<lparr>ld_line := [NL]\<rparr>)) else load_parse m (st\<lparr>ld_line := rstrip l, ld_last := 0\<rparr>))"
proof -
  have "takeWhile (\<lambda>c. c \<noteq> NUL) (l @ [NL]) = l @ [NL]"
    using assms(1) by (auto simp: plain_line_def takeWhile_eq_all_conv)
  then show ?thesis using assms by (auto simp: load_chunk_def Let_def plain_line_def)
qed

lemma load_parse_step:
  assumes "dict_exact (ld_dict st)" and "iniparser_line all_ok (ld_line st) (ld_buf st) = (status, b)"
  shows "\<exists>st'. load_parse all_ok st = Some (Next st') \<and> dict_exact (ld_dict st') \<and> ld_last st' = 0 \<and> ld_buf st' = b \<and>
     dict_map (ld_dict st') = foldl map_op (dict_map (ld_dict st)) (case status of
            LINE_SECTION \<Rightarrow> [Put (ini_section b) None]
          | LINE_VALUE \<Rightarrow> [Put (ini_section b @ '':'' @ ini_key b) (Some (ini_value b))]
          | _ \<Rightarrow> []) \<and>
     ld_errs st' = ld_errs st + (if status = LINE_ERROR then 1 else 0)"
proof (cases status)
  case LINE_SECTION
  obtain d where "dictionary_set mem_ok (Some (ld_dict st)) (Some (ini_section b)) None = Some (0, Some d)"
      "dict_exact d" "dict_map d = (dict_map (ld_dict st))(ini_section b \<mapsto> None)"
    using dict.set_law [OF assms(1)] by blast
  then show ?thesis using assms(2) LINE_SECTION by (simp add: load_parse_def Let_def dict_mem.truncate_def)
next
  case LINE_VALUE
  obtain d where "dictionary_set mem_ok (Some (ld_dict st)) (Some (ini_section b @ '':'' @ ini_key b)) (Some (ini_value b))
        = Some (0, Some d)" "dict_exact d"
      "dict_map d = (dict_map (ld_dict st))(ini_section b @ '':'' @ ini_key b \<mapsto> Some (ini_value b))"
    using dict.set_law [OF assms(1)] by blast
  then show ?thesis using assms(2) LINE_VALUE by (simp add: load_parse_def Let_def dict_mem.truncate_def)
qed (use assms in \<open>simp_all add: load_parse_def Let_def\<close>)

lemma load_loop_lines:
  assumes "\<forall>l \<in> set ls. plain_line l" and "dict_exact (ld_dict st)" and "ld_last st = 0"
  shows "\<exists>st'. load_loop (\<lambda>_. all_ok) (ini_text ls) st = Some (Break st') \<and> dict_exact (ld_dict st') \<and>
     dict_map (ld_dict st') = foldl map_op (dict_map (ld_dict st)) (ini_ops (ld_buf st) ls) \<and>
     ld_errs st' = ld_errs st + ini_errs (ld_buf st) ls"
  using assms
proof (induction ls arbitrary: st)
  case Nil
  then show ?case by (subst load_loop.simps) (simp add: fgets_def ASCIILINESZ_def)
next
  case (Cons l ls)
  have plain: "plain_line l" "\<forall>l \<in> set ls. plain_line l" using Cons.prems by simp_all
  have "fgets (ASCIILINESZ - ld_last st) (ini_text (l # ls)) = Some (l @ [NL], ini_text ls, False)"
    using plain(1) Cons.prems by (simp add: fgets_def ASCIILINESZ_def plain_line_def fgets_chars_line)
  then have step: "load_loop (\<lambda>_. all_ok) (ini_text (l # ls)) st =
      Option.bind (load_chunk all_ok (l @ [NL]) False st)
        (\<lambda>r. case r of Next st' \<Rightarrow> load_loop (\<lambda>_. all_ok) (ini_text ls) st' | _ \<Rightarrow> Some r)"
    by (subst load_loop.simps) simp
  show ?case
  proof (cases "l = []")
    case True
    define st1 where "st1 = st\<lparr>ld_lineno := ld_lineno st + 1, ld_line := [NL]\<rparr>"
    have e: "load_loop (\<lambda>_. all_ok) (ini_text (l # ls)) st = load_loop (\<lambda>_. all_ok) (ini_text ls) st1"
      unfolding step load_chunk_line [OF plain(1) Cons.prems(3)] by (simp add: True st1_def)
    show ?thesis unfolding e using Cons.IH [OF plain(2), of st1] Cons.prems True
      by (simp add: st1_def iniparser_line_nil)
  next
    case False
    obtain status b where line: "iniparser_line all_ok l (ld_buf st) = (status, b)" by force
    define st1 where "st1 = st\<lparr>ld_lineno := ld_lineno st + 1, ld_line := rstrip l, ld_last := 0\<rparr>"
    have "dict_exact (ld_dict st1)" "iniparser_line all_ok (ld_line st1) (ld_buf st1) = (status, b)"
      using Cons.prems line by (simp_all add: st1_def iniparser_line_rstrip)
    from load_parse_step [OF this] obtain st2 where st2: "load_parse all_ok st1 = Some (Next st2)" "dict_exact (ld_dict st2)"
        "ld_last st2 = 0" "ld_buf st2 = b" "dict_map (ld_dict st2) = foldl map_op (dict_map (ld_dict st)) (case status of
            LINE_SECTION \<Rightarrow> [Put (ini_section b) None]
          | LINE_VALUE \<Rightarrow> [Put (ini_section b @ '':'' @ ini_key b) (Some (ini_value b))]
          | _ \<Rightarrow> [])" "ld_errs st2 = ld_errs st + (if status = LINE_ERROR then 1 else 0)"
      by (auto simp: st1_def)
    then have "load_chunk all_ok (l @ [NL]) False st = Some (Next st2)"
      using False by (simp add: load_chunk_line [OF plain(1) Cons.prems(3)] st1_def)
    then have e: "load_loop (\<lambda>_. all_ok) (ini_text (l # ls)) st = load_loop (\<lambda>_. all_ok) (ini_text ls) st2"
      unfolding step by simp
    show ?thesis unfolding e using Cons.IH [OF plain(2) st2(2,3)] by (cases status) (simp_all add: line st2(4-6) del: fun_upd_apply)
  qed
qed


subsection \<open>Reading back what the writer prints\<close>

lemma quoted_escape: "quoted_loop DQUOTE False (escape_loop v @ DQUOTE # rest) = v"
  by (induction v) auto

lemma set_escape: "set (escape_loop v) \<subseteq> insert BACKSLASH (set v)" "set v \<subseteq> set (escape_loop v)"
  by (induction v) auto

lemma strlwc_loop_map: "length s \<le> n \<Longrightarrow> strlwc_loop s n = map tolower s"
proof (induction s arbitrary: n)
  case (Cons c s)
  then show ?case by (cases n) simp_all
qed simp

definition lower :: "string \<Rightarrow> bool" where
  "lower s \<longleftrightarrow> map tolower s = s"

definition stripped :: "string \<Rightarrow> bool" where
  "stripped s \<longleftrightarrow> (s \<noteq> [] \<longrightarrow> \<not> isspace (hd s) \<and> \<not> isspace (last s))"

lemma strstrip_stripped: "stripped s \<Longrightarrow> strstrip s = s"
proof (cases s)
  case (Cons c s')
  assume "stripped s"
  with Cons have "dropWhile isspace s = s" "rstrip s = s" by (simp_all add: stripped_def rstrip_keep)
  then show ?thesis by (simp add: strstrip_def)
qed (simp add: strstrip_def rstrip_def)

lemma rstrip_blanks: "rstrip (s @ replicate n CHR 0x20) = rstrip s"
proof (induction n)
  case (Suc n)
  have "rstrip ((s @ replicate n CHR 0x20) @ [CHR 0x20]) = rstrip (s @ replicate n CHR 0x20)"
    by (rule rstrip_append) (simp add: isspace_def)
  with Suc show ?case by (simp add: replicate_append_same)
qed simp

lemma strstrip_blanks:
  assumes "stripped s" and "s \<noteq> []"
  shows "strstrip (s @ replicate n CHR 0x20) = s"
proof -
  have "dropWhile isspace (s @ replicate n CHR 0x20) = s @ replicate n CHR 0x20"
    using assms by (cases s) (simp_all add: stripped_def)
  then show ?thesis using assms by (simp add: strstrip_def rstrip_blanks rstrip_keep stripped_def)
qed

text \<open>A key that a line can hold: not empty, no blanks around it, lower case, no \<open>=\<close>, not a comment.\<close>

definition ini_key_ok :: "string \<Rightarrow> bool" where
  "ini_key_ok k \<longleftrightarrow> k \<noteq> [] \<and> stripped k \<and> lower k \<and> CHR ''='' \<notin> set k \<and> NL \<notin> set k \<and> NUL \<notin> set k \<and>
     hd k \<noteq> CHR ''#'' \<and> hd k \<noteq> CHR '';''"

definition ini_value_ok :: "string \<Rightarrow> bool" where
  "ini_value_ok v \<longleftrightarrow> NL \<notin> set v \<and> NUL \<notin> set v"

definition value_line :: "string \<Rightarrow> string \<Rightarrow> string" where
  "value_line out v = out @ '' = '' @ [DQUOTE] @ escape_loop v @ [DQUOTE]"

lemma value_line_read:
  assumes "ini_key_ok k" and "ini_value_ok v"
  shows "iniparser_line all_ok (value_line (pad_right n k) v) b = (LINE_VALUE, b\<lparr>ini_key := k, ini_value := v\<rparr>)"
proof -
  define m where "m = n - length k"
  define line where "line = value_line (pad_right n k) v"
  have line: "line = (k @ replicate (Suc m) CHR 0x20) @ CHR ''='' # CHR '' '' # DQUOTE # escape_loop v @ [DQUOTE]"
    by (simp add: line_def value_line_def pad_right_def m_def replicate_append_same flip: replicate_Suc)
  obtain c k' where k: "k = c # k'" "c \<noteq> CHR ''#''" "c \<noteq> CHR '';''" "\<not> isspace c"
    using assms(1) by (cases k) (auto simp: ini_key_ok_def stripped_def)
  have ends: "line \<noteq> []" "line ! 0 = c" "last line = DQUOTE" by (simp_all add: line k(1))
  then have strip: "strstrip line = line"
    using k by (intro strstrip_stripped) (auto simp: stripped_def hd_conv_nth isspace_def)
  have last: "line ! (length line - 1) = DQUOTE" using ends by (simp add: last_conv_nth)
  have key: "takeWhile (\<lambda>c. c \<noteq> CHR ''='') line = k @ replicate (Suc m) CHR 0x20"
     "dropWhile (\<lambda>c. c \<noteq> CHR ''='') line = CHR ''='' # CHR '' '' # DQUOTE # escape_loop v @ [DQUOTE]"
    unfolding line using assms(1) by (subst takeWhile_append2 dropWhile_append2; force simp: ini_key_ok_def)+
  have val: "takeWhile (\<lambda>c. c \<noteq> NL) (escape_loop v @ [DQUOTE]) = escape_loop v @ [DQUOTE]"
    using assms(2) set_escape(1) [of v] by (auto simp: takeWhile_eq_all_conv ini_value_ok_def)
  have scan: "sscanf_quoted DQUOTE line x y = (2, k @ replicate (Suc m) CHR 0x20, escape_loop v @ [DQUOTE])" for x y
    using val by (simp add: sscanf_quoted_def sscanf_kv_def scan_set_def key k(1) scan_eq_def scan_ws_def scan_lit_def isspace_def)
  have "length k \<le> length line - 1" by (simp add: line)
  then have "ini_key_of (k @ replicate (Suc m) CHR 0x20) (length line) = k"
    using assms(1) k(1) ends(1) strstrip_blanks [of k "Suc m"]
    by (simp add: ini_key_of_def strlwc_def strlwc_loop_map ini_key_ok_def lower_def del: replicate_Suc)
  then have "iniparser_line all_ok line b = (LINE_VALUE, b\<lparr>ini_key := k, ini_value := v\<rparr>)"
    using ends last k(2-4) quoted_escape [of v "[]"]
    by (simp add: iniparser_line_def xstrdup_def strip scan parse_quoted_value_def Let_def del: replicate_Suc)
  then show ?thesis by (simp add: line_def)
qed

definition section_ok :: "string \<Rightarrow> bool" where
  "section_ok s \<longleftrightarrow> stripped s \<and> lower s \<and> NL \<notin> set s \<and> NUL \<notin> set s \<and> CHR '':'' \<notin> set s"

lemma section_line_read:
  assumes "section_ok s"
  shows "iniparser_line all_ok (''['' @ s @ '']'') b = (LINE_SECTION, b\<lparr>ini_section := s\<rparr>)"
proof -
  have strip: "strstrip (''['' @ s @ '']'') = ''['' @ s @ '']''"
    by (rule strstrip_stripped) (simp add: stripped_def isspace_def)
  have "takeWhile (\<lambda>c. c \<noteq> NL) (s @ '']'') = s @ '']''"
    using assms by (auto simp: takeWhile_eq_all_conv section_ok_def)
  then have "ini_section_line (''['' @ s @ '']'') x = s" for x
    using assms strstrip_stripped [of s]
    by (simp add: ini_section_line_def scan_lit_def scan_set_def section_ok_def strlwc_def strlwc_loop_map lower_def butlast_append)
  then show ?thesis using strip by (simp add: iniparser_line_def xstrdup_def nth_append)
qed


subsection \<open>The writer prints lines\<close>

definition is_section :: "string \<Rightarrow> bool" where
  "is_section k \<longleftrightarrow> CHR '':'' \<notin> set k"

definition in_section :: "string \<Rightarrow> string \<Rightarrow> bool" where
  "in_section s k \<longleftrightarrow> take (length s + 1) k = s @ '':''"

definition section_names :: "dictionary \<Rightarrow> string list" where
  "section_names d = filter is_section (map fst (dict_entries d))"

lemma section_names_live: "dict_ok d \<Longrightarrow> section_names d = filter is_section (live_keys (dict_key d))"
  by (simp add: section_names_def dict_entries_def slot_entries_keys dict_ok_def)

lemma nsec_loop_names: "nsec_loop ks n = n + int (length (filter is_section (live_keys ks)))"
  by (induction ks n rule: nsec_loop.induct) (auto simp: is_section_def)

lemma secname_loop_names:
  assumes "i < length (filter is_section (live_keys ks))"
  shows "secname_loop (f + int i) ks f = Some (filter is_section (live_keys ks) ! i)"
  using assms
proof (induction ks arbitrary: i f)
  case (Cons k ks)
  show ?case
  proof (cases k)
    case None
    with Cons show ?thesis by simp
  next
    case (Some key)
    show ?thesis
    proof (cases "is_section key")
      case False
      with Some Cons show ?thesis by (simp add: is_section_def)
    next
      case True
      then show ?thesis
      proof (cases i)
        case (Suc j)
        with Some True Cons.IH [of j "f + 1"] Cons.prems show ?thesis
          by (simp add: is_section_def algebra_simps)
      qed (use Some True in \<open>simp add: is_section_def\<close>)
    qed
  qed
qed simp

lemma iniparser_sections:
  assumes "dict_ok d"
  shows "iniparser_getnsec (Some d) = int (length (section_names d))"
    and "i < length (section_names d) \<Longrightarrow> iniparser_getsecname (Some d) (int i) = Some (section_names d ! i)"
  using assms secname_loop_names [of i "dict_key d" 0]
  by (simp_all add: iniparser_getnsec_def iniparser_getsecname_def nsec_loop_names section_names_live dict_ok_def)

lemma dump_sections_names:
  assumes "dict_ok d" and "i + n \<le> length (section_names d)"
    and "\<forall>s \<in> set (section_names d). iniparser_dumpsection_ini (Some d) s = Some (ini_text (f s))"
  shows "dump_sections (Some d) i n = Some (ini_text (concat (map f (take n (drop i (section_names d))))))"
  using assms(2)
proof (induction n arbitrary: i)
  case (Suc n)
  then have "take (Suc n) (drop i (section_names d)) = section_names d ! i # take n (drop (i + 1) (section_names d))"
    by (simp add: Cons_nth_drop_Suc [symmetric])
  then show ?case using Suc assms(1,3) iniparser_sections(2) [OF assms(1)] by simp
qed simp

text \<open>The entries of a dictionary that the file format can hold.\<close>

definition ini_dict :: "dictionary \<Rightarrow> bool" where
  "ini_dict d \<longleftrightarrow> dict_exact d \<and> (\<forall>(key, v) \<in> set (dict_entries d).
     case v of
       None \<Rightarrow> section_ok key \<and> length key \<le> 1020
     | Some val \<Rightarrow> (\<exists>s k. key = s @ '':'' @ k \<and> (s, None) \<in> set (dict_entries d) \<and> ini_key_ok k \<and> ini_value_ok val \<and>
           length (value_line (pad_right 30 k) val) \<le> 1022))"

definition section_lines :: "dictionary \<Rightarrow> string \<Rightarrow> string list" where
  "section_lines d s =
     [[], ''['' @ s @ '']''] @
     map (\<lambda>(key, v). value_line (pad_right 30 (drop (length s + 1) key)) (the v))
       (filter (\<lambda>(key, v). in_section s key) (dict_entries d)) @ [[]]"

lemma dict_slots_zip: "dict_ok d \<Longrightarrow> dict_slots d = zip (dict_key d) (dict_val d)"
  by (auto simp: dict_slots_def dict_ok_def intro!: nth_equalityI)

lemma dump_keys_lines:
  assumes "length ks = length vs"
    and "\<forall>(key, v) \<in> set (slot_entries ks vs). P key \<longrightarrow> (\<exists>val. v = Some val \<and> length (escape_loop val) \<le> 2049)"
  shows "dump_keys (\<lambda>k. if P k then Some (f k) else None) e (zip ks vs) =
    Some (ini_text (map (\<lambda>(key, v). value_line (f key) (the v)) (filter (\<lambda>(key, v). P key) (slot_entries ks vs))))"
  using assms
proof (induction ks vs arbitrary: e rule: list_induct2)
  case (Cons k ks v vs)
  then show ?case by (cases k) (auto simp: escape_value_def ASCIILINESZ_def value_line_def Let_def)
qed simp

lemma ini_dict_section:
  assumes "ini_dict d" and "s \<in> set (section_names d)"
  shows "section_ok s \<and> length s \<le> 1020 \<and> (s, None) \<in> set (dict_entries d)"
proof -
  obtain v where "(s, v) \<in> set (dict_entries d)" "is_section s" using assms(2) by (auto simp: section_names_def)
  with assms(1) show ?thesis by (cases v) (fastforce simp: ini_dict_def is_section_def)+
qed

lemma in_section_iff: "take (Suc (length s)) k = s @ '':'' \<longleftrightarrow> in_section s k"
  by (simp add: in_section_def)

lemma in_section_key: "in_section s k \<Longrightarrow> k = s @ '':'' @ drop (length s + 1) k"
  by (metis append.assoc append_take_drop_id in_section_def)

lemma colon_split:
  assumes "a @ CHR '':'' # b = c @ CHR '':'' # d" and "CHR '':'' \<notin> set a" and "CHR '':'' \<notin> set c"
  shows "b = d"
proof -
  have "dropWhile (\<lambda>x. x \<noteq> CHR '':'') (a @ CHR '':'' # b) = CHR '':'' # b"
       "dropWhile (\<lambda>x. x \<noteq> CHR '':'') (c @ CHR '':'' # d) = CHR '':'' # d"
    using assms(2,3) by (subst dropWhile_append2; force)+
  then show ?thesis using assms(1) by simp
qed

lemma ini_dict_value:
  assumes "ini_dict d" and "(key, v) \<in> set (dict_entries d)" and "in_section s key" and "section_ok s"
  shows "\<exists>val. v = Some val \<and> ini_key_ok (drop (length s + 1) key) \<and> ini_value_ok val \<and>
     length (value_line (pad_right 30 (drop (length s + 1) key)) val) \<le> 1022"
proof -
  have key: "key = s @ CHR '':'' # drop (length s + 1) key" using in_section_key [OF assms(3)] by simp
  then have colon: "CHR '':'' \<in> set key" by (metis in_set_conv_decomp)
  show ?thesis
  proof (cases v)
    case None
    then show ?thesis using assms(1,2) colon by (fastforce simp: ini_dict_def section_ok_def)
  next
    case (Some val)
    with assms(1,2) obtain s' k where e: "key = s' @ CHR '':'' # k" "(s', None) \<in> set (dict_entries d)" "ini_key_ok k" "ini_value_ok val"
        "length (value_line (pad_right 30 k) val) \<le> 1022"
      by (fastforce simp: ini_dict_def)
    then have "CHR '':'' \<notin> set s'" using assms(1) by (fastforce simp: ini_dict_def section_ok_def)
    moreover have "CHR '':'' \<notin> set s" using assms(4) by (simp add: section_ok_def)
    ultimately have "k = drop (length s + 1) key"
      using e(1) key colon_split by metis
    with e Some show ?thesis by simp
  qed
qed


lemma dict_map_entry: "dict_ok d \<Longrightarrow> dict_map d k = Some v \<longleftrightarrow> (k, v) \<in> set (dict_entries d)"
  by (simp add: dict_map_def dict_entries_def dict_ok_def slot_entries_keys map_of_eq_Some_iff)

lemma dumpsection_lines:
  assumes "ini_dict d" and "s \<in> set (section_names d)"
  shows "iniparser_dumpsection_ini (Some d) s = Some (ini_text (section_lines d s))"
proof -
  have ok: "dict_ok d" using assms(1) by (simp add: ini_dict_def exact_ok)
  note sec = ini_dict_section [OF assms]
  have "strlwc (Some s) (ASCIILINESZ + 1) = Some s"
    using sec by (simp add: strlwc_def strlwc_loop_map ASCIILINESZ_def section_ok_def lower_def)
  then have found: "iniparser_find_entry (Some d) (Some s) = 1"
    using sec ok dict_map_entry [OF ok, of s None]
    by (simp add: iniparser_find_entry_def iniparser_getstring_def dictionary_get_map ptr_of_def)
  have fits: "\<forall>(key, v) \<in> set (slot_entries (dict_key d) (dict_val d)). in_section s key \<longrightarrow>
      (\<exists>val. v = Some val \<and> length (escape_loop val) \<le> 2049)"
  proof (clarify)
    fix key v assume "(key, v) \<in> set (slot_entries (dict_key d) (dict_val d))" "in_section s key"
    then obtain val where "v = Some val" "length (value_line (pad_right 30 (drop (length s + 1) key)) val) \<le> 1022"
      using ini_dict_value [OF assms(1)] sec by (fastforce simp: dict_entries_def)
    then show "\<exists>val. v = Some val \<and> length (escape_loop val) \<le> 2049" by (simp add: value_line_def)
  qed
  have "length (dict_key d) = length (dict_val d)" using ok by (simp add: dict_ok_def)
  note body = dump_keys_lines [OF this fits, of "\<lambda>k. pad_right 30 (drop (length s + 1) k)" "[]"]
  have small: "\<not> length s > ASCIILINESZ + 1" "\<not> length s + 2 > ASCIILINESZ + 1"
    using sec by (simp_all add: ASCIILINESZ_def)
  show ?thesis
    using found small body
    by (simp add: iniparser_dumpsection_ini_def Let_def in_section_iff dict_slots_zip [OF ok]
        section_lines_def dict_entries_def)
qed

definition dump_lines :: "dictionary \<Rightarrow> string list" where
  "dump_lines d = concat (map (section_lines d) (section_names d)) @ (if section_names d = [] then [] else [[]])"

lemma dump_ini_lines:
  assumes "ini_dict d"
  shows "iniparser_dump_ini (Some d) = Some (ini_text (dump_lines d))"
proof -
  have ok: "dict_ok d" using assms by (simp add: ini_dict_def exact_ok)
  show ?thesis
  proof (cases "section_names d = []")
    case True
    have "set (dict_entries d) = {}"
    proof (rule ccontr)
      assume "set (dict_entries d) \<noteq> {}"
      then obtain key v where e: "(key, v) \<in> set (dict_entries d)" by (cases "dict_entries d") auto
      then obtain k where "(k, None) \<in> set (dict_entries d)"
        using assms by (cases v) (fastforce simp: ini_dict_def)+
      moreover from this have "is_section k"
        using assms by (fastforce simp: ini_dict_def section_ok_def is_section_def)
      ultimately show False using True by (force simp: section_names_def filter_empty_conv)
    qed
    then have "slot_entries (dict_key d) (dict_val d) = []" by (simp add: dict_entries_def)
    moreover have "length (dict_key d) = length (dict_val d)" using ok by (simp add: dict_ok_def)
    ultimately have "dump_keys Some [] (dict_slots d) = Some []"
      using dump_keys_lines [of "dict_key d" "dict_val d" "\<lambda>_. True" "\<lambda>k. k" "[]"] by (simp add: dict_slots_zip [OF ok])
    then show ?thesis using True ok by (simp add: iniparser_dump_ini_def iniparser_sections dump_lines_def)
  next
    case False
    have "dump_sections (Some d) 0 (length (section_names d)) =
        Some (ini_text (concat (map (section_lines d) (section_names d))))"
      using dump_sections_names [OF ok, of 0 "length (section_names d)" "section_lines d"] dumpsection_lines [OF assms] by simp
    then show ?thesis using False ok
      by (simp add: iniparser_dump_ini_def iniparser_sections dump_lines_def Suc_le_eq)
  qed
qed

text \<open>Reading the lines stores the entries again.\<close>

abbreviation put :: "string \<times> string option \<Rightarrow> dict_op" where
  "put \<equiv> \<lambda>(key, v). Put key v"

definition section_entries :: "dictionary \<Rightarrow> string \<Rightarrow> (string \<times> string option) list" where
  "section_entries d s = (s, None) # filter (\<lambda>(key, v). in_section s key) (dict_entries d)"

lemma value_lines_ops:
  assumes "\<forall>(key, v) \<in> set es. in_section s key \<and> (\<exists>val. v = Some val \<and> ini_key_ok (drop (length s + 1) key) \<and> ini_value_ok val)"
    and "ini_section b = s"
  shows "\<exists>b'. ini_section b' = s \<and>
     ini_ops b (map (\<lambda>(key, v). value_line (pad_right 30 (drop (length s + 1) key)) (the v)) es @ ls) =
       map put es @ ini_ops b' ls \<and>
     ini_errs b (map (\<lambda>(key, v). value_line (pad_right 30 (drop (length s + 1) key)) (the v)) es @ ls) = ini_errs b' ls"
  using assms
proof (induction es arbitrary: b)
  case Nil
  then show ?case by auto
next
  case (Cons e es)
  obtain key val where e: "e = (key, Some val)" "in_section s key" "ini_key_ok (drop (length s + 1) key)" "ini_value_ok val"
    using Cons.prems(1) by (cases e) auto
  define b1 where "b1 = b\<lparr>ini_key := drop (length s + 1) key, ini_value := val\<rparr>"
  have b1: "ini_section b1 = s" using Cons.prems(2) by (simp add: b1_def)
  have key: "s @ CHR '':'' # drop (Suc (length s)) key = key" using in_section_key [OF e(2)] by simp
  have read: "iniparser_line all_ok (value_line (pad_right 30 (drop (length s + 1) key)) val) b = (LINE_VALUE, b1)"
    using value_line_read [OF e(3,4)] by (simp add: b1_def)
  have "ini_key b1 = drop (Suc (length s)) key" "ini_value b1 = val" by (simp_all add: b1_def)
  then have step: "ini_ops b (value_line (pad_right 30 (drop (length s + 1) key)) val # rest) = Put key (Some val) # ini_ops b1 rest"
     "ini_errs b (value_line (pad_right 30 (drop (length s + 1) key)) val # rest) = ini_errs b1 rest" for rest
    by (simp_all only: ini_ops.simps ini_errs.simps read) (simp_all add: b1 key)
  show ?case using Cons.IH [OF _ b1] Cons.prems(1) step by (simp add: e(1))
qed

lemma section_lines_ops:
  assumes "ini_dict d" and "s \<in> set (section_names d)"
  shows "\<exists>b'. ini_ops b (section_lines d s @ ls) = map put (section_entries d s) @ ini_ops b' ls \<and>
     ini_errs b (section_lines d s @ ls) = ini_errs b' ls"
proof -
  note sec = ini_dict_section [OF assms]
  define b1 where "b1 = b\<lparr>ini_section := s\<rparr>"
  have b1: "ini_section b1 = s" by (simp add: b1_def)
  have "\<forall>(key, v) \<in> set (filter (\<lambda>(key, v). in_section s key) (dict_entries d)). in_section s key \<and>
      (\<exists>val. v = Some val \<and> ini_key_ok (drop (length s + 1) key) \<and> ini_value_ok val)"
    using ini_dict_value [OF assms(1)] sec by fastforce
  from value_lines_ops [OF this b1, of "[] # ls"] section_line_read [of s b] sec show ?thesis
    by (auto simp: section_lines_def section_entries_def iniparser_line_nil b1_def [symmetric] b1)
qed

lemma dump_lines_ops:
  assumes "ini_dict d" and "set ss \<subseteq> set (section_names d)"
  shows "ini_ops b (concat (map (section_lines d) ss) @ (if e then [] else [[]])) =
      map put (concat (map (section_entries d) ss)) \<and>
    ini_errs b (concat (map (section_lines d) ss) @ (if e then [] else [[]])) = 0"
  using assms(2)
proof (induction ss arbitrary: b)
  case Nil
  then show ?case by (simp add: iniparser_line_nil)
next
  case (Cons s ss)
  then obtain b' where "ini_ops b (section_lines d s @ concat (map (section_lines d) ss) @ (if e then [] else [[]])) =
        map put (section_entries d s) @ ini_ops b' (concat (map (section_lines d) ss) @ (if e then [] else [[]]))"
      "ini_errs b (section_lines d s @ concat (map (section_lines d) ss) @ (if e then [] else [[]])) =
        ini_errs b' (concat (map (section_lines d) ss) @ (if e then [] else [[]]))"
    using section_lines_ops [OF assms(1), of s b "concat (map (section_lines d) ss) @ (if e then [] else [[]])"] by auto
  then show ?case using Cons by simp
qed


lemma run_puts: "foldl map_op m (map put kvs) = m ++ map_of (rev kvs)"
proof (induction kvs arbitrary: m)
  case (Cons kv kvs)
  then show ?case by (cases kv) (simp add: map_add_upd_left del: fun_upd_apply)
qed simp

lemma map_of_functional:
  assumes "\<forall>k v w. (k, v) \<in> set kvs \<and> (k, w) \<in> set kvs \<longrightarrow> v = w"
  shows "map_of kvs k = Some v \<longleftrightarrow> (k, v) \<in> set kvs"
  using assms by (metis map_of_SomeD weak_map_of_SomeI)

lemma value_line_plain:
  assumes "ini_key_ok k" and "ini_value_ok v" and "length (value_line (pad_right 30 k) v) \<le> 1022"
  shows "plain_line (value_line (pad_right 30 k) v)"
proof -
  let ?l = "value_line (pad_right 30 k) v"
  have "NL \<notin> set ?l \<and> NUL \<notin> set ?l"
    using assms(1,2) set_escape(1) [of v] by (auto simp: value_line_def pad_right_def ini_key_ok_def ini_value_ok_def)
  moreover have "rstrip ?l = ?l" by (rule rstrip_keep) (simp_all add: value_line_def isspace_def)
  ultimately show ?thesis using assms(3) by (simp add: plain_line_def) (simp add: value_line_def)
qed

lemma dump_lines_plain:
  assumes "ini_dict d"
  shows "\<forall>l \<in> set (dump_lines d). plain_line l"
proof -
  have "plain_line l" if s: "s \<in> set (section_names d)" and l: "l \<in> set (section_lines d s)" for s l
  proof -
    note sec = ini_dict_section [OF assms s]
    have "rstrip (''['' @ s @ '']'') = ''['' @ s @ '']''" by (rule rstrip_keep) (simp_all add: isspace_def)
    then have "plain_line (''['' @ s @ '']'')" using sec by (simp add: plain_line_def section_ok_def)
    moreover have "plain_line []" by (simp add: plain_line_def rstrip_def)
    moreover have "plain_line (value_line (pad_right 30 (drop (length s + 1) key)) (the v))"
      if "(key, v) \<in> set (dict_entries d)" "in_section s key" for key v
      using ini_dict_value [OF assms that] sec value_line_plain by auto
    ultimately show ?thesis using l by (auto simp: section_lines_def)
  qed
  moreover have "plain_line []" by (simp add: plain_line_def rstrip_def)
  ultimately show ?thesis by (auto simp: dump_lines_def)
qed

lemma section_entries_all:
  assumes "ini_dict d"
  shows "set (concat (map (section_entries d) (section_names d))) = set (dict_entries d)"
proof (intro equalityI subrelI)
  fix key v assume "(key, v) \<in> set (concat (map (section_entries d) (section_names d)))"
  then show "(key, v) \<in> set (dict_entries d)"
    using ini_dict_section [OF assms] by (auto simp: section_entries_def)
next
  fix key v assume e: "(key, v) \<in> set (dict_entries d)"
  have name: "s \<in> set (section_names d)" if "(s, None) \<in> set (dict_entries d)" for s
    using that assms by (force simp: section_names_def is_section_def ini_dict_def section_ok_def)
  show "(key, v) \<in> set (concat (map (section_entries d) (section_names d)))"
  proof (cases v)
    case None
    then show ?thesis using name e by (auto simp: section_entries_def)
  next
    case (Some val)
    then obtain s k where "key = s @ '':'' @ k" "(s, None) \<in> set (dict_entries d)"
      using assms e by (fastforce simp: ini_dict_def)
    moreover from this have "in_section s key" by (simp add: in_section_def)
    ultimately show ?thesis using name e by (fastforce simp: section_entries_def)
  qed
qed

lemma load_file_lines:
  assumes "\<forall>l \<in> set ls. plain_line l"
  shows "\<exists>d log. iniparser_load_file (\<lambda>_. all_ok) (ini_text ls) =
      Some (if ini_errs (ld_buf load_start) ls = 0 then Some d else None, log) \<and> dict_exact d \<and>
      dict_map d = foldl map_op Map.empty (ini_ops (ld_buf load_start) ls)"
proof -
  have "dict_exact (ld_dict load_start)" "ld_last load_start = 0" "dict_map (ld_dict load_start) = Map.empty"
      "ld_errs load_start = 0"
    by (simp_all add: load_start_def dictionary_new_ok)
  with load_loop_lines [OF assms, of load_start] obtain st where
      "load_loop (\<lambda>_. all_ok) (ini_text ls) load_start = Some (Break st)" "dict_exact (ld_dict st)"
      "dict_map (ld_dict st) = foldl map_op Map.empty (ini_ops (ld_buf load_start) ls)"
      "ld_errs st = ini_errs (ld_buf load_start) ls" by auto
  then show ?thesis by (auto simp: iniparser_load_file_def)
qed

subsection \<open>Properties\<close>

text \<open>
  C1: writing and reading back: for a dictionary that the file format can hold (section names
  and keys in lower case without blanks around them, values of any characters but line ends,
  quotes and backslashes included, lines that fit the line buffer), \<open>iniparser_dump_ini\<close> stays
  within its buffers and \<open>iniparser_load_file\<close> reads its output back to the same entries.
\<close>

theorem iniparser_dump_load:
  assumes "ini_dict d"
  shows "\<exists>out d' log. iniparser_dump_ini (Some d) = Some out \<and>
     iniparser_load_file (\<lambda>_. all_ok) out = Some (Some d', log) \<and> dict_exact d' \<and> dict_map d' = dict_map d"
proof -
  let ?kvs = "concat (map (section_entries d) (section_names d))"
  have ok: "dict_ok d" using assms by (simp add: ini_dict_def exact_ok)
  have ops: "ini_ops (ld_buf load_start) (dump_lines d) = map put ?kvs" "ini_errs (ld_buf load_start) (dump_lines d) = 0"
    using dump_lines_ops [OF assms order_refl] by (simp_all add: dump_lines_def)
  have "(k, v) \<in> set (rev ?kvs) \<longleftrightarrow> dict_map d k = Some v" for k v
    using section_entries_all [OF assms] dict_map_entry [OF ok, of k v] by simp
  then have "map_of (rev ?kvs) k = Some v \<longleftrightarrow> dict_map d k = Some v" for k v
    by (subst map_of_functional) auto
  then have "map_of (rev ?kvs) = dict_map d" by (metis ext not_None_eq)
  then show ?thesis
    using load_file_lines [OF dump_lines_plain [OF assms]] dump_ini_lines [OF assms] run_puts [of Map.empty ?kvs]
    by (auto simp: ops)
qed


theorem iniparser_dump_load_witness:
  "\<exists>d out d' log. dict_map d = [''s:k'' \<mapsto> Some [DQUOTE, CHR '' '', BACKSLASH], ''s'' \<mapsto> None] \<and>
     iniparser_dump_ini (Some d) = Some out \<and> iniparser_load_file (\<lambda>_. all_ok) out = Some (Some d', log) \<and>
     dict_map d' = dict_map d"
proof -
  define ops where "ops = [Put ''s:k'' (Some [DQUOTE, CHR '' '', BACKSLASH]), Put ''s'' None]"
  obtain d where d: "dict_exact d" "dict_map d = foldl map_op Map.empty ops"
    using dict.run_ops_refines [OF dictionary_new_ok(1), of 0 ops] by (auto simp: dictionary_new_ok(2))
  then have m: "dict_map d = [''s:k'' \<mapsto> Some [DQUOTE, CHR '' '', BACKSLASH], ''s'' \<mapsto> None]"
    by (simp add: ops_def del: fun_upd_apply)
  have lower: "lower ''s''" "lower ''k''" by (simp_all add: lower_def tolower_def)
  have "ini_dict d"
    unfolding ini_dict_def
  proof (intro conjI d(1) ballI, clarify)
    fix key v assume "(key, v) \<in> set (dict_entries d)"
    then have "dict_map d key = Some v" by (simp add: dict_map_entry exact_ok d(1))
    then have kv: "key = ''s'' \<and> v = None \<or> key = ''s'' @ '':'' @ ''k'' \<and> v = Some [DQUOTE, CHR '' '', BACKSLASH]"
      by (auto simp: m split: if_splits)
    have "(''s'', None) \<in> set (dict_entries d)" by (simp add: exact_ok d(1) m flip: dict_map_entry)
    moreover have "ini_key_ok ''k''" "section_ok ''s''" "ini_value_ok [DQUOTE, CHR '' '', BACKSLASH]"
      using lower by (simp_all add: ini_key_ok_def section_ok_def ini_value_ok_def stripped_def isspace_def)
    moreover have "length (value_line (pad_right 30 ''k'') [DQUOTE, CHR '' '', BACKSLASH]) \<le> 1022"
      by (simp add: value_line_def pad_right_def)
    ultimately show "case v of None \<Rightarrow> section_ok key \<and> length key \<le> 1020
       | Some val \<Rightarrow> \<exists>s k. key = s @ '':'' @ k \<and> (s, None) \<in> set (dict_entries d) \<and> ini_key_ok k \<and> ini_value_ok val \<and>
           length (value_line (pad_right 30 k) val) \<le> 1022"
      using kv by (elim disjE) (simp, simp only: option.case, metis)
  qed
  from iniparser_dump_load [OF this] m show ?thesis by blast
qed

text \<open>
  C4: the loader computes the updates that the lines stand for: for a file of complete lines that
  fit the buffer and do not end in a backslash, it returns a dictionary whose map is the result
  of applying the section and value lines in order, or \<open>NULL\<close> when a line has a syntax error.
\<close>

theorem iniparser_load_refines:
  assumes "\<forall>l \<in> set ls. plain_line l"
  shows "\<exists>d log. iniparser_load_file (\<lambda>_. all_ok) (ini_text ls) =
      Some (if ini_errs (ld_buf load_start) ls = 0 then Some d else None, log) \<and>
      dict_map d = foldl map_op Map.empty (ini_ops (ld_buf load_start) ls)"
  using load_file_lines [OF assms] by blast

theorem iniparser_load_refines_witness:
  "\<exists>d log. iniparser_load_file (\<lambda>_. all_ok) (ini_text [''[A b] '', ''Key=1 ; c'']) = Some (Some d, log) \<and>
     dict_map d = [''a b'' \<mapsto> None, ''a b:key'' \<mapsto> Some ''1'']"
proof -
  have plain: "\<forall>l \<in> set [''[A b] '', ''Key=1 ; c'']. plain_line l"
    by (simp add: plain_line_def rstrip_def isspace_def)
  have "ini_errs (ld_buf load_start) [''[A b] '', ''Key=1 ; c''] = 0"
     "ini_ops (ld_buf load_start) [''[A b] '', ''Key=1 ; c''] = [Put ''a b'' None, Put ''a b:key'' (Some ''1'')]"
    by (simp_all add: load_start_def iniparser_line_def xstrdup_def strstrip_def rstrip_def isspace_def ini_section_line_def
        ini_key_of_def scan_set_def scan_lit_def scan_ws_def scan_eq_def sscanf_quoted_def sscanf_plain_def sscanf_kv_def
        strlwc_def tolower_def char_of_def bit_0 Let_def)
  with iniparser_load_refines [OF plain] show ?thesis by simp
qed

text \<open>
  C35: the loader returns for every file, whatever its bytes and whatever the allocations do: the
  line buffer always has room for \<open>fgets\<close> to make progress, and the loops of the dictionary end.
\<close>

theorem iniparser_load_terminates: "\<exists>r. iniparser_load_file mem input = Some r"
proof -
  have "load_inv load_start" by (simp add: load_inv_def load_start_def dictionary_new_ok exact_ok ASCIILINESZ_def)
  then show ?thesis using load_loop_returns [of load_start mem input] by (auto simp: iniparser_load_file_def)
qed

text \<open>
  An entry set through \<open>iniparser_set\<close> is found by \<open>iniparser_getstring\<close> under every spelling
  of its name in upper and lower case, cut to 1024 characters.
\<close>

theorem iniparser_set_get:
  assumes "dict_exact d" and "map tolower e = map tolower k" and "length e \<le> 1024"
  shows "\<exists>d'. iniparser_set mem_ok (Some d) (Some e) (Some v) = Some (0, Some d') \<and>
     iniparser_getstring (Some d') (Some k) def = Chars (take 1024 v)"
proof -
  have "length k \<le> 1024" using assms(2,3) by (metis length_map)
  then have low: "strlwc (Some e) (ASCIILINESZ + 1) = Some (map tolower k)" "strlwc (Some k) (ASCIILINESZ + 1) = Some (map tolower k)"
    using assms(2,3) by (simp_all add: strlwc_def ASCIILINESZ_def strlwc_loop_map)
  obtain d' where "dictionary_set mem_ok (Some d) (Some (map tolower k)) (Some (take 1024 v)) = Some (0, Some d')"
      "dict_exact d'" "dict_map d' = (dict_map d)(map tolower k \<mapsto> Some (take 1024 v))"
    using dict.set_law [OF assms(1)] by blast
  then show ?thesis using low
    by (simp add: iniparser_set_def iniparser_getstring_def dictionary_get_map exact_ok ptr_of_def ASCIILINESZ_def)
qed

theorem iniparser_set_get_witness:
  "\<exists>d'. iniparser_set mem_ok (Some (dictionary_new 0)) (Some ''Sec:Key'') (Some ''x'') = Some (0, Some d') \<and>
     iniparser_getstring (Some d') (Some ''sEC:kEY'') Null = Chars ''x''"
  using iniparser_set_get [OF dictionary_new_ok(1), of "''Sec:Key''" "''sEC:kEY''" 0 "''x''" Null]
  by (simp add: tolower_def char_of_def bit_0)

text \<open>
  A section whose name has 1024 characters, which \<open>iniparser_set\<close> accepts, makes
  \<open>iniparser_dumpsection_ini\<close> write past the end of \<open>keym\<close>: its guard admits names that leave
  no room for the colon and the NUL.
\<close>

theorem iniparser_dumpsection_overflows:
  assumes "dict_exact d" and "lower s" and "length s = 1024"
  shows "\<exists>d'. iniparser_set mem_ok (Some d) (Some s) None = Some (0, Some d') \<and>
     iniparser_dumpsection_ini (Some d') s = None"
proof -
  have low: "strlwc (Some s) (ASCIILINESZ + 1) = Some s"
    using assms(2,3) by (simp add: strlwc_def ASCIILINESZ_def strlwc_loop_map lower_def)
  obtain d' where "dictionary_set mem_ok (Some d) (Some s) None = Some (0, Some d')"
      "dict_exact d'" "dict_map d' = (dict_map d)(s \<mapsto> None)"
    using dict.set_law [OF assms(1)] by blast
  then show ?thesis using low assms(3)
    by (simp add: iniparser_set_def iniparser_dumpsection_ini_def iniparser_find_entry_def iniparser_getstring_def
        dictionary_get_map exact_ok ptr_of_def ASCIILINESZ_def)
qed

theorem iniparser_dumpsection_overflows_witness:
  "\<exists>d'. iniparser_set mem_ok (Some (dictionary_new 0)) (Some (replicate 1024 CHR ''a'')) None = Some (0, Some d') \<and>
     iniparser_dumpsection_ini (Some d') (replicate 1024 CHR ''a'') = None"
  by (rule iniparser_dumpsection_overflows [OF dictionary_new_ok(1)]) (simp_all add: lower_def tolower_def)

definition two_keys :: "string \<Rightarrow> string \<Rightarrow> string option \<Rightarrow> string \<Rightarrow> string option \<Rightarrow> dictionary" where
  "two_keys s k v k' v' = \<lparr>dict_n = 3, dict_size = 3, dict_val = [None, v, v'],
     dict_key = [Some s, Some k, Some k'],
     dict_hash = [dictionary_hash (Some s), dictionary_hash (Some k), dictionary_hash (Some k')]\<rparr>"

text \<open>
  What the writer does outside the format: a key of a section without a value is written
  with the value of the key before it (the escape buffer is not reset), and an entry outside
  every section is left out when the dictionary has a section.
\<close>

theorem iniparser_dump_outside_format:
  "iniparser_dump_ini (Some (two_keys ''s'' ''s:a'' (Some ''1'') ''s:b'' None)) =
     Some (ini_text [[], ''[s]'', value_line (pad_right 30 ''a'') ''1'', value_line (pad_right 30 ''b'') ''1'', [], []]) \<and>
   iniparser_dump_ini (Some (two_keys ''s'' ''s:a'' (Some ''1'') '':b'' (Some ''2''))) =
     Some (ini_text [[], ''[s]'', value_line (pad_right 30 ''a'') ''1'', [], []])"
proof -
  have low: "strlwc (Some ''s'') 1025 = Some ''s''"
    by (simp add: strlwc_def strlwc_loop_map tolower_def)
  have "iniparser_find_entry (Some (two_keys ''s'' k v k' v')) (Some ''s'') = 1" for k v k' v'
    by (simp add: iniparser_find_entry_def iniparser_getstring_def low dictionary_get_def dict_find.simps two_keys_def ptr_of_def
        ASCIILINESZ_def)
  then show ?thesis
    by (simp add: iniparser_dump_ini_def iniparser_getnsec_def iniparser_getsecname_def iniparser_dumpsection_ini_def
        two_keys_def dict_slots_def escape_value_def ASCIILINESZ_def value_line_def pad_right_def numeral_nat Let_def)
qed

end
