(* ===== verification/Lnx_Timer.thy ===== *)
theory Lnx_Timer
  imports Prelude
begin

text \<open>
  The timers of a thread, \<open>tuanzi/src/lnxthread.cpp\<close>: the list of timer parameters with their
  per-timer mutexes, the mutex of the thread that \<open>KillTimer\<close> and \<open>KillAllTimer\<close> take, and the
  calls to the timer functions of the operating system, whose results are an argument. A call
  that waits for a mutex that its own thread holds never returns: that is \<open>None\<close>.
\<close>

text \<open>The results of \<open>my_timer_create\<close>, \<open>my_timer_settime\<close> and of the two tries of \<open>my_timer_delete\<close>.\<close>

record os_timer =
  create_ok :: bool
  settime_ok :: bool
  delete1_ok :: bool
  delete2_ok :: bool
  errno_EINVAL :: bool

record timer_param =
  tp_ti :: nat
  tp_tflag :: int
  tp_busy :: bool
  tp_sec :: int
  tp_nsec :: int

text \<open>\<open>ts_next\<close> is the identifier that the system gives to the next timer.\<close>

record timer_service =
  ts_timers :: "timer_param list"
  ts_locked :: bool
  ts_next :: nat

definition SetTimer :: "os_timer \<Rightarrow> timer_service \<Rightarrow> int \<Rightarrow> int \<Rightarrow> timer_service \<times> nat" where
  "SetTimer os ts tflag off_msec =
     (if off_msec \<le> 0 then (ts, 0)
      else if \<not> create_ok os then (ts, 0)
      else
        let timerid = ts_next ts;
            timer = \<lparr>tp_ti = timerid, tp_tflag = tflag, tp_busy = False,
                     tp_sec = off_msec div 1000, tp_nsec = off_msec mod 1000\<rparr>;
            ts = ts\<lparr>ts_timers := ts_timers ts @ [timer], ts_next := timerid + 1\<rparr>
        in if \<not> settime_ok os then (ts, 0) else (ts, timerid))"

text \<open>
  The loop of \<open>KillTimer\<close>: the first timer with the identifier. \<open>KillTimer\<close> returns the result,
  the service and the identifier variable; after a deletion the mutex stays locked.
\<close>

fun find_timer :: "timer_param list \<Rightarrow> nat \<Rightarrow> nat option" where
  "find_timer [] timerid = None"
| "find_timer (t # timers) timerid =
     (if tp_ti t = timerid then Some 0 else map_option Suc (find_timer timers timerid))"

definition KillTimer :: "os_timer \<Rightarrow> timer_service \<Rightarrow> nat \<Rightarrow> (bool \<times> timer_service \<times> nat) option" where
  "KillTimer os ts timerid =
     (if timerid = 0 then Some (False, ts, timerid)
      else if ts_locked ts then None
      else if ts_timers ts = [] then Some (True, ts, timerid)
      else case find_timer (ts_timers ts) timerid of
             None \<Rightarrow> Some (False, ts, timerid)
           | Some i \<Rightarrow>
               (let gone = ts\<lparr>ts_locked := True, ts_timers := (ts_timers ts)[i := (ts_timers ts ! i)\<lparr>tp_ti := 0\<rparr>]\<rparr>
                in if delete1_ok os then Some (True, gone, 0)
                   else if delete2_ok os then Some (True, gone, 0)
                   else if \<not> errno_EINVAL os then Some (False, ts, timerid)
                   else Some (True, gone, 0)))"

definition KillAllTimer :: "timer_service \<Rightarrow> timer_service option" where
  "KillAllTimer ts = (if ts_locked ts then None else Some (ts\<lparr>ts_timers := []\<rparr>))"

text \<open>\<open>OnTimerEnter\<close> tries the mutex of every timer with the flag; \<open>OnTimerLeave\<close> releases them.\<close>

fun enter_timers :: "timer_param list \<Rightarrow> int \<Rightarrow> timer_param list \<times> bool" where
  "enter_timers [] tflag = ([], False)"
| "enter_timers (t # timers) tflag =
     (let (rest, success) = enter_timers timers tflag
      in if tp_tflag t \<noteq> tflag then (t # rest, success)
         else if tp_busy t then (t # rest, success)
         else (t\<lparr>tp_busy := True\<rparr> # rest, True))"

definition OnTimerEnter :: "timer_service \<Rightarrow> int \<Rightarrow> timer_service \<times> bool" where
  "OnTimerEnter ts tflag =
     (let (timers, success) = enter_timers (ts_timers ts) tflag in (ts\<lparr>ts_timers := timers\<rparr>, success))"

definition OnTimerLeave :: "timer_service \<Rightarrow> int \<Rightarrow> timer_service" where
  "OnTimerLeave ts tflag =
     ts\<lparr>ts_timers := map (\<lambda>t. if tp_tflag t = tflag then t\<lparr>tp_busy := False\<rparr> else t) (ts_timers ts)\<rparr>"

lemma find_timer_Some: "find_timer timers timerid = Some i \<Longrightarrow> i < length timers \<and> tp_ti (timers ! i) = timerid"
  by (induction timers arbitrary: i) (auto split: if_splits)

lemma find_timer_in: "\<exists>t \<in> set timers. tp_ti t = timerid \<Longrightarrow> \<exists>i. find_timer timers timerid = Some i"
  by (induction timers) auto

text \<open>
  \<open>KillTimer\<close> returns with the mutex of the thread locked when it has deleted a timer: every
  later \<open>KillTimer\<close> of a timer and every \<open>KillAllTimer\<close> of the thread then waits forever.
\<close>

theorem KillTimer_leaves_lock:
  assumes "KillTimer os ts timerid = Some (True, ts', 0)" and "timerid \<noteq> 0" and "other \<noteq> 0"
  shows "KillTimer os' ts' other = None \<and> KillAllTimer ts' = None"
proof -
  have "ts_locked ts'"
    using assms(1,2) by (auto simp: KillTimer_def Let_def split: if_splits option.splits)
  then show ?thesis using assms(3) by (simp add: KillTimer_def KillAllTimer_def)
qed

theorem KillTimer_leaves_lock_witness:
  "\<exists>ts'. KillTimer \<lparr>create_ok = True, settime_ok = True, delete1_ok = True, delete2_ok = True, errno_EINVAL = False\<rparr>
       \<lparr>ts_timers = [\<lparr>tp_ti = 1, tp_tflag = 108, tp_busy = False, tp_sec = 1, tp_nsec = 0\<rparr>], ts_locked = False, ts_next = 2\<rparr> 1
       = Some (True, ts', 0) \<and>
     KillTimer \<lparr>create_ok = True, settime_ok = True, delete1_ok = True, delete2_ok = True, errno_EINVAL = False\<rparr> ts' 1 = None"
proof -
  let ?os = "\<lparr>create_ok = True, settime_ok = True, delete1_ok = True, delete2_ok = True, errno_EINVAL = False\<rparr>"
  let ?t = "\<lparr>tp_ti = 1, tp_tflag = 108, tp_busy = False, tp_sec = 1, tp_nsec = 0\<rparr>"
  let ?ts' = "\<lparr>ts_timers = [?t\<lparr>tp_ti := 0\<rparr>], ts_locked = True, ts_next = 2\<rparr>"
  have "KillTimer ?os \<lparr>ts_timers = [?t], ts_locked = False, ts_next = 2\<rparr> 1 = Some (True, ?ts', 0)"
    by (simp add: KillTimer_def)
  with KillTimer_leaves_lock [OF this, of 1 ?os] show ?thesis by auto
qed

definition set_busy :: "int \<Rightarrow> bool \<Rightarrow> timer_param \<Rightarrow> timer_param" where
  "set_busy tflag b t = (if tp_tflag t = tflag then t\<lparr>tp_busy := b\<rparr> else t)"

lemma set_busy_simps [simp]:
  "tp_tflag (set_busy tflag b t) = tp_tflag t"
  "tp_busy (set_busy tflag b t) = (if tp_tflag t = tflag then b else tp_busy t)"
  by (simp_all add: set_busy_def)

lemma enter_timers_set: "enter_timers timers tflag = (map (set_busy tflag True) timers, \<exists>t \<in> set timers. tp_tflag t = tflag \<and> \<not> tp_busy t)"
  by (induction timers) (auto simp: set_busy_def)

lemma OnTimerLeave_set: "OnTimerLeave ts tflag = ts\<lparr>ts_timers := map (set_busy tflag False) (ts_timers ts)\<rparr>"
  by (simp add: OnTimerLeave_def set_busy_def)

text \<open>
  a timer is handled by one call at a time: after an \<open>OnTimerEnter\<close> the next one for the same
  flag fails, and after the \<open>OnTimerLeave\<close> it succeeds again when there is a timer with the flag.
\<close>

theorem OnTimerEnter_exclusive:
  "snd (OnTimerEnter (fst (OnTimerEnter ts tflag)) tflag) = False \<and>
   (snd (OnTimerEnter (OnTimerLeave (fst (OnTimerEnter ts tflag)) tflag) tflag) \<longleftrightarrow>
      (\<exists>t \<in> set (ts_timers ts). tp_tflag t = tflag))"
  by (simp add: OnTimerEnter_def OnTimerLeave_set enter_timers_set cong: conj_cong)

end
