(* ===== verification/Auth_Machine.thy ===== *)
theory Auth_Machine
  imports Lnx_Timer "HOL-Library.Monad_Syntax"
begin

text \<open>
  The 802.1X state machine of the client: the state data of \<open>tuanzi/src/statedata.cpp\<close>, the seven
  states of \<open>states.cpp\<close> with their \<open>Initlize\<close> and \<open>MoveState\<close>, and the message handlers of
  \<open>statemachinethread.cpp\<close>. The record \<open>auth_machine\<close> holds the state data, the flags that the
  machine shares with the control thread, the timers of the thread and the log of what it sends
  and posts; \<open>auth_env\<close> holds the configuration. A call ends with a new machine, crashes (a read
  through a null pointer, a failed assertion) or waits forever for a
  mutex; the sending thread exists, so that every frame built is sent; the recursion between \<open>OnStateMove\<close> and \<open>MoveState\<close> is a \<open>partial_function (option)\<close>.
\<close>

datatype 'a outcome = Ok 'a | Crash | Blocked

text \<open>
  The enumerations of \<open>miscdefs.h\<close> and \<open>stdpkgs.h\<close>; of \<open>STATES\<close> the values that the machine has objects
  for, \<open>CreateState\<close> gives a null pointer for the others (8 and more).
\<close>

datatype STATES = STATE_INVALID | STATE_DISCONNECTED | STATE_CONNECTING | STATE_ACQUIRED
  | STATE_AUTHENTICATING | STATE_AUTHENTICATED | STATE_HOLD | STATE_LOGOFF

definition int_of_state :: "STATES \<Rightarrow> int" where
  "int_of_state s = (case s of STATE_INVALID \<Rightarrow> 0 | STATE_DISCONNECTED \<Rightarrow> 1 | STATE_CONNECTING \<Rightarrow> 2
     | STATE_ACQUIRED \<Rightarrow> 3 | STATE_AUTHENTICATING \<Rightarrow> 4 | STATE_AUTHENTICATED \<Rightarrow> 5 | STATE_HOLD \<Rightarrow> 6 | STATE_LOGOFF \<Rightarrow> 7)"

datatype EAP_CODES = EAP_CODE_INVALID | EAP_REQUEST | EAP_RESPONSE | EAP_SUCCESS | EAP_FAILURE

datatype EAP_TYPES = EAP_TYPE_INVALID | EAP_TYPE_IDENTITY | EAP_TYPE_NOTIFICATION | EAP_TYPE_NAK | EAP_TYPE_MD5
  | EAP_TYPE_OTP | EAP_TYPE_GTC | EAP_TYPE_RUIJIE_PRIVATE | EAP_TYPE_TLS | EAP_TYPE_PEAP | EAP_TYPE_EXPANDED

datatype IEEE8021X_PACKET_TYPE = IEEE8021X_EAP_PACKET | IEEE8021X_EAPOL_START | IEEE8021X_EAPOL_LOGOFF
  | IEEE8021X_EAPOL_KEY | IEEE8021X_EAPOL_ENCAPSULATED_ASF_ALERT

abbreviation AUTH_WHILE_MTYPE :: int where "AUTH_WHILE_MTYPE \<equiv> 0x6C"
abbreviation START_WHILE_MTYPE :: int where "START_WHILE_MTYPE \<equiv> 0x6D"
abbreviation HOLD_WHILE_MTYPE :: int where "HOLD_WHILE_MTYPE \<equiv> 0x6E"

subsection \<open>Data\<close>

text \<open>A received frame, as far as the machine reads it, and a frame that it builds.\<close>

record eapol_frame =
  fr_srcaddr :: "byte list"
  fr_ether_type :: u16
  fr_packet_type :: IEEE8021X_PACKET_TYPE
  fr_code :: EAP_CODES
  fr_id :: byte
  fr_length :: u16
  fr_type :: EAP_TYPES
  fr_md5_length :: byte
  fr_md5_data :: "byte list"
  fr_notif_data :: string
  fr_fail_magic :: u32
  fr_fail_reason :: string

record sent_frame =
  sf_dstaddr :: "byte list"
  sf_packet_type :: IEEE8021X_PACKET_TYPE
  sf_packet_length :: u16
  sf_code :: EAP_CODES
  sf_type :: EAP_TYPES
  sf_id :: byte
  sf_eap_length :: u16
  sf_md5_length :: byte
  sf_data :: "byte list"
  sf_field_6C0 :: byte

datatype auth_action =
    Send sent_frame
  | Send_Hello int
  | Post_Return int
  | Post_EAP_Failure
  | Post_Hold
  | Post_Offline
  | Save_Radius
  | Show_Local_Msg string

record auth_env =
  ruijie_nas :: bool
  starttimeout :: u32
  startnumber :: u32
  authtimeout :: u32
  heldtimeout :: u32
  public_sutype :: int
  field_538 :: bool
  auth_username :: "byte list"
  auth_password :: "byte list"
  private_fail_reason :: string
  service_found :: bool
  message_202 :: string
  dhcp_auth_step :: nat
  to_gbk :: "byte list \<Rightarrow> byte list"
  get_md5 :: "byte list \<Rightarrow> byte list"
  md5_to_uchar :: "byte list \<Rightarrow> byte list"
  os_timers :: os_timer

record auth_machine =
  state_visual :: "STATES option"
  logoff :: bool
  logoff_init :: bool
  disconnected :: bool
  req_id :: bool
  req_auth :: bool
  eap_failure :: bool
  eap_success :: bool
  auth_attempt_count :: u32
  recv_id2 :: u32
  recv_id :: byte
  eap_md5_datalen :: byte
  eap_md5_data :: "byte list"
  mc_state :: STATES
  prev_state :: STATES
  hold_timeout :: u32
  connect_timeout :: u32
  auth_timeout :: u32
  connect_timer :: nat
  hold_timer :: nat
  auth_timer :: nat
  hold_count :: u32
  reconnect_fail :: bool
  connect_fail :: bool
  has_auth_success :: bool
  dstaddr :: "byte list"
  start_dst_addr :: "byte list"
  logoff_message :: string
  timer_srv :: timer_service
  sent :: "auth_action list"

definition IsAuthenticated :: "auth_machine \<Rightarrow> bool" where
  "IsAuthenticated m \<longleftrightarrow> eap_success m \<and> \<not> disconnected m \<and> \<not> logoff m \<and> \<not> logoff_init m"

definition IsDisconnected :: "auth_machine \<Rightarrow> bool" where
  "IsDisconnected m \<longleftrightarrow> disconnected m"

definition IsHeld :: "auth_machine \<Rightarrow> bool" where
  "IsHeld m \<longleftrightarrow> eap_failure m \<and> \<not> disconnected m \<and> \<not> logoff m \<and> \<not> logoff_init m"

definition IsLogOff :: "auth_machine \<Rightarrow> bool" where
  "IsLogOff m \<longleftrightarrow> logoff m \<and> \<not> logoff_init m \<and> \<not> disconnected m"

definition emit :: "auth_action \<Rightarrow> auth_machine \<Rightarrow> auth_machine" where
  "emit a m = m\<lparr>sent := sent m @ [a]\<rparr>"

subsection \<open>Building and sending frames\<close>

definition PAE_group_addr :: "byte list" where
  "PAE_group_addr = [0x01, 0x80, 0xC2, 0x00, 0x00, 0x03]"

definition star_group_addr :: "byte list" where
  "star_group_addr = [0x01, 0xD0, 0xF8, 0x00, 0x00, 0x03]"

definition EncapsulateFrame ::
  "auth_env \<Rightarrow> auth_machine \<Rightarrow> IEEE8021X_PACKET_TYPE \<Rightarrow> EAP_TYPES \<Rightarrow> byte list \<Rightarrow> sent_frame option" where
  "EncapsulateFrame env m packet_type eap_type buf =
     (if packet_type = IEEE8021X_EAPOL_KEY \<or> packet_type = IEEE8021X_EAPOL_ENCAPSULATED_ASF_ALERT \<or>
         (packet_type = IEEE8021X_EAP_PACKET \<and>
          eap_type \<notin> {EAP_TYPE_MD5, EAP_TYPE_IDENTITY, EAP_TYPE_NAK, EAP_TYPE_NOTIFICATION, EAP_TYPE_RUIJIE_PRIVATE})
      then None
      else
        let buflen = (of_nat (length buf) :: u16);
            frame = \<lparr>sf_dstaddr = (if ruijie_nas env then dstaddr m else PAE_group_addr),
                     sf_packet_type = packet_type, sf_packet_length = 0, sf_code = EAP_CODE_INVALID,
                     sf_type = EAP_TYPE_INVALID, sf_id = 0, sf_eap_length = 0, sf_md5_length = 0,
                     sf_data = [], sf_field_6C0 = 0\<rparr>
        in if packet_type \<noteq> IEEE8021X_EAP_PACKET then Some frame
           else
             let frame = frame\<lparr>sf_code := EAP_RESPONSE, sf_packet_length := 5, sf_type := eap_type, sf_id := recv_id m\<rparr>
             in if eap_type = EAP_TYPE_MD5
                then if buflen = 0 then None
                     else Some (frame\<lparr>sf_md5_length := ucast (buflen - of_nat (length (auth_username env))),
                            sf_eap_length := buflen + 6, sf_packet_length := buflen + 6, sf_data := buf\<rparr>)
                else Some (frame\<lparr>sf_eap_length := buflen + 5, sf_packet_length := buflen + 5, sf_data := buf\<rparr>))"

definition send_frame :: "sent_frame option \<Rightarrow> auth_machine \<Rightarrow> auth_machine" where
  "send_frame f m = (case f of None \<Rightarrow> m | Some f \<Rightarrow> emit (Send f) m)"

definition SendNAKFrame :: "auth_env \<Rightarrow> auth_machine \<Rightarrow> auth_machine" where
  "SendNAKFrame env m = send_frame (EncapsulateFrame env m IEEE8021X_EAP_PACKET EAP_TYPE_NAK []) m"

definition SendNotificationFrame :: "auth_env \<Rightarrow> auth_machine \<Rightarrow> auth_machine" where
  "SendNotificationFrame env m = send_frame (EncapsulateFrame env m IEEE8021X_EAP_PACKET EAP_TYPE_NAK []) m"

definition txLogOff :: "auth_env \<Rightarrow> int \<Rightarrow> auth_machine \<Rightarrow> auth_machine" where
  "txLogOff env a1 m =
     (if state_visual m = None then m
      else let m = m\<lparr>mc_state := STATE_LOGOFF\<rparr>
           in send_frame (map_option (\<lambda>f. f\<lparr>sf_field_6C0 := word_of_int a1\<rparr>)
                (EncapsulateFrame env m IEEE8021X_EAPOL_LOGOFF EAP_TYPE_INVALID [])) m)"

text \<open>
  The answer to an MD5 challenge: the digest of id, password (in GBK) and challenge, and the user
  name. The code sets \<open>checksum_buf\<close> to null before it takes its \<open>strlen\<close>, twice.
\<close>

definition c_strlen :: "byte list option \<Rightarrow> nat option" where
  "c_strlen s = map_option (\<lambda>s. length (takeWhile (\<lambda>c. c \<noteq> 0) s)) s"

definition txRspAuth :: "auth_env \<Rightarrow> auth_machine \<Rightarrow> auth_machine outcome" where
  "txRspAuth env m =
     (let username_buf = to_gbk env (auth_password env);
          checksum_buf = Some (recv_id m # username_buf @ take (unat (eap_md5_datalen m)) (eap_md5_data m));
          md5_buf = get_md5 env (the checksum_buf);
          checksum_buf = None
      in case c_strlen checksum_buf of
           None \<Rightarrow> Crash
         | Some n \<Rightarrow>
             (let final_buf = take (n div 2) (md5_to_uchar env md5_buf) @ auth_username env
              in Ok (send_frame (EncapsulateFrame env m IEEE8021X_EAP_PACKET EAP_TYPE_MD5 final_buf) m)))"

text \<open>The payload of the PAP answer: the length of the password, the password, the user name.\<close>

definition txRspAuthPAP :: "auth_env \<Rightarrow> auth_machine \<Rightarrow> auth_machine" where
  "txRspAuthPAP env m =
     (let buf = of_nat (length (auth_password env)) # auth_password env @ auth_username env
      in send_frame (EncapsulateFrame env m IEEE8021X_EAP_PACKET EAP_TYPE_RUIJIE_PRIVATE buf) m)"

definition txRspID :: "auth_env \<Rightarrow> auth_machine \<Rightarrow> auth_machine" where
  "txRspID env m = send_frame (EncapsulateFrame env m IEEE8021X_EAP_PACKET EAP_TYPE_IDENTITY (auth_username env)) m"

definition txSetLogOff_CompThird :: "auth_machine \<Rightarrow> auth_machine" where
  "txSetLogOff_CompThird m = (if state_visual m = None then m else m\<lparr>mc_state := STATE_LOGOFF\<rparr>)"

definition txStart :: "auth_env \<Rightarrow> auth_machine \<Rightarrow> auth_machine" where
  "txStart env m =
     send_frame (map_option (\<lambda>f. f\<lparr>sf_dstaddr := start_dst_addr m\<rparr>)
       (EncapsulateFrame env m IEEE8021X_EAPOL_START EAP_TYPE_INVALID [])) m"

definition InitStartDstMac :: "auth_machine \<Rightarrow> auth_machine" where
  "InitStartDstMac m =
     m\<lparr>start_dst_addr := (if start_dst_addr m \<noteq> star_group_addr then star_group_addr else PAE_group_addr)\<rparr>"

definition SetStartWhen :: "auth_machine \<Rightarrow> auth_machine" where
  "SetStartWhen m = (let m = InitStartDstMac m in m\<lparr>dstaddr := start_dst_addr m, connect_timeout := 0\<rparr>)"

subsection \<open>Timers of the machine\<close>

text \<open>\<open>if (timer) { KillTimer(timer); timer = 0; }\<close>\<close>

definition kill :: "auth_env \<Rightarrow> nat \<Rightarrow> timer_service \<Rightarrow> timer_service option" where
  "kill env timer ts =
     (if timer = 0 then Some ts else map_option (\<lambda>(_, ts, _). ts) (KillTimer (os_timers env) ts timer))"

definition kill_auth_timer :: "auth_env \<Rightarrow> auth_machine \<Rightarrow> auth_machine option" where
  "kill_auth_timer env m =
     map_option (\<lambda>ts. m\<lparr>timer_srv := ts, auth_timer := 0\<rparr>) (kill env (auth_timer m) (timer_srv m))"

definition kill_hold_timer :: "auth_env \<Rightarrow> auth_machine \<Rightarrow> auth_machine option" where
  "kill_hold_timer env m =
     map_option (\<lambda>ts. m\<lparr>timer_srv := ts, hold_timer := 0\<rparr>) (kill env (hold_timer m) (timer_srv m))"

definition kill_connect_timer :: "auth_env \<Rightarrow> auth_machine \<Rightarrow> auth_machine option" where
  "kill_connect_timer env m =
     map_option (\<lambda>ts. m\<lparr>timer_srv := ts, connect_timer := 0\<rparr>) (kill env (connect_timer m) (timer_srv m))"

text \<open>\<open>SetTimer(nullptr, flag, 1000 * seconds, nullptr)\<close>: the product wraps and is read as an \<open>int\<close>.\<close>

definition set_timer :: "auth_env \<Rightarrow> int \<Rightarrow> u32 \<Rightarrow> auth_machine \<Rightarrow> auth_machine \<times> nat" where
  "set_timer env tflag seconds m =
     (let (ts, t) = SetTimer (os_timers env) (timer_srv m) tflag (sint (1000 * seconds)) in (m\<lparr>timer_srv := ts\<rparr>, t))"

definition done_or_blocked :: "auth_machine option \<Rightarrow> auth_machine outcome" where
  "done_or_blocked r = (case r of None \<Rightarrow> Blocked | Some m \<Rightarrow> Ok m)"

subsection \<open>The states\<close>

definition Initlize_Disconnected :: "auth_machine \<Rightarrow> auth_machine" where
  "Initlize_Disconnected m =
     m\<lparr>prev_state := mc_state m, eap_success := False, mc_state := STATE_DISCONNECTED, eap_failure := False,
       auth_attempt_count := 0, logoff_init := False, recv_id2 := 256, disconnected := False\<rparr>"

definition Initlize_Connecting :: "auth_env \<Rightarrow> auth_machine \<Rightarrow> auth_machine option" where
  "Initlize_Connecting env m = do {
     let m = m\<lparr>prev_state := mc_state m, mc_state := STATE_CONNECTING, connect_timeout := starttimeout env\<rparr>;
     m \<leftarrow> kill_auth_timer env m;
     m \<leftarrow> kill_hold_timer env m;
     m \<leftarrow> kill_connect_timer env m;
     let (m, t) = set_timer env START_WHILE_MTYPE (connect_timeout m) m;
     let m = m\<lparr>connect_timer := t, auth_attempt_count := auth_attempt_count m + 1, req_id := False\<rparr>;
     Some (txStart env m)
   }"

definition Initlize_Acquired :: "auth_env \<Rightarrow> auth_machine \<Rightarrow> auth_machine option" where
  "Initlize_Acquired env m =
     (if \<not> ruijie_nas env \<and> prev_state m = STATE_AUTHENTICATED
      then let m = txRspID env (m\<lparr>req_id := False, req_auth := False\<rparr>)
           in Some (m\<lparr>recv_id2 := ucast (recv_id m)\<rparr>)
      else do {
        let m = m\<lparr>auth_timeout := 45, prev_state := mc_state m, mc_state := STATE_ACQUIRED\<rparr>;
        m \<leftarrow> kill_hold_timer env m;
        m \<leftarrow> kill_connect_timer env m;
        m \<leftarrow> kill_auth_timer env m;
        let (m, t) = set_timer env AUTH_WHILE_MTYPE (auth_timeout m) m;
        let m = m\<lparr>auth_timer := t, auth_attempt_count := 0, req_id := False, req_auth := False\<rparr>;
        let m = txRspID env m;
        Some (m\<lparr>recv_id2 := ucast (recv_id m)\<rparr>)
      })"

definition Initlize_Authenticating :: "auth_env \<Rightarrow> auth_machine \<Rightarrow> auth_machine outcome" where
  "Initlize_Authenticating env m =
     (let m = m\<lparr>prev_state := mc_state m, mc_state := STATE_AUTHENTICATING, auth_timeout := authtimeout env\<rparr>
      in case kill_auth_timer env m of
           None \<Rightarrow> Blocked
         | Some m \<Rightarrow>
             (let (m, t) = set_timer env AUTH_WHILE_MTYPE (auth_timeout m) m;
                  m = m\<lparr>auth_timer := t, req_auth := False\<rparr>;
                  finish = (\<lambda>m. m\<lparr>recv_id2 := ucast (recv_id m)\<rparr>)
              in if eap_md5_datalen m \<noteq> 0
                 then (case txRspAuth env m of Ok m \<Rightarrow> Ok (finish m) | r \<Rightarrow> r)
                 else Ok (finish (txRspAuthPAP env m))))"

definition Initlize_Authenticated :: "auth_env \<Rightarrow> auth_machine \<Rightarrow> auth_machine option" where
  "Initlize_Authenticated env m = do {
     let m = m\<lparr>eap_success := False, prev_state := mc_state m, mc_state := STATE_AUTHENTICATED, eap_failure := False\<rparr>;
     m \<leftarrow> kill_connect_timer env m;
     kill_auth_timer env m
   }"

definition Initlize_Hold :: "auth_env \<Rightarrow> auth_machine \<Rightarrow> auth_machine option" where
  "Initlize_Hold env m = do {
     let m = m\<lparr>prev_state := mc_state m, mc_state := STATE_HOLD\<rparr>;
     let m = (if prev_state m = STATE_AUTHENTICATED then m\<lparr>hold_count := 99\<rparr> else m);
     let m = m\<lparr>hold_timeout := heldtimeout env\<rparr>;
     m \<leftarrow> kill_auth_timer env m;
     m \<leftarrow> kill_hold_timer env m;
     m \<leftarrow> kill_connect_timer env m;
     let (m, t) = set_timer env HOLD_WHILE_MTYPE (hold_timeout m) m;
     Some (m\<lparr>hold_timer := t, hold_count := hold_count m + 1, eap_failure := False, eap_success := False\<rparr>)
   }"

definition Initlize_LogOff :: "auth_env \<Rightarrow> auth_machine \<Rightarrow> auth_machine option" where
  "Initlize_LogOff env m = do {
     let m = m\<lparr>prev_state := mc_state m, mc_state := STATE_LOGOFF\<rparr>;
     m \<leftarrow> kill_auth_timer env m;
     m \<leftarrow> kill_hold_timer env m;
     m \<leftarrow> kill_connect_timer env m;
     Some ((txLogOff env 1 m)\<lparr>logoff_init := True\<rparr>)
   }"

definition Initlize :: "auth_env \<Rightarrow> STATES \<Rightarrow> auth_machine \<Rightarrow> auth_machine outcome" where
  "Initlize env s m = (case s of
     STATE_INVALID \<Rightarrow> Crash
   | STATE_DISCONNECTED \<Rightarrow> Ok (Initlize_Disconnected m)
   | STATE_CONNECTING \<Rightarrow> done_or_blocked (Initlize_Connecting env m)
   | STATE_ACQUIRED \<Rightarrow> done_or_blocked (Initlize_Acquired env m)
   | STATE_AUTHENTICATING \<Rightarrow> Initlize_Authenticating env m
   | STATE_AUTHENTICATED \<Rightarrow> done_or_blocked (Initlize_Authenticated env m)
   | STATE_HOLD \<Rightarrow> done_or_blocked (Initlize_Hold env m)
   | STATE_LOGOFF \<Rightarrow> done_or_blocked (Initlize_LogOff env m))"

text \<open>
  \<open>MoveState\<close>: the changes it makes and the state with which it calls \<open>OnStateMove\<close>, always as
  the last thing it does, if it does.
\<close>

definition Move_Hold :: "auth_env \<Rightarrow> auth_machine \<Rightarrow> auth_machine \<times> STATES option" where
  "Move_Hold env m =
     (let m = (if public_sutype env = 1 \<and> \<not> field_538 env then emit Post_Hold m else m)
      in if hold_count m = 100 then (emit Post_Offline (m\<lparr>logoff := True\<rparr>), None)
         else
           let m = (if hold_count m > 2 then m\<lparr>logoff := True, connect_fail := True\<rparr> else m)
           in (m, if hold_timeout m \<noteq> 0 then (if req_id m then Some STATE_ACQUIRED else None)
                  else Some STATE_CONNECTING))"

definition MoveState :: "auth_env \<Rightarrow> STATES \<Rightarrow> auth_machine \<Rightarrow> auth_machine \<times> STATES option" where
  "MoveState env s m = (case s of
     STATE_INVALID \<Rightarrow> (m, None)
   | STATE_DISCONNECTED \<Rightarrow> (m, Some STATE_CONNECTING)
   | STATE_CONNECTING \<Rightarrow>
       (if req_id m then (m, Some STATE_ACQUIRED)
        else if connect_timeout m = 0 \<and> auth_attempt_count m < startnumber env then (m, Some STATE_CONNECTING)
        else (m\<lparr>reconnect_fail := True\<rparr>, Some STATE_AUTHENTICATED))
   | STATE_ACQUIRED \<Rightarrow>
       (if req_auth m then (m, Some STATE_AUTHENTICATING)
        else if req_id m then (m, Some STATE_ACQUIRED)
        else if auth_timeout m \<noteq> 0 then (m, None)
        else if has_auth_success m \<and> \<not> ruijie_nas env then (m, None)
        else (m\<lparr>hold_count := 3\<rparr>, Some STATE_HOLD))
   | STATE_AUTHENTICATING \<Rightarrow>
       (if req_auth m then (m, Some STATE_AUTHENTICATING)
        else if req_id m then (m, Some STATE_ACQUIRED)
        else if auth_timeout m = 0 \<and> \<not> has_auth_success m then (m\<lparr>hold_count := 3\<rparr>, Some STATE_HOLD)
        else (m, None))
   | STATE_AUTHENTICATED \<Rightarrow> (m, if req_id m then Some STATE_ACQUIRED else None)
   | STATE_HOLD \<Rightarrow> Move_Hold env m
   | STATE_LOGOFF \<Rightarrow> (m, if \<not> logoff m then Some STATE_DISCONNECTED else None))"

subsection \<open>The message handlers\<close>

text \<open>\<open>CreateState\<close>: the assertion fails for 0, other numbers give a null pointer.\<close>

definition CreateState :: "int \<Rightarrow> STATES option" where
  "CreateState n = (if n = 1 then Some STATE_DISCONNECTED else if n = 2 then Some STATE_CONNECTING
     else if n = 3 then Some STATE_ACQUIRED else if n = 4 then Some STATE_AUTHENTICATING
     else if n = 5 then Some STATE_AUTHENTICATED else if n = 6 then Some STATE_HOLD
     else if n = 7 then Some STATE_LOGOFF else None)"

text \<open>The state that the flags force, if any, with the flags that \<open>OnStateMove\<close> resets.\<close>

definition forced_state :: "auth_machine \<Rightarrow> auth_machine \<times> STATES option" where
  "forced_state m =
     (if IsAuthenticated m then (m\<lparr>reconnect_fail := False, connect_fail := False\<rparr>, Some STATE_AUTHENTICATED)
      else if IsDisconnected m then (m, Some STATE_DISCONNECTED)
      else if IsHeld m then (m, Some STATE_HOLD)
      else if IsLogOff m then (m, Some STATE_LOGOFF)
      else (m, None))"

definition after_move :: "auth_machine outcome \<Rightarrow> auth_machine outcome" where
  "after_move r = (case r of Ok m \<Rightarrow> Ok (if reconnect_fail m then m\<lparr>mc_state := STATE_LOGOFF\<rparr> else m) | _ \<Rightarrow> r)"

partial_function (option) OnStateMove :: "auth_env \<Rightarrow> int \<Rightarrow> auth_machine \<Rightarrow> auth_machine outcome option" where
  "OnStateMove env arg m =
     (case state_visual m of
        None \<Rightarrow> Some Crash
      | Some visual \<Rightarrow>
          if mc_state m = STATE_LOGOFF then Some (Ok m)
          else case forced_state m of (m, forced) \<Rightarrow>
            if forced = None \<and> arg = -1
            then (case MoveState env visual m of
                    (m, None) \<Rightarrow> Some (Ok m)
                  | (m, Some s) \<Rightarrow> OnStateMove env (int_of_state s) m)
            else (case (case forced of None \<Rightarrow> CreateState arg | Some s \<Rightarrow> Some s) of
                    None \<Rightarrow> Some Crash
                  | Some s \<Rightarrow>
                     (case Initlize env s (m\<lparr>state_visual := Some s\<rparr>) of
                        Ok m \<Rightarrow>
                          (let m = (if ruijie_nas env \<or> prev_state m \<noteq> STATE_AUTHENTICATED
                                    then emit (Post_Return arg) m else m)
                           in case MoveState env s m of
                                (m, None) \<Rightarrow> Some (after_move (Ok m))
                              | (m, Some s) \<Rightarrow> Option.bind (OnStateMove env (int_of_state s) m) (\<lambda>r. Some (after_move r)))
                      | r \<Rightarrow> Some r)))"

definition OnStartMachine :: "auth_env \<Rightarrow> auth_machine \<Rightarrow> auth_machine outcome option" where
  "OnStartMachine env m =
     OnStateMove env (-1)
       (m\<lparr>has_auth_success := False, reconnect_fail := False, connect_fail := False,
          state_visual := Some STATE_DISCONNECTED, logoff := False, hold_count := 0, logoff_init := False,
          disconnected := True, mc_state := STATE_INVALID, prev_state := STATE_INVALID\<rparr>)"

definition FailNotification :: "auth_env \<Rightarrow> eapol_frame \<Rightarrow> auth_machine \<Rightarrow> auth_machine" where
  "FailNotification env frame m =
     (let fail_reason = (if \<not> ruijie_nas env then private_fail_reason env else []);
          fail_reason = (if service_found env then message_202 env else fail_reason);
          m = (if fail_reason \<noteq> [] \<or> has_auth_success m then m\<lparr>hold_count := 33\<rparr> else m)
      in m\<lparr>logoff_message := (if fr_fail_magic frame = 0x1311 then fr_fail_reason frame else fail_reason)\<rparr>)"

definition ntohs :: "u16 \<Rightarrow> u16" where
  "ntohs x = push_bit 8 x OR drop_bit 8 x"

definition ETH_P_PAE :: u16 where "ETH_P_PAE = 0x888E"

text \<open>\<open>parseFrame\<close>: the result and the machine; \<open>char\<close> is unsigned in this part of the program.\<close>

definition parseFrame :: "auth_env \<Rightarrow> eapol_frame \<Rightarrow> auth_machine \<Rightarrow> (int \<times> auth_machine) outcome" where
  "parseFrame env frame m =
     (if ntohs (fr_ether_type frame) = ETH_P_PAE \<and> fr_packet_type frame = IEEE8021X_EAP_PACKET then Ok (-1, m)
      else case fr_code frame of
        EAP_SUCCESS \<Rightarrow>
          (let m = m\<lparr>has_auth_success := True, eap_success := True\<rparr>
           in Ok (1, if dhcp_auth_step env \<noteq> 1 then emit Save_Radius m else m))
      | EAP_FAILURE \<Rightarrow> Ok (0, emit Post_EAP_Failure (FailNotification env frame (m\<lparr>eap_failure := True\<rparr>)))
      | EAP_REQUEST \<Rightarrow>
          (let m = m\<lparr>recv_id := fr_id frame,
                     dstaddr := (if ruijie_nas env then fr_srcaddr frame else PAE_group_addr)\<rparr>
           in case fr_type frame of
                EAP_TYPE_IDENTITY \<Rightarrow> Ok (1, m\<lparr>req_id := True\<rparr>)
              | EAP_TYPE_NOTIFICATION \<Rightarrow>
                  Ok (1, SendNotificationFrame env
                        (if fr_length frame > 4 then emit (Show_Local_Msg (fr_notif_data frame)) m else m))
              | EAP_TYPE_NAK \<Rightarrow> Ok (1, SendNAKFrame env m)
              | EAP_TYPE_OTP \<Rightarrow> Ok (1, SendNAKFrame env m)
              | EAP_TYPE_GTC \<Rightarrow> Ok (1, SendNAKFrame env m)
              | EAP_TYPE_MD5 \<Rightarrow>
                  (if fr_md5_length frame = 0 then Ok (-1, m)
                   else Ok (1, m\<lparr>req_auth := True, eap_md5_datalen := fr_md5_length frame,
                        eap_md5_data := take (unat (fr_md5_length frame)) (fr_md5_data frame)\<rparr>))
              | EAP_TYPE_RUIJIE_PRIVATE \<Rightarrow> Ok (1, m\<lparr>req_auth := True, eap_md5_datalen := 0\<rparr>)
              | _ \<Rightarrow> Ok (-1, m))
      | _ \<Rightarrow> Ok (-1, m))"

definition OnPacketNotify :: "auth_env \<Rightarrow> eapol_frame \<Rightarrow> auth_machine \<Rightarrow> auth_machine outcome option" where
  "OnPacketNotify env frame m =
     (if state_visual m = None then Some (Ok m)
      else if mc_state m = STATE_LOGOFF then Some (Ok m)
      else case parseFrame env frame m of
             Ok (r, m) \<Rightarrow> (if r = -1 then Some (Ok m) else OnStateMove env (-1) m)
           | Crash \<Rightarrow> Some Crash
           | Blocked \<Rightarrow> Some Blocked)"

text \<open>\<open>OnSayHello\<close> hands the packet of the hello thread, here its length, to the sending thread.\<close>

definition OnSayHello :: "int \<Rightarrow> auth_machine \<Rightarrow> auth_machine" where
  "OnSayHello len m = emit (Send_Hello len) m"

definition OnSendLogoff :: "auth_env \<Rightarrow> int \<Rightarrow> auth_machine \<Rightarrow> auth_machine" where
  "OnSendLogoff env reason m = txLogOff env reason m"

text \<open>The expiry of a timer: the flag is recorded, the timer is killed, the machine moves.\<close>

definition OnTimer :: "auth_env \<Rightarrow> int \<Rightarrow> auth_machine \<Rightarrow> auth_machine outcome option" where
  "OnTimer env flag m =
     (let expire = (\<lambda>kill_it m. case kill_it m of
             None \<Rightarrow> Some Blocked
           | Some m \<Rightarrow> (case OnStateMove env (-1) m of
                Some (Ok m) \<Rightarrow> Some (Ok (m\<lparr>timer_srv := OnTimerLeave (timer_srv m) flag\<rparr>)) | r \<Rightarrow> r))
      in if state_visual m = None \<and> flag \<in> {AUTH_WHILE_MTYPE, START_WHILE_MTYPE, HOLD_WHILE_MTYPE} then Some Crash
         else if flag = AUTH_WHILE_MTYPE then expire (kill_auth_timer env) (m\<lparr>auth_timeout := 0\<rparr>)
         else if flag = START_WHILE_MTYPE then expire (kill_connect_timer env) (SetStartWhen m)
         else if flag = HOLD_WHILE_MTYPE then expire (kill_hold_timer env) (m\<lparr>hold_timeout := 0\<rparr>)
         else Some (Ok (m\<lparr>timer_srv := OnTimerLeave (timer_srv m) flag\<rparr>)))"

text \<open>The messages of the thread, and the call that the control thread makes on it directly.\<close>

datatype auth_msg = Start_Machine | Packet eapol_frame | Timer_Msg int | Say_Hello int | Send_Logoff int
  | State_Move int | Set_LogOff_CompThird

definition DispathMessage :: "auth_env \<Rightarrow> auth_msg \<Rightarrow> auth_machine \<Rightarrow> auth_machine outcome option" where
  "DispathMessage env msg m = (case msg of
     Start_Machine \<Rightarrow> OnStartMachine env m
   | Packet frame \<Rightarrow> OnPacketNotify env frame m
   | Timer_Msg flag \<Rightarrow> OnTimer env flag m
   | Say_Hello len \<Rightarrow> Some (Ok (OnSayHello len m))
   | Send_Logoff reason \<Rightarrow> Some (Ok (OnSendLogoff env reason m))
   | State_Move arg \<Rightarrow> OnStateMove env arg m
   | Set_LogOff_CompThird \<Rightarrow> Some (Ok (txSetLogOff_CompThird m)))"

definition auth_init :: auth_machine where
  "auth_init = \<lparr>state_visual = None, logoff = False, logoff_init = False, disconnected = False, req_id = False,
     req_auth = False, eap_failure = False, eap_success = False, auth_attempt_count = 0, recv_id2 = 0, recv_id = 0,
     eap_md5_datalen = 0, eap_md5_data = [], mc_state = STATE_INVALID, prev_state = STATE_INVALID, hold_timeout = 0,
     connect_timeout = 0, auth_timeout = 0, connect_timer = 0, hold_timer = 0, auth_timer = 0, hold_count = 0,
     reconnect_fail = False, connect_fail = False, has_auth_success = False, dstaddr = PAE_group_addr,
     start_dst_addr = PAE_group_addr, logoff_message = [],
     timer_srv = \<lparr>ts_timers = [], ts_locked = False, ts_next = 1\<rparr>, sent = []\<rparr>"

subsection \<open>What the operations change\<close>

lemma kill_frames:
  "kill_auth_timer env m = Some m' \<Longrightarrow> \<exists>ts. m' = m\<lparr>timer_srv := ts, auth_timer := 0\<rparr>"
  "kill_hold_timer env m = Some m' \<Longrightarrow> \<exists>ts. m' = m\<lparr>timer_srv := ts, hold_timer := 0\<rparr>"
  "kill_connect_timer env m = Some m' \<Longrightarrow> \<exists>ts. m' = m\<lparr>timer_srv := ts, connect_timer := 0\<rparr>"
  by (auto simp: kill_auth_timer_def kill_hold_timer_def kill_connect_timer_def)

lemma set_timer_frame: "\<exists>ts t. set_timer env f s m = (m\<lparr>timer_srv := ts\<rparr>, t)"
  by (auto simp: set_timer_def split: prod.splits)

lemma send_frame_frame: "\<exists>as. send_frame f m = m\<lparr>sent := sent m @ as\<rparr> \<and> set as \<subseteq> Send ` set_option f"
  by (cases f) (auto simp: send_frame_def emit_def intro: exI [of _ "[]"])

lemma EncapsulateFrame_type: "EncapsulateFrame env m p e b = Some f \<Longrightarrow> sf_packet_type f = p"
  by (auto simp: EncapsulateFrame_def Let_def split: if_splits)

text \<open>Frames that open or close a session, and those that answer the authenticator.\<close>

definition opens_or_closes :: "auth_action \<Rightarrow> bool" where
  "opens_or_closes a \<longleftrightarrow> (case a of
     Send f \<Rightarrow> sf_packet_type f = IEEE8021X_EAPOL_START \<or> sf_packet_type f = IEEE8021X_EAPOL_LOGOFF
   | _ \<Rightarrow> True)"

lemma txStart_frame: "\<exists>as. txStart env m = m\<lparr>sent := sent m @ as\<rparr> \<and> list_all opens_or_closes as"
  using send_frame_frame [of "map_option (\<lambda>f. f\<lparr>sf_dstaddr := start_dst_addr m\<rparr>)
      (EncapsulateFrame env m IEEE8021X_EAPOL_START EAP_TYPE_INVALID [])" m]
  by (fastforce simp: txStart_def list_all_iff opens_or_closes_def dest: EncapsulateFrame_type)

lemma txLogOff_frame:
  "state_visual m \<noteq> None \<Longrightarrow> \<exists>as. txLogOff env a m = m\<lparr>mc_state := STATE_LOGOFF, sent := sent m @ as\<rparr> \<and> list_all opens_or_closes as"
  using send_frame_frame [of "map_option (\<lambda>f. f\<lparr>sf_field_6C0 := word_of_int a\<rparr>)
      (EncapsulateFrame env (m\<lparr>mc_state := STATE_LOGOFF\<rparr>) IEEE8021X_EAPOL_LOGOFF EAP_TYPE_INVALID [])" "m\<lparr>mc_state := STATE_LOGOFF\<rparr>"]
  by (fastforce simp: txLogOff_def list_all_iff opens_or_closes_def dest: EncapsulateFrame_type)

lemma Initlize_Connecting_frame:
  assumes "Initlize_Connecting env m = Some m'"
  shows "\<exists>ts t as. m' = m\<lparr>prev_state := mc_state m, mc_state := STATE_CONNECTING, connect_timeout := starttimeout env,
     timer_srv := ts, auth_timer := 0, hold_timer := 0, connect_timer := t,
     auth_attempt_count := auth_attempt_count m + 1, req_id := False, sent := sent m @ as\<rparr> \<and> list_all opens_or_closes as"
proof -
  define m1 where "m1 = m\<lparr>prev_state := mc_state m, mc_state := STATE_CONNECTING, connect_timeout := starttimeout env\<rparr>"
  obtain m2 m3 m4 where s: "kill_auth_timer env m1 = Some m2" "kill_hold_timer env m2 = Some m3"
      "kill_connect_timer env m3 = Some m4"
    using assms by (auto simp: Initlize_Connecting_def m1_def bind_eq_Some_conv)
  obtain ts t where t: "set_timer env START_WHILE_MTYPE (connect_timeout m4) m4 = (m4\<lparr>timer_srv := ts\<rparr>, t)"
    using set_timer_frame by blast
  obtain ts2 ts3 ts4 where "m2 = m1\<lparr>timer_srv := ts2, auth_timer := 0\<rparr>" "m3 = m2\<lparr>timer_srv := ts3, hold_timer := 0\<rparr>"
      "m4 = m3\<lparr>timer_srv := ts4, connect_timer := 0\<rparr>"
    using kill_frames s by meson
  moreover have "m' = txStart env (m4\<lparr>timer_srv := ts, connect_timer := t, auth_attempt_count := auth_attempt_count m4 + 1,
      req_id := False\<rparr>)"
    using assms s t by (simp add: Initlize_Connecting_def m1_def [symmetric])
  ultimately obtain as where "list_all opens_or_closes as"
      "m' = m4\<lparr>timer_srv := ts, connect_timer := t, auth_attempt_count := auth_attempt_count m4 + 1,
         req_id := False, sent := sent m4 @ as\<rparr>"
      and m4: "m4 = m1\<lparr>timer_srv := ts4, auth_timer := 0, hold_timer := 0, connect_timer := 0\<rparr>"
    using txStart_frame [of env "m4\<lparr>timer_srv := ts, connect_timer := t, auth_attempt_count := auth_attempt_count m4 + 1, req_id := False\<rparr>"]
    by (auto intro!: auth_machine.equality)
  then show ?thesis
    by (intro exI [of _ ts] exI [of _ t] exI [of _ as] conjI auth_machine.equality) (simp_all add: m1_def)
qed

lemma Initlize_Authenticated_frame:
  assumes "Initlize_Authenticated env m = Some m'"
  shows "\<exists>ts. m' = m\<lparr>eap_success := False, prev_state := mc_state m, mc_state := STATE_AUTHENTICATED, eap_failure := False,
     timer_srv := ts, connect_timer := 0, auth_timer := 0\<rparr>"
proof -
  define m1 where "m1 = m\<lparr>eap_success := False, prev_state := mc_state m, mc_state := STATE_AUTHENTICATED, eap_failure := False\<rparr>"
  obtain m2 where s: "kill_connect_timer env m1 = Some m2" "kill_auth_timer env m2 = Some m'"
    using assms by (auto simp: Initlize_Authenticated_def m1_def bind_eq_Some_conv)
  then obtain ts2 ts3 where "m2 = m1\<lparr>timer_srv := ts2, connect_timer := 0\<rparr>" "m' = m2\<lparr>timer_srv := ts3, auth_timer := 0\<rparr>"
    using kill_frames by meson
  then show ?thesis
    by (intro exI [of _ ts3] auth_machine.equality) (simp_all add: m1_def)
qed

lemma send_frame_simps [simp]:
  "state_visual (send_frame f m) = state_visual m" "logoff (send_frame f m) = logoff m"
  "logoff_init (send_frame f m) = logoff_init m" "disconnected (send_frame f m) = disconnected m"
  "req_id (send_frame f m) = req_id m" "req_auth (send_frame f m) = req_auth m"
  "eap_failure (send_frame f m) = eap_failure m" "eap_success (send_frame f m) = eap_success m"
  "mc_state (send_frame f m) = mc_state m" "reconnect_fail (send_frame f m) = reconnect_fail m"
  "auth_attempt_count (send_frame f m) = auth_attempt_count m" "recv_id (send_frame f m) = recv_id m"
  by (cases f; simp add: send_frame_def emit_def)+

lemma emit_simps [simp]:
  "state_visual (emit a m) = state_visual m" "logoff (emit a m) = logoff m"
  "logoff_init (emit a m) = logoff_init m" "disconnected (emit a m) = disconnected m"
  "req_id (emit a m) = req_id m" "req_auth (emit a m) = req_auth m"
  "eap_failure (emit a m) = eap_failure m" "eap_success (emit a m) = eap_success m"
  "mc_state (emit a m) = mc_state m" "reconnect_fail (emit a m) = reconnect_fail m" "sent (emit a m) = sent m @ [a]"
  "auth_attempt_count (emit a m) = auth_attempt_count m" "connect_timeout (emit a m) = connect_timeout m"
  "hold_count (emit a m) = hold_count m" "hold_timeout (emit a m) = hold_timeout m"
  "auth_timeout (emit a m) = auth_timeout m" "has_auth_success (emit a m) = has_auth_success m"
  by (simp_all add: emit_def)

lemma timer_simps [simp]:
  "timer_srv (send_frame f m) = timer_srv m" "timer_srv (emit a m) = timer_srv m"
  "auth_timer (send_frame f m) = auth_timer m" "auth_timer (emit a m) = auth_timer m"
  "hold_timer (send_frame f m) = hold_timer m" "hold_timer (emit a m) = hold_timer m"
  "connect_timer (send_frame f m) = connect_timer m" "connect_timer (emit a m) = connect_timer m"
  "prev_state (send_frame f m) = prev_state m" "prev_state (emit a m) = prev_state m"
  "connect_timeout (send_frame f m) = connect_timeout m"
  by (cases f; simp add: send_frame_def emit_def)+

lemma Initlize_flags:
  assumes "Initlize env s m = Ok m'"
  shows "state_visual m' = state_visual m" "logoff m' = logoff m" "reconnect_fail m' = reconnect_fail m"
    "disconnected m' \<longleftrightarrow> s \<noteq> STATE_DISCONNECTED \<and> disconnected m"
    "eap_success m' \<longleftrightarrow> s \<notin> {STATE_DISCONNECTED, STATE_AUTHENTICATED, STATE_HOLD} \<and> eap_success m"
    "eap_failure m' \<longleftrightarrow> s \<notin> {STATE_DISCONNECTED, STATE_AUTHENTICATED, STATE_HOLD} \<and> eap_failure m"
    "logoff_init m' \<longleftrightarrow> s = STATE_LOGOFF \<or> s \<noteq> STATE_DISCONNECTED \<and> logoff_init m"
    "req_id m' \<longleftrightarrow> s \<notin> {STATE_CONNECTING, STATE_ACQUIRED} \<and> req_id m"
    "req_auth m' \<longleftrightarrow> s \<notin> {STATE_ACQUIRED, STATE_AUTHENTICATING} \<and> req_auth m"
    "mc_state m' = s \<or> s = STATE_ACQUIRED \<and> mc_state m' = mc_state m \<or> s = STATE_LOGOFF \<and> mc_state m' = STATE_LOGOFF"
    "s = STATE_CONNECTING \<Longrightarrow> auth_attempt_count m' = auth_attempt_count m + 1"
proof -
  note unfolds = Initlize_def done_or_blocked_def Initlize_Disconnected_def Initlize_Connecting_def Initlize_Acquired_def
    Initlize_Authenticating_def Initlize_Authenticated_def Initlize_Hold_def Initlize_LogOff_def bind_eq_Some_conv
    set_timer_def txStart_def txRspID_def txRspAuth_def txRspAuthPAP_def txLogOff_def c_strlen_def Let_def
  note rules = kill_frames
  show "state_visual m' = state_visual m" "logoff m' = logoff m" "reconnect_fail m' = reconnect_fail m"
    "disconnected m' \<longleftrightarrow> s \<noteq> STATE_DISCONNECTED \<and> disconnected m"
    "eap_success m' \<longleftrightarrow> s \<notin> {STATE_DISCONNECTED, STATE_AUTHENTICATED, STATE_HOLD} \<and> eap_success m"
    "eap_failure m' \<longleftrightarrow> s \<notin> {STATE_DISCONNECTED, STATE_AUTHENTICATED, STATE_HOLD} \<and> eap_failure m"
    "logoff_init m' \<longleftrightarrow> s = STATE_LOGOFF \<or> s \<noteq> STATE_DISCONNECTED \<and> logoff_init m"
    "req_id m' \<longleftrightarrow> s \<notin> {STATE_CONNECTING, STATE_ACQUIRED} \<and> req_id m"
    "req_auth m' \<longleftrightarrow> s \<notin> {STATE_ACQUIRED, STATE_AUTHENTICATING} \<and> req_auth m"
    "mc_state m' = s \<or> s = STATE_ACQUIRED \<and> mc_state m' = mc_state m \<or> s = STATE_LOGOFF \<and> mc_state m' = STATE_LOGOFF"
    "s = STATE_CONNECTING \<Longrightarrow> auth_attempt_count m' = auth_attempt_count m + 1"
    using assms by (cases s; auto simp: unfolds dest!: rules split: option.splits prod.splits if_splits outcome.splits)+
qed

subsection \<open>The recursion ends\<close>

definition entered :: "STATES \<Rightarrow> auth_machine \<Rightarrow> auth_machine \<Rightarrow> bool" where
  "entered s m m' \<longleftrightarrow> state_visual m' = Some s \<and> logoff m' = logoff m \<and>
     (disconnected m' \<longleftrightarrow> s \<noteq> STATE_DISCONNECTED \<and> disconnected m) \<and>
     (eap_success m' \<longleftrightarrow> s \<notin> {STATE_DISCONNECTED, STATE_AUTHENTICATED, STATE_HOLD} \<and> eap_success m) \<and>
     (eap_failure m' \<longleftrightarrow> s \<notin> {STATE_DISCONNECTED, STATE_AUTHENTICATED, STATE_HOLD} \<and> eap_failure m) \<and>
     (logoff_init m' \<longleftrightarrow> s = STATE_LOGOFF \<or> s \<noteq> STATE_DISCONNECTED \<and> logoff_init m) \<and>
     (req_id m' \<longleftrightarrow> s \<notin> {STATE_CONNECTING, STATE_ACQUIRED} \<and> req_id m) \<and>
     (req_auth m' \<longleftrightarrow> s \<notin> {STATE_ACQUIRED, STATE_AUTHENTICATING} \<and> req_auth m) \<and>
     (mc_state m' = s \<or> s = STATE_ACQUIRED \<and> mc_state m' = mc_state m) \<and>
     (s = STATE_CONNECTING \<longrightarrow> auth_attempt_count m' = auth_attempt_count m + 1)"

lemma entered_emit [simp]: "entered s m (emit a m') = entered s m m'"
  by (simp add: entered_def)

lemma entered_reset [simp]: "entered s (m\<lparr>reconnect_fail := a, connect_fail := b\<rparr>) m' = entered s m m'"
  by (simp add: entered_def)

lemma Initlize_entered: "Initlize env s (m\<lparr>state_visual := Some s\<rparr>) = Ok m' \<Longrightarrow> entered s m m'"
proof -
  assume h: "Initlize env s (m\<lparr>state_visual := Some s\<rparr>) = Ok m'"
  note f = Initlize_flags [OF h]
  have "mc_state m' = s \<or> s = STATE_ACQUIRED \<and> mc_state m' = mc_state m" using f(10) by auto
  moreover have "s = STATE_CONNECTING \<Longrightarrow> auth_attempt_count m' = auth_attempt_count m + 1" using f(11) by simp
  ultimately show ?thesis by (simp add: entered_def f(1,2,4-9))
qed

lemma CreateState_int: "s \<noteq> STATE_INVALID \<Longrightarrow> CreateState (int_of_state s) = Some s"
  by (cases s) (simp_all add: CreateState_def int_of_state_def)

lemma int_of_state_pos [simp]: "int_of_state s \<noteq> -1"
  by (cases s) (simp_all add: int_of_state_def)

text \<open>\<open>OnStateMove\<close> returns when the state it enters moves on to calls that return.\<close>

lemma OnStateMove_unfold:
  assumes "state_visual m \<noteq> None" and "mc_state m \<noteq> STATE_LOGOFF"
    and "forced_state m = (m1, f)" and "f \<noteq> None \<or> arg \<noteq> -1"
    and "(case f of None \<Rightarrow> CreateState arg | Some s \<Rightarrow> Some s) = Some s"
  shows "OnStateMove env arg m =
      (case Initlize env s (m1\<lparr>state_visual := Some s\<rparr>) of
         Ok m \<Rightarrow> (let m = (if ruijie_nas env \<or> prev_state m \<noteq> STATE_AUTHENTICATED then emit (Post_Return arg) m else m)
                  in case MoveState env s m of
                       (m, None) \<Rightarrow> Some (after_move (Ok m))
                     | (m, Some s) \<Rightarrow> Option.bind (OnStateMove env (int_of_state s) m) (\<lambda>r. Some (after_move r)))
       | r \<Rightarrow> Some r)"
proof -
  obtain v where v: "state_visual m = Some v" using assms(1) by auto
  have "\<not> (f = None \<and> arg = -1)" using assms(4) by auto
  then show ?thesis by (subst OnStateMove.simps) (simp only: v assms(2,3,5) option.case prod.case if_False)
qed

lemma OnStateMove_enter:
  assumes "state_visual m \<noteq> None" and "mc_state m \<noteq> STATE_LOGOFF"
    and "forced_state m = (m1, f)" and "f \<noteq> None \<or> arg \<noteq> -1"
    and "\<And>s m2 m3 s'. (case f of None \<Rightarrow> CreateState arg | Some s \<Rightarrow> Some s) = Some s \<Longrightarrow> entered s m m2 \<Longrightarrow>
       MoveState env s m2 = (m3, Some s') \<Longrightarrow> \<exists>r. OnStateMove env (int_of_state s') m3 = Some r"
  shows "\<exists>r. OnStateMove env arg m = Some r"
proof (cases "case f of None \<Rightarrow> CreateState arg | Some s \<Rightarrow> Some s")
  case None
  then show ?thesis using assms(1-4) by (subst OnStateMove.simps) (auto split: option.splits)
next
  case (Some s)
  note unfolded = OnStateMove_unfold [OF assms(1-4) Some]
  show ?thesis
  proof (cases "Initlize env s (m1\<lparr>state_visual := Some s\<rparr>)")
    case (Ok m2)
    define m2' where "m2' = (if ruijie_nas env \<or> prev_state m2 \<noteq> STATE_AUTHENTICATED then emit (Post_Return arg) m2 else m2)"
    have "entered s m1 m2'" using Initlize_entered [OF Ok] by (simp add: m2'_def)
    moreover have "m1 = m \<or> m1 = m\<lparr>reconnect_fail := False, connect_fail := False\<rparr>"
      using assms(3) by (auto simp: forced_state_def split: if_splits)
    ultimately have ent: "entered s m m2'" by (elim disjE) simp_all
    obtain m3 s' where move: "MoveState env s m2' = (m3, s')" by force
    have eq: "OnStateMove env arg m = (case s' of None \<Rightarrow> Some (after_move (Ok m3))
        | Some s \<Rightarrow> Option.bind (OnStateMove env (int_of_state s) m3) (\<lambda>r. Some (after_move r)))"
      unfolding unfolded Ok outcome.case Let_def m2'_def [symmetric] move by simp
    show ?thesis
    proof (cases s')
      case (Some s'')
      then obtain r where "OnStateMove env (int_of_state s'') m3 = Some r"
        using assms(5) [OF \<open>_ = Some s\<close> ent] move by blast
      then show ?thesis by (simp add: eq Some)
    qed (simp add: eq)
  qed (simp_all add: unfolded)
qed

text \<open>
  A machine is \<open>ready\<close> when no flag forces a state, except perhaps the request to log off, and
  \<open>live\<close> when it has a state and the log off has been done only if the state says so.
\<close>

definition live :: "auth_machine \<Rightarrow> bool" where
  "live m \<longleftrightarrow> state_visual m \<noteq> None \<and> (logoff_init m \<longrightarrow> mc_state m = STATE_LOGOFF)"

definition ready :: "auth_machine \<Rightarrow> bool" where
  "ready m \<longleftrightarrow> live m \<and> \<not> eap_success m \<and> \<not> eap_failure m \<and> \<not> disconnected m"

definition ends :: "auth_env \<Rightarrow> int \<Rightarrow> auth_machine \<Rightarrow> bool" where
  "ends env arg m \<longleftrightarrow> (\<exists>r. OnStateMove env arg m = Some r)"

lemma ends_LOGOFF: "state_visual m \<noteq> None \<Longrightarrow> mc_state m = STATE_LOGOFF \<Longrightarrow> ends env arg m"
  unfolding ends_def by (subst OnStateMove.simps) auto

lemma forced_ready:
  "ready m \<Longrightarrow> forced_state m = (m, if logoff m \<and> \<not> logoff_init m then Some STATE_LOGOFF else None)"
  by (simp add: forced_state_def ready_def IsAuthenticated_def IsDisconnected_def IsHeld_def IsLogOff_def)

lemma entered_live: "entered s m m' \<Longrightarrow> \<not> logoff_init m \<Longrightarrow> live m'"
  by (auto simp: entered_def live_def)

lemma entered_ready: "entered s m m' \<Longrightarrow> ready m \<Longrightarrow> \<not> logoff_init m \<Longrightarrow> ready m'"
  using entered_live [of s m m'] by (simp add: ready_def entered_def)

lemma MoveState_frame:
  assumes "MoveState env s m = (m', t)"
  shows "state_visual m' = state_visual m" "mc_state m' = mc_state m" "logoff_init m' = logoff_init m"
    "eap_success m' = eap_success m" "eap_failure m' = eap_failure m" "disconnected m' = disconnected m"
    "req_id m' = req_id m" "req_auth m' = req_auth m" "auth_attempt_count m' = auth_attempt_count m"
  using assms by (cases s; auto simp: MoveState_def Move_Hold_def Let_def split: if_splits)+

lemma MoveState_ready: "MoveState env s m = (m', t) \<Longrightarrow> ready m' = ready m"
  by (simp add: ready_def live_def MoveState_frame)

lemma MoveState_target: "MoveState env s m = (m', Some t) \<Longrightarrow> t \<noteq> STATE_INVALID"
  by (cases s) (auto simp: MoveState_def Move_Hold_def Let_def split: if_splits)

text \<open>From a ready machine a call enters the state it names, or the logged off state, which ends it.\<close>

lemma ends_ready:
  assumes "ready m" and "s \<noteq> STATE_INVALID"
    and "\<And>m2 m3 s'. entered s m m2 \<Longrightarrow> ready m3 \<Longrightarrow> req_id m3 = req_id m2 \<Longrightarrow>
       auth_attempt_count m3 = auth_attempt_count m2 \<Longrightarrow>
       MoveState env s m2 = (m3, Some s') \<Longrightarrow> ends env (int_of_state s') m3"
  shows "ends env (int_of_state s) m"
proof (cases "mc_state m = STATE_LOGOFF")
  case True
  then show ?thesis using assms(1) ends_LOGOFF by (simp add: ready_def live_def)
next
  case False
  then have logoff: "\<not> logoff_init m" using assms(1) by (simp add: ready_def live_def)
  show ?thesis
    unfolding ends_def
  proof (rule OnStateMove_enter [OF _ False forced_ready [OF assms(1)]])
    fix t m2 m3 s'
    assume t: "(case if logoff m \<and> \<not> logoff_init m then Some STATE_LOGOFF else None of
        None \<Rightarrow> CreateState (int_of_state s) | Some s \<Rightarrow> Some s) = Some t"
      and m2: "entered t m m2" "MoveState env t m2 = (m3, Some s')"
    have "ends env (int_of_state s') m3"
    proof (cases "t = STATE_LOGOFF")
      case True
      with m2 have "mc_state m3 = STATE_LOGOFF" "state_visual m3 \<noteq> None"
        by (auto simp: MoveState_frame [OF m2(2)] entered_def)
      then show ?thesis using ends_LOGOFF by blast
    next
      case False
      then have "t = s" using t assms(2) by (simp add: CreateState_int split: if_splits)
      then show ?thesis
        using assms(3) [of m2 m3 s'] m2 entered_ready [OF m2(1) assms(1) logoff] MoveState_ready [OF m2(2)]
          MoveState_frame [OF m2(2)] by blast
    qed
    then show "\<exists>r. OnStateMove env (int_of_state s') m3 = Some r" by (simp add: ends_def)
  qed (use assms(1) in \<open>auto simp: ready_def live_def\<close>)
qed

lemma ends_AUTHENTICATED_no_request:
  "ready m \<Longrightarrow> \<not> req_id m \<Longrightarrow> ends env (int_of_state STATE_AUTHENTICATED) m"
  by (rule ends_ready) (auto simp: MoveState_def entered_def)

text \<open>
  The retries of \<open>CStateConnecting\<close> count up to the configured number of starts; a counter above it
  wraps at most once.
\<close>

lemma MoveState_CONNECTING:
  assumes "MoveState env STATE_CONNECTING m = (m', Some s)" and "\<not> req_id m"
  shows "s = STATE_CONNECTING \<and> m' = m \<and> auth_attempt_count m < startnumber env \<or>
    s = STATE_AUTHENTICATED \<and> m' = m\<lparr>reconnect_fail := True\<rparr>"
  using assms by (auto simp: MoveState_def split: if_splits)

lemma entered_CONNECTING:
  "entered STATE_CONNECTING m m' \<Longrightarrow> \<not> req_id m' \<and> auth_attempt_count m' = auth_attempt_count m + 1"
  by (simp add: entered_def)

lemma unat_below_Suc: "x < y \<Longrightarrow> unat (x + 1) = unat x + 1" for x y :: u32
  by unat_arith

lemma ends_CONNECTING_below:
  "ready m \<Longrightarrow> auth_attempt_count m < startnumber env \<Longrightarrow> unat (startnumber env) - unat (auth_attempt_count m) = n \<Longrightarrow>
     ends env (int_of_state STATE_CONNECTING) m"
proof (induction n arbitrary: m rule: less_induct)
  case (less n)
  show ?case
  proof (rule ends_ready [OF less.prems(1)])
    fix m2 m3 s'
    assume m: "entered STATE_CONNECTING m m2" "ready m3" "req_id m3 = req_id m2"
      "auth_attempt_count m3 = auth_attempt_count m2" "MoveState env STATE_CONNECTING m2 = (m3, Some s')"
    note e = entered_CONNECTING [OF m(1)]
    consider "s' = STATE_CONNECTING" "auth_attempt_count m2 < startnumber env" | "s' = STATE_AUTHENTICATED"
      using MoveState_CONNECTING [OF m(5)] e by blast
    then show "ends env (int_of_state s') m3"
    proof cases
      case 1
      have "unat (auth_attempt_count m + 1) = unat (auth_attempt_count m) + 1"
        using less.prems(2) by (rule unat_below_Suc)
      then have "unat (startnumber env) - unat (auth_attempt_count m3) < n"
        using less.prems(2,3) m(4) e by (simp add: word_less_nat_alt)
      then show ?thesis
        using less.IH [OF _ m(2) _ refl] 1 m(4) by simp
    qed (use ends_AUTHENTICATED_no_request m(2,3) e in simp)
  qed simp
qed

lemma ends_CONNECTING: "ready m \<Longrightarrow> ends env (int_of_state STATE_CONNECTING) m"
proof (erule ends_ready)
  fix m2 m3 s'
  assume m: "entered STATE_CONNECTING m m2" "ready m3" "req_id m3 = req_id m2"
    "auth_attempt_count m3 = auth_attempt_count m2" "MoveState env STATE_CONNECTING m2 = (m3, Some s')"
  then show "ends env (int_of_state s') m3"
    using MoveState_CONNECTING [OF m(5)] entered_CONNECTING [OF m(1)] ends_CONNECTING_below [OF m(2) _ refl]
      ends_AUTHENTICATED_no_request by auto
qed simp

lemma MoveState_HOLD: "MoveState env STATE_HOLD m = (m', Some s) \<Longrightarrow> s = STATE_CONNECTING \<or> s = STATE_ACQUIRED \<and> req_id m"
  by (auto simp: MoveState_def Move_Hold_def Let_def split: if_splits)

lemma entered_req: "entered s m m' \<Longrightarrow> req_id m' \<Longrightarrow> req_id m"
  by (simp add: entered_def)

lemma ends_HOLD_no_request: "ready m \<Longrightarrow> \<not> req_id m \<Longrightarrow> ends env (int_of_state STATE_HOLD) m"
  by (rule ends_ready) (auto dest!: MoveState_HOLD dest: entered_req intro: ends_CONNECTING)

lemma ends_ACQUIRED: "ready m \<Longrightarrow> ends env (int_of_state STATE_ACQUIRED) m"
proof (erule ends_ready)
  fix m2 m3 s'
  assume m: "entered STATE_ACQUIRED m m2" "ready m3" "req_id m3 = req_id m2"
    "auth_attempt_count m3 = auth_attempt_count m2" "MoveState env STATE_ACQUIRED m2 = (m3, Some s')"
  then have "\<not> req_id m3" "s' = STATE_HOLD"
    by (auto simp: MoveState_def entered_def split: if_splits)
  then show "ends env (int_of_state s') m3"
    using m(2) ends_HOLD_no_request by simp
qed simp

lemma ends_HOLD: "ready m \<Longrightarrow> ends env (int_of_state STATE_HOLD) m"
  by (rule ends_ready) (auto dest!: MoveState_HOLD intro: ends_CONNECTING ends_ACQUIRED)

lemma ends_ready_all:
  assumes "ready m" and "s \<noteq> STATE_INVALID"
  shows "ends env (int_of_state s) m"
proof -
  consider "s = STATE_CONNECTING" | "s = STATE_HOLD" | "s = STATE_ACQUIRED"
    | "s \<in> {STATE_DISCONNECTED, STATE_AUTHENTICATING, STATE_AUTHENTICATED, STATE_LOGOFF}"
    using assms(2) by (cases s) auto
  then show ?thesis
  proof cases
    case 4
    show ?thesis
    proof (rule ends_ready [OF assms])
      fix m2 m3 s'
      assume m: "entered s m m2" "ready m3" "MoveState env s m2 = (m3, Some s')"
      show "ends env (int_of_state s') m3"
      proof (cases "s = STATE_LOGOFF")
        case True
        then show ?thesis
          using m MoveState_frame [OF m(3)] by (intro ends_LOGOFF) (auto simp: entered_def)
      next
        case False
        then have "s = STATE_DISCONNECTED \<or> s = STATE_AUTHENTICATING \<or> s = STATE_AUTHENTICATED" using 4 by auto
        then have "s' \<in> {STATE_CONNECTING, STATE_ACQUIRED, STATE_HOLD}"
          if "\<not> req_auth m2 \<or> s \<noteq> STATE_AUTHENTICATING"
          using m(3) that by (elim disjE) (simp_all add: MoveState_def split: if_splits)
        moreover have "\<not> req_auth m2 \<or> s \<noteq> STATE_AUTHENTICATING" using m(1) by (simp add: entered_def)
        ultimately have "s' \<in> {STATE_CONNECTING, STATE_ACQUIRED, STATE_HOLD}" by blast
        then show ?thesis using m(2) ends_CONNECTING ends_ACQUIRED ends_HOLD by auto
      qed
    qed
  qed (use assms ends_CONNECTING ends_HOLD ends_ACQUIRED in simp_all)
qed

lemma ends_move:
  assumes "ready m" and "MoveState env s m = (m', Some s')"
  shows "ends env (int_of_state s') m'"
  using assms by (intro ends_ready_all) (simp_all add: MoveState_ready MoveState_target)

lemma forced_clears:
  assumes "forced_state m = (m1, Some s)" and "entered s m m2" and "mc_state m2 \<noteq> STATE_LOGOFF"
  shows "\<not> eap_success m2 \<and> \<not> eap_failure m2 \<and> \<not> disconnected m2"
  using assms by (auto simp: forced_state_def IsAuthenticated_def IsDisconnected_def IsHeld_def IsLogOff_def entered_def
      split: if_splits)

lemma not_forced_ready: "live m \<Longrightarrow> mc_state m \<noteq> STATE_LOGOFF \<Longrightarrow> forced_state m = (m1, None) \<Longrightarrow> m1 = m \<and> ready m"
  by (auto simp: forced_state_def IsAuthenticated_def IsDisconnected_def IsHeld_def IsLogOff_def live_def ready_def
      split: if_splits)

lemma CreateState_valid: "CreateState arg = Some s \<Longrightarrow> s \<noteq> STATE_INVALID"
  by (auto simp: CreateState_def split: if_splits)

lemma ends_live:
  assumes "live m"
  shows "ends env arg m"
proof (cases "mc_state m = STATE_LOGOFF")
  case True
  then show ?thesis using assms ends_LOGOFF by (simp add: live_def)
next
  case False
  with assms obtain v where v: "state_visual m = Some v" and logoff: "\<not> logoff_init m" by (auto simp: live_def)
  obtain m1 f where f: "forced_state m = (m1, f)" by force
  show ?thesis
  proof (cases "f = None \<and> arg = -1")
    case True
    then have m1: "m1 = m" "ready m" using not_forced_ready [OF assms False] f by auto
    obtain m2 t where move: "MoveState env v m = (m2, t)" by force
    have "OnStateMove env arg m =
        (case t of None \<Rightarrow> Some (Ok m2) | Some s \<Rightarrow> OnStateMove env (int_of_state s) m2)"
      by (subst OnStateMove.simps) (simp add: v False f True move m1)
    then show ?thesis using ends_move [OF m1(2)] move by (cases t) (auto simp: ends_def)
  next
    case enters: False
    show ?thesis
      unfolding ends_def
    proof (rule OnStateMove_enter [OF _ False f])
      fix s m2 m3 s'
      assume s: "(case f of None \<Rightarrow> CreateState arg | Some s \<Rightarrow> Some s) = Some s" "entered s m m2"
        and move: "MoveState env s m2 = (m3, Some s')"
      have "ends env (int_of_state s') m3"
      proof (cases "mc_state m2 = STATE_LOGOFF")
        case True
        then show ?thesis
          using s(2) MoveState_frame [OF move] by (intro ends_LOGOFF) (simp_all add: entered_def)
      next
        case False2: False
        have "ready m2"
        proof (cases f)
          case None
          then show ?thesis using not_forced_ready [OF assms False] f entered_ready [OF s(2) _ logoff] by simp
        next
          case (Some t)
          then show ?thesis
            using s forced_clears [of m m1 s m2] f False2 entered_live [OF s(2) logoff] by (simp add: ready_def)
        qed
        then show ?thesis by (rule ends_move [OF _ move])
      qed
      then show "\<exists>r. OnStateMove env (int_of_state s') m3 = Some r" by (simp add: ends_def)
    qed (use v enters in auto)
  qed
qed

text \<open>Every call from a live machine leaves a live machine.\<close>

lemma after_move_live: "after_move r = Ok m' \<Longrightarrow> (\<And>m. r = Ok m \<Longrightarrow> live m) \<Longrightarrow> live m'"
  by (cases r) (auto simp: after_move_def live_def split: if_splits)

lemma OnStateMove_live:
  assumes "OnStateMove env arg m = Some r" and "live m"
  shows "r = Ok m' \<Longrightarrow> live m'"
  using assms
proof (induction arbitrary: m' rule: OnStateMove.raw_induct [rotated, consumes 1])
  case (1 rec env arg m r)
  show ?case
  proof (cases "mc_state m = STATE_LOGOFF")
    case True
    then show ?thesis using 1(2,3,4) by (auto split: option.splits)
  next
    case False
    obtain v where v: "state_visual m = Some v" and logoff: "\<not> logoff_init m" using 1(4) False by (auto simp: live_def)
    obtain m1 f where f: "forced_state m = (m1, f)" by force
    note body = 1(2) [unfolded v option.case f prod.case if_not_P [OF False]]
    show ?thesis
    proof (cases "f = None \<and> arg = -1")
      case True
      obtain m2 t where move: "MoveState env v m1 = (m2, t)" by force
      have "m1 = m" "ready m" using not_forced_ready [OF 1(4) False] f True by auto
      then have "live m2" using MoveState_ready [OF move] by (simp add: ready_def)
      then show ?thesis using body 1(1) 1(3) True move by (auto split: option.splits)
    next
      case enters: False
      show ?thesis
      proof (cases "case f of None \<Rightarrow> CreateState arg | Some s \<Rightarrow> Some s")
        case None
        then show ?thesis using body 1(3) enters by auto
      next
        case (Some s)
        note body = body [unfolded if_not_P [OF enters] Some option.case]
        show ?thesis
        proof (cases "Initlize env s (m1\<lparr>state_visual := Some s\<rparr>)")
          case (Ok m2)
          define m2' where "m2' = (if ruijie_nas env \<or> prev_state m2 \<noteq> STATE_AUTHENTICATED then emit (Post_Return arg) m2 else m2)"
          have "\<not> logoff_init m1" using f logoff by (auto simp: forced_state_def split: if_splits)
          then have "live m2" using entered_live [OF Initlize_entered [OF Ok]] by blast
          then have "live m2'" by (simp add: m2'_def live_def)
          moreover obtain m3 t where move: "MoveState env s m2' = (m3, t)" by force
          ultimately have "live m3" by (simp add: live_def MoveState_frame [OF move])
          moreover have "(case t of None \<Rightarrow> Some (after_move (Ok m3))
             | Some s \<Rightarrow> Option.bind (rec env (int_of_state s) m3) (\<lambda>r. Some (after_move r))) = Some (Ok m')"
            using body 1(3) by (simp only: Ok outcome.case Let_def m2'_def [symmetric] move prod.case)
          ultimately show ?thesis
            using 1(1) by (auto simp: bind_eq_Some_conv split: option.splits intro: after_move_live)
        qed (use body 1(3) in auto)
      qed
    qed
  qed
qed

text \<open>The handlers keep a machine live, or without a state, and always return.\<close>

definition auth_inv :: "auth_machine \<Rightarrow> bool" where
  "auth_inv m \<longleftrightarrow> state_visual m = None \<or> live m"

definition returns :: "auth_machine outcome option \<Rightarrow> bool" where
  "returns x \<longleftrightarrow> (\<exists>r. x = Some r \<and> (\<forall>m'. r = Ok m' \<longrightarrow> auth_inv m'))"

lemma returns_simps [simp]:
  "returns (Some (Ok m)) = auth_inv m" "returns (Some Crash)" "returns (Some Blocked)"
  by (simp_all add: returns_def)

lemma ends_any: "auth_inv m \<Longrightarrow> returns (OnStateMove env arg m)"
proof (cases "state_visual m")
  case None
  then show ?thesis by (subst OnStateMove.simps) simp
next
  case (Some v)
  moreover assume "auth_inv m"
  ultimately have "live m" by (simp add: auth_inv_def)
  then show ?thesis
    using ends_live OnStateMove_live by (fastforce simp: auth_inv_def ends_def returns_def)
qed

lemma parseFrame_frame:
  assumes "parseFrame env frame m = Ok (n, m')"
  shows "state_visual m' = state_visual m \<and> logoff_init m' = logoff_init m \<and> mc_state m' = mc_state m"
proof -
  note unfolds = parseFrame_def Let_def FailNotification_def SendNotificationFrame_def SendNAKFrame_def
  show ?thesis
  proof (cases "fr_code frame = EAP_REQUEST")
    case True
    then show ?thesis
      using assms by (cases "fr_type frame") (simp_all add: unfolds split: if_split_asm, auto)
  next
    case False
    then show ?thesis
      using assms by (cases "fr_code frame") (simp_all add: unfolds split: if_split_asm, auto)
  qed
qed

lemma auth_inv_cong:
  "state_visual m' = state_visual m \<Longrightarrow> logoff_init m' = logoff_init m \<Longrightarrow> mc_state m' = mc_state m \<Longrightarrow>
     auth_inv m' = auth_inv m"
  by (simp add: auth_inv_def live_def)

lemma OnTimer_returns:
  assumes "auth_inv m"
  shows "returns (OnTimer env tflag m)"
proof -
  have expire: "returns (case k of None \<Rightarrow> Some Blocked
             | Some m \<Rightarrow> (case OnStateMove env (-1) m of
                Some (Ok m) \<Rightarrow> Some (Ok (m\<lparr>timer_srv := OnTimerLeave (timer_srv m) tflag\<rparr>)) | r \<Rightarrow> r))"
    if "\<And>m. k = Some m \<Longrightarrow> auth_inv m" for k
  proof (cases k)
    case (Some m)
    then obtain r where "OnStateMove env (-1) m = Some r" "\<forall>m'. r = Ok m' \<longrightarrow> auth_inv m'"
      using ends_any [of m env "-1"] \<open>k = Some m \<Longrightarrow> auth_inv m\<close> unfolding returns_def by blast
    then show ?thesis using Some by (cases r) (simp_all add: auth_inv_def live_def)
  qed simp
  have inv: "auth_inv (m\<lparr>auth_timeout := 0\<rparr>)" "auth_inv (m\<lparr>hold_timeout := 0\<rparr>)" "auth_inv (SetStartWhen m)"
    "auth_inv (m\<lparr>timer_srv := OnTimerLeave (timer_srv m) tflag\<rparr>)"
    using assms by (simp_all add: auth_inv_def live_def SetStartWhen_def InitStartDstMac_def Let_def)
  have kills: "auth_inv m'" if "kill_auth_timer env m1 = Some m' \<or> kill_connect_timer env m1 = Some m' \<or>
      kill_hold_timer env m1 = Some m'" and "auth_inv m1" for m1 m'
    using that by (auto dest!: kill_frames simp: auth_inv_def live_def)
  note steps = expire [of "kill_auth_timer env (m\<lparr>auth_timeout := 0\<rparr>)"] expire [of "kill_connect_timer env (SetStartWhen m)"]
      expire [of "kill_hold_timer env (m\<lparr>hold_timeout := 0\<rparr>)"]
  have kinds: "returns (if c1 then Some Crash else if c2 then a else if c3 then b else if c4 then c else Some (Ok d))"
    if "returns a" "returns b" "returns c" "auth_inv d" for c1 c2 c3 c4 a b c d
    using that by simp
  show ?thesis
    unfolding OnTimer_def Let_def by (rule kinds; (rule steps)?) (use kills inv in blast)+
qed

lemma OnPacketNotify_returns:
  assumes "auth_inv m"
  shows "returns (OnPacketNotify env frame m)"
proof (cases "parseFrame env frame m")
  case (Ok p)
  then have frame: "parseFrame env frame m = Ok (fst p, snd p)" by simp
  have "auth_inv (snd p)"
    using assms parseFrame_frame [OF frame] by (simp add: auth_inv_cong [of "snd p" m])
  then show ?thesis
    using ends_any [of "snd p" env "-1"] assms by (simp add: OnPacketNotify_def frame case_prod_unfold)
qed (use assms in \<open>simp_all add: OnPacketNotify_def\<close>)

lemma OnStartMachine_returns: "returns (OnStartMachine env m)"
  unfolding OnStartMachine_def by (rule ends_any) (simp add: auth_inv_def live_def)

lemma DispathMessage_any:
  assumes "auth_inv m"
  shows "returns (DispathMessage env msg m)"
proof -
  have "auth_inv (OnSendLogoff env reason m)" for reason
    using assms by (simp add: OnSendLogoff_def txLogOff_def auth_inv_def live_def Let_def)
  moreover have "auth_inv (OnSayHello n m)" for n
    using assms by (simp add: OnSayHello_def auth_inv_def live_def)
  moreover have "auth_inv (txSetLogOff_CompThird m)"
    using assms by (simp add: txSetLogOff_CompThird_def auth_inv_def live_def)
  ultimately show ?thesis
    using OnTimer_returns [OF assms] OnPacketNotify_returns [OF assms] OnStartMachine_returns ends_any [OF assms]
    by (cases msg) (simp_all add: DispathMessage_def)
qed

lemma auth_init_inv: "auth_inv auth_init"
  by (simp add: auth_inv_def auth_init_def)

subsection \<open>Starting the machine\<close>

definition idle :: "auth_machine \<Rightarrow> bool" where
  "idle m \<longleftrightarrow> ready m \<and> \<not> logoff m \<and> mc_state m \<noteq> STATE_LOGOFF"

lemma forced_idle: "idle m \<Longrightarrow> forced_state m = (m, None)"
  by (simp add: idle_def forced_ready)

definition quits :: "auth_machine \<Rightarrow> auth_machine outcome \<Rightarrow> bool" where
  "quits m r \<longleftrightarrow> r = Blocked \<or> (\<exists>m' as. r = Ok m' \<and> state_visual m' \<noteq> None \<and> mc_state m' = STATE_LOGOFF \<and>
     sent m' = sent m @ as \<and> list_all opens_or_closes as)"

lemma quits_after_move: "quits m r \<Longrightarrow> quits m (after_move r)"
  by (auto simp: quits_def after_move_def)

lemma quits_trans: "quits m1 r \<Longrightarrow> sent m1 = sent m @ as \<Longrightarrow> list_all opens_or_closes as \<Longrightarrow> quits m r"
  by (fastforce simp: quits_def)

lemma quits_loop:
  assumes "OnStateMove env arg m = Some r"
    and "arg = 2 \<or> arg = 5 \<and> \<not> req_id m \<and> reconnect_fail m" and "idle m"
  shows "quits m r"
  using assms
proof (induction rule: OnStateMove.raw_induct [rotated, consumes 1])
  case (1 rec env arg m r)
  obtain v where v: "state_visual m = Some v" using 1(4) by (auto simp: idle_def ready_def live_def)
  have off: "mc_state m \<noteq> STATE_LOGOFF" "\<not> logoff_init m"
    using 1(4) by (auto simp: idle_def ready_def live_def)
  have arg: "\<not> (None = (None :: STATES option) \<and> arg = -1)" using 1(3) by auto
  note body = 1(2) [unfolded v option.case forced_idle [OF 1(4)] prod.case if_not_P [OF off(1)] if_not_P [OF arg]]
  consider "arg = 2" | "arg = 5" "\<not> req_id m" "reconnect_fail m" using 1(3) by blast
  then show ?case
  proof cases
    case arg: 1
    have create: "CreateState arg = Some STATE_CONNECTING" by (simp add: arg CreateState_def)
    show ?thesis
    proof (cases "Initlize_Connecting env (m\<lparr>state_visual := Some STATE_CONNECTING\<rparr>)")
      case None
      then show ?thesis using body by (simp add: create Initlize_def done_or_blocked_def quits_def)
    next
      case (Some m2)
      then have init: "Initlize env STATE_CONNECTING (m\<lparr>state_visual := Some STATE_CONNECTING\<rparr>) = Ok m2"
        by (simp add: Initlize_def done_or_blocked_def)
      define m2' where "m2' = (if ruijie_nas env \<or> prev_state m2 \<noteq> STATE_AUTHENTICATED then emit (Post_Return arg) m2 else m2)"
      have ent: "entered STATE_CONNECTING m m2'" using Initlize_entered [OF init] by (simp add: m2'_def)
      then have idle: "idle m2'" "\<not> req_id m2'"
        using entered_ready [OF ent _ off(2)] 1(4) by (simp_all add: idle_def entered_def)
      obtain as where "sent m2 = sent m @ as" "list_all opens_or_closes as"
        using Initlize_Connecting_frame [OF Some] by auto
      then obtain as where as: "sent m2' = sent m @ as" "list_all opens_or_closes as"
        by (cases "m2' = m2") (auto simp: m2'_def opens_or_closes_def split: if_splits)
      obtain m3 t where move: "MoveState env STATE_CONNECTING m2' = (m3, t)" by force
      have "(case t of None \<Rightarrow> Some (after_move (Ok m3))
             | Some s \<Rightarrow> Option.bind (rec env (int_of_state s) m3) (\<lambda>r. Some (after_move r))) = Some r"
        using body by (simp only: create option.case init outcome.case Let_def m2'_def [symmetric] move prod.case)
      moreover obtain s where t: "t = Some s"
          "s = STATE_CONNECTING \<and> m3 = m2' \<or> s = STATE_AUTHENTICATED \<and> m3 = m2'\<lparr>reconnect_fail := True\<rparr>"
        using move idle(2) by (auto simp: MoveState_def split: if_splits)
      ultimately obtain r' where r': "rec env (int_of_state s) m3 = Some r'" "r = after_move r'"
        by (auto simp: bind_eq_Some_conv)
      have m3: "idle m3" "sent m3 = sent m2'"
        using t(2) idle(1) by (auto simp: idle_def ready_def live_def)
      have "int_of_state s = 2 \<or> int_of_state s = 5 \<and> \<not> req_id m3 \<and> reconnect_fail m3"
        using t(2) idle(2) by (auto simp: int_of_state_def)
      then have "quits m3 r'" by (rule 1(1) [OF r'(1) _ m3(1)])
      then show ?thesis using quits_after_move quits_trans as m3(2) r'(2) by metis
    qed
  next
    case arg: 2
    have create: "CreateState arg = Some STATE_AUTHENTICATED" by (simp add: arg CreateState_def)
    show ?thesis
    proof (cases "Initlize_Authenticated env (m\<lparr>state_visual := Some STATE_AUTHENTICATED\<rparr>)")
      case None
      then show ?thesis using body by (simp add: create Initlize_def done_or_blocked_def quits_def)
    next
      case (Some m2)
      then have init: "Initlize env STATE_AUTHENTICATED (m\<lparr>state_visual := Some STATE_AUTHENTICATED\<rparr>) = Ok m2"
        by (simp add: Initlize_def done_or_blocked_def)
      define m2' where "m2' = (if ruijie_nas env \<or> prev_state m2 \<noteq> STATE_AUTHENTICATED then emit (Post_Return arg) m2 else m2)"
      have m2: "\<not> req_id m2" "reconnect_fail m2" "sent m2 = sent m" "state_visual m2 = Some STATE_AUTHENTICATED"
        using Initlize_Authenticated_frame [OF Some] arg(2,3) by auto
      then have m2': "MoveState env STATE_AUTHENTICATED m2' = (m2', None)" "reconnect_fail m2'"
          "state_visual m2' \<noteq> None" "\<exists>as. sent m2' = sent m @ as \<and> list_all opens_or_closes as"
        by (auto simp: m2'_def MoveState_def opens_or_closes_def)
      have "Some (after_move (Ok m2')) = Some r"
        using body by (simp only: create option.case init outcome.case Let_def m2'_def [symmetric] m2'(1) prod.case)
      then show ?thesis using m2'(2-4) by (auto simp: after_move_def quits_def)
    qed
  qed
qed

lemma OnStartMachine_connects:
  "\<exists>m2. idle m2 \<and> sent m2 = sent m @ [Post_Return (-1)] \<and> timer_srv m2 = timer_srv m \<and>
     auth_timer m2 = auth_timer m \<and> hold_timer m2 = hold_timer m \<and> connect_timer m2 = connect_timer m \<and>
     OnStartMachine env m =
       Option.bind (OnStateMove env (int_of_state STATE_CONNECTING) m2) (\<lambda>r. Some (after_move r))"
proof -
  let ?m = "m\<lparr>has_auth_success := False, reconnect_fail := False, connect_fail := False,
      state_visual := Some STATE_DISCONNECTED, logoff := False, hold_count := 0, logoff_init := False,
      disconnected := True, mc_state := STATE_INVALID, prev_state := STATE_INVALID\<rparr>"
  define m2 where "m2 = emit (Post_Return (-1)) (Initlize_Disconnected (?m\<lparr>state_visual := Some STATE_DISCONNECTED\<rparr>))"
  have forced: "forced_state ?m = (?m, Some STATE_DISCONNECTED)"
    by (simp add: forced_state_def IsAuthenticated_def IsDisconnected_def)
  have "OnStateMove env (-1) ?m =
      Option.bind (OnStateMove env (int_of_state STATE_CONNECTING) m2) (\<lambda>r. Some (after_move r))"
    by (subst OnStateMove.simps, subst forced)
      (simp add: m2_def Initlize_def Initlize_Disconnected_def MoveState_def)
  moreover have "idle m2"
    by (simp add: m2_def idle_def ready_def live_def Initlize_Disconnected_def)
  moreover have "sent m2 = sent m @ [Post_Return (-1)]" "timer_srv m2 = timer_srv m"
     "auth_timer m2 = auth_timer m" "hold_timer m2 = hold_timer m" "connect_timer m2 = connect_timer m"
    by (simp_all add: m2_def Initlize_Disconnected_def)
  ultimately show ?thesis by (intro exI [of _ m2]) (simp add: OnStartMachine_def)
qed

lemma OnStartMachine_quits:
  assumes "OnStartMachine env m = Some r"
  shows "quits m r"
proof -
  obtain m2 where m2: "idle m2" "sent m2 = sent m @ [Post_Return (-1)]"
      "OnStartMachine env m = Option.bind (OnStateMove env (int_of_state STATE_CONNECTING) m2) (\<lambda>r. Some (after_move r))"
    using OnStartMachine_connects by blast
  then obtain r' where r': "OnStateMove env 2 m2 = Some r'" "r = after_move r'"
    using assms by (cases "OnStateMove env 2 m2") (auto simp: int_of_state_def)
  then have "quits m2 r'" using quits_loop [OF r'(1)] m2(1) by simp
  then show ?thesis
    using quits_after_move quits_trans [of m2 r' m "[Post_Return (-1)]"] m2(2) r'(2) by (simp add: opens_or_closes_def)
qed

text \<open>The machines that the messages reach.\<close>

inductive auth_reachable :: "auth_env \<Rightarrow> auth_machine \<Rightarrow> bool" for env where
  auth_reachable_init: "auth_reachable env auth_init"
| auth_reachable_step:
    "auth_reachable env m \<Longrightarrow> DispathMessage env msg m = Some (Ok m') \<Longrightarrow> auth_reachable env m'"

definition ended :: "auth_machine \<Rightarrow> bool" where
  "ended m \<longleftrightarrow> (state_visual m = None \<or> mc_state m = STATE_LOGOFF) \<and> list_all opens_or_closes (sent m)"

lemma ended_move: "ended m \<Longrightarrow> OnStateMove env arg m = Some (Ok m') \<Longrightarrow> m' = m"
  by (subst (asm) OnStateMove.simps) (auto simp: ended_def split: option.splits)

lemma ended_timer:
  assumes "ended m" and "OnTimer env tflag m = Some (Ok m')"
  shows "ended m'"
proof -
  have kill: "ended m'" if "kill_auth_timer env m1 = Some m' \<or> kill_connect_timer env m1 = Some m' \<or>
      kill_hold_timer env m1 = Some m'" and "ended m1" for m1 m'
    using that by (auto dest!: kill_frames simp: ended_def)
  have step: "ended m'" if "ended m1" and "k m1 = Some m2" and "k = kill_auth_timer env \<or> k = kill_connect_timer env \<or> k = kill_hold_timer env"
    and "OnStateMove env (-1) m2 = Some (Ok m3)" and "m' = m3\<lparr>timer_srv := ts\<rparr>" for k m1 m2 m3 ts
  proof -
    have "ended m2" using kill [of m1 m2] that(1-3) by auto
    then have "ended m3" using ended_move [OF _ that(4)] by simp
    then show ?thesis by (simp add: that(5) ended_def)
  qed
  have start: "ended (m\<lparr>auth_timeout := 0\<rparr>)" "ended (m\<lparr>hold_timeout := 0\<rparr>)" "ended (SetStartWhen m)"
    "\<And>ts. ended (m\<lparr>timer_srv := ts\<rparr>)"
    using assms(1) by (simp_all add: ended_def SetStartWhen_def InitStartDstMac_def Let_def)
  have "ended m'" if "(case k m1 of None \<Rightarrow> Some Blocked | Some m \<Rightarrow> (case OnStateMove env (-1) m of
      Some (Ok m) \<Rightarrow> Some (Ok (m\<lparr>timer_srv := OnTimerLeave (timer_srv m) tflag\<rparr>)) | r \<Rightarrow> r)) = Some (Ok m')"
      and "k = kill_auth_timer env \<or> k = kill_connect_timer env \<or> k = kill_hold_timer env" and "ended m1" for k m1
    using that step by (auto split: option.splits outcome.splits)
  then show ?thesis
    using assms(2) start unfolding OnTimer_def Let_def by (simp split: if_split_asm) blast+
qed

lemma ended_step:
  assumes "ended m" and "DispathMessage env msg m = Some (Ok m')"
  shows "ended m'"
proof (cases msg)
  case Start_Machine
  then have "quits m (Ok m')" using OnStartMachine_quits assms(2) by (simp add: DispathMessage_def)
  then show ?thesis using assms(1) by (auto simp: quits_def ended_def)
next
  case (Send_Logoff n)
  then show ?thesis
    using assms txLogOff_frame [of m env n]
    by (cases "state_visual m") (auto simp: DispathMessage_def OnSendLogoff_def txLogOff_def ended_def)
next
  case (Timer_Msg n)
  then show ?thesis using assms ended_timer by (simp add: DispathMessage_def)
next
  case (State_Move n)
  then show ?thesis using assms ended_move by (auto simp: DispathMessage_def)
qed (use assms in \<open>auto simp: DispathMessage_def OnPacketNotify_def OnSayHello_def opens_or_closes_def txSetLogOff_CompThird_def ended_def split: if_splits\<close>)

text \<open>
  A start from a machine without timers: the connect timer that it sets is the one that it kills,
  and the kill waits for the mutex that an earlier one has left locked.
\<close>

definition no_timers :: "auth_machine \<Rightarrow> bool" where
  "no_timers m \<longleftrightarrow> auth_timer m = 0 \<and> hold_timer m = 0 \<and> connect_timer m = 0 \<and> ts_next (timer_srv m) \<noteq> 0"

definition os_works :: "auth_env \<Rightarrow> bool" where
  "os_works env \<longleftrightarrow> create_ok (os_timers env) \<and> settime_ok (os_timers env) \<and> delete1_ok (os_timers env)"

lemma OnStateMove_idle:
  assumes "idle m" and "s \<noteq> STATE_INVALID"
  shows "OnStateMove env (int_of_state s) m =
      (case Initlize env s (m\<lparr>state_visual := Some s\<rparr>) of
         Ok m \<Rightarrow> (let m = (if ruijie_nas env \<or> prev_state m \<noteq> STATE_AUTHENTICATED then emit (Post_Return (int_of_state s)) m else m)
                  in case MoveState env s m of
                       (m, None) \<Rightarrow> Some (after_move (Ok m))
                     | (m, Some s) \<Rightarrow> Option.bind (OnStateMove env (int_of_state s) m) (\<lambda>r. Some (after_move r)))
       | r \<Rightarrow> Some r)"
  by (rule OnStateMove_unfold [OF _ _ forced_idle [OF assms(1)]])
    (use assms in \<open>simp_all add: CreateState_int idle_def ready_def live_def\<close>)

lemma KillTimer_last:
  assumes "delete1_ok os" and "\<not> ts_locked ts" and "tp_ti t \<noteq> 0"
  shows "\<exists>ts'. KillTimer os (ts\<lparr>ts_timers := ts_timers ts @ [t], ts_next := n\<rparr>) (tp_ti t) = Some (True, ts', 0) \<and>
    ts_locked ts' \<and> ts_next ts' = n"
proof -
  obtain i where "find_timer (ts_timers ts @ [t]) (tp_ti t) = Some i" using find_timer_in by fastforce
  then show ?thesis using assms by (simp add: KillTimer_def)
qed

lemma KillTimer_locked: "ts_locked ts \<Longrightarrow> timerid \<noteq> 0 \<Longrightarrow> KillTimer os ts timerid = None"
  by (simp add: KillTimer_def)

lemma Initlize_Connecting_start:
  assumes "no_timers m" and "os_works env" and "0 < sint (1000 * starttimeout env)"
  shows "\<exists>m2 t. Initlize_Connecting env m = Some m2 \<and> tp_ti t = ts_next (timer_srv m) \<and>
     timer_srv m2 = (timer_srv m)\<lparr>ts_timers := ts_timers (timer_srv m) @ [t], ts_next := ts_next (timer_srv m) + 1\<rparr> \<and>
     connect_timer m2 = tp_ti t \<and> auth_timer m2 = 0 \<and> hold_timer m2 = 0 \<and> \<not> req_id m2 \<and>
     connect_timeout m2 = starttimeout env"
  using assms
  by (simp add: Initlize_Connecting_def kill_auth_timer_def kill_hold_timer_def kill_connect_timer_def kill_def
      no_timers_def os_works_def set_timer_def SetTimer_def txStart_def Let_def)
    (rule exI [of _ "\<lparr>tp_ti = ts_next (timer_srv m), tp_tflag = START_WHILE_MTYPE, tp_busy = False,
       tp_sec = sint (1000 * starttimeout env) div 1000, tp_nsec = sint (1000 * starttimeout env) mod 1000\<rparr>"], simp)

lemma start_connecting:
  assumes "idle m" and "no_timers m" and "os_works env" and "0 < sint (1000 * starttimeout env)"
  shows "if ts_locked (timer_srv m) then OnStateMove env (int_of_state STATE_CONNECTING) m = Some Blocked
    else \<exists>m'. OnStateMove env (int_of_state STATE_CONNECTING) m = Some (Ok m') \<and> no_timers m' \<and> ts_locked (timer_srv m')"
proof -
  have zero: "starttimeout env \<noteq> 0" using assms(4) by auto
  have "no_timers (m\<lparr>state_visual := Some STATE_CONNECTING\<rparr>)" using assms(2) by (simp add: no_timers_def)
  then obtain m2 t where m2: "Initlize_Connecting env (m\<lparr>state_visual := Some STATE_CONNECTING\<rparr>) = Some m2"
      and t: "tp_ti t = ts_next (timer_srv m)" "connect_timer m2 = tp_ti t"
      "timer_srv m2 = (timer_srv m)\<lparr>ts_timers := ts_timers (timer_srv m) @ [t], ts_next := ts_next (timer_srv m) + 1\<rparr>"
      and flags: "auth_timer m2 = 0" "hold_timer m2 = 0" "\<not> req_id m2" "connect_timeout m2 = starttimeout env"
    using Initlize_Connecting_start [OF _ assms(3,4)] by force
  then have init: "Initlize env STATE_CONNECTING (m\<lparr>state_visual := Some STATE_CONNECTING\<rparr>) = Ok m2"
    by (simp add: Initlize_def done_or_blocked_def)
  define m3 where "m3 = (if ruijie_nas env \<or> prev_state m2 \<noteq> STATE_AUTHENTICATED
      then emit (Post_Return (int_of_state STATE_CONNECTING)) m2 else m2)"
  have ent: "entered STATE_CONNECTING m m3" using Initlize_entered [OF init] by (simp add: m3_def)
  have "idle m3"
    using entered_ready [OF ent] assms(1) ent by (auto simp: idle_def ready_def live_def entered_def)
  then have idle: "idle (m3\<lparr>reconnect_fail := True\<rparr>)" by (simp add: idle_def ready_def live_def)
  define m4 where "m4 = m3\<lparr>reconnect_fail := True\<rparr>"
  have m4: "timer_srv m4 = timer_srv m2" "connect_timer m4 = connect_timer m2" "auth_timer m4 = 0" "hold_timer m4 = 0" "\<not> req_id m4"
    using flags by (simp_all add: m4_def m3_def)
  have "MoveState env STATE_CONNECTING m3 = (m4, Some STATE_AUTHENTICATED)"
    using flags zero by (simp add: MoveState_def m4_def m3_def)
  then have move: "OnStateMove env (int_of_state STATE_CONNECTING) m =
      Option.bind (OnStateMove env (int_of_state STATE_AUTHENTICATED) m4) (\<lambda>r. Some (after_move r))"
    using OnStateMove_idle [OF assms(1), of STATE_CONNECTING env] by (simp only: init outcome.case Let_def m3_def [symmetric]) simp
  have auth: "OnStateMove env (int_of_state STATE_AUTHENTICATED) m4 =
      (case Initlize_Authenticated env (m4\<lparr>state_visual := Some STATE_AUTHENTICATED\<rparr>) of None \<Rightarrow> Some Blocked
       | Some m5 \<Rightarrow> (let m = (if ruijie_nas env \<or> prev_state m5 \<noteq> STATE_AUTHENTICATED then emit (Post_Return 5) m5 else m5)
                  in case MoveState env STATE_AUTHENTICATED m of
                       (m, None) \<Rightarrow> Some (after_move (Ok m))
                     | (m, Some s) \<Rightarrow> Option.bind (OnStateMove env (int_of_state s) m) (\<lambda>r. Some (after_move r))))"
    using OnStateMove_idle [OF idle [folded m4_def], of STATE_AUTHENTICATED env]
    by (simp add: Initlize_def done_or_blocked_def int_of_state_def split: option.splits)
  have tz: "tp_ti t \<noteq> 0" using t(1) assms(2) by (simp add: no_timers_def)
  show ?thesis
  proof (cases "ts_locked (timer_srv m)")
    case True
    then have "Initlize_Authenticated env (m4\<lparr>state_visual := Some STATE_AUTHENTICATED\<rparr>) = None"
      using t m4 tz by (simp add: Initlize_Authenticated_def kill_connect_timer_def kill_def KillTimer_locked)
    then show ?thesis using True by (simp add: move auth after_move_def)
  next
    case False
    obtain ts' where ts': "KillTimer (os_timers env) (timer_srv m2) (tp_ti t) = Some (True, ts', 0)" "ts_locked ts'" "ts_next ts' \<noteq> 0"
      using KillTimer_last [OF _ False tz, of "os_timers env" "ts_next (timer_srv m) + 1"] assms(3) t(3)
      by (auto simp: os_works_def)
    then obtain m5 where m5: "Initlize_Authenticated env (m4\<lparr>state_visual := Some STATE_AUTHENTICATED\<rparr>) = Some m5"
        "timer_srv m5 = ts'" "connect_timer m5 = 0" "auth_timer m5 = 0" "hold_timer m5 = 0" "\<not> req_id m5"
      using t(2) m4 tz
      by (simp add: Initlize_Authenticated_def kill_connect_timer_def kill_auth_timer_def kill_def)
    then show ?thesis
      using False ts'(2,3) by (auto simp: move auth Let_def MoveState_def after_move_def no_timers_def)
  qed
qed

lemma start_machine:
  assumes "no_timers m" and "os_works env" and "0 < sint (1000 * starttimeout env)"
  shows "if ts_locked (timer_srv m) then OnStartMachine env m = Some Blocked
    else \<exists>m'. OnStartMachine env m = Some (Ok m') \<and> no_timers m' \<and> ts_locked (timer_srv m')"
proof -
  obtain m2 where m2: "idle m2" "no_timers m2" "timer_srv m2 = timer_srv m"
      "OnStartMachine env m = Option.bind (OnStateMove env (int_of_state STATE_CONNECTING) m2) (\<lambda>r. Some (after_move r))"
    using OnStartMachine_connects [of m env] assms(1) by (auto simp: no_timers_def)
  show ?thesis
    using start_connecting [OF m2(1,2) assms(2,3)] m2(3)
    by (auto simp: m2(4) after_move_def no_timers_def split: if_splits)
qed

subsection \<open>What becomes of a message\<close>

text \<open>
  The invariant of the machines that the messages reach when the timers of the system work: no timer
  is left, the machine is logged off or has no state object, and the mutex of the thread is locked
  exactly from the first start on.
\<close>

definition settled :: "auth_machine \<Rightarrow> bool" where
  "settled m \<longleftrightarrow> no_timers m \<and> ended m \<and> (ts_locked (timer_srv m) \<longleftrightarrow> state_visual m \<noteq> None)"

definition waits_forever :: "auth_msg \<Rightarrow> auth_machine \<Rightarrow> bool" where
  "waits_forever msg m \<longleftrightarrow> msg = Start_Machine \<and> state_visual m \<noteq> None"

definition uses_no_state :: "auth_msg \<Rightarrow> auth_machine \<Rightarrow> bool" where
  "uses_no_state msg m \<longleftrightarrow> state_visual m = None \<and>
     (case msg of State_Move _ \<Rightarrow> True | Timer_Msg tflag \<Rightarrow> tflag \<in> {AUTH_WHILE_MTYPE, START_WHILE_MTYPE, HOLD_WHILE_MTYPE} | _ \<Rightarrow> False)"

definition outcome_ok :: "auth_msg \<Rightarrow> auth_machine \<Rightarrow> auth_machine outcome option \<Rightarrow> bool" where
  "outcome_ok msg m x \<longleftrightarrow> (\<exists>r. x = Some r \<and> (r = Blocked \<longleftrightarrow> waits_forever msg m) \<and> (r = Crash \<longleftrightarrow> uses_no_state msg m) \<and>
     (\<forall>m'. r = Ok m' \<longrightarrow> settled m'))"

lemma OnStateMove_ended: "ended m \<Longrightarrow> state_visual m \<noteq> None \<Longrightarrow> OnStateMove env arg m = Some (Ok m)"
  by (subst OnStateMove.simps) (auto simp: ended_def)

lemma OnStateMove_no_state: "state_visual m = None \<Longrightarrow> OnStateMove env arg m = Some Crash"
  by (subst OnStateMove.simps) simp

lemma settled_start:
  assumes "settled m" and "os_works env" and "0 < sint (1000 * starttimeout env)"
  shows "outcome_ok Start_Machine m (OnStartMachine env m)"
proof (cases "state_visual m")
  case None
  then obtain m' where m': "OnStartMachine env m = Some (Ok m')" "no_timers m'" "ts_locked (timer_srv m')"
    using start_machine [OF _ assms(2,3), of m] assms(1) by (auto simp: settled_def)
  then have "quits m (Ok m')" using OnStartMachine_quits by blast
  then have "settled m'"
    using m' assms(1) by (auto simp: settled_def quits_def ended_def)
  then show ?thesis using None m'(1) by (simp add: outcome_ok_def waits_forever_def uses_no_state_def)
next
  case (Some v)
  then show ?thesis
    using start_machine [OF _ assms(2,3), of m] assms(1)
    by (simp add: settled_def outcome_ok_def waits_forever_def uses_no_state_def)
qed

lemma settled_timer:
  assumes "settled m"
  shows "outcome_ok (Timer_Msg tflag) m (OnTimer env tflag m)"
proof -
  have leave: "settled (m1\<lparr>timer_srv := OnTimerLeave (timer_srv m1) tflag\<rparr>)" if "settled m1" for m1
    using that by (simp add: settled_def no_timers_def ended_def OnTimerLeave_def)
  have kills: "kill_auth_timer env (m\<lparr>auth_timeout := 0\<rparr>) = Some (m\<lparr>auth_timeout := 0, auth_timer := 0\<rparr>)"
      "kill_connect_timer env (SetStartWhen m) = Some ((SetStartWhen m)\<lparr>connect_timer := 0\<rparr>)"
      "kill_hold_timer env (m\<lparr>hold_timeout := 0\<rparr>) = Some (m\<lparr>hold_timeout := 0, hold_timer := 0\<rparr>)"
    using assms
    by (simp_all add: settled_def no_timers_def kill_auth_timer_def kill_connect_timer_def kill_hold_timer_def kill_def
        SetStartWhen_def InitStartDstMac_def Let_def)
  have stays: "settled (m\<lparr>auth_timeout := 0, auth_timer := 0\<rparr>)" "settled ((SetStartWhen m)\<lparr>connect_timer := 0\<rparr>)"
      "settled (m\<lparr>hold_timeout := 0, hold_timer := 0\<rparr>)"
    using assms by (simp_all add: settled_def no_timers_def ended_def SetStartWhen_def InitStartDstMac_def Let_def)
  show ?thesis
  proof (cases "state_visual m")
    case None
    then show ?thesis
      using leave [OF assms] by (simp add: OnTimer_def outcome_ok_def waits_forever_def uses_no_state_def Let_def)
  next
    case (Some v)
    then have ends: "OnStateMove env (-1) m1 = Some (Ok m1)" if "settled m1" "state_visual m1 = state_visual m" for m1
      using OnStateMove_ended that by (simp add: settled_def)
    have "state_visual ((SetStartWhen m)\<lparr>connect_timer := 0\<rparr>) = state_visual m"
      by (simp add: SetStartWhen_def InitStartDstMac_def Let_def)
    then show ?thesis
      using leave [OF assms] leave [OF stays(1)] leave [OF stays(2)] leave [OF stays(3)] Some
      by (auto simp: OnTimer_def outcome_ok_def waits_forever_def uses_no_state_def Let_def kills ends stays)
  qed
qed

lemma settled_step:
  assumes "settled m" and "os_works env" and "0 < sint (1000 * starttimeout env)"
  shows "outcome_ok msg m (DispathMessage env msg m)"
proof (cases msg)
  case Start_Machine
  then show ?thesis using settled_start [OF assms] by (simp add: DispathMessage_def)
next
  case (Packet frame)
  then show ?thesis
    using assms(1)
    by (auto simp: DispathMessage_def OnPacketNotify_def settled_def ended_def outcome_ok_def waits_forever_def uses_no_state_def)
next
  case (Timer_Msg n)
  then show ?thesis using settled_timer [OF assms(1)] by (simp add: DispathMessage_def)
next
  case (Say_Hello n)
  then show ?thesis
    using assms(1)
    by (simp add: DispathMessage_def OnSayHello_def settled_def ended_def no_timers_def outcome_ok_def waits_forever_def
        uses_no_state_def opens_or_closes_def)
next
  case (Send_Logoff n)
  have "ended (txLogOff env n m)"
    using ended_step [of m env msg "txLogOff env n m"] assms(1) Send_Logoff by (simp add: DispathMessage_def OnSendLogoff_def settled_def)
  then have "settled (txLogOff env n m)"
    using assms(1) by (simp add: settled_def no_timers_def txLogOff_def Let_def)
  then show ?thesis
    using Send_Logoff by (simp add: DispathMessage_def OnSendLogoff_def outcome_ok_def waits_forever_def uses_no_state_def)
next
  case (State_Move n)
  then show ?thesis
    using assms(1) OnStateMove_ended [of m env n] OnStateMove_no_state [of m env n]
    by (cases "state_visual m") (simp_all add: DispathMessage_def settled_def outcome_ok_def waits_forever_def uses_no_state_def)
next
  case Set_LogOff_CompThird
  then show ?thesis
    using assms(1)
    by (simp add: DispathMessage_def txSetLogOff_CompThird_def settled_def ended_def no_timers_def outcome_ok_def
        waits_forever_def uses_no_state_def)
qed

lemma reachable_settled:
  assumes "auth_reachable env m" and "os_works env" and "0 < sint (1000 * starttimeout env)"
  shows "settled m"
  using assms(1)
proof induction
  case auth_reachable_init
  show ?case by (simp add: settled_def no_timers_def ended_def auth_init_def)
next
  case (auth_reachable_step m msg m')
  then show ?case using settled_step [OF _ assms(2,3), of m msg] by (auto simp: outcome_ok_def)
qed

subsection \<open>Answers to requests\<close>

lemma parseFrame_request:
  assumes "fr_code frame = EAP_REQUEST" and "fr_ether_type frame = ETH_P_PAE"
  shows "fr_type frame = EAP_TYPE_IDENTITY \<Longrightarrow> parseFrame env frame m =
      Ok (1, m\<lparr>recv_id := fr_id frame, dstaddr := (if ruijie_nas env then fr_srcaddr frame else PAE_group_addr), req_id := True\<rparr>)"
    and "fr_type frame = EAP_TYPE_RUIJIE_PRIVATE \<Longrightarrow> parseFrame env frame m =
      Ok (1, m\<lparr>recv_id := fr_id frame, dstaddr := (if ruijie_nas env then fr_srcaddr frame else PAE_group_addr),
        req_auth := True, eap_md5_datalen := 0\<rparr>)"
    and "fr_type frame = EAP_TYPE_MD5 \<Longrightarrow> fr_md5_length frame \<noteq> 0 \<Longrightarrow> parseFrame env frame m =
      Ok (1, m\<lparr>recv_id := fr_id frame, dstaddr := (if ruijie_nas env then fr_srcaddr frame else PAE_group_addr),
        req_auth := True, eap_md5_datalen := fr_md5_length frame,
        eap_md5_data := take (unat (fr_md5_length frame)) (fr_md5_data frame)\<rparr>)"
proof -
  have "ntohs (fr_ether_type frame) \<noteq> ETH_P_PAE" by (simp add: assms(2) ntohs_def ETH_P_PAE_def)
  then show "fr_type frame = EAP_TYPE_IDENTITY \<Longrightarrow> parseFrame env frame m =
      Ok (1, m\<lparr>recv_id := fr_id frame, dstaddr := (if ruijie_nas env then fr_srcaddr frame else PAE_group_addr), req_id := True\<rparr>)"
    "fr_type frame = EAP_TYPE_RUIJIE_PRIVATE \<Longrightarrow> parseFrame env frame m =
      Ok (1, m\<lparr>recv_id := fr_id frame, dstaddr := (if ruijie_nas env then fr_srcaddr frame else PAE_group_addr),
        req_auth := True, eap_md5_datalen := 0\<rparr>)"
    "fr_type frame = EAP_TYPE_MD5 \<Longrightarrow> fr_md5_length frame \<noteq> 0 \<Longrightarrow> parseFrame env frame m =
      Ok (1, m\<lparr>recv_id := fr_id frame, dstaddr := (if ruijie_nas env then fr_srcaddr frame else PAE_group_addr),
        req_auth := True, eap_md5_datalen := fr_md5_length frame,
        eap_md5_data := take (unat (fr_md5_length frame)) (fr_md5_data frame)\<rparr>)"
    by (simp_all add: parseFrame_def assms(1) Let_def)
qed

lemma OnStateMove_step:
  assumes "idle m" and "state_visual m = Some v" and "MoveState env v m = (m', t)"
  shows "OnStateMove env (-1) m = (case t of None \<Rightarrow> Some (Ok m') | Some s \<Rightarrow> OnStateMove env (int_of_state s) m')"
  using assms(1) by (subst OnStateMove.simps) (simp add: assms(2,3) forced_idle idle_def split: option.splits)

lemma idle_update [simp]:
  "idle (m\<lparr>recv_id := i\<rparr>) = idle m" "idle (m\<lparr>dstaddr := d\<rparr>) = idle m" "idle (m\<lparr>req_id := b\<rparr>) = idle m"
  "idle (m\<lparr>req_auth := b\<rparr>) = idle m" "idle (m\<lparr>eap_md5_datalen := l\<rparr>) = idle m" "idle (m\<lparr>eap_md5_data := x\<rparr>) = idle m"
  by (simp_all add: idle_def ready_def live_def)

text \<open>The frame that answers a request: the identifier of the request and a payload.\<close>

definition answers :: "auth_env \<Rightarrow> eapol_frame \<Rightarrow> EAP_TYPES \<Rightarrow> byte list \<Rightarrow> sent_frame \<Rightarrow> bool" where
  "answers env frame t payload f \<longleftrightarrow>
     sf_packet_type f = IEEE8021X_EAP_PACKET \<and> sf_code f = EAP_RESPONSE \<and> sf_type f = t \<and> sf_id f = fr_id frame \<and>
     sf_dstaddr f = (if ruijie_nas env then fr_srcaddr frame else PAE_group_addr) \<and>
     sf_eap_length f = of_nat (length payload) + 5 \<and> sf_packet_length f = sf_eap_length f \<and> sf_data f = payload"

lemma EncapsulateFrame_answers:
  assumes "t = EAP_TYPE_IDENTITY \<or> t = EAP_TYPE_RUIJIE_PRIVATE \<or> t = EAP_TYPE_NAK"
    and "recv_id m = fr_id frame" and "dstaddr m = (if ruijie_nas env then fr_srcaddr frame else PAE_group_addr)"
  shows "\<exists>f. EncapsulateFrame env m IEEE8021X_EAP_PACKET t payload = Some f \<and> answers env frame t payload f"
  using assms by (auto simp: EncapsulateFrame_def answers_def Let_def)

lemma send_answer:
  assumes "t = EAP_TYPE_IDENTITY \<or> t = EAP_TYPE_RUIJIE_PRIVATE"
    and "recv_id m = fr_id frame" and "dstaddr m = (if ruijie_nas env then fr_srcaddr frame else PAE_group_addr)"
  shows "\<exists>f. send_frame (EncapsulateFrame env m IEEE8021X_EAP_PACKET t payload) m = emit (Send f) m \<and> answers env frame t payload f"
proof -
  obtain f where "EncapsulateFrame env m IEEE8021X_EAP_PACKET t payload = Some f" "answers env frame t payload f"
    using EncapsulateFrame_answers [of t m frame env payload] assms by blast
  then show ?thesis by (intro exI [of _ f]) (simp add: send_frame_def)
qed

lemma kill_timers_frame:
  assumes "kill_hold_timer env m = Some m1" and "kill_connect_timer env m1 = Some m2" and "kill_auth_timer env m2 = Some m3"
  shows "\<exists>ts. m3 = m\<lparr>timer_srv := ts, hold_timer := 0, connect_timer := 0, auth_timer := 0\<rparr>"
proof -
  obtain ts1 ts2 ts3 where "m1 = m\<lparr>timer_srv := ts1, hold_timer := 0\<rparr>" "m2 = m1\<lparr>timer_srv := ts2, connect_timer := 0\<rparr>"
      "m3 = m2\<lparr>timer_srv := ts3, auth_timer := 0\<rparr>"
    using kill_frames assms by meson
  then show ?thesis by (intro exI [of _ ts3] auth_machine.equality) simp_all
qed

lemma Initlize_Acquired_answers:
  assumes "Initlize_Acquired env m = Some m'" and "prev_state m \<noteq> STATE_AUTHENTICATED \<or> ruijie_nas env"
    and "recv_id m = fr_id frame" and "dstaddr m = (if ruijie_nas env then fr_srcaddr frame else PAE_group_addr)"
  shows "\<exists>f. sent m' = sent m @ [Send f] \<and> answers env frame EAP_TYPE_IDENTITY (auth_username env) f \<and>
     state_visual m' = state_visual m \<and> mc_state m' = STATE_ACQUIRED \<and> \<not> req_id m' \<and> \<not> req_auth m' \<and> auth_timeout m' = 45"
proof -
  define m1 where "m1 = m\<lparr>auth_timeout := 45, prev_state := mc_state m, mc_state := STATE_ACQUIRED\<rparr>"
  obtain m2 m3 m4 where kills: "kill_hold_timer env m1 = Some m2" "kill_connect_timer env m2 = Some m3" "kill_auth_timer env m3 = Some m4"
    using assms(1,2) by (auto simp: Initlize_Acquired_def m1_def bind_eq_Some_conv split: if_splits)
  obtain ts t where t: "set_timer env AUTH_WHILE_MTYPE (auth_timeout m4) m4 = (m4\<lparr>timer_srv := ts\<rparr>, t)"
    using set_timer_frame by blast
  define m5 where "m5 = m4\<lparr>timer_srv := ts, auth_timer := t, auth_attempt_count := 0, req_id := False, req_auth := False\<rparr>"
  have m': "m' = (txRspID env m5)\<lparr>recv_id2 := ucast (recv_id (txRspID env m5))\<rparr>"
    using assms(1,2) kills t by (auto simp: Initlize_Acquired_def m1_def [symmetric] m5_def Let_def)
  obtain ts' where "m4 = m1\<lparr>timer_srv := ts', hold_timer := 0, connect_timer := 0, auth_timer := 0\<rparr>"
    using kill_timers_frame [OF kills] by blast
  then have m5: "recv_id m5 = recv_id m" "dstaddr m5 = dstaddr m" "sent m5 = sent m" "state_visual m5 = state_visual m"
      "mc_state m5 = STATE_ACQUIRED" "\<not> req_id m5" "\<not> req_auth m5" "auth_timeout m5 = 45"
    by (simp_all add: m5_def m1_def)
  have "recv_id m5 = fr_id frame" "dstaddr m5 = (if ruijie_nas env then fr_srcaddr frame else PAE_group_addr)"
    using assms(3,4) m5(1,2) by simp_all
  then obtain f where f: "txRspID env m5 = emit (Send f) m5" "answers env frame EAP_TYPE_IDENTITY (auth_username env) f"
    using send_answer [of EAP_TYPE_IDENTITY m5 frame env "auth_username env"] unfolding txRspID_def by blast
  then show ?thesis by (intro exI [of _ f]) (simp add: m' m5)
qed

lemma Initlize_Acquired_free:
  "auth_timer m = 0 \<Longrightarrow> hold_timer m = 0 \<Longrightarrow> connect_timer m = 0 \<Longrightarrow> Initlize_Acquired env m \<noteq> None"
  by (simp add: Initlize_Acquired_def kill_hold_timer_def kill_connect_timer_def kill_auth_timer_def kill_def set_timer_def
      Let_def split: prod.splits)

lemma Initlize_Authenticating_free: "auth_timer m = 0 \<Longrightarrow> Initlize_Authenticating env m \<noteq> Blocked"
  by (simp add: Initlize_Authenticating_def kill_auth_timer_def kill_def set_timer_def txRspAuth_def c_strlen_def Let_def
      split: prod.splits)

lemma Initlize_Authenticating_answers:
  assumes "eap_md5_datalen m = 0"
    and "recv_id m = fr_id frame" and "dstaddr m = (if ruijie_nas env then fr_srcaddr frame else PAE_group_addr)"
  shows "Initlize_Authenticating env m = Blocked \<or>
    (\<exists>m' f. Initlize_Authenticating env m = Ok m' \<and> sent m' = sent m @ [Send f] \<and>
       answers env frame EAP_TYPE_RUIJIE_PRIVATE
         (of_nat (length (auth_password env)) # auth_password env @ auth_username env) f \<and>
       state_visual m' = state_visual m \<and> mc_state m' = STATE_AUTHENTICATING \<and> req_id m' = req_id m \<and> \<not> req_auth m' \<and>
       auth_timeout m' = authtimeout env)"
proof -
  define m1 where "m1 = m\<lparr>prev_state := mc_state m, mc_state := STATE_AUTHENTICATING, auth_timeout := authtimeout env\<rparr>"
  show ?thesis
  proof (cases "kill_auth_timer env m1")
    case (Some m2)
    obtain ts t where t: "set_timer env AUTH_WHILE_MTYPE (auth_timeout m2) m2 = (m2\<lparr>timer_srv := ts\<rparr>, t)"
      using set_timer_frame by blast
    define m3 where "m3 = m2\<lparr>timer_srv := ts, auth_timer := t, req_auth := False\<rparr>"
    obtain ts' where "m2 = m1\<lparr>timer_srv := ts', auth_timer := 0\<rparr>" using kill_frames(1) [OF Some] by blast
    then have m3: "recv_id m3 = recv_id m" "dstaddr m3 = dstaddr m" "sent m3 = sent m" "state_visual m3 = state_visual m"
        "mc_state m3 = STATE_AUTHENTICATING" "req_id m3 = req_id m" "\<not> req_auth m3" "auth_timeout m3 = authtimeout env"
        "eap_md5_datalen m3 = 0"
      using assms(1) by (simp_all add: m3_def m1_def)
    have "recv_id m3 = fr_id frame" "dstaddr m3 = (if ruijie_nas env then fr_srcaddr frame else PAE_group_addr)"
      using assms(2,3) m3(1,2) by simp_all
    then obtain f where f: "txRspAuthPAP env m3 = emit (Send f) m3"
        "answers env frame EAP_TYPE_RUIJIE_PRIVATE (of_nat (length (auth_password env)) # auth_password env @ auth_username env) f"
      using send_answer [of EAP_TYPE_RUIJIE_PRIVATE m3 frame env "of_nat (length (auth_password env)) # auth_password env @ auth_username env"]
      unfolding txRspAuthPAP_def Let_def by blast
    have "Initlize_Authenticating env m = Ok ((txRspAuthPAP env m3)\<lparr>recv_id2 := ucast (recv_id (txRspAuthPAP env m3))\<rparr>)"
      using Some t m3(9) by (simp add: Initlize_Authenticating_def m1_def [symmetric] m3_def Let_def)
    then show ?thesis using f(2) by (intro disjI2 exI [of _ f] exI conjI) (assumption | simp add: f(1) m3)+
  qed (simp add: Initlize_Authenticating_def m1_def [symmetric])
qed

subsection \<open>Properties\<close>

text \<open>A configuration and a frame for the witnesses.\<close>

definition env1 :: auth_env where
  "env1 = \<lparr>ruijie_nas = False, starttimeout = 5, startnumber = 3, authtimeout = 45, heldtimeout = 60, public_sutype = 0,
     field_538 = False, auth_username = [0x62, 0x6F, 0x62], auth_password = [0x70, 0x77], private_fail_reason = [],
     service_found = False, message_202 = [], dhcp_auth_step = 0, to_gbk = (\<lambda>b. b), get_md5 = (\<lambda>b. b),
     md5_to_uchar = (\<lambda>b. b),
     os_timers = \<lparr>create_ok = True, settime_ok = True, delete1_ok = True, delete2_ok = True, errno_EINVAL = False\<rparr>\<rparr>"

definition request :: "EAP_TYPES \<Rightarrow> eapol_frame" where
  "request t = \<lparr>fr_srcaddr = [1, 2, 3, 4, 5, 6], fr_ether_type = 0x888E, fr_packet_type = IEEE8021X_EAP_PACKET,
     fr_code = EAP_REQUEST, fr_id = 7, fr_length = 22, fr_type = t, fr_md5_length = 16,
     fr_md5_data = replicate 16 0xAB, fr_notif_data = [], fr_fail_magic = 0, fr_fail_reason = []\<rparr>"

text \<open>A machine that has sent its identity and waits for a challenge.\<close>

definition acquired :: auth_machine where
  "acquired = auth_init\<lparr>state_visual := Some STATE_ACQUIRED, mc_state := STATE_ACQUIRED, prev_state := STATE_CONNECTING,
     auth_timeout := 45\<rparr>"

lemma request_simps [simp]:
  "fr_code (request t) = EAP_REQUEST" "fr_type (request t) = t" "fr_md5_length (request t) = 16" "fr_id (request t) = 7"
  "fr_ether_type (request t) = 0x888E" "fr_packet_type (request t) = IEEE8021X_EAP_PACKET"
  by (simp_all add: request_def)

lemma acquired_inv: "auth_inv acquired"
  by (simp add: auth_inv_def live_def acquired_def auth_init_def)

text \<open>
  The mutual recursion of \<open>OnStateMove\<close> and \<open>MoveState\<close> is finite from every machine that has no
  state object yet or that has logged off only in the state \<open>STATE_LOGOFF\<close>, with one of the three
  outcomes: the handler returns such a machine again, crashes, or waits for a mutex forever.
\<close>

lemma DispathMessage_finite:
  assumes "state_visual m = None \<or> (logoff_init m \<longrightarrow> mc_state m = STATE_LOGOFF)"
  shows "\<exists>r. DispathMessage env msg m = Some r \<and>
    (\<forall>m'. r = Ok m' \<longrightarrow> state_visual m' = None \<or> (logoff_init m' \<longrightarrow> mc_state m' = STATE_LOGOFF))"
proof -
  have "auth_inv m" using assms by (auto simp: auth_inv_def live_def)
  then have "returns (DispathMessage env msg m)" by (rule DispathMessage_any)
  then show ?thesis by (auto simp: returns_def auth_inv_def live_def)
qed

text \<open>
  C2: what becomes of every message that the thread can receive, when the timer functions of the
  system work and the start timeout is positive. The handler waits forever exactly when the message
  starts a machine that has been started before; it dereferences a null pointer exactly when a state
  move or one of the three timers of the machine comes before the first start; in every other case
  it returns.
\<close>

theorem DispathMessage_outcome:
  assumes "auth_reachable env m"
    and "create_ok (os_timers env)" and "settime_ok (os_timers env)" and "delete1_ok (os_timers env)"
    and "0 < sint (1000 * starttimeout env)"
  shows "(DispathMessage env msg m = Some Blocked \<longleftrightarrow> msg = Start_Machine \<and> state_visual m \<noteq> None) \<and>
    (DispathMessage env msg m = Some Crash \<longleftrightarrow> state_visual m = None \<and>
      ((\<exists>arg. msg = State_Move arg) \<or> msg \<in> Timer_Msg ` {AUTH_WHILE_MTYPE, START_WHILE_MTYPE, HOLD_WHILE_MTYPE})) \<and>
    (DispathMessage env msg m = Some Blocked \<or> DispathMessage env msg m = Some Crash \<or>
      (\<exists>m'. DispathMessage env msg m = Some (Ok m')))"
proof -
  have works: "os_works env" using assms(2-4) by (simp add: os_works_def)
  have "outcome_ok msg m (DispathMessage env msg m)"
    using settled_step [OF reachable_settled [OF assms(1) works assms(5)] works assms(5)] .
  then obtain r where r: "DispathMessage env msg m = Some r" "r = Blocked \<longleftrightarrow> waits_forever msg m" "r = Crash \<longleftrightarrow> uses_no_state msg m"
    by (auto simp: outcome_ok_def)
  have "uses_no_state msg m \<longleftrightarrow> state_visual m = None \<and>
      ((\<exists>arg. msg = State_Move arg) \<or> msg \<in> Timer_Msg ` {AUTH_WHILE_MTYPE, START_WHILE_MTYPE, HOLD_WHILE_MTYPE})"
    by (cases msg) (auto simp: uses_no_state_def)
  then show ?thesis using r by (cases r) (simp_all add: waits_forever_def)
qed

theorem DispathMessage_outcome_witness:
  "\<exists>m. DispathMessage env1 Start_Machine auth_init = Some (Ok m) \<and> DispathMessage env1 Start_Machine m = Some Blocked \<and>
     DispathMessage env1 (State_Move 2) auth_init = Some Crash \<and> (\<exists>m'. DispathMessage env1 (State_Move 2) m = Some (Ok m'))"
proof -
  have init: "auth_reachable env1 auth_init" "state_visual auth_init = None"
    by (rule auth_reachable_init) (simp add: auth_init_def)
  have works: "create_ok (os_timers env1)" "settime_ok (os_timers env1)" "delete1_ok (os_timers env1)"
      "0 < sint (1000 * starttimeout env1)"
    by (simp_all add: env1_def)
  note outcome = DispathMessage_outcome [OF _ works]
  obtain m where m: "DispathMessage env1 Start_Machine auth_init = Some (Ok m)"
    using outcome [OF init(1), of Start_Machine] init(2) by auto
  have started: "state_visual m \<noteq> None"
    using OnStartMachine_quits [of env1 auth_init "Ok m"] m by (simp add: DispathMessage_def quits_def)
  have "auth_reachable env1 m" by (rule auth_reachable_step [OF init(1) m])
  then have "DispathMessage env1 Start_Machine m = Some Blocked" "\<exists>m'. DispathMessage env1 (State_Move 2) m = Some (Ok m')"
    using outcome [of m Start_Machine] outcome [of m "State_Move 2"] started by auto
  then show ?thesis using m outcome [OF init(1), of "State_Move 2"] init(2) by auto
qed

text \<open>
  C7: whatever messages the thread receives from its start on, the machine never leaves the state
  \<open>STATE_LOGOFF\<close> once it has a state at all, and no EAP response leaves it: a start ends in
  \<open>CStateConnecting::MoveState\<close> with the failure branch, before an answer can arrive, so the client
  only ever sends EAPOL-Start and EAPOL-Logoff frames.
\<close>

theorem machine_never_answers:
  assumes "auth_reachable env m"
  shows "(state_visual m = None \<or> mc_state m = STATE_LOGOFF) \<and> list_all opens_or_closes (sent m)"
proof -
  from assms have "ended m"
  proof induction
    case auth_reachable_init
    show ?case by (simp add: ended_def auth_init_def)
  next
    case (auth_reachable_step m msg m')
    then show ?case using ended_step by blast
  qed
  then show ?thesis by (simp add: ended_def)
qed

lemma start_env1: "\<exists>m. OnStartMachine env1 auth_init = Some (Ok m) \<and> no_timers m \<and> ts_locked (timer_srv m)"
  using start_machine [of auth_init env1] by (simp add: no_timers_def auth_init_def os_works_def env1_def)

theorem machine_never_answers_witness:
  "\<exists>m. DispathMessage env1 Start_Machine auth_init = Some (Ok m) \<and>
     (state_visual m = None \<or> mc_state m = STATE_LOGOFF) \<and> list_all opens_or_closes (sent m)"
proof -
  obtain m where m: "DispathMessage env1 Start_Machine auth_init = Some (Ok m)"
    using start_env1 by (auto simp: DispathMessage_def)
  have "auth_reachable env1 m" by (rule auth_reachable_step [OF auth_reachable_init m])
  then show ?thesis using machine_never_answers [of env1 m] m by blast
qed

text \<open>
  When the timer functions of the system work and the start timeout is positive, the first start
  of the machine returns and the second one waits forever, for the mutex that the \<open>KillTimer\<close> of the
  first start has left locked.
\<close>

theorem second_start_blocks:
  assumes "create_ok (os_timers env)" and "settime_ok (os_timers env)" and "delete1_ok (os_timers env)"
    and "0 < sint (1000 * starttimeout env)"
  shows "\<exists>m. DispathMessage env Start_Machine auth_init = Some (Ok m) \<and> DispathMessage env Start_Machine m = Some Blocked"
proof -
  have works: "os_works env" using assms(1-3) by (simp add: os_works_def)
  obtain m where "OnStartMachine env auth_init = Some (Ok m)" "no_timers m" "ts_locked (timer_srv m)"
    using start_machine [OF _ works assms(4), of auth_init] by (auto simp: no_timers_def auth_init_def)
  then show ?thesis
    using start_machine [OF _ works assms(4), of m] by (auto simp: DispathMessage_def)
qed

theorem second_start_blocks_witness:
  "\<exists>m. DispathMessage env1 Start_Machine auth_init = Some (Ok m) \<and> DispathMessage env1 Start_Machine m = Some Blocked"
  using second_start_blocks [of env1] by (simp add: env1_def)

text \<open>What the prologue of a packet leaves to do: the state moves on the flag that the request has set.\<close>

lemma OnPacketNotify_move:
  assumes "state_visual m = Some v" and "mc_state m \<noteq> STATE_LOGOFF" and "parseFrame env frame m = Ok (1, m1)"
    and "idle m1" and "state_visual m1 = Some v" and "MoveState env v m1 = (m1, Some s)" and "s \<noteq> STATE_INVALID"
  shows "OnPacketNotify env frame m = (case Initlize env s (m1\<lparr>state_visual := Some s\<rparr>) of
         Ok m \<Rightarrow> (let m = (if ruijie_nas env \<or> prev_state m \<noteq> STATE_AUTHENTICATED then emit (Post_Return (int_of_state s)) m else m)
                  in case MoveState env s m of
                       (m, None) \<Rightarrow> Some (after_move (Ok m))
                     | (m, Some s) \<Rightarrow> Option.bind (OnStateMove env (int_of_state s) m) (\<lambda>r. Some (after_move r)))
       | r \<Rightarrow> Some r)"
  using OnStateMove_step [OF assms(4,5,6)] OnStateMove_idle [OF assms(4,7), of env] assms(1-3)
  by (simp add: OnPacketNotify_def)

lemma after_move_answer:
  assumes "sent m = sent m0 @ [Send f]" and "state_visual m = Some s"
    and "MoveState env s (if c then emit (Post_Return n) m else m) = ((if c then emit (Post_Return n) m else m), None)"
  shows "\<exists>m' posts. (let m = (if c then emit (Post_Return n) m else m)
                  in case MoveState env s m of
                       (m, None) \<Rightarrow> Some (after_move (Ok m))
                     | (m, Some s) \<Rightarrow> Option.bind (OnStateMove env (int_of_state s) m) (\<lambda>r. Some (after_move r))) = Some (Ok m') \<and>
    sent m' = sent m0 @ Send f # posts \<and> posts \<in> {[], [Post_Return n]} \<and> state_visual m' = Some s"
  using assms by (cases c) (auto simp: Let_def after_move_def)

text \<open>
  The handlers of requests, on machines in the states of a session. By the invariant above no
  sequence of messages brings the thread there, because every start ends in \<open>STATE_LOGOFF\<close>; the lemmas
  say what the handlers would do. A machine that waits in one of these states answers a request for the identity: it
  enters \<open>STATE_ACQUIRED\<close> and sends one EAP response, with the identifier of the request, the
  lengths of the payload and the user name, unless the kill of a timer waits for the mutex.
\<close>

theorem identity_request_answered:
  assumes "idle m" and "state_visual m = Some v"
    and "v \<in> {STATE_CONNECTING, STATE_ACQUIRED, STATE_AUTHENTICATING, STATE_AUTHENTICATED}" and "\<not> req_auth m"
    and "prev_state m \<noteq> STATE_AUTHENTICATED \<or> ruijie_nas env"
    and "fr_code frame = EAP_REQUEST" and "fr_type frame = EAP_TYPE_IDENTITY" and "fr_ether_type frame = ETH_P_PAE"
  shows "OnPacketNotify env frame m = Some Blocked \<and> (auth_timer m \<noteq> 0 \<or> hold_timer m \<noteq> 0 \<or> connect_timer m \<noteq> 0) \<or>
    (\<exists>m' f posts. OnPacketNotify env frame m = Some (Ok m') \<and> state_visual m' = Some STATE_ACQUIRED \<and>
       sent m' = sent m @ Send f # posts \<and> posts \<in> {[], [Post_Return (int_of_state STATE_ACQUIRED)]} \<and>
       answers env frame EAP_TYPE_IDENTITY (auth_username env) f)"
proof -
  define m1 where "m1 = m\<lparr>recv_id := fr_id frame,
      dstaddr := (if ruijie_nas env then fr_srcaddr frame else PAE_group_addr), req_id := True\<rparr>"
  have "parseFrame env frame m = Ok (1, m1)" using parseFrame_request(1) [OF assms(6,8,7)] by (simp add: m1_def)
  moreover have "idle m1" "state_visual m1 = Some v" using assms(1,2) by (simp_all add: m1_def)
  moreover have "MoveState env v m1 = (m1, Some STATE_ACQUIRED)"
    using assms(3,4) by (auto simp: m1_def MoveState_def)
  ultimately have eq: "OnPacketNotify env frame m = (case Initlize env STATE_ACQUIRED (m1\<lparr>state_visual := Some STATE_ACQUIRED\<rparr>) of
         Ok m \<Rightarrow> (let m = (if ruijie_nas env \<or> prev_state m \<noteq> STATE_AUTHENTICATED then emit (Post_Return (int_of_state STATE_ACQUIRED)) m else m)
                  in case MoveState env STATE_ACQUIRED m of
                       (m, None) \<Rightarrow> Some (after_move (Ok m))
                     | (m, Some s) \<Rightarrow> Option.bind (OnStateMove env (int_of_state s) m) (\<lambda>r. Some (after_move r)))
       | r \<Rightarrow> Some r)"
    using assms(1,2) by (intro OnPacketNotify_move) (simp_all add: idle_def)
  show ?thesis
  proof (cases "Initlize_Acquired env (m1\<lparr>state_visual := Some STATE_ACQUIRED\<rparr>)")
    case None
    then have "auth_timer m \<noteq> 0 \<or> hold_timer m \<noteq> 0 \<or> connect_timer m \<noteq> 0"
      using Initlize_Acquired_free [of "m1\<lparr>state_visual := Some STATE_ACQUIRED\<rparr>" env] by (auto simp: m1_def)
    with None show ?thesis by (simp add: eq Initlize_def done_or_blocked_def)
  next
    case (Some m2)
    obtain f where f: "sent m2 = sent m @ [Send f]" "answers env frame EAP_TYPE_IDENTITY (auth_username env) f"
        "state_visual m2 = Some STATE_ACQUIRED" "\<not> req_id m2" "\<not> req_auth m2" "auth_timeout m2 = 45"
      using Initlize_Acquired_answers [OF Some, of frame] assms(5) by (auto simp: m1_def)
    show ?thesis
      using after_move_answer [OF f(1,3), of env "ruijie_nas env \<or> prev_state m2 \<noteq> STATE_AUTHENTICATED" "int_of_state STATE_ACQUIRED"] f
      by (auto simp: eq Initlize_def done_or_blocked_def Some MoveState_def)
  qed
qed

lemma env1_fields: "auth_username env1 = [0x62, 0x6F, 0x62]" "auth_password env1 = [0x70, 0x77]" "authtimeout env1 = 45"
  by (simp_all add: env1_def)

lemma acquired_fields: "auth_timer acquired = 0" "hold_timer acquired = 0" "connect_timer acquired = 0" "sent acquired = []"
  by (simp_all add: acquired_def auth_init_def)

lemma acquired_idle: "idle acquired" "state_visual acquired = Some STATE_ACQUIRED" "\<not> req_auth acquired" "\<not> req_id acquired"
    "prev_state acquired = STATE_CONNECTING"
  by (simp_all add: idle_def ready_def live_def acquired_def auth_init_def)

theorem identity_request_answered_witness:
  "\<exists>m' f posts. OnPacketNotify env1 (request EAP_TYPE_IDENTITY) acquired = Some (Ok m') \<and>
     sent m' = Send f # posts \<and> answers env1 (request EAP_TYPE_IDENTITY) EAP_TYPE_IDENTITY [0x62, 0x6F, 0x62] f"
  using identity_request_answered [of acquired STATE_ACQUIRED env1 "request EAP_TYPE_IDENTITY"]
  by (simp add: acquired_idle ETH_P_PAE_def acquired_fields env1_fields) blast

text \<open>
  A machine that has sent its identity answers the private request of the Ruijie devices: it
  enters \<open>STATE_AUTHENTICATING\<close> and sends one EAP response with the identifier of the request and
  the payload of a length byte, the password in clear text and the user name.
\<close>

theorem private_request_answered:
  assumes "idle m" and "state_visual m = Some v" and "v \<in> {STATE_ACQUIRED, STATE_AUTHENTICATING}" and "\<not> req_id m"
    and "authtimeout env \<noteq> 0"
    and "fr_code frame = EAP_REQUEST" and "fr_type frame = EAP_TYPE_RUIJIE_PRIVATE" and "fr_ether_type frame = ETH_P_PAE"
  shows "OnPacketNotify env frame m = Some Blocked \<and> auth_timer m \<noteq> 0 \<or>
    (\<exists>m' f posts. OnPacketNotify env frame m = Some (Ok m') \<and> state_visual m' = Some STATE_AUTHENTICATING \<and>
       sent m' = sent m @ Send f # posts \<and> posts \<in> {[], [Post_Return (int_of_state STATE_AUTHENTICATING)]} \<and>
       answers env frame EAP_TYPE_RUIJIE_PRIVATE
         (of_nat (length (auth_password env)) # auth_password env @ auth_username env) f)"
proof -
  define m1 where "m1 = m\<lparr>recv_id := fr_id frame,
      dstaddr := (if ruijie_nas env then fr_srcaddr frame else PAE_group_addr), req_auth := True, eap_md5_datalen := 0\<rparr>"
  have "parseFrame env frame m = Ok (1, m1)" using parseFrame_request(2) [OF assms(6,8,7)] by (simp add: m1_def)
  moreover have "idle m1" "state_visual m1 = Some v" using assms(1,2) by (simp_all add: m1_def)
  moreover have "MoveState env v m1 = (m1, Some STATE_AUTHENTICATING)"
    using assms(3) by (auto simp: m1_def MoveState_def)
  ultimately have eq: "OnPacketNotify env frame m = (case Initlize env STATE_AUTHENTICATING (m1\<lparr>state_visual := Some STATE_AUTHENTICATING\<rparr>) of
         Ok m \<Rightarrow> (let m = (if ruijie_nas env \<or> prev_state m \<noteq> STATE_AUTHENTICATED then emit (Post_Return (int_of_state STATE_AUTHENTICATING)) m else m)
                  in case MoveState env STATE_AUTHENTICATING m of
                       (m, None) \<Rightarrow> Some (after_move (Ok m))
                     | (m, Some s) \<Rightarrow> Option.bind (OnStateMove env (int_of_state s) m) (\<lambda>r. Some (after_move r)))
       | r \<Rightarrow> Some r)"
    using assms(1,2) by (intro OnPacketNotify_move) (simp_all add: idle_def)
  let ?m = "m1\<lparr>state_visual := Some STATE_AUTHENTICATING\<rparr>"
  consider "Initlize_Authenticating env ?m = Blocked" "auth_timer m \<noteq> 0"
    | m2 f where "Initlize_Authenticating env ?m = Ok m2" "sent m2 = sent m @ [Send f]"
      "answers env frame EAP_TYPE_RUIJIE_PRIVATE (of_nat (length (auth_password env)) # auth_password env @ auth_username env) f"
      "state_visual m2 = Some STATE_AUTHENTICATING" "\<not> req_id m2" "\<not> req_auth m2" "auth_timeout m2 \<noteq> 0"
    using Initlize_Authenticating_answers [of ?m frame env] Initlize_Authenticating_free [of ?m env] assms(4,5)
    by (auto simp: m1_def)
  then show ?thesis
  proof cases
    case 1
    then show ?thesis by (simp add: eq Initlize_def)
  next
    case f: 2
    show ?thesis
      using after_move_answer [OF f(2,4), of env "ruijie_nas env \<or> prev_state m2 \<noteq> STATE_AUTHENTICATED" "int_of_state STATE_AUTHENTICATING"] f
      by (auto simp: eq Initlize_def MoveState_def)
  qed
qed

theorem private_request_answered_witness:
  "\<exists>m' f posts. OnPacketNotify env1 (request EAP_TYPE_RUIJIE_PRIVATE) acquired = Some (Ok m') \<and> sent m' = Send f # posts \<and>
     answers env1 (request EAP_TYPE_RUIJIE_PRIVATE) EAP_TYPE_RUIJIE_PRIVATE [2, 0x70, 0x77, 0x62, 0x6F, 0x62] f"
  using private_request_answered [of acquired STATE_ACQUIRED env1 "request EAP_TYPE_RUIJIE_PRIVATE"]
  by (simp add: acquired_idle ETH_P_PAE_def acquired_fields env1_fields) blast

text \<open>
  An MD5 challenge ends the client: the answer to it takes the length of a string through the
  pointer that the line before has set to null. No machine that waits for the challenge survives it.
\<close>

theorem md5_challenge_never_answered:
  assumes "idle m" and "state_visual m = Some v" and "v \<in> {STATE_ACQUIRED, STATE_AUTHENTICATING}"
    and "fr_code frame = EAP_REQUEST" and "fr_type frame = EAP_TYPE_MD5" and "fr_ether_type frame = ETH_P_PAE"
    and "fr_md5_length frame \<noteq> 0"
  shows "OnPacketNotify env frame m = Some Crash \<or>
    OnPacketNotify env frame m = Some Blocked \<and> auth_timer m \<noteq> 0"
proof -
  define m1 where "m1 = m\<lparr>recv_id := fr_id frame,
      dstaddr := (if ruijie_nas env then fr_srcaddr frame else PAE_group_addr), req_auth := True,
      eap_md5_datalen := fr_md5_length frame, eap_md5_data := take (unat (fr_md5_length frame)) (fr_md5_data frame)\<rparr>"
  have "parseFrame env frame m = Ok (1, m1)" using parseFrame_request(3) [OF assms(4,6,5,7)] by (simp add: m1_def)
  moreover have "idle m1" "state_visual m1 = Some v" using assms(1,2) by (simp_all add: m1_def)
  moreover have "MoveState env v m1 = (m1, Some STATE_AUTHENTICATING)"
    using assms(3) by (auto simp: m1_def MoveState_def)
  ultimately have eq: "OnPacketNotify env frame m = (case Initlize env STATE_AUTHENTICATING (m1\<lparr>state_visual := Some STATE_AUTHENTICATING\<rparr>) of
         Ok m \<Rightarrow> (let m = (if ruijie_nas env \<or> prev_state m \<noteq> STATE_AUTHENTICATED then emit (Post_Return (int_of_state STATE_AUTHENTICATING)) m else m)
                  in case MoveState env STATE_AUTHENTICATING m of
                       (m, None) \<Rightarrow> Some (after_move (Ok m))
                     | (m, Some s) \<Rightarrow> Option.bind (OnStateMove env (int_of_state s) m) (\<lambda>r. Some (after_move r)))
       | r \<Rightarrow> Some r)"
    using assms(1,2) by (intro OnPacketNotify_move) (simp_all add: idle_def)
  let ?m = "m1\<lparr>state_visual := Some STATE_AUTHENTICATING\<rparr>"
  have "Initlize_Authenticating env ?m = Crash \<or> Initlize_Authenticating env ?m = Blocked \<and> auth_timer m \<noteq> 0"
    using assms(7)
    by (auto simp: Initlize_Authenticating_def txRspAuth_def c_strlen_def set_timer_def kill_auth_timer_def kill_def m1_def Let_def
        split: option.splits prod.splits)
  then show ?thesis by (auto simp: eq Initlize_def)
qed

theorem md5_challenge_never_answered_witness:
  "OnPacketNotify env1 (request EAP_TYPE_MD5) acquired = Some Crash"
  using md5_challenge_never_answered [of acquired STATE_ACQUIRED "request EAP_TYPE_MD5" env1]
  by (simp add: acquired_idle ETH_P_PAE_def acquired_fields)

end
