(* ===== verification/Text_Codec.thy ===== *)
theory Text_Codec
  imports Prelude
begin

text \<open>
  The text helpers of the client, \<open>tuanzi/src/util.cpp\<close>: the hexadecimal codecs, the byte mask of
  the private properties (\<open>encode\<close>, \<open>decode\<close>), the splitting of strings, the searches in buffers and
  \<open>replace_all_distinct\<close>. Strings are lists of bytes; \<open>char\<close> is unsigned in the client (it is
  compiled with \<open>-funsigned-char\<close>). A routine that writes into a buffer takes the buffer and
  returns it changed; \<open>None\<close> is an access outside of it, or an iterator past the end of its string.
\<close>

subsection \<open>Hexadecimal digits\<close>

text \<open>The three ranges that the routines test, one after the other.\<close>

definition hex_digit :: "byte \<Rightarrow> byte option" where
  "hex_digit c =
     (if 0x30 \<le> c \<and> c \<le> 0x39 then Some (c - 0x30)
      else if 0x41 \<le> c \<and> c \<le> 0x46 then Some (c - 0x41 + 10)
      else if 0x61 \<le> c \<and> c \<le> 0x66 then Some (c - 0x61 + 10)
      else None)"

text \<open>One turn of the lenient loops: a character that is no digit leaves the target as it is.\<close>

definition hex_pair :: "byte \<Rightarrow> byte \<Rightarrow> byte \<Rightarrow> byte" where
  "hex_pair old c1 c2 =
     (let b = (case hex_digit c1 of Some v \<Rightarrow> v | None \<Rightarrow> old);
          b = push_bit 4 b
      in case hex_digit c2 of Some v \<Rightarrow> b OR v | None \<Rightarrow> b)"

fun hex_loop :: "byte list \<Rightarrow> byte list \<Rightarrow> byte list option" where
  "hex_loop [] (old # buf) = Some (0 # buf)"
| "hex_loop (c1 # c2 # str) (old # buf) = map_option ((#) (hex_pair old c1 c2)) (hex_loop str buf)"
| "hex_loop _ _ = None"

definition HexCharToAscii :: "byte list \<Rightarrow> byte list \<Rightarrow> nat \<Rightarrow> (nat \<times> byte list) option" where
  "HexCharToAscii str buf buflen =
     (if odd (length str) \<or> buflen < 2 * length str then Some (0, buf)
      else map_option (\<lambda>buf. (length str div 2, buf)) (hex_loop str buf))"

definition MD5StrtoUChar :: "byte list \<Rightarrow> byte list \<Rightarrow> (nat \<times> byte list) option" where
  "MD5StrtoUChar str buf =
     (if str = [] then Some (0, buf) else map_option (\<lambda>buf. (length str div 2, buf)) (hex_loop str buf))"

text \<open>
  \<open>ASCIIStrtoChar\<close> skips colons. Its bound on the length takes the distance in the wrong direction
  and always holds.
\<close>

fun mac_loop :: "byte list \<Rightarrow> byte list \<Rightarrow> byte list option" where
  "mac_loop [] (old # buf) = Some (0 # buf)"
| "mac_loop (c1 # str) buf =
     (if c1 = 0x3A then mac_loop str buf
      else case (str, buf) of
             (c2 # str, old # buf) \<Rightarrow> map_option ((#) (hex_pair old c1 c2)) (mac_loop str buf)
           | _ \<Rightarrow> None)"
| "mac_loop _ [] = None"

definition ASCIIStrtoChar :: "byte list \<Rightarrow> byte list \<Rightarrow> (nat \<times> byte list) option" where
  "ASCIIStrtoChar str buf =
     (if str = [] then Some (0, buf)
      else map_option (\<lambda>buf. (if length str > 254 then 255 else length str, buf)) (mac_loop str buf))"

fun strict_loop :: "byte list \<Rightarrow> byte list \<Rightarrow> (bool \<times> byte list) option" where
  "strict_loop [] (old # buf) = Some (True, 0 # buf)"
| "strict_loop (c1 # c2 # str) (old # buf) =
     (case hex_digit c1 of
        None \<Rightarrow> Some (False, old # buf)
      | Some v \<Rightarrow>
          (case hex_digit c2 of
             None \<Rightarrow> Some (False, push_bit 4 v # buf)
           | Some w \<Rightarrow> map_option (\<lambda>(ok, buf). (ok, (push_bit 4 v OR w) # buf)) (strict_loop str buf)))"
| "strict_loop _ _ = None"

definition StringToHex :: "byte list \<Rightarrow> byte list \<Rightarrow> nat \<Rightarrow> (int \<times> byte list) option" where
  "StringToHex str retbuf retbuflen =
     (if odd (length str) then Some (-3, retbuf)
      else if retbuflen < length str div 2 then Some (-1, retbuf)
      else if str = [] then Some (0, retbuf)
      else map_option (\<lambda>(ok, buf). (if ok then int (length str div 2) else -2, buf)) (strict_loop str retbuf))"

definition hex_upper :: "byte \<Rightarrow> byte" where
  "hex_upper d = (if d \<le> 9 then d + 0x30 else d - 10 + 0x41)"

definition hex_lower :: "byte \<Rightarrow> byte" where
  "hex_lower d = (if d \<le> 9 then d + 0x30 else d - 10 + 0x61)"

fun HexToString :: "byte list \<Rightarrow> byte list" where
  "HexToString [] = []"
| "HexToString (b # buf) = hex_upper (drop_bit 4 b) # hex_upper (b AND 0xF) # HexToString buf"

text \<open>The digits of \<open>CMD5Checksum::Final\<close> and \<open>CMD5ForVz::Final\<close> (\<open>md5checksum.cpp\<close>, \<open>md5forvz.cpp\<close>).\<close>

fun digest_text :: "byte list \<Rightarrow> byte list" where
  "digest_text [] = []"
| "digest_text (b # buf) = hex_lower (drop_bit 4 b) # hex_lower (b AND 0xF) # digest_text buf"

subsection \<open>The byte mask\<close>

definition decode_byte :: "byte \<Rightarrow> byte" where
  "decode_byte b =
     drop_bit 1 (NOT b AND 0x10) OR drop_bit 3 (NOT b AND 0x20) OR drop_bit 5 (NOT b AND 0x40) OR
     drop_bit 7 (NOT b AND 0x80) OR push_bit 1 (NOT b AND 0x08) OR push_bit 3 (NOT b AND 0x04) OR
     push_bit 5 (NOT b AND 0x02) OR push_bit 7 (NOT b AND 0x01)"

definition decode :: "byte list \<Rightarrow> byte list" where
  "decode buf = map decode_byte buf"

definition encode :: "byte list \<Rightarrow> byte list" where
  "encode buf = decode buf"

subsection \<open>Splitting strings\<close>

text \<open>\<open>ParseString\<close> is a loop of \<open>std::getline\<close>, which fails when nothing is left to read.\<close>

function ParseString :: "byte list \<Rightarrow> byte \<Rightarrow> byte list list" where
  "ParseString str delim =
     (if str = [] then []
      else takeWhile (\<lambda>c. c \<noteq> delim) str # ParseString (tl (dropWhile (\<lambda>c. c \<noteq> delim) str)) delim)"
  by pat_completeness auto
termination
proof (relation "measure (length \<circ> fst)", simp)
  fix str :: "byte list" and delim :: byte
  assume "str \<noteq> []"
  then have "0 < length str" by simp
  moreover have "length (dropWhile (\<lambda>c. c \<noteq> delim) str) \<le> length str" by (rule length_dropWhile_le)
  ultimately have "length (tl (dropWhile (\<lambda>c. c \<noteq> delim) str)) < length str" by (subst length_tl) linarith
  then show "((tl (dropWhile (\<lambda>c. c \<noteq> delim) str), delim), str, delim) \<in> measure (length \<circ> fst)" by simp
qed

declare ParseString.simps [simp del]

text \<open>
  With a bound on the number of lines the rest of the string is one more field, unless the end has
  been seen: \<open>eof\<close> is the state of the stream after the line before.
\<close>

fun parse_max :: "byte list \<Rightarrow> byte \<Rightarrow> nat \<Rightarrow> bool \<Rightarrow> byte list list" where
  "parse_max str delim 0 eof = (if eof then [] else [str])"
| "parse_max str delim (Suc n) eof =
     (if eof \<or> str = [] then []
      else takeWhile (\<lambda>c. c \<noteq> delim) str #
           parse_max (tl (dropWhile (\<lambda>c. c \<noteq> delim) str)) delim n (delim \<notin> set str))"

definition ParseString_max :: "byte list \<Rightarrow> byte \<Rightarrow> nat \<Rightarrow> byte list list" where
  "ParseString_max str delim max_time = parse_max str delim max_time False"

definition TrimLeft :: "byte list \<Rightarrow> byte list \<Rightarrow> byte list" where
  "TrimLeft str chars = dropWhile (\<lambda>c. c \<in> set chars) str"

definition TrimRight :: "byte list \<Rightarrow> byte list \<Rightarrow> byte list" where
  "TrimRight str chars = rev (dropWhile (\<lambda>c. c \<in> set chars) (rev str))"

subsection \<open>Searching and replacing\<close>

text \<open>\<open>std::string::find\<close>: the first position at which the pattern occurs.\<close>

fun string_find :: "'a list \<Rightarrow> 'a list \<Rightarrow> nat option" where
  "string_find pat [] = (if pat = [] then Some 0 else None)"
| "string_find pat (c # str) =
     (if take (length pat) (c # str) = pat then Some 0 else map_option Suc (string_find pat str))"

partial_function (option) replace_all_distinct ::
  "byte list \<Rightarrow> byte list \<Rightarrow> byte list \<Rightarrow> byte list option" where
  "replace_all_distinct str srcstr dststr =
     (case string_find srcstr str of
        None \<Rightarrow> Some str
      | Some pos \<Rightarrow> replace_all_distinct (take pos str @ dststr @ drop (pos + length srcstr) str) srcstr dststr)"

text \<open>\<open>FindChar\<close> on a buffer that holds a C string; \<open>strlen(str)\<close> is compared as an unsigned number.\<close>

fun find_char :: "byte \<Rightarrow> byte list \<Rightarrow> nat \<Rightarrow> nat \<Rightarrow> int" where
  "find_char c [] i endpos = -1"
| "find_char c (x # str) i endpos =
     (if i \<ge> endpos then -1 else if x = c then int i else find_char c str (i + 1) endpos)"

definition FindChar :: "byte \<Rightarrow> byte list option \<Rightarrow> int \<Rightarrow> int \<Rightarrow> int" where
  "FindChar to_find str begin endpos =
     (case str of
        None \<Rightarrow> -1
      | Some str \<Rightarrow>
          if begin < 0 \<or> endpos < 0 \<or> endpos > int (length str) then -1
          else find_char to_find (drop (nat begin) str) (nat begin) (nat endpos))"

text \<open>\<open>FindSub\<close> compares at every start below the end, without a bound for what it compares.\<close>

fun sub_match :: "byte list \<Rightarrow> byte list \<Rightarrow> bool option" where
  "sub_match [] buf = Some True"
| "sub_match (c # pat) [] = None"
| "sub_match (c # pat) (x # buf) = (if c \<noteq> x then Some False else sub_match pat buf)"

fun find_sub :: "byte list \<Rightarrow> byte list \<Rightarrow> nat \<Rightarrow> nat \<Rightarrow> int option" where
  "find_sub pat buf i 0 = Some (-1)"
| "find_sub pat buf i (Suc n) =
     (case sub_match pat (drop i buf) of
        None \<Rightarrow> None
      | Some True \<Rightarrow> Some (int i)
      | Some False \<Rightarrow> find_sub pat buf (i + 1) n)"

definition FindSub :: "byte list \<Rightarrow> byte list option \<Rightarrow> u32 \<Rightarrow> u32 \<Rightarrow> int option" where
  "FindSub pat buf begin endpos =
     (case buf of
        None \<Rightarrow> Some (-1)
      | Some buf \<Rightarrow>
          if endpos - begin + 1 < of_nat (length pat) then Some (-1)
          else find_sub pat buf (unat begin) (unat endpos - unat begin))"

subsection \<open>Codecs\<close>

lemma bit_digit: "d \<le> 15 \<Longrightarrow> d = 0 \<or> d = 1 \<or> d = 2 \<or> d = 3 \<or> d = 4 \<or> d = 5 \<or> d = 6 \<or> d = 7 \<or> d = 8 \<or> d = 9 \<or>
    d = 10 \<or> d = 11 \<or> d = 12 \<or> d = 13 \<or> d = 14 \<or> d = (15 :: byte)"
  by unat_arith

lemma hex_digit_upper [simp]: "d \<le> 15 \<Longrightarrow> hex_digit (hex_upper d) = Some d"
  by (drule bit_digit, elim disjE) (simp_all add: hex_digit_def hex_upper_def)

lemma hex_digit_lower [simp]: "d \<le> 15 \<Longrightarrow> hex_digit (hex_lower d) = Some d"
  by (drule bit_digit, elim disjE) (simp_all add: hex_digit_def hex_lower_def)

lemma nibbles [simp]:
  "drop_bit 4 b \<le> (15 :: byte)" "b AND 0xF \<le> (15 :: byte)" "push_bit 4 (drop_bit 4 b) OR (b AND 0xF) = (b :: byte)"
proof -
  show "b AND 0xF \<le> (15 :: byte)" by (simp add: word_and_le1)
  have "unat (drop_bit 4 b) = unat b div 16" by (rule trans [OF unat_drop_bit_eq]) (simp add: drop_bit_eq_div)
  moreover have "unat b < 256" using unsigned_less [of b] by simp
  ultimately have "unat (drop_bit 4 b) \<le> 15" by linarith
  then show "drop_bit 4 b \<le> (15 :: byte)" by (simp only: word_le_nat_alt) simp
  show "push_bit 4 (drop_bit 4 b) OR (b AND 0xF) = (b :: byte)"
    by (simp add: mask_simps) (rule bit_word_eqI, auto simp: bit_simps)
qed

lemma strict_loop_HexToString:
  "length bs < length buf \<Longrightarrow> strict_loop (HexToString bs) buf = Some (True, bs @ 0 # drop (length bs + 1) buf)"
proof (induction bs arbitrary: buf)
  case Nil
  then show ?case by (cases buf) auto
next
  case (Cons b bs)
  then show ?case by (cases buf) auto
qed

lemma strict_loop_full: "length bs = length buf \<Longrightarrow> strict_loop (HexToString bs) buf = None"
proof (induction bs arbitrary: buf)
  case (Cons b bs)
  then show ?case by (cases buf) auto
qed simp

lemma length_HexToString [len_simps]: "length (HexToString bs) = 2 * length bs"
  by (induction bs) auto

lemma hex_loop_digest_text:
  "length bs < length buf \<Longrightarrow> hex_loop (digest_text bs) buf = Some (bs @ 0 # drop (length bs + 1) buf)"
proof (induction bs arbitrary: buf)
  case Nil
  then show ?case by (cases buf) auto
next
  case (Cons b bs)
  then show ?case by (cases buf) (auto simp: hex_pair_def Let_def)
qed

lemma length_digest_text [len_simps]: "length (digest_text bs) = 2 * length bs"
  by (induction bs) auto

lemma bit_decode_byte: "n < 8 \<Longrightarrow> bit (decode_byte b) n \<longleftrightarrow> \<not> bit b (7 - n)"
proof -
  assume "n < 8"
  then consider "n = 0" | "n = 1" | "n = 2" | "n = 3" | "n = 4" | "n = 5" | "n = 6" | "n = 7" by linarith
  then show ?thesis
    by cases (simp_all only: decode_byte_def bit_or_iff bit_and_iff bit_push_bit_iff bit_drop_bit_eq bit_not_iff, simp_all add: bit_simps)
qed

lemma decode_byte_decode_byte [simp]: "decode_byte (decode_byte b) = b"
  by (rule bit_word_eqI) (simp add: bit_decode_byte)

text \<open>
  Bytes that \<open>HexToString\<close> has written come back from \<open>StringToHex\<close>, which writes a NUL behind
  them: it needs one byte more than the length that it checks, and a buffer of exactly the
  length it asks for is overrun.
\<close>

theorem StringToHex_HexToString:
  assumes "bs \<noteq> []" and "length bs \<le> n"
  shows "(length bs < length buf \<longrightarrow>
      StringToHex (HexToString bs) buf n = Some (int (length bs), bs @ 0 # drop (length bs + 1) buf)) \<and>
    (length buf = length bs \<longrightarrow> StringToHex (HexToString bs) buf n = None)"
proof -
  have "HexToString bs \<noteq> []" using assms(1) by (cases bs) auto
  then show ?thesis
    using assms(2) strict_loop_HexToString [of bs buf] strict_loop_full [of bs buf]
    by (auto simp: StringToHex_def len_simps)
qed

theorem StringToHex_HexToString_witness:
  "StringToHex (HexToString [0xDE, 0xAD, 0x00]) [1, 2, 3, 4] 3 = Some (3, [0xDE, 0xAD, 0x00, 0x00]) \<and>
   StringToHex (HexToString [0xDE, 0xAD, 0x00]) [1, 2, 3] 3 = None"
  using StringToHex_HexToString [of "[0xDE, 0xAD, 0x00]" 3 "[1, 2, 3, 4]"]
    StringToHex_HexToString [of "[0xDE, 0xAD, 0x00]" 3 "[1, 2, 3]"] by simp

text \<open>
  The mask of the private properties is its own inverse: \<open>decode\<close> reverses and complements the
  bits of every byte.
\<close>

theorem decode_encode: "decode (encode buf) = buf \<and> (\<forall>b n. n < 8 \<longrightarrow> bit (decode_byte b) n \<noteq> bit b (7 - n))"
  by (simp add: decode_def encode_def bit_decode_byte o_def)

theorem decode_encode_witness: "decode (encode [0x13, 0x11]) = [0x13, 0x11] \<and> bit (decode_byte 0x13) 7 \<noteq> bit (0x13 :: byte) 0"
  using decode_encode [of "[0x13, 0x11]"] by (auto dest: spec [of _ "0x13"])

subsection \<open>Splitting\<close>

lemma takeWhile_line: "delim \<notin> set l \<Longrightarrow> takeWhile (\<lambda>c. c \<noteq> delim) (l @ delim # str) = l"
  by (induction l) auto

lemma dropWhile_line: "delim \<notin> set l \<Longrightarrow> dropWhile (\<lambda>c. c \<noteq> delim) (l @ delim # str) = delim # str"
  by (induction l) auto

lemma ParseString_lines:
  "\<forall>l \<in> set ls. delim \<notin> set l \<Longrightarrow> ParseString (concat (map (\<lambda>l. l @ [delim]) ls)) delim = ls"
  by (induction ls) (simp_all add: ParseString.simps takeWhile_line dropWhile_line)

fun join_fields :: "byte \<Rightarrow> byte list list \<Rightarrow> byte list" where
  "join_fields delim [] = []"
| "join_fields delim [l] = l"
| "join_fields delim (l # ls) = l @ delim # join_fields delim ls"

lemma split_line:
  "delim \<in> set str \<Longrightarrow> str = takeWhile (\<lambda>c. c \<noteq> delim) str @ delim # tl (dropWhile (\<lambda>c. c \<noteq> delim) str)"
  by (induction str) auto

lemma takeWhile_no: "delim \<notin> set str \<Longrightarrow> takeWhile (\<lambda>c. c \<noteq> delim) str = str"
  by (induction str) auto

lemma join_parse_max:
  "str \<noteq> [] \<Longrightarrow> last str \<noteq> delim \<Longrightarrow>
     join_fields delim (parse_max str delim n False) = str \<and> length (parse_max str delim n False) \<le> n + 1 \<and>
     parse_max str delim n False \<noteq> []"
proof (induction n arbitrary: str)
  case (Suc n)
  let ?rest = "tl (dropWhile (\<lambda>c. c \<noteq> delim) str)"
  show ?case
  proof (cases "delim \<in> set str")
    case True
    note split = split_line [OF True]
    have "?rest \<noteq> []"
    proof
      assume "?rest = []"
      then have "last str = delim" by (subst split) simp
      then show False using Suc.prems(2) by simp
    qed
    moreover then have "last ?rest \<noteq> delim" using Suc.prems(2) by (subst (asm) split) simp
    ultimately have IH: "join_fields delim (parse_max ?rest delim n False) = ?rest"
        "length (parse_max ?rest delim n False) \<le> n + 1" "parse_max ?rest delim n False \<noteq> []"
      using Suc.IH by blast+
    obtain f fs where fields: "parse_max ?rest delim n False = f # fs" using IH(3) by (cases "parse_max ?rest delim n False") auto
    have "join_fields delim (takeWhile (\<lambda>c. c \<noteq> delim) str # f # fs) = str"
      using IH(1) fields split by simp
    then show ?thesis using Suc.prems(1) True IH(2) fields by simp
  next
    case False
    have "parse_max str delim n True = []" for str n by (cases n) auto
    then show ?thesis using Suc.prems False by (simp add: takeWhile_no)
  qed
qed auto

text \<open>
  \<open>ParseString\<close> gives back the fields of a string in which each is followed by the delimiter;
  with a bound on the number of lines it gives at most one field more than the bound, and joining
  the fields with the delimiter gives the string back, if the string does not end with one.
\<close>

theorem ParseString_fields:
  assumes "\<forall>l \<in> set ls. delim \<notin> set l" and "str \<noteq> []" and "last str \<noteq> delim"
  shows "ParseString (concat (map (\<lambda>l. l @ [delim]) ls)) delim = ls \<and>
    join_fields delim (ParseString_max str delim n) = str \<and> length (ParseString_max str delim n) \<le> n + 1"
  using ParseString_lines [OF assms(1)] join_parse_max [OF assms(2,3)] by (simp add: ParseString_max_def)

theorem ParseString_fields_witness:
  "ParseString [1, 2, 64, 64, 3, 64] 64 = [[1, 2], [], [3]] \<and> join_fields 64 (ParseString_max [1, 64, 2, 64, 3] 64 1) = [1, 64, 2, 64, 3]"
  using ParseString_fields [of "[[1, 2], [], [3]]" 64 "[1, 64, 2, 64, 3]" 1] by simp

subsection \<open>Replacing\<close>

lemma string_find_Some:
  "string_find pat str = Some i \<Longrightarrow> i + length pat \<le> length str \<and> take (length pat) (drop i str) = pat"
proof (induction str arbitrary: i)
  case (Cons c str)
  show ?case
  proof (cases "take (length pat) (c # str) = pat")
    case True
    then have "length pat \<le> length (c # str)" by (metis length_take min.cobounded1)
    then show ?thesis using True Cons.prems by simp
  next
    case False
    then show ?thesis using Cons by auto
  qed
qed (auto split: if_splits)

lemma string_find_None: "string_find pat str = None \<longleftrightarrow> (\<nexists>a b. str = a @ pat @ b)"
proof (induction str)
  case (Cons c str)
  show ?case
  proof (cases "take (length pat) (c # str) = pat")
    case True
    have "c # str = [] @ take (length pat) (c # str) @ drop (length pat) (c # str)" by simp
    then have "\<exists>a b. c # str = a @ pat @ b" using True by metis
    then show ?thesis using True by simp
  next
    case False
    have "(\<exists>a b. c # str = a @ pat @ b) \<longleftrightarrow> (\<exists>a b. str = a @ pat @ b)"
    proof
      assume "\<exists>a b. c # str = a @ pat @ b"
      then obtain a b where ab: "c # str = a @ pat @ b" by blast
      with False have "a \<noteq> []" by (cases a) auto
      then show "\<exists>a b. str = a @ pat @ b" using ab by (cases a) auto
    next
      assume "\<exists>a b. str = a @ pat @ b"
      then show "\<exists>a b. c # str = a @ pat @ b" by (metis append_Cons)
    qed
    then show ?thesis using False Cons.IH by simp
  qed
qed (auto split: if_splits)

lemma replace_removes:
  "replace_all_distinct str srcstr dststr = Some r \<Longrightarrow> string_find srcstr r = None"
  by (induction rule: replace_all_distinct.raw_induct [rotated, consumes 1]) (auto split: option.splits)

lemma replace_diverges:
  assumes "replace_all_distinct str srcstr dststr = Some r" and "dststr = a @ srcstr @ b"
  shows "string_find srcstr str = None"
  using assms
proof (induction rule: replace_all_distinct.raw_induct [rotated, consumes 1])
  case (1 rec str srcstr dststr r)
  show ?case
  proof (cases "string_find srcstr str")
    case (Some pos)
    then have "rec (take pos str @ dststr @ drop (pos + length srcstr) str) srcstr dststr = Some r"
      using 1(2) by simp
    then have "string_find srcstr (take pos str @ dststr @ drop (pos + length srcstr) str) = None"
      by (rule 1(1)) (rule 1(3))
    moreover have "take pos str @ dststr @ drop (pos + length srcstr) str =
        (take pos str @ a) @ srcstr @ (b @ drop (pos + length srcstr) str)"
      by (simp add: 1(3))
    ultimately show ?thesis by (metis string_find_None)
  qed simp
qed

lemma string_find_single:
  "string_find [c] str = (if c \<in> set str then Some (length (takeWhile (\<lambda>x. x \<noteq> c) str)) else None)"
  by (induction str) auto

lemma concat_keep: "c \<notin> set str \<Longrightarrow> concat (map (\<lambda>x. if x = c then d else [x]) str) = str"
  by (induction str) auto

lemma replace_single:
  "c \<notin> set dststr \<Longrightarrow>
     replace_all_distinct str [c] dststr = Some (concat (map (\<lambda>x. if x = c then dststr else [x]) str))"
proof (induction "count_list str c" arbitrary: str)
  case 0
  then have "c \<notin> set str" by (simp add: count_list_0_iff)
  moreover then have "concat (map (\<lambda>x. if x = c then dststr else [x]) str) = str" by (rule concat_keep)
  ultimately show ?case by (subst replace_all_distinct.simps) (simp add: string_find_single)
next
  case (Suc n)
  then have "c \<in> set str" by (metis count_notin Zero_not_Suc)
  then obtain a b where ab: "str = a @ c # b" "c \<notin> set a" by (meson split_list_first)
  have find: "string_find [c] str = Some (length a)"
    using ab takeWhile_line [of c a b] by (simp add: string_find_single)
  let ?str = "a @ dststr @ b"
  have zero: "count_list dststr c = 0" using Suc.prems by simp
  have "count_list ?str c = n" using Suc.hyps(2) ab zero by simp
  then have "replace_all_distinct ?str [c] dststr = Some (concat (map (\<lambda>x. if x = c then dststr else [x]) ?str))"
    using Suc.hyps(1) Suc.prems by simp
  moreover have "concat (map (\<lambda>x. if x = c then dststr else [x]) dststr) = dststr"
    using Suc.prems by (rule concat_keep)
  ultimately show ?case
    by (subst replace_all_distinct.simps, subst find) (simp add: ab(1))
qed

text \<open>
  C27: \<open>replace_all_distinct\<close> never returns on a string with an occurrence of a pattern that is part of
  its replacement, as in the call for every logged message, which replaces LF by CR LF. A single
  character that is not in the replacement is replaced everywhere. A result has no occurrence left.
\<close>

theorem replace_all_distinct_returns:
  "(string_find srcstr str \<noteq> None \<longrightarrow> string_find srcstr dststr \<noteq> None \<longrightarrow> replace_all_distinct str srcstr dststr = None) \<and>
   (srcstr = [c] \<and> c \<notin> set dststr \<longrightarrow>
      replace_all_distinct str srcstr dststr = Some (concat (map (\<lambda>x. if x = c then dststr else [x]) str))) \<and>
   (\<forall>r. replace_all_distinct str srcstr dststr = Some r \<longrightarrow> string_find srcstr r = None)"
proof -
  have diverges: "replace_all_distinct str srcstr dststr = None"
    if occurs: "string_find srcstr str \<noteq> None" and contained: "string_find srcstr dststr \<noteq> None"
  proof (rule ccontr)
    assume "replace_all_distinct str srcstr dststr \<noteq> None"
    then obtain r where r: "replace_all_distinct str srcstr dststr = Some r" by blast
    obtain a b where ab: "dststr = a @ srcstr @ b" using contained by (auto simp: string_find_None)
    show False by (rule notE [OF occurs replace_diverges [OF r ab]])
  qed
  have single: "srcstr = [c] \<and> c \<notin> set dststr \<longrightarrow>
      replace_all_distinct str srcstr dststr = Some (concat (map (\<lambda>x. if x = c then dststr else [x]) str))"
    using replace_single by blast
  have removes: "\<forall>r. replace_all_distinct str srcstr dststr = Some r \<longrightarrow> string_find srcstr r = None"
    using replace_removes by blast
  show ?thesis by (intro conjI single removes) (use diverges in blast)
qed

theorem replace_all_distinct_returns_witness:
  "replace_all_distinct [0x61, 0x0A, 0x62] [0x0A] [0x0D, 0x0A] = None \<and>
   replace_all_distinct [0x61, 0x5C, 0x62] [0x5C] [0x2F] = Some [0x61, 0x2F, 0x62]"
  using replace_all_distinct_returns [of "[0x0A]" "[0x61, 0x0A, 0x62]" "[0x0D, 0x0A]" 0]
    replace_all_distinct_returns [of "[0x5C]" "[0x61, 0x5C, 0x62]" "[0x2F]" "0x5C"] by simp

end
