(* ===== verification/Encryption.thy ===== *)
theory Encryption
  imports Prelude "HOL-Library.Monad_Syntax"
begin

text \<open>
  The stored credentials of the client: the base64 codec and the key stream of
  \<open>tuanzi/src/encryption.cpp\<close>, and the routines of \<open>userconfig.cpp\<close> that apply them to a user name and a
  password in a buffer of 32 bytes. A C string is the list of its bytes before the NUL; a buffer
  is the list of all its bytes, and \<open>None\<close> is a read or a write outside of a buffer or a table.
\<close>

definition enc_strs :: "byte list" where
  "enc_strs = map of_char ''~!:?$*<(qw2e5o7i8x12c6m67s98w43d2l45we82q3iuu1z4xle23rt4oxclle34e54u6r8m''"

definition base64_chars :: "byte list" where
  "base64_chars = map of_char ''ABCDEFGHIJKLMNOPQRSTUVWXYZabcdefghijklmnopqrstuvwxyz0123456789+/''"

definition base64_cbytes :: "byte list" where
  "base64_cbytes = [
    0, 0, 0, 0, 0, 0, 0, 0, 0, 0, 0, 0, 0, 0, 0, 0, 0, 0, 0, 0, 0, 0, 0, 0, 0,
    0, 0, 0, 0, 0, 0, 0, 0, 0, 0, 0, 0, 0, 0, 0, 0, 0, 0, 62, 0, 0, 0, 63, 52,
    53, 54, 55, 56, 57, 58, 59, 60, 61, 0, 0, 0, 0, 0, 0, 0, 0, 1, 2, 3, 4, 5,
    6, 7, 8, 9, 10, 11, 12, 13, 14, 15, 16, 17, 18, 19, 20, 21, 22, 23, 24, 25,
    0, 0, 0, 0, 0, 0, 26, 27, 28, 29, 30, 31, 32, 33, 34, 35, 36, 37, 38, 39,
    40, 41, 42, 43, 44, 45, 46, 47, 48, 49, 50, 51, 0, 0, 0, 0, 0]"

text \<open>Writing at the start of a buffer.\<close>

definition store :: "byte list \<Rightarrow> byte list \<Rightarrow> byte list option" where
  "store dst out = (if length out \<le> length dst then Some (out @ drop (length out) dst) else None)"

subsection \<open>Base64\<close>

definition b64_byte :: "byte \<Rightarrow> byte option" where
  "b64_byte c = (if unat c < length base64_cbytes then Some (base64_cbytes ! unat c) else None)"

text \<open>Three bytes are written for every group of four characters; a group with a final \<open>=\<close> is the last.\<close>

fun decode_groups :: "byte list \<Rightarrow> byte list option" where
  "decode_groups (t0 # t1 # t2 # t3 # src) = do {
     b0 \<leftarrow> b64_byte t0;
     b1 \<leftarrow> b64_byte t1;
     b2 \<leftarrow> b64_byte t2;
     b3 \<leftarrow> b64_byte t3;
     let out = [push_bit 2 b0 OR drop_bit 4 b1, push_bit 4 (b1 AND 0xF) OR drop_bit 2 b2, push_bit 6 (b2 AND 3) OR b3];
     if t3 = 0x3D then Some out else map_option ((@) out) (decode_groups src)
   }"
| "decode_groups _ = Some []"

definition base64_decode :: "byte list \<Rightarrow> byte list \<Rightarrow> (nat \<times> byte list) option" where
  "base64_decode src dst = do {
     out \<leftarrow> decode_groups src;
     dst \<leftarrow> store dst out;
     Some (length out, dst)
   }"

definition b64_char :: "byte \<Rightarrow> byte" where
  "b64_char i = base64_chars ! unat i"

fun encode_groups :: "byte list \<Rightarrow> byte list" where
  "encode_groups [] = []"
| "encode_groups [t0] = [b64_char (drop_bit 2 t0), b64_char (push_bit 4 (t0 AND 3)), 0x3D, 0x3D]"
| "encode_groups [t0, t1] =
     [b64_char (drop_bit 2 t0), b64_char (push_bit 4 (t0 AND 3) OR drop_bit 4 t1), b64_char (push_bit 2 (t1 AND 0xF)), 0x3D]"
| "encode_groups (t0 # t1 # t2 # src) =
     [b64_char (drop_bit 2 t0), b64_char (push_bit 4 (t0 AND 3) OR drop_bit 4 t1),
      b64_char (push_bit 2 (t1 AND 0xF) OR drop_bit 6 t2), b64_char (t2 AND 0x3F)] @ encode_groups src"

definition base64_encode :: "byte list \<Rightarrow> byte list \<Rightarrow> (nat \<times> byte list) option" where
  "base64_encode src dst =
     (let out = encode_groups src in map_option (\<lambda>dst. (length out, dst)) (store dst out))"

subsection \<open>The key stream and the credentials\<close>

definition xor_key :: "byte list \<Rightarrow> byte list" where
  "xor_key s = map (\<lambda>i. s ! i XOR enc_strs ! (i mod length enc_strs)) [0..<length s]"

definition decrypt :: "byte list \<Rightarrow> byte list \<Rightarrow> (nat \<times> byte list) option" where
  "decrypt dst src = do {
     (srclen, dst) \<leftarrow> base64_decode src dst;
     let dst = xor_key (take srclen dst) @ drop srclen dst;
     s \<leftarrow> c_string dst;
     Some (length s, dst)
   }"

definition encrypt :: "byte list \<Rightarrow> byte list \<Rightarrow> (nat \<times> byte list) option" where
  "encrypt dst src = do {
     (written, dst) \<leftarrow> base64_encode (xor_key src) dst;
     s \<leftarrow> c_string dst;
     Some (length s, dst)
   }"

definition EncryptPassword :: "byte list \<Rightarrow> byte list option" where
  "EncryptPassword password = do {
     (n, buf) \<leftarrow> encrypt (replicate 32 0) (takeWhile (\<lambda>c. c \<noteq> 0) password);
     c_string buf
   }"

definition DecryptPassword :: "byte list \<Rightarrow> byte list option" where
  "DecryptPassword password = do {
     (n, buf) \<leftarrow> decrypt (replicate 32 0) (takeWhile (\<lambda>c. c \<noteq> 0) password);
     c_string buf
   }"

definition EncryptUserName :: "byte list \<Rightarrow> byte list option" where
  "EncryptUserName username = do {
     (n, buf) \<leftarrow> encrypt (replicate 32 0) (takeWhile (\<lambda>c. c \<noteq> 0) username);
     c_string buf
   }"

definition DecryptUserName :: "byte list \<Rightarrow> byte list option" where
  "DecryptUserName username = do {
     (n, buf) \<leftarrow> decrypt (replicate 32 0) (takeWhile (\<lambda>c. c \<noteq> 0) username);
     c_string buf
   }"

subsection \<open>The codec\<close>

lemma length_enc_strs [simp]: "length enc_strs = 72"
  by (simp add: enc_strs_def)

lemma base64_chars_codes:
  "base64_chars = [65, 66, 67, 68, 69, 70, 71, 72, 73, 74, 75, 76, 77, 78, 79, 80, 81, 82, 83, 84, 85, 86, 87, 88, 89, 90, 97, 98, 99, 100, 101, 102, 103, 104, 105, 106, 107, 108, 109, 110, 111, 112, 113, 114, 115, 116, 117, 118, 119, 120, 121, 122, 48, 49, 50, 51, 52, 53, 54, 55, 56, 57, 43, 47]"
  by (simp add: base64_chars_def)

lemma base64_table:
  "map b64_byte base64_chars = map Some [0, 1, 2, 3, 4, 5, 6, 7, 8, 9, 10, 11, 12, 13, 14, 15, 16, 17, 18, 19, 20, 21, 22, 23, 24, 25, 26, 27, 28, 29, 30, 31, 32, 33, 34, 35, 36, 37, 38, 39, 40, 41, 42, 43, 44, 45, 46, 47, 48, 49, 50, 51, 52, 53, 54, 55, 56, 57, 58, 59, 60, 61, 62, 63]"
  by (simp add: base64_chars_codes b64_byte_def base64_cbytes_def)

lemma base64_no_pad: "list_all (\<lambda>c. c \<noteq> 0x3D \<and> c \<noteq> 0) base64_chars"
  by (simp add: base64_chars_codes)

lemma length_base64_chars: "length base64_chars = 64"
  by (simp add: base64_chars_codes)

lemma b64_char:
  assumes "unat i < 64"
  shows "b64_byte (b64_char i) = Some i" and "b64_char i \<noteq> 0x3D" and "b64_char i \<noteq> 0"
proof -
  have "map b64_byte base64_chars ! unat i = map Some (map of_nat [0..<64]) ! unat i"
    by (simp only: base64_table) (simp add: upt_rec [of _ 64])
  then show "b64_byte (b64_char i) = Some i"
    using assms by (simp add: b64_char_def length_base64_chars)
  show "b64_char i \<noteq> 0x3D" "b64_char i \<noteq> 0"
    using base64_no_pad assms by (auto simp: b64_char_def list_all_length length_base64_chars)
qed

lemma b64_byte_pad: "b64_byte 0x3D = Some 0"
  by code_simp

text \<open>Bytes are compared bit by bit.\<close>

lemma byte_eqI:
  assumes "bit a 0 = bit b 0" "bit a 1 = bit b 1" "bit a 2 = bit b 2" "bit a 3 = bit b 3"
    "bit a 4 = bit b 4" "bit a 5 = bit b 5" "bit a 6 = bit b 6" "bit a 7 = bit b 7"
  shows "a = (b :: byte)"
proof (rule bit_word_eqI)
  fix n assume "n < LENGTH(8)"
  then consider "n = 0" | "n = 1" | "n = 2" | "n = 3" | "n = 4" | "n = 5" | "n = 6" | "n = 7" by fastforce
  then show "bit a n = bit b n" using assms by cases simp_all
qed

lemmas byte_bits = mask_simps bit_or_iff bit_push_bit_iff bit_drop_bit_eq bit_take_bit_iff o_def

lemma byte_bit_high: "8 \<le> n \<Longrightarrow> \<not> bit (b :: byte) n"
  using bit_imp_le_length [of b n] by auto

lemma unat_64: "\<not> bit i 6 \<Longrightarrow> \<not> bit i 7 \<Longrightarrow> unat (i :: byte) < 64"
proof -
  assume "\<not> bit i 6" "\<not> bit i 7"
  then have "i = take_bit 6 i" by (intro byte_eqI) (simp_all only: bit_take_bit_iff, simp_all)
  then have "i AND 0x3F = i" by (simp only: mask_simps)
  then show ?thesis using unat_and_63 [of i] mod_less_divisor [of 64 "unat i"] by simp
qed

lemma sextets:
  "unat (drop_bit 2 t0 :: byte) < 64" "unat (push_bit 4 (t0 AND 3) OR drop_bit 4 t1 :: byte) < 64"
  "unat (push_bit 2 (t1 AND 0xF) OR drop_bit 6 t2 :: byte) < 64" "unat (t2 AND 0x3F :: byte) < 64"
  "unat (push_bit 4 (t0 AND 3) :: byte) < 64" "unat (push_bit 2 (t1 AND 0xF) :: byte) < 64"
  by - (rule unat_64; simp only: byte_bits; simp add: byte_bit_high)+

lemma septets:
  "push_bit 2 (drop_bit 2 t0) OR drop_bit 4 (push_bit 4 (t0 AND 3) OR drop_bit 4 t1) = (t0 :: byte)"
  "push_bit 4 ((push_bit 4 (t0 AND 3) OR drop_bit 4 t1) AND 0xF) OR drop_bit 2 (push_bit 2 (t1 AND 0xF) OR drop_bit 6 t2) = (t1 :: byte)"
  "push_bit 6 ((push_bit 2 (t1 AND 0xF) OR drop_bit 6 t2) AND 3) OR (t2 AND 0x3F) = (t2 :: byte)"
  by - (rule byte_eqI; simp only: byte_bits; simp add: byte_bit_high)+

lemma decode_encode_groups:
  "decode_groups (encode_groups bs) = Some (bs @ replicate ((3 - length bs mod 3) mod 3) 0)"
proof (induction bs rule: encode_groups.induct)
  case (2 t0)
  have "push_bit 4 (push_bit 4 (t0 AND 3) AND 0xF) = (0 :: byte)"
    by (rule byte_eqI; simp only: byte_bits; simp)
  moreover have "push_bit 2 (drop_bit 2 t0) OR drop_bit 4 (push_bit 4 (t0 AND 3)) = t0"
    using septets(1) [of t0 0] by simp
  moreover have "replicate 2 (0 :: byte) = [0, 0]" by (simp add: numeral_2_eq_2)
  ultimately show ?case using sextets(1,5) [of t0] by (simp add: b64_char b64_byte_pad)
next
  case (3 t0 t1)
  have "push_bit 6 (push_bit 2 (t1 AND 0xF) AND 3) = (0 :: byte)"
    by (rule byte_eqI; simp only: byte_bits; simp)
  moreover have "push_bit 4 ((push_bit 4 (t0 AND 3) OR drop_bit 4 t1) AND 0xF) OR drop_bit 2 (push_bit 2 (t1 AND 0xF)) = t1"
    using septets(2) [of t0 t1 0] by simp
  ultimately show ?case using sextets(1,2,6) septets(1) by (simp add: b64_char b64_byte_pad)
next
  case (4 t0 t1 t2 src)
  then show ?case using sextets septets by (simp add: b64_char)
qed simp

lemma length_encode_groups: "length (encode_groups bs) = 4 * ((length bs + 2) div 3)"
proof (induction bs rule: encode_groups.induct)
  case (4 t0 t1 t2 src)
  have "Suc (Suc (Suc (Suc (Suc n)))) div 3 = Suc (Suc (Suc n) div 3)" for n :: nat by presburger
  with 4 show ?case by simp
qed simp_all

lemma encode_groups_no_nul: "0 \<notin> set (encode_groups bs)"
  by (induction bs rule: encode_groups.induct) (simp_all add: sextets b64_char del: push_bit_and)

lemma length_xor_key [simp]: "length (xor_key s) = length s"
  by (simp add: xor_key_def)

lemma xor_key_append: "length s + length t \<le> 72 \<Longrightarrow> xor_key (s @ t) = xor_key s @ map2 (XOR) t (drop (length s) enc_strs)"
  by (rule nth_equalityI) (auto simp: xor_key_def nth_append)

lemma xor_key_xor_key: "xor_key (xor_key s) = s"
  by (rule nth_equalityI) (auto simp: xor_key_def xor_simps)

lemma enc_strs_no_nul: "0 \<notin> set enc_strs"
  by (simp add: enc_strs_def)

lemma takeWhile_no_nul: "0 \<notin> set s \<Longrightarrow> takeWhile (\<lambda>c. c \<noteq> 0) s = (s :: byte list)"
  by (induction s) auto

text \<open>What \<open>decrypt\<close> adds: the key stream over the bytes that the padding of base64 stands for.\<close>

definition key_padding :: "nat \<Rightarrow> byte list" where
  "key_padding n = take ((3 - n mod 3) mod 3) (drop n enc_strs)"

lemma length_key_padding: "n \<le> 60 \<Longrightarrow> length (key_padding n) = (3 - n mod 3) mod 3"
  by (simp add: key_padding_def)

lemma key_padding_empty: "n \<le> 21 \<Longrightarrow> key_padding n = [] \<longleftrightarrow> 3 dvd n"
proof -
  assume "n \<le> 21"
  then have "key_padding n = [] \<longleftrightarrow> (3 - n mod 3) mod 3 = 0" using length_key_padding [of n] by (cases "key_padding n") auto
  also have "\<dots> \<longleftrightarrow> 3 dvd n" by presburger
  finally show ?thesis .
qed

lemma key_padding_no_nul: "0 \<notin> set (key_padding n)"
  using enc_strs_no_nul by (auto simp: key_padding_def dest!: in_set_takeD in_set_dropD)

lemma map2_zero: "map2 (XOR) (replicate k 0) ks = take k (ks :: byte list)"
  by (induction k arbitrary: ks) (auto simp: take_Suc split: list.splits, case_tac ks, auto)

lemma EncryptPassword_short:
  assumes "0 \<notin> set p" and "length p \<le> 21"
  shows "EncryptPassword p = Some (encode_groups (xor_key p))"
proof -
  let ?e = "encode_groups (xor_key p)"
  have len: "length ?e \<le> 28" using assms(2) by (simp add: length_encode_groups)
  then have "store (replicate 32 0) ?e = Some (?e @ replicate (32 - length ?e) 0)" by (simp add: store_def)
  moreover have "c_string (?e @ replicate (32 - length ?e) 0) = Some ?e"
    using len by (intro c_string_padded encode_groups_no_nul) simp
  ultimately show ?thesis
    by (simp add: EncryptPassword_def encrypt_def base64_encode_def takeWhile_no_nul [OF assms(1)] Let_def)
qed

lemma DecryptPassword_short:
  assumes "0 \<notin> set p" and "length p \<le> 21"
  shows "DecryptPassword (encode_groups (xor_key p)) = Some (p @ key_padding (length p))"
proof -
  define e where "e = encode_groups (xor_key p)"
  define k where "k = (3 - length p mod 3) mod 3"
  define rest where "rest = (replicate (32 - (length p + k)) 0 :: byte list)"
  have k: "k \<le> 2" unfolding k_def using mod_less_divisor [of 3 "3 - length p mod 3"] by linarith
  have groups: "decode_groups e = Some (xor_key p @ replicate k 0)" unfolding e_def k_def by (simp only: decode_encode_groups length_xor_key)
  have store: "store (replicate 32 0) (xor_key p @ replicate k 0) = Some ((xor_key p @ replicate k 0) @ rest)"
    using assms(2) k by (simp add: store_def rest_def)
  have key: "xor_key (xor_key p @ replicate k 0) = p @ key_padding (length p)"
    using xor_key_append [of "xor_key p" "replicate k 0"] assms(2) k
    by (simp add: xor_key_xor_key map2_zero key_padding_def k_def)
  have string: "c_string ((p @ key_padding (length p)) @ rest) = Some (p @ key_padding (length p))"
    using assms k key_padding_no_nul unfolding rest_def by (intro c_string_padded) auto
  have decode: "base64_decode e (replicate 32 0) = Some (length p + k, (xor_key p @ replicate k 0) @ rest)"
    unfolding base64_decode_def groups by (simp add: store)
  have "take (length p + k) ((xor_key p @ replicate k 0) @ rest) = xor_key p @ replicate k 0"
    "drop (length p + k) ((xor_key p @ replicate k 0) @ rest) = rest"
    by simp_all
  then have "decrypt (replicate 32 0) e = Some (length (p @ key_padding (length p)), (p @ key_padding (length p)) @ rest)"
    unfolding decrypt_def decode by (simp only: Option.bind.simps prod.case Let_def key string)
  moreover have "takeWhile (\<lambda>c. c \<noteq> 0) e = e" unfolding e_def by (rule takeWhile_no_nul [OF encode_groups_no_nul])
  ultimately show ?thesis
    unfolding e_def [symmetric] DecryptPassword_def by (simp only: Option.bind.simps prod.case string)
qed

lemma EncryptPassword_long:
  assumes "0 \<notin> set p" and "21 < length p"
  shows "EncryptPassword p = None"
proof -
  let ?e = "encode_groups (xor_key p)"
  have len: "32 \<le> length ?e" using assms(2) by (simp add: length_encode_groups)
  show ?thesis
  proof (cases "length ?e = 32")
    case True
    then show ?thesis
      using encode_groups_no_nul [of "xor_key p"]
      by (simp add: EncryptPassword_def encrypt_def base64_encode_def takeWhile_no_nul [OF assms(1)] store_def c_string_def Let_def)
  next
    case False
    then show ?thesis
      using len by (simp add: EncryptPassword_def encrypt_def base64_encode_def takeWhile_no_nul [OF assms(1)] store_def Let_def)
  qed
qed

text \<open>
  C28: the codec keeps the bytes it encodes, padded with NULs to whole groups: a password comes back
  from its stored form with up to two characters of the key appended, so it comes back as it was
  exactly when its length is a multiple of three; from 22 characters on the stored form overruns
  the buffer of 32 bytes.
\<close>

theorem stored_password:
  assumes "0 \<notin> set p"
  shows "decode_groups (encode_groups p) = Some (p @ replicate ((3 - length p mod 3) mod 3) 0) \<and>
    (length p \<le> 21 \<longrightarrow> (\<exists>e. EncryptPassword p = Some e \<and> DecryptPassword e = Some (p @ key_padding (length p)) \<and>
       (DecryptPassword e = Some p \<longleftrightarrow> 3 dvd length p))) \<and>
    (21 < length p \<longrightarrow> EncryptPassword p = None)"
proof (intro conjI impI)
  show "decode_groups (encode_groups p) = Some (p @ replicate ((3 - length p mod 3) mod 3) 0)" by (rule decode_encode_groups)
  show "EncryptPassword p = None" if "21 < length p" using assms that by (rule EncryptPassword_long)
  assume short: "length p \<le> 21"
  show "\<exists>e. EncryptPassword p = Some e \<and> DecryptPassword e = Some (p @ key_padding (length p)) \<and>
      (DecryptPassword e = Some p \<longleftrightarrow> 3 dvd length p)"
    by (simp add: EncryptPassword_short [OF assms short] DecryptPassword_short [OF assms short] key_padding_empty [OF short])
qed

theorem stored_password_witness:
  "\<exists>e. EncryptPassword [0x61, 0x62, 0x63, 0x64] = Some e \<and> DecryptPassword e = Some [0x61, 0x62, 0x63, 0x64, 0x24, 0x2A]"
  using stored_password [of "[0x61, 0x62, 0x63, 0x64]"] by (auto simp: key_padding_def enc_strs_def)

end
