(* ===== verification/Su_Des.thy ===== *)
theory Su_Des
  imports D3des "HOL-Library.Monad_Syntax"
begin

text \<open>
  The DES wrapper of the client, \<open>tuanzi/src/sudes.cpp\<close>: cipher block chaining over the routines of
  \<open>D3des\<close>, whose key registers are static and therefore a parameter and a result, and its callers,
  \<open>EncryptPrivateData\<close> and \<open>DecryptPrivateData\<close> of \<open>dirtranthread.cpp\<close> and \<open>udplistenthread.cpp\<close>.
  \<open>None\<close> is a failed assertion.
\<close>

record CSuDES =
  ivbuf :: "byte list option"
  keybuf :: "byte list option"

definition CSuDES_new :: CSuDES where
  "CSuDES_new = \<lparr>ivbuf = None, keybuf = None\<rparr>"

text \<open>
  \<open>memcpy(ivbuf ? : new char[8], iv, 8)\<close>: without a buffer the bytes go to a fresh one, which the
  object does not keep.
\<close>

definition SetIVBuf :: "CSuDES \<Rightarrow> byte list \<Rightarrow> nat \<Rightarrow> int \<times> CSuDES" where
  "SetIVBuf s iv ivlen =
     (if ivlen \<noteq> 8 then (1, s)
      else case ivbuf s of None \<Rightarrow> (0, s) | Some _ \<Rightarrow> (0, s\<lparr>ivbuf := Some (take 8 iv)\<rparr>))"

definition SetKeyBuf :: "CSuDES \<Rightarrow> byte list \<Rightarrow> nat \<Rightarrow> int \<times> CSuDES" where
  "SetKeyBuf s key keylen =
     (if keylen \<noteq> 8 then (1, s)
      else case keybuf s of None \<Rightarrow> (0, s) | Some _ \<Rightarrow> (0, s\<lparr>keybuf := Some (take 8 key)\<rparr>))"

fun encrypt_blocks :: "'u::len word des_keys \<Rightarrow> byte list \<Rightarrow> nat \<Rightarrow> byte list \<Rightarrow> byte list" where
  "encrypt_blocks st tmp1 0 buf = buf"
| "encrypt_blocks st tmp1 (Suc n) buf =
     (let tmp1 = des st (map2 (XOR) (take 8 buf) tmp1) in tmp1 @ encrypt_blocks st tmp1 n (drop 8 buf))"

fun decrypt_blocks :: "'u::len word des_keys \<Rightarrow> byte list \<Rightarrow> nat \<Rightarrow> byte list \<Rightarrow> byte list" where
  "decrypt_blocks st tmp1 0 buf = buf"
| "decrypt_blocks st tmp1 (Suc n) buf =
     (let tmp2 = map2 (XOR) (des st (take 8 buf)) tmp1 in tmp2 @ decrypt_blocks st (take 8 buf) n (drop 8 buf))"

definition Encrypts ::
  "CSuDES \<Rightarrow> 'u::len word des_keys \<Rightarrow> byte list \<Rightarrow> nat \<Rightarrow> (int \<times> byte list \<times> 'u word des_keys) option" where
  "Encrypts s st buf buflen =
     (if buflen = 0 then None
      else case (ivbuf s, keybuf s) of
             (Some iv, Some key) \<Rightarrow>
               if buflen mod 8 \<noteq> 0 then Some (1, buf, st)
               else let st = deskey st key EN0 in Some (0, encrypt_blocks st iv (buflen div 8) buf, st)
           | _ \<Rightarrow> Some (2, buf, st))"

definition Decrypts ::
  "CSuDES \<Rightarrow> 'u::len word des_keys \<Rightarrow> byte list \<Rightarrow> nat \<Rightarrow> (int \<times> byte list \<times> 'u word des_keys) option" where
  "Decrypts s st buf buflen =
     (if buflen = 0 then None
      else case (ivbuf s, keybuf s) of
             (Some iv, Some key) \<Rightarrow>
               if buflen mod 8 \<noteq> 0 then Some (1, buf, st)
               else let st = deskey st key DE1 in Some (0, decrypt_blocks st iv (buflen div 8) buf, st)
           | _ \<Rightarrow> Some (2, buf, st))"

text \<open>\<open>sudes.SetIVBuf(...) && sudes.SetKeyBuf(...) && sudes.Decrypts(...)\<close> takes 0 as false.\<close>

definition EncryptPrivateData ::
  "byte list \<Rightarrow> byte list \<Rightarrow> 'u::len word des_keys \<Rightarrow> byte list \<Rightarrow> nat \<Rightarrow> (bool \<times> byte list \<times> 'u word des_keys) option" where
  "EncryptPrivateData iv key st buf buflen =
     (if buflen = 0 then None
      else let (r1, s) = SetIVBuf CSuDES_new iv 8
           in if r1 = 0 then Some (False, buf, st)
              else let (r2, s) = SetKeyBuf s key 8
                   in if r2 = 0 then Some (False, buf, st)
                      else map_option (\<lambda>(r, buf, st). (r \<noteq> 0, buf, st)) (Encrypts s st buf buflen))"

definition DecryptPrivateData ::
  "byte list \<Rightarrow> byte list \<Rightarrow> 'u::len word des_keys \<Rightarrow> byte list \<Rightarrow> nat \<Rightarrow> (bool \<times> byte list \<times> 'u word des_keys) option" where
  "DecryptPrivateData iv key st buf buflen =
     (if buflen = 0 then None
      else let (r1, s) = SetIVBuf CSuDES_new iv 8
           in if r1 = 0 then Some (False, buf, st)
              else let (r2, s) = SetKeyBuf s key 8
                   in if r2 = 0 then Some (False, buf, st)
                      else map_option (\<lambda>(r, buf, st). (r \<noteq> 0, buf, st)) (Decrypts s st buf buflen))"

subsection \<open>Block chaining\<close>

lemma length_des [len_simps]: "length (des st b) = 8"
  by (simp add: des_def unscrun_def case_prod_unfold)

lemma map2_xor_cancel: "length a \<le> length b \<Longrightarrow> map2 (XOR) (map2 (XOR) a b) b = (a :: byte list)"
  by (induction a b rule: list_induct2') (auto simp: xor_simps)

lemma decrypt_encrypt_blocks:
  fixes st st' :: "'u::len word des_keys"
  assumes "32 \<le> LENGTH('u)"
  shows "length iv = 8 \<Longrightarrow> 8 * n \<le> length buf \<Longrightarrow>
    decrypt_blocks (deskey st' key DE1) iv n (encrypt_blocks (deskey st key EN0) iv n buf) = buf"
proof (induction n arbitrary: iv buf)
  case (Suc n)
  have len: "length (take 8 buf) = 8" using Suc.prems(2) by simp
  have undo: "des (deskey st' key DE1) (des (deskey st key EN0) (map2 (XOR) (take 8 buf) iv)) = map2 (XOR) (take 8 buf) iv"
    using len Suc.prems(1) by (intro des_undo assms) simp
  have "map2 (XOR) (map2 (XOR) (take 8 buf) iv) iv = take 8 buf"
    using len Suc.prems(1) by (intro map2_xor_cancel) simp
  then show ?case
    using Suc.IH [of "des (deskey st key EN0) (map2 (XOR) (take 8 buf) iv)" "drop 8 buf"] Suc.prems(2) undo
    by (simp add: Let_def len_simps)
qed simp

inductive su_des_reachable :: "CSuDES \<Rightarrow> bool" where
  "su_des_reachable CSuDES_new"
| "su_des_reachable s \<Longrightarrow> su_des_reachable (snd (SetIVBuf s iv ivlen))"
| "su_des_reachable s \<Longrightarrow> su_des_reachable (snd (SetKeyBuf s key keylen))"

lemma su_des_reachable_new: "su_des_reachable s \<Longrightarrow> s = CSuDES_new"
  by (induction rule: su_des_reachable.induct) (simp_all add: SetIVBuf_def SetKeyBuf_def CSuDES_new_def)

text \<open>
  With an initial vector and a key in the object, which no caller achieves (below), \<open>Decrypts\<close> undoes \<open>Encrypts\<close> on every buffer of
  whole blocks, whatever the static key registers held before each of the calls.
\<close>

theorem su_des_roundtrip:
  fixes st st' :: "'u::len word des_keys"
  assumes "32 \<le> LENGTH('u)" and "ivbuf s = Some iv" and "length iv = 8" and "keybuf s = Some key"
    and "buflen mod 8 = 0" and "buflen \<noteq> 0" and "buflen \<le> length buf"
  shows "\<exists>cipher st1 st2. Encrypts s st buf buflen = Some (0, cipher, st1) \<and> Decrypts s st' cipher buflen = Some (0, buf, st2)"
  using decrypt_encrypt_blocks [OF assms(1,3), of "buflen div 8" buf st' key st] assms
  by (simp add: Encrypts_def Decrypts_def Let_def)

theorem su_des_roundtrip_witness:
  "\<exists>cipher st1 st2.
     Encrypts \<lparr>ivbuf = Some [1, 2, 3, 4, 5, 6, 7, 8], keybuf = Some [8, 7, 6, 5, 4, 3, 2, 1]\<rparr>
       (\<lparr>KnL = [], KnR = [], Kn3 = []\<rparr> :: u64 des_keys) (replicate 16 0xAA) 16 = Some (0, cipher, st1) \<and>
     Decrypts \<lparr>ivbuf = Some [1, 2, 3, 4, 5, 6, 7, 8], keybuf = Some [8, 7, 6, 5, 4, 3, 2, 1]\<rparr>
       (\<lparr>KnL = [], KnR = [], Kn3 = []\<rparr> :: u64 des_keys) cipher 16 = Some (0, replicate 16 0xAA, st2)"
  by (rule su_des_roundtrip [where iv = "[1, 2, 3, 4, 5, 6, 7, 8]" and key = "[8, 7, 6, 5, 4, 3, 2, 1]"]) simp_all

text \<open>
  C38: no object ever has a vector or a key. After any sequence of calls of \<open>SetIVBuf\<close> and
  \<open>SetKeyBuf\<close> on a new object, the two setters still report success for eight bytes and leave the
  object as it is, \<open>Encrypts\<close> and \<open>Decrypts\<close> of a buffer that is not empty report the absence (2) and
  leave the buffer and the static key registers as they are, and the private data of the direct
  transfer is neither encrypted nor decrypted, with the result false.
\<close>

theorem su_des_never_ciphers:
  assumes "su_des_reachable s" and "buflen \<noteq> 0"
  shows "SetIVBuf s iv 8 = (0, s) \<and> SetKeyBuf s key 8 = (0, s) \<and>
    Encrypts s st buf buflen = Some (2, buf, st) \<and> Decrypts s st buf buflen = Some (2, buf, st) \<and>
    EncryptPrivateData iv key st buf buflen = Some (False, buf, st) \<and>
    DecryptPrivateData iv key st buf buflen = Some (False, buf, st)"
  using su_des_reachable_new [OF assms(1)] assms(2)
  by (simp add: Encrypts_def Decrypts_def EncryptPrivateData_def DecryptPrivateData_def CSuDES_new_def
      SetIVBuf_def SetKeyBuf_def)

theorem su_des_never_ciphers_witness:
  "let s = snd (SetKeyBuf (snd (SetIVBuf CSuDES_new [1, 2, 3, 4, 5, 6, 7, 8] 8)) [8, 7, 6, 5, 4, 3, 2, 1] 8);
       st = \<lparr>KnL = [], KnR = [], Kn3 = []\<rparr> :: u64 des_keys; buf = [1, 2, 3, 4, 5, 6, 7, 8]
   in SetIVBuf s buf 8 = (0, s) \<and> SetKeyBuf s buf 8 = (0, s) \<and>
     Encrypts s st buf 8 = Some (2, buf, st) \<and> Decrypts s st buf 8 = Some (2, buf, st) \<and>
     EncryptPrivateData buf buf st buf 8 = Some (False, buf, st) \<and>
     DecryptPrivateData buf buf st buf 8 = Some (False, buf, st)"
  unfolding Let_def
  by (rule su_des_never_ciphers) (auto intro: su_des_reachable.intros)

end
