(* ===== verification/Ripemd128.thy ===== *)
theory Ripemd128
  imports Rhash
begin

text \<open>
  RIPEMD-128 and its modified variant, \<open>ampheck/src/ripemd128.c\<close> with the macros of
  \<open>ampheck.h\<close>: the sixteen rounds of each transformation as the tables of their macro calls, the
  update and the finish function, and a description of the hash function after its authors' paper,
  with which the digest agrees.
\<close>

subsection \<open>The transformations\<close>

definition ROL :: "u32 \<Rightarrow> nat \<Rightarrow> u32" where
  "ROL x y = push_bit y x XOR drop_bit (32 - y) x"

definition PACK_32_LE :: "byte list \<Rightarrow> u32" where
  "PACK_32_LE str = ucast (str ! 0) XOR push_bit 8 (ucast (str ! 1)) XOR push_bit 16 (ucast (str ! 2)) XOR push_bit 24 (ucast (str ! 3))"

definition UNPACK_32_LE :: "u32 \<Rightarrow> byte list" where
  "UNPACK_32_LE x = [ucast x, ucast (drop_bit 8 x), ucast (drop_bit 16 x), ucast (drop_bit 24 x)]"

definition UNPACK_64_LE :: "u64 \<Rightarrow> byte list" where
  "UNPACK_64_LE x = [ucast x, ucast (drop_bit 8 x), ucast (drop_bit 16 x), ucast (drop_bit 24 x),
     ucast (drop_bit 32 x), ucast (drop_bit 40 x), ucast (drop_bit 48 x), ucast (drop_bit 56 x)]"

definition RIPEMD128_R1 :: "u32 \<Rightarrow> u32 \<Rightarrow> u32 \<Rightarrow> u32" where
  "RIPEMD128_R1 x y z = x XOR y XOR z"
definition RIPEMD128_R2 :: "u32 \<Rightarrow> u32 \<Rightarrow> u32 \<Rightarrow> u32" where
  "RIPEMD128_R2 x y z = ((x AND y) OR (NOT x AND z)) + 0x5a827999"
definition RIPEMD128_R3 :: "u32 \<Rightarrow> u32 \<Rightarrow> u32 \<Rightarrow> u32" where
  "RIPEMD128_R3 x y z = ((x OR NOT y) XOR z) + 0x6ed9eba1"
definition RIPEMD128_R4 :: "u32 \<Rightarrow> u32 \<Rightarrow> u32 \<Rightarrow> u32" where
  "RIPEMD128_R4 x y z = ((x AND z) OR (y AND NOT z)) + 0x8f1bbcdc"
definition RIPEMD128_R5 :: "u32 \<Rightarrow> u32 \<Rightarrow> u32 \<Rightarrow> u32" where
  "RIPEMD128_R5 x y z = ((x AND z) OR (y AND NOT z)) + 0x50a28be6"
definition RIPEMD128_R6 :: "u32 \<Rightarrow> u32 \<Rightarrow> u32 \<Rightarrow> u32" where
  "RIPEMD128_R6 x y z = ((x OR NOT y) XOR z) + 0x5c4dd124"
definition RIPEMD128_R7 :: "u32 \<Rightarrow> u32 \<Rightarrow> u32 \<Rightarrow> u32" where
  "RIPEMD128_R7 x y z = ((x AND y) OR (NOT x AND z)) + 0x6d703ef3"
definition RIPEMD128_R8 :: "u32 \<Rightarrow> u32 \<Rightarrow> u32 \<Rightarrow> u32" where
  "RIPEMD128_R8 = RIPEMD128_R1"

definition RIPEMD128_R1_Vz :: "u32 \<Rightarrow> u32 \<Rightarrow> u32 \<Rightarrow> u32 \<Rightarrow> u32" where
  "RIPEMD128_R1_Vz x y z co = (x XOR y XOR z) + co"
definition RIPEMD128_R2_Vz :: "u32 \<Rightarrow> u32 \<Rightarrow> u32 \<Rightarrow> u32 \<Rightarrow> u32" where
  "RIPEMD128_R2_Vz x y z co = ((x AND y) OR (NOT x AND z)) + co"
definition RIPEMD128_R3_Vz :: "u32 \<Rightarrow> u32 \<Rightarrow> u32 \<Rightarrow> u32 \<Rightarrow> u32" where
  "RIPEMD128_R3_Vz x y z co = ((x OR NOT y) XOR z) + co"
definition RIPEMD128_R4_Vz :: "u32 \<Rightarrow> u32 \<Rightarrow> u32 \<Rightarrow> u32 \<Rightarrow> u32" where
  "RIPEMD128_R4_Vz x y z co = ((x AND z) OR (y AND NOT z)) + co"
definition RIPEMD128_R5_Vz :: "u32 \<Rightarrow> u32 \<Rightarrow> u32 \<Rightarrow> u32 \<Rightarrow> u32" where
  "RIPEMD128_R5_Vz x y z co = ((x AND z) OR (y AND NOT z)) + co"
definition RIPEMD128_R6_Vz :: "u32 \<Rightarrow> u32 \<Rightarrow> u32 \<Rightarrow> u32 \<Rightarrow> u32" where
  "RIPEMD128_R6_Vz x y z co = ((x OR NOT y) XOR z) + co"
definition RIPEMD128_R7_Vz :: "u32 \<Rightarrow> u32 \<Rightarrow> u32 \<Rightarrow> u32 \<Rightarrow> u32" where
  "RIPEMD128_R7_Vz x y z co = ((x AND y) OR (NOT x AND z)) + co"
definition RIPEMD128_R8_Vz :: "u32 \<Rightarrow> u32 \<Rightarrow> u32 \<Rightarrow> u32 \<Rightarrow> u32" where
  "RIPEMD128_R8_Vz = RIPEMD128_R1_Vz"

text \<open>The arguments of \<open>RIPEMD128_PRC(a, b, c, d, w[idx], rot, rnd)\<close>; the variant has one more, \<open>co\<close>.\<close>

type_synonym ripemd_step = "nat \<times> nat \<times> nat \<times> nat \<times> nat \<times> nat"
type_synonym ripemd_step_Vz = "nat \<times> nat \<times> nat \<times> nat \<times> u32 \<times> nat \<times> nat"

definition RIPEMD128_PRC :: "(u32 \<Rightarrow> u32 \<Rightarrow> u32 \<Rightarrow> u32) \<Rightarrow> u32 list \<Rightarrow> u32 list \<Rightarrow> ripemd_step \<Rightarrow> u32 list" where
  "RIPEMD128_PRC R w wv = (\<lambda>(a, b, c, d, idx, rot).
     wv[a := ROL (wv ! a + R (wv ! b) (wv ! c) (wv ! d) + w ! idx) rot])"

definition RIPEMD128_PRC_Vz ::
  "(u32 \<Rightarrow> u32 \<Rightarrow> u32 \<Rightarrow> u32 \<Rightarrow> u32) \<Rightarrow> u32 list \<Rightarrow> u32 list \<Rightarrow> ripemd_step_Vz \<Rightarrow> u32 list" where
  "RIPEMD128_PRC_Vz R w wv = (\<lambda>(a, b, c, d, co, idx, rot).
     wv[a := ROL (wv ! a + R (wv ! b) (wv ! c) (wv ! d) co + w ! idx) rot])"

definition ripemd128_round1 :: "ripemd_step list" where
  "ripemd128_round1 = [
   (0, 1, 2, 3, 0, 11), (3, 0, 1, 2, 1, 14), (2, 3, 0, 1, 2, 15), (1, 2, 3, 0, 3, 12),
   (0, 1, 2, 3, 4, 5), (3, 0, 1, 2, 5, 8), (2, 3, 0, 1, 6, 7), (1, 2, 3, 0, 7, 9),
   (0, 1, 2, 3, 8, 11), (3, 0, 1, 2, 9, 13), (2, 3, 0, 1, 10, 14), (1, 2, 3, 0, 11, 15),
   (0, 1, 2, 3, 12, 6), (3, 0, 1, 2, 13, 7), (2, 3, 0, 1, 14, 9), (1, 2, 3, 0, 15, 8)]"

definition ripemd128_round2 :: "ripemd_step list" where
  "ripemd128_round2 = [
   (0, 1, 2, 3, 7, 7), (3, 0, 1, 2, 4, 6), (2, 3, 0, 1, 13, 8), (1, 2, 3, 0, 1, 13),
   (0, 1, 2, 3, 10, 11), (3, 0, 1, 2, 6, 9), (2, 3, 0, 1, 15, 7), (1, 2, 3, 0, 3, 15),
   (0, 1, 2, 3, 12, 7), (3, 0, 1, 2, 0, 12), (2, 3, 0, 1, 9, 15), (1, 2, 3, 0, 5, 9),
   (0, 1, 2, 3, 2, 11), (3, 0, 1, 2, 14, 7), (2, 3, 0, 1, 11, 13), (1, 2, 3, 0, 8, 12)]"

definition ripemd128_round3 :: "ripemd_step list" where
  "ripemd128_round3 = [
   (0, 1, 2, 3, 3, 11), (3, 0, 1, 2, 10, 13), (2, 3, 0, 1, 14, 6), (1, 2, 3, 0, 4, 7),
   (0, 1, 2, 3, 9, 14), (3, 0, 1, 2, 15, 9), (2, 3, 0, 1, 8, 13), (1, 2, 3, 0, 1, 15),
   (0, 1, 2, 3, 2, 14), (3, 0, 1, 2, 7, 8), (2, 3, 0, 1, 0, 13), (1, 2, 3, 0, 6, 6),
   (0, 1, 2, 3, 13, 5), (3, 0, 1, 2, 11, 12), (2, 3, 0, 1, 5, 7), (1, 2, 3, 0, 12, 5)]"

definition ripemd128_round4 :: "ripemd_step list" where
  "ripemd128_round4 = [
   (0, 1, 2, 3, 1, 11), (3, 0, 1, 2, 9, 12), (2, 3, 0, 1, 11, 14), (1, 2, 3, 0, 10, 15),
   (0, 1, 2, 3, 0, 14), (3, 0, 1, 2, 8, 15), (2, 3, 0, 1, 12, 9), (1, 2, 3, 0, 4, 8),
   (0, 1, 2, 3, 13, 9), (3, 0, 1, 2, 3, 14), (2, 3, 0, 1, 7, 5), (1, 2, 3, 0, 15, 6),
   (0, 1, 2, 3, 14, 8), (3, 0, 1, 2, 5, 6), (2, 3, 0, 1, 6, 5), (1, 2, 3, 0, 2, 12)]"

definition ripemd128_round5 :: "ripemd_step list" where
  "ripemd128_round5 = [
   (4, 5, 6, 7, 5, 8), (7, 4, 5, 6, 14, 9), (6, 7, 4, 5, 7, 9), (5, 6, 7, 4, 0, 11),
   (4, 5, 6, 7, 9, 13), (7, 4, 5, 6, 2, 15), (6, 7, 4, 5, 11, 15), (5, 6, 7, 4, 4, 5),
   (4, 5, 6, 7, 13, 7), (7, 4, 5, 6, 6, 7), (6, 7, 4, 5, 15, 8), (5, 6, 7, 4, 8, 11),
   (4, 5, 6, 7, 1, 14), (7, 4, 5, 6, 10, 14), (6, 7, 4, 5, 3, 12), (5, 6, 7, 4, 12, 6)]"

definition ripemd128_round6 :: "ripemd_step list" where
  "ripemd128_round6 = [
   (4, 5, 6, 7, 6, 9), (7, 4, 5, 6, 11, 13), (6, 7, 4, 5, 3, 15), (5, 6, 7, 4, 7, 7),
   (4, 5, 6, 7, 0, 12), (7, 4, 5, 6, 13, 8), (6, 7, 4, 5, 5, 9), (5, 6, 7, 4, 10, 11),
   (4, 5, 6, 7, 14, 7), (7, 4, 5, 6, 15, 7), (6, 7, 4, 5, 8, 12), (5, 6, 7, 4, 12, 7),
   (4, 5, 6, 7, 4, 6), (7, 4, 5, 6, 9, 15), (6, 7, 4, 5, 1, 13), (5, 6, 7, 4, 2, 11)]"

definition ripemd128_round7 :: "ripemd_step list" where
  "ripemd128_round7 = [
   (4, 5, 6, 7, 15, 9), (7, 4, 5, 6, 5, 7), (6, 7, 4, 5, 1, 15), (5, 6, 7, 4, 3, 11),
   (4, 5, 6, 7, 7, 8), (7, 4, 5, 6, 14, 6), (6, 7, 4, 5, 6, 6), (5, 6, 7, 4, 9, 14),
   (4, 5, 6, 7, 11, 12), (7, 4, 5, 6, 8, 13), (6, 7, 4, 5, 12, 5), (5, 6, 7, 4, 2, 14),
   (4, 5, 6, 7, 10, 13), (7, 4, 5, 6, 0, 13), (6, 7, 4, 5, 4, 7), (5, 6, 7, 4, 13, 5)]"

definition ripemd128_round8 :: "ripemd_step list" where
  "ripemd128_round8 = [
   (4, 5, 6, 7, 8, 15), (7, 4, 5, 6, 6, 5), (6, 7, 4, 5, 4, 8), (5, 6, 7, 4, 1, 11),
   (4, 5, 6, 7, 3, 14), (7, 4, 5, 6, 11, 14), (6, 7, 4, 5, 15, 6), (5, 6, 7, 4, 0, 14),
   (4, 5, 6, 7, 5, 6), (7, 4, 5, 6, 12, 9), (6, 7, 4, 5, 2, 12), (5, 6, 7, 4, 13, 9),
   (4, 5, 6, 7, 9, 12), (7, 4, 5, 6, 7, 5), (6, 7, 4, 5, 10, 15), (5, 6, 7, 4, 14, 8)]"

definition ripemd128_round1_Vz :: "ripemd_step_Vz list" where
  "ripemd128_round1_Vz = [
   (0, 1, 2, 3, 0x2, 0, 11), (3, 0, 1, 2, 0x2, 1, 14), (2, 3, 0, 1, 0x2, 2, 15), (1, 2, 3, 0, 0x2, 3, 12),
   (0, 1, 2, 3, 0x2, 4, 5), (3, 0, 1, 2, 0x2, 5, 8), (2, 3, 0, 1, 0x2, 6, 7), (1, 2, 3, 0, 0x2, 7, 9),
   (0, 1, 2, 3, 0x2, 8, 11), (3, 0, 1, 2, 0x2, 9, 13), (2, 3, 0, 1, 0x2, 10, 14), (1, 2, 3, 0, 0x2, 11, 15),
   (0, 1, 2, 3, 0x2, 12, 6), (3, 0, 1, 2, 0x2, 13, 7), (2, 3, 0, 1, 0x2, 14, 9), (1, 2, 3, 0, 0x2, 15, 8)]"

definition ripemd128_round2_Vz :: "ripemd_step_Vz list" where
  "ripemd128_round2_Vz = [
   (0, 1, 2, 3, 0x325b99a1, 7, 7), (3, 0, 1, 2, 0x2, 4, 6), (2, 3, 0, 1, 0x325b99a1, 13, 8), (1, 2, 3, 0, 0x325b99a1, 1, 13),
   (0, 1, 2, 3, 0x325b99a1, 10, 11), (3, 0, 1, 2, 0x325b99a1, 6, 9), (2, 3, 0, 1, 0x325b99a1, 15, 7), (1, 2, 3, 0, 0xbcdcb1f9, 3, 15),
   (0, 1, 2, 3, 0x325b99a1, 12, 7), (3, 0, 1, 2, 0x2, 0, 12), (2, 3, 0, 1, 0x325b99a1, 9, 15), (1, 2, 3, 0, 0x325b99a1, 5, 9),
   (0, 1, 2, 3, 0x325b99a1, 2, 11), (3, 0, 1, 2, 0x325b99a1, 14, 7), (2, 3, 0, 1, 0x325b99a1, 11, 13), (1, 2, 3, 0, 0x2, 8, 12)]"

definition ripemd128_round3_Vz :: "ripemd_step_Vz list" where
  "ripemd128_round3_Vz = [
   (0, 1, 2, 3, 0x1baed69c, 3, 11), (3, 0, 1, 2, 0x1baed69c, 10, 13), (2, 3, 0, 1, 0x1baed69c, 14, 6), (1, 2, 3, 0, 0x1baed69c, 4, 7),
   (0, 1, 2, 3, 0x1baed69c, 9, 14), (3, 0, 1, 2, 0x1baed69c, 15, 9), (2, 3, 0, 1, 0x1baed69c, 8, 13), (1, 2, 3, 0, 0x1baed69c, 1, 15),
   (0, 1, 2, 3, 0x1baed69c, 2, 14), (3, 0, 1, 2, 0x1baed69c, 7, 8), (2, 3, 0, 1, 0x1baed69c, 0, 13), (1, 2, 3, 0, 0x325b99a1, 6, 6),
   (0, 1, 2, 3, 0x1baed69c, 13, 5), (3, 0, 1, 2, 0xbcdcb1fa, 11, 12), (2, 3, 0, 1, 0x1baed69c, 5, 7), (1, 2, 3, 0, 0x1baed69c, 12, 5)]"

definition ripemd128_round4_Vz :: "ripemd_step_Vz list" where
  "ripemd128_round4_Vz = [
   (0, 1, 2, 3, 0xbcdcb1f9, 1, 11), (3, 0, 1, 2, 0xbcdcb1f9, 9, 12), (2, 3, 0, 1, 0x325b99a1, 11, 14), (1, 2, 3, 0, 0xbcdcb1f9, 10, 15),
   (0, 1, 2, 3, 0xbcdcb1f9, 0, 14), (3, 0, 1, 2, 0xbcdcb1fb, 8, 15), (2, 3, 0, 1, 0xbcdcb1f9, 12, 9), (1, 2, 3, 0, 0xbcdcb1f9, 4, 8),
   (0, 1, 2, 3, 0xbcdcb1f9, 13, 9), (3, 0, 1, 2, 0x1baed69c, 3, 14), (2, 3, 0, 1, 0xbcdcb1f9, 7, 5), (1, 2, 3, 0, 0x2, 15, 6),
   (0, 1, 2, 3, 0xbcdcb1f9, 14, 8), (3, 0, 1, 2, 0xbcdcb1f9, 5, 6), (2, 3, 0, 1, 0xbcdcb1f9, 6, 5), (1, 2, 3, 0, 0xbcdcb1fc, 2, 12)]"

definition ripemd128_round5_Vz :: "ripemd_step_Vz list" where
  "ripemd128_round5_Vz = [
   (4, 5, 6, 7, 0x5a82798a, 5, 8), (7, 4, 5, 6, 0x5a82798a, 14, 9), (6, 7, 4, 5, 0x5a82798a, 7, 9), (5, 6, 7, 4, 0x5a82798a, 0, 11),
   (4, 5, 6, 7, 0x5a82798a, 9, 13), (7, 4, 5, 6, 0x5a82798a, 2, 15), (6, 7, 4, 5, 0x325b99a1, 11, 15), (5, 6, 7, 4, 0x5a82798a, 4, 5),
   (4, 5, 6, 7, 0x5a82798a, 13, 7), (7, 4, 5, 6, 0x5a82798a, 6, 7), (6, 7, 4, 5, 0x5a82798a, 15, 8), (5, 6, 7, 4, 0x5a82798a, 8, 11),
   (4, 5, 6, 7, 0x5a82798a, 1, 14), (7, 4, 5, 6, 0xbcdcb1f9, 10, 14), (6, 7, 4, 5, 0xbcdcb1fc, 3, 12), (5, 6, 7, 4, 0x5a82798a, 12, 6)]"

definition ripemd128_round6_Vz :: "ripemd_step_Vz list" where
  "ripemd128_round6_Vz = [
   (4, 5, 6, 7, 0x41d42d5d, 6, 9), (7, 4, 5, 6, 0x41d42d5d, 11, 13), (6, 7, 4, 5, 0x41d42d5d, 3, 15), (5, 6, 7, 4, 0x41d42d5d, 7, 7),
   (4, 5, 6, 7, 0x41d42d5d, 0, 12), (7, 4, 5, 6, 0x41d42d5d, 13, 8), (6, 7, 4, 5, 0xbcdcb1f9, 5, 9), (5, 6, 7, 4, 0xbcdcb1fd, 10, 11),
   (4, 5, 6, 7, 0x41d42d5d, 14, 7), (7, 4, 5, 6, 0x41d42d5d, 15, 7), (6, 7, 4, 5, 0x41d42d5d, 8, 12), (5, 6, 7, 4, 0x41d42d5d, 12, 7),
   (4, 5, 6, 7, 0x41d42d5d, 4, 6), (7, 4, 5, 6, 0x41d42d5d, 9, 15), (6, 7, 4, 5, 0x325b99a1, 1, 13), (5, 6, 7, 4, 0x41d42d5d, 2, 11)]"

definition ripemd128_round7_Vz :: "ripemd_step_Vz list" where
  "ripemd128_round7_Vz = [
   (4, 5, 6, 7, 0x30ed3f68, 15, 9), (7, 4, 5, 6, 0x30ed3f68, 5, 7), (6, 7, 4, 5, 0x30ed3f68, 1, 15), (5, 6, 7, 4, 0x30ed3f68, 3, 11),
   (4, 5, 6, 7, 0x30ed3f68, 7, 8), (7, 4, 5, 6, 0x30ed3f68, 14, 6), (6, 7, 4, 5, 0xbcdcb1fe, 6, 6), (5, 6, 7, 4, 0x30ed3f68, 9, 14),
   (4, 5, 6, 7, 0x30ed3f68, 11, 12), (7, 4, 5, 6, 0x5a82798a, 8, 13), (6, 7, 4, 5, 0x30ed3f68, 12, 5), (5, 6, 7, 4, 0x30ed3f68, 2, 14),
   (4, 5, 6, 7, 0x30ed3f68, 10, 13), (7, 4, 5, 6, 0x30ed3f68, 0, 13), (6, 7, 4, 5, 0x41d42d5d, 4, 7), (5, 6, 7, 4, 0x30ed3f68, 13, 5)]"

definition ripemd128_round8_Vz :: "ripemd_step_Vz list" where
  "ripemd128_round8_Vz = [
   (4, 5, 6, 7, 0x2, 8, 15), (7, 4, 5, 6, 0xbcdcb1fc, 6, 5), (6, 7, 4, 5, 0x2, 4, 8), (5, 6, 7, 4, 0x2, 1, 11),
   (4, 5, 6, 7, 0x2, 3, 14), (7, 4, 5, 6, 0x2, 11, 14), (6, 7, 4, 5, 0x2, 15, 6), (5, 6, 7, 4, 0x2, 0, 14),
   (4, 5, 6, 7, 0x2, 5, 6), (7, 4, 5, 6, 0x2, 12, 9), (6, 7, 4, 5, 0x2, 2, 12), (5, 6, 7, 4, 0x2, 13, 9),
   (4, 5, 6, 7, 0x2, 9, 12), (7, 4, 5, 6, 0x2, 7, 5), (6, 7, 4, 5, 0x2, 10, 15), (5, 6, 7, 4, 0x2, 14, 8)]"

definition ripemd128_w :: "byte list \<Rightarrow> u32 list" where
  "ripemd128_w data = map (\<lambda>t. PACK_32_LE (drop (4 * t) data)) [0, 1, 2, 3, 4, 5, 6, 7, 8, 9, 10, 11, 12, 13, 14, 15]"

definition ripemd128_rounds :: "u32 list \<Rightarrow> u32 list \<Rightarrow> u32 list" where
  "ripemd128_rounds w wv =
     (let wv = foldl (RIPEMD128_PRC RIPEMD128_R1 w) wv ripemd128_round1;
          wv = foldl (RIPEMD128_PRC RIPEMD128_R2 w) wv ripemd128_round2;
          wv = foldl (RIPEMD128_PRC RIPEMD128_R3 w) wv ripemd128_round3;
          wv = foldl (RIPEMD128_PRC RIPEMD128_R4 w) wv ripemd128_round4;
          wv = foldl (RIPEMD128_PRC RIPEMD128_R5 w) wv ripemd128_round5;
          wv = foldl (RIPEMD128_PRC RIPEMD128_R6 w) wv ripemd128_round6;
          wv = foldl (RIPEMD128_PRC RIPEMD128_R7 w) wv ripemd128_round7
      in foldl (RIPEMD128_PRC RIPEMD128_R8 w) wv ripemd128_round8)"

definition ripemd128_rounds_Vz :: "u32 list \<Rightarrow> u32 list \<Rightarrow> u32 list" where
  "ripemd128_rounds_Vz w wv =
     (let wv = foldl (RIPEMD128_PRC_Vz RIPEMD128_R1_Vz w) wv ripemd128_round1_Vz;
          wv = foldl (RIPEMD128_PRC_Vz RIPEMD128_R2_Vz w) wv ripemd128_round2_Vz;
          wv = foldl (RIPEMD128_PRC_Vz RIPEMD128_R3_Vz w) wv ripemd128_round3_Vz;
          wv = foldl (RIPEMD128_PRC_Vz RIPEMD128_R4_Vz w) wv ripemd128_round4_Vz;
          wv = foldl (RIPEMD128_PRC_Vz RIPEMD128_R5_Vz w) wv ripemd128_round5_Vz;
          wv = foldl (RIPEMD128_PRC_Vz RIPEMD128_R6_Vz w) wv ripemd128_round6_Vz;
          wv = foldl (RIPEMD128_PRC_Vz RIPEMD128_R7_Vz w) wv ripemd128_round7_Vz
      in foldl (RIPEMD128_PRC_Vz RIPEMD128_R8_Vz w) wv ripemd128_round8_Vz)"

text \<open>One turn of the loop over the blocks, on the state \<open>ctx->h\<close>.\<close>

definition ripemd128_block :: "u32 list \<Rightarrow> byte list \<Rightarrow> u32 list" where
  "ripemd128_block h data =
     (let wv = ripemd128_rounds (ripemd128_w data) [h ! 0, h ! 1, h ! 2, h ! 3, h ! 0, h ! 1, h ! 2, h ! 3]
      in [wv ! 7 + (wv ! 2 + h ! 1), h ! 2 + wv ! 3 + wv ! 4, h ! 3 + wv ! 0 + wv ! 5, h ! 0 + wv ! 1 + wv ! 6])"

definition ripemd128_block_Vz :: "u32 list \<Rightarrow> byte list \<Rightarrow> u32 list" where
  "ripemd128_block_Vz h data =
     (let wv = ripemd128_rounds_Vz (ripemd128_w data) [h ! 0, h ! 1, h ! 2, h ! 3, h ! 0, h ! 1, h ! 2, h ! 3]
      in [wv ! 7 + (wv ! 2 + h ! 1), h ! 2 + wv ! 3 + wv ! 4, h ! 3 + wv ! 0 + wv ! 5 + 1, h ! 0 + wv ! 1 + wv ! 6])"

fun ripemd128_transform :: "(u32 list \<Rightarrow> byte list \<Rightarrow> u32 list) \<Rightarrow> u32 list \<Rightarrow> byte list \<Rightarrow> nat \<Rightarrow> u32 list" where
  "ripemd128_transform block h data 0 = h"
| "ripemd128_transform block h data (Suc blocks) = ripemd128_transform block (block h data) (drop 64 data) blocks"

definition ampheck_ripemd128_transform :: "u32 list \<Rightarrow> byte list \<Rightarrow> nat \<Rightarrow> u32 list" where
  "ampheck_ripemd128_transform = ripemd128_transform ripemd128_block"

definition ampheck_ripemd128_transform_Vz :: "u32 list \<Rightarrow> byte list \<Rightarrow> nat \<Rightarrow> u32 list" where
  "ampheck_ripemd128_transform_Vz = ripemd128_transform ripemd128_block_Vz"

subsection \<open>Init, update, finish\<close>

record ampheck_ripemd128 =
  rmd_h :: "u32 list"
  rmd_buffer :: "byte list"
  rmd_length :: u64

definition ampheck_ripemd128_init :: "ampheck_ripemd128 \<Rightarrow> ampheck_ripemd128" where
  "ampheck_ripemd128_init ctx = ctx\<lparr>rmd_h := [0x67452301, 0xefcdab89, 0x98badcfe, 0x10325476], rmd_length := 0\<rparr>"

definition ampheck_ripemd128_init_Vz :: "ampheck_ripemd128 \<Rightarrow> ampheck_ripemd128" where
  "ampheck_ripemd128_init_Vz ctx = ctx\<lparr>rmd_h := [0x10257436, 0xa8bd9cfe, 0x9efcad8b, 0x12375460], rmd_length := 0\<rparr>"

text \<open>The two update functions have the same text up to the transformation, and so have the two others.\<close>

definition ripemd128_update ::
  "(u32 list \<Rightarrow> byte list \<Rightarrow> nat \<Rightarrow> u32 list) \<Rightarrow> ampheck_ripemd128 \<Rightarrow> byte list \<Rightarrow> ampheck_ripemd128" where
  "ripemd128_update transform ctx data =
     (let n = unat (rmd_length ctx mod 64);
          size = length data;
          tmp = size;
          ctx =
            (if size \<ge> 64 - n
             then let buffer = memcpy (rmd_buffer ctx) n (take (64 - n) data);
                      data = drop (64 - n) data;
                      size = size - (64 - n);
                      h = transform (rmd_h ctx) buffer 1;
                      h = transform h data (size div 64);
                      data = drop (size - size mod 64) data;
                      size = size mod 64
                  in ctx\<lparr>rmd_h := h, rmd_buffer := memcpy buffer 0 (take size data)\<rparr>
             else ctx\<lparr>rmd_buffer := memcpy (rmd_buffer ctx) n data\<rparr>)
      in ctx\<lparr>rmd_length := rmd_length ctx + of_nat tmp\<rparr>)"

definition ampheck_ripemd128_update :: "ampheck_ripemd128 \<Rightarrow> byte list \<Rightarrow> ampheck_ripemd128" where
  "ampheck_ripemd128_update = ripemd128_update ampheck_ripemd128_transform"

definition ampheck_ripemd128_update_Vz :: "ampheck_ripemd128 \<Rightarrow> byte list \<Rightarrow> ampheck_ripemd128" where
  "ampheck_ripemd128_update_Vz = ripemd128_update ampheck_ripemd128_transform_Vz"

text \<open>\<open>junk\<close> is what the local copy \<open>tmp\<close> has in its buffer before it is written.\<close>

definition ripemd128_finish ::
  "(u32 list \<Rightarrow> byte list \<Rightarrow> nat \<Rightarrow> u32 list) \<Rightarrow> ampheck_ripemd128 \<Rightarrow> byte list \<Rightarrow> byte list \<Rightarrow> byte list" where
  "ripemd128_finish transform ctx junk digest =
     (let n = unat (rmd_length ctx mod 64);
          h = rmd_h ctx;
          buffer = memcpy junk 0 (take n (rmd_buffer ctx));
          buffer = buffer[n := 0x80];
          (h, buffer) =
            (if n < 56
             then (h, memcpy buffer (n + 1) (replicate (55 - n) 0))
             else let buffer = memcpy buffer (n + 1) (replicate (63 - n) 0);
                      h = transform h buffer 1
                  in (h, memcpy buffer 0 (replicate 56 0)));
          buffer = memcpy buffer 56 (UNPACK_64_LE (rmd_length ctx * 8));
          h = transform h buffer 1;
          digest = memcpy digest 0 (UNPACK_32_LE (h ! 0));
          digest = memcpy digest 4 (UNPACK_32_LE (h ! 1));
          digest = memcpy digest 8 (UNPACK_32_LE (h ! 2))
      in memcpy digest 12 (UNPACK_32_LE (h ! 3)))"

definition ampheck_ripemd128_finish :: "ampheck_ripemd128 \<Rightarrow> byte list \<Rightarrow> byte list \<Rightarrow> byte list" where
  "ampheck_ripemd128_finish = ripemd128_finish ampheck_ripemd128_transform"

definition ampheck_ripemd128_finish_Vz :: "ampheck_ripemd128 \<Rightarrow> byte list \<Rightarrow> byte list \<Rightarrow> byte list" where
  "ampheck_ripemd128_finish_Vz = ripemd128_finish ampheck_ripemd128_transform_Vz"

subsection \<open>The hash function after its paper\<close>

text \<open>The selection of the message words by the permutations \<open>rho\<close> and \<open>pi\<close>, and the shifts by round and word.\<close>

definition ripemd_rho :: "nat \<Rightarrow> nat" where
  "ripemd_rho i = [7, 4, 13, 1, 10, 6, 15, 3, 12, 0, 9, 5, 2, 14, 11, 8] ! i"

definition ripemd_pi :: "nat \<Rightarrow> nat" where
  "ripemd_pi i = (9 * i + 5) mod 16"

definition ripemd_left :: "nat \<Rightarrow> nat" where
  "ripemd_left j = (ripemd_rho ^^ (j div 16)) (j mod 16)"

definition ripemd_right :: "nat \<Rightarrow> nat" where
  "ripemd_right j = (ripemd_rho ^^ (j div 16)) (ripemd_pi (j mod 16))"

definition ripemd_shift :: "nat \<Rightarrow> nat \<Rightarrow> nat" where
  "ripemd_shift rnd i =
     [[11, 14, 15, 12, 5, 8, 7, 9, 11, 13, 14, 15, 6, 7, 9, 8],
      [12, 13, 11, 15, 6, 9, 9, 7, 12, 15, 11, 13, 7, 8, 7, 7],
      [13, 15, 14, 11, 7, 7, 6, 8, 13, 14, 13, 12, 5, 5, 6, 9],
      [14, 11, 12, 14, 8, 6, 5, 5, 15, 12, 15, 14, 9, 9, 8, 6]] ! rnd ! i"

definition ripemd_f :: "nat \<Rightarrow> u32 \<Rightarrow> u32 \<Rightarrow> u32 \<Rightarrow> u32" where
  "ripemd_f rnd x y z =
     (if rnd = 0 then x XOR y XOR z
      else if rnd = 1 then (x AND y) OR (NOT x AND z)
      else if rnd = 2 then (x OR NOT y) XOR z
      else (x AND z) OR (y AND NOT z))"

definition ripemd_K :: "nat \<Rightarrow> u32" where
  "ripemd_K rnd = [0, 0x5A827999, 0x6ED9EBA1, 0x8F1BBCDC] ! rnd"

definition ripemd_K' :: "nat \<Rightarrow> u32" where
  "ripemd_K' rnd = [0x50A28BE6, 0x5C4DD124, 0x6D703EF3, 0] ! rnd"

type_synonym ripemd_vars = "u32 \<times> u32 \<times> u32 \<times> u32"

definition ripemd_op :: "(u32 \<Rightarrow> u32 \<Rightarrow> u32 \<Rightarrow> u32) \<Rightarrow> u32 \<Rightarrow> nat \<Rightarrow> ripemd_vars \<Rightarrow> ripemd_vars" where
  "ripemd_op f x s = (\<lambda>(A, B, C, D). (D, word_rotl s (A + f B C D + x), B, C))"

definition ripemd_left_line :: "(nat \<Rightarrow> u32) \<Rightarrow> ripemd_vars \<Rightarrow> ripemd_vars" where
  "ripemd_left_line X vars = foldl (\<lambda>vars j.
     ripemd_op (\<lambda>B C D. ripemd_f (j div 16) B C D + ripemd_K (j div 16)) (X (ripemd_left j))
       (ripemd_shift (j div 16) (ripemd_left j)) vars) vars [0..<64]"

definition ripemd_right_line :: "(nat \<Rightarrow> u32) \<Rightarrow> ripemd_vars \<Rightarrow> ripemd_vars" where
  "ripemd_right_line X vars = foldl (\<lambda>vars j.
     ripemd_op (\<lambda>B C D. ripemd_f (3 - j div 16) B C D + ripemd_K' (j div 16)) (X (ripemd_right j))
       (ripemd_shift (j div 16) (ripemd_right j)) vars) vars [0..<64]"

definition ripemd_compress :: "u32 list \<Rightarrow> byte list \<Rightarrow> u32 list" where
  "ripemd_compress h block =
     (let X = block32 block;
          (A, B, C, D) = ripemd_left_line X (h ! 0, h ! 1, h ! 2, h ! 3);
          (A', B', C', D') = ripemd_right_line X (h ! 0, h ! 1, h ! 2, h ! 3)
      in [h ! 1 + C + D', h ! 2 + D + A', h ! 3 + A + B', h ! 0 + B + C'])"

definition ripemd_padded :: "byte list \<Rightarrow> byte list" where
  "ripemd_padded m = m @ padding 0x80 8 (bytes_le64 (of_nat (8 * length m))) (length m)"

definition ripemd128_spec :: "byte list \<Rightarrow> byte list" where
  "ripemd128_spec m = concat (map bytes_le32 (absorb ripemd_compress
     [0x67452301, 0xefcdab89, 0x98badcfe, 0x10325476] (ripemd_padded m)))"

definition ripemd128_Vz_spec :: "byte list \<Rightarrow> byte list" where
  "ripemd128_Vz_spec m = concat (map bytes_le32 (absorb ripemd128_block_Vz
     [0x10257436, 0xa8bd9cfe, 0x9efcad8b, 0x12375460] (ripemd_padded m)))"

subsection \<open>The rounds follow the paper\<close>

text \<open>The register numbers of step \<open>j\<close> of a line whose registers start at \<open>off\<close>.\<close>

definition step_at :: "nat \<Rightarrow> (nat \<Rightarrow> nat) \<Rightarrow> (nat \<Rightarrow> nat) \<Rightarrow> nat \<Rightarrow> ripemd_step" where
  "step_at off r s j = (off + (4 - j mod 4) mod 4, off + (5 - j mod 4) mod 4, off + (6 - j mod 4) mod 4,
     off + (7 - j mod 4) mod 4, r j, s j)"

definition registers :: "nat \<Rightarrow> nat \<Rightarrow> u32 list \<Rightarrow> ripemd_vars" where
  "registers off j wv = (wv ! (off + (4 - j mod 4) mod 4), wv ! (off + (5 - j mod 4) mod 4),
     wv ! (off + (6 - j mod 4) mod 4), wv ! (off + (7 - j mod 4) mod 4))"

lemma ROL_rotl: "y < 32 \<Longrightarrow> ROL x y = word_rotl y x"
  by (rule bit_word_eqI)
    (auto simp: ROL_def bit_xor_iff bit_push_bit_iff bit_drop_bit_eq bit_word_rotl_iff mod_if add.commute [of 32] dest: bit_imp_le_length)

lemma length_PRC [len_simps]: "length (RIPEMD128_PRC R w wv st) = length wv"
  by (simp add: RIPEMD128_PRC_def split: prod.split)

lemma PRC_step:
  assumes "length wv = 8" and "off = 0 \<or> off = 4" and "s j < 32"
  shows "registers off (Suc j) (RIPEMD128_PRC R w wv (step_at off r s j))
      = ripemd_op R (w ! r j) (s j) (registers off j wv)"
    and "registers (4 - off) 0 (RIPEMD128_PRC R w wv (step_at off r s j)) = registers (4 - off) 0 wv"
proof -
  have "j mod 4 < 4" by simp
  then consider "j mod 4 = 0" "Suc j mod 4 = 1" | "j mod 4 = 1" "Suc j mod 4 = 2"
    | "j mod 4 = 2" "Suc j mod 4 = 3" | "j mod 4 = 3" "Suc j mod 4 = 0"
    by (cases "j mod 4 = 0"; cases "j mod 4 = 1"; cases "j mod 4 = 2") (auto simp: mod_Suc)
  note cases = this
  show "registers off (Suc j) (RIPEMD128_PRC R w wv (step_at off r s j))
      = ripemd_op R (w ! r j) (s j) (registers off j wv)"
    using assms by (cases rule: cases) (auto simp: registers_def step_at_def RIPEMD128_PRC_def ripemd_op_def ROL_rotl)
  show "registers (4 - off) 0 (RIPEMD128_PRC R w wv (step_at off r s j)) = registers (4 - off) 0 wv"
    using assms(1,2) by (cases rule: cases) (auto simp: registers_def step_at_def RIPEMD128_PRC_def)
qed

lemma PRC_line:
  assumes "length wv = 8" and "off = 0 \<or> off = 4" and "\<forall>j \<in> set [m..<n]. s j < 32" and "m \<le> n"
  shows "registers off n (foldl (RIPEMD128_PRC R w) wv (map (step_at off r s) [m..<n]))
      = foldl (\<lambda>vars j. ripemd_op R (w ! r j) (s j) vars) (registers off m wv) [m..<n] \<and>
    registers (4 - off) 0 (foldl (RIPEMD128_PRC R w) wv (map (step_at off r s) [m..<n])) = registers (4 - off) 0 wv \<and>
    length (foldl (RIPEMD128_PRC R w) wv (map (step_at off r s) [m..<n])) = 8"
  using assms(4,3)
proof (induction n rule: dec_induct)
  case (step n)
  then show ?case using assms(2) by (simp add: PRC_step len_simps)
qed (simp add: assms)

lemmas ripemd_tables = step_at_def ripemd_left_def ripemd_right_def ripemd_shift_def ripemd_rho_def ripemd_pi_def

lemma round1_at: "ripemd128_round1 = map (step_at 0 ripemd_left (\<lambda>j. ripemd_shift 0 (ripemd_left j))) [0..<16]"
  unfolding ripemd128_round1_def ripemd_tables by code_simp

lemma round2_at: "ripemd128_round2 = map (step_at 0 ripemd_left (\<lambda>j. ripemd_shift 1 (ripemd_left j))) [16..<32]"
  unfolding ripemd128_round2_def ripemd_tables by code_simp

lemma round3_at: "ripemd128_round3 = map (step_at 0 ripemd_left (\<lambda>j. ripemd_shift 2 (ripemd_left j))) [32..<48]"
  unfolding ripemd128_round3_def ripemd_tables by code_simp

lemma round4_at: "ripemd128_round4 = map (step_at 0 ripemd_left (\<lambda>j. ripemd_shift 3 (ripemd_left j))) [48..<64]"
  unfolding ripemd128_round4_def ripemd_tables by code_simp

lemma round5_at: "ripemd128_round5 = map (step_at 4 ripemd_right (\<lambda>j. ripemd_shift 0 (ripemd_right j))) [0..<16]"
  unfolding ripemd128_round5_def ripemd_tables by code_simp

lemma round6_at: "ripemd128_round6 = map (step_at 4 ripemd_right (\<lambda>j. ripemd_shift 1 (ripemd_right j))) [16..<32]"
  unfolding ripemd128_round6_def ripemd_tables by code_simp

lemma round7_at: "ripemd128_round7 = map (step_at 4 ripemd_right (\<lambda>j. ripemd_shift 2 (ripemd_right j))) [32..<48]"
  unfolding ripemd128_round7_def ripemd_tables by code_simp

lemma round8_at: "ripemd128_round8 = map (step_at 4 ripemd_right (\<lambda>j. ripemd_shift 3 (ripemd_right j))) [48..<64]"
  unfolding ripemd128_round8_def ripemd_tables by code_simp

lemma shifts_small:
  "\<forall>j \<in> set [0..<16]. ripemd_shift 0 (ripemd_left j) < 32" "\<forall>j \<in> set [16..<32]. ripemd_shift 1 (ripemd_left j) < 32"
  "\<forall>j \<in> set [32..<48]. ripemd_shift 2 (ripemd_left j) < 32" "\<forall>j \<in> set [48..<64]. ripemd_shift 3 (ripemd_left j) < 32"
  "\<forall>j \<in> set [0..<16]. ripemd_shift 0 (ripemd_right j) < 32" "\<forall>j \<in> set [16..<32]. ripemd_shift 1 (ripemd_right j) < 32"
  "\<forall>j \<in> set [32..<48]. ripemd_shift 2 (ripemd_right j) < 32" "\<forall>j \<in> set [48..<64]. ripemd_shift 3 (ripemd_right j) < 32"
  unfolding ripemd_tables by code_simp+

lemma words_small:
  "\<forall>j \<in> set [0..<64]. ripemd_left j < 16" "\<forall>j \<in> set [0..<64]. ripemd_right j < 16"
  unfolding ripemd_tables by code_simp+

definition line_op :: "(nat \<Rightarrow> u32 \<Rightarrow> u32 \<Rightarrow> u32 \<Rightarrow> u32) \<Rightarrow> (nat \<Rightarrow> nat) \<Rightarrow> (nat \<Rightarrow> u32) \<Rightarrow> ripemd_vars \<Rightarrow> nat \<Rightarrow> ripemd_vars" where
  "line_op g sel X vars j = ripemd_op (g (j div 16)) (X (sel j)) (ripemd_shift (j div 16) (sel j)) vars"

lemma round_line:
  assumes rs: "rs = map (step_at off sel (\<lambda>j. ripemd_shift r (sel j))) [m..<n]" and m: "m = 16 * r" "n = m + 16"
    and s: "\<forall>j \<in> set [m..<n]. ripemd_shift r (sel j) < 32" and R: "R = g r"
    and w: "\<forall>j \<in> set [m..<n]. w ! sel j = X (sel j)"
    and wv: "length wv = 8" "off = 0 \<or> off = 4"
  shows "registers off n (foldl (RIPEMD128_PRC R w) wv rs) = foldl (line_op g sel X) (registers off m wv) [m..<n] \<and>
    registers (4 - off) 0 (foldl (RIPEMD128_PRC R w) wv rs) = registers (4 - off) 0 wv \<and>
    length (foldl (RIPEMD128_PRC R w) wv rs) = 8"
proof -
  have "foldl (\<lambda>vars j. ripemd_op R (w ! sel j) (ripemd_shift r (sel j)) vars) (registers off m wv) [m..<n]
      = foldl (line_op g sel X) (registers off m wv) [m..<n]"
  proof (rule foldl_cong [OF refl refl])
    fix vars j
    assume j: "j \<in> set [m..<n]"
    then have "j div 16 = r" using m by auto
    then show "ripemd_op R (w ! sel j) (ripemd_shift r (sel j)) vars = line_op g sel X vars j"
      using w j by (simp add: line_op_def R)
  qed
  then show ?thesis using PRC_line [OF wv s] m by (simp add: rs)
qed

lemma registers_shift: "registers off 16 wv = registers off 0 wv"
    "registers off 32 wv = registers off 0 wv" "registers off 48 wv = registers off 0 wv" "registers off 64 wv = registers off 0 wv"
  by (simp_all add: registers_def mod_add_self2)

lemma four_rounds: "[0..<64] = [0..<16] @ [16..<32] @ [32..<48] @ [48..<(64::nat)]"
  by code_simp

definition left_g :: "nat \<Rightarrow> u32 \<Rightarrow> u32 \<Rightarrow> u32 \<Rightarrow> u32" where
  "left_g rnd = (\<lambda>B C D. ripemd_f rnd B C D + ripemd_K rnd)"

definition right_g :: "nat \<Rightarrow> u32 \<Rightarrow> u32 \<Rightarrow> u32 \<Rightarrow> u32" where
  "right_g rnd = (\<lambda>B C D. ripemd_f (3 - rnd) B C D + ripemd_K' rnd)"

lemma round_functions:
  "RIPEMD128_R1 = left_g 0" "RIPEMD128_R2 = left_g 1" "RIPEMD128_R3 = left_g 2" "RIPEMD128_R4 = left_g 3"
  "RIPEMD128_R5 = right_g 0" "RIPEMD128_R6 = right_g 1" "RIPEMD128_R7 = right_g 2" "RIPEMD128_R8 = right_g 3"
  by (intro ext; simp add: RIPEMD128_R1_def RIPEMD128_R2_def RIPEMD128_R3_def RIPEMD128_R4_def RIPEMD128_R5_def
      RIPEMD128_R6_def RIPEMD128_R7_def RIPEMD128_R8_def left_g_def right_g_def ripemd_f_def ripemd_K_def ripemd_K'_def)+

lemma ripemd_lines:
  "ripemd_left_line X vars = foldl (line_op left_g ripemd_left X) vars [0..<64]"
  "ripemd_right_line X vars = foldl (line_op right_g ripemd_right X) vars [0..<64]"
  by (simp_all add: ripemd_left_line_def ripemd_right_line_def left_g_def right_g_def line_op_def [abs_def])

lemma ripemd128_rounds_lines:
  assumes w: "\<forall>i < 16. w ! i = X i" and wv: "length wv = 8"
  shows "registers 0 0 (ripemd128_rounds w wv) = ripemd_left_line X (registers 0 0 wv) \<and>
    registers 4 0 (ripemd128_rounds w wv) = ripemd_right_line X (registers 4 0 wv) \<and> length (ripemd128_rounds w wv) = 8"
proof -
  have left: "\<forall>j \<in> set [m..<n]. w ! ripemd_left j = X (ripemd_left j)" if "n \<le> 64" for m n
    using w words_small(1) that by auto
  have right: "\<forall>j \<in> set [m..<n]. w ! ripemd_right j = X (ripemd_right j)" if "n \<le> 64" for m n
    using w words_small(2) that by auto
  note left_round = round_line [where off = 0 and sel = ripemd_left and g = left_g and X = X and w = w]
    and right_round = round_line [where off = 4 and sel = ripemd_right and g = right_g and X = X and w = w]
  define v1 where "v1 = foldl (RIPEMD128_PRC RIPEMD128_R1 w) wv ripemd128_round1"
  define v2 where "v2 = foldl (RIPEMD128_PRC RIPEMD128_R2 w) v1 ripemd128_round2"
  define v3 where "v3 = foldl (RIPEMD128_PRC RIPEMD128_R3 w) v2 ripemd128_round3"
  define v4 where "v4 = foldl (RIPEMD128_PRC RIPEMD128_R4 w) v3 ripemd128_round4"
  define v5 where "v5 = foldl (RIPEMD128_PRC RIPEMD128_R5 w) v4 ripemd128_round5"
  define v6 where "v6 = foldl (RIPEMD128_PRC RIPEMD128_R6 w) v5 ripemd128_round6"
  define v7 where "v7 = foldl (RIPEMD128_PRC RIPEMD128_R7 w) v6 ripemd128_round7"
  define v8 where "v8 = foldl (RIPEMD128_PRC RIPEMD128_R8 w) v7 ripemd128_round8"
  have 1: "registers 0 0 v1 = foldl (line_op left_g ripemd_left X) (registers 0 0 wv) [0..<16] \<and>
      registers 4 0 v1 = registers 4 0 wv \<and> length v1 = 8"
    using left_round [where r = 0 and m = 0 and n = 16, OF round1_at _ _ shifts_small(1) round_functions(1) left wv] by (simp add: v1_def registers_shift)
  have 2: "registers 0 0 v2 = foldl (line_op left_g ripemd_left X) (registers 0 0 v1) [16..<32] \<and>
      registers 4 0 v2 = registers 4 0 v1 \<and> length v2 = 8"
    using left_round [where r = 1 and m = 16 and n = 32, OF round2_at _ _ shifts_small(2) round_functions(2) left] 1 by (simp add: v2_def registers_shift)
  have 3: "registers 0 0 v3 = foldl (line_op left_g ripemd_left X) (registers 0 0 v2) [32..<48] \<and>
      registers 4 0 v3 = registers 4 0 v2 \<and> length v3 = 8"
    using left_round [where r = 2 and m = 32 and n = 48, OF round3_at _ _ shifts_small(3) round_functions(3) left] 2 by (simp add: v3_def registers_shift)
  have 4: "registers 0 0 v4 = foldl (line_op left_g ripemd_left X) (registers 0 0 v3) [48..<64] \<and>
      registers 4 0 v4 = registers 4 0 v3 \<and> length v4 = 8"
    using left_round [where r = 3 and m = 48 and n = 64, OF round4_at _ _ shifts_small(4) round_functions(4) left] 3 by (simp add: v4_def registers_shift)
  have 5: "registers 4 0 v5 = foldl (line_op right_g ripemd_right X) (registers 4 0 v4) [0..<16] \<and>
      registers 0 0 v5 = registers 0 0 v4 \<and> length v5 = 8"
    using right_round [where r = 0 and m = 0 and n = 16, OF round5_at _ _ shifts_small(5) round_functions(5) right] 4 by (simp add: v5_def registers_shift)
  have 6: "registers 4 0 v6 = foldl (line_op right_g ripemd_right X) (registers 4 0 v5) [16..<32] \<and>
      registers 0 0 v6 = registers 0 0 v5 \<and> length v6 = 8"
    using right_round [where r = 1 and m = 16 and n = 32, OF round6_at _ _ shifts_small(6) round_functions(6) right] 5 by (simp add: v6_def registers_shift)
  have 7: "registers 4 0 v7 = foldl (line_op right_g ripemd_right X) (registers 4 0 v6) [32..<48] \<and>
      registers 0 0 v7 = registers 0 0 v6 \<and> length v7 = 8"
    using right_round [where r = 2 and m = 32 and n = 48, OF round7_at _ _ shifts_small(7) round_functions(7) right] 6 by (simp add: v7_def registers_shift)
  have 8: "registers 4 0 v8 = foldl (line_op right_g ripemd_right X) (registers 4 0 v7) [48..<64] \<and>
      registers 0 0 v8 = registers 0 0 v7 \<and> length v8 = 8"
    using right_round [where r = 3 and m = 48 and n = 64, OF round8_at _ _ shifts_small(8) round_functions(8) right] 7 by (simp add: v8_def registers_shift)
  have rounds: "ripemd128_rounds w wv = v8"
    by (simp only: ripemd128_rounds_def Let_def v1_def v2_def v3_def v4_def v5_def v6_def v7_def v8_def)
  show ?thesis
    unfolding rounds ripemd_lines four_rounds foldl_append using 1 2 3 4 5 6 7 8 by simp
qed

lemma PACK_32_LE_word: "PACK_32_LE [a, b, c, d] = word_le32 [a, b, c, d]"
proof (rule bit_word_eqI)
  fix i assume "i < LENGTH(32)"
  then consider "i < 8" | "8 \<le> i" "i < 16" | "16 \<le> i" "i < 24" | "24 \<le> i" "i < 32" by fastforce
  then show "bit (PACK_32_LE [a, b, c, d]) i = bit (word_le32 [a, b, c, d]) i"
    unfolding PACK_32_LE_def word_le32_def
    by cases (auto simp: bit_xor_iff bit_or_iff bit_ucast_iff bit_push_bit_iff dest: byte_bit)
qed

lemma PACK_32_LE_block: "4 * t + 4 \<le> length data \<Longrightarrow> PACK_32_LE (drop (4 * t) data) = block32 data t"
  unfolding block32_def PACK_32_LE_word [symmetric] by (simp add: PACK_32_LE_def)

lemma ripemd128_w_nth: "64 \<le> length data \<Longrightarrow> i < 16 \<Longrightarrow> ripemd128_w data ! i = block32 data i"
proof -
  assume a: "64 \<le> length data" "i < 16"
  have "[0, 1, 2, 3, 4, 5, 6, 7, 8, 9, 10, 11, 12, 13, 14, 15] = [0..<16::nat]" by code_simp
  then show ?thesis using a by (simp add: ripemd128_w_def PACK_32_LE_block)
qed

lemma ripemd128_block_compress: "64 \<le> length data \<Longrightarrow> ripemd128_block h data = ripemd_compress h data"
proof -
  assume a: "64 \<le> length data"
  define wv where "wv = [h ! 0, h ! 1, h ! 2, h ! 3, h ! 0, h ! 1, h ! 2, h ! 3]"
  have regs: "registers 0 0 wv = (h ! 0, h ! 1, h ! 2, h ! 3)" "registers 4 0 wv = (h ! 0, h ! 1, h ! 2, h ! 3)"
    by (simp_all add: registers_def wv_def)
  have "length wv = 8" by (simp add: wv_def)
  moreover define v where "v = ripemd128_rounds (ripemd128_w data) wv"
  ultimately have "ripemd_left_line (block32 data) (h ! 0, h ! 1, h ! 2, h ! 3) = registers 0 0 v"
    "ripemd_right_line (block32 data) (h ! 0, h ! 1, h ! 2, h ! 3) = registers 4 0 v"
    using ripemd128_rounds_lines [of "ripemd128_w data" "block32 data" wv] ripemd128_w_nth [OF a] by (simp_all add: regs)
  then show ?thesis
    unfolding ripemd128_block_def ripemd_compress_def Let_def wv_def [symmetric] v_def [symmetric]
    by (simp add: registers_def ac_simps numeral_2_eq_2 numeral_3_eq_3)
qed

lemma ripemd128_w_take: "ripemd128_w (take 64 data) = ripemd128_w data" if "64 \<le> length data"
  using that by (simp add: ripemd128_w_def PACK_32_LE_def)

lemma ripemd128_block_take:
  "64 \<le> length data \<Longrightarrow> ripemd128_block h (take 64 data) = ripemd128_block h data"
  "64 \<le> length data \<Longrightarrow> ripemd128_block_Vz h (take 64 data) = ripemd128_block_Vz h data"
  by (simp_all add: ripemd128_block_def ripemd128_block_Vz_def ripemd128_w_take)

subsection \<open>Update and finish\<close>

lemma transform_absorb:
  assumes "\<And>h data. 64 \<le> length data \<Longrightarrow> block h (take 64 data) = block h data"
  shows "ripemd128_transform block h data (length data div 64) = absorb block h data"
proof (induction "length data div 64" arbitrary: h data)
  case 0
  then have "length data < 64" by (simp add: div_eq_0_iff)
  then show ?case by simp
next
  case (Suc n)
  then have len: "64 \<le> length data" by (metis Zero_not_Suc div_less not_le)
  have n: "n = length (drop 64 data) div 64" using Suc.hyps(2) le_div_geq [OF _ len] by simp
  have "length data div 64 = Suc n" using Suc.hyps(2) by simp
  then have "ripemd128_transform block h data (length data div 64) = ripemd128_transform block (block h data) (drop 64 data) n" by simp
  also have "\<dots> = absorb block (block h data) (drop 64 data)" using Suc.hyps(1) [OF n] n by simp
  also have "\<dots> = absorb block h data" using len assms [OF len] by (subst (2) absorb.simps) simp
  finally show ?case .
qed

definition ripemd_rep :: "(u32 list \<Rightarrow> byte list \<Rightarrow> u32 list) \<Rightarrow> u32 list \<Rightarrow> ampheck_ripemd128 \<Rightarrow> byte list \<Rightarrow> bool" where
  "ripemd_rep block start ctx m \<longleftrightarrow>
     rmd_h ctx = absorb block start m \<and> rmd_length ctx = of_nat (length m) \<and>
     length (rmd_buffer ctx) = 64 \<and> take (length m mod 64) (rmd_buffer ctx) = pending m"

lemma ripemd_index: "unat ((of_nat n :: u64) mod 64) = n mod 64"
proof -
  have "unat ((of_nat n :: u64) mod 64) = n mod 2 ^ 64 mod 64"
    by (simp only: unat_mod unsigned_of_nat take_bit_eq_mod of_nat_id len_num1 len_num0 len_bit0) simp
  then show ?thesis by (simp add: mod_mod_cancel)
qed

lemma ripemd_update_rep:
  assumes take: "\<And>h data. 64 \<le> length data \<Longrightarrow> block h (take 64 data) = block h data"
    and rep: "ripemd_rep block start ctx m"
  shows "ripemd_rep block start (ripemd128_update (ripemd128_transform block) ctx x) (m @ x)"
proof -
  from rep have ctx: "rmd_h ctx = absorb block start m" "rmd_length ctx = of_nat (length m)"
    "length (rmd_buffer ctx) = 64" "take (length m mod 64) (rmd_buffer ctx) = pending m"
    by (simp_all add: ripemd_rep_def)
  define n where "n = length m mod 64"
  have n: "n < 64" "length (pending m) = n" "unat (rmd_length ctx mod 64) = n"
    by (simp_all add: n_def ctx(2) ripemd_index)
  show ?thesis
  proof (cases "length x < 64 - n")
    case True
    then have fit: "length (pending m) + length x < 64" using n by simp
    have len_m: "length (m @ x) mod 64 = n + length x"
      using fit absorb_no_fill(2) [OF fit] n(2) by (metis length_append length_pending)
    have "ripemd128_update (ripemd128_transform block) ctx x
        = ctx\<lparr>rmd_buffer := memcpy (rmd_buffer ctx) n x, rmd_length := rmd_length ctx + of_nat (length x)\<rparr>"
      using True by (simp add: ripemd128_update_def Let_def n(3))
    then show ?thesis
      unfolding ripemd_rep_def len_m using ctx fit n(2)
      by (simp add: absorb_no_fill [OF fit] len_simps take_memcpy flip: n_def)
  next
    case False
    define a r where "a = List.take (64 - n) x" and "r = drop (64 - n) x"
    have x: "x = a @ r" and a: "length (pending m) + length a = 64" "length a = 64 - n"
      using False n by (simp_all add: a_def r_def)
    have mem: "memcpy (rmd_buffer ctx) n a = pending m @ a"
      using a ctx n(2) by (simp add: memcpy_def flip: n_def)
    have r: "length r = length x - (64 - n)" by (simp add: r_def)
    have tail: "drop (length r - length r mod 64) r = pending r" by (simp add: pending_def minus_mod_eq_mult_div)
    define buf where "buf = memcpy (pending m @ a) 0 (pending r)"
    have upd: "ripemd128_update (ripemd128_transform block) ctx x = ctx\<lparr>
        rmd_h := absorb block (block (absorb block start m) (pending m @ a)) r,
        rmd_buffer := buf, rmd_length := rmd_length ctx + of_nat (length x)\<rparr>"
      using False by (simp add: ripemd128_update_def Let_def n(3) mem tail transform_absorb take ctx(1) buf_def
          flip: r a_def r_def)
    have fill: "absorb block start (m @ x) = absorb block (block (absorb block start m) (pending m @ a)) r"
        "pending (m @ x) = pending r"
      using absorb_fill [OF a(1)] by (simp_all only: x)
    have "length (m @ x) mod 64 = length r mod 64" using fill(2) by (metis length_pending)
    moreover have "length buf = 64" "List.take (length r mod 64) buf = pending r"
      using a(1) by (simp_all add: buf_def memcpy_def)
    ultimately show ?thesis unfolding upd ripemd_rep_def by (simp add: fill ctx(2))
  qed
qed

lemma UNPACK_bytes: "UNPACK_32_LE x = bytes_le32 x" "UNPACK_64_LE v = bytes_le64 v"
proof -
  show "UNPACK_32_LE x = bytes_le32 x" by (simp add: UNPACK_32_LE_def bytes_le32_def)
  have half: "(ucast (drop_bit k (ucast v :: u32)) :: byte) = ucast (drop_bit k v)" if "k \<le> 24" for k and v :: u64
    using that by (intro bit_word_eqI) (auto simp: bit_ucast_iff bit_drop_bit_eq)
  show "UNPACK_64_LE v = bytes_le64 v"
    using half [of 0 v] half [of 0 "drop_bit 32 v"] by (simp add: UNPACK_64_LE_def bytes_le64_def bytes_le32_def half)
qed

lemma digest_words:
  assumes "16 \<le> length digest" and "length h = 4"
  shows "memcpy (memcpy (memcpy (memcpy digest 0 (bytes_le32 (h ! 0))) 4 (bytes_le32 (h ! 1))) 8 (bytes_le32 (h ! 2))) 12
      (bytes_le32 (h ! 3)) = concat (map bytes_le32 h) @ drop 16 digest"
proof -
  obtain a b c d where h: "h = [a, b, c, d]"
    using assms(2) by (auto simp: numeral_eq_Suc length_Suc_conv)
  show ?thesis using assms(1) by (simp add: h memcpy_def len_simps)
qed

lemma ripemd_finish_digest:
  assumes take: "\<And>h data. 64 \<le> length data \<Longrightarrow> block h (take 64 data) = block h data"
    and rep: "ripemd_rep block start ctx m" and words: "\<And>h b. length (block h b) = 4"
    and "length junk = 64" and "16 \<le> length digest"
  shows "ripemd128_finish (ripemd128_transform block) ctx junk digest =
    concat (map bytes_le32 (absorb block start (ripemd_padded m))) @ drop 16 digest"
proof -
  from rep have ctx: "rmd_h ctx = absorb block start m" "rmd_length ctx = of_nat (length m)"
    "length (rmd_buffer ctx) = 64" "List.take (length m mod 64) (rmd_buffer ctx) = pending m"
    by (simp_all add: ripemd_rep_def)
  define n where "n = length m mod 64"
  have n: "n < 64" "length (pending m) = n" "unat (rmd_length ctx mod 64) = n"
    by (simp_all add: n_def ctx(2) ripemd_index)
  define len where "len = bytes_le64 (of_nat (8 * length m))"
  have len: "bytes_le64 (rmd_length ctx * 8) = len" "length len = 8" by (simp_all add: len_def ctx(2) len_simps ac_simps)
  have one: "ripemd128_transform block h b 1 = block h b" for h b by simp
  define p where "p = pending m @ [0x80]"
  define b1 where "b1 = (memcpy junk 0 (List.take n (rmd_buffer ctx)))[n := 0x80]"
  have b1: "b1 = p @ drop (Suc n) junk"
    using assms(4) n ctx(4) by (simp add: b1_def p_def memcpy_def list_update_append flip: n_def Cons_nth_drop_Suc)
  have pad: "absorb block start (ripemd_padded m) = (if n \<le> 55
      then block (rmd_h ctx) ((p @ replicate (55 - n) 0) @ len)
      else block (block (rmd_h ctx) (p @ replicate (63 - n) 0)) (replicate 56 0 @ len))"
    unfolding ripemd_padded_def len_def p_def by (subst absorb_padding) (simp_all add: n_def ctx(1) len_simps)
  show ?thesis
  proof (cases "n < 56")
    case True
    have k: "56 - n = Suc (55 - n)" using True by simp
    have "memcpy (memcpy b1 (n + 1) (replicate (55 - n) 0)) 56 len = (p @ replicate (55 - n) 0) @ len"
      using True assms(4) n len(2) by (simp add: b1 memcpy_def p_def k)
    then have "ripemd128_finish (ripemd128_transform block) ctx junk digest =
        concat (map bytes_le32 (block (rmd_h ctx) ((p @ replicate (55 - n) 0) @ len))) @ drop 16 digest"
      using True by (simp only: ripemd128_finish_def Let_def n(3) if_True prod.case UNPACK_bytes len b1_def [symmetric]
          one digest_words [OF assms(5) words])
    then show ?thesis using True by (simp add: pad)
  next
    case False
    have b2: "memcpy b1 (n + 1) (replicate (63 - n) 0) = p @ replicate (63 - n) 0"
      using False assms(4) n by (simp add: b1 memcpy_def p_def)
    have "memcpy (memcpy (p @ replicate (63 - n) 0) 0 (replicate 56 0)) 56 len = replicate 56 0 @ len"
      using False n len(2) by (simp add: memcpy_def p_def)
    then have "ripemd128_finish (ripemd128_transform block) ctx junk digest =
        concat (map bytes_le32 (block (block (rmd_h ctx) (p @ replicate (63 - n) 0)) (replicate 56 0 @ len))) @ drop 16 digest"
      using False by (simp only: ripemd128_finish_def Let_def n(3) if_False prod.case UNPACK_bytes len b1_def [symmetric] b2
          one digest_words [OF assms(5) words])
    then show ?thesis using False by (simp add: pad)
  qed
qed

subsection \<open>Properties\<close>

lemma absorb_compress: "absorb ripemd128_block h m = absorb ripemd_compress h m"
proof (induction ripemd128_block h m rule: absorb.induct)
  case (1 h m)
  show ?case
  proof (cases "length m < 64")
    case False
    then show ?thesis using 1 by (subst (1 2) absorb.simps) (simp add: ripemd128_block_compress)
  qed simp
qed

lemma length_ripemd128_block: "length (ripemd128_block h b) = 4" "length (ripemd128_block_Vz h b) = 4"
  by (simp_all add: ripemd128_block_def ripemd128_block_Vz_def Let_def)

definition ripemd_blank :: ampheck_ripemd128 where
  "ripemd_blank = \<lparr>rmd_h = replicate 4 0, rmd_buffer = replicate 64 0, rmd_length = 0\<rparr>"

lemma ripemd_rep_init:
  "length (rmd_buffer ctx) = 64 \<Longrightarrow> ripemd_rep ripemd128_block [0x67452301, 0xefcdab89, 0x98badcfe, 0x10325476] (ampheck_ripemd128_init ctx) []"
  "length (rmd_buffer ctx) = 64 \<Longrightarrow> ripemd_rep ripemd128_block_Vz [0x10257436, 0xa8bd9cfe, 0x9efcad8b, 0x12375460] (ampheck_ripemd128_init_Vz ctx) []"
  by (simp_all add: ripemd_rep_def ampheck_ripemd128_init_def ampheck_ripemd128_init_Vz_def)

lemma ripemd_finish_spec:
  assumes "length junk = 64" and "16 \<le> length digest"
  shows "ripemd_rep ripemd128_block [0x67452301, 0xefcdab89, 0x98badcfe, 0x10325476] c m \<Longrightarrow>
      ampheck_ripemd128_finish c junk digest = ripemd128_spec m @ drop 16 digest"
    and "ripemd_rep ripemd128_block_Vz [0x10257436, 0xa8bd9cfe, 0x9efcad8b, 0x12375460] c m \<Longrightarrow>
      ampheck_ripemd128_finish_Vz c junk digest = ripemd128_Vz_spec m @ drop 16 digest"
  using ripemd_finish_digest [where block = ripemd128_block, OF ripemd128_block_take(1) _ length_ripemd128_block(1) assms]
    ripemd_finish_digest [where block = ripemd128_block_Vz, OF ripemd128_block_take(2) _ length_ripemd128_block(2) assms]
  by (simp_all add: ampheck_ripemd128_finish_def ampheck_ripemd128_finish_Vz_def ampheck_ripemd128_transform_def [abs_def]
      ampheck_ripemd128_transform_Vz_def [abs_def] ripemd128_spec_def ripemd128_Vz_spec_def absorb_compress)

interpretation ripemd: sized_digest "ampheck_ripemd128_init ripemd_blank" ampheck_ripemd128_update
  "\<lambda>c. ampheck_ripemd128_finish c (replicate 64 0) (replicate 16 0)" "\<lambda>x. x" "\<lambda>_. True"
  "ripemd_rep ripemd128_block [0x67452301, 0xefcdab89, 0x98badcfe, 0x10325476]" ripemd128_spec "\<lambda>d. d" 16
proof (unfold_locales, goal_cases)
  case 1
  show ?case by (rule ripemd_rep_init) (simp add: ripemd_blank_def)
next
  case (2 c m x)
  then show ?case
    unfolding ampheck_ripemd128_update_def ampheck_ripemd128_transform_def by (intro ripemd_update_rep ripemd128_block_take)
next
  case (3 c m)
  then show ?case by (simp add: ripemd_finish_spec)
next
  case (4 m)
  show ?case by (simp add: ripemd128_spec_def len_simps absorb_length length_ripemd128_block flip: absorb_compress)
qed

interpretation ripemd_Vz: sized_digest "ampheck_ripemd128_init_Vz ripemd_blank" ampheck_ripemd128_update_Vz
  "\<lambda>c. ampheck_ripemd128_finish_Vz c (replicate 64 0) (replicate 16 0)" "\<lambda>x. x" "\<lambda>_. True"
  "ripemd_rep ripemd128_block_Vz [0x10257436, 0xa8bd9cfe, 0x9efcad8b, 0x12375460]" ripemd128_Vz_spec "\<lambda>d. d" 16
proof (unfold_locales, goal_cases)
  case 1
  show ?case by (rule ripemd_rep_init) (simp add: ripemd_blank_def)
next
  case (2 c m x)
  then show ?case
    unfolding ampheck_ripemd128_update_Vz_def ampheck_ripemd128_transform_Vz_def by (intro ripemd_update_rep ripemd128_block_take)
next
  case (3 c m)
  then show ?case by (simp add: ripemd_finish_spec)
next
  case (4 m)
  show ?case by (simp add: ripemd128_Vz_spec_def len_simps absorb_length length_ripemd128_block)
qed

text \<open>
  C40: RIPEMD-128 and its modified variant: after the init function, any sequence of updates and the
  finish function write the digest of the concatenated chunks, whatever the context, the local
  buffer and the target held before. The digest is the one of the paper (two lines of four rounds
  given by permutations, shifts by word and additive constants); that of the variant has the
  variant's transformation with the same padding.
\<close>

theorem ripemd128_digest:
  assumes "length (rmd_buffer ctx) = 64" and "length junk = 64" and "16 \<le> length digest"
  shows "ampheck_ripemd128_finish (foldl ampheck_ripemd128_update (ampheck_ripemd128_init ctx) xs) junk digest
      = ripemd128_spec (concat xs) @ drop 16 digest \<and>
    ampheck_ripemd128_finish_Vz (foldl ampheck_ripemd128_update_Vz (ampheck_ripemd128_init_Vz ctx) xs) junk digest
      = ripemd128_Vz_spec (concat xs) @ drop 16 digest"
  using ripemd.rep_updates [OF ripemd_rep_init(1) [OF assms(1)], of xs]
    ripemd_Vz.rep_updates [OF ripemd_rep_init(2) [OF assms(1)], of xs]
  by (simp add: ripemd_finish_spec assms(2,3) list_all_iff)

theorem ripemd128_digest_witness:
  "ampheck_ripemd128_finish (foldl ampheck_ripemd128_update (ampheck_ripemd128_init ripemd_blank) [[1, 2], [3]])
     (replicate 64 0xCC) (replicate 17 0) = ripemd128_spec [1, 2, 3] @ [0]"
  using ripemd128_digest [of ripemd_blank "replicate 64 0xCC" "replicate 17 0" "[[1, 2], [3]]"] by (simp add: ripemd_blank_def)

text \<open>The digest of \<open>abc\<close> in the paper's list, and that of the modified variant.\<close>

lemma ripemd_padded_abc:
  "absorb f h (ripemd_padded [0x61, 0x62, 0x63]) = f h ([0x61, 0x62, 0x63, 0x80] @ replicate 52 0 @ [24, 0, 0, 0, 0, 0, 0, 0])"
proof -
  have "bytes_le64 24 = [24, 0, 0, 0, 0, 0, 0, 0]" by (simp add: bytes_le64_def bytes_le32_def)
  then have "ripemd_padded [0x61, 0x62, 0x63] = [0x61, 0x62, 0x63, 0x80] @ replicate 52 0 @ [24, 0, 0, 0, 0, 0, 0, 0]"
    by (simp add: ripemd_padded_def padding_def pad_zeros_def)
  then show ?thesis by (simp add: absorb_one)
qed

lemma ripemd128_test_vector:
  "ripemd128_spec [0x61, 0x62, 0x63] =
     [0xc1, 0x4a, 0x12, 0x19, 0x9c, 0x66, 0xe4, 0xba, 0x84, 0x63, 0x6b, 0x0f, 0x69, 0x14, 0x4c, 0x77]"
proof -
  have block: "ripemd128_block [0x67452301, 0xefcdab89, 0x98badcfe, 0x10325476]
      ([0x61, 0x62, 0x63, 0x80] @ replicate 52 0 @ [24, 0, 0, 0, 0, 0, 0, 0]) = [0x19124ac1, 0xbae4669c, 0x0f6b6384, 0x774c1469]"
    by code_simp
  show ?thesis
    unfolding ripemd128_spec_def absorb_compress [symmetric] unfolding ripemd_padded_abc block by (simp add: bytes_le32_def)
qed

end
