(* ===== verification/Client_Md5.thy ===== *)
theory Client_Md5
  imports Md5 Text_Codec "HOL-Library.Monad_Syntax"
begin

text \<open>
  What the client does with MD5: the wrapper classes \<open>CMD5Checksum\<close> and \<open>CMD5ForVz\<close>
  (\<open>tuanzi/src/md5checksum.cpp\<close>, \<open>md5forvz.cpp\<close>), \<open>GetMD5File\<close> and the encryption of the password for
  the server, \<open>RadiusEncrpytPwd\<close> (\<open>util.cpp\<close>), with its callers in \<open>rgprivateproc.cpp\<close> and
  \<open>eapolutil.cpp\<close>. The width of \<open>unsigned long\<close> is the type \<open>'u\<close>; what \<open>new char[33]\<close> holds before it
  is written is an argument.
\<close>

subsection \<open>The wrapper classes\<close>

definition Final_text :: "byte list \<Rightarrow> byte list \<Rightarrow> byte list" where
  "Final_text fresh digest = memcpy fresh 0 (digest_text digest)"

definition CMD5Checksum_GetMD5 :: "'u::len itself \<Rightarrow> byte list \<Rightarrow> byte list \<Rightarrow> byte list option" where
  "CMD5Checksum_GetMD5 u fresh buf =
     map_option (Final_text fresh) (md5_digest (md5_zeroed :: 'u word MD5_CTX) [buf])"

definition CMD5ForVz_GetMD5 :: "'u::len itself \<Rightarrow> byte list \<Rightarrow> byte list \<Rightarrow> byte list option" where
  "CMD5ForVz_GetMD5 u fresh buf =
     map_option (Final_text fresh) (md5_digest_Vz (md5_zeroed :: 'u word MD5_CTX) [buf])"

text \<open>\<open>GetCharMd5\<close> leaves a target of fewer than 16 bytes as it is.\<close>

definition GetCharMd5 :: "'u::len itself \<Rightarrow> byte list \<Rightarrow> byte list \<Rightarrow> nat \<Rightarrow> byte list option" where
  "GetCharMd5 u dst src dstlen =
     (if dstlen < 16 then map_option (\<lambda>_. dst) (MD5Update (MD5Init (md5_zeroed :: 'u word MD5_CTX)) src)
      else map_option (memcpy dst 0) (md5_digest (md5_zeroed :: 'u word MD5_CTX) [src]))"

subsection \<open>The digest of a file\<close>

text \<open>
  The blocks that the loop \<open>while (!ifs.eof())\<close> digests: \<open>read\<close> overwrites the front of the buffer with
  what is left of the file, and reports the end only when it has found less than it asked for.
\<close>

function file_blocks :: "byte list \<Rightarrow> byte list \<Rightarrow> byte list list" where
  "file_blocks buf data =
     (if length data < 512 then [data @ drop (length data) buf]
      else take 512 data # file_blocks (take 512 data) (drop 512 data))"
  by pat_completeness auto
termination
  by (relation "measure (\<lambda>(buf, data). length data)") auto

declare file_blocks.simps [simp del]

definition nibble_text :: "byte list \<Rightarrow> byte list" where
  "nibble_text digest = concat (map (\<lambda>b. [drop_bit 4 b + 0x30, (b AND 0xF) + 0x30]) digest)"

definition GetMD5File :: "'u::len word MD5_CTX \<Rightarrow> byte list option \<Rightarrow> byte list \<Rightarrow> byte list option" where
  "GetMD5File ctx ifs result =
     (case ifs of
        None \<Rightarrow> Some result
      | Some data \<Rightarrow> do {
          digest \<leftarrow> md5_digest ctx (file_blocks (replicate 512 0) data);
          store_at result 0 (nibble_text digest)
        })"

subsection \<open>The password for the server\<close>

text \<open>
  The loop over the blocks of the password: \<open>tmpbuf\<close> holds the user name, and behind it the challenge
  for the first block and the last cipher block for the others.
\<close>

fun radius_loop ::
  "'u::len word MD5_CTX \<Rightarrow> byte list \<Rightarrow> nat \<Rightarrow> byte list \<Rightarrow> nat \<Rightarrow> byte list \<Rightarrow> nat \<Rightarrow> byte list \<Rightarrow> byte list option" where
  "radius_loop ctx tmpbuf username_len md5buf i password 0 outbuf = Some outbuf"
| "radius_loop ctx tmpbuf username_len md5buf i password (Suc n) outbuf = do {
     tmpbuf \<leftarrow> store_at tmpbuf username_len md5buf;
     digest \<leftarrow> md5_digest ctx [take (username_len + 16) tmpbuf];
     block \<leftarrow> read_at password (16 * i) 16;
     let md5buf = map2 (XOR) digest block;
     outbuf \<leftarrow> store_at outbuf (16 * i) md5buf;
     radius_loop ctx tmpbuf username_len md5buf (i + 1) password n outbuf
   }"

text \<open>
  \<open>username\<close> is what \<open>ConvertUtf8ToGBK\<close> has made of the user name, in a buffer of 528 bytes of which it
  may fill 512; \<open>None\<close> for a pointer is the null pointer.
\<close>

definition RadiusEncrpytPwd ::
  "'u::len word MD5_CTX \<Rightarrow> byte list \<Rightarrow> byte list option \<Rightarrow> nat \<Rightarrow> byte list option \<Rightarrow> nat \<Rightarrow> byte list \<Rightarrow> byte list option" where
  "RadiusEncrpytPwd ctx username md5_challenge md5_challenge_len password password_len outbuf = do {
     tmpbuf \<leftarrow> store_at (replicate 528 0) 0 username;
     case (md5_challenge, password) of
       (Some challenge, Some pwd) \<Rightarrow>
         if md5_challenge_len \<noteq> 16 \<or> password_len mod 16 \<noteq> 0 \<or> password_len = 0 then Some outbuf
         else radius_loop ctx tmpbuf (length username) (take 16 challenge) 0 pwd (password_len div 16) outbuf
     | _ \<Rightarrow> Some outbuf
   }"

text \<open>The rounding up to whole blocks, as \<open>GetUserPasswd\<close> and as \<open>AppendPrivateProperty\<close> write it.\<close>

definition passwd_blocks :: "u32 \<Rightarrow> u32" where
  "passwd_blocks password_len = push_bit 4 (drop_bit 4 password_len + (if password_len AND 15 \<noteq> 0 then 1 else 0))"

definition property_blocks :: "u32 \<Rightarrow> u32" where
  "property_blocks password_buflen =
     (if password_buflen \<noteq> 0
      then drop_bit 4 (push_bit 4 password_buflen + (if password_buflen AND 15 \<noteq> 0 then 1 else 0))
      else 16)"

text \<open>
  \<open>GetUserPasswd\<close>: \<open>password\<close> is the buffer of 128 bytes with the converted password, \<open>chal\<close> the
  challenge of the last request.
\<close>

definition GetUserPasswd ::
  "'u::len word MD5_CTX \<Rightarrow> byte list \<Rightarrow> byte list \<Rightarrow> byte list \<Rightarrow> byte list \<Rightarrow> (byte list \<times> nat) option" where
  "GetUserPasswd ctx username chal password buf = do {
     s \<leftarrow> c_string password;
     let password_len = unat (passwd_blocks (of_nat (length s)));
     buf \<leftarrow> store_at buf 0 [0x2F, of_nat password_len];
     out \<leftarrow> RadiusEncrpytPwd ctx username (Some chal) 16 (Some password) password_len (drop 2 buf);
     Some (take 2 buf @ out, 2 + password_len)
   }"

text \<open>The decryption that the server does (RFC 2865, 5.2, with the user name in the place of the secret).\<close>

fun radius_chain :: "(byte list \<Rightarrow> byte list) \<Rightarrow> byte list \<Rightarrow> byte list \<Rightarrow> nat \<Rightarrow> byte list \<Rightarrow> byte list" where
  "radius_chain md5 username prev 0 cipher = []"
| "radius_chain md5 username prev (Suc n) cipher =
     map2 (XOR) (md5 (username @ prev)) (take 16 cipher) @ radius_chain md5 username (take 16 cipher) n (drop 16 cipher)"


subsection \<open>Digests\<close>

lemma length_file_blocks: "length buf = 512 \<Longrightarrow> list_all (\<lambda>b. length b = 512) (file_blocks buf data)"
proof (induction buf data rule: file_blocks.induct)
  case (1 buf data)
  show ?case
  proof (cases "length data < 512")
    case True
    then show ?thesis using "1.prems" by (subst file_blocks.simps) simp
  next
    case False
    then have "list_all (\<lambda>b. length b = 512) (file_blocks (take 512 data) (drop 512 data))" by (intro "1.IH") simp_all
    then show ?thesis using False by (subst file_blocks.simps) simp
  qed
qed

text \<open>What the buffer held before the last, short read: the block before it, or zeros.\<close>

definition stale :: "byte list \<Rightarrow> byte list" where
  "stale data = (if length data < 512 then replicate 512 0 else take 512 (drop (512 * (length data div 512 - 1)) data))"

lemma concat_file_blocks:
  "length buf = 512 \<Longrightarrow> concat (file_blocks buf data) =
     data @ drop (length data mod 512) (if length data < 512 then buf else take 512 (drop (512 * (length data div 512 - 1)) data))"
proof (induction buf data rule: file_blocks.induct)
  case (1 buf data)
  show ?case
  proof (cases "length data < 512")
    case True
    then show ?thesis by (subst file_blocks.simps) simp
  next
    case False
    define rest where "rest = drop 512 data"
    have data: "data = take 512 data @ rest" and rest: "length rest = length data - 512" by (simp_all add: rest_def)
    have mod: "length rest mod 512 = length data mod 512" using False rest by (metis le_mod_geq not_less)
    have "length data div 512 = Suc (length rest div 512)" using False rest le_div_geq [of 512 "length data"] by simp
    then have last: "take 512 (drop (512 * (length data div 512 - 1)) data) =
        (if length rest < 512 then take 512 data else take 512 (drop (512 * (length rest div 512 - 1)) rest))"
      using False by (cases "length rest div 512") (auto simp: rest_def add.commute)
    have "concat (file_blocks buf data) = take 512 data @ concat (file_blocks (take 512 data) rest)"
      using False by (subst file_blocks.simps) (simp add: rest_def)
    also have "\<dots> = take 512 data @ rest @ drop (length rest mod 512)
        (if length rest < 512 then take 512 data else take 512 (drop (512 * (length rest div 512 - 1)) rest))"
      using False "1.IH" [OF False] by (simp add: rest_def)
    finally show ?thesis using False last mod data by simp
  qed
qed

lemma length_nibble_text [len_simps]: "length (nibble_text d) = 2 * length d"
  by (induction d) (simp_all add: nibble_text_def)

lemma digest_file:
  assumes "32 \<le> LENGTH('u::len)" and "length (md5_buffer (ctx :: 'u word MD5_CTX)) = 64"
  shows "md5_digest ctx (file_blocks (replicate 512 0) data) =
    Some (md5_spec TYPE('u) (data @ drop (length data mod 512) (stale data)))"
proof -
  have "list_all (\<lambda>x. length x < 2 ^ 29) (file_blocks (replicate 512 0) data)"
    by (rule list.pred_mono_strong [OF length_file_blocks]) simp_all
  from md5_digest_of_chunks(1) [OF assms this] show ?thesis
    by (simp add: concat_file_blocks stale_def if_distrib)
qed

text \<open>
  \<open>GetMD5File\<close> never digests the file itself: it digests the file followed by what is stale in its
  buffer of 512 bytes, up to a whole number of blocks and at least one byte more than the file, and
  it prints the nibbles as the characters from \<open>0\<close> on, so that those above 9 are no digits.
\<close>

theorem GetMD5File_digest:
  assumes "32 \<le> LENGTH('u::len)" and "length (md5_buffer (ctx :: 'u word MD5_CTX)) = 64" and "32 \<le> length result"
  shows "GetMD5File ctx (Some data) result =
      Some (nibble_text (md5_spec TYPE('u) (data @ drop (length data mod 512) (stale data))) @ drop 32 result) \<and>
    length (data @ drop (length data mod 512) (stale data)) = 512 * (length data div 512 + 1)"
proof
  show "GetMD5File ctx (Some data) result =
      Some (nibble_text (md5_spec TYPE('u) (data @ drop (length data mod 512) (stale data))) @ drop 32 result)"
    using assms(3) by (simp add: GetMD5File_def digest_file [OF assms(1,2)] store_at_def memcpy_def len_simps)
  have "512 * (length data div 512 - 1) + 512 \<le> length data" if "\<not> length data < 512"
  proof -
    have "0 < length data div 512" using that by (simp add: div_greater_zero_iff)
    then show ?thesis using times_div_less_eq_dividend [of 512 "length data"] by (simp add: diff_mult_distrib2)
  qed
  then have "length (stale data) = 512" by (auto simp: stale_def)
  moreover have "512 * q + r = n \<Longrightarrow> r < 512 \<Longrightarrow> n + (512 - r) = 512 * (q + 1)" for q r n :: nat by auto
  ultimately show "length (data @ drop (length data mod 512) (stale data)) = 512 * (length data div 512 + 1)"
    by (simp only: length_append length_drop mult_div_mod_eq)
qed

theorem GetMD5File_digest_witness:
  "GetMD5File (md5_zeroed :: u64 MD5_CTX) (Some []) (replicate 33 0) =
     Some (nibble_text (md5_spec TYPE(64) (replicate 512 0)) @ [0])"
  using GetMD5File_digest [of "md5_zeroed :: u64 MD5_CTX" "replicate 33 0" "[]"] by (simp add: md5_zeroed_def stale_def)

lemma MD5StrtoUChar_digest_text:
  "bs \<noteq> [] \<Longrightarrow> length bs < length buf \<Longrightarrow>
     MD5StrtoUChar (digest_text bs) buf = Some (length bs, bs @ 0 # drop (length bs + 1) buf)"
  using hex_loop_digest_text [of bs buf] by (cases "digest_text bs") (auto simp: MD5StrtoUChar_def len_simps dest: arg_cong [of _ _ length])

lemma hex_loop_full: "length bs = length buf \<Longrightarrow> hex_loop (digest_text bs) buf = None"
proof (induction bs arbitrary: buf)
  case (Cons b bs)
  then show ?case by (cases buf) auto
qed simp

lemma digest_text_no_nul: "0 \<notin> set (digest_text bs)"
proof -
  have "hex_lower d \<noteq> 0" if "d \<le> 15" for d
    using bit_digit [OF that] by (elim disjE) (simp_all add: hex_lower_def)
  then show ?thesis by (induction bs) auto
qed

text \<open>
  The digest as the client passes it from \<open>CMD5Checksum::GetMD5\<close> to \<open>MD5StrtoUChar\<close>: the text has no
  NUL of its own, so it is a C string only if the fresh memory behind it happens to hold one; read
  back it gives the digest and one byte behind it, so that an array of 16 bytes is overrun.
\<close>

theorem checksum_text:
  assumes "32 \<le> LENGTH('u::len)" and "length fresh = 33" and "length buf < 2 ^ 29"
  shows "\<exists>text. CMD5Checksum_GetMD5 TYPE('u) fresh buf = Some text \<and>
    (c_string text = (if fresh ! 32 = 0 then Some (digest_text (md5_spec TYPE('u) buf)) else None)) \<and>
    (17 \<le> length dst \<longrightarrow> MD5StrtoUChar (digest_text (md5_spec TYPE('u) buf)) dst = Some (16, md5_spec TYPE('u) buf @ 0 # drop 17 dst)) \<and>
    (length dst = 16 \<longrightarrow> MD5StrtoUChar (digest_text (md5_spec TYPE('u) buf)) dst = None)"
proof -
  define d where "d = md5_spec TYPE('u) buf"
  have d: "length d = 16" "d \<noteq> []" by (auto simp: d_def len_simps dest: arg_cong [of _ _ length])
  have "md5_digest (md5_zeroed :: 'u word MD5_CTX) [buf] = Some d"
    using md5_digest_of_chunks(1) [of "md5_zeroed :: 'u word MD5_CTX" "[buf]"] assms by (simp add: md5_zeroed_def d_def)
  then have get: "CMD5Checksum_GetMD5 TYPE('u) fresh buf = Some (digest_text d @ [fresh ! 32])"
    using assms(2) d by (simp add: CMD5Checksum_GetMD5_def Final_text_def memcpy_def len_simps flip: Cons_nth_drop_Suc)
  have string: "c_string (digest_text d @ [fresh ! 32]) = (if fresh ! 32 = 0 then Some (digest_text d) else None)"
    using digest_text_no_nul [of d] c_string_prefix [of "digest_text d" "[]"] by (auto simp: c_string_def)
  have "digest_text d \<noteq> []" using d by (auto simp: len_simps dest: arg_cong [of _ _ length])
  then have overrun: "MD5StrtoUChar (digest_text d) dst = None" if "length dst = 16"
    using hex_loop_full [of d dst] that d by (simp add: MD5StrtoUChar_def)
  show ?thesis
    unfolding d_def [symmetric] get using string overrun MD5StrtoUChar_digest_text [of d dst] d by auto
qed

theorem checksum_text_witness:
  "\<exists>text. CMD5Checksum_GetMD5 TYPE(64) (replicate 33 0xCD) [0x61] = Some text \<and> c_string text = None"
  using checksum_text [where 'u = 64 and fresh = "replicate 33 0xCD" and buf = "[0x61]" and dst = "[]"] by auto

subsection \<open>The password\<close>

lemma map2_xor_undo: "length a = length b \<Longrightarrow> map2 (XOR) a (map2 (XOR) a b) = (b :: byte list)"
  by (induction a b rule: list_induct2) (simp_all add: xor_simps)

lemma radius_loop_decrypts:
  fixes ctx :: "'u::len word MD5_CTX"
  assumes "32 \<le> LENGTH('u)" and "length (md5_buffer ctx) = 64" and user: "length username \<le> 512"
  shows "length tmpbuf = 528 \<Longrightarrow> take (length username) tmpbuf = username \<Longrightarrow> length md5buf = 16 \<Longrightarrow>
    16 * (i + n) \<le> length pwd \<Longrightarrow> 16 * (i + n) \<le> length outbuf \<Longrightarrow>
    \<exists>out. radius_loop ctx tmpbuf (length username) md5buf i pwd n outbuf = Some out \<and> length out = length outbuf \<and>
      take (16 * i) out = take (16 * i) outbuf \<and> drop (16 * (i + n)) out = drop (16 * (i + n)) outbuf \<and>
      radius_chain (md5_spec TYPE('u)) username md5buf n (drop (16 * i) out) = take (16 * n) (drop (16 * i) pwd)"
proof (induction n arbitrary: tmpbuf md5buf i outbuf)
  case (Suc n)
  define t where "t = memcpy tmpbuf (length username) md5buf"
  have t: "store_at tmpbuf (length username) md5buf = Some t" "length t = 528" "take (length username + 16) t = username @ md5buf"
      "take (length username) t = username"
    using Suc.prems user by (simp_all add: t_def store_at_def memcpy_def)
  define d where "d = md5_spec TYPE('u) (username @ md5buf)"
  have d: "md5_digest ctx [take (length username + 16) t] = Some d"
    unfolding t(3) using md5_digest_of_chunks(1) [OF assms(1,2), of "[username @ md5buf]"] Suc.prems user
    by (simp add: d_def)
  define p where "p = take 16 (drop (16 * i) pwd)"
  have p: "read_at pwd (16 * i) 16 = Some p" "length p = 16" using Suc.prems by (simp_all add: read_at_def p_def)
  define c where "c = map2 (XOR) d p"
  have c: "length c = 16" "map2 (XOR) d c = p" using p map2_xor_undo [of d p] by (simp_all add: c_def d_def len_simps)
  define o1 where "o1 = memcpy outbuf (16 * i) c"
  have o1: "store_at outbuf (16 * i) c = Some o1" "length o1 = length outbuf"
      "take (16 * i + 16) o1 = take (16 * i) outbuf @ c" "drop (16 * i + 16) o1 = drop (16 * i + 16) outbuf"
    using Suc.prems c by (simp_all add: o1_def store_at_def memcpy_def)
  obtain out where out: "radius_loop ctx t (length username) c (i + 1) pwd n o1 = Some out" "length out = length outbuf"
      "take (16 * i + 16) out = take (16 * i + 16) o1" "drop (16 * (i + Suc n)) out = drop (16 * (i + Suc n)) o1"
      "radius_chain (md5_spec TYPE('u)) username c n (drop (16 * i + 16) out) = take (16 * n) (drop (16 * i + 16) pwd)"
    using Suc.IH [of t c "i + 1" o1] t c o1 Suc.prems by (auto simp: algebra_simps)
  have "radius_loop ctx tmpbuf (length username) md5buf i pwd (Suc n) outbuf = Some out"
    using out(1) by (simp add: t(1) d p(1) Let_def o1(1) flip: c_def)
  moreover have "take (16 * i) out = take (16 * i) outbuf"
  proof -
    have "take (16 * i) out = take (16 * i) (take (16 * i + 16) out)" by simp
    then show ?thesis using out(3) o1(3) Suc.prems by simp
  qed
  moreover have first: "take 16 (drop (16 * i) out) = c"
  proof -
    have "take 16 (drop (16 * i) out) = drop (16 * i) (take (16 * i + 16) out)" by (simp add: drop_take)
    then show ?thesis using out(3) o1(3) Suc.prems by simp
  qed
  moreover have "drop (16 * (i + Suc n)) out = drop (16 * (i + Suc n)) outbuf"
  proof -
    have "drop (16 * (i + Suc n)) l = drop (16 * n) (drop (16 * i + 16) l)" for l :: "byte list" by (simp add: algebra_simps)
    then show ?thesis using out(4) o1(4) by metis
  qed
  moreover have "radius_chain (md5_spec TYPE('u)) username md5buf (Suc n) (drop (16 * i) out) = p @ take (16 * n) (drop (16 * i + 16) pwd)"
    using first c(2) out(5) by (simp add: d_def add.commute)
  moreover have "p @ take (16 * n) (drop (16 * i + 16) pwd) = take (16 * Suc n) (drop (16 * i) pwd)"
    by (simp add: p_def take_add add.commute flip: drop_drop)
  ultimately show ?case using out(2) by metis
qed auto

lemma RadiusEncrpytPwd_chain:
  fixes ctx :: "'u::len word MD5_CTX"
  assumes "32 \<le> LENGTH('u)" and "length (md5_buffer ctx) = 64" and "length username \<le> 512" and "length challenge = 16"
    and "n mod 16 = 0" and "n \<le> length pwd" and "n \<le> length outbuf"
  shows "\<exists>out. RadiusEncrpytPwd ctx username (Some challenge) 16 (Some pwd) n outbuf = Some out \<and>
    length out = length outbuf \<and> drop n out = drop n outbuf \<and>
    radius_chain (md5_spec TYPE('u)) username challenge (n div 16) out = take n pwd"
proof (cases "n = 0")
  case True
  then show ?thesis using assms(3) by (simp add: RadiusEncrpytPwd_def store_at_def)
next
  case False
  have n: "16 * (n div 16) = n" using assms(5) mult_div_mod_eq [of 16 n] by simp
  have store: "store_at (replicate 528 0) 0 username = Some (username @ replicate (528 - length username) 0)"
    using assms(3) by (simp add: store_at_def memcpy_def)
  have "\<exists>out. radius_loop ctx (username @ replicate (528 - length username) 0) (length username) challenge 0 pwd (n div 16) outbuf = Some out \<and>
      length out = length outbuf \<and> take (16 * 0) out = take (16 * 0) outbuf \<and>
      drop (16 * (0 + n div 16)) out = drop (16 * (0 + n div 16)) outbuf \<and>
      radius_chain (md5_spec TYPE('u)) username challenge (n div 16) (drop (16 * 0) out) = take (16 * (n div 16)) (drop (16 * 0) pwd)"
    using assms n by (intro radius_loop_decrypts [OF assms(1,2,3)]) simp_all
  then show ?thesis
    using False assms(4,5) by (simp add: RadiusEncrpytPwd_def store n)
qed

lemma passwd_blocks_round_up: "n < 2 ^ 28 \<Longrightarrow> unat (passwd_blocks (of_nat n)) = 16 * ((n + 15) div 16)"
proof -
  assume n: "n < 2 ^ 28"
  then have u: "unat (of_nat n :: u32) = n" by (simp add: unat_of_nat_small)
  have "unat (of_nat n AND 15 :: u32) = n mod 16"
    by (simp only: mask_simps unsigned_take_bit_eq u) (simp add: take_bit_eq_mod)
  then have odd: "(of_nat n AND 15 :: u32) \<noteq> 0 \<longleftrightarrow> n mod 16 \<noteq> 0"
    by (metis unat_eq_zero)
  have q: "unat (drop_bit 4 (of_nat n :: u32)) = n div 16" by (simp only: unat_drop_bit u) simp
  then have q': "drop_bit 4 (of_nat n :: u32) = of_nat (n div 16)" by (metis of_nat_unat ucast_id)
  define m where "m = n div 16 + (if n mod 16 \<noteq> 0 then 1 else 0)"
  have "(16 * q + r + 15) div 16 = q + (if r \<noteq> 0 then 1 else 0)" if "r < 16" for q r :: nat
    using that by (intro div_nat_eqI) auto
  from this [of "n mod 16" "n div 16"] have m: "m = (n + 15) div 16" by (simp add: m_def)
  have "drop_bit 4 (of_nat n :: u32) + (if (of_nat n AND 15 :: u32) \<noteq> 0 then 1 else 0) = of_nat m"
    using q' by (simp add: m_def odd)
  then have "passwd_blocks (of_nat n) = of_nat (16 * m)" by (simp add: passwd_blocks_def push_bit_eq_mult)
  moreover have "unat (of_nat (16 * m) :: u32) = 16 * m" using n m by (intro unat_of_nat_small) simp
  ultimately show ?thesis by (simp only: m)
qed

lemma property_blocks_id:
  assumes "n < 2 ^ 28" and "0 < n"
  shows "unat (property_blocks (of_nat n)) = n"
proof -
  define b where "b = (if (of_nat n AND 15 :: u32) \<noteq> 0 then 1 else 0 :: nat)"
  have b: "b \<le> 1" by (simp add: b_def)
  have "push_bit 4 (of_nat n) + (if (of_nat n AND 15 :: u32) \<noteq> 0 then 1 else 0 :: u32) = of_nat (16 * n + b)"
    by (simp add: push_bit_eq_mult b_def)
  moreover have "unat (of_nat (16 * n + b) :: u32) = 16 * n + b" using assms(1) b by (intro unat_of_nat_small) simp
  moreover have "(of_nat n :: u32) \<noteq> 0" using assms by (simp add: word_of_nat_eq_0_iff) (auto dest: nat_dvd_not_less)
  ultimately show ?thesis using b by (simp add: property_blocks_def unat_drop_bit)
qed

lemma radius_chain_prefix:
  "16 * n \<le> length cipher \<Longrightarrow> radius_chain md5 username prev n (cipher @ r) = radius_chain md5 username prev n (cipher @ r')"
proof (induction n arbitrary: prev cipher)
  case (Suc n)
  then have "radius_chain md5 username (take 16 cipher) n (drop 16 cipher @ r) = radius_chain md5 username (take 16 cipher) n (drop 16 cipher @ r')"
    by (intro Suc.IH) simp
  then show ?case using Suc.prems by simp
qed simp

lemma GetUserPasswd_chain:
  fixes ctx :: "'u::len word MD5_CTX"
  assumes "32 \<le> LENGTH('u)" and "length (md5_buffer ctx) = 64" and "length username \<le> 512" and "length chal = 16"
    and pwd: "0 \<notin> set p" "p \<noteq> []" "length p < 128" and "130 \<le> length buf"
  defines "n \<equiv> 16 * ((length p + 15) div 16)"
  shows "\<exists>cipher. GetUserPasswd ctx username chal (p @ replicate (128 - length p) 0) buf =
      Some ([0x2F, of_nat n] @ cipher @ drop (2 + n) buf, 2 + n) \<and> length cipher = n \<and> n \<le> 128 \<and>
      radius_chain (md5_spec TYPE('u)) username chal (n div 16) (cipher @ rest) = p @ replicate (n - length p) 0"
proof -
  have n: "length p \<le> n" "n \<le> 128" "n mod 16 = 0" using pwd(3) by (simp_all add: n_def)
  define pad where "pad = p @ replicate (128 - length p) (0 :: byte)"
  have string: "c_string pad = Some p" unfolding pad_def by (rule c_string_padded) (use pwd in simp_all)
  have blocks: "unat (passwd_blocks (of_nat (length p))) = n"
    unfolding n_def by (rule passwd_blocks_round_up) (use pwd(3) in simp)
  define b where "b = memcpy buf 0 [0x2F, of_nat n]"
  have b: "store_at buf 0 [0x2F, of_nat n] = Some b" "length b = length buf" "take 2 b = [0x2F, of_nat n]" "drop 2 b = drop 2 buf"
    using assms(8) by (simp_all add: b_def store_at_def memcpy_def numeral_2_eq_2)
  have room: "n \<le> length pad" "n \<le> length (drop 2 b)" using n assms(8) b(2) pwd(3) by (simp_all add: pad_def)
  obtain out where out: "RadiusEncrpytPwd ctx username (Some chal) 16 (Some pad) n (drop 2 b) = Some out"
    "length out = length (drop 2 b)" "drop n out = drop n (drop 2 b)"
    "radius_chain (md5_spec TYPE('u)) username chal (n div 16) out = take n pad"
    using RadiusEncrpytPwd_chain [OF assms(1-4) n(3) room] by blast
  have run: "GetUserPasswd ctx username chal pad buf = Some (take 2 b @ out, 2 + n)"
    by (simp only: GetUserPasswd_def string blocks Let_def b(1) out(1) Option.bind.simps)
  define cipher where "cipher = take n out"
  have len: "length cipher = n" using out(2) room(2) by (simp add: cipher_def)
  have "out = cipher @ drop (2 + n) buf" using out(3) b(4) append_take_drop_id [of n out] by (simp add: cipher_def add.commute)
  moreover have "take n pad = p @ replicate (n - length p) 0" using n by (simp add: pad_def min_def)
  moreover have "radius_chain (md5_spec TYPE('u)) username chal (n div 16) (cipher @ rest) =
      radius_chain (md5_spec TYPE('u)) username chal (n div 16) (cipher @ rest')" for rest rest'
    using len n(3) by (intro radius_chain_prefix) simp
  ultimately show ?thesis using run b(3) out(4) len n(2) by (metis pad_def append.assoc)
qed

text \<open>
  C29: the password as \<open>GetUserPasswd\<close> sends it: it is padded with NULs to whole blocks, and the server
  that knows the user name and the challenge reads it back from the cipher text behind the type and
  the length. In \<open>AppendPrivateProperty\<close> the rounding does nothing: a password whose length is not a
  multiple of 16 is not encrypted, and its place in the packet keeps what it held.
\<close>

theorem password_reaches_server:
  fixes ctx :: "'u::len word MD5_CTX"
  assumes "32 \<le> LENGTH('u)" and "length (md5_buffer ctx) = 64" and "length username \<le> 512" and "length chal = 16"
    and pwd: "0 \<notin> set p" "p \<noteq> []" "length p < 128" and "130 \<le> length buf"
  defines "n \<equiv> 16 * ((length p + 15) div 16)"
  shows "(\<exists>out. GetUserPasswd ctx username chal (p @ replicate (128 - length p) 0) buf = Some (out, 2 + n) \<and>
      take 2 out = [0x2F, of_nat n] \<and>
      radius_chain (md5_spec TYPE('u)) username chal (n div 16) (drop 2 out) = p @ replicate (n - length p) 0) \<and>
    (length p mod 16 \<noteq> 0 \<longrightarrow> RadiusEncrpytPwd ctx username (Some chal) 16 (Some (p @ replicate (512 - length p) 0))
       (unat (property_blocks (of_nat (length p)))) buf = Some buf)"
proof (intro conjI impI)
  have n: "n \<le> 128" using pwd(3) by (simp add: n_def)
  obtain cipher where c: "GetUserPasswd ctx username chal (p @ replicate (128 - length p) 0) buf =
      Some ([0x2F, of_nat n] @ cipher @ drop (2 + n) buf, 2 + n)" "length cipher = n"
      "radius_chain (md5_spec TYPE('u)) username chal (n div 16) (cipher @ drop (2 + n) buf) = p @ replicate (n - length p) 0"
    using GetUserPasswd_chain [OF assms(1-8), of "drop (2 + n) buf"] by (auto simp: n_def)
  then show "\<exists>out. GetUserPasswd ctx username chal (p @ replicate (128 - length p) 0) buf = Some (out, 2 + n) \<and>
      take 2 out = [0x2F, of_nat n] \<and>
      radius_chain (md5_spec TYPE('u)) username chal (n div 16) (drop 2 out) = p @ replicate (n - length p) 0"
    by simp
next
  assume "length p mod 16 \<noteq> 0"
  moreover have "unat (property_blocks (of_nat (length p))) = length p"
    using pwd by (intro property_blocks_id) simp_all
  ultimately show "RadiusEncrpytPwd ctx username (Some chal) 16 (Some (p @ replicate (512 - length p) 0))
       (unat (property_blocks (of_nat (length p)))) buf = Some buf"
    using assms(3) by (simp add: RadiusEncrpytPwd_def store_at_def)
qed

theorem password_reaches_server_witness:
  "\<exists>out. GetUserPasswd (md5_zeroed :: u64 MD5_CTX) [0x75] (replicate 16 7) ([0x61, 0x62, 0x63] @ replicate 125 0) (replicate 200 0) = Some (out, 18) \<and>
     take 2 out = [0x2F, 16] \<and>
     radius_chain (md5_spec TYPE(64)) [0x75] (replicate 16 7) 1 (drop 2 out) = [0x61, 0x62, 0x63] @ replicate 13 0"
  using password_reaches_server [of "md5_zeroed :: u64 MD5_CTX" "[0x75]" "replicate 16 7" "[0x61, 0x62, 0x63]" "replicate 200 0"]
  by (simp add: md5_zeroed_def)

end
