(* ===== verification/Vz_Api.thy ===== *)
theory Vz_Api
  imports Client_Md5 Sha1 Tiger Whirlpool Ripemd128
begin

text \<open>
  The answers to the challenges of the access server, \<open>tuanzi/src/vz_apiapp.cpp\<close>: two halves of a
  message are digested with a pair of modified hash functions, mixed with the bytes of the
  challenge, digested with the modified Whirlpool, and printed. \<open>PrepareData\<close> does that with two
  fixed messages, \<open>V3HeartbeatAPI\<close> with the halves of a row of a table that \<open>dirtranthread.cpp\<close>
  chooses for its heartbeat. \<open>None\<close> is an access outside of a buffer.
\<close>

datatype HASH_TYPE = HASH_MD5_MD5 | HASH_SHA1_SHA1 | HASH_RIPEMD128_SHA1 | HASH_TIGER_RIPEMD128 | HASH_TIGER_SHA1

definition HASH_MAX :: nat where "HASH_MAX = 5"

definition hash_type_of :: "nat \<Rightarrow> HASH_TYPE option" where
  "hash_type_of n =
     (if n = 0 then Some HASH_MD5_MD5 else if n = 1 then Some HASH_SHA1_SHA1
      else if n = 2 then Some HASH_RIPEMD128_SHA1 else if n = 3 then Some HASH_TIGER_RIPEMD128
      else if n = 4 then Some HASH_TIGER_SHA1 else None)"

text \<open>
  What the answers are not meant to depend on: the addresses of the buffers (by the number of the
  call), the contents of the SHA-1 context before its two initialisations, the memory that
  \<open>GetMD5\<close> allocates, and the local buffer in the finish function of RIPEMD-128.
\<close>

record vz_env =
  vz_addr :: "nat \<Rightarrow> nat"
  vz_ctx :: "nat \<Rightarrow> sha1_ctx"
  vz_fresh :: "nat \<Rightarrow> byte list"
  vz_junk :: "byte list"

definition vz_sha1 :: "vz_env \<Rightarrow> nat \<Rightarrow> byte list \<Rightarrow> byte list" where
  "vz_sha1 e i msg = rhash_sha1_final_Vz (rhash_sha1_update_Vz (rhash_sha1_init_Vz (vz_ctx e i)) (vz_addr e (3 * i)) msg)
     (vz_addr e (3 * i + 1)) (replicate 20 0) (vz_addr e (3 * i + 2))"

definition vz_tiger :: "vz_env \<Rightarrow> byte list \<Rightarrow> byte list" where
  "vz_tiger e msg = rhash_tiger_final_Vz (rhash_tiger_update_Vz
     (rhash_tiger_init_Vz \<lparr>rh_message = replicate 64 0, rh_length = 0, rh_hash = replicate 3 0, tiger2 = 0\<rparr>) (vz_addr e 6) msg)"

definition vz_ripemd128 :: "vz_env \<Rightarrow> byte list \<Rightarrow> byte list" where
  "vz_ripemd128 e msg = ampheck_ripemd128_finish_Vz (ampheck_ripemd128_update_Vz
     (ampheck_ripemd128_init_Vz \<lparr>rmd_h = replicate 4 0, rmd_buffer = replicate 64 0, rmd_length = 0\<rparr>) msg)
     (vz_junk e) (replicate 16 0)"

definition vz_whirlpool :: "vz_env \<Rightarrow> byte list \<Rightarrow> byte list" where
  "vz_whirlpool e msg = rhash_whirlpool_final_Vz (rhash_whirlpool_update_Vz
     (rhash_whirlpool_init_Vz \<lparr>rh_message = replicate 64 0, rh_length = 0, rh_hash = replicate 8 0\<rparr>) (vz_addr e 7) msg)
     (vz_addr e 8) (replicate 64 0) (vz_addr e 9)"

definition COPY_4_PARTED_DATA :: "byte list \<Rightarrow> byte list \<Rightarrow> byte list \<Rightarrow> byte list \<Rightarrow> nat \<Rightarrow> nat \<Rightarrow> byte list option" where
  "COPY_4_PARTED_DATA to data1 data2 data3 first_len second_len = do {
     to \<leftarrow> store_at to 0 data1;
     part \<leftarrow> read_at data2 0 first_len;
     to \<leftarrow> store_at to (length data1) part;
     to \<leftarrow> store_at to (length data1 + first_len) data3;
     part \<leftarrow> read_at data2 first_len second_len;
     store_at to (length data1 + first_len + length data3) part
   }"

text \<open>
  The bytes of the challenge, printed at \<open>i * 2 + 32\<close> in turns into the upper and the lower text;
  \<open>sprintf\<close> ends each with a NUL.
\<close>

fun challenge_loop :: "byte list \<Rightarrow> nat list \<Rightarrow> byte list \<Rightarrow> byte list \<Rightarrow> (byte list \<times> byte list) option" where
  "challenge_loop chal [] upper lower = Some (upper, lower)"
| "challenge_loop chal (i # is) upper lower =
     (if odd i
      then Option.bind (store_at lower (i * 2 + 32) (digest_text [chal ! i] @ [0])) (\<lambda>lower. challenge_loop chal is upper lower)
      else Option.bind (store_at upper (i * 2 + 32) (digest_text [chal ! i] @ [0])) (\<lambda>upper. challenge_loop chal is upper lower))"

definition vz_md5_md5 :: "'u::len itself \<Rightarrow> vz_env \<Rightarrow> byte list \<Rightarrow> byte list \<Rightarrow> byte list \<Rightarrow> byte list option" where
  "vz_md5_md5 u e upper lower chal = do {
     temp_upper \<leftarrow> CMD5ForVz_GetMD5 u (vz_fresh e 0) upper;
     temp_lower \<leftarrow> CMD5ForVz_GetMD5 u (vz_fresh e 1) lower;
     s \<leftarrow> c_string temp_upper;
     upper_md5 \<leftarrow> store_at (replicate 300 0) 0 (s @ [0]);
     s \<leftarrow> c_string temp_lower;
     lower_md5 \<leftarrow> store_at (replicate 300 0) 0 (s @ [0]);
     (upper_md5, lower_md5) \<leftarrow> challenge_loop chal [0..<16] upper_md5 lower_md5;
     upper_s \<leftarrow> c_string upper_md5;
     lower_s \<leftarrow> c_string lower_md5;
     buf \<leftarrow> store_at (replicate 96 0) 0 (upper_s @ [0]);
     buf \<leftarrow> store_at buf (length upper_s) (lower_s @ [0]);
     msg \<leftarrow> read_at buf 0 (length upper_s + length lower_s + 16 * 2);
     Some (vz_whirlpool e msg)
   }"

text \<open>The switch of \<open>V3HeartbeatAPI\<close>; that of \<open>PrepareData\<close> has the same text up to the names.\<close>

definition vz_dstbuf :: "'u::len itself \<Rightarrow> vz_env \<Rightarrow> HASH_TYPE \<Rightarrow> byte list \<Rightarrow> byte list \<Rightarrow> byte list \<Rightarrow> byte list option" where
  "vz_dstbuf u e hash_type upper lower chal =
     (case hash_type of
        HASH_MD5_MD5 \<Rightarrow> vz_md5_md5 u e upper lower chal
      | HASH_SHA1_SHA1 \<Rightarrow> do {
          buf \<leftarrow> COPY_4_PARTED_DATA (replicate 56 0) (vz_sha1 e 0 lower) chal (vz_sha1 e 1 upper) 6 10;
          msg \<leftarrow> read_at buf 0 (20 + 20 + 16);
          Some (vz_whirlpool e msg) }
      | HASH_RIPEMD128_SHA1 \<Rightarrow> do {
          buf \<leftarrow> COPY_4_PARTED_DATA (replicate 52 0) (vz_sha1 e 0 lower) chal (vz_ripemd128 e upper) 6 10;
          msg \<leftarrow> read_at buf 0 (20 + 16 + 16);
          Some (vz_whirlpool e msg) }
      | HASH_TIGER_RIPEMD128 \<Rightarrow> do {
          buf \<leftarrow> COPY_4_PARTED_DATA (replicate 56 0) (vz_tiger e upper) chal (vz_ripemd128 e lower) 10 6;
          msg \<leftarrow> read_at buf 0 (24 + 16 + 16);
          Some (vz_whirlpool e msg) }
      | HASH_TIGER_SHA1 \<Rightarrow> do {
          buf \<leftarrow> COPY_4_PARTED_DATA (replicate 60 0) (vz_tiger e upper) chal (vz_sha1 e 0 lower) 8 8;
          msg \<leftarrow> read_at buf 0 (24 + 20 + 16);
          Some (vz_whirlpool e msg) })"

text \<open>The loop of \<open>sprintf(result + 2 * i, "%02x", ...)\<close>.\<close>

fun print_hex :: "byte list \<Rightarrow> nat \<Rightarrow> byte list \<Rightarrow> byte list option" where
  "print_hex result i [] = Some result"
| "print_hex result i (b # dstbuf) =
     Option.bind (store_at result (2 * i) (digest_text [b] @ [0])) (\<lambda>result. print_hex result (i + 1) dstbuf)"

definition V3_md5_challenge :: "byte list" where
  "V3_md5_challenge = [
     0x17, 0xFE, 0x8D, 0x44, 0x1A, 0x19, 0x09, 0xC0,
     0xA2, 0xB5, 0x31, 0xD7, 0xA8, 0x0D, 0xC9, 0x91]"

definition V3HeartbeatAPI :: "'u::len itself \<Rightarrow> vz_env \<Rightarrow> byte list \<Rightarrow> nat \<Rightarrow> byte list \<Rightarrow> nat \<Rightarrow> byte list option" where
  "V3HeartbeatAPI u e data datalen result hash_type = do {
     upper \<leftarrow> read_at data 0 (datalen div 2);
     lower \<leftarrow> read_at data (datalen div 2) (datalen - datalen div 2);
     t \<leftarrow> hash_type_of (hash_type mod HASH_MAX);
     dstbuf \<leftarrow> vz_dstbuf u e t upper lower V3_md5_challenge;
     print_hex result 0 dstbuf
   }"

text \<open>\<open>PrepareData\<close>, with the contents of \<open>g_pAppData\<close> and \<open>g_pDllData\<close> as arguments.\<close>

definition PrepareData ::
  "'u::len itself \<Rightarrow> vz_env \<Rightarrow> byte list \<Rightarrow> byte list \<Rightarrow> byte list \<Rightarrow> nat \<Rightarrow> byte list \<Rightarrow> byte list option" where
  "PrepareData u e appdata dlldata result hash_type md5_challenge =
     (case hash_type_of hash_type of
        None \<Rightarrow> Some result
      | Some t \<Rightarrow> do {
          dstbuf \<leftarrow> vz_dstbuf u e t appdata dlldata md5_challenge;
          print_hex result 0 dstbuf
        })"

text \<open>\<open>Vz_API\<close> prints random numbers with at least four digits and appends a fixed text.\<close>

fun hex_digits :: "nat \<Rightarrow> byte list" where
  "hex_digits n =
     (if n < 16 then [hex_lower (of_nat n)] else hex_digits (n div 16) @ [hex_lower (of_nat (n mod 16))])"

declare hex_digits.simps [simp del]

definition format_04x :: "nat \<Rightarrow> byte list" where
  "format_04x n = replicate (4 - length (hex_digits n)) 0x30 @ hex_digits n"

definition fixed_staff :: "byte list" where
  "fixed_staff = map of_char (''fd8e40a61e70c67ba4dd65c0b6424b77'' @ ''20de104fcb4c620ab474be6136d62b92'' @
     ''c995edef2c149236c126f78a35fd371d'' @ ''b6a4d4c4c7f7e600467a51074e425bdd'')"

fun random_loop :: "(nat \<Rightarrow> nat) \<Rightarrow> nat list \<Rightarrow> byte list \<Rightarrow> byte list option" where
  "random_loop rand [] staff = Some staff"
| "random_loop rand (i # is) staff =
     Option.bind (store_at staff i (format_04x (rand i) @ [0])) (\<lambda>staff. random_loop rand is staff)"

definition Vz_API ::
  "'u::len itself \<Rightarrow> vz_env \<Rightarrow> byte list \<Rightarrow> byte list \<Rightarrow> (nat \<Rightarrow> nat) \<Rightarrow> byte list \<Rightarrow> byte list \<Rightarrow> byte list option" where
  "Vz_API u e appdata dlldata rand result md5_challenge = do {
     random_staff \<leftarrow> random_loop rand (map ((*) 4) [0..<32]) (replicate 256 0);
     s \<leftarrow> c_string random_staff;
     random_staff \<leftarrow> store_at random_staff (length s) (fixed_staff @ [0]);
     PrepareData u e appdata dlldata result ((unat (md5_challenge ! 3) + unat (md5_challenge ! 0)) mod 5) md5_challenge
   }"

text \<open>The property that \<open>PostPacketSAMHeartbeatNoResponse\<close> builds in \<open>tmpbuf[130]\<close>.\<close>

definition heartbeat_checksum_sum :: "u32 \<Rightarrow> byte list \<Rightarrow> u32" where
  "heartbeat_checksum_sum session_id chal =
     sum_list (map (\<lambda>i. drop_bit (8 * i) session_id AND 0xFF) [0..<4]) + sum_list (map ucast chal)"

definition heartbeat_slot :: "u32 \<Rightarrow> byte list \<Rightarrow> nat" where
  "heartbeat_slot session_id chal = unat ((0x2D7 * heartbeat_checksum_sum session_id chal) mod 0x35)"

definition heartbeat_property ::
  "'u::len itself \<Rightarrow> vz_env \<Rightarrow> byte list \<Rightarrow> u32 \<Rightarrow> byte list \<Rightarrow> byte list option" where
  "heartbeat_property u e cHeartBeatArray session_id chal = do {
     tmpbuf \<leftarrow> store_at (replicate 130 0) 0 [0x14, 0x80];
     let slot = heartbeat_slot session_id chal;
     result \<leftarrow> V3HeartbeatAPI u e (drop (slot * 2 ^ 7) cHeartBeatArray) (unat (tmpbuf ! 1)) (drop 2 tmpbuf) slot;
     Some (take 2 tmpbuf @ result)
   }"

subsection \<open>The digests\<close>

definition vz_env_ok :: "vz_env \<Rightarrow> bool" where
  "vz_env_ok e \<longleftrightarrow> (\<forall>i. length (rh_message (vz_ctx e i)) = 64) \<and> (\<forall>i. length (vz_fresh e i) = 33) \<and> length (vz_junk e) = 64"

lemma vz_sha1_spec: "vz_env_ok e \<Longrightarrow> vz_sha1 e i msg = sha1_Vz_spec msg"
proof -
  assume "vz_env_ok e"
  then have "rhash_rep rhash_sha1_process_block_Vz [0x32075416, 0xf8dae9bc, 0x73541260, 0x8acb9dfe, 0xfd0c2e1b]
      (rhash_sha1_init_Vz (vz_ctx e i)) []"
    by (intro sha1_rep_init) (simp add: vz_env_ok_def)
  from rhash_update_rep [OF this] have "rhash_rep rhash_sha1_process_block_Vz [0x32075416, 0xf8dae9bc, 0x73541260, 0x8acb9dfe, 0xfd0c2e1b]
      (rhash_sha1_update_Vz (rhash_sha1_init_Vz (vz_ctx e i)) a msg) msg" for a
    by (simp add: rhash_sha1_update_Vz_def)
  from sha1_final_digest [OF this sha1_length_process(2)] show ?thesis
    by (simp add: vz_sha1_def rhash_sha1_final_Vz_def sha1_Vz_spec_def)
qed

lemma vz_tiger_spec: "vz_tiger e msg = tiger_Vz_spec msg"
  using rhash_tiger_Vz.rep_fin [OF rhash_tiger_Vz.rep_upd [OF tiger_rep_init(2), of _ "(vz_addr e 6, msg)"]]
  by (simp add: vz_tiger_def)

lemma vz_ripemd128_spec: "vz_env_ok e \<Longrightarrow> vz_ripemd128 e msg = ripemd128_Vz_spec msg"
  using ripemd_Vz.rep_upd [OF ripemd_rep_init(2), of "\<lparr>rmd_h = replicate 4 0, rmd_buffer = replicate 64 0, rmd_length = 0\<rparr>" msg]
    ripemd_finish_spec(2) [of "vz_junk e" "replicate 16 0"]
  by (simp add: vz_ripemd128_def vz_env_ok_def)

lemma vz_whirlpool_spec: "vz_whirlpool e msg = whirlpool_Vz_spec msg"
proof -
  have "rhash_rep rhash_whirlpool_process_block_Vz [0, 3, 5, 2, 1, 7, 4, 6]
      (rhash_whirlpool_update_Vz (rhash_whirlpool_init_Vz \<lparr>rh_message = replicate 64 0, rh_length = 0, rh_hash = replicate 8 0\<rparr>) (vz_addr e 7) msg) ([] @ msg)"
    unfolding rhash_whirlpool_update_Vz_def by (intro rhash_update_rep whirlpool_rep_init) simp
  from whirlpool_final_digest [OF this whirlpool_length_process(2)] show ?thesis
    by (simp add: vz_whirlpool_def rhash_whirlpool_final_Vz_def whirlpool_Vz_spec_def)
qed

lemma length_Vz_specs [len_simps]:
  "length (sha1_Vz_spec m) = 20" "length (tiger_Vz_spec m) = 24" "length (ripemd128_Vz_spec m) = 16" "length (whirlpool_Vz_spec m) = 64"
  by (rule rhash_sha1_Vz.length_digest rhash_tiger_Vz.length_digest ripemd_Vz.length_digest rhash_whirlpool_Vz.length_digest)+

subsection \<open>Mixing and printing\<close>

lemma COPY_4_PARTED_DATA_mix:
  assumes "length to = length d1 + n1 + length d3 + n2" and "length d2 = n1 + n2"
  shows "COPY_4_PARTED_DATA to d1 d2 d3 n1 n2 = Some (d1 @ take n1 d2 @ d3 @ drop n1 d2)"
  using assms by (simp add: COPY_4_PARTED_DATA_def store_at_def memcpy_def read_at_def)

lemma print_hex_fits:
  "2 * i + 2 * length bs < length result \<Longrightarrow> bs \<noteq> [] \<Longrightarrow>
     print_hex result i bs = Some (take (2 * i) result @ digest_text bs @ 0 # drop (2 * i + 2 * length bs + 1) result)"
proof (induction bs arbitrary: i result)
  case (Cons b bs)
  define r where "r = memcpy result (2 * i) (digest_text [b] @ [0])"
  have r: "store_at result (2 * i) (digest_text [b] @ [0]) = Some r" "length r = length result"
      "take (2 * (i + 1)) r = take (2 * i) result @ digest_text [b]" "r ! (2 * i + 2) = 0" "drop (2 * i + 3) r = drop (2 * i + 3) result"
    using Cons.prems by (simp_all add: r_def store_at_def memcpy_def nth_append numeral_3_eq_3)
  show ?case
  proof (cases "bs = []")
    case True
    have "r = take (2 * (i + 1)) r @ r ! (2 * i + 2) # drop (2 * i + 3) r"
      using Cons.prems r(2) id_take_nth_drop [of "2 * i + 2" r] by (simp add: numeral_3_eq_3)
    then show ?thesis using True r by (simp add: numeral_3_eq_3)
  next
    case False
    have "drop (2 * (i + 1) + 2 * length bs + 1) r = drop (2 * length bs) (drop (2 * i + 3) r)" by (simp add: algebra_simps numeral_3_eq_3)
    also have "\<dots> = drop (2 * i + 2 * length (b # bs) + 1) result" unfolding r(5) by (simp add: algebra_simps numeral_3_eq_3)
    finally have rest: "drop (2 * (i + 1) + 2 * length bs + 1) r = drop (2 * i + 2 * length (b # bs) + 1) result" .
    have "digest_text (b # bs) = digest_text [b] @ digest_text bs" by simp
    then show ?thesis using Cons.IH [of "i + 1" r] Cons.prems False r(1-3) rest by (simp del: digest_text.simps)
  qed
qed simp

lemma print_hex_overrun: "length result \<le> 2 * i + 2 * length bs \<Longrightarrow> bs \<noteq> [] \<Longrightarrow> print_hex result i bs = None"
proof (induction bs arbitrary: i result)
  case (Cons b bs)
  show ?case
  proof (cases "bs = []")
    case True
    then show ?thesis using Cons.prems by (simp add: store_at_def)
  next
    case False
    then have "print_hex r (i + 1) bs = None" if "length r = length result" for r
      using Cons.prems that by (intro Cons.IH) simp_all
    then show ?thesis by (auto simp: store_at_def len_simps)
  qed
qed simp

text \<open>What each pair of hash functions feeds to Whirlpool.\<close>

definition vz_mix :: "HASH_TYPE \<Rightarrow> byte list \<Rightarrow> byte list \<Rightarrow> byte list \<Rightarrow> byte list" where
  "vz_mix t upper lower c =
     (case t of
        HASH_MD5_MD5 \<Rightarrow> []
      | HASH_SHA1_SHA1 \<Rightarrow> sha1_Vz_spec lower @ take 6 c @ sha1_Vz_spec upper @ drop 6 c
      | HASH_RIPEMD128_SHA1 \<Rightarrow> sha1_Vz_spec lower @ take 6 c @ ripemd128_Vz_spec upper @ drop 6 c
      | HASH_TIGER_RIPEMD128 \<Rightarrow> tiger_Vz_spec upper @ take 10 c @ ripemd128_Vz_spec lower @ drop 10 c
      | HASH_TIGER_SHA1 \<Rightarrow> tiger_Vz_spec upper @ take 8 c @ sha1_Vz_spec lower @ drop 8 c)"

lemma vz_dstbuf_mix:
  assumes "vz_env_ok e" and "length c = 16" and "t \<noteq> HASH_MD5_MD5"
  shows "vz_dstbuf u e t upper lower c = Some (whirlpool_Vz_spec (vz_mix t upper lower c))"
  using assms(2,3)
  by (cases t) (simp_all add: vz_dstbuf_def vz_mix_def COPY_4_PARTED_DATA_mix len_simps read_at_def
      vz_sha1_spec [OF assms(1)] vz_tiger_spec vz_ripemd128_spec [OF assms(1)] vz_whirlpool_spec)

text \<open>With MD5 the two texts have 34 and 32 characters, so that 98 bytes are read from a buffer of 96.\<close>

lemma challenge_loop_prefix:
  "challenge_loop c is upper lower = Some (upper', lower') \<Longrightarrow> \<forall>i \<in> set is. odd i \<longrightarrow> n \<le> i * 2 + 32 \<Longrightarrow>
     \<forall>i \<in> set is. even i \<longrightarrow> m \<le> i * 2 + 32 \<Longrightarrow>
     take m upper' = take m upper \<and> take n lower' = take n lower \<and> length upper' = length upper \<and> length lower' = length lower"
proof (induction "is" arbitrary: upper lower)
  case (Cons i "is")
  then show ?case
    by (auto simp: store_at_def memcpy_def split: if_splits bind_splits)
qed auto

lemma c_string_take: "take (Suc (length s)) buf = s @ [0] \<Longrightarrow> 0 \<notin> set s \<Longrightarrow> c_string buf = Some s"
  using c_string_prefix [of s "drop (Suc (length s)) buf"] append_take_drop_id [of "Suc (length s)" buf] by simp

lemma vz_md5_md5_overread:
  fixes u :: "'u::len itself"
  assumes "32 \<le> LENGTH('u)" and "vz_env_ok e" and "length upper < 2 ^ 29" and "length lower < 2 ^ 29"
  shows "vz_md5_md5 u e upper lower chal = None"
proof -
  define d1 d2 where "d1 = digest_text (md5_spec_Vz TYPE('u) upper)" and "d2 = digest_text (md5_spec_Vz TYPE('u) lower)"
  have d: "length d1 = 32" "length d2 = 32" "0 \<notin> set d1" "0 \<notin> set d2"
    by (simp_all add: d1_def d2_def len_simps digest_text_no_nul)
  have get: "CMD5ForVz_GetMD5 u (vz_fresh e 0) upper = Some (d1 @ [vz_fresh e 0 ! 32])"
      "CMD5ForVz_GetMD5 u (vz_fresh e 1) lower = Some (d2 @ [vz_fresh e 1 ! 32])"
    using md5_digest_of_chunks(2) [of "md5_zeroed :: 'u word MD5_CTX" "[upper]"]
      md5_digest_of_chunks(2) [of "md5_zeroed :: 'u word MD5_CTX" "[lower]"] assms
    by (simp_all add: md5_zeroed_def vz_env_ok_def CMD5ForVz_GetMD5_def Final_text_def memcpy_def len_simps d1_def d2_def flip: Cons_nth_drop_Suc)
  show ?thesis
  proof (rule ccontr)
    assume "vz_md5_md5 u e upper lower chal \<noteq> None"
    then obtain s1 s2 u1 l1 u' l' us ls b1 b2 m where run:
      "c_string (d1 @ [vz_fresh e 0 ! 32]) = Some s1" "store_at (replicate 300 0) 0 (s1 @ [0]) = Some u1"
      "c_string (d2 @ [vz_fresh e 1 ! 32]) = Some s2" "store_at (replicate 300 0) 0 (s2 @ [0]) = Some l1"
      "challenge_loop chal [0..<16] u1 l1 = Some (u', l')" "c_string u' = Some us" "c_string l' = Some ls"
      "store_at (replicate 96 0) 0 (us @ [0]) = Some b1" "store_at b1 (length us) (ls @ [0]) = Some b2"
      "read_at b2 0 (length us + length ls + 16 * 2) = Some m"
      unfolding vz_md5_md5_def get by (auto split: bind_splits)
    have s: "s1 = d1" "s2 = d2"
      using run(1,3) d c_string_prefix [of d1 "[]"] c_string_prefix [of d2 "[]"] by (auto simp: c_string_def split: if_splits)
    have mem: "u1 = d1 @ replicate 268 0" "l1 = d2 @ replicate 268 0"
      using run(2,4) d by (auto simp: s store_at_def memcpy_def split: if_splits simp flip: replicate_Suc)
    define h where "h = digest_text [chal ! 0]"
    have h: "length h = 2" "0 \<notin> set h" unfolding h_def by (simp_all only: digest_text_no_nul) (simp_all add: len_simps)
    have "[0..<16] = 0 # [1..<16::nat]" by (simp add: upt_rec)
    then have loop: "challenge_loop chal [1..<16] (memcpy u1 32 (h @ [0])) l1 = Some (u', l')"
      using run(5) d by (simp add: mem store_at_def h_def del: digest_text.simps split: bind_splits if_splits)
    have "take 35 u' = take 35 (memcpy u1 32 (h @ [0])) \<and> take 33 l' = take 33 l1 \<and>
        length u' = length (memcpy u1 32 (h @ [0])) \<and> length l' = length l1"
      by (rule challenge_loop_prefix [OF loop]) auto
    then have "take 35 u' = (d1 @ h) @ [0]" "take 33 l' = d2 @ [0]" using d h by (simp_all add: mem memcpy_def)
    then have "c_string u' = Some (d1 @ h)" "c_string l' = Some d2" using d h by (simp_all add: c_string_take)
    then have "length us = 34" "length ls = 32" using run(6,7) d h by auto
    moreover from this have "length b2 = 96" using run(8,9) by (auto simp: store_at_def len_simps split: if_splits)
    ultimately show False using run(10) by (simp add: read_at_def)
  qed
qed

subsection \<open>The answers\<close>

lemma vz_print:
  fixes u :: "'u::len itself"
  assumes "32 \<le> LENGTH('u)" and "vz_env_ok e" and "length upper < 2 ^ 29" and "length lower < 2 ^ 29" and "length c = 16"
  shows "Option.bind (vz_dstbuf u e t upper lower c) (print_hex result 0) =
    (if t = HASH_MD5_MD5 \<or> length result < 129 then None
     else Some (digest_text (whirlpool_Vz_spec (vz_mix t upper lower c)) @ 0 # drop 129 result))"
proof (cases "t = HASH_MD5_MD5")
  case True
  then show ?thesis using vz_md5_md5_overread [OF assms(1-4)] by (simp add: vz_dstbuf_def)
next
  case False
  define d where "d = whirlpool_Vz_spec (vz_mix t upper lower c)"
  have d: "length d = 64" "d \<noteq> []" by (auto simp: d_def len_simps dest: arg_cong [of _ _ length])
  show ?thesis
    using False print_hex_fits [of 0 d result] print_hex_overrun [of result 0 d] d
    by (simp add: vz_dstbuf_mix [OF assms(2,5) False] flip: d_def)
qed

lemma V3HeartbeatAPI_answer:
  fixes u :: "'u::len itself"
  assumes "32 \<le> LENGTH('u)" and "vz_env_ok e" and "datalen \<le> length data" and "datalen < 2 ^ 29"
    and "hash_type_of (hash_type mod HASH_MAX) = Some t"
  shows "V3HeartbeatAPI u e data datalen result hash_type =
      (if t = HASH_MD5_MD5 \<or> length result < 129 then None
       else Some (digest_text (whirlpool_Vz_spec (vz_mix t (take (datalen div 2) data)
         (take (datalen - datalen div 2) (drop (datalen div 2) data)) V3_md5_challenge)) @ 0 # drop 129 result))"
proof -
  have half: "datalen - datalen div 2 < 2 ^ 29" "datalen div 2 + (datalen - datalen div 2) \<le> length data" "datalen div 2 \<le> length data"
    using assms(3,4) by linarith+
  then show ?thesis
    using assms(3,4)
    by (simp add: V3HeartbeatAPI_def read_at_def assms(5) V3_md5_challenge_def vz_print [OF assms(1,2)])
qed

lemma PrepareData_answer:
  fixes u :: "'u::len itself"
  assumes "32 \<le> LENGTH('u)" and "vz_env_ok e" and "length appdata < 2 ^ 29" and "length dlldata < 2 ^ 29" and "length chal = 16"
    and "hash_type_of (hash_type mod HASH_MAX) = Some t"
  shows "PrepareData u e appdata dlldata result hash_type chal =
      (if HASH_MAX \<le> hash_type then Some result
       else if t = HASH_MD5_MD5 \<or> length result < 129 then None
       else Some (digest_text (whirlpool_Vz_spec (vz_mix t appdata dlldata chal)) @ 0 # drop 129 result))"
proof (cases "HASH_MAX \<le> hash_type")
  case True
  then show ?thesis by (simp add: PrepareData_def hash_type_of_def HASH_MAX_def)
next
  case False
  then show ?thesis using assms(6) by (simp add: PrepareData_def vz_print [OF assms(1-5)])
qed

text \<open>
  C30: the answers to the challenges: for the four pairs of hash functions without MD5 the result is
  the printed Whirlpool_Vz digest of the two halves' digests mixed with the challenge, whatever the
  addresses and the memory at hand, and it needs 129 bytes; for the pair of MD5 digests the
  function reads past the end of its own buffer. \<open>PrepareData\<close> ignores a pair it does not know.
\<close>

theorem vz_answers:
  fixes u :: "'u::len itself"
  assumes "32 \<le> LENGTH('u)" and "vz_env_ok e" and "datalen \<le> length data" and "datalen < 2 ^ 29"
    and "hash_type_of (hash_type mod HASH_MAX) = Some t"
    and "length appdata < 2 ^ 29" and "length dlldata < 2 ^ 29" and "length chal = 16"
  shows "V3HeartbeatAPI u e data datalen result hash_type =
      (if t = HASH_MD5_MD5 \<or> length result < 129 then None
       else Some (digest_text (whirlpool_Vz_spec (vz_mix t (take (datalen div 2) data)
         (take (datalen - datalen div 2) (drop (datalen div 2) data)) V3_md5_challenge)) @ 0 # drop 129 result)) \<and>
    PrepareData u e appdata dlldata result hash_type chal =
      (if HASH_MAX \<le> hash_type then Some result
       else if t = HASH_MD5_MD5 \<or> length result < 129 then None
       else Some (digest_text (whirlpool_Vz_spec (vz_mix t appdata dlldata chal)) @ 0 # drop 129 result))"
  by (intro conjI V3HeartbeatAPI_answer [OF assms(1-5)] PrepareData_answer [OF assms(1,2,6,7,8,5)])

definition vz_env_blank :: vz_env where
  "vz_env_blank = \<lparr>vz_addr = (\<lambda>_. 0), vz_ctx = (\<lambda>_. sha1_blank), vz_fresh = (\<lambda>_. replicate 33 0), vz_junk = replicate 64 0\<rparr>"

lemma vz_env_blank_ok: "vz_env_ok vz_env_blank"
  by (simp add: vz_env_ok_def vz_env_blank_def sha1_blank_def)

theorem vz_answers_witness:
  "V3HeartbeatAPI TYPE(64) vz_env_blank [1, 2, 3, 4] 4 (replicate 130 9) 7 =
     Some (digest_text (whirlpool_Vz_spec (vz_mix HASH_RIPEMD128_SHA1 [1, 2] [3, 4] V3_md5_challenge)) @ [0, 9]) \<and>
   PrepareData TYPE(64) vz_env_blank [1] [2] [] 7 (replicate 16 0) = Some []"
  using vz_answers [where u = "TYPE(64)" and e = vz_env_blank and data = "[1, 2, 3, 4]" and datalen = 4 and hash_type = 7 and
      t = HASH_RIPEMD128_SHA1 and result = "replicate 130 9" and appdata = "[1]" and dlldata = "[2]" and chal = "replicate 16 0"]
    vz_answers [where u = "TYPE(64)" and e = vz_env_blank and data = "[]" and datalen = 0 and hash_type = 7 and
      t = HASH_RIPEMD128_SHA1 and result = "[]" and appdata = "[1]" and dlldata = "[2]" and chal = "replicate 16 0"]
  by (simp add: vz_env_blank_ok hash_type_of_def HASH_MAX_def)

subsection \<open>The callers\<close>

lemma heartbeat_slot_bound: "heartbeat_slot session_id chal < 53"
proof -
  have "unat ((0x2D7 * heartbeat_checksum_sum session_id chal) mod 0x35) = unat (0x2D7 * heartbeat_checksum_sum session_id chal) mod 53"
    by (simp only: unat_mod) simp
  then show ?thesis by (simp add: heartbeat_slot_def)
qed

lemma hash_type_total: "\<exists>t. hash_type_of (n mod HASH_MAX) = Some t"
proof -
  have "n mod HASH_MAX < 5" by (simp add: HASH_MAX_def)
  then show ?thesis by (auto simp: hash_type_of_def)
qed

text \<open>
  The heartbeat of the direct transfer takes one of the 53 rows of 128 bytes of its table, whatever
  the session and the challenge, and always writes past the end of \<open>tmpbuf[130]\<close>: the answer has 128
  digits and a NUL behind the two bytes of the header (or the row selects the pair of MD5 digests).
\<close>

theorem heartbeat_overruns:
  fixes u :: "'u::len itself"
  assumes "32 \<le> LENGTH('u)" and "vz_env_ok e" and "length cHeartBeatArray = 6784"
  shows "heartbeat_slot session_id chal * 2 ^ 7 + 128 \<le> length cHeartBeatArray \<and>
    heartbeat_property u e cHeartBeatArray session_id chal = None"
proof
  define slot where "slot = heartbeat_slot session_id chal"
  have slot: "slot < 53" unfolding slot_def by (rule heartbeat_slot_bound)
  then show "heartbeat_slot session_id chal * 2 ^ 7 + 128 \<le> length cHeartBeatArray"
    using assms(3) by (simp flip: slot_def)
  obtain t where t: "hash_type_of (slot mod HASH_MAX) = Some t" using hash_type_total by blast
  have row: "128 \<le> length (drop (slot * 2 ^ 7) cHeartBeatArray)" using slot assms(3) by simp
  have "V3HeartbeatAPI u e (drop (slot * 2 ^ 7) cHeartBeatArray) 128 (replicate 128 0) slot = None"
    using V3HeartbeatAPI_answer [OF assms(1,2) row _ t, where result = "replicate 128 0"] by simp
  then show "heartbeat_property u e cHeartBeatArray session_id chal = None"
    by (simp add: heartbeat_property_def store_at_def memcpy_def flip: slot_def)
qed

theorem heartbeat_overruns_witness:
  "heartbeat_property TYPE(64) vz_env_blank (replicate 6784 0) 5 (replicate 16 0) = None"
  using heartbeat_overruns [where u = "TYPE(64)", OF _ vz_env_blank_ok, of "replicate 6784 0" 5 "replicate 16 0"] by simp

lemma hex_digits_no_nul: "0 \<notin> set (hex_digits n) \<and> hex_digits n \<noteq> []"
proof (induction n rule: hex_digits.induct)
  case (1 n)
  have small: "hex_lower (of_nat m) \<noteq> 0" if "m < 16" for m
  proof -
    have "unat (of_nat m :: byte) = m" using that by (intro unat_of_nat_small) simp
    then have "of_nat m \<le> (15 :: byte)" using that by (simp add: word_le_nat_alt)
    from bit_digit [OF this] show ?thesis by (elim disjE) (simp_all add: hex_lower_def)
  qed
  show ?case using 1 small [of n] small [of "n mod 16"] by (subst (1 2) hex_digits.simps) auto
qed

lemma format_04x: "0 \<notin> set (format_04x n)" "4 \<le> length (format_04x n)"
  using hex_digits_no_nul [of n] by (auto simp: format_04x_def)

lemma store_text:
  assumes "store_at st i (f @ [0]) = Some st'" and "\<forall>j < i. st ! j \<noteq> 0" and "0 \<notin> set f" and "4 \<le> length f"
  shows "length st' = length st \<and> (\<forall>j < i + 4. st' ! j \<noteq> 0)"
proof -
  from assms(1) have fit: "i + length f < length st" and st': "st' = memcpy st i (f @ [0])"
    by (auto simp: store_at_def split: if_splits)
  have "st' ! j \<noteq> 0" if "j < i + 4" for j
  proof (cases "j < i")
    case True
    then show ?thesis using fit assms(2) by (simp add: st' memcpy_def nth_append)
  next
    case False
    then have "j - i < length f" using that assms(4) by linarith
    moreover from this have "f ! (j - i) \<noteq> 0" using assms(3) nth_mem by metis
    ultimately show ?thesis using False fit by (simp add: st' memcpy_def nth_append)
  qed
  then show ?thesis using fit by (simp add: st' len_simps)
qed

lemma random_loop_text:
  "random_loop rand (map ((*) 4) [m..<n]) st = Some st' \<Longrightarrow> \<forall>j < 4 * m. st ! j \<noteq> 0 \<Longrightarrow> m \<le> n \<Longrightarrow>
     length st' = length st \<and> (\<forall>j < 4 * n. st' ! j \<noteq> 0)"
proof (induction "n - m" arbitrary: m st)
  case (Suc k)
  then have "[m..<n] = m # [Suc m..<n]" by (simp add: upt_rec)
  with Suc.prems(1) obtain st1 where st1: "store_at st (4 * m) (format_04x (rand (4 * m)) @ [0]) = Some st1"
    "random_loop rand (map ((*) 4) [Suc m..<n]) st1 = Some st'"
    by (auto split: bind_splits)
  have "length st1 = length st \<and> (\<forall>j < 4 * m + 4. st1 ! j \<noteq> 0)"
    by (rule store_text [OF st1(1) Suc.prems(2) format_04x])
  then show ?case using Suc.hyps(1) [of "Suc m" st1] Suc.hyps(2) st1(2) by simp
qed simp

lemma Vz_API_None:
  "Vz_API u e appdata dlldata rand result md5_challenge = None"
proof (rule ccontr)
  assume "Vz_API u e appdata dlldata rand result md5_challenge \<noteq> None"
  then obtain st s st' where run: "random_loop rand (map ((*) 4) [0..<32]) (replicate 256 0) = Some st"
      "c_string st = Some s" "store_at st (length s) (fixed_staff @ [0]) = Some st'"
    unfolding Vz_API_def by (auto split: bind_splits)
  have st: "length st = 256" "\<forall>j < 128. st ! j \<noteq> 0" using random_loop_text [OF run(1)] by simp_all
  have "s = takeWhile (\<lambda>c. c \<noteq> 0) st" using run(2) by (simp add: c_string_def split: if_splits)
  moreover have "128 \<le> length (takeWhile (\<lambda>c. c \<noteq> 0) st)"
  proof (rule ccontr)
    assume "\<not> 128 \<le> length (takeWhile (\<lambda>c. c \<noteq> 0) st)"
    moreover from this have "st ! length (takeWhile (\<lambda>c. c \<noteq> 0) st) = 0"
      using nth_length_takeWhile [of "\<lambda>c. c \<noteq> 0" st] st(1) by simp
    ultimately show False using st(2) by simp
  qed
  moreover have "length fixed_staff = 128" by (simp add: fixed_staff_def)
  ultimately show False using run(3) st(1) by (simp add: store_at_def split: if_splits)
qed

text \<open>
  \<open>Vz_API\<close> writes past the end of \<open>random_staff[256]\<close> before it computes an answer, whatever the
  random numbers: 128 characters or more are printed, and 128 more are appended with their NUL.
\<close>

theorem Vz_API_overruns:
  "Vz_API u e appdata dlldata rand result md5_challenge = None"
  by (rule Vz_API_None)

end
