(* ===== verification/Wire.thy ===== *)
theory Wire
  imports Rhash "HOL-Library.Monad_Syntax"
begin

text \<open>
  Numbers and segments in packets: reads and writes of words in network byte order through casted
  pointers, as the client does them on its little-endian target, and the locale
  \<open>segment_reader\<close> of the loops that walk over lists of typed segments.
\<close>

subsection \<open>Words in network byte order\<close>

definition bytes_le16 :: "u16 \<Rightarrow> byte list" where
  "bytes_le16 w = [ucast w, ucast (drop_bit 8 w)]"

definition word_le16 :: "byte list \<Rightarrow> u16" where
  "word_le16 b = ucast (b ! 0) OR push_bit 8 (ucast (b ! 1))"

definition bytes_be16 :: "u16 \<Rightarrow> byte list" where
  "bytes_be16 w = rev (bytes_le16 w)"

text \<open>\<open>htons\<close> and \<open>ntohs\<close>; \<open>htonl\<close> and \<open>ntohl\<close> are \<^const>\<open>bswap_32\<close>.\<close>

definition htons :: "u16 \<Rightarrow> u16" where
  "htons w = push_bit 8 w OR drop_bit 8 w"

definition be16_at :: "byte list \<Rightarrow> nat \<Rightarrow> u16 option" where
  "be16_at buf i = map_option (htons \<circ> word_le16) (read_at buf i 2)"

definition be32_at :: "byte list \<Rightarrow> nat \<Rightarrow> u32 option" where
  "be32_at buf i = map_option (bswap_32 \<circ> word_le32) (read_at buf i 4)"

lemma length_bytes_16 [len_simps]: "length (bytes_le16 w) = 2" "length (bytes_be16 w) = 2"
  by (simp_all add: bytes_le16_def bytes_be16_def)

lemma word_le16_bytes: "word_le16 (bytes_le16 w @ x) = w"
proof (rule bit_word_eqI)
  fix i assume "i < LENGTH(16)"
  then consider "i < 8" | "8 \<le> i" "i < 16" by fastforce
  then show "bit (word_le16 (bytes_le16 w @ x)) i = bit w i"
    unfolding word_le16_def bytes_le16_def by cases (auto simp: bit_simps)
qed

lemma bytes_le16_htons: "bytes_le16 (htons w) = bytes_be16 w"
proof -
  have "bit w (8 + n)" if "bit w (n + 8)" for n using that by (simp add: add.commute)
  then have "ucast (htons w) = (ucast (drop_bit 8 w) :: byte)" "ucast (drop_bit 8 (htons w)) = (ucast w :: byte)"
    by (auto intro!: bit_word_eqI simp: htons_def bit_simps dest: bit_imp_le_length)
  then show ?thesis by (simp add: bytes_be16_def bytes_le16_def)
qed

lemma htons_htons [simp]: "htons (htons w) = w"
proof (rule bit_word_eqI)
  fix i assume "i < LENGTH(16)"
  then consider "i < 8" | "8 \<le> i" "i < 16" by fastforce
  then show "bit (htons (htons w)) i = bit w i"
    by cases (auto simp: htons_def bit_simps)
qed

lemma word_le16_be: "htons (word_le16 (bytes_be16 w)) = w"
  using word_le16_bytes [of "htons w" "[]"] by (simp add: bytes_le16_htons)

lemma bytes_le32_bswap_32: "bytes_le32 (bswap_32 w) = bytes_be32 w"
  using bytes_swapped(1) [of w] by (simp add: be2me_32_def)

lemma word_le32_be: "bswap_32 (word_le32 (bytes_be32 w)) = w"
proof -
  have "bytes_le32 (bswap_32 (word_le32 (bytes_be32 w))) = bytes_le32 w"
    using bytes_le32_bswap [of "bytes_be32 w"] by (simp add: len_simps) (simp add: bytes_be32_def)
  then show ?thesis by (metis append_Nil2 word_le32_bytes)
qed

lemma read_at_append [simp]: "read_at (pre @ x @ post) (length pre) (length x) = Some x"
  by (simp add: read_at_def)

lemma read_at_mid: "i = length pre \<Longrightarrow> n = length x \<Longrightarrow> read_at (pre @ x @ post) i n = Some x"
  by simp

lemma be16_at_mid: "i = length pre \<Longrightarrow> be16_at (pre @ bytes_be16 w @ post) i = Some w"
  by (simp add: be16_at_def read_at_mid len_simps word_le16_be)

lemma be32_at_mid: "i = length pre \<Longrightarrow> be32_at (pre @ bytes_be32 w @ post) i = Some w"
  by (simp add: be32_at_def read_at_mid len_simps word_le32_be)

lemma byte_at_mid: "i = length pre \<Longrightarrow> byte_at (pre @ b # post) i = Some b"
  by (simp add: byte_at_def)

subsection \<open>Lists of segments\<close>

fun fold_option :: "('x \<Rightarrow> 's \<Rightarrow> 's option) \<Rightarrow> 'x list \<Rightarrow> 's \<Rightarrow> 's option" where
  "fold_option f [] s = Some s"
| "fold_option f (x # xs) s = Option.bind (f x s) (fold_option f xs)"

text \<open>
  A loop over a list of segments in memory: \<open>run mem len pos s\<close> is the state with which the loop ends
  when it looks for a header at \<open>pos\<close>, where \<open>len\<close> is the length it was given and \<open>mem\<close> the memory it
  reads. \<open>enc\<close> writes a segment, \<open>ok\<close> holds for those that the loop goes on after, \<open>step\<close> is what they
  do to the state, and \<open>slack\<close> is how many bytes of the length must follow a segment.
\<close>

locale segment_reader =
  fixes enc :: "'x \<Rightarrow> byte list" and ok :: "'x \<Rightarrow> bool" and step :: "'x \<Rightarrow> 's \<Rightarrow> 's option" and slack :: nat
    and run :: "byte list \<Rightarrow> nat \<Rightarrow> nat \<Rightarrow> 's \<Rightarrow> 's option"
  assumes run_segment: "ok x \<Longrightarrow> length (pre @ enc x) + slack \<le> len \<Longrightarrow> length (pre @ enc x) + slack \<le> length (pre @ enc x @ post) \<Longrightarrow>
    run (pre @ enc x @ post) len (length pre) s =
      Option.bind (step x s) (run (pre @ enc x @ post) len (length (pre @ enc x)))"
begin

lemma run_segments:
  assumes "list_all ok xs" and "length (pre @ concat (map enc xs)) + slack \<le> len" and "slack \<le> length post"
  shows "run (pre @ concat (map enc xs) @ post) len (length pre) s =
    Option.bind (fold_option step xs s)
      (run (pre @ concat (map enc xs) @ post) len (length (pre @ concat (map enc xs))))"
  using assms(1,2)
proof (induction xs arbitrary: pre s)
  case (Cons x xs)
  define rest where "rest = concat (map enc xs) @ post"
  have "run (pre @ enc x @ rest) len (length pre) s =
      Option.bind (step x s) (run (pre @ enc x @ rest) len (length (pre @ enc x)))"
    by (rule run_segment) (use Cons.prems assms(3) in \<open>simp_all add: rest_def\<close>)
  moreover have "run ((pre @ enc x) @ concat (map enc xs) @ post) len (length (pre @ enc x)) t =
      Option.bind (fold_option step xs t) (run ((pre @ enc x) @ concat (map enc xs) @ post) len
        (length ((pre @ enc x) @ concat (map enc xs))))" for t
    by (rule Cons.IH) (use Cons.prems in simp_all)
  ultimately show ?case by (cases "step x s") (simp_all add: rest_def add.assoc)
qed simp

end

text \<open>Reads where a segment begins.\<close>

lemma read_at_drop: "drop pos buf = d @ post \<Longrightarrow> pos + length d \<le> length buf \<Longrightarrow> n \<le> length d \<Longrightarrow> read_at buf pos n = Some (take n d)"
  by (simp add: read_at_def)

lemma read_at_drop_within:
  "drop pos buf = d @ post \<Longrightarrow> pos + length d \<le> length buf \<Longrightarrow> i + n \<le> length d \<Longrightarrow> read_at buf (pos + i) n = Some (take n (drop i d))"
  by (simp add: read_at_def add.commute [of pos] flip: drop_drop)

lemma byte_at_drop:
  assumes "drop pos buf = d @ post" and "i < length d"
  shows "byte_at buf (pos + i) = Some (d ! i)"
proof -
  have "length buf - pos = length d + length post" using arg_cong [OF assms(1), of length] by simp
  then have len: "pos + i < length buf" using assms(2) by linarith
  then have "buf ! (pos + i) = drop pos buf ! i" by simp
  then show ?thesis using len by (simp add: byte_at_def assms nth_append)
qed

end
