(* ===== verification/Net_Util.thy ===== *)
theory Net_Util
  imports Wire Text_Codec
begin

text \<open>
  The parts of \<open>tuanzi/src/netutil.cpp\<close> that compute: the Internet checksum with the headers of the
  packets that \<open>CDirectTransfer::sendudp\<close> (\<open>directtransfer.cpp\<close>) builds, the tests on addresses, and the
  name servers of \<open>/etc/resolv.conf\<close>. A packet is a list of bytes; an address is the four bytes that
  \<open>inet_addr\<close> gives. \<open>None\<close> is an access outside of a buffer.
\<close>

subsection \<open>The checksum\<close>

fun checksum_words :: "u32 \<Rightarrow> byte list \<Rightarrow> u32" where
  "checksum_words acc [] = acc"
| "checksum_words acc [a] = acc + ucast a"
| "checksum_words acc (a # b # data) = checksum_words (acc + ucast (word_le16 [a, b])) data"

lemma unat_carry: "unat ((c AND 0xFFFF) + drop_bit 16 c :: u32) = unat c mod 65536 + unat c div 65536"
proof -
  have a: "unat (c AND 0xFFFF) = unat c mod 65536"
    by (simp only: mask_simps unsigned_take_bit_eq) (simp add: take_bit_eq_mod)
  have b: "unat (drop_bit 16 c) = unat c div 65536" by (simp add: unat_drop_bit)
  have "unat c < 2 ^ 32" using unsigned_less [of c] by simp
  then have "unat c mod 65536 + unat c div 65536 < 2 ^ 32" by (auto simp: less_mult_imp_div_less)
  then show ?thesis by (simp add: unat_word_ariths a b)
qed

function fold_carry :: "u32 \<Rightarrow> u32" where
  "fold_carry checksum =
     (if drop_bit 16 checksum \<noteq> 0 then fold_carry ((checksum AND 0xFFFF) + drop_bit 16 checksum) else checksum)"
  by pat_completeness auto
termination
proof (relation "measure unat")
  fix c :: u32
  assume "drop_bit 16 c \<noteq> 0"
  then have "unat (drop_bit 16 c) \<noteq> 0" by (simp add: unat_eq_zero)
  then have "unat c div 65536 \<noteq> 0" by (simp add: unat_drop_bit)
  moreover have "65536 * (unat c div 65536) + unat c mod 65536 = unat c" by simp
  ultimately show "((c AND 0xFFFF) + drop_bit 16 c, c) \<in> measure unat"
    unfolding in_measure unat_carry by linarith
qed simp

declare fold_carry.simps [simp del]

definition checksum :: "byte list \<Rightarrow> u16" where
  "checksum data = htons (ucast (NOT (fold_carry (checksum_words 0 data))))"

subsection \<open>Headers\<close>

text \<open>
  \<open>InitIpv4Header\<close> stores the checksum, a number of the host, into the header of zero checksum; the bit
  fields \<open>version\<close> and \<open>ihl\<close> share the first byte.
\<close>

definition ipv4_fields :: "u16 \<Rightarrow> byte list \<Rightarrow> byte list \<Rightarrow> byte list" where
  "ipv4_fields tot_len srcaddr dstaddr =
     [0x45, 0] @ bytes_le16 (htons tot_len) @ [0, 0, 0, 0, 0x80, 17, 0, 0] @ srcaddr @ dstaddr"

definition InitIpv4Header :: "byte list \<Rightarrow> byte list \<Rightarrow> nat \<Rightarrow> byte list" where
  "InitIpv4Header srcaddr dstaddr datalen =
     (let header = ipv4_fields (of_nat (datalen + 20 + 8)) srcaddr dstaddr
      in memcpy header 10 (bytes_le16 (checksum header)))"

definition InitUdpHeader :: "u16 \<Rightarrow> u16 \<Rightarrow> nat \<Rightarrow> byte list" where
  "InitUdpHeader srcport dstport datalen =
     bytes_le16 (htons srcport) @ bytes_le16 (htons dstport) @ bytes_le16 (htons (of_nat (datalen + 8))) @ [0, 0]"

text \<open>
  The checksums over a pseudo header; the copy of the data goes into an array of 2040 or 2024 bytes, and
  the result is stored into the header at offset 6 or 16.
\<close>

definition pseudo_header :: "byte list \<Rightarrow> byte list \<Rightarrow> nat \<Rightarrow> byte list" where
  "pseudo_header ipheader header n =
     drop 12 ipheader @ [0, ipheader ! 9] @ bytes_le16 (htons (of_nat (n + length header))) @ header"

definition ComputeUdpPseudoHeaderChecksumV4 :: "byte list \<Rightarrow> byte list \<Rightarrow> byte list \<Rightarrow> byte list option" where
  "ComputeUdpPseudoHeaderChecksumV4 ipheader udpheader databuf =
     map_option (\<lambda>_. memcpy udpheader 6 (bytes_le16 (checksum (pseudo_header ipheader udpheader (length databuf) @ databuf))))
       (store_at (replicate 2040 (0 :: byte)) 0 databuf)"

definition ComputeTcpPseudoHeaderChecksum :: "byte list \<Rightarrow> byte list \<Rightarrow> byte list \<Rightarrow> byte list option" where
  "ComputeTcpPseudoHeaderChecksum ipheader tcpheader databuf =
     map_option (\<lambda>_. memcpy tcpheader 16 (bytes_le16 (checksum (pseudo_header ipheader tcpheader (length databuf) @ databuf))))
       (store_at (replicate 2024 (0 :: byte)) 0 databuf)"

text \<open>\<open>sendudp\<close>: the packet, which is also kept in \<open>last_sent_packet[2048]\<close>.\<close>

definition sendudp :: "byte list \<Rightarrow> byte list \<Rightarrow> byte list \<Rightarrow> byte list \<Rightarrow> u16 \<Rightarrow> u16 \<Rightarrow> byte list \<Rightarrow> byte list option" where
  "sendudp srcmacaddr dstmacaddr srcaddr dstaddr srcport dstport buf = do {
     let ipheader = InitIpv4Header srcaddr dstaddr (length buf);
     udpheader \<leftarrow> ComputeUdpPseudoHeaderChecksumV4 ipheader (InitUdpHeader srcport dstport (length buf)) buf;
     data \<leftarrow> store_at (replicate 2048 0) 0 buf;
     let packet = dstmacaddr @ srcmacaddr @ bytes_le16 (htons 0x0800) @ ipheader @ udpheader @ take (length buf) data;
     last_sent_packet \<leftarrow> store_at (replicate 2048 0) 0 packet;
     Some (take (length packet) last_sent_packet)
   }"

subsection \<open>Addresses\<close>

definition Is8021xGroupAddr :: "byte list \<Rightarrow> bool" where
  "Is8021xGroupAddr macaddr \<longleftrightarrow> macaddr = [0x01, 0x80, 0xC2, 0x00, 0x00, 0x03]"

definition IsMulDstMac :: "byte list \<Rightarrow> bool" where
  "IsMulDstMac macaddr \<longleftrightarrow> macaddr = [0xFF, 0xFF, 0xFF, 0xFF, 0xFF, 0xFF]"

definition IsStarGroupDstMac :: "byte list \<Rightarrow> bool" where
  "IsStarGroupDstMac macaddr \<longleftrightarrow> macaddr = [0x00, 0xD0, 0xF8, 0x00, 0x00, 0x03]"

text \<open>Both compare with the address of the adapter.\<close>

definition IsHostDstMac :: "byte list \<Rightarrow> byte list \<Rightarrow> bool" where
  "IsHostDstMac adapter_mac macaddr \<longleftrightarrow> adapter_mac = macaddr"

definition IsLoopBack :: "byte list \<Rightarrow> byte list \<Rightarrow> bool" where
  "IsLoopBack adapter_mac macaddr \<longleftrightarrow> adapter_mac = macaddr"

definition IsGetDhcpIpp :: "u32 \<Rightarrow> bool" where
  "IsGetDhcpIpp ip \<longleftrightarrow>
     (if drop_bit 24 ip \<noteq> 0 then drop_bit 24 ip \<noteq> 169 \<or> drop_bit 24 ip \<noteq> 254
      else drop_bit 16 ip AND 0xff \<noteq> 0 \<or> drop_bit 8 ip AND 0xff \<noteq> 0 \<or> ip AND 0xff \<noteq> 0)"

record DHCPIPInfo =
  dhcp_enabled :: bool
  ip4_ipaddr :: u32
  ip4_netmask :: u32
  gateway :: u32
  dns :: u32
  adapter_mac :: "byte list"
  gateway_mac :: "byte list"
  ipaddr6_count :: u32
  ip6_my_ipaddr :: "byte list"
  ip6_link_local_ipaddr :: "byte list"
  ip6_ipaddr :: "byte list"
  ip6_netmask :: "byte list"

definition IsEqualDhcpInfo :: "DHCPIPInfo \<Rightarrow> DHCPIPInfo \<Rightarrow> bool" where
  "IsEqualDhcpInfo info1 info2 \<longleftrightarrow> dhcp_enabled info1 = dhcp_enabled info2 \<and>
     ip4_ipaddr info1 = ip4_ipaddr info2 \<and> ip4_netmask info1 = ip4_netmask info2"

definition InitDHCPIPInfo :: "DHCPIPInfo \<Rightarrow> DHCPIPInfo" where
  "InitDHCPIPInfo info = info\<lparr>dns := 0, gateway := 0, ip4_ipaddr := 0, ip4_netmask := 0, dhcp_enabled := True\<rparr>"

definition InitDhcpIpInfo :: "DHCPIPInfo \<Rightarrow> DHCPIPInfo" where
  "InitDhcpIpInfo info = info\<lparr>dns := 0, gateway := 0, ip4_ipaddr := 0, ip4_netmask := 0,
     ip6_my_ipaddr := replicate 16 0, ip6_link_local_ipaddr := replicate 16 0, ip6_ipaddr := replicate 16 0,
     dhcp_enabled := True, ipaddr6_count := 0, adapter_mac := replicate 6 0\<rparr>"

definition htonLONGLONG :: "u64 \<Rightarrow> u64" where
  "htonLONGLONG val = bswap_64 val"

subsection \<open>Name servers\<close>

text \<open>
  The lines of \<open>/etc/resolv.conf\<close>, each split at blanks; \<open>val[0]\<close> and \<open>val[1]\<close> need that many fields. The
  file is \<open>None\<close> when it cannot be opened.
\<close>

definition nameserver :: "byte list" where
  "nameserver = map of_char ''nameserver''"

fun get_dns_loop :: "byte list list \<Rightarrow> byte list option option" where
  "get_dns_loop [] = Some None"
| "get_dns_loop (line # lines) =
     (case ParseString line 0x20 of
        [] \<Rightarrow> None
      | v # vs \<Rightarrow> if v = nameserver then (case vs of [] \<Rightarrow> None | a # _ \<Rightarrow> Some (Some a)) else get_dns_loop lines)"

definition get_dns :: "byte list option \<Rightarrow> byte list option option" where
  "get_dns ifs = (case ifs of None \<Rightarrow> Some None | Some file_text \<Rightarrow> get_dns_loop (ParseString file_text 0x0A))"

definition string_append :: "byte list \<Rightarrow> byte list \<Rightarrow> byte list option" where
  "string_append dest str = do { s \<leftarrow> c_string dest; store_at dest (length s) (str @ [0]) }"

fun alternate_dns_loop :: "nat \<Rightarrow> byte list list \<Rightarrow> nat \<Rightarrow> byte list \<Rightarrow> nat \<Rightarrow> (byte list \<times> nat) option" where
  "alternate_dns_loop length_arg [] c dest real_length = Some (dest, real_length)"
| "alternate_dns_loop length_arg (line # lines) c dest real_length =
     (if \<not> real_length \<le> length_arg then Some (dest, real_length)
      else case ParseString line 0x20 of
        [] \<Rightarrow> None
      | v # vs \<Rightarrow>
          if v \<noteq> nameserver then alternate_dns_loop length_arg lines c dest real_length
          else if c = 0 then alternate_dns_loop length_arg lines (c + 1) dest real_length
          else case vs of
            [] \<Rightarrow> None
          | a # _ \<Rightarrow> do {
              dest \<leftarrow> string_append dest (takeWhile (\<lambda>c. c \<noteq> 0) a);
              dest \<leftarrow> string_append dest [0x3B];
              alternate_dns_loop length_arg lines (c + 1) dest (real_length + length a)
            })"

text \<open>\<open>dest[length - 1]\<close> with an unsigned \<open>length\<close>; the result is the buffer and the length.\<close>

definition get_alternate_dns :: "byte list option \<Rightarrow> byte list \<Rightarrow> nat \<Rightarrow> (byte list \<times> nat) option" where
  "get_alternate_dns ifs dest length_arg =
     (case ifs of
        None \<Rightarrow> Some (dest, 0)
      | Some file_text \<Rightarrow> do {
          (dest, real_length) \<leftarrow> alternate_dns_loop length_arg (ParseString file_text 0x0A) 0 dest 0;
          dest \<leftarrow> store_at dest (unat (of_nat real_length - 1 :: u32)) [0];
          Some (dest, real_length)
        })"

subsection \<open>What the receiver computes\<close>

text \<open>The sum of the words as a number, and the test of RFC 1071 that a receiver makes.\<close>

fun sum16 :: "byte list \<Rightarrow> nat" where
  "sum16 [] = 0"
| "sum16 [a] = unat a"
| "sum16 (a # b # data) = unat (word_le16 [a, b]) + sum16 data"

definition checksum_ok :: "byte list \<Rightarrow> bool" where
  "checksum_ok data \<longleftrightarrow> fold_carry (checksum_words 0 data) = 0xFFFF"

definition ones :: "nat \<Rightarrow> nat" where
  "ones n = (if n = 0 then 0 else (n - 1) mod 65535 + 1)"

lemma sum16_append: "even (length a) \<Longrightarrow> sum16 (a @ b) = sum16 a + sum16 b"
  by (induction a rule: sum16.induct) auto

lemma sum16_bytes: "sum16 (bytes_le16 w) = unat w"
  using word_le16_bytes [of w "[]"] by (simp add: bytes_le16_def)

lemma sum16_bound: "sum16 data \<le> 65535 * length data"
proof (induction data rule: sum16.induct)
  case (2 a)
  have "unat a < 256" using unsigned_less [of a] by simp
  then show ?case by simp
next
  case (3 a b data)
  have "unat (word_le16 [a, b]) < 65536" using unsigned_less [of "word_le16 [a, b]"] by simp
  then show ?case using 3 by simp
qed simp

lemma unat_ucast_32: "unat (ucast (w :: u16) :: u32) = unat w" "unat (ucast (b :: byte) :: u32) = unat b"
  by (simp_all add: unat_ucast_byte) (transfer, simp add: take_bit_take_bit min_def)

lemma unat_checksum_words: "unat acc + sum16 data < 2 ^ 32 \<Longrightarrow> unat (checksum_words acc data) = unat acc + sum16 data"
proof (induction acc data rule: checksum_words.induct)
  case (2 acc a)
  then show ?case by (simp add: unat_word_ariths unat_ucast_32)
next
  case (3 acc a b data)
  have "unat (acc + ucast (word_le16 [a, b])) = unat acc + unat (word_le16 [a, b])"
    using "3.prems" by (simp add: unat_word_ariths unat_ucast_32)
  with 3 show ?case by simp
qed simp

lemma unat_fold_carry: "unat (fold_carry c) = ones (unat c)"
proof (induction c rule: fold_carry.induct)
  case (1 c)
  have d: "unat (drop_bit 16 c) = unat c div 65536" by (simp add: unat_drop_bit)
  show ?case
  proof (cases "drop_bit 16 c = 0")
    case True
    then have "unat c div 65536 = 0" using d by simp
    then have "unat c < 65536" by simp
    then show ?thesis using True by (auto simp: fold_carry.simps [of c] ones_def)
  next
    case False
    define q r where "q = unat c div 65536" and "r = unat c mod 65536"
    have "unat (drop_bit 16 c) \<noteq> 0" using False by (simp add: unat_eq_zero)
    then have q: "0 < q" using d by (simp add: q_def)
    have "unat c = 65536 * q + r" by (simp add: q_def r_def)
    then have c: "unat c - 1 = (r + q - 1) + 65535 * q" "unat c \<noteq> 0" using q by auto
    have "(unat c - 1) mod 65535 = (r + q - 1) mod 65535" unfolding c(1) by (rule mod_mult_self2)
    have "unat (fold_carry c) = ones (r + q)"
      using 1 [OF False] False by (simp add: fold_carry.simps [of c] unat_carry q_def r_def)
    also have "\<dots> = ones (unat c)" using c(2) q \<open>(unat c - 1) mod 65535 = _\<close> by (simp only: ones_def) simp
    finally show ?thesis .
  qed
qed

lemma ones_props: "0 < n \<Longrightarrow> 0 < ones n \<and> ones n \<le> 65535 \<and> ones n mod 65535 = n mod 65535"
proof -
  assume n: "0 < n"
  have "ones n mod 65535 = ((n - 1) mod 65535 + 1) mod 65535" using n by (simp add: ones_def)
  also have "\<dots> = (n - 1 + 1) mod 65535" by (rule mod_add_left_eq)
  finally show ?thesis using n by (simp add: ones_def Suc_leI)
qed

lemma checksum_ok_iff:
  assumes "length data \<le> 65536" and "0 < sum16 data"
  shows "checksum_ok data \<longleftrightarrow> sum16 data mod 65535 = 0"
proof -
  have "sum16 data \<le> 65535 * 65536" using sum16_bound [of data] assms(1) by (meson mult_le_mono2 order_trans)
  then have u: "unat (checksum_words 0 data) = sum16 data" by (simp add: unat_checksum_words)
  have "checksum_ok data \<longleftrightarrow> unat (fold_carry (checksum_words 0 data)) = 65535"
    unfolding checksum_ok_def by (simp add: word_eq_iff_unsigned [where 'a = nat] del: unsigned_word_eqI)
  also have "\<dots> \<longleftrightarrow> ones (sum16 data) = 65535" by (simp add: unat_fold_carry u)
  finally show ?thesis using ones_props [OF assms(2)] by (auto dest: mod_eq_self_iff_div_eq_0 [THEN iffD2])
qed

lemma unat_minus_1: "unat (- 1 :: u16) = 65535"
  by (simp add: unsigned_minus_1_eq_mask mask_eq_exp_minus_1)

lemma unat_checksum:
  assumes "length data \<le> 65536"
  shows "unat (htons (checksum data)) = 65535 - ones (sum16 data)"
proof -
  have "sum16 data \<le> 65535 * 65536" using sum16_bound [of data] assms by (meson mult_le_mono2 order_trans)
  then have u: "unat (fold_carry (checksum_words 0 data)) = ones (sum16 data)" by (simp add: unat_fold_carry unat_checksum_words)
  define w :: u16 where "w = ucast (fold_carry (checksum_words 0 data))"
  have "ones (sum16 data) \<le> 65535" using ones_props [of "sum16 data"] by (cases "sum16 data = 0") (auto simp: ones_def)
  then have "unat w = ones (sum16 data)" by (simp add: w_def unsigned_ucast_eq u take_bit_nat_eq_self)
  moreover have "htons (checksum data) = NOT w"
    by (simp add: checksum_def w_def) (rule bit_word_eqI, simp add: bit_simps)
  moreover have "unat (NOT w) = 65535 - unat w"
  proof -
    have "unat (- 1 - w) = unat (- 1 :: u16) - unat w" by (rule unat_sub) (rule word_n1_ge)
    moreover have "- 1 - w = - w - 1" by simp
    ultimately show ?thesis using unat_minus_1 by (metis not_eq_complement)
  qed
  ultimately show ?thesis by simp
qed

lemma mod_cancel: "(S + a) mod 65535 = (S + b) mod 65535 \<Longrightarrow> a mod 65535 = b mod (65535 :: nat)"
proof -
  have "x mod 65535 = (65534 * S + (S + x) mod 65535) mod 65535" for x
  proof -
    have "(65534 * S + (S + x) mod 65535) mod 65535 = (65534 * S + (S + x)) mod 65535" by (rule mod_add_right_eq)
    also have "65534 * S + (S + x) = x + 65535 * S" by simp
    finally show ?thesis by (simp only: mod_mult_self2)
  qed
  then show "(S + a) mod 65535 = (S + b) mod 65535 \<Longrightarrow> a mod 65535 = b mod 65535" by metis
qed

text \<open>
  A header with a checksum of zero, and the same with the two bytes of the checksum filled in: in the
  order of the host the sum is right, in the other order only where that makes no difference.
\<close>

lemma stored_checksum:
  assumes "even (length pre)" and "length (pre @ [0, 0] @ post) \<le> 65536" and "0 < sum16 (pre @ [0, 0] @ post)"
  defines "c \<equiv> checksum (pre @ [0, 0] @ post)"
  shows "checksum_ok (pre @ bytes_le16 (htons c) @ post)"
    and "checksum_ok (pre @ bytes_le16 c @ post) \<longleftrightarrow> htons c = c"
proof -
  define S where "S = sum16 (pre @ [0, 0] @ post)"
  have sum: "sum16 (pre @ bytes_le16 w @ post) = S + unat w" for w
  proof -
    have "sum16 (bytes_le16 v @ post) = unat v + sum16 post" for v
      using sum16_append [of "bytes_le16 v" post] by (simp add: sum16_bytes len_simps)
    from this [of w] this [of 0] show ?thesis
      by (simp add: S_def sum16_append [OF assms(1)] bytes_le16_def)
  qed
  have ok: "checksum_ok (pre @ bytes_le16 w @ post) \<longleftrightarrow> (S + unat w) mod 65535 = 0" for w
    using checksum_ok_iff [of "pre @ bytes_le16 w @ post"] assms(2,3) sum [of w] by (simp add: S_def len_simps)
  have c: "unat (htons c) = 65535 - ones S" "0 < ones S" "ones S \<le> 65535" "ones S mod 65535 = S mod 65535"
    using unat_checksum [OF assms(2)] ones_props [of S] assms(3) by (simp_all add: c_def S_def)
  have "(S + (65535 - ones S)) mod 65535 = (ones S + (65535 - ones S)) mod 65535" by (metis c(4) mod_add_left_eq)
  also have "\<dots> = 0" using c(3) by simp
  finally have good: "(S + unat (htons c)) mod 65535 = 0" by (simp add: c(1))
  then show "checksum_ok (pre @ bytes_le16 (htons c) @ post)" using ok by simp
  have small: "unat (htons c) < 65535" using c by simp
  show "checksum_ok (pre @ bytes_le16 c @ post) \<longleftrightarrow> htons c = c"
  proof
    assume "checksum_ok (pre @ bytes_le16 c @ post)"
    then have "(S + unat c) mod 65535 = (S + unat (htons c)) mod 65535" using ok good by simp
    then have m: "unat c mod 65535 = unat (htons c) mod 65535" by (rule mod_cancel)
    have "unat c \<noteq> 65535"
    proof
      assume "unat c = 65535"
      then have "c = NOT 0" by (simp add: word_unat_eq_iff unat_minus_1)
      then show False using small m by (simp add: htons_def unat_minus_1)
    qed
    moreover have "unat c < 65536" using unsigned_less [of c] by simp
    ultimately have "unat c = unat (htons c)" using m small by simp
    then show "htons c = c" by (simp add: word_unat_eq_iff)
  next
    assume "htons c = c"
    then show "checksum_ok (pre @ bytes_le16 c @ post)" using ok good by simp
  qed
qed

lemma ipv4_header_checksum:
  assumes "length src = 4" and "length dst = 4"
  shows "length (InitIpv4Header src dst n) = 20"
    and "take 10 (InitIpv4Header src dst n) = take 10 (ipv4_fields (of_nat (n + 28)) src dst)"
    and "drop 12 (InitIpv4Header src dst n) = src @ dst"
    and "checksum_ok (InitIpv4Header src dst n) \<longleftrightarrow> InitIpv4Header src dst n ! 10 = InitIpv4Header src dst n ! 11"
proof -
  define pre where "pre = [0x45, 0] @ bytes_le16 (htons (of_nat (n + 28))) @ [0, 0, 0, 0, 0x80, 17]"
  have pre: "length pre = 10" by (simp add: pre_def len_simps)
  have fields: "ipv4_fields (of_nat (n + 28)) src dst = pre @ [0, 0] @ src @ dst" by (simp add: ipv4_fields_def pre_def)
  define c where "c = checksum (pre @ [0, 0] @ src @ dst)"
  have h: "InitIpv4Header src dst n = pre @ bytes_le16 c @ src @ dst"
  proof -
    have "n + 20 + 8 = n + 28" by simp
    then show ?thesis unfolding InitIpv4Header_def Let_def \<open>n + 20 + 8 = n + 28\<close> fields
      by (simp add: memcpy_def pre len_simps c_def)
  qed
  show "length (InitIpv4Header src dst n) = 20" "drop 12 (InitIpv4Header src dst n) = src @ dst"
    using assms by (simp_all add: h pre len_simps)
  show "take 10 (InitIpv4Header src dst n) = take 10 (ipv4_fields (of_nat (n + 28)) src dst)"
    unfolding h fields using pre by simp
  have "0 < sum16 pre" by (simp add: pre_def bytes_le16_def word_le16_def)
  then have "0 < sum16 (pre @ [0, 0] @ src @ dst)" using pre by (subst sum16_append) simp_all
  then have "checksum_ok (InitIpv4Header src dst n) \<longleftrightarrow> htons c = c"
    unfolding h c_def by (intro stored_checksum(2)) (use pre assms in simp_all)
  also have "\<dots> \<longleftrightarrow> bytes_be16 c = bytes_le16 c" by (metis append_Nil2 bytes_le16_htons word_le16_bytes)
  also have "\<dots> \<longleftrightarrow> InitIpv4Header src dst n ! 10 = InitIpv4Header src dst n ! 11"
    by (auto simp: h pre nth_append bytes_be16_def bytes_le16_def)
  finally show "checksum_ok (InitIpv4Header src dst n) \<longleftrightarrow> InitIpv4Header src dst n ! 10 = InitIpv4Header src dst n ! 11" .
qed

lemma udp_checksum:
  assumes "length ip = 20" and "length udp = 8" and "drop 6 udp = [0, 0]" and "ip ! 9 = 17" and "length data \<le> 2040"
  shows "\<exists>udp'. ComputeUdpPseudoHeaderChecksumV4 ip udp data = Some udp' \<and> length udp' = 8 \<and> take 6 udp' = take 6 udp \<and>
    (checksum_ok (pseudo_header ip udp' (length data) @ data) \<longleftrightarrow> udp' ! 6 = udp' ! 7)"
proof -
  define pre where "pre = drop 12 ip @ [0, 17] @ bytes_le16 (htons (of_nat (length data + 8))) @ take 6 udp"
  have udp: "udp = take 6 udp @ [0, 0]" using append_take_drop_id [of 6 udp] assms(3) by simp
  have pre: "length pre = 18" using assms(1,2) by (simp add: pre_def len_simps)
  define c where "c = checksum (pre @ [0, 0] @ data)"
  define udp' where "udp' = take 6 udp @ bytes_le16 c"
  have pseudo: "pseudo_header ip (take 6 udp @ w) (length data) = pre @ w" if "length w = 2" for w
    using assms(2,4) that by (simp add: pseudo_header_def pre_def min_def)
  have "pseudo_header ip udp (length data) @ data = pre @ [0, 0] @ data"
    using pseudo [of "[0, 0]"] by (simp flip: udp)
  then have run: "ComputeUdpPseudoHeaderChecksumV4 ip udp data = Some udp'"
    using assms(2,5) by (simp add: ComputeUdpPseudoHeaderChecksumV4_def store_at_def memcpy_def udp'_def c_def len_simps)
  have "sum16 pre = sum16 (drop 12 ip) + sum16 ([0, 17] @ bytes_le16 (htons (of_nat (length data + 8))) @ take 6 udp)"
    unfolding pre_def by (rule sum16_append) (use assms(1) in simp)
  then have "0 < sum16 pre" by (simp add: word_le16_def)
  then have "0 < sum16 (pre @ [0, 0] @ data)" using pre by (subst sum16_append) simp_all
  then have "checksum_ok (pre @ bytes_le16 c @ data) \<longleftrightarrow> htons c = c"
    unfolding c_def by (intro stored_checksum(2)) (use pre assms(5) in simp_all)
  also have "\<dots> \<longleftrightarrow> bytes_be16 c = bytes_le16 c" by (metis append_Nil2 bytes_le16_htons word_le16_bytes)
  also have "\<dots> \<longleftrightarrow> udp' ! 6 = udp' ! 7"
    using assms(2) by (auto simp: udp'_def nth_append bytes_be16_def bytes_le16_def)
  finally show ?thesis
    using run pseudo [of "bytes_le16 c"] assms(2) by (simp add: udp'_def len_simps)
qed

lemma sendudp_packet:
  assumes "length src = 4" and "length dst = 4" and "length dm = 6" and "length sm = 6" and "length buf \<le> 2006"
  shows "\<exists>udp. sendudp sm dm src dst sp dp buf =
      Some (dm @ sm @ [0x08, 0x00] @ InitIpv4Header src dst (length buf) @ udp @ buf) \<and> length udp = 8 \<and>
    (checksum_ok (pseudo_header (InitIpv4Header src dst (length buf)) udp (length buf) @ buf) \<longleftrightarrow> udp ! 6 = udp ! 7)"
proof -
  note h = ipv4_header_checksum [OF assms(1,2), of "length buf"]
  have "InitIpv4Header src dst (length buf) ! 9 = take 10 (InitIpv4Header src dst (length buf)) ! 9" by simp
  also have "\<dots> = 17" unfolding h(2) by (simp add: ipv4_fields_def nth_append bytes_le16_def)
  finally have "InitIpv4Header src dst (length buf) ! 9 = 17" .
  moreover have "length (InitUdpHeader sp dp (length buf)) = 8" "drop 6 (InitUdpHeader sp dp (length buf)) = [0, 0]"
    by (simp_all add: InitUdpHeader_def len_simps bytes_le16_def)
  ultimately obtain udp where udp: "ComputeUdpPseudoHeaderChecksumV4 (InitIpv4Header src dst (length buf)) (InitUdpHeader sp dp (length buf)) buf = Some udp"
      "length udp = 8"
      "checksum_ok (pseudo_header (InitIpv4Header src dst (length buf)) udp (length buf) @ buf) \<longleftrightarrow> udp ! 6 = udp ! 7"
    using udp_checksum [OF h(1), of "InitUdpHeader sp dp (length buf)" buf] assms(5) by auto
  define p where "p = dm @ sm @ bytes_le16 (htons 0x0800) @ InitIpv4Header src dst (length buf) @ udp @ buf"
  have padded: "store_at (replicate 2048 0) 0 x = Some (x @ replicate (2048 - length x) 0)" if "length x \<le> 2048" for x :: "byte list"
    using that by (simp add: store_at_def memcpy_def)
  have front: "take (length x) (x @ y) = x" for x y :: "byte list" by simp
  have "length buf \<le> 2048" "length p \<le> 2048" using assms udp(2) h(1) by (simp_all add: p_def len_simps)
  then have "sendudp sm dm src dst sp dp buf = Some p"
    unfolding sendudp_def Let_def udp(1) by (simp only: Option.bind.simps padded front flip: p_def)
  moreover have "bytes_le16 (htons 0x0800) = [0x08, 0x00]" by (simp add: bytes_le16_def htons_def)
  ultimately have "sendudp sm dm src dst sp dp buf = Some (dm @ sm @ [0x08, 0x00] @ InitIpv4Header src dst (length buf) @ udp @ buf)"
    by (simp only: p_def)
  then show ?thesis using udp by blast
qed

lemma sendudp_overruns:
  assumes "length src = 4" and "length dst = 4" and "length dm = 6" and "length sm = 6" and "2006 < length buf"
  shows "sendudp sm dm src dst sp dp buf = None"
  using assms ipv4_header_checksum(1) [OF assms(1,2), of "length buf"]
  by (auto simp: sendudp_def Let_def store_at_def memcpy_def ComputeUdpPseudoHeaderChecksumV4_def InitUdpHeader_def len_simps split: bind_splits if_splits)

text \<open>
  C34: the packets of the direct transfer: for up to 2006 bytes of data \<open>sendudp\<close> builds the Ethernet,
  IP and UDP headers around the data, and beyond that it writes past the copy that it keeps. The IP
  checksum and the UDP checksum are stored with their bytes swapped: a receiver finds each right
  exactly if its two bytes are equal.
\<close>

theorem sendudp_checksums:
  assumes "length src = 4" and "length dst = 4" and "length dm = 6" and "length sm = 6"
  shows "(length buf \<le> 2006 \<longrightarrow> (\<exists>ip udp. sendudp sm dm src dst sp dp buf = Some (dm @ sm @ [0x08, 0x00] @ ip @ udp @ buf) \<and>
      length ip = 20 \<and> length udp = 8 \<and> drop 12 ip = src @ dst \<and> (checksum_ok ip \<longleftrightarrow> ip ! 10 = ip ! 11) \<and>
      (checksum_ok (pseudo_header ip udp (length buf) @ buf) \<longleftrightarrow> udp ! 6 = udp ! 7))) \<and>
    (2006 < length buf \<longrightarrow> sendudp sm dm src dst sp dp buf = None)"
  using sendudp_packet [OF assms, of buf sp dp] sendudp_overruns [OF assms] ipv4_header_checksum [OF assms(1,2), of "length buf"]
  by blast

theorem sendudp_checksums_witness:
  "(\<exists>ip udp. sendudp [1, 2, 3, 4, 5, 6] [7, 8, 9, 10, 11, 12] [10, 0, 0, 1] [10, 0, 0, 2] 53 53 [0x61] =
      Some ([7, 8, 9, 10, 11, 12] @ [1, 2, 3, 4, 5, 6] @ [0x08, 0x00] @ ip @ udp @ [0x61]) \<and>
      (checksum_ok ip \<longleftrightarrow> ip ! 10 = ip ! 11)) \<and>
    \<not> checksum_ok (InitIpv4Header [10, 0, 0, 1] [10, 0, 0, 2] 1)"
proof
  show "\<exists>ip udp. sendudp [1, 2, 3, 4, 5, 6] [7, 8, 9, 10, 11, 12] [10, 0, 0, 1] [10, 0, 0, 2] 53 53 [0x61] =
      Some ([7, 8, 9, 10, 11, 12] @ [1, 2, 3, 4, 5, 6] @ [0x08, 0x00] @ ip @ udp @ [0x61]) \<and>
      (checksum_ok ip \<longleftrightarrow> ip ! 10 = ip ! 11)"
    using sendudp_checksums [of "[10, 0, 0, 1]" "[10, 0, 0, 2]" "[7, 8, 9, 10, 11, 12]" "[1, 2, 3, 4, 5, 6]" "[0x61]" 53 53]
    by auto
  show "\<not> checksum_ok (InitIpv4Header [10, 0, 0, 1] [10, 0, 0, 2] 1)" by code_simp
qed

text \<open>
  \<open>IsGetDhcpIpp\<close> is meant to reject the addresses 169.254.x.y that a host gives itself, but it tests
  the first byte twice, with a disjunction: it accepts every address but 0.0.0.0.
\<close>

theorem IsGetDhcpIpp_accepts:
  "IsGetDhcpIpp ip \<longleftrightarrow> ip \<noteq> 0"
proof -
  have "ip = 0" if z: "drop_bit 24 ip = 0" "drop_bit 16 ip AND 0xff = 0" "drop_bit 8 ip AND 0xff = 0" "ip AND 0xff = 0"
  proof (rule bit_word_eqI)
    fix i assume i: "i < LENGTH(32)"
    have "bit (drop_bit 24 ip) (i - 24) = bit (0 :: u32) (i - 24)" "bit (drop_bit 16 ip AND 0xff) (i - 16) = bit (0 :: u32) (i - 16)"
      "bit (drop_bit 8 ip AND 0xff) (i - 8) = bit (0 :: u32) (i - 8)" "bit (ip AND 0xff) i = bit (0 :: u32) i" by (simp_all only: z)
    then show "bit ip i = bit 0 i"
      using i by (simp only: mask_simps bit_take_bit_iff bit_drop_bit_eq comp_apply bit_0_eq) (auto simp: not_less)
  qed
  then show ?thesis by (auto simp: IsGetDhcpIpp_def)
qed

subsection \<open>The alternate name servers\<close>

text \<open>The addresses in the lines, and the lines that the loop can read.\<close>

definition server_of :: "byte list \<Rightarrow> byte list option" where
  "server_of line = (case ParseString line 0x20 of v # a # _ \<Rightarrow> if v = nameserver then Some a else None | _ \<Rightarrow> None)"

definition line_ok :: "byte list \<Rightarrow> bool" where
  "line_ok line \<longleftrightarrow> line \<noteq> [] \<and> (hd (ParseString line 0x20) = nameserver \<longrightarrow> (\<exists>a. server_of line = Some a \<and> a \<noteq> [] \<and> 0 \<notin> set a))"

definition servers :: "byte list list \<Rightarrow> byte list list" where
  "servers lines = List.map_filter server_of lines"

definition semicolons :: "byte list list \<Rightarrow> byte list" where
  "semicolons as = concat (map (\<lambda>a. a @ [0x3B]) as)"

lemma servers_simps [simp]:
  "servers [] = []" "servers (l # ls) = (case server_of l of None \<Rightarrow> servers ls | Some a \<Rightarrow> a # servers ls)"
  by (simp_all add: servers_def List.map_filter_def split: option.split)

lemma ParseString_Cons: "line \<noteq> [] \<Longrightarrow> \<exists>v vs. ParseString line d = v # vs"
  by (simp add: ParseString.simps)

lemma string_append_padded:
  assumes "0 \<notin> set s" and "length str \<le> k"
  shows "string_append (s @ replicate (Suc k) 0) str = Some ((s @ str) @ replicate (Suc (k - length str)) 0)"
proof -
  have "drop (Suc (length str)) (replicate (Suc k) (0 :: byte)) = replicate (k - length str) 0" by simp
  then show ?thesis
    using assms by (simp add: string_append_def c_string_padded store_at_def memcpy_def del: replicate_Suc) simp
qed

lemma alternate_dns_lines:
  "list_all line_ok ls \<Longrightarrow> 0 \<notin> set s \<Longrightarrow> alts = (if c = 0 then drop 1 (servers ls) else servers ls) \<Longrightarrow>
    n + sum_list (map length alts) \<le> len \<Longrightarrow> length (semicolons alts) \<le> k \<Longrightarrow>
    alternate_dns_loop len (ls @ rest) c (s @ replicate (Suc k) 0) n =
      alternate_dns_loop len rest (c + length (servers ls))
        ((s @ semicolons alts) @ replicate (Suc (k - length (semicolons alts))) 0) (n + sum_list (map length alts))"
proof (induction ls arbitrary: c s alts n k)
  case (Cons l ls)
  have ok: "line_ok l" "list_all line_ok ls" using Cons.prems(1) by simp_all
  obtain v vs where p: "ParseString l 0x20 = v # vs" using ParseString_Cons ok(1) line_ok_def by blast
  have n: "n \<le> len" using Cons.prems(4) by simp
  show ?case
  proof (cases "v = nameserver")
    case False
    then have "server_of l = None" by (cases vs) (simp_all add: server_of_def p)
    then have sv: "servers (l # ls) = servers ls" by simp
    have "alternate_dns_loop len ((l # ls) @ rest) c (s @ replicate (Suc k) 0) n =
        alternate_dns_loop len (ls @ rest) c (s @ replicate (Suc k) 0) n"
      using p n False by simp
    also have "\<dots> = alternate_dns_loop len rest (c + length (servers ls))
        ((s @ semicolons alts) @ replicate (Suc (k - length (semicolons alts))) 0) (n + sum_list (map length alts))"
      by (rule Cons.IH [OF ok(2) Cons.prems(2) _ Cons.prems(4,5)]) (use Cons.prems(3) sv in simp)
    finally show ?thesis by (simp only: sv)
  next
    case True
    then obtain a as where a: "vs = a # as" "server_of l = Some a" "a \<noteq> []" "0 \<notin> set a"
      using ok(1) p by (cases vs) (auto simp: line_ok_def server_of_def)
    show ?thesis
    proof (cases "c = 0")
      case c: True
      then have "alts = servers ls" using Cons.prems(3) a by simp
      then show ?thesis using Cons.IH [OF ok(2) Cons.prems(2), of alts 1] Cons.prems(4,5) p n True a c by (simp add: add.commute)
    next
      case c: False
      define alts' where "alts' = servers ls"
      have alts: "alts = a # alts'" using Cons.prems(3) a c by (simp add: alts'_def)
      have room: "length a \<le> k" "length [0x3B :: byte] \<le> k - length a" "length (semicolons alts') \<le> k - length a - 1"
        using Cons.prems(5) by (simp_all add: alts semicolons_def)
      have no: "takeWhile (\<lambda>c. c \<noteq> 0) a = a" "0 \<notin> set (s @ a)" "0 \<notin> set ((s @ a) @ [0x3B])"
        using a(4) Cons.prems(2) by (auto simp: takeWhile_eq_all_conv)
      have app: "string_append (s @ replicate (Suc k) 0) a = Some ((s @ a) @ replicate (Suc (k - length a)) 0)"
        "string_append ((s @ a) @ replicate (Suc (k - length a)) 0) [0x3B] = Some (((s @ a) @ [0x3B]) @ replicate (Suc (k - length a - 1)) 0)"
        using string_append_padded [OF Cons.prems(2) room(1)] string_append_padded [OF no(2) room(2)] by simp_all
      have "alternate_dns_loop len (ls @ rest) (c + 1) (((s @ a) @ [0x3B]) @ replicate (Suc (k - length a - 1)) 0) (n + length a) =
          alternate_dns_loop len rest (c + 1 + length (servers ls))
            ((((s @ a) @ [0x3B]) @ semicolons alts') @ replicate (Suc (k - length a - 1 - length (semicolons alts'))) 0)
            (n + length a + sum_list (map length alts'))"
        by (rule Cons.IH) (use ok no room Cons.prems(4) c in \<open>simp_all add: alts alts'_def\<close>)
      moreover have "alternate_dns_loop len ((l # ls) @ rest) c (s @ replicate (Suc k) 0) n =
          alternate_dns_loop len (ls @ rest) (c + 1) (((s @ a) @ [0x3B]) @ replicate (Suc (k - length a - 1)) 0) (n + length a)"
        using n c True a(1) by (simp only: append_Cons alternate_dns_loop.simps p no app Option.bind.simps list.case) simp
      ultimately show ?thesis using a(2) by (simp add: alts semicolons_def add.assoc)
    qed
  qed
qed (simp add: semicolons_def)

text \<open>
  The alternate name servers: \<open>get_alternate_dns\<close> counts the addresses without the semicolons that it
  puts behind them, so what it returns as a text lacks as many characters at the end as there are
  alternate servers; with fewer than two servers in the file it writes in front of its buffer, and
  with an empty line it reads a field that is not there.
\<close>

theorem alternate_dns_text:
  assumes "list_all line_ok ls" and "alts = drop 1 (servers ls)" and "sum_list (map length alts) \<le> len"
    and "length (semicolons alts) < size_dest" and "size_dest < 2 ^ 32"
    and "ParseString conf 0x0A = ls" and "ParseString conf' 0x0A = ls @ [] # more_lines"
  defines "sum_len \<equiv> sum_list (map length alts)"
  shows "(alts = [] \<longrightarrow> get_alternate_dns (Some conf) (replicate size_dest 0) len = None) \<and>
    (alts \<noteq> [] \<longrightarrow> (\<exists>dest. get_alternate_dns (Some conf) (replicate size_dest 0) len = Some (dest, sum_len) \<and>
       c_string dest = Some (take (sum_len - 1) (semicolons alts)) \<and> length (semicolons alts) = sum_len + length alts)) \<and>
    get_alternate_dns (Some conf') (replicate size_dest 0) len = None"
proof (intro conjI impI)
  obtain k where k: "size_dest = Suc k" "length (semicolons alts) \<le> k" using assms(4) by (cases size_dest) auto
  have loop: "alternate_dns_loop len (ls @ rest) 0 (replicate size_dest 0) 0 =
      alternate_dns_loop len rest (length (servers ls)) (semicolons alts @ replicate (Suc (k - length (semicolons alts))) 0) sum_len" for rest
    using alternate_dns_lines [OF assms(1), of "[]" alts 0 0 len k rest] assms(2,3) k by (simp add: sum_len_def)
  have len: "length (semicolons alts) = sum_len + length alts" by (simp add: sum_len_def) (induction alts, simp_all add: semicolons_def)
  show "get_alternate_dns (Some conf') (replicate size_dest 0) len = None"
    using loop [of "[] # more_lines"] assms(3,7) by (simp add: get_alternate_dns_def ParseString.simps [of "[]"] sum_len_def)
  have run: "get_alternate_dns (Some conf) (replicate size_dest 0) len =
      Option.bind (store_at (semicolons alts @ replicate (Suc (k - length (semicolons alts))) 0) (unat (of_nat sum_len - 1 :: u32)) [0])
        (\<lambda>dest. Some (dest, sum_len))"
    using loop [of "[]"] assms(6) by (simp add: get_alternate_dns_def)
  {
    assume "alts = []"
    then have "sum_len = 0" by (simp add: sum_len_def)
    moreover have "unat (- 1 :: u32) = 2 ^ 32 - 1" by (simp add: unsigned_minus_1_eq_mask mask_eq_exp_minus_1)
    ultimately show "get_alternate_dns (Some conf) (replicate size_dest 0) len = None"
      unfolding run using \<open>alts = []\<close> k assms(5) by (simp add: store_at_def semicolons_def)
  }
  {
    assume alts: "alts \<noteq> []"
    have pos: "0 < sum_len" "0 \<notin> set (semicolons alts)"
    proof -
      have "list_all (\<lambda>a. a \<noteq> [] \<and> 0 \<notin> set a) (servers ls)"
        using assms(1) by (induction ls) (auto simp: line_ok_def server_of_def split: list.splits if_splits option.splits)
      then have all: "list_all (\<lambda>a. a \<noteq> [] \<and> 0 \<notin> set a) alts" by (cases "servers ls") (simp_all add: assms(2))
      then show "0 \<notin> set (semicolons alts)" by (auto simp: semicolons_def list_all_iff)
      show "0 < sum_len" using all alts by (cases alts) (simp_all add: sum_len_def)
    qed
    have small: "sum_len < 2 ^ 32" using len assms(4,5) by linarith
    then have u: "unat (of_nat sum_len - 1 :: u32) = sum_len - 1"
    proof -
      have "(of_nat sum_len - 1 :: u32) = of_nat (sum_len - 1)" using pos(1) by (cases sum_len) simp_all
      then show ?thesis using small by (simp add: unat_of_nat_small)
    qed
    show "\<exists>dest. get_alternate_dns (Some conf) (replicate size_dest 0) len = Some (dest, sum_len) \<and>
       c_string dest = Some (take (sum_len - 1) (semicolons alts)) \<and> length (semicolons alts) = sum_len + length alts"
    proof -
      define buf where "buf = semicolons alts @ replicate (Suc (k - length (semicolons alts))) 0"
      define dest where "dest = memcpy buf (sum_len - 1) [0]"
      have "sum_len - 1 + 1 \<le> length buf" using pos(1) len by (simp add: buf_def)
      then have "get_alternate_dns (Some conf) (replicate size_dest 0) len = Some (dest, sum_len)"
        unfolding run u buf_def [symmetric] by (simp add: store_at_def dest_def)
      moreover have "dest = take (sum_len - 1) (semicolons alts) @ 0 # drop sum_len buf"
        using pos(1) len by (simp add: dest_def memcpy_def buf_def)
      moreover have "0 \<notin> set (take (sum_len - 1) (semicolons alts))" using pos(2) by (meson in_set_takeD)
      ultimately show ?thesis using len by (simp add: c_string_prefix)
    qed
  }
qed

theorem alternate_dns_text_witness:
  "\<exists>dest. get_alternate_dns (Some (nameserver @ [0x20, 0x61, 0x0A] @ nameserver @ [0x20, 0x62, 0x63, 0x0A])) (replicate 253 0) 253 = Some (dest, length [0x62, 0x63 :: byte]) \<and>
     c_string dest = Some [0x62]"
proof -
  define ls where "ls = [nameserver @ [0x20, 0x61], nameserver @ [0x20, 0x62, 0x63]]"
  define conf where "conf = nameserver @ [0x20, 0x61, 0x0A] @ nameserver @ [0x20, 0x62, 0x63, 0x0A]"
  have "list_all line_ok ls \<and> servers ls = [[0x61], [0x62, 0x63]] \<and> ParseString conf 0x0A = ls \<and> ParseString (conf @ [0x0A]) 0x0A = ls @ [[]]"
  proof (intro conjI)
    have "server_of (nameserver @ [0x20, 0x61]) = Some [0x61]" "server_of (nameserver @ [0x20, 0x62, 0x63]) = Some [0x62, 0x63]"
      by (code_simp+)
    then show "list_all line_ok ls" "servers ls = [[0x61], [0x62, 0x63]]" by (simp_all add: ls_def line_ok_def)
    show "ParseString conf 0x0A = ls" "ParseString (conf @ [0x0A]) 0x0A = ls @ [[]]" unfolding conf_def ls_def by (code_simp+)
  qed
  then show ?thesis
    using alternate_dns_text [of ls "[[0x62, 0x63]]" 253 253 conf "conf @ [0x0A]" "[]"] by (simp add: semicolons_def conf_def)
qed

end
