(* ===== verification/Radius_Private.thy ===== *)
theory Radius_Private
  imports Wire Rc4 Text_Codec "HOL-Library.Sublist"
begin

text \<open>
  The private properties that the access server sends (\<open>tuanzi/include/suradiusprivate.h\<close>): their reader
  for the segments of other vendors' switches and the functions that copy them out of a frame,
  \<open>tuanzi/src/rgprivateproc.cpp\<close>, and the list of services, \<open>RcvSvrList\<close> in \<open>util.cpp\<close>. The conversion from
  GBK is an argument. \<open>None\<close> is a read outside of the memory at hand.
\<close>

definition FIELD_MAGIC :: u32 where "FIELD_MAGIC = 0x1311"

record SuRadiusPrivate =
  su_newest_ver :: u32
  account_info :: "byte list"
  persional_info :: "byte list"
  proxy_avoid :: u32
  dialup_avoid :: u32
  su_upgrade_url :: "byte list"
  indicate_serv_ip :: u32
  indicate_port :: u32
  msg_client_port :: u32
  hello_interv :: u32
  encrypt_key :: "byte list"
  encrypt_iv :: "byte list"
  server_utc_time :: u64
  fail_reason :: "byte list"
  broadcast_str :: "byte list"
  su_reauth_interv :: u32
  radius_type :: u32
  svr_switch_result :: "byte list"
  services :: "byte list list"
  user_login_url :: "byte list"
  utrust_url :: "byte list"
  is_show_utrust_url :: u32
  delay_second_show_utrust_url :: u32
  proxy_dectect_kinds :: u32
  smp_ipaddr :: u32
  parse_hello :: int
  parse_hello_inv :: u32
  parse_hello_id :: u32
  direct_communication_highest_version_supported :: byte
  direct_comm_heartbeat_flags :: u32

text \<open>
  What the readers change of the control thread: the properties, the type of the server, the flags,
  the challenge that \<open>e_pMd5Chanllenge\<close> keeps, and the configuration of the services. \<open>conf_opens\<close> is
  whether the configuration file can be opened, and \<open>conf_writes\<close> what \<open>RcvSvrList\<close> has written into its
  section \<open>SERVER\<close>.
\<close>

record ctrl_state =
  private_properties :: SuRadiusPrivate
  radius_server :: u32
  field_53B :: bool
  field_1149 :: bool
  pMd5Chanllenge :: "byte list"
  autoreconnect :: u32
  is_autoreconnect :: bool
  service_list_updated :: bool
  server_custom :: bool
  server_modify :: bool
  server_names :: "byte list list"
  server_alt_names :: "byte list list"
  conf_opens :: bool
  conf_writes :: "(string \<times> byte list) list"

definition with_props :: "(SuRadiusPrivate \<Rightarrow> SuRadiusPrivate) \<Rightarrow> ctrl_state \<Rightarrow> ctrl_state" where
  "with_props f s = s\<lparr>private_properties := f (private_properties s)\<rparr>"

definition SetRadiusServer :: "u32 \<Rightarrow> ctrl_state \<Rightarrow> ctrl_state" where
  "SetRadiusServer type s = (if type = 9 \<or> type = 5 then s\<lparr>radius_server := type\<rparr> else s)"

subsection \<open>The list of services\<close>

text \<open>\<open>std::equal\<close> with one end only: \<open>None\<close> when the second list is read past its end.\<close>

fun std_equal :: "'a list \<Rightarrow> 'a list \<Rightarrow> bool option" where
  "std_equal [] ys = Some True"
| "std_equal (x # xs) [] = None"
| "std_equal (x # xs) (y # ys) = (if x = y then std_equal xs ys else Some False)"

definition IsServerlistUpdate :: "ctrl_state \<Rightarrow> byte list list \<Rightarrow> bool option" where
  "IsServerlistUpdate s new_list =
     (if new_list = [] then Some False
      else if server_custom s then std_equal new_list (server_alt_names s)
      else Some True)"

text \<open>\<open>std::to_string\<close> of a number that is not negative.\<close>

fun IntToString :: "nat \<Rightarrow> string" where
  "IntToString n = (if n < 10 then [char_of (48 + n)] else IntToString (n div 10) @ [char_of (48 + n mod 10)])"

declare IntToString.simps [simp del]

definition service_writes :: "byte list list \<Rightarrow> (string \<times> byte list) list" where
  "service_writes names =
     [(''Custom'', [0x31]), (''Modify'', [0x30]), (''Number'', map of_char (IntToString (length names)))] @
     map (\<lambda>i. (''Name'' @ IntToString i, names ! i @ 0x3E # names ! i)) [0..<length names]"

definition RcvSvrList :: "byte list list \<Rightarrow> ctrl_state \<Rightarrow> ctrl_state option" where
  "RcvSvrList service_list s =
     (case IsServerlistUpdate s service_list of
        None \<Rightarrow> None
      | Some False \<Rightarrow> Some (s\<lparr>service_list_updated := False\<rparr>)
      | Some True \<Rightarrow>
          let s = s\<lparr>service_list_updated := True\<rparr>; names = services (private_properties s)
          in Some (if names = [] then s
             else s\<lparr>conf_writes := conf_writes s @ (if conf_opens s then service_writes names else []),
                   server_custom := True, server_modify := True, server_names := names, server_alt_names := names\<rparr>))"

subsection \<open>The reader of the vendor's segments\<close>

text \<open>Both readers begin with the same assignments.\<close>

definition reset_properties :: "SuRadiusPrivate \<Rightarrow> SuRadiusPrivate" where
  "reset_properties p = p\<lparr>radius_type := 5, su_newest_ver := 0, account_info := [], persional_info := [],
     broadcast_str := [], fail_reason := [], su_upgrade_url := [], su_reauth_interv := 0, radius_type := 0,
     proxy_avoid := 0, dialup_avoid := 0, indicate_serv_ip := 0, indicate_port := 0, smp_ipaddr := 0,
     proxy_dectect_kinds := 0, hello_interv := 0, encrypt_key := replicate 8 0, encrypt_iv := replicate 8 0,
     server_utc_time := 0, svr_switch_result := [], user_login_url := [], msg_client_port := 80, utrust_url := [],
     is_show_utrust_url := 1, delay_second_show_utrust_url := 0, parse_hello := 0,
     direct_communication_highest_version_supported := 1, direct_comm_heartbeat_flags := 0\<rparr>"

text \<open>The text at \<open>&buf[pos]\<close>, read up to its NUL, and \<open>"com.ruijie.www"\<close> as the key of RC4.\<close>

definition text_at :: "byte list \<Rightarrow> nat \<Rightarrow> byte list option" where
  "text_at buf pos = c_string (drop pos buf)"

definition rc4_key :: "byte list" where
  "rc4_key = map of_char ''com.ruijie.www''"

definition new_services :: "(byte list \<Rightarrow> byte list) \<Rightarrow> byte list \<Rightarrow> ctrl_state \<Rightarrow> ctrl_state option" where
  "new_services gbk text s =
     (let list = ParseString (gbk text) 0x40
      in RcvSvrList list (with_props (\<lambda>p. p\<lparr>services := list\<rparr>) s))"

text \<open>
  The cases of the switch: a number of four bytes, a text up to the next NUL, and eight bytes. The
  flag is \<open>should_exit\<close>.
\<close>

type_synonym seg_result = "(ctrl_state \<times> bool) option"

definition case_number :: "byte list \<Rightarrow> nat \<Rightarrow> nat \<Rightarrow> (u32 \<Rightarrow> SuRadiusPrivate \<Rightarrow> SuRadiusPrivate) \<Rightarrow> ctrl_state \<Rightarrow> seg_result" where
  "case_number buf pos n f s =
     (if n \<noteq> 4 then Some (s, True) else do { v \<leftarrow> be32_at buf pos; Some (with_props (f v) s, False) })"

definition case_text :: "(byte list \<Rightarrow> byte list) \<Rightarrow> byte list \<Rightarrow> nat \<Rightarrow> (byte list \<Rightarrow> SuRadiusPrivate \<Rightarrow> SuRadiusPrivate) \<Rightarrow> ctrl_state \<Rightarrow> seg_result" where
  "case_text gbk buf pos f s = do { t \<leftarrow> text_at buf pos; Some (with_props (f (gbk t)) s, False) }"

definition case_key :: "byte list \<Rightarrow> nat \<Rightarrow> nat \<Rightarrow> (byte list \<Rightarrow> SuRadiusPrivate \<Rightarrow> SuRadiusPrivate) \<Rightarrow> ctrl_state \<Rightarrow> seg_result" where
  "case_key buf pos n f s =
     (if n \<noteq> 8 then Some (s, True)
      else do { b \<leftarrow> read_at buf pos 8; k \<leftarrow> RC4 b rc4_key; Some (with_props (f k) s, False) })"

definition vendor_case :: "(byte list \<Rightarrow> byte list) \<Rightarrow> byte list \<Rightarrow> nat \<Rightarrow> nat \<Rightarrow> byte \<Rightarrow> nat \<Rightarrow> ctrl_state \<Rightarrow> seg_result" where
  "vendor_case gbk buf len pos t n s =
     (if t = 0x05 then case_number buf pos n (\<lambda>v p. p\<lparr>su_newest_ver := v\<rparr>) s
      else if t = 0x14 then case_number buf pos n (\<lambda>v p. p\<lparr>proxy_avoid := v\<rparr>) s
      else if t = 0x15 then case_number buf pos n (\<lambda>v p. p\<lparr>dialup_avoid := v\<rparr>) s
      else if t = 0x37 then
        (if n \<noteq> 247 then Some (s, True) else case_text gbk buf pos (\<lambda>v p. p\<lparr>su_upgrade_url := v\<rparr>) s)
      else if t = 0x3C then case_text gbk buf pos (\<lambda>v p. p\<lparr>account_info := v\<rparr>) s
      else if t = 0x3D then case_text gbk buf pos (\<lambda>v p. p\<lparr>persional_info := v\<rparr>) s
      else if t = 0x52 then case_text gbk buf pos (\<lambda>v p. p\<lparr>broadcast_str := v\<rparr>) s
      else if t = 0x53 then case_text gbk buf pos (\<lambda>v p. p\<lparr>fail_reason := v\<rparr>) s
      else if t = 0x56 then case_number buf pos n (\<lambda>v p. p\<lparr>su_reauth_interv := v\<rparr>) s
      else if t = 0x59 then case_number buf pos n (\<lambda>v p. p\<lparr>hello_interv := v\<rparr>) s
      else if t = 0x5A then case_number buf pos n (\<lambda>v p. p\<lparr>indicate_port := v\<rparr>) s
      else if t = 0x5B then case_number buf pos n (\<lambda>v p. p\<lparr>indicate_serv_ip := v\<rparr>) s
      else if t = 0x5C then case_key buf pos n (\<lambda>v p. p\<lparr>encrypt_key := v\<rparr>) s
      else if t = 0x5D then case_key buf pos n (\<lambda>v p. p\<lparr>encrypt_iv := v\<rparr>) s
      else if t = 0x5E then
        (if n \<noteq> 8 then Some (s, True)
         else do { b \<leftarrow> read_at buf pos 8; Some (with_props (\<lambda>p. p\<lparr>server_utc_time := word_le64 b\<rparr>) s, False) })
      else if t = 0x61 then
        (if n \<noteq> 1 then Some (s, True)
         else do {
           b \<leftarrow> byte_at buf pos;
           let s = SetRadiusServer (ucast b) (with_props (\<lambda>p. p\<lparr>radius_type := ucast b\<rparr>) s);
           Some (s\<lparr>field_1149 := False\<rparr>, False)
         })
      else if t = 0x66 then do { b \<leftarrow> read_at buf pos n; s \<leftarrow> new_services gbk b s; Some (s, False) }
      else if t = 0x68 then do { b \<leftarrow> read_at buf pos pos; Some (with_props (\<lambda>p. p\<lparr>user_login_url := b\<rparr>) s, False) }
      else if t = 0x6E then case_number buf pos n (\<lambda>v p. p\<lparr>msg_client_port := v\<rparr>) s
      else if t = 0x72 then do { b \<leftarrow> read_at buf pos pos; Some (with_props (\<lambda>p. p\<lparr>utrust_url := b\<rparr>) s, False) }
      else if t = 0x74 then case_number buf pos n (\<lambda>v p. p\<lparr>proxy_dectect_kinds := v\<rparr>) s
      else if t = 0x77 then
        (if len < pos + n then Some (s, True)
         else if n \<noteq> 3 then Some (s, False)
         else do {
           b \<leftarrow> byte_at buf pos;
           d \<leftarrow> be16_at buf (pos + 1);
           Some (with_props (\<lambda>p. p\<lparr>is_show_utrust_url := ucast b, delay_second_show_utrust_url := ucast d\<rparr>) s, False)
         })
      else if t = 0x79 then
        (if n \<noteq> 1 \<or> len < pos + 1 then Some (s, True)
         else do { b \<leftarrow> byte_at buf pos; Some (with_props (\<lambda>p. p\<lparr>direct_communication_highest_version_supported := b\<rparr>) s, False) })
      else if t = 0x80 then
        (if n \<noteq> 4 \<or> len < pos + 4 then Some (s, True)
         else case_number buf pos n (\<lambda>v p. p\<lparr>direct_comm_heartbeat_flags := v\<rparr>) s)
      else Some (s, False))"

text \<open>The loop; the step of the \<open>for\<close> reads the next header also after a \<open>should_exit\<close>.\<close>

function vendor_loop :: "(byte list \<Rightarrow> byte list) \<Rightarrow> byte list \<Rightarrow> nat \<Rightarrow> nat \<Rightarrow> byte \<Rightarrow> byte \<Rightarrow> ctrl_state \<Rightarrow> ctrl_state option" where
  "vendor_loop gbk buf len cur_pos cur_type cur_datalen s =
     (if cur_pos \<le> len \<and> cur_type \<noteq> 0 \<and> cur_datalen \<noteq> 0xFF
      then do {
        (s, should_exit) \<leftarrow> vendor_case gbk buf len cur_pos cur_type (unat cur_datalen) s;
        cur_type \<leftarrow> byte_at buf (cur_pos + unat cur_datalen);
        next_datalen \<leftarrow> byte_at buf (cur_pos + unat cur_datalen + 1);
        if should_exit then Some s
        else vendor_loop gbk buf len (cur_pos + unat cur_datalen + 2) cur_type next_datalen s
      }
      else Some s)"
  by pat_completeness auto
termination
  by (relation "measure (\<lambda>(gbk, buf, len, cur_pos, cur_type, cur_datalen, s). len + 1 - cur_pos)") auto

declare vendor_loop.simps [simp del]

definition vendor_run :: "(byte list \<Rightarrow> byte list) \<Rightarrow> byte list \<Rightarrow> nat \<Rightarrow> nat \<Rightarrow> ctrl_state \<Rightarrow> ctrl_state option" where
  "vendor_run gbk buf len pos s = do {
     cur_type \<leftarrow> byte_at buf pos;
     cur_datalen \<leftarrow> byte_at buf (pos + 1);
     vendor_loop gbk buf len (pos + 2) cur_type cur_datalen s
   }"

text \<open>\<open>buf\<close> is all the memory behind the pointer.\<close>

definition ReadRGVendorSeg :: "(byte list \<Rightarrow> byte list) \<Rightarrow> byte list \<Rightarrow> nat \<Rightarrow> ctrl_state \<Rightarrow> ctrl_state option" where
  "ReadRGVendorSeg gbk buf len s =
     (if len = 0 \<or> 1400 < len then Some s
      else vendor_run gbk buf len 0 (SetRadiusServer 9 (with_props reset_properties s)))"

subsection \<open>What the segments mean\<close>

text \<open>A segment is its type and its data; \<open>ok\<close> are those that are read as they are written.\<close>

type_synonym segment = "byte \<times> byte list"

definition enc_segment :: "segment \<Rightarrow> byte list" where
  "enc_segment x = fst x # of_nat (length (snd x)) # snd x"

definition word_be32 :: "byte list \<Rightarrow> u32" where
  "word_be32 d = bswap_32 (word_le32 d)"

definition number_types :: "byte list" where
  "number_types = [0x05, 0x14, 0x15, 0x56, 0x59, 0x5A, 0x5B, 0x6E, 0x74, 0x80]"

definition text_types :: "byte list" where
  "text_types = [0x3C, 0x3D, 0x52, 0x53]"

definition vendor_ok :: "segment \<Rightarrow> bool" where
  "vendor_ok x \<longleftrightarrow> fst x \<noteq> 0 \<and> length (snd x) < 255 \<and>
     (if fst x \<in> set number_types then length (snd x) = 4
      else if fst x \<in> set text_types then 0 \<in> set (snd x)
      else if fst x = 0x37 then length (snd x) = 247 \<and> 0 \<in> set (snd x)
      else if fst x \<in> {0x5C, 0x5D, 0x5E} then length (snd x) = 8
      else if fst x \<in> {0x61, 0x79} then length (snd x) = 1
      else fst x \<noteq> 0x68 \<and> fst x \<noteq> 0x72)"

definition set_number :: "byte \<Rightarrow> u32 \<Rightarrow> SuRadiusPrivate \<Rightarrow> SuRadiusPrivate" where
  "set_number t v p =
     (if t = 0x05 then p\<lparr>su_newest_ver := v\<rparr> else if t = 0x14 then p\<lparr>proxy_avoid := v\<rparr>
      else if t = 0x15 then p\<lparr>dialup_avoid := v\<rparr> else if t = 0x56 then p\<lparr>su_reauth_interv := v\<rparr>
      else if t = 0x59 then p\<lparr>hello_interv := v\<rparr> else if t = 0x5A then p\<lparr>indicate_port := v\<rparr>
      else if t = 0x5B then p\<lparr>indicate_serv_ip := v\<rparr> else if t = 0x6E then p\<lparr>msg_client_port := v\<rparr>
      else if t = 0x74 then p\<lparr>proxy_dectect_kinds := v\<rparr> else p\<lparr>direct_comm_heartbeat_flags := v\<rparr>)"

definition set_text :: "byte \<Rightarrow> byte list \<Rightarrow> SuRadiusPrivate \<Rightarrow> SuRadiusPrivate" where
  "set_text t v p =
     (if t = 0x37 then p\<lparr>su_upgrade_url := v\<rparr> else if t = 0x3C then p\<lparr>account_info := v\<rparr>
      else if t = 0x3D then p\<lparr>persional_info := v\<rparr> else if t = 0x52 then p\<lparr>broadcast_str := v\<rparr>
      else p\<lparr>fail_reason := v\<rparr>)"

definition rc4_text :: "byte list \<Rightarrow> byte list" where
  "rc4_text d = the (RC4 d rc4_key)"

definition vendor_step :: "(byte list \<Rightarrow> byte list) \<Rightarrow> segment \<Rightarrow> ctrl_state \<Rightarrow> ctrl_state option" where
  "vendor_step gbk x s =
     (let t = fst x; d = snd x in
      if t \<in> set number_types then Some (with_props (set_number t (word_be32 d)) s)
      else if t \<in> set text_types \<or> t = 0x37 then Some (with_props (set_text t (gbk (takeWhile (\<lambda>c. c \<noteq> 0) d))) s)
      else if t = 0x5C then Some (with_props (\<lambda>p. p\<lparr>encrypt_key := rc4_text d\<rparr>) s)
      else if t = 0x5D then Some (with_props (\<lambda>p. p\<lparr>encrypt_iv := rc4_text d\<rparr>) s)
      else if t = 0x5E then Some (with_props (\<lambda>p. p\<lparr>server_utc_time := word_le64 d\<rparr>) s)
      else if t = 0x61 then Some ((SetRadiusServer (ucast (d ! 0)) (with_props (\<lambda>p. p\<lparr>radius_type := ucast (d ! 0)\<rparr>) s))\<lparr>field_1149 := False\<rparr>)
      else if t = 0x66 then new_services gbk d s
      else if t = 0x77 \<and> length d = 3 then
        Some (with_props (\<lambda>p. p\<lparr>is_show_utrust_url := ucast (d ! 0), delay_second_show_utrust_url := ucast (htons (word_le16 (drop 1 d)))\<rparr>) s)
      else if t = 0x79 then Some (with_props (\<lambda>p. p\<lparr>direct_communication_highest_version_supported := d ! 0\<rparr>) s)
      else Some s)"

lemma rc4_key_ok: "RC4 d rc4_key = Some (rc4_text d)"
proof -
  have "strlen rc4_key \<noteq> 0" by (simp add: strlen_def rc4_key_def of_char_def)
  then show ?thesis by (auto simp: rc4_text_def RC4_def re_T_def Let_def)
qed

text \<open>The cases where the memory at \<open>pos\<close> holds the data \<open>d\<close>.\<close>

lemma case_here:
  assumes "drop pos buf = d @ post" and "pos + length d \<le> length buf"
  shows "length d = 4 \<Longrightarrow> case_number buf pos 4 f s = Some (with_props (f (word_be32 d)) s, False)"
    and "length d = 8 \<Longrightarrow> case_key buf pos 8 g s = Some (with_props (g (rc4_text d)) s, False)"
    and "0 \<in> set d \<Longrightarrow> case_text gbk buf pos g s = Some (with_props (g (gbk (takeWhile (\<lambda>c. c \<noteq> 0) d))) s, False)"
  by (simp_all add: case_number_def be32_at_def word_be32_def case_key_def rc4_key_ok case_text_def text_at_def c_string_def
      read_at_drop [OF assms] assms(1))

lemma set_number_simps:
  "set_number 0x05 v = su_newest_ver_update (\<lambda>_. v)" "set_number 0x14 v = proxy_avoid_update (\<lambda>_. v)"
  "set_number 0x15 v = dialup_avoid_update (\<lambda>_. v)" "set_number 0x56 v = su_reauth_interv_update (\<lambda>_. v)"
  "set_number 0x59 v = hello_interv_update (\<lambda>_. v)" "set_number 0x5A v = indicate_port_update (\<lambda>_. v)"
  "set_number 0x5B v = indicate_serv_ip_update (\<lambda>_. v)" "set_number 0x6E v = msg_client_port_update (\<lambda>_. v)"
  "set_number 0x74 v = proxy_dectect_kinds_update (\<lambda>_. v)" "set_number 0x80 v = direct_comm_heartbeat_flags_update (\<lambda>_. v)"
  by (simp_all add: set_number_def fun_eq_iff)

lemma set_text_simps:
  "set_text 0x37 v = su_upgrade_url_update (\<lambda>_. v)" "set_text 0x3C v = account_info_update (\<lambda>_. v)"
  "set_text 0x3D v = persional_info_update (\<lambda>_. v)" "set_text 0x52 v = broadcast_str_update (\<lambda>_. v)"
  "set_text 0x53 v = fail_reason_update (\<lambda>_. v)"
  by (simp_all add: set_text_def fun_eq_iff)

lemma vendor_case_ok:
  assumes here: "drop pos buf = d @ post" "pos + length d \<le> length buf" and len: "pos + length d \<le> len" and ok: "vendor_ok (t, d)"
  shows "vendor_case gbk buf len pos t (length d) s = map_option (\<lambda>s. (s, False)) (vendor_step gbk (t, d) s)"
proof -
  note rules = vendor_case_def vendor_step_def Let_def number_types_def text_types_def set_number_simps set_text_simps
    case_here [OF here] read_at_drop [OF here]
  have byte: "byte_at buf pos = Some (d ! 0)" if "d \<noteq> []" using byte_at_drop [OF here(1), of 0] that by simp
  have word: "be16_at buf (Suc pos) = Some (htons (word_le16 (drop 1 d)))" if "length d = 3"
    using that read_at_drop_within [OF here, of 1 2] by (simp add: be16_at_def)
  consider "t \<in> set number_types" "length d = 4" | "t \<in> set text_types" "0 \<in> set d" | "t = 0x37" "length d = 247" "0 \<in> set d"
    | "t \<in> {0x5C, 0x5D, 0x5E}" "length d = 8" | "t \<in> {0x61, 0x79}" "length d = 1" | "t = 0x66" | "t = 0x77" "length d = 3" | "t = 0x77" "length d \<noteq> 3"
    | "t \<notin> set number_types" "t \<notin> set text_types" "t \<notin> {0x37, 0x5C, 0x5D, 0x5E, 0x61, 0x79, 0x66, 0x77, 0x68, 0x72}"
    using ok by (auto simp: vendor_ok_def split: if_splits)
  then show ?thesis
  proof cases
    case 1
    then have "t = 0x05 \<or> t = 0x14 \<or> t = 0x15 \<or> t = 0x56 \<or> t = 0x59 \<or> t = 0x5A \<or> t = 0x5B \<or> t = 0x6E \<or> t = 0x74 \<or> t = 0x80"
      by (simp add: number_types_def)
    then show ?thesis using 1(2) len by (elim disjE) (simp_all add: rules)
  next
    case 2
    then have "t = 0x3C \<or> t = 0x3D \<or> t = 0x52 \<or> t = 0x53" by (simp add: text_types_def)
    then show ?thesis using 2(2) by (elim disjE) (simp_all add: rules)
  next
    case 4
    then have "t = 0x5C \<or> t = 0x5D \<or> t = 0x5E" by simp
    then show ?thesis using 4(2) by (elim disjE) (simp_all add: rules)
  next
    case 5
    then have "t = 0x61 \<or> t = 0x79" "d \<noteq> []" by auto
    then show ?thesis using 5(2) byte len by (elim disjE) (simp_all add: rules)
  next
    case 6
    then show ?thesis by (cases "new_services gbk d s") (simp_all add: rules)
  next
    case 7
    then have "d \<noteq> []" by auto
    then show ?thesis using 7 byte word len by (simp add: rules)
  qed (use len in \<open>simp_all add: rules\<close>)
qed

lemma datalen_byte:
  assumes "n < 255"
  shows "unat (of_nat n :: byte) = n" "(of_nat n :: byte) \<noteq> 0xFF"
proof -
  show u: "unat (of_nat n :: byte) = n" using assms by (simp add: unat_of_nat_small)
  show "(of_nat n :: byte) \<noteq> 0xFF"
  proof
    assume e: "of_nat n = (0xFF :: byte)"
    have "unat (of_nat n :: byte) = 255" unfolding e by simp
    then show False using u assms by simp
  qed
qed

lemma vendor_run_segment:
  assumes "vendor_ok x" and "length (pre @ enc_segment x) + 0 \<le> len" and "length (pre @ enc_segment x) + 0 \<le> length (pre @ enc_segment x @ post)"
  shows "vendor_run gbk (pre @ enc_segment x @ post) len (length pre) s =
    Option.bind (vendor_step gbk x s) (vendor_run gbk (pre @ enc_segment x @ post) len (length (pre @ enc_segment x)))"
proof -
  obtain t d where x: "x = (t, d)" by (cases x)
  define buf where "buf = pre @ enc_segment x @ post"
  have n: "unat (of_nat (length d) :: byte) = length d" "(of_nat (length d) :: byte) \<noteq> 0xFF" "t \<noteq> 0"
    using assms(1) by (auto simp: x vendor_ok_def datalen_byte)
  have "drop (length pre + 2) buf = d @ post" by (simp add: buf_def x enc_segment_def)
  then have "vendor_case gbk buf len (length pre + 2) t (length d) s = map_option (\<lambda>s. (s, False)) (vendor_step gbk x s)"
    unfolding x by (rule vendor_case_ok) (use assms in \<open>simp_all add: x buf_def enc_segment_def\<close>)
  moreover have end_pos: "length (pre @ enc_segment x) = length pre + 2 + length d" by (simp add: x enc_segment_def)
  ultimately have "vendor_loop gbk buf len (length pre + 2) t (of_nat (length d)) s =
      Option.bind (vendor_step gbk x s) (vendor_run gbk buf len (length pre + 2 + length d))"
    using n assms(2) by (subst vendor_loop.simps, cases "vendor_step gbk x s") (simp_all add: vendor_run_def)
  moreover have "byte_at buf (length pre) = Some t" "byte_at buf (length pre + 1) = Some (of_nat (length d))"
    by (simp_all add: buf_def x enc_segment_def byte_at_def nth_append)
  ultimately show ?thesis
    unfolding buf_def [symmetric] end_pos by (simp add: vendor_run_def [of _ _ _ "length pre"])
qed

interpretation vendor: segment_reader enc_segment vendor_ok "vendor_step gbk" 0 "vendor_run gbk"
  by unfold_locales (rule vendor_run_segment)

subsection \<open>Reading lists of segments\<close>

definition vendor_start :: "ctrl_state \<Rightarrow> ctrl_state" where
  "vendor_start s = SetRadiusServer 9 (with_props reset_properties s)"

lemma vendor_run_end:
  "pos + 2 \<le> length buf \<Longrightarrow> len < pos + 2 \<Longrightarrow> vendor_run gbk buf len pos s = Some s"
  "length buf < pos + 2 \<Longrightarrow> vendor_run gbk buf len pos s = None"
  by (auto simp: vendor_run_def vendor_loop.simps byte_at_def split: bind_splits)

text \<open>
  C33: \<open>ReadRGVendorSeg\<close> reads what was written: a list of segments with the lengths that their types
  ask for (texts with their NUL inside) has the effect of the segments one after the other on the
  reset properties. The reader looks at the two bytes behind the last segment, which are not part of
  its input, and it fails where the memory ends there.
\<close>

theorem vendor_segments:
  assumes "list_all vendor_ok xs" and "xs \<noteq> []" and "length (concat (map enc_segment xs)) \<le> 1400"
  shows "ReadRGVendorSeg gbk (concat (map enc_segment xs) @ post) (length (concat (map enc_segment xs))) s =
    (if 2 \<le> length post then fold_option (vendor_step gbk) xs (vendor_start s) else None)"
proof -
  define ss where "ss = concat (map enc_segment xs)"
  have "length ss \<noteq> 0" using assms(2) by (cases xs) (simp_all add: ss_def enc_segment_def)
  then have "ReadRGVendorSeg gbk (ss @ post) (length ss) s = vendor_run gbk ([] @ ss @ post) (length ss) (length ([] :: byte list)) (vendor_start s)"
    using assms(3) by (simp add: ReadRGVendorSeg_def vendor_start_def flip: ss_def)
  also have "\<dots> = Option.bind (fold_option (vendor_step gbk) xs (vendor_start s)) (vendor_run gbk (ss @ post) (length ss) (length ss))"
    unfolding ss_def using vendor.run_segments [OF assms(1), of "[]" _ post gbk "vendor_start s"] by simp
  also have "\<dots> = (if 2 \<le> length post then fold_option (vendor_step gbk) xs (vendor_start s) else None)"
    by (cases "fold_option (vendor_step gbk) xs (vendor_start s)") (simp_all add: vendor_run_end)
  finally show ?thesis by (simp add: ss_def)
qed

text \<open>A state for the examples.\<close>

definition private_example :: SuRadiusPrivate where
  "private_example = \<lparr>su_newest_ver = 0, account_info = [], persional_info = [], proxy_avoid = 0, dialup_avoid = 0,
     su_upgrade_url = [], indicate_serv_ip = 0, indicate_port = 0, msg_client_port = 0, hello_interv = 0,
     encrypt_key = replicate 8 0, encrypt_iv = replicate 8 0, server_utc_time = 0, fail_reason = [], broadcast_str = [],
     su_reauth_interv = 0, radius_type = 0, svr_switch_result = [], services = [], user_login_url = [], utrust_url = [],
     is_show_utrust_url = 0, delay_second_show_utrust_url = 0, proxy_dectect_kinds = 0, smp_ipaddr = 0, parse_hello = 0,
     parse_hello_inv = 0, parse_hello_id = 0, direct_communication_highest_version_supported = 0, direct_comm_heartbeat_flags = 0\<rparr>"

definition ctrl_example :: ctrl_state where
  "ctrl_example = \<lparr>private_properties = private_example, radius_server = 0, field_53B = False, field_1149 = True,
     pMd5Chanllenge = replicate 16 0, autoreconnect = 0, is_autoreconnect = False, service_list_updated = False,
     server_custom = True, server_modify = False, server_names = [[0x61], [0x62]], server_alt_names = [[0x61], [0x62]],
     conf_opens = True, conf_writes = []\<rparr>"

theorem vendor_segments_witness:
  "ReadRGVendorSeg id ([0x14, 4, 0, 0, 0, 1, 0x61, 1, 5] @ [0, 0]) (length ([0x14, 4, 0, 0, 0, 1, 0x61, 1, 5] :: byte list)) ctrl_example =
     fold_option (vendor_step id) [(0x14, [0, 0, 0, 1]), (0x61, [5])] (vendor_start ctrl_example)"
  using vendor_segments [of "[(0x14, [0, 0, 0, 1]), (0x61, [5])]" id "[0, 0]" ctrl_example]
  by (simp add: vendor_ok_def number_types_def text_types_def enc_segment_def)

text \<open>
  The login address is cut by its position and not by its length: behind segments of \<open>n\<close> bytes the
  reader takes \<open>n + 2\<close> bytes, so the first segment of a packet gives two characters of it and a late
  one runs into what follows.
\<close>

theorem vendor_login_url:
  assumes "list_all vendor_ok xs" and "fold_option (vendor_step gbk) xs (vendor_start s) = Some s'"
    and "length d < 255" and "length (concat (map enc_segment (xs @ [(0x68, d)]))) \<le> 1400" and "2 \<le> length post"
  defines "n \<equiv> length (concat (map enc_segment xs)) + 2"
  shows "ReadRGVendorSeg gbk (concat (map enc_segment (xs @ [(0x68, d)])) @ post) (n + length d) s =
    (if n \<le> length (d @ post) then Some (with_props (\<lambda>p. p\<lparr>user_login_url := take n (d @ post)\<rparr>) s') else None)"
proof -
  define ss rest where "ss = concat (map enc_segment xs)" and "rest = enc_segment (0x68, d) @ post"
  define buf where "buf = ss @ rest"
  have n: "n = length ss + 2" by (simp add: n_def ss_def)
  have "ReadRGVendorSeg gbk buf (n + length d) s = vendor_run gbk ([] @ ss @ rest) (n + length d) (length ([] :: byte list)) (vendor_start s)"
    using assms(4) by (simp add: ReadRGVendorSeg_def vendor_start_def buf_def n ss_def enc_segment_def)
  also have "\<dots> = vendor_run gbk buf (n + length d) (length ss) s'"
    unfolding ss_def using vendor.run_segments [OF assms(1), of "[]" "n + length d" rest gbk "vendor_start s"] assms(2)
    by (simp add: n buf_def ss_def)
  also have "\<dots> = vendor_loop gbk buf (n + length d) n 0x68 (of_nat (length d)) s'"
    by (simp add: vendor_run_def n buf_def rest_def enc_segment_def byte_at_def nth_append)
  also have "\<dots> = (if n \<le> length (d @ post) then Some (with_props (\<lambda>p. p\<lparr>user_login_url := take n (d @ post)\<rparr>) s') else None)"
  proof -
    have "drop n buf = d @ post" "length buf = n + length (d @ post)"
      by (simp_all add: buf_def rest_def enc_segment_def n)
    then show ?thesis using assms(5) datalen_byte [OF assms(3)]
      by (subst vendor_loop.simps) (auto simp: vendor_case_def read_at_def byte_at_def vendor_loop.simps)
  qed
  finally show ?thesis by (simp add: buf_def ss_def rest_def)
qed

theorem vendor_login_url_witness:
  "ReadRGVendorSeg id ([0x68, 4, 0x61, 0x62, 0x63, 0x64] @ [0, 0]) (length ([0x68, 4, 0x61, 0x62, 0x63, 0x64] :: byte list)) ctrl_example =
     Some (with_props (\<lambda>p. p\<lparr>user_login_url := [0x61, 0x62]\<rparr>) (vendor_start ctrl_example))"
  using vendor_login_url [of "[]" id ctrl_example "vendor_start ctrl_example" "[0x61, 0x62, 0x63, 0x64]" "[0, 0]"]
  by (simp add: enc_segment_def numeral_2_eq_2)

subsection \<open>The list of services is never replaced\<close>

lemma std_equal_prefix:
  "std_equal xs ys = (if prefix xs ys then Some True else if strict_prefix ys xs then None else Some False)"
  by (induction xs ys rule: std_equal.induct) auto

lemma with_props_services [simp]:
  "server_custom (with_props f s) = server_custom s" "server_alt_names (with_props f s) = server_alt_names s"
  "private_properties (with_props f s) = f (private_properties s)"
  by (simp_all add: with_props_def)

lemma new_services_custom:
  fixes gbk :: "byte list \<Rightarrow> byte list"
  assumes "server_custom s"
  defines "names \<equiv> \<lambda>t. ParseString (gbk t) 0x40"
  shows "new_services gbk text s = Some s' \<Longrightarrow> server_custom s' \<and>
      server_alt_names s' = (if names text \<noteq> [] \<and> prefix (names text) (server_alt_names s) then names text else server_alt_names s)"
    and "new_services gbk text s = None \<longleftrightarrow> strict_prefix (server_alt_names s) (names text) \<and> names text \<noteq> []"
  using assms(1)
  by (auto simp: new_services_def RcvSvrList_def IsServerlistUpdate_def names_def Let_def
      std_equal_prefix split: option.splits bool.splits if_splits)

text \<open>
  Once a list of services has been stored, \<open>RcvSvrList\<close> takes a new one for an update exactly if it
  is the same or a shorter beginning of it, which is the wrong way round: whatever lists arrive,
  what is stored stays a beginning of what was stored first, and a list that only adds services
  makes the comparison read past the end of the stored one.
\<close>

theorem services_never_replaced:
  assumes "server_custom s"
  shows "(fold_option (new_services gbk) texts s = Some s' \<longrightarrow> server_custom s' \<and> prefix (server_alt_names s') (server_alt_names s)) \<and>
    (ParseString (gbk text) 0x40 = server_alt_names s @ added \<longrightarrow> added \<noteq> [] \<longrightarrow> new_services gbk text s = None)"
proof
  show "fold_option (new_services gbk) texts s = Some s' \<longrightarrow> server_custom s' \<and> prefix (server_alt_names s') (server_alt_names s)"
    using assms
  proof (induction texts arbitrary: s)
    case (Cons t texts)
    show ?case
    proof
      assume "fold_option (new_services gbk) (t # texts) s = Some s'"
      then obtain u where u: "new_services gbk t s = Some u" "fold_option (new_services gbk) texts u = Some s'"
        by (auto split: bind_splits)
      have "server_custom u" "prefix (server_alt_names u) (server_alt_names s)"
        using new_services_custom(1) [OF Cons.prems u(1)] by auto
      with Cons.IH [of u] u(2) show "server_custom s' \<and> prefix (server_alt_names s') (server_alt_names s)"
        by (meson prefix_order.trans)
    qed
  qed auto
  show "ParseString (gbk text) 0x40 = server_alt_names s @ added \<longrightarrow> added \<noteq> [] \<longrightarrow> new_services gbk text s = None"
    using new_services_custom(2) [OF assms] by (auto simp: strict_prefix_def)
qed

theorem services_never_replaced_witness:
  "new_services id [0x61, 0x40, 0x62, 0x40, 0x63] ctrl_example = None \<and> server_alt_names ctrl_example \<noteq> []"
proof -
  have "ParseString (id [0x61, 0x40, 0x62, 0x40, 0x63]) 0x40 = server_alt_names ctrl_example @ [[0x63]]"
    by (simp add: ParseString.simps ctrl_example_def)
  then show ?thesis
    using services_never_replaced [of ctrl_example id "[]" ctrl_example "[0x61, 0x40, 0x62, 0x40, 0x63]" "[[0x63]]"]
    by (simp add: ctrl_example_def)
qed

end
