(* ===== verification/Vendor_Seg.thy ===== *)
theory Vendor_Seg
  imports Vz_Api Net_Util Radius_Private
begin

text \<open>
  The segments that the client sends about itself, \<open>tuanzi/src/rgprivateproc.cpp\<close>: each writer gets the
  memory from its pointer on, and gives it back with the length that it reports; the packet is what
  \<open>GET_FIELD\<close> makes of a list of writers. The configuration that they read is a record. \<open>None\<close> is an
  access outside of a buffer.
\<close>

text \<open>
  \<open>se_version_gbk\<close> is what the conversion of the program name leaves at its target, \<open>se_service_gbk\<close> and
  the two password buffers are those of \<open>GetServiceName\<close>, \<open>GetUserPasswd\<close> and \<open>GetUserPasswd4Peap\<close> after
  the conversion, \<open>se_resolv\<close> is \<open>/etc/resolv.conf\<close>, and the last fields are the arguments of \<open>Vz_API\<close>.
\<close>

record seg_env =
  se_dhcp :: DHCPIPInfo
  se_auth_step :: byte
  se_major :: u32
  se_minor :: u32
  se_program_gbk :: "byte list"
  se_public_service :: "byte list"
  se_service_gbk :: "byte list"
  se_username :: "byte list"
  se_password_128 :: "byte list"
  se_password_512 :: "byte list"
  se_resolv :: "byte list option"
  se_diskid :: "byte list"
  se_domain :: "byte list"
  se_version :: "byte list"
  se_chal :: "byte list"
  se_vz :: vz_env
  se_appdata :: "byte list"
  se_dlldata :: "byte list"
  se_rand :: "nat \<Rightarrow> nat"

type_synonym writer = "seg_env \<Rightarrow> byte list \<Rightarrow> (byte list \<times> nat) option"

text \<open>\<open>buf[len++] = b\<close> for each byte, from the start of the field.\<close>

definition put :: "byte list \<Rightarrow> byte list \<Rightarrow> (byte list \<times> nat) option" where
  "put buf bs = map_option (\<lambda>b. (b, length bs)) (store_at buf 0 bs)"

definition cstr :: "byte list \<Rightarrow> byte list" where
  "cstr s = takeWhile (\<lambda>c. c \<noteq> 0) s"

definition GetAlternateDNS :: writer where
  "GetAlternateDNS e buf = do {
     (tmpbuf, tmpbuflen) \<leftarrow> get_alternate_dns (se_resolv e) (replicate 253 0) 253;
     bytes \<leftarrow> read_at tmpbuf 0 tmpbuflen;
     put buf ([0x76, of_nat tmpbuflen] @ bytes)
   }"

definition GetClientOSBits :: writer where
  "GetClientOSBits e buf = put buf [0x70, 0x01, 64]"

definition GetClientReleaseVersion :: writer where
  "GetClientReleaseVersion e buf = do {
     buf \<leftarrow> store_at buf 0 [0x6F, of_nat (length (se_version e)) + 1];
     buf \<leftarrow> store_at buf 2 (cstr (se_version e) @ [0]);
     buf \<leftarrow> store_at buf (2 + length (se_version e)) [0];
     Some (buf, 2 + length (se_version e) + 1)
   }"

text \<open>
  \<open>EncapProgrammName\<close> converts the name into the target, of which it takes the size of the pointer, and
  then clears the target and copies its empty local buffer.
\<close>

definition EncapProgrammName :: "byte list \<Rightarrow> byte list \<Rightarrow> byte list option" where
  "EncapProgrammName program_gbk buf = do {
     buf \<leftarrow> store_at buf 0 (take 8 program_gbk);
     buf \<leftarrow> store_at buf 0 (replicate 32 0);
     tmpbuf \<leftarrow> c_string (replicate 128 0);
     if length tmpbuf < 32 then store_at buf 0 tmpbuf else Some buf
   }"

definition EncapUCharVersionNumber :: "u32 \<Rightarrow> u32 \<Rightarrow> byte list \<Rightarrow> byte list option" where
  "EncapUCharVersionNumber major minor buf = do {
     buf \<leftarrow> store_at buf 0 (replicate 4 0);
     store_at buf 0 [ucast major, ucast minor, 1, 2]
   }"

definition GetClientVersion :: writer where
  "GetClientVersion e buf = do {
     buf \<leftarrow> store_at buf 0 [0x11, 0x24];
     name \<leftarrow> EncapProgrammName (se_program_gbk e) (drop 2 buf);
     let buf = take 2 buf @ name;
     version \<leftarrow> EncapUCharVersionNumber (se_major e) (se_minor e) (drop 34 buf);
     Some (take 34 buf @ version, 38)
   }"

text \<open>\<open>CContextControlThread::GetDHCPAuthStep\<close>, called twice.\<close>

definition GetDHCPAuthStep :: "bool \<Rightarrow> bool \<Rightarrow> bool \<Rightarrow> nat \<Rightarrow> nat" where
  "GetDHCPAuthStep ruijie_nas wired_md5 dhcp_auth dhcp_auth_step =
     (if ruijie_nas \<and> wired_md5 \<and> dhcp_auth
      then (if dhcp_auth_step \<noteq> 1 \<and> dhcp_auth_step \<noteq> 2 then 1 else dhcp_auth_step)
      else 0)"

definition GetDHCPAuthPhase :: writer where
  "GetDHCPAuthPhase e buf = (if se_auth_step e = 0 then Some (buf, 0) else put buf [0x63, 0x01, se_auth_step e])"

definition GetDirectCommunicationHighestVersion :: writer where
  "GetDirectCommunicationHighestVersion e buf = put buf [0x79, 0x01, 0x02]"

text \<open>\<open>std::max(diskid.length(), 64ul)\<close> in a byte, and as many bytes of the string and its NUL.\<close>

definition GetHardDiskSN :: writer where
  "GetHardDiskSN e buf = do {
     let n = (of_nat (max (length (se_diskid e)) 64) :: byte);
     buf \<leftarrow> store_at buf 0 [0x54, n];
     bytes \<leftarrow> read_at (se_diskid e @ [0]) 0 (unat n);
     buf \<leftarrow> store_at buf 2 bytes;
     Some (buf, 2 + unat n)
   }"

definition GetIPDClientRunResult :: writer where
  "GetIPDClientRunResult e buf = Some (buf, 0)"

definition GetIPv4Info :: writer where
  "GetIPv4Info e buf =
     (let info = se_dhcp e in
      put buf ([0x50, 0x11] @ (if dhcp_enabled info then replicate 4 0 else bytes_be32 (ip4_ipaddr info)) @
        bytes_be32 (ip4_netmask info) @ bytes_be32 (gateway info) @ bytes_be32 (dns info) @
        [if dhcp_enabled info then 1 else 0]))"

definition GetIPv4InfoForPeap :: writer where
  "GetIPv4InfoForPeap e buf =
     (let info = se_dhcp e in
      put buf ([0x50, 0x11] @ (if dhcp_enabled info then replicate 4 0 else bytes_be32 (ip4_ipaddr info)) @
        bytes_be32 (ip4_netmask info) @ bytes_be32 (gateway info) @ bytes_be32 (dns info) @
        [if dhcp_enabled info then 1 else 0]))"

definition ipv6_given :: "byte list \<Rightarrow> bool" where
  "ipv6_given a \<longleftrightarrow> a ! 0 \<noteq> 0 \<and> a ! 1 \<noteq> 0"

definition GetIPv6Info :: writer where
  "GetIPv6Info e buf =
     (let info = se_dhcp e in
      if ipaddr6_count info = 0 then Some (buf, 0)
      else put buf ([0x35, 0x01, ucast (ipaddr6_count info)] @
        (if ipv6_given (ip6_link_local_ipaddr info) then [0x38, 0x10] @ ip6_link_local_ipaddr info else []) @
        (if ipv6_given (ip6_ipaddr info) then [0x4E, 0x10] @ ip6_ipaddr info else []) @
        [0x36, 0x10] @ ip6_my_ipaddr info))"

definition GetMACAddr :: writer where
  "GetMACAddr e buf = put buf ([0x2D, 0x06] @ adapter_mac (se_dhcp e))"

definition GetHIRusultByLocal :: byte where
  "GetHIRusultByLocal = 0"

definition GetSecCheckResult :: writer where
  "GetSecCheckResult e buf = put buf [0x62, 0x01, GetHIRusultByLocal]"

text \<open>The length stays that of the header: \<open>strcpy\<close> does not move \<open>len\<close>.\<close>

definition GetSecDomainName :: writer where
  "GetSecDomainName e buf =
     (if se_domain e = [] then Some (buf, 0)
      else do {
        buf \<leftarrow> store_at buf 0 [0x55, of_nat (length (se_domain e))];
        buf \<leftarrow> store_at buf 2 (cstr (se_domain e) @ [0]);
        Some (buf, 2)
      })"

definition GetServiceName :: writer where
  "GetServiceName e buf =
     (if se_public_service e = [] then Some (buf, 0)
      else do {
        buf \<leftarrow> store_at buf 0 [0x39, 0x20];
        name \<leftarrow> c_string (se_service_gbk e);
        buf \<leftarrow> store_at buf 2 name;
        Some (buf, 34)
      })"

definition GetUserPasswd_writer :: "'u::len word MD5_CTX \<Rightarrow> writer" where
  "GetUserPasswd_writer ctx e buf = GetUserPasswd ctx (se_username e) (se_chal e) (se_password_128 e) buf"

text \<open>\<open>GetUserPasswd4Peap\<close> also overwrites the challenge.\<close>

definition peap_challenge :: "byte list" where
  "peap_challenge = map of_char ''!jierui9002pmsus''"

definition GetUserPasswd4Peap :: "'u::len word MD5_CTX \<Rightarrow> writer" where
  "GetUserPasswd4Peap ctx e buf = do {
     s \<leftarrow> c_string (se_password_512 e);
     let password_len = unat (passwd_blocks (of_nat (length s)));
     buf \<leftarrow> store_at buf 0 [0x5F, of_nat password_len];
     out \<leftarrow> RadiusEncrpytPwd ctx (se_username e) (Some peap_challenge) 16 (Some (se_password_512 e)) password_len (drop 2 buf);
     Some (take 2 buf @ out, 2 + password_len)
   }"

definition GetV3SegmentHash :: "'u::len itself \<Rightarrow> writer" where
  "GetV3SegmentHash u e buf = do {
     buf \<leftarrow> store_at buf 0 [0x4D, 0x80];
     out \<leftarrow> Vz_API u (se_vz e) (se_appdata e) (se_dlldata e) (se_rand e) (drop 2 buf) (se_chal e);
     Some (take 2 buf @ out, 130)
   }"

definition GetV3SegmentHash4Peap :: "'u::len itself \<Rightarrow> writer" where
  "GetV3SegmentHash4Peap u e buf = do {
     buf \<leftarrow> store_at buf 0 [0x60, 0x80];
     out \<leftarrow> Vz_API u (se_vz e) (se_appdata e) (se_dlldata e) (se_rand e) (drop 2 buf) (se_chal e);
     Some (take 2 buf @ out, 130)
   }"

text \<open>\<open>GET_FIELD\<close>, and the packet as a list of writers.\<close>

fun get_fields :: "writer list \<Rightarrow> seg_env \<Rightarrow> byte list \<Rightarrow> nat \<Rightarrow> (byte list \<times> nat) option" where
  "get_fields [] e buf len = Some (buf, len)"
| "get_fields (f # fs) e buf len =
     (if length buf < len then None
      else do {
        (rest, field_len) \<leftarrow> f e (drop len buf);
        get_fields fs e (take len buf @ rest) (len + field_len)
      })"

definition EncapRGVerdorSeg :: "'u::len word MD5_CTX \<Rightarrow> writer" where
  "EncapRGVerdorSeg ctx e buf = get_fields
     [GetClientVersion, GetIPv4Info, GetMACAddr, GetDHCPAuthPhase, GetIPv6Info, GetServiceName, GetUserPasswd_writer ctx,
      GetAlternateDNS, GetV3SegmentHash TYPE('u), GetHardDiskSN, GetSecDomainName, GetSecCheckResult,
      GetIPDClientRunResult, GetClientOSBits, GetClientReleaseVersion, GetDirectCommunicationHighestVersion] e buf 0"

text \<open>
  After \<open>GetUserPasswd4Peap\<close> the challenge is the fixed one. \<open>EncapRGVerdorSegForEapHost\<close> asks the system
  whether it uses DHCP.
\<close>

definition after_password :: "seg_env \<Rightarrow> seg_env" where
  "after_password e = e\<lparr>se_chal := peap_challenge\<rparr>"

definition EncapRGVerdorSegForEapHost :: "'u::len word MD5_CTX \<Rightarrow> bool \<Rightarrow> writer" where
  "EncapRGVerdorSegForEapHost ctx system_dhcp e buf = do {
     (buf, len) \<leftarrow> get_fields
       ([GetClientVersion] @ (if system_dhcp then [GetIPv4InfoForPeap] else []) @
        [GetMACAddr, GetDHCPAuthPhase, GetIPv6Info, GetServiceName, GetUserPasswd4Peap ctx]) e buf 0;
     get_fields [GetV3SegmentHash4Peap TYPE('u), GetHardDiskSN, GetSecDomainName, GetSecCheckResult, GetIPDClientRunResult,
       GetClientOSBits, GetClientReleaseVersion, GetDirectCommunicationHighestVersion] (after_password e) buf len
   }"

definition EncapRGVerdorSegForPeap :: "'u::len word MD5_CTX \<Rightarrow> writer" where
  "EncapRGVerdorSegForPeap ctx e buf = do {
     (buf, len) \<leftarrow> get_fields
       [GetClientVersion, GetIPv4InfoForPeap, GetMACAddr, GetDHCPAuthPhase, GetIPv6Info, GetServiceName, GetAlternateDNS,
        GetUserPasswd4Peap ctx] e buf 0;
     get_fields [GetV3SegmentHash4Peap TYPE('u), GetHardDiskSN, GetSecDomainName, GetSecCheckResult, GetIPDClientRunResult,
       GetDirectCommunicationHighestVersion] (after_password e) buf len
   }"

subsection \<open>Writers of whole segments\<close>

abbreviation segs_bytes :: "segment list \<Rightarrow> byte list" where
  "segs_bytes segs \<equiv> concat (map enc_segment segs)"

text \<open>A writer that fills the front of its memory with segments and reports their length.\<close>

definition framed :: "writer \<Rightarrow> seg_env \<Rightarrow> segment list \<Rightarrow> bool" where
  "framed w e segs \<longleftrightarrow> (\<forall>buf. length (segs_bytes segs) + 130 \<le> length buf \<longrightarrow>
     w e buf = Some (segs_bytes segs @ drop (length (segs_bytes segs)) buf, length (segs_bytes segs)))"

lemma put_segments: "n = length bs \<Longrightarrow> n \<le> length buf \<Longrightarrow> put buf bs = Some (bs @ drop n buf, n)"
  by (simp add: put_def store_at_def memcpy_def)

lemma framed_put: "(\<And>buf. w e buf = put buf (segs_bytes segs)) \<Longrightarrow> framed w e segs"
  by (simp add: framed_def put_segments)

lemma framed_none: "(\<And>buf. w e buf = Some (buf, 0)) \<Longrightarrow> framed w e []"
  by (simp add: framed_def)

lemma get_fields_framed:
  assumes "list_all2 (\<lambda>f segs. framed f e segs) fs segss" and "length (pre @ segs_bytes (concat segss)) + 130 \<le> length (pre @ buf)"
  shows "get_fields (fs @ gs) e (pre @ buf) (length pre) =
    get_fields gs e ((pre @ segs_bytes (concat segss)) @ drop (length (segs_bytes (concat segss))) buf) (length (pre @ segs_bytes (concat segss)))"
  using assms
proof (induction fs segss arbitrary: pre buf rule: list_all2_induct)
  case (Cons f fs segs segss)
  have "f e buf = Some (segs_bytes segs @ drop (length (segs_bytes segs)) buf, length (segs_bytes segs))"
    using Cons.hyps(1) Cons.prems by (auto simp: framed_def)
  then have "get_fields ((f # fs) @ gs) e (pre @ buf) (length pre) =
      get_fields (fs @ gs) e ((pre @ segs_bytes segs) @ drop (length (segs_bytes segs)) buf) (length (pre @ segs_bytes segs))"
    by simp
  also have "\<dots> = get_fields gs e (((pre @ segs_bytes segs) @ segs_bytes (concat segss)) @ drop (length (segs_bytes (concat segss))) (drop (length (segs_bytes segs)) buf))
      (length ((pre @ segs_bytes segs) @ segs_bytes (concat segss)))"
    by (rule Cons.IH) (use Cons.prems in simp)
  finally show ?case by (simp add: add.commute)
qed simp

definition ipv4_segment :: "DHCPIPInfo \<Rightarrow> segment" where
  "ipv4_segment info = (0x50, (if dhcp_enabled info then replicate 4 0 else bytes_be32 (ip4_ipaddr info)) @
     bytes_be32 (ip4_netmask info) @ bytes_be32 (gateway info) @ bytes_be32 (dns info) @ [if dhcp_enabled info then 1 else 0])"

definition ipv6_segments :: "DHCPIPInfo \<Rightarrow> segment list" where
  "ipv6_segments info =
     (if ipaddr6_count info = 0 then []
      else [(0x35, [ucast (ipaddr6_count info)])] @
        (if ipv6_given (ip6_link_local_ipaddr info) then [(0x38, ip6_link_local_ipaddr info)] else []) @
        (if ipv6_given (ip6_ipaddr info) then [(0x4E, ip6_ipaddr info)] else []) @
        [(0x36, ip6_my_ipaddr info)])"

definition version_segment :: "seg_env \<Rightarrow> segment" where
  "version_segment e = (0x11, replicate 32 0 @ [ucast (se_major e), ucast (se_minor e), 1, 2])"

definition dhcp_ok :: "DHCPIPInfo \<Rightarrow> bool" where
  "dhcp_ok info \<longleftrightarrow> length (adapter_mac info) = 6 \<and> length (ip6_my_ipaddr info) = 16 \<and>
     length (ip6_link_local_ipaddr info) = 16 \<and> length (ip6_ipaddr info) = 16"

lemma framed_simple:
  assumes "dhcp_ok (se_dhcp e)"
  shows "framed GetIPv4Info e [ipv4_segment (se_dhcp e)]" "framed GetIPv4InfoForPeap e [ipv4_segment (se_dhcp e)]"
    "framed GetMACAddr e [(0x2D, adapter_mac (se_dhcp e))]"
    "framed GetIPv6Info e (ipv6_segments (se_dhcp e))"
    "framed GetDHCPAuthPhase e (if se_auth_step e = 0 then [] else [(0x63, [se_auth_step e])])"
    "framed GetSecCheckResult e [(0x62, [0])]" "framed GetIPDClientRunResult e []" "framed GetClientOSBits e [(0x70, [64])]"
    "framed GetDirectCommunicationHighestVersion e [(0x79, [2])]"
proof -
  note defs = Let_def enc_segment_def ipv4_segment_def ipv6_segments_def dhcp_ok_def len_simps
  show "framed GetIPv4Info e [ipv4_segment (se_dhcp e)]" "framed GetIPv4InfoForPeap e [ipv4_segment (se_dhcp e)]"
    by (rule framed_put, simp add: GetIPv4Info_def GetIPv4InfoForPeap_def defs)+
  show "framed GetMACAddr e [(0x2D, adapter_mac (se_dhcp e))]"
    using assms by (intro framed_put) (simp add: GetMACAddr_def defs)
  show "framed GetIPv6Info e (ipv6_segments (se_dhcp e))"
  proof (cases "ipaddr6_count (se_dhcp e) = 0")
    case True
    then show ?thesis by (simp add: ipv6_segments_def) (rule framed_none, simp add: GetIPv6Info_def)
  next
    case False
    then show ?thesis using assms by (intro framed_put) (simp add: GetIPv6Info_def defs)
  qed
  show "framed GetDHCPAuthPhase e (if se_auth_step e = 0 then [] else [(0x63, [se_auth_step e])])"
    by (cases "se_auth_step e = 0") (simp_all, rule framed_none, simp add: GetDHCPAuthPhase_def,
      rule framed_put, simp add: GetDHCPAuthPhase_def defs)
  show "framed GetSecCheckResult e [(0x62, [0])]" "framed GetClientOSBits e [(0x70, [64])]" "framed GetDirectCommunicationHighestVersion e [(0x79, [2])]"
    by (rule framed_put, simp add: GetSecCheckResult_def GetHIRusultByLocal_def GetClientOSBits_def GetDirectCommunicationHighestVersion_def defs)+
  show "framed GetIPDClientRunResult e []" by (rule framed_none) (simp add: GetIPDClientRunResult_def)
qed

lemma store_at_front: "store_at buf 0 bs = (if length bs \<le> length buf then Some (bs @ drop (length bs) buf) else None)"
  by (simp add: store_at_def memcpy_def)

lemma EncapProgrammName_zeros:
  "length name \<le> 32 \<Longrightarrow> 32 \<le> length buf \<Longrightarrow> EncapProgrammName name buf = Some (replicate 32 0 @ drop 32 buf)"
proof -
  assume a: "length name \<le> 32" "32 \<le> length buf"
  have "c_string (replicate 128 0) = Some []" by (simp add: c_string_def takeWhile_replicate)
  then show ?thesis using a by (simp add: EncapProgrammName_def store_at_front)
qed

lemma EncapUCharVersionNumber_bytes:
  "4 \<le> length buf \<Longrightarrow> EncapUCharVersionNumber major minor buf = Some ([ucast major, ucast minor, 1, 2] @ drop 4 buf)"
  by (simp add: EncapUCharVersionNumber_def store_at_front numeral_eq_Suc)

lemma framed_GetClientVersion: "length (se_program_gbk e) \<le> 32 \<Longrightarrow> framed GetClientVersion e [version_segment e]"
  by (simp add: framed_def GetClientVersion_def store_at_front EncapProgrammName_zeros EncapUCharVersionNumber_bytes
      version_segment_def enc_segment_def)

lemma framed_GetServiceName: "se_public_service e = [] \<Longrightarrow> framed GetServiceName e []"
  by (rule framed_none) (simp add: GetServiceName_def)

lemma framed_GetAlternateDNS:
  "get_alternate_dns (se_resolv e) (replicate 253 0) 253 = Some (tmp, n) \<Longrightarrow> n \<le> length tmp \<Longrightarrow>
     framed GetAlternateDNS e [(0x76, take n tmp)]"
  by (rule framed_put) (simp add: GetAlternateDNS_def read_at_def enc_segment_def min_def)

lemma framed_GetClientReleaseVersion:
  assumes "0 \<notin> set (se_version e)"
  shows "framed GetClientReleaseVersion e [(0x6F, se_version e @ [0])]"
  unfolding framed_def
proof (intro allI impI)
  fix buf :: "byte list"
  define v a where "v = se_version e" and "a = (of_nat (length v) + 1 :: byte)"
  assume "length (segs_bytes [(0x6F, se_version e @ [0])]) + 130 \<le> length buf"
  then have room: "length v + 3 \<le> length buf" by (simp add: enc_segment_def v_def)
  have v: "cstr v = v" using assms by (auto simp: cstr_def v_def takeWhile_eq_all_conv)
  have a: "a = of_nat (length (v @ [0 :: byte]))" by (simp add: a_def)
  have "store_at buf 0 [0x6F, a] = Some ([0x6F, a] @ drop 2 buf)" using room by (simp add: store_at_front numeral_2_eq_2)
  moreover have "store_at ([0x6F, a] @ drop 2 buf) 2 (v @ [0]) = Some ([0x6F, a] @ v @ [0] @ drop (length v + 3) buf)"
    using room by (simp add: store_at_def memcpy_def numeral_eq_Suc)
  moreover have "store_at ([0x6F, a] @ v @ [0] @ drop (length v + 3) buf) (2 + length v) [0] = Some ([0x6F, a] @ v @ [0] @ drop (length v + 3) buf)"
    using room by (simp add: store_at_def memcpy_def)
  ultimately have "GetClientReleaseVersion e buf = Some ([0x6F, a] @ v @ [0] @ drop (length v + 3) buf, 2 + length v + 1)"
    by (simp only: GetClientReleaseVersion_def v Option.bind.simps flip: v_def a_def)
  then show "GetClientReleaseVersion e buf = Some (segs_bytes [(0x6F, se_version e @ [0])] @
      drop (length (segs_bytes [(0x6F, se_version e @ [0])])) buf, length (segs_bytes [(0x6F, se_version e @ [0])]))"
    by (simp add: enc_segment_def a numeral_3_eq_3 flip: v_def)
qed

lemma framed_HardDiskSN:
  assumes "64 \<le> length (se_diskid e)" and "length (se_diskid e) < 256"
  shows "framed GetHardDiskSN e [(0x54, se_diskid e)]"
  unfolding framed_def
proof (intro allI impI)
  fix buf :: "byte list"
  define d where "d = se_diskid e"
  assume "length (segs_bytes [(0x54, se_diskid e)]) + 130 \<le> length buf"
  then have room: "length d + 2 \<le> length buf" by (simp add: enc_segment_def d_def)
  have n: "unat (of_nat (length d) :: byte) = length d" using assms(2) by (simp add: unat_of_nat_small d_def)
  have "read_at (d @ [0]) 0 (length d) = Some d" by (simp add: read_at_def)
  moreover have "store_at buf 0 [0x54, of_nat (length d)] = Some ([0x54, of_nat (length d)] @ drop 2 buf)"
    using room by (simp add: store_at_front numeral_2_eq_2)
  moreover have "store_at ([0x54, of_nat (length d)] @ drop 2 buf) 2 d = Some ([0x54, of_nat (length d)] @ d @ drop (length d + 2) buf)"
    using room by (simp add: store_at_def memcpy_def numeral_eq_Suc)
  moreover have "max (length d) 64 = length d" using assms(1) by (simp add: d_def)
  ultimately have "GetHardDiskSN e buf = Some ([0x54, of_nat (length d)] @ d @ drop (length d + 2) buf, 2 + length d)"
    by (simp only: GetHardDiskSN_def Let_def n Option.bind.simps flip: d_def)
  then show "GetHardDiskSN e buf = Some (segs_bytes [(0x54, se_diskid e)] @
      drop (length (segs_bytes [(0x54, se_diskid e)])) buf, length (segs_bytes [(0x54, se_diskid e)]))"
    by (simp add: enc_segment_def flip: d_def)
qed

subsection \<open>The packets\<close>

lemma get_fields_overrun: "(\<And>buf. h e buf = None) \<Longrightarrow> h \<in> set fs \<Longrightarrow> get_fields fs e buf len = None"
  by (induction fs arbitrary: buf len) (auto split: bind_splits)

lemma hash_overruns: "GetV3SegmentHash u e buf = None" "GetV3SegmentHash4Peap u e buf = None"
  by (auto simp: GetV3SegmentHash_def GetV3SegmentHash4Peap_def Vz_API_None split: bind_splits)

text \<open>The configuration of the examples.\<close>

definition seg_example :: seg_env where
  "seg_example = \<lparr>se_dhcp = \<lparr>dhcp_enabled = False, ip4_ipaddr = 0x0A000002, ip4_netmask = 0xFFFFFF00, gateway = 0x0A000001, dns = 0x08080808,
       adapter_mac = [1, 2, 3, 4, 5, 6], gateway_mac = replicate 6 0, ipaddr6_count = 0, ip6_my_ipaddr = replicate 16 0,
       ip6_link_local_ipaddr = replicate 16 0, ip6_ipaddr = replicate 16 0, ip6_netmask = replicate 16 0\<rparr>,
     se_auth_step = 0, se_major = 1, se_minor = 30, se_program_gbk = map of_char ''8021x.ex'', se_public_service = [],
     se_service_gbk = replicate 128 0, se_username = [0x75], se_password_128 = [0x61, 0x62, 0x63] @ replicate 125 0,
     se_password_512 = [0x61, 0x62, 0x63] @ replicate 509 0, se_resolv = None,
     se_diskid = map of_char ''WD-1234'', se_domain = map of_char ''dorm'', se_version = map of_char ''1.30'', se_chal = replicate 16 7,
     se_vz = vz_env_blank,
     se_appdata = [], se_dlldata = [], se_rand = id\<rparr>"

lemma EncapRGVerdorSeg_None:
  fixes ctx :: "'u::len word MD5_CTX"
  shows "EncapRGVerdorSeg ctx e buf = None"
  unfolding EncapRGVerdorSeg_def by (rule get_fields_overrun [of "GetV3SegmentHash TYPE('u)"]) (simp_all add: hash_overruns)

text \<open>
  No packet of segments is ever completed: each of the three lists contains the answer of \<open>Vz_API\<close>,
  which writes past its own buffer. The serial number of the disk is read past the end of the string
  whenever it is shorter than 63 characters.
\<close>

theorem vendor_packets_overrun:
  fixes ctx :: "'u::len word MD5_CTX"
  shows "EncapRGVerdorSeg ctx e buf = None \<and> EncapRGVerdorSegForEapHost ctx d e buf = None \<and> EncapRGVerdorSegForPeap ctx e buf = None \<and>
    (length (se_diskid e) < 63 \<longrightarrow> GetHardDiskSN e buf = None)"
proof (intro conjI impI)
  show "EncapRGVerdorSeg ctx e buf = None"
    by (rule EncapRGVerdorSeg_None)
  have peap: "get_fields (GetV3SegmentHash4Peap TYPE('u) # fs) e' b n = None" for fs e' b n
    by (rule get_fields_overrun [of "GetV3SegmentHash4Peap TYPE('u)"]) (simp_all only: hash_overruns list.set insert_iff simp_thms)
  show "EncapRGVerdorSegForEapHost ctx d e buf = None" "EncapRGVerdorSegForPeap ctx e buf = None"
    unfolding EncapRGVerdorSegForEapHost_def EncapRGVerdorSegForPeap_def by (auto simp only: peap split: bind_splits prod.splits)
next
  assume "length (se_diskid e) < 63"
  moreover have "unat (of_nat 64 :: byte) = 64" by simp
  ultimately show "GetHardDiskSN e buf = None"
    by (auto simp: GetHardDiskSN_def Let_def max_def read_at_def split: bind_splits)
qed

theorem vendor_packets_overrun_witness:
  "GetHardDiskSN seg_example (replicate 200 0) = None"
  using vendor_packets_overrun [of "md5_zeroed :: u64 MD5_CTX" seg_example "replicate 200 0" False]
  by (simp add: seg_example_def)

lemma length_ipv6_segments: "dhcp_ok info \<Longrightarrow> length (segs_bytes (ipv6_segments info)) \<le> 57"
  by (simp add: ipv6_segments_def enc_segment_def dhcp_ok_def)

lemma get_fields_one:
  "f e buf = Some (segs_bytes segs @ drop (length (segs_bytes segs)) buf, length (segs_bytes segs)) \<Longrightarrow>
     get_fields (f # fs) e (pre @ buf) (length pre) =
       get_fields fs e ((pre @ segs_bytes segs) @ drop (length (segs_bytes segs)) buf) (length (pre @ segs_bytes segs))"
  by simp

text \<open>
  The fields in front of the answer are segments: with no service chosen, a packet begins with the
  version, the IPv4 configuration, the hardware address, the phase, the IPv6 addresses, the password
  and the name servers, each with its type and its length, in this order and without a gap; the
  server that knows the user name and the challenge can decrypt the password.
\<close>

theorem vendor_fields_segments:
  fixes ctx :: "'u::len word MD5_CTX"
  assumes "32 \<le> LENGTH('u)" and "length (md5_buffer ctx) = 64" and "length (se_username e) \<le> 512" and "length (se_chal e) = 16"
    and pwd: "0 \<notin> set p" "p \<noteq> []" "length p < 128" "se_password_128 e = p @ replicate (128 - length p) 0"
    and dhcp: "dhcp_ok (se_dhcp e)" and "length (se_program_gbk e) \<le> 32" and "se_public_service e = []"
    and dns: "get_alternate_dns (se_resolv e) (replicate 253 0) 253 = Some (tmp, n)" "n \<le> length tmp" "n \<le> 253"
    and room: "700 \<le> length buf"
  shows "\<exists>cipher. (let segs = [version_segment e, ipv4_segment (se_dhcp e), (0x2D, adapter_mac (se_dhcp e))] @
        (if se_auth_step e = 0 then [] else [(0x63, [se_auth_step e])]) @ ipv6_segments (se_dhcp e) @ [(0x2F, cipher), (0x76, take n tmp)]
      in get_fields [GetClientVersion, GetIPv4Info, GetMACAddr, GetDHCPAuthPhase, GetIPv6Info, GetServiceName,
           GetUserPasswd_writer ctx, GetAlternateDNS] e buf 0 =
         Some (segs_bytes segs @ drop (length (segs_bytes segs)) buf, length (segs_bytes segs))) \<and>
    radius_chain (md5_spec TYPE('u)) (se_username e) (se_chal e) (length cipher div 16) cipher = p @ replicate (length cipher - length p) 0"
proof -
  define segss where "segss = [[version_segment e], [ipv4_segment (se_dhcp e)], [(0x2D, adapter_mac (se_dhcp e))],
    if se_auth_step e = 0 then [] else [(0x63, [se_auth_step e])], ipv6_segments (se_dhcp e), []]"
  define front where "front = segs_bytes (concat segss)"
  have front: "length front \<le> 38 + 19 + 8 + 3 + 57"
    using length_ipv6_segments [OF dhcp] dhcp
    by (simp add: front_def segss_def version_segment_def ipv4_segment_def enc_segment_def dhcp_ok_def len_simps)
  have "list_all2 (\<lambda>f segs. framed f e segs) [GetClientVersion, GetIPv4Info, GetMACAddr, GetDHCPAuthPhase, GetIPv6Info, GetServiceName] segss"
    using framed_simple [OF dhcp] assms(10,11) by (simp add: segss_def framed_GetClientVersion framed_GetServiceName)
  from get_fields_framed [OF this, of "[]" buf "[GetUserPasswd_writer ctx, GetAlternateDNS]"]
  have first: "get_fields [GetClientVersion, GetIPv4Info, GetMACAddr, GetDHCPAuthPhase, GetIPv6Info, GetServiceName, GetUserPasswd_writer ctx, GetAlternateDNS] e buf 0 =
      get_fields [GetUserPasswd_writer ctx, GetAlternateDNS] e (front @ drop (length front) buf) (length front)"
    using front room by (simp add: front_def)
  define m where "m = 16 * ((length p + 15) div 16)"
  define rest where "rest = drop (length front) buf"
  have rest: "130 \<le> length rest" using front room by (simp add: rest_def)
  obtain cipher where c: "GetUserPasswd ctx (se_username e) (se_chal e) (se_password_128 e) rest =
      Some ([0x2F, of_nat m] @ cipher @ drop (2 + m) rest, 2 + m)" "length cipher = m" "m \<le> 128"
      "radius_chain (md5_spec TYPE('u)) (se_username e) (se_chal e) (m div 16) cipher = p @ replicate (m - length p) 0"
    using GetUserPasswd_chain [OF assms(1-4) pwd(1-3) rest, of "[]"] by (auto simp: m_def pwd(4))
  have pw: "GetUserPasswd_writer ctx e rest = Some (segs_bytes [(0x2F, cipher)] @ drop (length (segs_bytes [(0x2F, cipher)])) rest, length (segs_bytes [(0x2F, cipher)]))"
    using c(1,2) by (simp add: GetUserPasswd_writer_def enc_segment_def)
  define front' where "front' = front @ segs_bytes [(0x2F, cipher)]"
  have front': "length front' \<le> 125 + 130" using front c by (simp add: front'_def enc_segment_def)
  have second: "get_fields [GetUserPasswd_writer ctx, GetAlternateDNS] e (front @ rest) (length front) =
      get_fields [GetAlternateDNS] e (front' @ drop (length (segs_bytes [(0x2F, cipher)])) rest) (length front')"
    unfolding front'_def by (rule get_fields_one [of "GetUserPasswd_writer ctx", OF pw])
  have third: "framed GetAlternateDNS e [(0x76, take n tmp)]" by (rule framed_GetAlternateDNS [OF dns(1,2)])
  define rest' where "rest' = drop (length (segs_bytes [(0x2F, cipher)])) rest"
  have rest': "rest' = drop (length front') buf" by (simp add: rest'_def rest_def front'_def add.commute)
  define all where "all = concat segss @ [(0x2F, cipher), (0x76, take n tmp)]"
  have "get_fields ([GetAlternateDNS] @ []) e (front' @ rest') (length front') =
      get_fields [] e ((front' @ segs_bytes (concat [[(0x76, take n tmp)]])) @ drop (length (segs_bytes (concat [[(0x76, take n tmp)]]))) rest')
        (length (front' @ segs_bytes (concat [[(0x76, take n tmp)]])))"
    by (rule get_fields_framed) (use third front' room dns in \<open>simp_all add: rest' enc_segment_def\<close>)
  moreover have "front' @ segs_bytes (concat [[(0x76, take n tmp)]]) = segs_bytes all" by (simp add: all_def front'_def front_def)
  moreover have "drop (length (segs_bytes (concat [[(0x76, take n tmp)]]))) rest' = drop (length (segs_bytes all)) buf"
    by (simp add: rest' all_def front'_def front_def add.commute add.left_commute)
  ultimately have "get_fields [GetAlternateDNS] e (front' @ rest') (length front') =
      Some (segs_bytes all @ drop (length (segs_bytes all)) buf, length (segs_bytes all))"
    by (simp only: append_Nil2 get_fields.simps(1))
  from trans [OF first [folded rest_def] trans [OF second [folded rest'_def] this]]
  have "get_fields [GetClientVersion, GetIPv4Info, GetMACAddr, GetDHCPAuthPhase, GetIPv6Info, GetServiceName, GetUserPasswd_writer ctx, GetAlternateDNS] e buf 0 =
      Some (segs_bytes all @ drop (length (segs_bytes all)) buf, length (segs_bytes all))" .
  moreover have all: "all = [version_segment e, ipv4_segment (se_dhcp e), (0x2D, adapter_mac (se_dhcp e))] @
      (if se_auth_step e = 0 then [] else [(0x63, [se_auth_step e])]) @ ipv6_segments (se_dhcp e) @ [(0x2F, cipher), (0x76, take n tmp)]"
    by (simp add: all_def segss_def)
  ultimately show ?thesis using c(4) [folded c(2)] unfolding Let_def all by blast
qed

theorem vendor_fields_segments_witness:
  "\<exists>cipher. get_fields [GetClientVersion, GetIPv4Info, GetMACAddr, GetDHCPAuthPhase, GetIPv6Info, GetServiceName,
       GetUserPasswd_writer (md5_zeroed :: u64 MD5_CTX), GetAlternateDNS] seg_example (replicate 700 0) 0 =
     (let segs = [version_segment seg_example, ipv4_segment (se_dhcp seg_example), (0x2D, [1, 2, 3, 4, 5, 6]), (0x2F, cipher), (0x76, [])]
      in Some (segs_bytes segs @ drop (length (segs_bytes segs)) (replicate 700 0), length (segs_bytes segs)))"
proof -
  have "dhcp_ok (se_dhcp seg_example)" by (simp add: dhcp_ok_def seg_example_def)
  then show ?thesis
    using vendor_fields_segments [of "md5_zeroed :: u64 MD5_CTX" seg_example "[0x61, 0x62, 0x63]" "replicate 253 0" 0 "replicate 700 0"]
    by (simp add: Let_def seg_example_def md5_zeroed_def get_alternate_dns_def ipv6_segments_def del: get_fields.simps) blast
qed

text \<open>
  The writers of strings: \<open>GetSecDomainName\<close> announces the name and reports two bytes, so that the
  next segment is written over the name; \<open>GetServiceName\<close> reports 34 bytes whatever it wrote: a longer
  name reaches past its segment, and behind a shorter one the packet carries what the memory held.
\<close>

theorem vendor_names:
  assumes "0 \<notin> set (se_domain e)" and "se_domain e \<noteq> []" and "length (se_domain e) + 10 \<le> length buf"
    and "se_public_service e \<noteq> []" and "c_string (se_service_gbk e) = Some name" and "length name \<le> 128" and "130 \<le> length buf"
  shows "get_fields [GetSecDomainName, GetSecCheckResult] e buf 0 =
      Some ([0x55, of_nat (length (se_domain e)), 0x62, 1, 0] @ drop 3 (se_domain e @ [0] @ drop (length (se_domain e) + 3) buf), 5)
    \<and> GetServiceName e buf = Some ([0x39, 0x20] @ name @ drop (length name + 2) buf, 34)"
proof
  define d where "d = se_domain e"
  have d: "cstr d = d" "length d + 10 \<le> length buf" using assms(1,3) by (auto simp: cstr_def d_def takeWhile_eq_all_conv)
  define rest where "rest = d @ [0] @ drop (length d + 3) buf"
  have "store_at buf 0 [0x55, of_nat (length d)] = Some ([0x55, of_nat (length d)] @ drop 2 buf)"
    using d by (simp add: store_at_front numeral_2_eq_2)
  moreover have "store_at ([0x55, of_nat (length d)] @ drop 2 buf) 2 (d @ [0]) = Some ([0x55, of_nat (length d)] @ rest)"
    using d by (simp add: store_at_def memcpy_def rest_def numeral_eq_Suc)
  ultimately have dom: "GetSecDomainName e buf = Some ([0x55, of_nat (length d)] @ rest, 2)"
    using assms(2) by (simp only: GetSecDomainName_def d(1) Option.bind.simps if_False flip: d_def)
  have "3 \<le> length rest" using d by (simp add: rest_def)
  then have "GetSecCheckResult e rest = Some ([0x62, 1, 0] @ drop 3 rest, 3)"
    by (simp add: GetSecCheckResult_def GetHIRusultByLocal_def put_def store_at_front numeral_3_eq_3)
  then show "get_fields [GetSecDomainName, GetSecCheckResult] e buf 0 =
      Some ([0x55, of_nat (length (se_domain e)), 0x62, 1, 0] @ drop 3 (se_domain e @ [0] @ drop (length (se_domain e) + 3) buf), 5)"
    using dom by (simp add: numeral_2_eq_2 rest_def d_def)
  have "store_at buf 0 [0x39, 0x20] = Some ([0x39, 0x20] @ drop 2 buf)" using assms(7) by (simp add: store_at_front numeral_2_eq_2)
  moreover have "store_at ([0x39, 0x20] @ drop 2 buf) 2 name = Some ([0x39, 0x20] @ name @ drop (length name + 2) buf)"
    using assms(6,7) by (simp add: store_at_def memcpy_def numeral_eq_Suc)
  ultimately show "GetServiceName e buf = Some ([0x39, 0x20] @ name @ drop (length name + 2) buf, 34)"
    using assms(4) by (simp only: GetServiceName_def assms(5) Option.bind.simps if_False)
qed

theorem vendor_names_witness:
  "get_fields [GetSecDomainName, GetSecCheckResult] (seg_example\<lparr>se_public_service := [0x61], se_service_gbk := [0x61, 0]\<rparr>) (replicate 200 0) 0 =
     Some ([0x55, 4, 0x62, 1, 0] @ [of_char CHR ''m''] @ replicate 194 0, 5)"
proof -
  define e where "e = seg_example\<lparr>se_public_service := [0x61], se_service_gbk := [0x61, 0]\<rparr>"
  have e: "se_domain e = map of_char ''dorm''" "se_public_service e = [0x61]" "se_service_gbk e = [0x61, 0]"
    by (simp_all add: e_def seg_example_def)
  have "0 \<notin> set (se_domain e)" "se_domain e \<noteq> []" "length (se_domain e) + 10 \<le> length (replicate 200 (0 :: byte))"
    "c_string (se_service_gbk e) = Some [0x61]" "se_public_service e \<noteq> []"
    by (simp_all add: e c_string_def of_char_def)
  from vendor_names [OF this(1-3) this(5) this(4)] have
    "get_fields [GetSecDomainName, GetSecCheckResult] e (replicate 200 0) 0 =
      Some ([0x55, of_nat (length (se_domain e)), 0x62, 1, 0] @ drop 3 (se_domain e @ [0] @ drop (length (se_domain e) + 3) (replicate 200 0)), 5)"
    by simp
  then show ?thesis unfolding e_def [symmetric] by (simp only: e) (simp add: numeral_3_eq_3 flip: replicate_Suc)
qed

end
