(* ===== verification/Eapol_Parse.thy ===== *)
theory Eapol_Parse
  imports Radius_Private Net_Util
begin

text \<open>
  Frames from packets, the receiving half of \<open>tuanzi/src/eapolutil.cpp\<close>: \<open>ChangeToEAPOLFrame\<close> with the
  private properties that follow a success or a failure, and \<open>DeleteFrameMemory\<close>; and the functions of
  \<open>rgprivateproc.cpp\<close> that copy properties out of a frame. \<open>pkt\<close> is the memory from the packet on, the
  fields are read at their offsets in \<open>struct eapolpkg\<close> (\<open>stdpkgs.h\<close>). \<open>None\<close> is an access outside of a
  buffer, \<open>Some (_, None)\<close> a null pointer.
\<close>

subsection \<open>Frames\<close>

text \<open>The union: the length of an MD5 value shares its place with the pointer to other data.\<close>

datatype frame_union = Eap_md5_length byte | Eap_notif_data "byte list"

record EAPOLFrame =
  ef_dstaddr :: "byte list"
  ef_srcaddr :: "byte list"
  ef_field_C :: "byte list"
  ef_ether_type :: u16
  ef_version :: byte
  ef_packet_type :: byte
  ef_packet_length :: u16
  ef_code :: byte
  ef_id :: byte
  ef_eap_length :: u16
  ef_field_1C :: u32
  ef_type :: byte
  ef_union :: frame_union
  ef_md5_data :: "byte list option"
  ef_fail_magic :: u32
  ef_fail_length :: u16
  ef_fail_reason :: "byte list"
  ef_upgrade_magic :: u32
  ef_upgrade_type :: u32
  ef_upgrade_length :: u32
  ef_su_newest_ver :: u32
  ef_su_upgrade_url :: "byte list"
  ef_proxy_magic :: u32
  ef_proxy_val :: byte
  ef_proxy_val2 :: byte
  ef_dont_know_magic :: u32
  ef_dont_know_val :: byte
  ef_dont_know_val2 :: byte
  ef_hello_magic :: u32
  ef_hello_val :: byte
  ef_hello_val2 :: byte
  ef_hello_id :: u32
  ef_hello_inv :: u32
  ef_hello_val3 :: byte
  ef_dhcp :: DHCPIPInfo
  ef_field_6C0 :: byte

text \<open>\<open>InitEAPOLFrame\<close> on the memory of a new frame, which keeps the fields that are not assigned.\<close>

definition InitEAPOLFrame :: "EAPOLFrame \<Rightarrow> EAPOLFrame" where
  "InitEAPOLFrame f = f\<lparr>ef_dstaddr := replicate 6 0, ef_srcaddr := replicate 6 0, ef_ether_type := 0, ef_version := 0,
     ef_packet_type := 0, ef_packet_length := 0, ef_code := 0, ef_id := 0, ef_eap_length := 0, ef_type := 0,
     ef_md5_data := None, ef_union := Eap_md5_length 0, ef_fail_magic := 0, ef_fail_length := 0,
     ef_fail_reason := replicate 1500 0,
     ef_dhcp := (ef_dhcp f)\<lparr>dhcp_enabled := False, ip4_ipaddr := 0, ip4_netmask := 0, gateway := 0, dns := 0\<rparr>\<rparr>"

text \<open>
  The conversions from GBK: into a string, and into an array of which so many bytes are left.
\<close>

record conversions =
  gbk_string :: "byte list \<Rightarrow> byte list"
  gbk_array :: "nat \<Rightarrow> byte list \<Rightarrow> byte list"

subsection \<open>The private properties\<close>

type_synonym parse_state = "ctrl_state \<times> EAPOLFrame"

text \<open>
  The switch over the type of a property: \<open>Inl\<close> is \<open>return\<close>, \<open>Inr\<close> goes on. \<open>n\<close> is the length byte and \<open>pos\<close>
  the position of the data.
\<close>

type_synonym case_result = "(parse_state + parse_state) option"

definition upd_props :: "(SuRadiusPrivate \<Rightarrow> SuRadiusPrivate) \<Rightarrow> parse_state \<Rightarrow> parse_state" where
  "upd_props f st = (with_props f (fst st), snd st)"

definition prop_number :: "bool \<Rightarrow> byte list \<Rightarrow> nat \<Rightarrow> nat \<Rightarrow> nat \<Rightarrow> (u32 \<Rightarrow> parse_state \<Rightarrow> parse_state) \<Rightarrow> parse_state \<Rightarrow> case_result" where
  "prop_number bounded buf len pos n f st =
     (if n \<noteq> 6 \<or> (bounded \<and> len < pos + 4) then Some (Inl st)
      else do { v \<leftarrow> be32_at buf pos; Some (Inr (f v st)) })"

definition prop_text :: "byte list \<Rightarrow> nat \<Rightarrow> nat \<Rightarrow> nat \<Rightarrow> (byte list \<Rightarrow> SuRadiusPrivate \<Rightarrow> SuRadiusPrivate) \<Rightarrow> parse_state \<Rightarrow> case_result" where
  "prop_text buf len pos n f st =
     (if len < n - 2 + pos then Some (Inl st)
      else do { b \<leftarrow> read_at buf pos (n - 2); Some (Inr (upd_props (f b) st)) })"

definition prop_key :: "byte list \<Rightarrow> nat \<Rightarrow> nat \<Rightarrow> nat \<Rightarrow> (byte list \<Rightarrow> SuRadiusPrivate \<Rightarrow> SuRadiusPrivate) \<Rightarrow> parse_state \<Rightarrow> case_result" where
  "prop_key buf len pos n f st =
     (if n \<noteq> 10 \<or> len < pos + 8 then Some (Inl st)
      else do { b \<leftarrow> read_at buf pos 8; k \<leftarrow> RC4 b rc4_key; Some (Inr (upd_props (f k) st)) })"

text \<open>
  \<open>0x5E\<close> copies to the number \<open>server_utc_time\<close> as an address; it has just been set to zero, and a write
  through a null pointer is \<open>None\<close>.
\<close>

definition property_case :: "conversions \<Rightarrow> byte list \<Rightarrow> nat \<Rightarrow> nat \<Rightarrow> nat \<Rightarrow> byte \<Rightarrow> nat \<Rightarrow> parse_state \<Rightarrow> case_result" where
  "property_case v buf len fail_len pos t n st =
     (if t = 0x37 then
        (if len < n - 2 + pos then Some (Inl st)
         else do {
           b \<leftarrow> read_at buf pos (n - 2);
           Some (Inr (fst st, (snd st)\<lparr>ef_upgrade_type := ucast t, ef_upgrade_length := of_nat (n - 2),
             ef_su_upgrade_url := gbk_string v b\<rparr>))
         })
      else if t = 0x3C \<or> t = 0x3D then do {
        reason \<leftarrow> store_at (ef_fail_reason (snd st)) fail_len [0x0D, 0x0A];
        b \<leftarrow> read_at buf pos (n - 2);
        reason \<leftarrow> store_at reason (fail_len + 2) (gbk_array v (1500 - fail_len - 2) b);
        Some (Inr (fst st, (snd st)\<lparr>ef_fail_reason := reason\<rparr>))
      }
      else if t = 0x56 then
        prop_number True buf len pos n (\<lambda>v st. ((fst st)\<lparr>autoreconnect := v, is_autoreconnect := v \<noteq> 0\<rparr>, snd st)) st
      else if t = 0x59 then prop_number False buf len pos n (\<lambda>v. upd_props (\<lambda>p. p\<lparr>hello_interv := v\<rparr>)) st
      else if t = 0x5A then prop_number True buf len pos n (\<lambda>v. upd_props (\<lambda>p. p\<lparr>indicate_port := v\<rparr>)) st
      else if t = 0x5B then prop_number True buf len pos n (\<lambda>v. upd_props (\<lambda>p. p\<lparr>indicate_serv_ip := v\<rparr>)) st
      else if t = 0x5C then prop_key buf len pos n (\<lambda>k p. p\<lparr>encrypt_key := k\<rparr>) st
      else if t = 0x5D then prop_key buf len pos n (\<lambda>k p. p\<lparr>encrypt_iv := k\<rparr>) st
      else if t = 0x5E then (if n \<noteq> 10 \<or> len < pos + 8 then Some (Inl st) else None)
      else if t = 0x61 then
        (if n \<noteq> 3 \<or> len < pos + 1 then Some (Inl st)
         else do {
           b \<leftarrow> byte_at buf pos;
           let s = SetRadiusServer (ucast b) (with_props (\<lambda>p. p\<lparr>radius_type := ucast b\<rparr>) (fst st));
           Some (Inr (s\<lparr>field_1149 := False\<rparr>, snd st))
         })
      else if t = 0x65 then prop_text buf len pos n (\<lambda>b p. p\<lparr>svr_switch_result := b\<rparr>) st
      else if t = 0x66 then
        (if len < n - 2 + pos \<or> n = 2 then Some (Inl st)
         else do { b \<leftarrow> read_at buf pos (n - 2); s \<leftarrow> new_services (gbk_string v) b (fst st); Some (Inr (s, snd st)) })
      else if t = 0x68 then
        (if len < n - 2 + pos then Some (Inl st) else if n = 2 then Some (Inr st)
         else prop_text buf len pos n (\<lambda>b p. p\<lparr>user_login_url := b\<rparr>) st)
      else if t = 0x6E then prop_number True buf len pos n (\<lambda>v. upd_props (\<lambda>p. p\<lparr>msg_client_port := v\<rparr>)) st
      else if t = 0x72 then
        (if n = 2 then Some (Inr st)
         else do { b \<leftarrow> read_at buf pos (n - 2); Some (Inr (upd_props (\<lambda>p. p\<lparr>utrust_url := b\<rparr>) st)) })
      else if t = 0x74 then prop_number False buf len pos n (\<lambda>v. upd_props (\<lambda>p. p\<lparr>proxy_dectect_kinds := v\<rparr>)) st
      else if t = 0x77 then
        (if n \<noteq> 5 then Some (Inr st)
         else do {
           b \<leftarrow> byte_at buf pos;
           d \<leftarrow> be16_at buf (pos + 1);
           Some (Inr (upd_props (\<lambda>p. p\<lparr>is_show_utrust_url := ucast b, delay_second_show_utrust_url := ucast d\<rparr>) st))
         })
      else if t = 0x79 then
        (if n \<noteq> 3 \<or> len < pos + 1 then Some (Inl st)
         else do { b \<leftarrow> byte_at buf pos; Some (Inr (upd_props (\<lambda>p. p\<lparr>direct_communication_highest_version_supported := b\<rparr>) st)) })
      else if t = 0x80 then
        (if n \<noteq> 6 \<or> len < pos + 4 then Some (Inl st)
         else do { b \<leftarrow> byte_at buf pos; Some (Inr (upd_props (\<lambda>p. p\<lparr>direct_comm_heartbeat_flags := ucast b\<rparr>) st)) })
      else Some (Inr st))"

function property_loop :: "conversions \<Rightarrow> byte list \<Rightarrow> nat \<Rightarrow> nat \<Rightarrow> nat \<Rightarrow> u32 \<Rightarrow> byte \<Rightarrow> byte \<Rightarrow> parse_state \<Rightarrow> parse_state option" where
  "property_loop v buf len fail_len cur_pos cur_magic cur_type cur_length st =
     (if cur_magic = FIELD_MAGIC \<and> 1 < unat cur_length \<and> len \<noteq> cur_pos \<and> cur_pos + 6 \<le> len
      then case property_case v buf len fail_len cur_pos cur_type (unat cur_length) st of
        None \<Rightarrow> None
      | Some (Inl st) \<Rightarrow> Some st
      | Some (Inr st) \<Rightarrow> do {
          magic \<leftarrow> be32_at buf (cur_pos + (unat cur_length - 2));
          type \<leftarrow> byte_at buf (cur_pos + (unat cur_length - 2) + 4);
          next_length \<leftarrow> byte_at buf (cur_pos + (unat cur_length - 2) + 5);
          property_loop v buf len fail_len (cur_pos + (unat cur_length - 2) + 6) magic type next_length st
        }
      else Some st)"
  by pat_completeness auto
termination
  by (relation "measure (\<lambda>(v, buf, len, fail_len, cur_pos, cur_magic, cur_type, cur_length, st). len - cur_pos)") auto

declare property_loop.simps [simp del]

definition property_run :: "conversions \<Rightarrow> nat \<Rightarrow> byte list \<Rightarrow> nat \<Rightarrow> nat \<Rightarrow> parse_state \<Rightarrow> parse_state option" where
  "property_run v fail_len buf len pos st = do {
     magic \<leftarrow> be32_at buf pos;
     type \<leftarrow> byte_at buf (pos + 4);
     cur_length \<leftarrow> byte_at buf (pos + 5);
     property_loop v buf len fail_len (pos + 6) magic type cur_length st
   }"

text \<open>
  \<open>ParsePrivateProperty\<close> in its stages: the hello parameters with the properties behind them, two flags
  with the same layout, the upgrade information, and the reason of the failure. \<open>v\<close> is the value of a
  byte as a condition.
\<close>

definition flag_byte :: "byte \<Rightarrow> byte" where
  "flag_byte b = (if b = 1 then 1 else 0)"

definition parse_hello_stage :: "conversions \<Rightarrow> byte list \<Rightarrow> nat \<Rightarrow> nat \<Rightarrow> nat \<Rightarrow> parse_state \<Rightarrow> parse_state option" where
  "parse_hello_stage v buf len fail_len cur_pos st = do {
     b \<leftarrow> read_at buf cur_pos 15;
     let hello_buf = decode b;
     let cur_pos = cur_pos + 15;
     magic \<leftarrow> be32_at hello_buf 0;
     if magic \<noteq> FIELD_MAGIC then Some st
     else do {
       id \<leftarrow> be32_at hello_buf 3;
       inv \<leftarrow> be32_at hello_buf 7;
       let fr = (snd st)\<lparr>ef_hello_magic := FIELD_MAGIC, ef_hello_val := hello_buf ! 1, ef_hello_val2 := hello_buf ! 2,
         ef_hello_id := id, ef_hello_inv := 1000 * inv, ef_hello_val3 := hello_buf ! 11\<rparr>;
       if ef_hello_val fr \<noteq> 10 then Some (fst st, fr)
       else let st = (with_props reset_properties (fst st), fr)
         in if len = cur_pos \<or> len < cur_pos + 7 then Some st else property_run v fail_len buf len cur_pos st
     }
   }"

definition parse_dont_know_stage :: "conversions \<Rightarrow> byte list \<Rightarrow> nat \<Rightarrow> nat \<Rightarrow> nat \<Rightarrow> parse_state \<Rightarrow> parse_state option" where
  "parse_dont_know_stage v buf len fail_len cur_pos st = do {
     magic \<leftarrow> be32_at buf cur_pos;
     if magic \<noteq> FIELD_MAGIC then Some st
     else do {
       val \<leftarrow> byte_at buf (cur_pos + 4);
       val2 \<leftarrow> byte_at buf (cur_pos + 5);
       let fr = (snd st)\<lparr>ef_dont_know_magic := FIELD_MAGIC, ef_dont_know_val := flag_byte val, ef_dont_know_val2 := val2\<rparr>;
       if val \<noteq> 1 \<or> 1 < val2 \<or> len < cur_pos + 8 + 15 then Some (fst st, fr)
       else parse_hello_stage v buf len fail_len (cur_pos + 8) (fst st, fr)
     }
   }"

definition parse_proxy_stage :: "conversions \<Rightarrow> byte list \<Rightarrow> nat \<Rightarrow> nat \<Rightarrow> nat \<Rightarrow> parse_state \<Rightarrow> parse_state option" where
  "parse_proxy_stage v buf len fail_len cur_pos st = do {
     magic \<leftarrow> be32_at buf cur_pos;
     if magic \<noteq> FIELD_MAGIC then Some st
     else do {
       val \<leftarrow> byte_at buf (cur_pos + 4);
       val2 \<leftarrow> byte_at buf (cur_pos + 5);
       let fr = (snd st)\<lparr>ef_proxy_magic := FIELD_MAGIC, ef_proxy_val := flag_byte val, ef_proxy_val2 := val2\<rparr>;
       if val \<noteq> 1 \<or> 1 < val2 \<or> len < cur_pos + 8 + 6 then Some (fst st, fr)
       else parse_dont_know_stage v buf len fail_len (cur_pos + 8) (fst st, fr)
     }
   }"

definition parse_upgrade_stage :: "conversions \<Rightarrow> byte list \<Rightarrow> nat \<Rightarrow> nat \<Rightarrow> nat \<Rightarrow> parse_state \<Rightarrow> parse_state option" where
  "parse_upgrade_stage v buf len fail_len cur_pos st = do {
     magic \<leftarrow> be32_at buf cur_pos;
     if magic \<noteq> FIELD_MAGIC then Some st
     else do {
       ver \<leftarrow> be32_at buf (cur_pos + 6);
       count \<leftarrow> byte_at buf (cur_pos + 6 + 104);
       let st = (fst st, (snd st)\<lparr>ef_upgrade_magic := FIELD_MAGIC, ef_su_newest_ver := ver\<rparr>);
       let cur_pos = cur_pos + 6 + 105 + 32 * unat count;
       if len < cur_pos + 6 then Some st else parse_proxy_stage v buf len fail_len cur_pos st
     }
   }"

definition ParsePrivateProperty :: "conversions \<Rightarrow> byte list \<Rightarrow> nat \<Rightarrow> parse_state \<Rightarrow> parse_state option" where
  "ParsePrivateProperty v buf len st =
     (if len < 5 then Some st
      else do {
        magic \<leftarrow> be32_at buf 0;
        if magic \<noteq> FIELD_MAGIC then Some st
        else do {
          n \<leftarrow> be16_at buf 4;
          let fail_len = unat n;
          let fr = (snd st)\<lparr>ef_fail_magic := FIELD_MAGIC\<rparr>;
          if len < fail_len + 6 then Some (fst st, fr)
          else do {
            b \<leftarrow> read_at buf 6 fail_len;
            reason \<leftarrow> store_at (replicate 1500 0) 0 (takeWhile (\<lambda>c. c \<noteq> 0) (gbk_string v b) @ [0]);
            let st = (fst st, fr\<lparr>ef_fail_reason := reason\<rparr>);
            if len < fail_len + 6 + 6 + 105 then Some st
            else parse_upgrade_stage v buf len fail_len (6 + fail_len) st
          }
        }
      })"

subsection \<open>Packets\<close>

text \<open>
  The part of an MD5 challenge behind the value, \<open>private_buf\<close>, in a network of Ruijie switches; numbers
  are unsigned, and the conversion of a negative number of bytes allocates a negative size.
\<close>

definition md5_services :: "conversions \<Rightarrow> byte list \<Rightarrow> nat \<Rightarrow> nat \<Rightarrow> ctrl_state \<Rightarrow> ctrl_state option" where
  "md5_services v private_buf length_arg md5_len s =
     (if length_arg < md5_len + 24 + 6 + 4 + 1 + 1 + 4 + 1 then Some s
      else do {
        b \<leftarrow> byte_at private_buf 11;
        let service_strlen = (ucast b - 2 :: u32);
        if service_strlen = 0 \<or> length_arg < unat (of_nat (24 + md5_len + 6 + 4 + 1 + 1 + 4 + 1) + service_strlen) then Some s
        else do {
          magic \<leftarrow> be32_at private_buf 0;
          t \<leftarrow> byte_at private_buf 4;
          n \<leftarrow> byte_at private_buf 5;
          value \<leftarrow> byte_at private_buf 6;
          let s = (if magic = FIELD_MAGIC \<and> t = 0x2E \<and> n = 0x03 then s\<lparr>field_53B := value \<noteq> 0\<rparr> else s);
          magic \<leftarrow> be32_at private_buf 6;
          t \<leftarrow> byte_at private_buf 10;
          if magic = FIELD_MAGIC \<and> t = 0x66
          then if 2 ^ 31 \<le> service_strlen then None
            else do {
              list \<leftarrow> read_at private_buf (md5_len + 6 + 4 + 1 + 1 + 4 + 1 + unat service_strlen) (unat service_strlen);
              new_services (gbk_string v) list s
            }
          else Some s
        }
      })"

definition ETH_P_PAE :: u16 where "ETH_P_PAE = 0x888E"

definition accepted_addresses :: "byte list \<Rightarrow> byte list \<Rightarrow> byte list \<Rightarrow> bool" where
  "accepted_addresses mac src dst \<longleftrightarrow> \<not> IsLoopBack mac src \<and>
     (IsHostDstMac mac dst \<or> Is8021xGroupAddr dst \<or> IsMulDstMac dst \<or> IsStarGroupDstMac dst)"

text \<open>The data of a request, from the type on.\<close>

definition parse_eap_data ::
  "conversions \<Rightarrow> bool \<Rightarrow> byte list \<Rightarrow> nat \<Rightarrow> ctrl_state \<Rightarrow> EAPOLFrame \<Rightarrow> (ctrl_state \<times> EAPOLFrame option) option" where
  "parse_eap_data v ruijie_nas pkt length_arg s fr = do {
     t \<leftarrow> byte_at pkt 22;
     let fr = fr\<lparr>ef_type := t\<rparr>;
     let plen = unat (ef_packet_length fr);
     if t = 4 then
       if plen \<le> 5 then Some (s, None)
       else do {
         n \<leftarrow> byte_at pkt 23;
         data \<leftarrow> read_at pkt 24 (unat n);
         chal \<leftarrow> read_at pkt 24 16;
         let fr = fr\<lparr>ef_union := Eap_md5_length n, ef_md5_data := Some (data @ [0])\<rparr>;
         let s = s\<lparr>pMd5Chanllenge := chal\<rparr>;
         s \<leftarrow> (if ruijie_nas then md5_services v (drop (24 + unat n) pkt) length_arg (unat n) s
               else if 22 < ef_eap_length fr then ReadRGVendorSeg (gbk_string v) (drop 24 pkt) (unat n) s
               else Some s);
         Some (s, Some fr)
       }
     else if 5 < plen then do {
       data \<leftarrow> read_at pkt 23 (plen - 5);
       Some (s, Some (fr\<lparr>ef_union := Eap_notif_data (data @ [0])\<rparr>))
     }
     else Some (s, Some fr)
   }"

text \<open>An EAP packet: the result of the authentication, or a request.\<close>

definition parse_eap_packet ::
  "conversions \<Rightarrow> bool \<Rightarrow> byte list \<Rightarrow> nat \<Rightarrow> ctrl_state \<Rightarrow> EAPOLFrame \<Rightarrow> (ctrl_state \<times> EAPOLFrame option) option" where
  "parse_eap_packet v ruijie_nas pkt length_arg s fr = do {
     plen \<leftarrow> be16_at pkt 16;
     if plen \<le> 3 then Some (s, None)
     else do {
       code \<leftarrow> byte_at pkt 18;
       id \<leftarrow> byte_at pkt 19;
       elen \<leftarrow> be16_at pkt 20;
       let fr = fr\<lparr>ef_packet_length := plen, ef_code := code, ef_id := id, ef_eap_length := elen\<rparr>;
       if code = 3 \<or> code = 4
       then map_option (\<lambda>(s, fr). (s, Some fr)) (ParsePrivateProperty v (drop 22 pkt) (unat plen - 4) (s, fr))
       else if plen \<le> 4 then Some (s, Some fr)
       else parse_eap_data v ruijie_nas pkt length_arg s fr
     }
   }"

definition ChangeToEAPOLFrame ::
  "conversions \<Rightarrow> bool \<Rightarrow> byte list \<Rightarrow> EAPOLFrame \<Rightarrow> byte list \<Rightarrow> nat \<Rightarrow> ctrl_state \<Rightarrow> (ctrl_state \<times> EAPOLFrame option) option" where
  "ChangeToEAPOLFrame v ruijie_nas mac fresh pkt length_arg s =
     (if length_arg < 18 \<or> 1514 < length_arg then Some (s, None)
      else do {
        dst \<leftarrow> read_at pkt 0 6;
        src \<leftarrow> read_at pkt 6 6;
        let fr = (InitEAPOLFrame fresh)\<lparr>ef_dstaddr := dst, ef_srcaddr := src\<rparr>;
        if \<not> accepted_addresses mac src dst then Some (s, None)
        else do {
          ether_type \<leftarrow> be16_at pkt 12;
          if ether_type \<noteq> ETH_P_PAE then Some (s, None)
          else do {
            version \<leftarrow> byte_at pkt 14;
            packet_type \<leftarrow> byte_at pkt 15;
            let fr = fr\<lparr>ef_ether_type := ether_type, ef_version := version, ef_packet_type := packet_type\<rparr>;
            if version = 1 \<and> (packet_type = 0xC0 \<or> packet_type = 0xBF) then Some (s, Some fr)
            else if packet_type \<noteq> 0 then Some (s, None)
            else parse_eap_packet v ruijie_nas pkt length_arg s fr
          }
        }
      })"

subsection \<open>Out of the frame again\<close>

text \<open>
  What \<open>DeleteFrameMemory\<close> frees: for the type of the frame either the data that the union points to or
  the MD5 value; \<open>None\<close> when that is not a pointer to allocated memory.
\<close>

definition notif_types :: "byte list" where
  "notif_types = [1, 2, 3, 5, 6]"

definition DeleteFrameMemory :: "EAPOLFrame \<Rightarrow> byte list option option" where
  "DeleteFrameMemory fr =
     (if ef_code fr \<noteq> 1 \<and> ef_code fr \<noteq> 2 then Some None
      else if ef_type fr \<in> set notif_types \<and> 5 < ef_packet_length fr
        then (case ef_union fr of Eap_notif_data d \<Rightarrow> Some (Some d) | Eap_md5_length n \<Rightarrow> None)
      else if ef_type fr = 4 \<and> 6 < ef_packet_length fr
        then (case ef_md5_data fr of Some d \<Rightarrow> Some (Some d) | None \<Rightarrow> Some None)
      else Some None)"

definition ParseHello :: "EAPOLFrame \<Rightarrow> SuRadiusPrivate \<Rightarrow> SuRadiusPrivate" where
  "ParseHello fr p =
     (if ef_hello_magic fr \<noteq> FIELD_MAGIC \<or> ef_hello_val fr \<noteq> 10 then p\<lparr>parse_hello := 0\<rparr>
      else if ef_hello_val2 fr \<noteq> 0
        then p\<lparr>parse_hello := 1, parse_hello_inv := ef_hello_inv fr, parse_hello_id := ef_hello_id fr\<rparr>
      else p\<lparr>parse_hello := -1\<rparr>)"

text \<open>\<open>hint\<close> is the text with the number 172, used when \<open>other_authhintenable\<close> is set.\<close>

definition ParseNotification :: "bool \<Rightarrow> byte list \<Rightarrow> EAPOLFrame \<Rightarrow> SuRadiusPrivate \<Rightarrow> SuRadiusPrivate" where
  "ParseNotification authhintenable hint fr p =
     (if ef_fail_magic fr \<noteq> FIELD_MAGIC then p
      else p\<lparr>broadcast_str := (if ef_fail_reason fr ! 0 = 0 \<and> authhintenable then hint
        else takeWhile (\<lambda>c. c \<noteq> 0) (ef_fail_reason fr))\<rparr>)"

definition ParseProxyAvoid :: "EAPOLFrame \<Rightarrow> SuRadiusPrivate \<Rightarrow> SuRadiusPrivate" where
  "ParseProxyAvoid fr p =
     (if ef_proxy_magic fr \<noteq> FIELD_MAGIC \<or> ef_proxy_val fr \<noteq> 1 \<or> 1 < ef_proxy_val2 fr then p\<lparr>proxy_avoid := 0\<rparr>
      else if ef_proxy_val2 fr = 1 then p\<lparr>proxy_avoid := 1\<rparr> else p\<lparr>proxy_avoid := 0\<rparr>)"

definition ParseUpGrade :: "EAPOLFrame \<Rightarrow> SuRadiusPrivate \<Rightarrow> SuRadiusPrivate" where
  "ParseUpGrade fr p =
     (let p = p\<lparr>su_upgrade_url := []\<rparr>
      in if ef_upgrade_magic fr \<noteq> FIELD_MAGIC \<or> ef_upgrade_type fr \<noteq> 0x37 then p
      else p\<lparr>su_newest_ver := ef_su_newest_ver fr, su_upgrade_url := ef_su_upgrade_url fr\<rparr>)"

definition ParseRadiusInfo_RuijieNas :: "bool \<Rightarrow> byte list \<Rightarrow> EAPOLFrame \<Rightarrow> SuRadiusPrivate \<Rightarrow> SuRadiusPrivate" where
  "ParseRadiusInfo_RuijieNas authhintenable hint fr p =
     ParseHello fr (ParseProxyAvoid fr (ParseUpGrade fr (ParseNotification authhintenable hint fr p)))"

subsection \<open>The properties of a success are not read\<close>

lemma FIELD_MAGIC_bytes: "bytes_le32 FIELD_MAGIC = [0x11, 0x13, 0, 0]"
  by code_simp

lemma hello_byte:
  assumes "be32_at b 0 = Some FIELD_MAGIC"
  shows "b ! 1 = 0"
proof -
  have len: "4 \<le> length b" and m: "bswap_32 (word_le32 (take 4 b)) = FIELD_MAGIC"
    using assms by (auto simp: be32_at_def read_at_def split: if_splits)
  have "bytes_le32 (bswap_32 (word_le32 (take 4 b))) = rev (take 4 b)"
    using len by (intro bytes_le32_bswap) simp
  then have "rev (rev (take 4 b)) = rev [0x11, 0x13, 0, 0]" by (simp only: m FIELD_MAGIC_bytes)
  then have "take 4 b ! 1 = 0" by simp
  then show ?thesis by simp
qed

text \<open>
  What the stages leave as it is: the control thread, and of the frame everything that says what it
  points to. They switch the hello parameters on only with a value of 0.
\<close>

definition frame_shape :: "EAPOLFrame \<Rightarrow> byte \<times> u16 \<times> byte \<times> frame_union \<times> byte list option" where
  "frame_shape fr = (ef_code fr, ef_packet_length fr, ef_type fr, ef_union fr, ef_md5_data fr)"

definition untouched :: "parse_state \<Rightarrow> parse_state \<Rightarrow> bool" where
  "untouched st st' \<longleftrightarrow> fst st' = fst st \<and> frame_shape (snd st') = frame_shape (snd st) \<and>
     (ef_hello_magic (snd st) \<noteq> FIELD_MAGIC \<longrightarrow> ef_hello_magic (snd st') = FIELD_MAGIC \<longrightarrow> ef_hello_val (snd st') = 0)"

lemma untouched_refl [simp]: "untouched st st"
  by (simp add: untouched_def)

lemma hello_stage_state:
  assumes "parse_hello_stage v buf len fail_len pos st = Some st'"
  shows "untouched st st'"
proof -
  obtain b m where b: "read_at buf pos 15 = Some b" "be32_at (decode b) 0 = Some m"
    using assms by (auto simp: parse_hello_stage_def Let_def split: bind_splits)
  show ?thesis
  proof (cases "m = FIELD_MAGIC")
    case True
    then have z: "decode b ! 1 = 0" using b(2) by (intro hello_byte) simp
    show ?thesis using assms True by (auto simp: parse_hello_stage_def b z [simplified] Let_def untouched_def frame_shape_def split: bind_splits)
  qed (use assms b in \<open>auto simp: parse_hello_stage_def Let_def split: bind_splits\<close>)
qed

lemma dont_know_stage_state:
  assumes "parse_dont_know_stage v buf len fail_len pos st = Some st'"
  shows "untouched st st'"
  using assms by (auto simp: parse_dont_know_stage_def Let_def untouched_def frame_shape_def split: bind_splits if_splits dest!: hello_stage_state)

lemma proxy_stage_state:
  assumes "parse_proxy_stage v buf len fail_len pos st = Some st'"
  shows "untouched st st'"
  using assms by (auto simp: parse_proxy_stage_def Let_def untouched_def frame_shape_def split: bind_splits if_splits dest!: dont_know_stage_state)

lemma upgrade_stage_state:
  assumes "parse_upgrade_stage v buf len fail_len pos st = Some st'"
  shows "untouched st st'"
  using assms by (auto simp: parse_upgrade_stage_def Let_def untouched_def frame_shape_def split: bind_splits if_splits dest!: proxy_stage_state)

lemma ParsePrivateProperty_state:
  assumes "ParsePrivateProperty v buf len st = Some st'"
  shows "untouched st st'"
  using assms by (auto simp: ParsePrivateProperty_def Let_def untouched_def frame_shape_def split: bind_splits if_splits dest!: upgrade_stage_state)

text \<open>
  The private properties that a success or a failure carries are never read: the test for the value
  10 looks at a byte of the magic number in front of it, which is 0. Whatever the packet holds, the
  state of the control thread stays as it was, and the hello parameters of the server are
  switched off.
\<close>

theorem success_properties_ignored:
  assumes "ParsePrivateProperty v buf len (s, fr) = Some (s', fr')"
  shows "s' = s \<and> (ef_hello_magic fr \<noteq> FIELD_MAGIC \<longrightarrow> parse_hello (ParseHello fr' p) = 0)"
  using ParsePrivateProperty_state [OF assms] by (auto simp: ParseHello_def untouched_def)


text \<open>A frame for the examples: memory that an earlier frame left behind, and a conversion that copies.\<close>

definition frame_example :: EAPOLFrame where
  "frame_example = \<lparr>ef_dstaddr = [], ef_srcaddr = [], ef_field_C = [], ef_ether_type = 0, ef_version = 0, ef_packet_type = 0,
     ef_packet_length = 0, ef_code = 0, ef_id = 0, ef_eap_length = 0, ef_field_1C = 0, ef_type = 0, ef_union = Eap_md5_length 0,
     ef_md5_data = None, ef_fail_magic = 0, ef_fail_length = 0, ef_fail_reason = replicate 1500 0, ef_upgrade_magic = 0,
     ef_upgrade_type = 0, ef_upgrade_length = 0, ef_su_newest_ver = 0, ef_su_upgrade_url = [], ef_proxy_magic = FIELD_MAGIC,
     ef_proxy_val = 1, ef_proxy_val2 = 1, ef_dont_know_magic = 0, ef_dont_know_val = 0, ef_dont_know_val2 = 0,
     ef_hello_magic = 0, ef_hello_val = 0, ef_hello_val2 = 0, ef_hello_id = 0, ef_hello_inv = 0, ef_hello_val3 = 0,
     ef_dhcp = \<lparr>dhcp_enabled = False, ip4_ipaddr = 0, ip4_netmask = 0, gateway = 0, dns = 0,
       adapter_mac = replicate 6 0, gateway_mac = replicate 6 0, ipaddr6_count = 0, ip6_my_ipaddr = replicate 16 0,
       ip6_link_local_ipaddr = replicate 16 0, ip6_ipaddr = replicate 16 0, ip6_netmask = replicate 16 0\<rparr>, ef_field_6C0 = 0\<rparr>"

definition plain_conversions :: conversions where
  "plain_conversions = \<lparr>gbk_string = id, gbk_array = (\<lambda>n b. take n b)\<rparr>"

lemma success_example:
  "ParsePrivateProperty plain_conversions [] 0 (ctrl_example, frame_example) = Some (ctrl_example, frame_example)"
  by (simp add: ParsePrivateProperty_def)

theorem success_properties_ignored_witness:
  "parse_hello (ParseHello frame_example private_example) = 0"
  using success_properties_ignored [OF success_example] by (simp add: frame_example_def FIELD_MAGIC_def)

subsection \<open>The reason of a failure\<close>

abbreviation c_text :: "byte list \<Rightarrow> byte list" where
  "c_text b \<equiv> takeWhile (\<lambda>c. c \<noteq> 0) b"

definition reason_property :: "byte list \<Rightarrow> byte list" where
  "reason_property d = bytes_be32 FIELD_MAGIC @ bytes_be16 (of_nat (length d)) @ d"

definition failure_packet :: "byte list \<Rightarrow> byte list \<Rightarrow> byte \<Rightarrow> byte list \<Rightarrow> byte list" where
  "failure_packet dst src ident d = dst @ src @ bytes_be16 ETH_P_PAE @ [1, 0] @ bytes_be16 (of_nat (10 + length d)) @
     [4, ident] @ bytes_be16 (of_nat (10 + length d)) @ reason_property d"

lemma ParsePrivateProperty_reason:
  fixes v :: conversions and d :: "byte list"
  assumes "length d < 2 ^ 16"
  defines "text \<equiv> c_text (gbk_string v d)"
  shows "ParsePrivateProperty v (reason_property d) (6 + length d) st =
    (if length text < 1500 then Some (fst st, (snd st)\<lparr>ef_fail_magic := FIELD_MAGIC,
       ef_fail_reason := text @ replicate (1500 - length text) 0\<rparr>) else None)"
proof -
  have n: "unat (of_nat (length d) :: u16) = length d" using assms(1) by (simp add: unat_of_nat_small)
  have "be32_at (reason_property d) 0 = Some FIELD_MAGIC"
    using be32_at_mid [of 0 "[]" FIELD_MAGIC] by (simp add: reason_property_def)
  moreover have "be16_at (reason_property d) 4 = Some (of_nat (length d))"
    unfolding reason_property_def by (rule be16_at_mid) (simp add: len_simps)
  moreover have "read_at (reason_property d) 6 (length d) = Some d"
    using read_at_mid [of 6 "bytes_be32 FIELD_MAGIC @ bytes_be16 (of_nat (length d))" _ d "[]"]
    by (simp add: reason_property_def len_simps)
  moreover have "store_at (replicate 1500 0) 0 (text @ [0]) =
      (if length text < 1500 then Some (text @ replicate (1500 - length text) 0) else None)"
    by (auto simp: store_at_def memcpy_def simp flip: replicate_Suc)
  ultimately show ?thesis
    by (simp add: ParsePrivateProperty_def Let_def n flip: text_def)
qed


lemma failure_packet_fields:
  fixes d :: "byte list" and ident :: byte
  assumes "length dst = 6" and "length src = 6"
  defines "pkt \<equiv> failure_packet dst src ident d"
  shows "read_at pkt 0 6 = Some dst" "read_at pkt 6 6 = Some src" "be16_at pkt 12 = Some ETH_P_PAE" "byte_at pkt 14 = Some 1"
    "byte_at pkt 15 = Some 0" "be16_at pkt 16 = Some (of_nat (10 + length d))" "byte_at pkt 18 = Some 4"
    "byte_at pkt 19 = Some ident" "be16_at pkt 20 = Some (of_nat (10 + length d))" "drop 22 pkt = reason_property d"
    "length pkt = 28 + length d"
proof -
  note at = pkt_def failure_packet_def
  show "read_at pkt 0 6 = Some dst" "read_at pkt 6 6 = Some src"
    using assms(1,2) by (simp_all add: at read_at_def)
  show "be16_at pkt 12 = Some ETH_P_PAE"
    using assms(1,2) be16_at_mid [of 12 "dst @ src"] by (simp add: at)
  show "byte_at pkt 14 = Some 1" "byte_at pkt 15 = Some 0" "byte_at pkt 18 = Some 4" "byte_at pkt 19 = Some ident"
    using assms(1,2) by (simp_all add: at byte_at_def nth_append len_simps reason_property_def)
  show "be16_at pkt 16 = Some (of_nat (10 + length d))"
    using assms(1,2) be16_at_mid [of 16 "dst @ src @ bytes_be16 ETH_P_PAE @ [1, 0]"] by (simp add: at len_simps)
  show "be16_at pkt 20 = Some (of_nat (10 + length d))"
    using assms(1,2) be16_at_mid [of 20 "dst @ src @ bytes_be16 ETH_P_PAE @ [1, 0] @ bytes_be16 (of_nat (10 + length d)) @ [4, ident]"]
    by (simp add: at len_simps)
  show "drop 22 pkt = reason_property d" "length pkt = 28 + length d"
    using assms(1,2) by (simp_all add: at len_simps reason_property_def)
qed

text \<open>
  C31: the reason of a failure reaches the user: of the packet that a server sends to the adapter, with
  the reason in GBK, what \<open>ParseNotification\<close> shows is the converted text up to its first NUL. Where
  the converted text does not fit into the 1500 bytes of the frame, which a reason of half that size
  can bring about, the copy runs over the end of the field.
\<close>

theorem failure_reason_shown:
  assumes "length mac = 6" and "length src = 6" and "src \<noteq> mac" and "length d \<le> 1486"
  shows "map_option (map_option (\<lambda>fr. broadcast_str (ParseNotification False hint fr p)) \<circ> snd)
      (ChangeToEAPOLFrame v ruijie_nas mac fresh (failure_packet mac src ident d) (length (failure_packet mac src ident d)) s) =
    (if length (c_text (gbk_string v d)) < 1500 then Some (Some (c_text (gbk_string v d))) else None)"
proof -
  note fields = failure_packet_fields [OF assms(1,2), of ident d]
  have plen: "unat (of_nat (10 + length d) :: u16) = 10 + length d" using assms(4) by (intro unat_of_nat_small) simp
  then have "\<not> (of_nat (10 + length d) :: u16) \<le> 3" by (simp add: word_le_nat_alt)
  moreover have "c_text (c_text b @ replicate n 0) = c_text b" for b n
    by (induction b) (auto simp: takeWhile_replicate)
  moreover have "accepted_addresses mac src mac" using assms(3) by (simp add: accepted_addresses_def IsLoopBack_def IsHostDstMac_def)
  ultimately show ?thesis
    using assms(4) ParsePrivateProperty_reason [of d v]
    by (simp add: ChangeToEAPOLFrame_def parse_eap_packet_def fields plen Let_def ParseNotification_def del: of_nat_add of_nat_numeral)
qed


theorem failure_reason_shown_witness:
  "map_option (map_option (\<lambda>fr. broadcast_str (ParseNotification False [] fr private_example)) \<circ> snd)
      (ChangeToEAPOLFrame plain_conversions True (replicate 6 2) frame_example
        (failure_packet (replicate 6 2) (replicate 6 3) 7 [0x6E, 0x6F]) (length (failure_packet (replicate 6 2) (replicate 6 3) 7 [0x6E, 0x6F])) ctrl_example) =
     Some (Some [0x6E, 0x6F])"
  using failure_reason_shown [of "replicate 6 2" "replicate 6 3" "[0x6E, 0x6F]" "[]" private_example plain_conversions True frame_example 7 ctrl_example]
  by (simp add: plain_conversions_def)

subsection \<open>Frames and their memory\<close>

text \<open>What a frame points to, and when a packet of the given fields has something to point to.\<close>

definition allocated :: "EAPOLFrame \<Rightarrow> byte list list" where
  "allocated fr = (case ef_md5_data fr of Some d \<Rightarrow> [d] | None \<Rightarrow> []) @
     (case ef_union fr of Eap_notif_data d \<Rightarrow> [d] | Eap_md5_length n \<Rightarrow> [])"

definition frees :: "EAPOLFrame \<Rightarrow> bool" where
  "frees fr \<longleftrightarrow> ef_code fr \<in> {1, 2} \<and> (ef_type fr \<in> set notif_types \<or> ef_type fr = 4 \<and> ef_packet_length fr \<noteq> 6)"

definition typed_frame :: "EAPOLFrame \<Rightarrow> bool" where
  "typed_frame fr \<longleftrightarrow>
     (if ef_code fr \<in> {3, 4} \<or> ef_packet_length fr \<le> 5 then allocated fr = []
      else if ef_type fr = 4 then \<exists>n d. ef_union fr = Eap_md5_length n \<and> ef_md5_data fr = Some d \<and> length d = unat n + 1
      else \<exists>d. ef_union fr = Eap_notif_data d \<and> ef_md5_data fr = None \<and> length d = unat (ef_packet_length fr) - 4)"

lemma typed_frame_freed:
  assumes "typed_frame fr"
  shows "DeleteFrameMemory fr = Some (if frees fr then case allocated fr of [] \<Rightarrow> None | d # ds \<Rightarrow> Some d else None)"
proof -
  have "5 < ef_packet_length fr \<and> ef_packet_length fr \<noteq> 6 \<longleftrightarrow> 6 < ef_packet_length fr"
    by unat_arith
  then show ?thesis using assms
    by (auto simp: typed_frame_def DeleteFrameMemory_def frees_def allocated_def notif_types_def not_le
      split: if_splits option.splits frame_union.splits)
qed


lemma typed_frame_shape: "frame_shape fr' = frame_shape fr \<Longrightarrow> typed_frame fr' = typed_frame fr"
  by (simp add: frame_shape_def typed_frame_def allocated_def)

lemma untouched_typed: "untouched (s, fr) (s', fr') \<Longrightarrow> typed_frame fr' = typed_frame fr"
  by (rule typed_frame_shape) (simp add: untouched_def)

lemma parse_eap_data_typed:
  assumes "parse_eap_data v ruijie_nas pkt length_arg s fr = Some (s', Some fr')"
    and "ef_union fr = Eap_md5_length 0" and "ef_md5_data fr = None" and "ef_code fr \<notin> {3, 4}"
  shows "typed_frame fr'"
proof -
  obtain t where t: "byte_at pkt 22 = Some t" using assms(1) by (auto simp: parse_eap_data_def split: bind_splits)
  have le: "unat w \<le> 5 \<longleftrightarrow> w \<le> 5" "5 < unat w \<longleftrightarrow> \<not> w \<le> 5" "\<not> w \<le> 5 \<Longrightarrow> Suc (unat w - 5) = unat w - 4" for w :: u16 by (auto simp: word_le_nat_alt)
  show ?thesis
  proof (cases "t = 4")
    case True
    then show ?thesis using assms
      by (auto simp: parse_eap_data_def t Let_def read_at_def typed_frame_def allocated_def le split: bind_splits if_splits)
  next
    case False
    then show ?thesis using assms
      by (auto simp: parse_eap_data_def t Let_def read_at_def typed_frame_def allocated_def le
        split: bind_splits if_splits)
  qed
qed

lemma parse_eap_data_shape:
  "parse_eap_data v ruijie_nas pkt length_arg s fr = Some (s', Some fr') \<Longrightarrow>
     frame_shape fr = (c, n, 0, Eap_md5_length 0, None) \<longrightarrow> c \<notin> {3, 4} \<longrightarrow> typed_frame fr'"
  by (auto simp: frame_shape_def intro: parse_eap_data_typed)

lemma empty_typed: "frame_shape fr = (c, n, t, Eap_md5_length 0, None) \<Longrightarrow> c \<in> {3, 4} \<or> n \<le> 5 \<Longrightarrow> typed_frame fr"
  by (auto simp: frame_shape_def typed_frame_def allocated_def)

lemma parse_eap_packet_typed:
  assumes "parse_eap_packet v ruijie_nas pkt length_arg s fr0 = Some (s', Some fr)"
    and "frame_shape fr0 = (0, 0, 0, Eap_md5_length 0, None)"
  shows "typed_frame fr"
proof -
  obtain plen code ident elen where h: "be16_at pkt 16 = Some plen" "\<not> plen \<le> 3" "byte_at pkt 18 = Some code"
    "byte_at pkt 19 = Some ident" "be16_at pkt 20 = Some elen"
    using assms(1) by (auto simp: parse_eap_packet_def split: bind_splits if_splits)
  define fr1 where "fr1 = fr0\<lparr>ef_packet_length := plen, ef_code := code, ef_id := ident, ef_eap_length := elen\<rparr>"
  have shape: "frame_shape fr1 = (code, plen, 0, Eap_md5_length 0, None)" using assms(2) by (simp add: fr1_def frame_shape_def)
  have le: "w \<le> 5" if "w \<le> 4" for w :: u16 using that by unat_arith
  consider "code \<in> {3, 4}" "ParsePrivateProperty v (drop 22 pkt) (unat plen - 4) (s, fr1) = Some (s', fr)"
    | "code \<notin> {3, 4}" "plen \<le> 4" "fr = fr1" | "code \<notin> {3, 4}" "parse_eap_data v ruijie_nas pkt length_arg s fr1 = Some (s', Some fr)"
    using assms(1) h by (auto simp: parse_eap_packet_def Let_def simp flip: fr1_def split: if_splits)
  then show ?thesis
  proof cases
    case 1
    then show ?thesis using untouched_typed [OF ParsePrivateProperty_state [OF 1(2)]] empty_typed [OF shape] by simp
  next
    case 2
    then show ?thesis using empty_typed [OF shape] le by simp
  next
    case 3
    then show ?thesis using parse_eap_data_shape [OF 3(2)] shape by auto
  qed
qed

text \<open>A packet that gets a frame, from the header on.\<close>

lemma ChangeToEAPOLFrame_header:
  assumes "ChangeToEAPOLFrame v ruijie_nas mac fresh pkt length_arg s = Some (s', Some fr)"
  obtains fr0 where "frame_shape fr0 = (0, 0, 0, Eap_md5_length 0, None)"
    and "\<exists>dst src et ver pt. fr0 = (InitEAPOLFrame fresh)\<lparr>ef_dstaddr := dst, ef_srcaddr := src, ef_ether_type := et,
      ef_version := ver, ef_packet_type := pt\<rparr>"
    and "s' = s \<and> fr = fr0 \<or> parse_eap_packet v ruijie_nas pkt length_arg s fr0 = Some (s', Some fr)"
proof -
  define fr2 where "fr2 dst src et ver pt = (InitEAPOLFrame fresh)\<lparr>ef_dstaddr := dst, ef_srcaddr := src, ef_ether_type := et,
      ef_version := ver, ef_packet_type := pt\<rparr>" for dst src et ver pt
  have shape: "frame_shape (fr2 dst src et ver pt) = (0, 0, 0, Eap_md5_length 0, None)" for dst src et ver pt
    by (simp add: fr2_def InitEAPOLFrame_def frame_shape_def)
  have "\<exists>dst src et ver pt. s' = s \<and> fr = fr2 dst src et ver pt \<or>
      parse_eap_packet v ruijie_nas pkt length_arg s (fr2 dst src et ver pt) = Some (s', Some fr)"
    using assms by (simp add: ChangeToEAPOLFrame_def Let_def flip: fr2_def split: bind_splits if_splits) blast+
  then show ?thesis using that shape fr2_def by blast
qed

lemma frame_typed:
  assumes "ChangeToEAPOLFrame v ruijie_nas mac fresh pkt length_arg s = Some (s', Some fr)"
  shows "typed_frame fr"
  using assms
  by (elim ChangeToEAPOLFrame_header disjE conjE) (auto intro: empty_typed parse_eap_packet_typed)


text \<open>
  C32: frames are typed: for every packet that gets a frame, the union holds what the code, the length
  and the type say, so that \<open>DeleteFrameMemory\<close> never frees the length of an MD5 value as a pointer,
  and it frees what was allocated for a request of one of the known types. What it does not free is
  lost: the data of every other type or code, and the MD5 value of a packet of length 6.
\<close>

theorem frame_memory:
  assumes "ChangeToEAPOLFrame v ruijie_nas mac fresh pkt length_arg s = Some (s', Some fr)"
  shows "typed_frame fr \<and> length (allocated fr) = (if 5 < ef_packet_length fr \<and> ef_code fr \<notin> {3, 4} then 1 else 0) \<and>
    DeleteFrameMemory fr = Some (if frees fr \<and> allocated fr \<noteq> [] then Some (hd (allocated fr)) else None)"
proof (intro conjI)
  show typed: "typed_frame fr" using assms by (rule frame_typed)
  then show "length (allocated fr) = (if 5 < ef_packet_length fr \<and> ef_code fr \<notin> {3, 4} then 1 else 0)"
    by (auto simp: typed_frame_def allocated_def not_le split: if_splits)
  show "DeleteFrameMemory fr = Some (if frees fr \<and> allocated fr \<noteq> [] then Some (hd (allocated fr)) else None)"
    by (simp add: typed_frame_freed [OF typed] split: list.split)
qed


text \<open>A request for the identity with a text of two bytes, and its frame.\<close>

definition identity_request :: "byte list" where
  "identity_request = replicate 6 2 @ replicate 6 3 @ [0x88, 0x8E, 1, 0, 0, 7, 1, 9, 0, 7, 1, 0x61, 0x62]"

lemma identity_fields:
  "length identity_request = 25" "read_at identity_request 0 6 = Some (replicate 6 2)" "read_at identity_request 6 6 = Some (replicate 6 3)"
  "be16_at identity_request 12 = Some ETH_P_PAE" "byte_at identity_request 14 = Some 1" "byte_at identity_request 15 = Some 0"
  "be16_at identity_request 16 = Some 7" "byte_at identity_request 18 = Some 1" "byte_at identity_request 19 = Some 9"
  "be16_at identity_request 20 = Some 7" "byte_at identity_request 22 = Some 1" "read_at identity_request 23 2 = Some [0x61, 0x62]"
  by code_simp+

lemma identity_frame:
  obtains fr where "ChangeToEAPOLFrame plain_conversions True (replicate 6 2) frame_example identity_request 25 ctrl_example = Some (ctrl_example, Some fr)"
    and "allocated fr = [[0x61, 0x62, 0]]" and "frees fr"
  by (simp add: ChangeToEAPOLFrame_def parse_eap_packet_def parse_eap_data_def identity_fields accepted_addresses_def IsLoopBack_def
      IsHostDstMac_def Let_def InitEAPOLFrame_def allocated_def frees_def notif_types_def)

theorem frame_memory_witness:
  "\<exists>fr. DeleteFrameMemory fr = Some (Some [0x61, 0x62, 0])"
proof -
  obtain fr where fr: "ChangeToEAPOLFrame plain_conversions True (replicate 6 2) frame_example identity_request 25 ctrl_example = Some (ctrl_example, Some fr)"
    and a: "allocated fr = [[0x61, 0x62, 0]]" "frees fr" by (rule identity_frame)
  show ?thesis using frame_memory [OF fr] a by auto
qed


subsection \<open>Fields that nobody sets\<close>

definition private_fields :: "EAPOLFrame \<Rightarrow> (u32 \<times> byte \<times> byte \<times> u32 \<times> u32) \<times> (u32 \<times> byte \<times> byte) \<times> (u32 \<times> u32 \<times> u32 \<times> byte list)" where
  "private_fields fr = ((ef_hello_magic fr, ef_hello_val fr, ef_hello_val2 fr, ef_hello_id fr, ef_hello_inv fr),
     (ef_proxy_magic fr, ef_proxy_val fr, ef_proxy_val2 fr),
     (ef_upgrade_magic fr, ef_upgrade_type fr, ef_su_newest_ver fr, ef_su_upgrade_url fr))"

lemma parse_eap_data_private:
  "parse_eap_data v ruijie_nas pkt length_arg s fr = Some (s', Some fr') \<Longrightarrow>
     private_fields fr' = private_fields fr \<and> ef_code fr' = ef_code fr"
  by (auto simp: parse_eap_data_def Let_def private_fields_def split: bind_splits if_splits)

lemma parse_eap_packet_private:
  assumes "parse_eap_packet v ruijie_nas pkt length_arg s fr0 = Some (s', Some fr)"
    and "ef_code fr \<in> {3, 4} \<longrightarrow> ef_packet_length fr < 9"
  shows "private_fields fr = private_fields fr0"
proof -
  obtain plen code ident elen where h: "be16_at pkt 16 = Some plen" "\<not> plen \<le> 3" "byte_at pkt 18 = Some code"
    "byte_at pkt 19 = Some ident" "be16_at pkt 20 = Some elen"
    using assms(1) by (auto simp: parse_eap_packet_def split: bind_splits if_splits)
  define fr1 where "fr1 = fr0\<lparr>ef_packet_length := plen, ef_code := code, ef_id := ident, ef_eap_length := elen\<rparr>"
  have fr1: "private_fields fr1 = private_fields fr0" "ef_code fr1 = code" "ef_packet_length fr1 = plen"
    by (simp_all add: fr1_def private_fields_def)
  consider "code \<in> {3, 4}" "ParsePrivateProperty v (drop 22 pkt) (unat plen - 4) (s, fr1) = Some (s', fr)"
    | "fr = fr1" | "parse_eap_data v ruijie_nas pkt length_arg s fr1 = Some (s', Some fr)"
    using assms(1) h by (auto simp: parse_eap_packet_def Let_def simp flip: fr1_def split: if_splits)
  then show ?thesis
  proof cases
    case 1
    have "frame_shape fr = frame_shape fr1" using ParsePrivateProperty_state [OF 1(2)] by (simp add: untouched_def)
    then have "plen < 9" using 1(1) assms(2) fr1 by (auto simp: frame_shape_def)
    then have "unat plen - 4 < 5" by unat_arith
    then show ?thesis using 1(2) fr1 by (simp add: ParsePrivateProperty_def)
  qed (use fr1 parse_eap_data_private in auto)
qed

text \<open>
  \<open>InitEAPOLFrame\<close> does not set the fields of the private properties. For a frame of a result
  without properties, and for every frame of another kind, what \<open>ParseHello\<close>, \<open>ParseProxyAvoid\<close> and
  \<open>ParseUpGrade\<close> copy to the control thread is what the memory of the frame held before.
\<close>

theorem private_fields_stale:
  assumes "ChangeToEAPOLFrame v ruijie_nas mac fresh pkt length_arg s = Some (s', Some fr)"
    and "ef_code fr \<in> {3, 4} \<longrightarrow> ef_packet_length fr < 9"
  shows "ParseHello fr p = ParseHello fresh p \<and> ParseProxyAvoid fr p = ParseProxyAvoid fresh p \<and> ParseUpGrade fr p = ParseUpGrade fresh p"
proof -
  obtain fr0 where fr0: "\<exists>dst src et ver pt. fr0 = (InitEAPOLFrame fresh)\<lparr>ef_dstaddr := dst, ef_srcaddr := src, ef_ether_type := et,
      ef_version := ver, ef_packet_type := pt\<rparr>"
    "s' = s \<and> fr = fr0 \<or> parse_eap_packet v ruijie_nas pkt length_arg s fr0 = Some (s', Some fr)"
    using assms(1) by (rule ChangeToEAPOLFrame_header)
  have "private_fields fr0 = private_fields fresh" using fr0(1) by (auto simp: private_fields_def InitEAPOLFrame_def)
  then have "private_fields fr = private_fields fresh" using fr0(2) parse_eap_packet_private [OF _ assms(2)] by auto
  then show ?thesis by (simp add: private_fields_def ParseHello_def ParseProxyAvoid_def ParseUpGrade_def Let_def)
qed

lemma identity_code: "ChangeToEAPOLFrame plain_conversions True (replicate 6 2) frame_example identity_request 25 ctrl_example =
    Some (ctrl_example, Some fr) \<Longrightarrow> ef_code fr = 1"
  by (auto simp: ChangeToEAPOLFrame_def parse_eap_packet_def parse_eap_data_def identity_fields accepted_addresses_def IsLoopBack_def
      IsHostDstMac_def Let_def InitEAPOLFrame_def)

theorem private_fields_stale_witness:
  "\<exists>fr. ef_code fr = 1 \<and> proxy_avoid (ParseProxyAvoid fr private_example) = 1"
proof -
  obtain fr where fr: "ChangeToEAPOLFrame plain_conversions True (replicate 6 2) frame_example identity_request 25 ctrl_example = Some (ctrl_example, Some fr)"
    by (rule identity_frame)
  have "ParseProxyAvoid frame_example private_example = private_example\<lparr>proxy_avoid := 1\<rparr>"
    by (simp add: ParseProxyAvoid_def frame_example_def)
  then have "proxy_avoid (ParseProxyAvoid fr private_example) = 1"
    using private_fields_stale [OF fr, of private_example] identity_code [OF fr] by simp
  then show ?thesis using identity_code [OF fr] by blast
qed

end
