(* ===== verification/Eapol_Build.thy ===== *)
theory Eapol_Build
  imports Vendor_Seg Eapol_Parse Crc16
begin

text \<open>
  Packets from frames, the sending half of \<open>tuanzi/src/eapolutil.cpp\<close>: \<open>ChangeToUChar\<close> writes a frame into
  1400 bytes of fresh memory, and \<open>AppendPrivateProperty\<close> puts the private properties of a network of
  Ruijie switches behind it. What the control thread knows is the record \<open>append_env\<close>. \<open>None\<close> is an
  access outside of a buffer, \<open>Some None\<close> a null pointer.
\<close>

subsection \<open>Private properties\<close>

record append_env =
  ap_seg :: seg_env
  ap_field_53B :: bool
  ap_field_1139 :: bool
  ap_dhcp_auth :: bool
  ap_diskid_gbk :: "byte list"
  ap_domain_gbk :: "byte list"
  ap_sec_domain_name :: "byte list"
  ap_version_gbk :: "byte list"

text \<open>A call that gets the pointer \<open>&buf[len]\<close>, and \<open>buf[len++] = b\<close> for each byte.\<close>

definition at_offset :: "(byte list \<Rightarrow> byte list option) \<Rightarrow> byte list \<Rightarrow> nat \<Rightarrow> byte list option" where
  "at_offset f buf len = (if length buf < len then None else map_option ((@) (take len buf)) (f (drop len buf)))"

definition emit :: "byte list \<Rightarrow> nat \<Rightarrow> byte list \<Rightarrow> (byte list \<times> nat) option" where
  "emit buf len bs = map_option (\<lambda>b. (b, len + length bs)) (store_at buf len bs)"

text \<open>
  \<open>buf\<close> has moved over the 21 bytes when the checksum of what follows it is taken.
\<close>

definition dhcp_bytes :: "DHCPIPInfo \<Rightarrow> byte list" where
  "dhcp_bytes info = [0x00, 0x00, 0x13, 0x11, if dhcp_enabled info then 1 else 0] @ bytes_be32 (ip4_ipaddr info) @
     bytes_be32 (ip4_netmask info) @ bytes_be32 (gateway info) @ bytes_be32 (dns info)"

definition DhcpIpInfoToUChar :: "EAPOLFrame \<Rightarrow> byte list \<Rightarrow> byte list option" where
  "DhcpIpInfoToUChar fr buf = do {
     buf \<leftarrow> store_at buf 0 (dhcp_bytes (ef_dhcp fr));
     following \<leftarrow> read_at buf 21 21;
     store_at buf 21 (bytes_be16 (crc16 following))
   }"

definition EncapUCharDhcpIpInfo :: "EAPOLFrame \<Rightarrow> byte list \<Rightarrow> byte list option" where
  "EncapUCharDhcpIpInfo fr buf = do {
     buf \<leftarrow> DhcpIpInfoToUChar fr buf;
     store_at buf 0 (encode (replicate 23 0))
   }"

text \<open>The password, when the server has asked for it; its length is added to the two length bytes.\<close>

definition append_password :: "'u::len word MD5_CTX \<Rightarrow> append_env \<Rightarrow> byte list \<Rightarrow> nat \<Rightarrow> (byte list \<times> nat) option" where
  "append_password ctx a buf len = do {
     let e = ap_seg a;
     s \<leftarrow> c_string (se_password_512 e);
     let password_buflen = unat (property_blocks (of_nat (length s)));
     buf \<leftarrow> at_offset (RadiusEncrpytPwd ctx (se_username e) (Some (se_chal e)) 16 (Some (se_password_512 e)) password_buflen) buf len;
     n1 \<leftarrow> Prelude.byte_at buf (len - 1);
     buf \<leftarrow> store_at buf (len - 1) [n1 + of_nat password_buflen];
     n7 \<leftarrow> Prelude.byte_at buf (len - 7);
     buf \<leftarrow> store_at buf (len - 7) [n7 + of_nat password_buflen];
     Some (buf, len + password_buflen)
   }"

abbreviation property_head :: "byte \<Rightarrow> byte \<Rightarrow> byte \<Rightarrow> byte list" where
  "property_head n t m \<equiv> [0x1A, n, 0x00, 0x00, 0x13, 0x11, t, m]"

text \<open>\<open>AppendPrivateProperty\<close> up to the answer to the challenge, and what follows it.\<close>

definition append_head :: "append_env \<Rightarrow> EAPOLFrame \<Rightarrow> byte list \<Rightarrow> nat \<Rightarrow> (byte list \<times> nat) option" where
  "append_head a fr buf len = do {
     let e = ap_seg a;
     buf \<leftarrow> at_offset (EncapUCharDhcpIpInfo fr) buf len;
     (buf, len) \<leftarrow> emit buf (len + 23) [0x00, 0x00, 0x13, 0x11];
     buf \<leftarrow> EncapProgrammName (se_program_gbk e) buf;
     let len = len + 32;
     buf \<leftarrow> at_offset (EncapUCharVersionNumber (se_major e) (se_minor e)) buf len;
     emit buf (len + 4) ([ef_field_6C0 fr, 0x00, 0x00, 0x13, 0x11, 0x00, 0x00] @ [0x1A, 0x0C, 0x00, 0x00, 0x13, 0x11, 0x18, 0x06] @
       bytes_le32 (if ap_dhcp_auth a then 1 else 0) @ property_head 0x0E 0x2D 0x08 @ ef_field_C fr @ property_head 0x08 0x2F 0x02)
   }"

definition address_properties :: "EAPOLFrame \<Rightarrow> byte list \<Rightarrow> byte list" where
  "address_properties fr names =
     (let info = ef_dhcp fr in
      property_head (of_nat (length names) + 8) 0x76 (of_nat (length names) + 2) @ names @
      property_head 0x09 0x35 0x03 @ [ucast (ipaddr6_count info)] @ property_head 0x18 0x36 0x12 @ ip6_my_ipaddr info @
      property_head 0x18 0x38 0x12 @ ip6_link_local_ipaddr info @ property_head 0x18 0x4E 0x12 @ ip6_ipaddr info @
      property_head 0x88 0x4D 0x82)"

definition append_front :: "'u::len word MD5_CTX \<Rightarrow> append_env \<Rightarrow> EAPOLFrame \<Rightarrow> byte list \<Rightarrow> nat \<Rightarrow> (byte list \<times> nat) option" where
  "append_front ctx a fr buf len = do {
     (buf, len) \<leftarrow> append_head a fr buf len;
     (buf, len) \<leftarrow> (if ap_field_53B a then append_password ctx a buf len else Some (buf, len));
     (dns_buf, dns_buflen) \<leftarrow> get_alternate_dns (se_resolv (ap_seg a)) (replicate 253 0) 4;
     names \<leftarrow> read_at dns_buf 0 dns_buflen;
     emit buf len (address_properties fr names)
   }"

text \<open>
  The converted strings are copied to where the fixed fields of 32 and 64 bytes begin, and the version
  counts its own NUL.
\<close>

definition append_back :: "append_env \<Rightarrow> EAPOLFrame \<Rightarrow> byte list \<Rightarrow> nat \<Rightarrow> (byte list \<times> nat) option" where
  "append_back a fr buf len = do {
     let e = ap_seg a;
     (buf, len) \<leftarrow> emit buf len (property_head 0x28 0x39 0x22);
     service \<leftarrow> c_string (se_service_gbk e);
     buf \<leftarrow> store_at buf len service;
     (buf, len) \<leftarrow> emit buf (len + 32) (property_head 0x48 0x54 0x42);
     diskid \<leftarrow> c_string (ap_diskid_gbk a);
     buf \<leftarrow> store_at buf len diskid;
     dontknow \<leftarrow> c_string (ap_domain_gbk a);
     (buf, len) \<leftarrow> emit buf (len + 64) [of_nat (length dontknow) + 8, 0x00, 0x00, 0x13, 0x11, 0x55];
     name \<leftarrow> read_at (ap_sec_domain_name a @ [0]) 0 (length dontknow);
     version \<leftarrow> c_string (ap_version_gbk a);
     emit buf len (name @ property_head 0x09 0x62 0x03 @ [if ef_type fr = 4 then GetHIRusultByLocal else 0] @
       (if ap_field_1139 a then property_head 0x0A 0x64 0x04 @ [0x00, 0x01] else []) @
       property_head 0x09 0x70 0x03 @ [64] @
       property_head (of_nat (length version) + 9) 0x6F (of_nat (length version) + 3) @ version @ [0x00] @
       property_head 0x09 0x79 0x03 @ [0x02])
   }"

text \<open>The result also has \<open>field_53B\<close>, which is cleared.\<close>

definition AppendPrivateProperty ::
  "'u::len word MD5_CTX \<Rightarrow> append_env \<Rightarrow> EAPOLFrame \<Rightarrow> byte list \<Rightarrow> nat \<Rightarrow> (byte list \<times> nat \<times> bool) option" where
  "AppendPrivateProperty ctx a fr buf len = do {
     let e = ap_seg a;
     (buf, len) \<leftarrow> append_front ctx a fr buf len;
     buf \<leftarrow> at_offset (\<lambda>result. Vz_API TYPE('u) (se_vz e) (se_appdata e) (se_dlldata e) (se_rand e) result
       (if ef_type fr = 4 then se_chal e else replicate 16 0)) buf len;
     (buf, len) \<leftarrow> append_back a fr buf (len + 128);
     Some (buf, len, False)
   }"


subsection \<open>Packets\<close>

definition group_address :: "byte list" where
  "group_address = [0x01, 0x80, 0xC2, 0x00, 0x00, 0x03]"

definition IEEE8021X_EAPOL_START :: byte where "IEEE8021X_EAPOL_START = 1"

text \<open>
  What is written for a frame whose packet has a length, in \<open>ret\<close> with \<open>len\<close> counted from 0: \<open>Some None\<close>
  is the null pointer. The copies read as many bytes as the length of the packet says.
\<close>

definition write_eap :: "'u::len word MD5_CTX \<Rightarrow> bool \<Rightarrow> append_env \<Rightarrow> EAPOLFrame \<Rightarrow> byte list \<Rightarrow> (byte list \<times> nat) option option" where
  "write_eap ctx ruijie_nas a fr ret =
     (let plen = unat (ef_packet_length fr) in
      if plen < 4 then Some None
      else do {
        ret \<leftarrow> store_at ret 18 ([ef_code fr, ef_id fr] @ bytes_be16 (ef_eap_length fr) @ [ef_type fr]);
        if ef_type fr \<noteq> 4 then
          if 5 < plen then do {
            message \<leftarrow> (case ef_union fr of Eap_notif_data d \<Rightarrow> read_at d 0 (plen - 5) | Eap_md5_length n \<Rightarrow> None);
            ret \<leftarrow> store_at ret 23 message;
            Some (Some (ret, 22 + (plen - 5)))
          }
          else Some (Some (ret, 22))
        else if plen \<le> 5 then Some None
        else do {
          n \<leftarrow> (case ef_union fr of Eap_md5_length n \<Rightarrow> Some n | Eap_notif_data d \<Rightarrow> None);
          ret \<leftarrow> store_at ret 23 [n];
          data \<leftarrow> ef_md5_data fr;
          value \<leftarrow> read_at data 0 (plen - 6);
          ret \<leftarrow> store_at ret 24 value;
          if ruijie_nas then Some (Some (ret, 22 + (plen - 6)))
          else do {
            (rest, priproc_len) \<leftarrow> EncapRGVerdorSeg ctx (ap_seg a) (drop 40 ret);
            let ret = take 40 ret @ rest;
            if priproc_len = 0 then Some (Some (ret, 22 + 16))
            else do {
              ret \<leftarrow> store_at ret 16 (bytes_be16 (of_nat (priproc_len + 22)));
              ret \<leftarrow> store_at ret 20 (bytes_be16 (of_nat (priproc_len + 22)));
              Some (Some (ret, 22 + 16 + priproc_len))
            }
          }
        }
      })"

definition with_properties :: "bool \<Rightarrow> EAPOLFrame \<Rightarrow> bool" where
  "with_properties ruijie_nas fr \<longleftrightarrow> ruijie_nas \<and>
     (ef_packet_type fr \<noteq> IEEE8021X_EAPOL_START \<or>
      ef_dstaddr fr ! 0 \<noteq> 0x01 \<and> ef_dstaddr fr ! 1 \<noteq> 0x80 \<and> ef_dstaddr fr ! 2 \<noteq> 0xC2)"

text \<open>\<open>fresh\<close> is what \<open>new char[1400]\<close> holds; the result has the packet, the length and \<open>field_53B\<close>.\<close>

definition ChangeToUChar ::
  "'u::len word MD5_CTX \<Rightarrow> bool \<Rightarrow> append_env \<Rightarrow> byte list \<Rightarrow> EAPOLFrame \<Rightarrow> (byte list \<times> nat \<times> bool) option option" where
  "ChangeToUChar ctx ruijie_nas a fresh fr = do {
     ret \<leftarrow> store_at fresh 0 ((if ruijie_nas then ef_dstaddr fr else group_address) @ ef_srcaddr fr @ bytes_be16 ETH_P_PAE @
       [1, ef_packet_type fr] @ bytes_be16 (ef_packet_length fr));
     written \<leftarrow> (if ef_packet_length fr \<noteq> 0 then write_eap ctx ruijie_nas a fr ret else Some (Some (ret, 0)));
     case written of
       None \<Rightarrow> Some None
     | Some (ret, len) \<Rightarrow>
         if with_properties ruijie_nas fr then map_option Some (AppendPrivateProperty ctx a fr ret len)
         else Some (Some (ret, len, ap_field_53B a))
   }"

definition CreateEapolPacket ::
  "'u::len word MD5_CTX \<Rightarrow> bool \<Rightarrow> append_env \<Rightarrow> byte list \<Rightarrow> EAPOLFrame \<Rightarrow> (byte list \<times> nat \<times> bool) option option" where
  "CreateEapolPacket ctx ruijie_nas a fresh fr =
     map_option (\<lambda>r. case r of None \<Rightarrow> None | Some (ret, len, f) \<Rightarrow> if len < 4049 then Some (ret, len, f) else None)
       (ChangeToUChar ctx ruijie_nas a fresh fr)"

subsection \<open>What a packet announces\<close>

lemma AppendPrivateProperty_None: "AppendPrivateProperty ctx a fr buf len = None"
  by (simp add: AppendPrivateProperty_def at_offset_def Vz_API_None split: Option.bind_split)


lemma write_eap_length:
  assumes "write_eap ctx ruijie_nas a fr ret = Some (Some (pkt, n))"
  shows "(ruijie_nas \<or> ef_type fr \<noteq> 4) \<and> 4 \<le> unat (ef_packet_length fr) \<and>
    n = (if ef_type fr = 4 then 16 + unat (ef_packet_length fr) else max 22 (17 + unat (ef_packet_length fr)))"
  using assms by (auto simp: write_eap_def Let_def EncapRGVerdorSeg_None split: bind_splits if_splits)

text \<open>
  The packets that the client can send at all: no frame with private properties and no answer to an
  MD5 challenge outside of a network of Ruijie switches comes out, and the length that goes with the
  others is never that of the packet, of 18 bytes and what they announce: it is 0 for a start and
  a logoff, and one or two bytes short for everything longer than a bare header.
\<close>

theorem packet_lengths:
  assumes "CreateEapolPacket ctx ruijie_nas a fresh fr = Some (Some (pkt, n, f))"
  defines "plen \<equiv> unat (ef_packet_length fr)"
  shows "\<not> with_properties ruijie_nas fr \<and> (plen \<noteq> 0 \<longrightarrow> ruijie_nas \<or> ef_type fr \<noteq> 4) \<and>
    n = (if plen = 0 then 0 else if ef_type fr = 4 then 16 + plen else max 22 (17 + plen)) \<and>
    (n = 18 + plen \<longleftrightarrow> plen = 4 \<and> ef_type fr \<noteq> 4)"
proof -
  obtain ret where ret: "(if ef_packet_length fr \<noteq> 0 then write_eap ctx ruijie_nas a fr ret else Some (Some (ret, 0))) = Some (Some (pkt, n))"
    and props: "\<not> with_properties ruijie_nas fr"
    using assms(1) by (auto simp: CreateEapolPacket_def ChangeToUChar_def AppendPrivateProperty_None
      split: bind_splits if_splits option.splits)
  have zero: "ef_packet_length fr = 0 \<longleftrightarrow> plen = 0" by (simp add: plen_def unat_eq_zero)
  show ?thesis
  proof (cases "plen = 0")
    case True
    then show ?thesis using ret props zero by auto
  next
    case False
    then have "write_eap ctx ruijie_nas a fr ret = Some (Some (pkt, n))" using ret zero by auto
    from write_eap_length [OF this] False props show ?thesis by (auto simp: plen_def)
  qed
qed


subsection \<open>Frames there and back\<close>

definition eap_bytes :: "EAPOLFrame \<Rightarrow> byte list \<Rightarrow> byte list" where
  "eap_bytes fr message = group_address @ ef_srcaddr fr @ bytes_be16 ETH_P_PAE @ [1, ef_packet_type fr] @
     bytes_be16 (ef_packet_length fr) @ [ef_code fr, ef_id fr] @ bytes_be16 (ef_eap_length fr) @ [ef_type fr] @ message"

lemma length_eap_bytes [len_simps]: "length (ef_srcaddr fr) = 6 \<Longrightarrow> length (eap_bytes fr message) = 23 + length message"
  by (simp add: eap_bytes_def group_address_def len_simps)

lemma CreateEapolPacket_bytes:
  fixes d :: "byte list"
  assumes fresh: "length fresh = 1400" and src: "length (ef_srcaddr fr) = 6"
    and data: "ef_union fr = Eap_notif_data d" "plen = unat (ef_packet_length fr)" "5 < plen" "plen - 5 \<le> length d" "plen \<le> 1382"
    and type: "ef_type fr \<noteq> 4"
  shows "CreateEapolPacket ctx False a fresh fr =
    Some (Some (eap_bytes fr (take (plen - 5) d) @ drop (18 + plen) fresh, 17 + plen, ap_field_53B a))"
proof -
  define h where "h = group_address @ ef_srcaddr fr @ bytes_be16 ETH_P_PAE @ [1, ef_packet_type fr] @ bytes_be16 (ef_packet_length fr)"
  define f where "f = ef_code fr # ef_id fr # bytes_be16 (ef_eap_length fr) @ [ef_type fr]"
  have len: "length h = 18" "length f = 5" using src by (simp_all add: h_def f_def group_address_def len_simps)
  have 1: "store_at fresh 0 h = Some (h @ drop 18 fresh)" using fresh len by (simp add: store_at_def memcpy_def)
  have 2: "store_at (h @ drop 18 fresh) 18 f = Some (h @ f @ drop 23 fresh)"
    using fresh len by (simp add: store_at_def memcpy_def)
  have 3: "store_at (h @ f @ drop 23 fresh) 23 (take (plen - 5) d) = Some (h @ f @ take (plen - 5) d @ drop (18 + plen) fresh)"
    using fresh len data by (simp add: store_at_def memcpy_def min_def)
  have "ef_packet_length fr \<noteq> 0" using data(2,3) by auto
  moreover have "write_eap ctx False a fr (h @ drop 18 fresh) =
      Some (Some (h @ f @ take (plen - 5) d @ drop (18 + plen) fresh, 17 + plen))"
    using data type 2 3 by (simp add: write_eap_def read_at_def flip: f_def data(2))
  moreover have "\<not> with_properties False fr" by (simp add: with_properties_def)
  ultimately show ?thesis
    using 1 data by (simp add: CreateEapolPacket_def ChangeToUChar_def flip: h_def)
      (simp add: eap_bytes_def h_def f_def)
qed


lemma eap_bytes_fields:
  fixes fr :: EAPOLFrame and message :: "byte list"
  assumes "length (ef_srcaddr fr) = 6"
  defines "pkt \<equiv> eap_bytes fr message"
  shows "read_at pkt 0 6 = Some group_address" "read_at pkt 6 6 = Some (ef_srcaddr fr)" "be16_at pkt 12 = Some ETH_P_PAE"
    "Prelude.byte_at pkt 14 = Some 1" "Prelude.byte_at pkt 15 = Some (ef_packet_type fr)" "be16_at pkt 16 = Some (ef_packet_length fr)"
    "Prelude.byte_at pkt 18 = Some (ef_code fr)" "Prelude.byte_at pkt 19 = Some (ef_id fr)" "be16_at pkt 20 = Some (ef_eap_length fr)"
    "Prelude.byte_at pkt 22 = Some (ef_type fr)" "read_at pkt 23 n = (if n \<le> length message then Some (take n message) else None)"
proof -
  note at = pkt_def eap_bytes_def group_address_def len_simps assms(1)
  show "read_at pkt 0 6 = Some group_address" "read_at pkt 6 6 = Some (ef_srcaddr fr)"
    "read_at pkt 23 n = (if n \<le> length message then Some (take n message) else None)"
    by (simp_all add: at read_at_def)
  show "Prelude.byte_at pkt 14 = Some 1" "Prelude.byte_at pkt 15 = Some (ef_packet_type fr)" "Prelude.byte_at pkt 18 = Some (ef_code fr)"
    "Prelude.byte_at pkt 19 = Some (ef_id fr)" "Prelude.byte_at pkt 22 = Some (ef_type fr)"
    by (simp_all add: at Prelude.byte_at_def nth_append)
  show "be16_at pkt 12 = Some ETH_P_PAE" using be16_at_mid [of 12 "group_address @ ef_srcaddr fr"] by (simp add: at)
  show "be16_at pkt 16 = Some (ef_packet_length fr)"
    using be16_at_mid [of 16 "group_address @ ef_srcaddr fr @ bytes_be16 ETH_P_PAE @ [1, ef_packet_type fr]"] by (simp add: at)
  show "be16_at pkt 20 = Some (ef_eap_length fr)"
    using be16_at_mid [of 20 "group_address @ ef_srcaddr fr @ bytes_be16 ETH_P_PAE @ [1, ef_packet_type fr] @ bytes_be16 (ef_packet_length fr) @
      [ef_code fr, ef_id fr]"] by (simp add: at)
qed

lemma accepted_group: "src \<noteq> mac \<Longrightarrow> accepted_addresses mac src group_address"
  by (simp add: accepted_addresses_def IsLoopBack_def Is8021xGroupAddr_def group_address_def)

text \<open>
  C18: outside of a network of Ruijie switches, the frame of an answer that is not to an MD5 challenge
  comes back out of its packet: a station that is given all of the packet reads the code, the
  identifier, the type and the data that went in. But the client announces one byte less than the
  packet has, and a station that is given these bytes only reads past their end.
\<close>

theorem packet_roundtrip:
  fixes d :: "byte list"
  assumes "length fresh = 1400" and "length (ef_srcaddr fr) = 6" and "ef_srcaddr fr \<noteq> mac"
    and "ef_packet_type fr = 0" and "ef_code fr \<notin> {3, 4}" and "ef_type fr \<noteq> 4"
    and "ef_union fr = Eap_notif_data d" and "5 < unat (ef_packet_length fr)" and "unat (ef_packet_length fr) - 5 \<le> length d"
    and "unat (ef_packet_length fr) \<le> 1382"
  defines "n \<equiv> 18 + unat (ef_packet_length fr)"
  shows "\<exists>pkt fr'. CreateEapolPacket ctx False a fresh fr = Some (Some (pkt, n - 1, ap_field_53B a)) \<and>
    ChangeToEAPOLFrame v ruijie_nas mac fresh' (take n pkt) n s = Some (s, Some fr') \<and>
    (ef_code fr', ef_id fr', ef_eap_length fr', ef_type fr') = (ef_code fr, ef_id fr, ef_eap_length fr, ef_type fr) \<and>
    ef_union fr' = Eap_notif_data (take (n - 23) d @ [0]) \<and>
    ChangeToEAPOLFrame v ruijie_nas mac fresh' (take (n - 1) pkt) (n - 1) s = None"
proof -
  define plen where "plen = unat (ef_packet_length fr)"
  define pkt where "pkt = eap_bytes fr (take (plen - 5) d) @ drop n fresh"
  have n: "n = 18 + plen" "5 < plen" "plen \<le> 1382" using assms by (simp_all add: plen_def)
  have create: "CreateEapolPacket ctx False a fresh fr = Some (Some (pkt, n - 1, ap_field_53B a))"
    using CreateEapolPacket_bytes [OF assms(1,2,7) plen_def] assms(6,9) n by (simp add: pkt_def flip: plen_def)
  have small: "\<not> ef_packet_length fr \<le> 3" "\<not> ef_packet_length fr \<le> 4"
    using n(2) unfolding plen_def by unat_arith+
  have take: "take n pkt = eap_bytes fr (take (plen - 5) d)" "take (n - 1) pkt = eap_bytes fr (take (plen - 6) d)"
  proof -
    have len: "length (eap_bytes fr (take (plen - 5) d)) = n"
      using assms(2,9) n by (simp add: len_simps min_def flip: plen_def)
    then show "take n pkt = eap_bytes fr (take (plen - 5) d)" by (simp add: pkt_def)
    have cut: "eap_bytes fr m = eap_bytes fr [] @ m" for m by (simp add: eap_bytes_def)
    have "take (n - 1) pkt = take (n - 1) (eap_bytes fr (take (plen - 5) d))" using len by (simp add: pkt_def)
    also have "\<dots> = eap_bytes fr [] @ take (plen - 6) d"
      using assms(2) n by (subst cut) (simp add: len_simps min_def)
    finally show "take (n - 1) pkt = eap_bytes fr (take (plen - 6) d)" by (simp only: cut [of "take (plen - 6) d"])
  qed
  note parse = ChangeToEAPOLFrame_def parse_eap_packet_def parse_eap_data_def eap_bytes_fields [OF assms(2)] accepted_group [OF assms(3)] Let_def
  have "\<exists>fr'. ChangeToEAPOLFrame v ruijie_nas mac fresh' (take n pkt) n s = Some (s, Some fr') \<and>
      (ef_code fr', ef_id fr', ef_eap_length fr', ef_type fr') = (ef_code fr, ef_id fr, ef_eap_length fr, ef_type fr) \<and>
      ef_union fr' = Eap_notif_data (take (n - 23) d @ [0])"
    unfolding take(1) using assms(4,5,6,9) n small by (simp add: parse flip: plen_def)
  moreover have "ChangeToEAPOLFrame v ruijie_nas mac fresh' (take (n - 1) pkt) (n - 1) s = None"
    unfolding take(2) using assms(4,5,6,9) n small by (simp add: parse min_def flip: plen_def) linarith
  ultimately show ?thesis using create by blast
qed


text \<open>The answer to a request for the identity, with the name \<open>a\<close>.\<close>

definition identity_answer :: EAPOLFrame where
  "identity_answer = frame_example\<lparr>ef_srcaddr := replicate 6 2, ef_packet_length := 6, ef_code := 2, ef_id := 1,
     ef_eap_length := 6, ef_type := 1, ef_union := Eap_notif_data [0x61]\<rparr>"

definition append_example :: append_env where
  "append_example = \<lparr>ap_seg = seg_example, ap_field_53B = True, ap_field_1139 = False, ap_dhcp_auth = False,
     ap_diskid_gbk = replicate 128 0, ap_domain_gbk = replicate 128 0, ap_sec_domain_name = [], ap_version_gbk = replicate 128 0\<rparr>"

definition fresh_example :: "byte list" where
  "fresh_example = replicate 1400 0"

lemma identity_answer_fields:
  "length (ef_srcaddr identity_answer) = 6" "ef_srcaddr identity_answer \<noteq> replicate 6 7" "ef_packet_type identity_answer = 0"
  "ef_code identity_answer \<notin> {3, 4}" "ef_type identity_answer \<noteq> 4" "ef_union identity_answer = Eap_notif_data [0x61]"
  "unat (ef_packet_length identity_answer) = 6" "ap_field_53B append_example = True" "length fresh_example = 1400"
  by (simp_all add: identity_answer_def frame_example_def append_example_def fresh_example_def)

lemma identity_answer_length:
  "5 < unat (ef_packet_length identity_answer)" "unat (ef_packet_length identity_answer) - 5 \<le> length [0x61 :: byte]"
  "unat (ef_packet_length identity_answer) \<le> 1382"
  by (simp_all add: identity_answer_fields)

theorem packet_roundtrip_witness:
  "\<exists>pkt. CreateEapolPacket (md5_zeroed :: u64 MD5_CTX) False append_example fresh_example identity_answer = Some (Some (pkt, 23, True)) \<and>
     ChangeToEAPOLFrame plain_conversions False (replicate 6 7) frame_example (take 23 pkt) 23 ctrl_example = None"
proof -
  have n: "18 + unat (ef_packet_length identity_answer) - 1 = 23" by (simp add: identity_answer_fields)
  show ?thesis
    using packet_roundtrip [OF identity_answer_fields(9,1-6) identity_answer_length, of "md5_zeroed :: u64 MD5_CTX" append_example
        plain_conversions False frame_example ctrl_example]
    unfolding n identity_answer_fields(8) simp_thms by (elim exE conjE) (intro exI conjI)
qed

theorem packet_lengths_witness:
  "\<exists>pkt n f. CreateEapolPacket (md5_zeroed :: u64 MD5_CTX) False append_example fresh_example identity_answer = Some (Some (pkt, n, f)) \<and>
     n \<noteq> 18 + unat (ef_packet_length identity_answer)"
proof -
  obtain pkt n f where pkt: "CreateEapolPacket (md5_zeroed :: u64 MD5_CTX) False append_example fresh_example identity_answer = Some (Some (pkt, n, f))"
    using CreateEapolPacket_bytes [OF identity_answer_fields(9,1,6) refl identity_answer_length identity_answer_fields(5)] by blast
  show ?thesis using packet_lengths [OF pkt] pkt identity_answer_length(1) by (intro exI [of _ pkt] exI [of _ n] exI [of _ f]) linarith
qed

subsection \<open>The front of a packet with properties\<close>

lemma store_at_take:
  "store_at buf i src = Some b \<Longrightarrow> n \<le> i \<Longrightarrow> take n b = take n buf"
  by (auto simp: store_at_def memcpy_def split: if_splits)

lemma at_offset_take: "at_offset f buf len = Some b \<Longrightarrow> n \<le> len \<Longrightarrow> take n b = take n buf"
  by (auto simp: at_offset_def min_def split: if_splits)

lemma emit_take: "emit buf len bs = Some (b, m) \<Longrightarrow> n \<le> len \<Longrightarrow> take n b = take n buf \<and> m = len + length bs"
  by (auto simp: emit_def dest: store_at_take)


lemma append_password_take:
  "append_password ctx a buf len = Some (b, m) \<Longrightarrow> n + 7 \<le> len \<Longrightarrow> take n b = take n buf \<and> len \<le> m"
  by (auto simp: append_password_def Let_def dest!: store_at_take [of _ _ _ _ n] at_offset_take [of _ _ _ _ n] split: bind_splits)

lemma EncapProgrammName_wipes:
  assumes "EncapProgrammName name buf = Some b"
  shows "take 32 b = replicate 32 0"
proof -
  have "c_string (replicate 128 0) = Some []" by (simp add: c_string_def takeWhile_replicate)
  then obtain b1 where "store_at b1 0 (replicate 32 0) = Some b"
    using assms by (auto simp: EncapProgrammName_def store_at_def memcpy_def split: bind_splits if_splits)
  then show ?thesis by (auto simp: store_at_def memcpy_def split: if_splits)
qed

lemma append_head_wipes:
  assumes "append_head a fr buf len = Some (b, m)"
  shows "take 32 b = replicate 32 0 \<and> len + 63 \<le> m"
proof -
  obtain b0 b1 n1 b2 b3 bs f where "emit b0 (len + 23) [0x00, 0x00, 0x13, 0x11] = Some (b1, n1)"
    and name: "EncapProgrammName (se_program_gbk (ap_seg a)) b1 = Some b2"
    and ver: "at_offset f b2 (n1 + 32) = Some b3" and info: "emit b3 (n1 + 32 + 4) bs = Some (b, m)"
    using assms by (auto simp: append_head_def Let_def split: bind_splits)
  then have "n1 = len + 27" by (auto simp: emit_def)
  then show ?thesis
    using EncapProgrammName_wipes [OF name] at_offset_take [OF ver, of 32] emit_take [OF info, of 32] by simp
qed

text \<open>
  In a network of Ruijie switches the private properties destroy the packet that they are appended
  to: the program name is written to the beginning of the packet and not behind what is there, so that
  the addresses, the type and the header of the packet are zeros, wherever the properties begin.
\<close>

theorem properties_wipe_header:
  assumes "append_front ctx a fr buf len = Some (b, m)"
  shows "take 32 b = replicate 32 0"
proof -
  obtain b1 n1 b2 n2 bs where h: "append_head a fr buf len = Some (b1, n1)"
    and p: "(if ap_field_53B a then append_password ctx a b1 n1 else Some (b1, n1)) = Some (b2, n2)"
    and t: "emit b2 n2 bs = Some (b, m)"
    using assms by (auto simp: append_front_def split: bind_splits)
  have "take 32 b1 = replicate 32 0" "39 \<le> n1" using append_head_wipes [OF h] by simp_all
  moreover have "take 32 b2 = take 32 b1 \<and> n1 \<le> n2"
    using p \<open>39 \<le> n1\<close> append_password_take [of ctx a b1 n1 b2 n2 32] by (cases "ap_field_53B a") simp_all
  ultimately show ?thesis using emit_take [OF t, of 32] by simp
qed


lemma store_at_fits:
  "i + length src \<le> length buf \<Longrightarrow> \<exists>b. store_at buf i src = Some b \<and> length b = length buf"
  by (simp add: store_at_def memcpy_def)

lemma at_offset_fits:
  "len \<le> length buf \<Longrightarrow> \<exists>b. f (drop len buf) = Some b \<and> length b = length buf - len \<Longrightarrow>
     \<exists>b. at_offset f buf len = Some b \<and> length b = length buf"
  by (auto simp: at_offset_def)

lemma emit_fits:
  "len + length bs \<le> length buf \<Longrightarrow> \<exists>b. emit buf len bs = Some (b, len + length bs) \<and> length b = length buf"
  using store_at_fits [of len bs buf] by (auto simp: emit_def)

lemma append_front_fits:
  assumes "\<not> ap_field_53B a" and "se_resolv (ap_seg a) = None" and "length (ef_field_C fr) = 6"
    and "dhcp_ok (ef_dhcp fr)" and "length buf = len + 300" and "length (se_program_gbk (ap_seg a)) \<le> 32"
  shows "\<exists>b m. append_front ctx a fr buf len = Some (b, m)"
proof -
  define e where "e = ap_seg a"
  obtain b0 where b0: "at_offset (EncapUCharDhcpIpInfo fr) buf len = Some b0" "length b0 = len + 300"
  proof -
    obtain c where "store_at (drop len buf) 0 (dhcp_bytes (ef_dhcp fr)) = Some c" "length c = 300"
      using store_at_fits [of 0 "dhcp_bytes (ef_dhcp fr)" "drop len buf"] assms(5) by (auto simp: dhcp_bytes_def len_simps)
    moreover from this obtain d where "DhcpIpInfoToUChar fr (drop len buf) = Some d" "length d = 300"
      using store_at_fits [of 21 "bytes_be16 (crc16 (take 21 (drop 21 c)))" c]
      by (auto simp: DhcpIpInfoToUChar_def read_at_def len_simps)
    moreover from this obtain g where "EncapUCharDhcpIpInfo fr (drop len buf) = Some g" "length g = 300"
      using store_at_fits [of 0 "encode (replicate 23 0)" d] by (auto simp: EncapUCharDhcpIpInfo_def encode_def decode_def)
    ultimately show ?thesis using at_offset_fits [of len buf "EncapUCharDhcpIpInfo fr"] assms(5) that by auto
  qed
  obtain b1 where b1: "emit b0 (len + 23) [0x00, 0x00, 0x13, 0x11] = Some (b1, len + 27)" "length b1 = len + 300"
    using emit_fits [of "len + 23" "[0x00, 0x00, 0x13, 0x11]" b0] b0(2) by auto
  define b2 where "b2 = replicate 32 0 @ drop 32 b1"
  have b2: "EncapProgrammName (se_program_gbk e) b1 = Some b2" "length b2 = len + 300"
    using EncapProgrammName_zeros [of "se_program_gbk e" b1] assms(6) b1(2) by (simp_all add: b2_def e_def)
  obtain b3 where b3: "at_offset (EncapUCharVersionNumber (se_major e) (se_minor e)) b2 (59 + len) = Some b3" "length b3 = len + 300"
    using at_offset_fits [of "59 + len" b2 "EncapUCharVersionNumber (se_major e) (se_minor e)"] b2(2)
    by (auto simp: EncapUCharVersionNumber_def store_at_def memcpy_def)
  obtain b4 n4 where b4: "append_head a fr buf len = Some (b4, n4)" "length b4 = len + 300" "n4 = len + 104"
  proof -
    define bs where "bs = [ef_field_6C0 fr, 0x00, 0x00, 0x13, 0x11, 0x00, 0x00] @ [0x1A, 0x0C, 0x00, 0x00, 0x13, 0x11, 0x18, 0x06] @
       bytes_le32 (if ap_dhcp_auth a then 1 else 0) @ property_head 0x0E 0x2D 0x08 @ ef_field_C fr @ property_head 0x08 0x2F 0x02"
    have "append_head a fr buf len = emit b3 (63 + len) bs"
      using b0(1) b1(1) b2(1) b3(1) by (simp add: append_head_def bs_def flip: e_def)
    moreover have "length bs = 41" using assms(3) by (simp add: bs_def len_simps)
    ultimately show ?thesis using emit_fits [of "63 + len" bs b3] b3(2) that by auto
  qed
  show ?thesis
    using b4 assms(1,2,4) emit_fits [of n4 "address_properties fr []" b4]
    by (auto simp: append_front_def get_alternate_dns_def read_at_def address_properties_def dhcp_ok_def Let_def)
qed


theorem properties_wipe_header_witness:
  "\<exists>b m. append_front (md5_zeroed :: u64 MD5_CTX) (append_example\<lparr>ap_field_53B := False\<rparr>) (identity_answer\<lparr>ef_field_C := replicate 6 2\<rparr>)
     (replicate (23 + 300) 1) 23 = Some (b, m) \<and> take 32 b = replicate 32 0"
proof -
  obtain b m where b: "append_front (md5_zeroed :: u64 MD5_CTX) (append_example\<lparr>ap_field_53B := False\<rparr>) (identity_answer\<lparr>ef_field_C := replicate 6 2\<rparr>)
      (replicate (23 + 300) 1) 23 = Some (b, m)"
    using append_front_fits [of "append_example\<lparr>ap_field_53B := False\<rparr>" "identity_answer\<lparr>ef_field_C := replicate 6 2\<rparr>" "replicate (23 + 300) 1" 23
      "md5_zeroed :: u64 MD5_CTX"]
    by (auto simp: append_example_def seg_example_def identity_answer_def frame_example_def dhcp_ok_def)
  show ?thesis using properties_wipe_header [OF b] b by blast
qed

end
