(* ===== verification/Dir_Params.thy ===== *)
theory Dir_Params
  imports Wire
begin

text \<open>
  The lists that the two threads of the direct transfer keep for each peer, by address and port
  (\<open>tuanzi/include/dirtranstags.h\<close>, \<open>tuanzi/src/dirtranthread.cpp\<close>, \<open>udplistenthread.cpp\<close>): the parameters of
  the protocol, which both threads have, and the time stamps of version 2. The loops over the lists
  change or return the first entry of the peer. The locale \<open>keyed_store\<close> states what they are meant
  to be: maps.
\<close>

subsection \<open>Stores with keys\<close>

fun change_first :: "('v \<Rightarrow> bool) \<Rightarrow> ('v \<Rightarrow> 'v) \<Rightarrow> 'v list \<Rightarrow> 'v list" where
  "change_first P f [] = []"
| "change_first P f (v # vs) = (if P v then f v # vs else v # change_first P f vs)"

locale keyed_store =
  fixes get :: "'s \<Rightarrow> 'k \<Rightarrow> 'v option" and change :: "'k \<Rightarrow> ('v \<Rightarrow> 'v) \<Rightarrow> 's \<Rightarrow> 's" and add :: "'v \<Rightarrow> 's \<Rightarrow> 's" and key :: "'v \<Rightarrow> 'k"
  assumes get_change: "(\<And>v. key v = k \<Longrightarrow> key (f v) = k) \<Longrightarrow>
      get (change k f s) k' = (if k' = k then map_option f (get s k) else get s k')"
    and get_add: "get s (key v) = None \<Longrightarrow> get (add v s) k' = (if k' = key v then Some v else get s k')"
    and get_key: "get s k = Some v \<Longrightarrow> key v = k"
begin

text \<open>\<open>put\<close> is what a call that replaces the entry or adds one does; a series of them updates the map.\<close>

lemma get_put:
  assumes "\<And>v s. put v s = (if get s (key v) = None then add v s else change (key v) (\<lambda>_. v) s)"
  shows "get (put v s) = (get s)(key v \<mapsto> v)"
proof
  fix k
  show "get (put v s) k = ((get s)(key v \<mapsto> v)) k"
    by (cases "get s (key v)") (auto simp: assms get_add get_change)
qed

lemma get_puts:
  assumes "\<And>v s. put v s = (if get s (key v) = None then add v s else change (key v) (\<lambda>_. v) s)"
  shows "get (fold put vs s) = get s ++ map_of (map (\<lambda>v. (key v, v)) (rev vs))"
proof (induction vs arbitrary: s)
  case (Cons v vs)
  have "get (put v s) = (get s)(key v \<mapsto> v)" using assms by (rule get_put)
  with Cons.IH [of "put v s"] show ?case by (auto simp: map_add_def fun_eq_iff split: option.splits)
qed simp

end

text \<open>A list with a key on its entries is such a store.\<close>

lemma find_change_first:
  assumes "\<And>v. key v = k \<Longrightarrow> key (f v) = k"
  shows "find (\<lambda>v. key v = k') (change_first (\<lambda>v. key v = k) f vs) =
    (if k' = k then map_option f (find (\<lambda>v. key v = k) vs) else find (\<lambda>v. key v = k') vs)"
  using assms by (induction vs) auto

lemma find_append: "find P (xs @ ys) = (case find P xs of None \<Rightarrow> find P ys | Some x \<Rightarrow> Some x)"
  by (induction xs) auto

lemma find_key: "find (\<lambda>v. key v = k) vs = Some v \<Longrightarrow> key v = k"
  by (auto simp: find_Some_iff)

lemma keyed_list:
  "keyed_store (\<lambda>vs k. find (\<lambda>v. key v = k) vs) (\<lambda>k. change_first (\<lambda>v. key v = k)) (\<lambda>v vs. vs @ [v]) key"
proof (unfold_locales, goal_cases)
  case (1 k f s k')
  then show ?case by (rule find_change_first)
next
  case (2 s v k')
  then show ?case by (auto simp: find_append split: option.split)
next
  case (3 s k v)
  then show ?case by (rule find_key)
qed

subsection \<open>Runs\<close>

text \<open>What a thread does in the steps of a relation, and what every step keeps and all of them do.\<close>

inductive steps :: "('s \<Rightarrow> 'a list \<Rightarrow> 's \<Rightarrow> bool) \<Rightarrow> 's \<Rightarrow> 'a list \<Rightarrow> 's \<Rightarrow> bool" for R where
  start: "steps R s [] s"
| step: "steps R s as s' \<Longrightarrow> R s' bs s'' \<Longrightarrow> steps R s (as @ bs) s''"

lemma steps_invariant:
  assumes "steps R s as s'" and "\<And>s as s'. R s as s' \<Longrightarrow> I s \<Longrightarrow> list_all P as \<Longrightarrow> I s' \<and> list_all Q as"
    and "I s" and "list_all P as"
  shows "I s' \<and> list_all Q as"
  using assms(1,3,4) by (induction rule: steps.induct) (auto dest: assms(2))

lemma steps_one: "R s as s' \<Longrightarrow> steps R s as s'"
  using steps.step [OF steps.start] by fastforce

lemma steps_more: "steps R s as s' \<Longrightarrow> R s' bs s'' \<Longrightarrow> cs = as @ bs \<Longrightarrow> steps R s cs s''"
  by (simp add: steps.step)

subsection \<open>Parameters of the protocol\<close>

record tagDirectCom_ProtocalParam =
  pp_addr :: u32
  pp_port :: u16
  pp_su_ipaddr :: u32
  pp_dstaddr :: u32
  pp_retry_count :: u32
  pp_timeout :: u32
  pp_keybuf :: "byte list"
  pp_ivbuf :: "byte list"
  pp_check_timestamp :: bool
  pp_utc_time :: u64
  pp_timestamp :: u64
  pp_field_40 :: bool
  pp_version :: byte

definition pp_key :: "tagDirectCom_ProtocalParam \<Rightarrow> u32 \<times> u16" where
  "pp_key p = (pp_addr p, pp_port p)"

text \<open>\<open>GetProtocalParam\<close> leaves its argument as it is when there is no entry.\<close>

definition GetProtocalParam ::
  "tagDirectCom_ProtocalParam list \<Rightarrow> tagDirectCom_ProtocalParam \<Rightarrow> u32 \<Rightarrow> u16 \<Rightarrow> bool \<times> tagDirectCom_ProtocalParam" where
  "GetProtocalParam proto_params proto_param addr port =
     (case find (\<lambda>p. pp_key p = (addr, port)) proto_params of
        Some p \<Rightarrow> (True, p\<lparr>pp_addr := addr\<rparr>)
      | None \<Rightarrow> (False, proto_param))"

definition set_proto_param :: "tagDirectCom_ProtocalParam \<Rightarrow> tagDirectCom_ProtocalParam list \<Rightarrow> tagDirectCom_ProtocalParam list" where
  "set_proto_param proto_param proto_params =
     (if list_ex (\<lambda>p. pp_key p = pp_key proto_param) proto_params
      then change_first (\<lambda>p. pp_key p = pp_key proto_param) (\<lambda>_. proto_param) proto_params
      else proto_params @ [proto_param])"

definition SetProtocalParam_TimeStamp ::
  "tagDirectCom_ProtocalParam list \<Rightarrow> u32 \<Rightarrow> u16 \<Rightarrow> u64 \<Rightarrow> u64 \<Rightarrow> bool \<times> tagDirectCom_ProtocalParam list" where
  "SetProtocalParam_TimeStamp proto_params addr port utc_time timestamp =
     (list_ex (\<lambda>p. pp_key p = (addr, port)) proto_params,
      change_first (\<lambda>p. pp_key p = (addr, port))
        (\<lambda>p. p\<lparr>pp_utc_time := utc_time, pp_timestamp := timestamp, pp_check_timestamp := utc_time \<noteq> 0\<rparr>) proto_params)"

definition SetReTranPara ::
  "tagDirectCom_ProtocalParam list \<Rightarrow> u32 \<Rightarrow> u16 \<Rightarrow> u32 \<Rightarrow> u32 \<Rightarrow> bool \<times> tagDirectCom_ProtocalParam list" where
  "SetReTranPara proto_params addr port retry_count timeout =
     (list_ex (\<lambda>p. pp_key p = (addr, port)) proto_params,
      change_first (\<lambda>p. pp_key p = (addr, port))
        (\<lambda>p. p\<lparr>pp_retry_count := (if retry_count \<noteq> 0 then retry_count else pp_retry_count p),
              pp_timeout := (if timeout \<noteq> 0 then timeout else pp_timeout p)\<rparr>) proto_params)"

interpretation params: keyed_store "\<lambda>vs k. find (\<lambda>p. pp_key p = k) vs" "\<lambda>k. change_first (\<lambda>p. pp_key p = k)" "\<lambda>p ps. ps @ [p]" pp_key
  by (rule keyed_list)

lemma list_ex_find: "list_ex P vs \<longleftrightarrow> find P vs \<noteq> None"
  by (induction vs) auto

definition peer_params :: "tagDirectCom_ProtocalParam list \<Rightarrow> u32 \<times> u16 \<Rightarrow> tagDirectCom_ProtocalParam option" where
  "peer_params ps k = find (\<lambda>p. pp_key p = k) ps"

text \<open>
  C17: the parameters of the peers are a map: after any series of \<open>SetDirParaXieYi\<close>, \<open>GetProtocalParam\<close>
  finds for an address and a port what was set last for them, and if nothing was, what was there
  before; retry parameters and time stamps change the entry of their peer only.
\<close>

theorem protocol_parameters_refine_map:
  "GetProtocalParam (fold set_proto_param new old) p addr port =
      (case (peer_params old ++ map_of (map (\<lambda>p. (pp_key p, p)) (rev new))) (addr, port) of Some q \<Rightarrow> (True, q) | None \<Rightarrow> (False, p)) \<and>
    peer_params (snd (SetReTranPara ps addr port retry_count timeout)) k =
      (if k = (addr, port) then map_option (\<lambda>p. p\<lparr>pp_retry_count := (if retry_count \<noteq> 0 then retry_count else pp_retry_count p),
         pp_timeout := (if timeout \<noteq> 0 then timeout else pp_timeout p)\<rparr>) (peer_params ps k) else peer_params ps k) \<and>
    peer_params (snd (SetProtocalParam_TimeStamp ps addr port utc stamp)) k =
      (if k = (addr, port) then map_option (\<lambda>p. p\<lparr>pp_utc_time := utc, pp_timestamp := stamp, pp_check_timestamp := utc \<noteq> 0\<rparr>) (peer_params ps k)
       else peer_params ps k)"
proof (intro conjI)
  have put: "set_proto_param v s = (if find (\<lambda>p. pp_key p = pp_key v) s = None then s @ [v]
      else change_first (\<lambda>p. pp_key p = pp_key v) (\<lambda>_. v) s)" for v s
    by (simp add: set_proto_param_def list_ex_find)
  have keep: "p\<lparr>pp_addr := addr\<rparr> = p" if "find (\<lambda>p. pp_key p = (addr, port)) ps = Some p" for p ps
    using find_key [OF that] by (simp add: pp_key_def)
  show "GetProtocalParam (fold set_proto_param new old) p addr port =
      (case (peer_params old ++ map_of (map (\<lambda>p. (pp_key p, p)) (rev new))) (addr, port) of Some q \<Rightarrow> (True, q) | None \<Rightarrow> (False, p))"
    using fun_cong [OF params.get_puts [OF put, of new old], of "(addr, port)"] keep [of "fold set_proto_param new old"]
    by (auto simp: GetProtocalParam_def peer_params_def split: option.split)
  show "peer_params (snd (SetReTranPara ps addr port retry_count timeout)) k =
      (if k = (addr, port) then map_option (\<lambda>p. p\<lparr>pp_retry_count := (if retry_count \<noteq> 0 then retry_count else pp_retry_count p),
         pp_timeout := (if timeout \<noteq> 0 then timeout else pp_timeout p)\<rparr>) (peer_params ps k) else peer_params ps k)"
    unfolding peer_params_def SetReTranPara_def snd_conv by (subst params.get_change) (auto simp: pp_key_def)
  show "peer_params (snd (SetProtocalParam_TimeStamp ps addr port utc stamp)) k =
      (if k = (addr, port) then map_option (\<lambda>p. p\<lparr>pp_utc_time := utc, pp_timestamp := stamp, pp_check_timestamp := utc \<noteq> 0\<rparr>) (peer_params ps k)
       else peer_params ps k)"
    unfolding peer_params_def SetProtocalParam_TimeStamp_def snd_conv by (subst params.get_change) (auto simp: pp_key_def)
qed

end
