(* ===== verification/Dir_Receive.thy ===== *)
theory Dir_Receive
  imports Dir_Params Net_Util Client_Md5 Su_Des
begin

text \<open>
  The receiving thread of the direct transfer, \<open>tuanzi/src/udplistenthread.cpp\<close>: the time stamps of the
  peers, the receivers with their sessions, the checks of a packet and of a response, and the
  response that is sent. The tick count is an argument; \<open>None\<close> is a failed assertion or an access
  outside of a buffer.
\<close>

subsection \<open>Time stamps\<close>

record tagTimeStampV2 =
  v2_addr :: u32
  v2_port :: u16
  v2_field_6 :: u16
  v2_next_send :: u64
  v2_last_received :: u64
  v2_out_of_order :: u32
  v2_field_1C :: u32

definition v2_key :: "tagTimeStampV2 \<Rightarrow> u32 \<times> u16" where
  "v2_key t = (v2_addr t, v2_port t)"

interpretation stamps: keyed_store "\<lambda>vs k. find (\<lambda>t. v2_key t = k) vs" "\<lambda>k. change_first (\<lambda>t. v2_key t = k)" "\<lambda>t ts. ts @ [t]" v2_key
  by (rule keyed_list)

definition peer_stamp :: "tagTimeStampV2 list \<Rightarrow> u32 \<times> u16 \<Rightarrow> tagTimeStampV2 option" where
  "peer_stamp ts k = find (\<lambda>t. v2_key t = k) ts"

definition change_stamp :: "u32 \<times> u16 \<Rightarrow> (tagTimeStampV2 \<Rightarrow> tagTimeStampV2) \<Rightarrow> tagTimeStampV2 list \<Rightarrow> tagTimeStampV2 list" where
  "change_stamp k f ts = change_first (\<lambda>t. v2_key t = k) f ts"

definition InitTimeStampV2 :: "tagTimeStampV2 list \<Rightarrow> u32 \<Rightarrow> u16 \<Rightarrow> u64 \<Rightarrow> tagTimeStampV2 list" where
  "InitTimeStampV2 ts addr port next_timestamp_for_send =
     (case peer_stamp ts (addr, port) of
        Some _ \<Rightarrow> change_stamp (addr, port) (\<lambda>t. t\<lparr>v2_next_send := next_timestamp_for_send\<rparr>) ts
      | None \<Rightarrow> ts @ [\<lparr>v2_addr = addr, v2_port = port, v2_field_6 = 0, v2_next_send = next_timestamp_for_send,
          v2_last_received = 0, v2_out_of_order = 0, v2_field_1C = 0\<rparr>])"

definition GetLastTimeStampForReceive :: "tagTimeStampV2 list \<Rightarrow> u32 \<Rightarrow> u16 \<Rightarrow> u64 option" where
  "GetLastTimeStampForReceive ts addr port = map_option v2_last_received (peer_stamp ts (addr, port))"

definition GetNextTimeStampForSend :: "tagTimeStampV2 list \<Rightarrow> u32 \<Rightarrow> u16 \<Rightarrow> (u64 \<times> tagTimeStampV2 list) option" where
  "GetNextTimeStampForSend ts addr port =
     map_option (\<lambda>t. (v2_next_send t + 1, change_stamp (addr, port) (\<lambda>t. t\<lparr>v2_next_send := v2_next_send t + 1\<rparr>) ts))
       (peer_stamp ts (addr, port))"

definition GetOutOfOrderNum :: "tagTimeStampV2 list \<Rightarrow> u32 \<Rightarrow> u16 \<Rightarrow> u32 option" where
  "GetOutOfOrderNum ts addr port = map_option v2_out_of_order (peer_stamp ts (addr, port))"

definition SetLastTimeStampForReceive :: "tagTimeStampV2 list \<Rightarrow> u32 \<Rightarrow> u16 \<Rightarrow> u64 \<Rightarrow> tagTimeStampV2 list option" where
  "SetLastTimeStampForReceive ts addr port timestamp =
     map_option (\<lambda>_. change_stamp (addr, port) (\<lambda>t. t\<lparr>v2_last_received := timestamp\<rparr>) ts) (peer_stamp ts (addr, port))"

definition SetOutOfOrderNum :: "tagTimeStampV2 list \<Rightarrow> u32 \<Rightarrow> u16 \<Rightarrow> u32 \<Rightarrow> tagTimeStampV2 list option" where
  "SetOutOfOrderNum ts addr port out_of_order_num =
     map_option (\<lambda>_. change_stamp (addr, port) (\<lambda>t. t\<lparr>v2_out_of_order := out_of_order_num\<rparr>) ts) (peer_stamp ts (addr, port))"

text \<open>
  Version 1 compares seconds, with the difference of unsigned numbers read as a signed one; \<open>labs\<close> of
  the least number is not defined.
\<close>

definition IsGoodAsyUTC ::
  "tagDirectCom_ProtocalParam \<Rightarrow> u64 \<Rightarrow> tagTimeStampV2 list \<Rightarrow> u64 \<Rightarrow> (bool \<times> tagTimeStampV2 list) option" where
  "IsGoodAsyUTC proto_param tick ts timestamp =
     (if \<not> pp_check_timestamp proto_param then Some (True, ts)
      else if pp_version proto_param = 1 then
        (let d = sint (timestamp - pp_utc_time proto_param - (tick - pp_timestamp proto_param) div 1000)
         in if d = - (2 ^ 63) then None else Some (\<bar>d\<bar> \<le> 60, ts))
      else do {
        let addr = pp_addr proto_param;
        let port = pp_port proto_param;
        last_timestamp \<leftarrow> GetLastTimeStampForReceive ts addr port;
        if timestamp \<le> last_timestamp then do {
          outoforder_num \<leftarrow> GetOutOfOrderNum ts addr port;
          if outoforder_num \<le> 4 then do {
            ts \<leftarrow> SetOutOfOrderNum ts addr port (outoforder_num + 1);
            Some (True, ts)
          }
          else Some (False, ts)
        }
        else do {
          ts \<leftarrow> SetLastTimeStampForReceive ts addr port timestamp;
          ts \<leftarrow> SetOutOfOrderNum ts addr port 0;
          Some (True, ts)
        }
      })"

text \<open>The checks of a series of packets of one peer.\<close>

fun check_stamps ::
  "tagDirectCom_ProtocalParam \<Rightarrow> tagTimeStampV2 list \<Rightarrow> (u64 \<times> u64) list \<Rightarrow> (bool list \<times> tagTimeStampV2 list) option" where
  "check_stamps p ts [] = Some ([], ts)"
| "check_stamps p ts ((tick, t) # rest) = do {
     (ok, ts) \<leftarrow> IsGoodAsyUTC p tick ts t;
     (oks, ts) \<leftarrow> check_stamps p ts rest;
     Some (ok # oks, ts)
   }"

lemma peer_stamp_change:
  "(\<And>t. v2_key t = k \<Longrightarrow> v2_key (f t) = k) \<Longrightarrow>
     peer_stamp (change_stamp k f ts) k' = (if k' = k then map_option f (peer_stamp ts k) else peer_stamp ts k')"
  unfolding peer_stamp_def change_stamp_def by (rule stamps.get_change)

lemma peer_stamp_updates [simp]:
  "peer_stamp (change_stamp k (v2_out_of_order_update g) ts) k' = (if k' = k then map_option (v2_out_of_order_update g) (peer_stamp ts k) else peer_stamp ts k')"
  "peer_stamp (change_stamp k (v2_last_received_update h) ts) k' = (if k' = k then map_option (v2_last_received_update h) (peer_stamp ts k) else peer_stamp ts k')"
  "peer_stamp (change_stamp k (v2_next_send_update h) ts) k' = (if k' = k then map_option (v2_next_send_update h) (peer_stamp ts k) else peer_stamp ts k')"
  by (rule peer_stamp_change, simp add: v2_key_def)+

definition pp_v2 :: "tagDirectCom_ProtocalParam \<Rightarrow> bool" where
  "pp_v2 p \<longleftrightarrow> pp_check_timestamp p \<and> pp_version p \<noteq> 1"

text \<open>One check as a step of the last time stamp and the count; \<open>stamp_with\<close> is the entry with these two.\<close>

abbreviation stamp_with :: "tagTimeStampV2 \<Rightarrow> u64 \<Rightarrow> u32 \<Rightarrow> tagTimeStampV2" where
  "stamp_with v newest n \<equiv> v\<lparr>v2_last_received := newest, v2_out_of_order := n\<rparr>"

lemma IsGoodAsyUTC_step:
  assumes "pp_v2 p" and "peer_stamp ts (pp_key p) = Some v"
  shows "\<exists>ts'. IsGoodAsyUTC p tick ts t = Some (v2_last_received v < t \<or> v2_out_of_order v \<le> 4, ts') \<and>
    peer_stamp ts' (pp_key p) = Some (if v2_last_received v < t then stamp_with v t 0
      else if v2_out_of_order v \<le> 4 then v\<lparr>v2_out_of_order := v2_out_of_order v + 1\<rparr> else v)"
proof -
  have key: "v2_key v = (pp_addr p, pp_port p)" using assms(2) unfolding peer_stamp_def pp_key_def by (rule find_key)
  show ?thesis
    using assms key
    by (auto simp: IsGoodAsyUTC_def pp_v2_def pp_key_def GetLastTimeStampForReceive_def GetOutOfOrderNum_def
        SetLastTimeStampForReceive_def SetOutOfOrderNum_def Let_def v2_key_def not_le)
qed


lemma check_stamps_stale:
  assumes "pp_v2 p"
  shows "peer_stamp ts (pp_key p) = Some v \<Longrightarrow> v2_out_of_order v \<le> 5 \<Longrightarrow> \<forall>x \<in> set xs. snd x \<le> v2_last_received v \<Longrightarrow>
    k = min (length xs) (5 - unat (v2_out_of_order v)) \<Longrightarrow>
    \<exists>ts' v'. check_stamps p ts xs = Some (replicate k True @ replicate (length xs - k) False, ts') \<and>
      peer_stamp ts' (pp_key p) = Some v' \<and> v2_last_received v' = v2_last_received v \<and>
      unat (v2_out_of_order v') = unat (v2_out_of_order v) + k"
proof (induction xs arbitrary: ts v k)
  case (Cons x xs)
  obtain tick t where x: "x = (tick, t)" by (cases x)
  have stale: "\<not> v2_last_received v < t" using Cons.prems(3) by (simp add: x not_less)
  obtain ts1 where ts1: "IsGoodAsyUTC p tick ts t = Some (v2_out_of_order v \<le> 4, ts1)"
    "peer_stamp ts1 (pp_key p) = Some (if v2_out_of_order v \<le> 4 then v\<lparr>v2_out_of_order := v2_out_of_order v + 1\<rparr> else v)"
    using IsGoodAsyUTC_step [OF assms Cons.prems(1), of tick t] stale by auto
  show ?case
  proof (cases "v2_out_of_order v \<le> 4")
    case True
    then have n: "unat (v2_out_of_order v + 1) = unat (v2_out_of_order v) + 1" "v2_out_of_order v + 1 \<le> 5" "unat (v2_out_of_order v) \<le> 4"
      using True by (auto simp: word_le_nat_alt unat_word_ariths)
    define v1 where "v1 = v\<lparr>v2_out_of_order := v2_out_of_order v + 1\<rparr>"
    have v1: "peer_stamp ts1 (pp_key p) = Some v1" "v2_out_of_order v1 \<le> 5" "\<forall>x \<in> set xs. snd x \<le> v2_last_received v1"
      using ts1(2) True n(2) Cons.prems(3) by (simp_all add: v1_def)
    from Cons.IH [OF v1 refl] obtain ts' v' where
      "check_stamps p ts1 xs = Some (replicate (min (length xs) (5 - unat (v2_out_of_order v1))) True @
        replicate (length xs - min (length xs) (5 - unat (v2_out_of_order v1))) False, ts')"
      "peer_stamp ts' (pp_key p) = Some v'" "v2_last_received v' = v2_last_received v1"
      "unat (v2_out_of_order v') = unat (v2_out_of_order v1) + min (length xs) (5 - unat (v2_out_of_order v1))"
      by blast
    moreover have "k = Suc (min (length xs) (5 - unat (v2_out_of_order v1)))"
      using Cons.prems(4) n(1,3) by (simp add: min_def v1_def) linarith
    moreover have "unat (v2_out_of_order v1) = unat (v2_out_of_order v) + 1" "v2_last_received v1 = v2_last_received v"
      using n(1) by (simp_all add: v1_def)
    ultimately show ?thesis using ts1(1) True by (simp add: x)
  next
    case False
    then have "unat (v2_out_of_order v) = 5" using Cons.prems(2) by (simp add: word_le_nat_alt)
    moreover from this have "k = 0" using Cons.prems(4) by simp
    ultimately show ?thesis using Cons.IH [of ts1 v 0] ts1 False Cons.prems(2,3) by (auto simp: x)
  qed
qed simp

text \<open>
  C16: replays and late packets in version 2 of the protocol: after a packet with the newest time stamp,
  of the packets of this peer that are not newer, the first five are accepted, whatever their
  time stamps, and all others are rejected, until a newer one comes, which is accepted and opens the
  next five. The count never exceeds five.
\<close>

theorem replay_window:
  assumes "pp_v2 p" and "peer_stamp ts (pp_key p) = Some v" and "v2_out_of_order v \<le> 5"
    and "\<forall>x \<in> set xs. snd x \<le> v2_last_received v" and "v2_last_received v < t"
  defines "k \<equiv> min (length xs) (5 - unat (v2_out_of_order v))"
  shows "\<exists>ts' v'. check_stamps p ts (xs @ [(tick, t)]) = Some (replicate k True @ replicate (length xs - k) False @ [True], ts') \<and>
    peer_stamp ts' (pp_key p) = Some v' \<and> v2_last_received v' = t \<and> v2_out_of_order v' = 0"
proof -
  have append: "check_stamps p s (ys @ zs) = do { (a, s) \<leftarrow> check_stamps p s ys; (b, s) \<leftarrow> check_stamps p s zs; Some (a @ b, s) }" for s ys zs
    by (induction p s ys rule: check_stamps.induct) (auto split: bind_splits prod.splits Option.bind_split)
  obtain ts1 v1 where ts1: "check_stamps p ts xs = Some (replicate k True @ replicate (length xs - k) False, ts1)"
    "peer_stamp ts1 (pp_key p) = Some v1" "v2_last_received v1 = v2_last_received v"
    using check_stamps_stale [OF assms(1-4)] k_def by blast
  obtain ts2 where ts2: "IsGoodAsyUTC p tick ts1 t = Some (True, ts2)" "peer_stamp ts2 (pp_key p) = Some (stamp_with v1 t 0)"
    using IsGoodAsyUTC_step [OF assms(1) ts1(2), of tick t] ts1(3) assms(5) by auto
  show ?thesis using ts1(1) ts2 by (simp add: append)
qed


text \<open>A peer with version 2 and its entry.\<close>

definition param_example :: tagDirectCom_ProtocalParam where
  "param_example = \<lparr>pp_addr = 0x0100007F, pp_port = 3848, pp_su_ipaddr = 0, pp_dstaddr = 0, pp_retry_count = 3, pp_timeout = 3000,
     pp_keybuf = replicate 8 1, pp_ivbuf = replicate 8 2, pp_check_timestamp = True, pp_utc_time = 0, pp_timestamp = 0,
     pp_field_40 = False, pp_version = 2\<rparr>"

theorem replay_window_witness:
  "\<exists>ts' v'. check_stamps param_example (InitTimeStampV2 [] 0x0100007F 3848 9) (replicate 6 (0, 0) @ [(0, 7)]) =
     Some (replicate 5 True @ replicate 1 False @ [True], ts') \<and> peer_stamp ts' (pp_key param_example) = Some v' \<and> v2_last_received v' = 7"
proof -
  have stamp: "peer_stamp (InitTimeStampV2 [] 0x0100007F 3848 9) (pp_key param_example) = Some \<lparr>v2_addr = 0x0100007F, v2_port = 3848, v2_field_6 = 0,
      v2_next_send = 9, v2_last_received = 0, v2_out_of_order = 0, v2_field_1C = 0\<rparr>"
    by (simp add: InitTimeStampV2_def peer_stamp_def pp_key_def v2_key_def param_example_def)
  have v2: "pp_v2 param_example" by (simp add: pp_v2_def param_example_def)
  show ?thesis using replay_window [OF v2 stamp, of "replicate 6 (0, 0)" 7 0] by (simp add: min_def) blast
qed


subsection \<open>Packets\<close>

definition be64_at :: "byte list \<Rightarrow> nat \<Rightarrow> u64 option" where
  "be64_at buf i = map_option (htonLONGLONG \<circ> word_le64) (read_at buf i 8)"

definition addr_at :: "byte list \<Rightarrow> nat \<Rightarrow> u32 option" where
  "addr_at buf i = map_option word_le32 (read_at buf i 4)"

record tagDirPacketHead =
  ph_version :: byte
  ph_response_code :: byte
  ph_id :: u32
  ph_packet_len :: u16
  ph_md5sum :: "byte list"
  ph_session_id :: u32
  ph_timestamp :: u64
  ph_field_28 :: bool
  ph_slicetype :: byte
  ph_data_len :: u32

definition DIRPACKET_REQUEST :: byte where "DIRPACKET_REQUEST = 1"
definition DIRPACKET_RESPONSE :: byte where "DIRPACKET_RESPONSE = 2"
definition DIRPACKET_SINGLE :: byte where "DIRPACKET_SINGLE = 1"
definition DIRPACKET_MULTI_BEGIN :: byte where "DIRPACKET_MULTI_BEGIN = 2"
definition DIRPACKET_MULTI_MIDDLE :: byte where "DIRPACKET_MULTI_MIDDLE = 3"
definition DIRPACKET_MULTI_END :: byte where "DIRPACKET_MULTI_END = 4"

text \<open>The Ethernet, IP and UDP headers take 42 bytes, and the head that follows them another 42.\<close>

definition read_head :: "byte list \<Rightarrow> tagDirPacketHead option" where
  "read_head pkg = do {
     version \<leftarrow> Prelude.byte_at pkg 42;
     code \<leftarrow> Prelude.byte_at pkg 43;
     ident \<leftarrow> be32_at pkg 44;
     packet_len \<leftarrow> be16_at pkg 48;
     md5sum \<leftarrow> read_at pkg 50 16;
     session \<leftarrow> be32_at pkg 66;
     timestamp \<leftarrow> be64_at pkg 70;
     field_24 \<leftarrow> Prelude.byte_at pkg 78;
     slicetype \<leftarrow> Prelude.byte_at pkg 79;
     data_len \<leftarrow> be32_at pkg 80;
     Some \<lparr>ph_version = version, ph_response_code = code, ph_id = ident, ph_packet_len = packet_len, ph_md5sum = md5sum,
       ph_session_id = session, ph_timestamp = timestamp, ph_field_28 = (field_24 \<noteq> 0), ph_slicetype = slicetype, ph_data_len = data_len\<rparr>
   }"

text \<open>The members of \<open>mtagFinalDirPacket\<close> as they are in the memory of a host.\<close>

definition final_head :: "tagDirPacketHead \<Rightarrow> byte list" where
  "final_head h = [ph_version h, ph_response_code h] @ bytes_le32 (ph_id h) @ bytes_le16 (ph_packet_len h) @ ph_md5sum h @
     bytes_le32 (ph_session_id h) @ bytes_le64 (ph_timestamp h) @ [if ph_field_28 h then 1 else 0, ph_slicetype h] @ bytes_le32 (ph_data_len h)"

text \<open>
  The checksum of a packet: the text of the digest is read back into \<open>md5_checksum[16]\<close>, and one byte is
  written behind it (\<open>Client_Md5\<close>). \<open>slack\<close> is the number of bytes behind the array that the program
  can do without: with none the write hits something else, and the result is \<open>None\<close>. \<open>fresh\<close> is what
  the memory of the text holds.
\<close>

definition packet_digest :: "'u::len itself \<Rightarrow> nat \<Rightarrow> byte list \<Rightarrow> byte list \<Rightarrow> byte list option" where
  "packet_digest u slack fresh input = do {
     text \<leftarrow> CMD5Checksum_GetMD5 u fresh input;
     s \<leftarrow> c_string text;
     (n, md5_checksum) \<leftarrow> MD5StrtoUChar s (replicate (16 + slack) 0);
     Some (take 16 md5_checksum)
   }"

definition checksum_input :: "tagDirectCom_ProtocalParam \<Rightarrow> tagDirPacketHead \<Rightarrow> byte list \<Rightarrow> byte list option" where
  "checksum_input proto_param head pkg = do {
     packet \<leftarrow> read_at pkg 42 (unat (ph_packet_len head));
     store_at (packet @ pp_keybuf proto_param @ pp_ivbuf proto_param) 8 (replicate 16 0)
   }"

definition default_param :: "u64 \<Rightarrow> tagDirectCom_ProtocalParam" where
  "default_param tick = \<lparr>pp_addr = 0, pp_port = 0, pp_su_ipaddr = 0, pp_dstaddr = 0, pp_retry_count = 3, pp_timeout = 3000,
     pp_keybuf = replicate 8 0, pp_ivbuf = replicate 8 0, pp_check_timestamp = True, pp_utc_time = 0, pp_timestamp = tick,
     pp_field_40 = False, pp_version = 1\<rparr>"

subsection \<open>Responses\<close>

record tagDirResPara =
  rp_srcport :: u32
  rp_dstaddr :: u32
  rp_head :: tagDirPacketHead

text \<open>The head of a response against that of the request, whose numbers are in network order.\<close>

definition response_matches :: "tagDirResPara \<Rightarrow> tagDirectCom_ProtocalParam \<Rightarrow> tagDirPacketHead \<Rightarrow> bool" where
  "response_matches dir_para proto_param head \<longleftrightarrow>
     ph_version head = pp_version proto_param \<and> ph_response_code head = DIRPACKET_RESPONSE \<and>
     ph_id head = bswap_32 (ph_id (rp_head dir_para)) \<and> ph_packet_len head = 42 \<and>
     ph_session_id head = bswap_32 (ph_session_id (rp_head dir_para)) \<and>
     ph_field_28 head \<and> ph_slicetype head = DIRPACKET_SINGLE \<and> ph_data_len head = 0"

definition ResponseSender ::
  "'u::len itself \<Rightarrow> nat \<Rightarrow> byte list \<Rightarrow> u64 \<Rightarrow> bool \<Rightarrow> tagDirResPara \<Rightarrow> tagDirectCom_ProtocalParam list \<Rightarrow> tagTimeStampV2 list \<Rightarrow> byte list \<Rightarrow>
   (bool \<times> tagTimeStampV2 list) option" where
  "ResponseSender u slack fresh tick listen_res dir_para proto_params ts pkg =
     (if length pkg < 84 \<or> \<not> listen_res then Some (False, ts)
      else do {
        dest \<leftarrow> be16_at pkg 36;
        saddr \<leftarrow> addr_at pkg 26;
        source \<leftarrow> be16_at pkg 34;
        if ucast dest \<noteq> rp_srcport dir_para \<or> saddr \<noteq> rp_dstaddr dir_para then Some (False, ts)
        else case GetProtocalParam proto_params (default_param tick) (rp_dstaddr dir_para) source of
          (False, _) \<Rightarrow> Some (False, ts)
        | (True, proto_param) \<Rightarrow> do {
            head \<leftarrow> read_head pkg;
            if \<not> response_matches dir_para proto_param head then Some (False, ts)
            else do {
              (good, ts) \<leftarrow> IsGoodAsyUTC proto_param tick ts (ph_timestamp head);
              if \<not> good then Some (False, ts)
              else do {
                input \<leftarrow> checksum_input proto_param head pkg;
                md5_checksum \<leftarrow> packet_digest u slack fresh input;
                Some (md5_checksum = ph_md5sum head, ts)
              }
            }
          }
      })"

text \<open>
  What \<open>SendResponse\<close> puts into the head, with the time stamp \<open>stamp\<close>: the response code is not copied,
  and of the time stamp only 32 bits.
\<close>

definition response_head :: "tagDirPacketHead \<Rightarrow> u64 \<Rightarrow> tagDirPacketHead" where
  "response_head head stamp = head\<lparr>ph_response_code := 0, ph_id := bswap_32 (ph_id head), ph_packet_len := htons 42,
     ph_session_id := bswap_32 (ph_session_id head), ph_timestamp := ucast (bswap_32 (ucast stamp)),
     ph_slicetype := DIRPACKET_SINGLE, ph_data_len := 0\<rparr>"

definition response_stamp ::
  "byte \<Rightarrow> u64 \<Rightarrow> tagDirectCom_ProtocalParam \<Rightarrow> tagTimeStampV2 list \<Rightarrow> (u64 \<times> tagTimeStampV2 list) option" where
  "response_stamp version tick proto_param ts =
     (if version = 1 then Some (pp_utc_time proto_param + (tick - pp_timestamp proto_param) div 1000, ts)
      else GetNextTimeStampForSend ts (pp_addr proto_param) (pp_port proto_param))"

definition SendResponse ::
  "'u::len itself \<Rightarrow> nat \<Rightarrow> byte list \<Rightarrow> u64 \<Rightarrow> tagDirectCom_ProtocalParam \<Rightarrow> tagTimeStampV2 list \<Rightarrow> byte list \<Rightarrow> tagDirPacketHead \<Rightarrow>
   u32 \<Rightarrow> u16 \<Rightarrow> u32 \<Rightarrow> u16 \<Rightarrow> byte list \<Rightarrow> (byte list \<times> tagTimeStampV2 list) option" where
  "SendResponse u slack fresh tick proto_param ts srcmac head dstaddr dstport srcaddr srcport packet = do {
     shost \<leftarrow> read_at packet 6 6;
     (stamp, ts) \<leftarrow> response_stamp (ph_version head) tick proto_param ts;
     let final_packet_head = final_head (response_head head stamp);
     input \<leftarrow> store_at (final_packet_head @ pp_keybuf proto_param @ pp_ivbuf proto_param) 8 (replicate 16 0);
     md5_checksum \<leftarrow> packet_digest u slack fresh input;
     sent \<leftarrow> sendudp srcmac shost (bytes_le32 srcaddr) (bytes_le32 dstaddr) srcport dstport final_packet_head;
     Some (sent, ts)
   }"


subsection \<open>Receivers and sessions\<close>

record tagRecvSessionBind =
  rs_session_id :: u32
  rs_srcaddr :: u32
  rs_srcport :: u32
  rs_dstaddr :: u32
  rs_dstport :: u32
  rs_mtype :: int
  rs_data :: "byte list option"
  rs_received :: u32
  rs_cur_sliceid :: u32
  rs_creation_time :: u64
  rs_data_decrypted :: bool

record tagRecvBind =
  rb_id :: u32
  rb_srcaddr :: u32
  rb_srcport :: u32
  rb_dstaddr :: u32
  rb_dstport :: u32
  rb_pthread :: int
  rb_mtype :: int
  rb_sessions :: "tagRecvSessionBind list"

text \<open>
  \<open>GSNReceiver\<close> and \<open>CloseGSNReceiver\<close>, on the list and the next identifier, which wraps; the identifiers
  are the bits of an \<open>int\<close> or of an \<open>unsigned\<close>.
\<close>

definition GSNReceiver ::
  "u32 \<Rightarrow> u32 \<Rightarrow> u32 \<Rightarrow> u32 \<Rightarrow> int \<Rightarrow> int \<Rightarrow> tagRecvBind list \<times> u32 \<Rightarrow> u32 \<times> tagRecvBind list \<times> u32" where
  "GSNReceiver srcaddr srcport dstaddr dstport pthread mtype st =
     (case st of (gsn_pkgs, gsn_pkgid) \<Rightarrow>
       (gsn_pkgid, gsn_pkgs @ [\<lparr>rb_id = gsn_pkgid, rb_srcaddr = srcaddr, rb_srcport = srcport, rb_dstaddr = dstaddr,
          rb_dstport = dstport, rb_pthread = pthread, rb_mtype = mtype, rb_sessions = []\<rparr>], gsn_pkgid + 1))"

definition CloseGSNReceiver :: "u32 \<Rightarrow> tagRecvBind list \<Rightarrow> tagRecvBind list" where
  "CloseGSNReceiver ident gsn_pkgs = filter (\<lambda>b. rb_id b \<noteq> ident) gsn_pkgs"

text \<open>
  \<open>CreateSessionIfNecessary\<close> (\<open>dirtransutil.cpp\<close>) copies the session of a receiver, or a new one that it
  also adds to the receiver.
\<close>

definition CreateSessionIfNecessary :: "u64 \<Rightarrow> tagRecvBind \<Rightarrow> u32 \<Rightarrow> u32 \<Rightarrow> tagRecvBind \<times> tagRecvSessionBind" where
  "CreateSessionIfNecessary tick gsn_pkg srcaddr session_id =
     (case find (\<lambda>s. rs_srcaddr s = srcaddr \<and> rs_session_id s = session_id) (rb_sessions gsn_pkg) of
        Some s \<Rightarrow> (gsn_pkg, s)
      | None \<Rightarrow>
          let s = \<lparr>rs_session_id = session_id, rs_srcaddr = srcaddr, rs_srcport = 0, rs_dstaddr = 0, rs_dstport = 0,
                rs_mtype = rb_mtype gsn_pkg, rs_data = None, rs_received = 0, rs_cur_sliceid = 0, rs_creation_time = tick,
                rs_data_decrypted = False\<rparr>
          in (gsn_pkg\<lparr>rb_sessions := rb_sessions gsn_pkg @ [s]\<rparr>, s))"

text \<open>
  A first slice starts the data anew, in \<open>fresh\<close> memory of the announced length; \<open>Inl\<close> rejects another
  slice, \<open>Inr\<close> goes on, whether it was taken or not.
\<close>

definition first_slice :: "(nat \<Rightarrow> byte) \<Rightarrow> tagDirPacketHead \<Rightarrow> byte list \<Rightarrow> tagRecvSessionBind \<Rightarrow> tagRecvSessionBind option" where
  "first_slice fresh head bytes session =
     (let session = (if rs_data session \<noteq> None \<and> rs_received session \<noteq> 0
          then session\<lparr>rs_data := None, rs_received := 0\<rparr> else session)
      in map_option (\<lambda>data. session\<lparr>rs_data := Some data, rs_received := ucast (ph_packet_len head) + rs_received session - 42,
            rs_cur_sliceid := ph_id head\<rparr>)
           (store_at (map fresh [0..<unat (ph_data_len head)]) 0 bytes))"

definition next_slice :: "tagDirPacketHead \<Rightarrow> byte list \<Rightarrow> tagRecvSessionBind \<Rightarrow> (unit + tagRecvSessionBind) option" where
  "next_slice head bytes session =
     (let received = ucast (ph_packet_len head) + rs_received session :: u32 in
      if ph_id head < rs_cur_sliceid session \<or> rs_cur_sliceid session < ph_id head - 1 \<or>
         (ph_slicetype head = DIRPACKET_MULTI_END \<and> (ucast received - 42 :: u64) \<noteq> ucast (ph_data_len head))
      then Some (Inl ())
      else if rs_cur_sliceid session = ph_id head - 1 \<and>
              (ucast (ph_packet_len head) - 42 :: u64) \<le> ucast (ph_data_len head - rs_received session)
      then (case rs_data session of
              None \<Rightarrow> Some (Inr session)
            | Some data \<Rightarrow> do {
                data \<leftarrow> store_at data (unat (rs_received session)) bytes;
                Some (Inr (session\<lparr>rs_data := Some data, rs_received := received - 42, rs_cur_sliceid := ph_id head\<rparr>))
              })
      else Some (Inr session))"

text \<open>When all data is there it is decrypted and posted; the result has the session and what was posted.\<close>

definition finish_session ::
  "u64 \<Rightarrow> tagDirectCom_ProtocalParam \<Rightarrow> 'u::len word des_keys \<Rightarrow> tagDirPacketHead \<Rightarrow> tagRecvSessionBind \<Rightarrow>
   (tagRecvSessionBind \<times> byte list option \<times> 'u word des_keys) option" where
  "finish_session tick proto_param keys head session =
     (if rs_received session \<noteq> ph_data_len head then Some (session, None, keys)
      else do {
        data \<leftarrow> rs_data session;
        tmp_received_data \<leftarrow> read_at data 0 (unat (ph_data_len head));
        (ok, plain, keys) \<leftarrow> DecryptPrivateData (pp_ivbuf proto_param) (pp_keybuf proto_param) keys tmp_received_data (unat (ph_data_len head));
        Some (session\<lparr>rs_data := None, rs_received := 0, rs_data_decrypted := True, rs_creation_time := tick\<rparr>,
          if ok then Some plain else None, keys)
      })"

text \<open>
  The receiver of a packet; the port that must be that of the packet is compared twice. It is a copy,
  and so is its session: neither goes back to the list.
\<close>

definition find_receiver :: "tagRecvBind list \<Rightarrow> byte list \<Rightarrow> tagRecvBind option option" where
  "find_receiver gsn_pkgs pkg = do {
     daddr \<leftarrow> addr_at pkg 30;
     saddr \<leftarrow> addr_at pkg 26;
     dest \<leftarrow> be16_at pkg 36;
     Some (find (\<lambda>b. rb_dstaddr b = daddr \<and> rb_dstport b = ucast dest \<and> rb_srcport b = ucast dest \<and> rb_srcaddr b = saddr) gsn_pkgs)
   }"

text \<open>From the receiver on: \<open>Inl\<close> rejects the packet, \<open>Inr\<close> has the session and what was posted.\<close>

definition receive_slice ::
  "(nat \<Rightarrow> byte) \<Rightarrow> u64 \<Rightarrow> tagDirectCom_ProtocalParam \<Rightarrow> 'u::len word des_keys \<Rightarrow> tagRecvBind \<Rightarrow> tagDirPacketHead \<Rightarrow> byte list \<Rightarrow>
   (unit + tagRecvSessionBind \<times> byte list option \<times> 'u word des_keys) option" where
  "receive_slice fresh tick proto_param keys recvbind head bytes = do {
     let (recvbind, session) = CreateSessionIfNecessary tick recvbind (rb_srcaddr recvbind) (ph_session_id head);
     next \<leftarrow> (if ph_id head = 1 \<or> ph_slicetype head = DIRPACKET_MULTI_BEGIN \<or> ph_slicetype head = DIRPACKET_SINGLE
       then map_option Inr (first_slice fresh head bytes session) else next_slice head bytes session);
     case next of
       Inl _ \<Rightarrow> Some (Inl ())
     | Inr session \<Rightarrow> map_option Inr (finish_session tick proto_param keys head session)
   }"


subsection \<open>A packet\<close>

record udp_thread =
  ut_proto_params :: "tagDirectCom_ProtocalParam list"
  ut_timestamps :: "tagTimeStampV2 list"
  ut_gsn_pkgs :: "tagRecvBind list"
  ut_gsn_pkgid :: u32
  ut_listen_res :: bool
  ut_dir_para :: tagDirResPara
  ut_su_ipaddr :: u32
  ut_working_falg :: bool

definition udp_SetDirParaXieYi :: "tagDirectCom_ProtocalParam \<Rightarrow> udp_thread \<Rightarrow> udp_thread" where
  "udp_SetDirParaXieYi p s =
     (let s = s\<lparr>ut_proto_params := set_proto_param p (ut_proto_params s), ut_su_ipaddr := pp_su_ipaddr p\<rparr>
      in if pp_version p \<noteq> 1
         then s\<lparr>ut_timestamps := InitTimeStampV2 (ut_timestamps s) (pp_addr p) (pp_port p) (pp_utc_time p)\<rparr> else s)"

definition udp_SetProtocalParam_TimeStamp :: "u32 \<Rightarrow> u16 \<Rightarrow> u64 \<Rightarrow> u64 \<Rightarrow> udp_thread \<Rightarrow> bool \<times> udp_thread" where
  "udp_SetProtocalParam_TimeStamp addr port utc_time timestamp s =
     (let (found, ps) = SetProtocalParam_TimeStamp (ut_proto_params s) addr port utc_time timestamp;
          s = s\<lparr>ut_proto_params := ps\<rparr>
      in case peer_params ps (addr, port) of
           Some p \<Rightarrow> (True, if pp_version p \<noteq> 1
             then s\<lparr>ut_timestamps := InitTimeStampV2 (ut_timestamps s) addr port utc_time\<rparr> else s)
         | None \<Rightarrow> (False, s))"

text \<open>
  The outside of the thread: the clock, the hardware address, fresh memory of the text of a digest and
  of the data, the bytes behind the array of a checksum that nothing else uses, and the static key
  registers of the cipher.
\<close>

record 'k udp_env =
  ue_tick :: u64
  ue_mac :: "byte list"
  ue_fresh_text :: "byte list"
  ue_fresh :: "nat \<Rightarrow> byte"
  ue_slack :: nat
  ue_keys :: "'k des_keys"

text \<open>\<open>Receiver_opened\<close> is the identifier that \<open>GSNReceiver\<close> has given.\<close>

datatype udp_action = Posted tagRecvBind "byte list" | Sent "byte list" | Receiver_opened u32

text \<open>The checks of \<open>RevcDirectPack\<close> on the head, before and after the time stamp.\<close>

definition request_ok :: "tagDirectCom_ProtocalParam \<Rightarrow> tagDirPacketHead \<Rightarrow> nat \<Rightarrow> bool" where
  "request_ok proto_param head buflen \<longleftrightarrow>
     ph_version head = pp_version proto_param \<and> ph_response_code head = DIRPACKET_REQUEST \<and>
     unat (ph_packet_len head) = buflen - 42 \<and> ph_field_28 head \<and> ph_data_len head \<noteq> 0"

definition slice_ok :: "tagDirPacketHead \<Rightarrow> bool" where
  "slice_ok head \<longleftrightarrow>
     \<not> (ph_id head = 1 \<and> (ph_slicetype head = DIRPACKET_MULTI_MIDDLE \<or> ph_slicetype head = DIRPACKET_MULTI_END))"

definition RevcDirectPack ::
  "'u::len word udp_env \<Rightarrow> udp_thread \<Rightarrow> byte list \<Rightarrow> (bool \<times> udp_thread \<times> udp_action list) option" where
  "RevcDirectPack e s pkg =
     (if length pkg < 84 \<or> ut_gsn_pkgs s = [] then Some (False, s, [])
      else do {
        saddr \<leftarrow> addr_at pkg 26;
        daddr \<leftarrow> addr_at pkg 30;
        source \<leftarrow> be16_at pkg 34;
        dest \<leftarrow> be16_at pkg 36;
        case GetProtocalParam (ut_proto_params s) (default_param (ue_tick e)) saddr source of
          (False, _) \<Rightarrow> Some (False, s, [])
        | (True, proto_param) \<Rightarrow> do {
            head \<leftarrow> read_head pkg;
            if \<not> request_ok proto_param head (length pkg) then Some (False, s, [])
            else do {
              (good, ts) \<leftarrow> IsGoodAsyUTC proto_param (ue_tick e) (ut_timestamps s) (ph_timestamp head);
              let s = s\<lparr>ut_timestamps := ts\<rparr>;
              if \<not> good \<or> \<not> slice_ok head then Some (False, s, [])
              else do {
                input \<leftarrow> checksum_input proto_param head pkg;
                md5_checksum \<leftarrow> packet_digest TYPE('u) (ue_slack e) (ue_fresh_text e) input;
                if md5_checksum \<noteq> ph_md5sum head then Some (False, s, [])
                else do {
                  receiver \<leftarrow> find_receiver (ut_gsn_pkgs s) pkg;
                  case receiver of
                    None \<Rightarrow> Some (True, s, [])
                  | Some recvbind \<Rightarrow> do {
                      bytes \<leftarrow> read_at pkg 84 (unat (ph_packet_len head) - 42);
                      slice \<leftarrow> receive_slice (ue_fresh e) (ue_tick e) proto_param (ue_keys e) recvbind head bytes;
                      case slice of
                        Inl _ \<Rightarrow> Some (False, s, [])
                      | Inr (session, posted, keys) \<Rightarrow> do {
                          (sent, ts) \<leftarrow> SendResponse TYPE('u) (ue_slack e) (ue_fresh_text e) (ue_tick e) proto_param (ut_timestamps s) (ue_mac e) head
                            saddr source daddr dest pkg;
                          Some (True, s\<lparr>ut_timestamps := ts\<rparr>, (case posted of Some d \<Rightarrow> [Posted recvbind d] | None \<Rightarrow> []) @ [Sent sent])
                        }
                    }
                }
              }
            }
          }
      })"

text \<open>\<open>HandlePrivateData\<close>; the event of the waiting sender is the boolean.\<close>

definition HandlePrivateData ::
  "'u::len word udp_env \<Rightarrow> udp_thread \<Rightarrow> byte list \<Rightarrow> (bool \<times> udp_thread \<times> bool \<times> udp_action list) option" where
  "HandlePrivateData e s pkg = do {
     len \<leftarrow> be16_at pkg 38;
     if len = 8 then Some (False, s, False, [])
     else do {
       (response, ts) \<leftarrow> ResponseSender TYPE('u) (ue_slack e) (ue_fresh_text e) (ue_tick e) (ut_listen_res s) (ut_dir_para s)
         (ut_proto_params s) (ut_timestamps s) pkg;
       let s = s\<lparr>ut_timestamps := ts\<rparr>;
       if response then Some (True, s, True, [])
       else do {
         (_, s, actions) \<leftarrow> RevcDirectPack e s pkg;
         Some (True, s, False, actions)
       }
     }
   }"

definition OnRecvPacketReturn ::
  "'u::len word udp_env \<Rightarrow> udp_thread \<Rightarrow> byte list \<Rightarrow> (udp_thread \<times> bool \<times> udp_action list) option" where
  "OnRecvPacketReturn e s pkg =
     (if ut_working_falg s then map_option snd (HandlePrivateData e s pkg) else Some (s, False, []))"

subsection \<open>No response is accepted\<close>

lemma read_head_final:
  assumes "length pre = 42" and "length (ph_md5sum h) = 16"
  shows "read_head (pre @ final_head h @ post) = Some (h\<lparr>ph_id := bswap_32 (ph_id h), ph_packet_len := htons (ph_packet_len h),
    ph_session_id := bswap_32 (ph_session_id h), ph_timestamp := htonLONGLONG (ph_timestamp h), ph_data_len := bswap_32 (ph_data_len h)\<rparr>)"
proof -
  define pkg where "pkg = pre @ final_head h @ post"
  note at = pkg_def final_head_def assms len_simps Prelude.byte_at_def read_at_def nth_append
  have le: "word_le32 (bytes_le32 w) = w" "word_le16 (bytes_le16 v) = v" "word_le64 (bytes_le64 x) = x" for w v x
    using word_le32_bytes [of w "[]"] word_le16_bytes [of v "[]"] word_le64_bytes [of x "[]"] by simp_all
  have bytes: "Prelude.byte_at pkg 42 = Some (ph_version h)" "Prelude.byte_at pkg 43 = Some (ph_response_code h)"
    "Prelude.byte_at pkg 78 = Some (if ph_field_28 h then 1 else 0)" "Prelude.byte_at pkg 79 = Some (ph_slicetype h)"
    "read_at pkg 50 16 = Some (ph_md5sum h)" by (simp_all add: at)
  have words: "read_at pkg 44 4 = Some (bytes_le32 (ph_id h))" "read_at pkg 48 2 = Some (bytes_le16 (ph_packet_len h))"
    "read_at pkg 66 4 = Some (bytes_le32 (ph_session_id h))" "read_at pkg 70 8 = Some (bytes_le64 (ph_timestamp h))"
    "read_at pkg 80 4 = Some (bytes_le32 (ph_data_len h))" by (simp_all add: at)
  show ?thesis
    unfolding pkg_def [symmetric]
    by (cases h) (use bytes words le in \<open>simp add: read_head_def be32_at_def be16_at_def be64_at_def\<close>)
qed

lemma swap_32_twice: "bswap_32 (bswap_32 w) = w" "bswap_32 0 = 0"
proof -
  have "bytes_le32 (bswap_32 (bswap_32 w)) = bytes_be32 (bswap_32 w)" by (rule bytes_le32_bswap_32)
  also have "\<dots> = rev (bytes_be32 w)" by (simp only: bytes_be32_def bytes_le32_bswap_32)
  also have "\<dots> = bytes_le32 w" by (simp only: bytes_be32_def rev_rev_ident)
  finally have "word_le32 (bytes_le32 (bswap_32 (bswap_32 w)) @ []) = word_le32 (bytes_le32 w @ [])" by simp
  then show "bswap_32 (bswap_32 w) = w" by (simp only: word_le32_bytes)
  show "bswap_32 0 = 0" by (simp add: bswap_32_def)
qed

text \<open>
  C26: a response of this thread is never accepted by a thread of its kind: a station that has sent the
  request finds its identifier, its session and its length in the head of the response, but the
  response code is missing, so that \<open>ResponseSender\<close> rejects it whatever the parameters and the time
  stamps are.
\<close>

theorem responses_never_accepted:
  fixes stamp :: u64 and head :: tagDirPacketHead and pre :: "byte list"
  assumes "length pre = 42" and "length (ph_md5sum head) = 16"
  defines "pkg \<equiv> pre @ final_head (response_head head stamp)"
  shows "read_head pkg = Some (head\<lparr>ph_response_code := 0, ph_packet_len := 42, ph_slicetype := DIRPACKET_SINGLE, ph_data_len := 0,
      ph_timestamp := htonLONGLONG (ucast (bswap_32 (ucast stamp)))\<rparr>) \<and>
    ResponseSender u slack fresh tick listen_res dir_para proto_params ts pkg = Some (False, ts)"
proof
  have "read_head pkg = Some (head\<lparr>ph_response_code := 0, ph_packet_len := 42, ph_slicetype := DIRPACKET_SINGLE, ph_data_len := 0,
      ph_timestamp := htonLONGLONG (ucast (bswap_32 (ucast stamp)))\<rparr>)"
    using read_head_final [of pre "response_head head stamp" "[]"] assms(1,2) by (simp add: pkg_def response_head_def swap_32_twice)
  then show head: "read_head pkg = Some (head\<lparr>ph_response_code := 0, ph_packet_len := 42, ph_slicetype := DIRPACKET_SINGLE, ph_data_len := 0,
      ph_timestamp := htonLONGLONG (ucast (bswap_32 (ucast stamp)))\<rparr>)" .
  have "length pkg = 84" using assms(1,2) by (simp add: pkg_def final_head_def response_head_def len_simps)
  then have reads: "\<exists>v. be16_at pkg 36 = Some v" "\<exists>v. addr_at pkg 26 = Some v" "\<exists>v. be16_at pkg 34 = Some v"
    by (simp_all add: be16_at_def addr_at_def read_at_def)
  have "\<not> response_matches dir_para p (head\<lparr>ph_response_code := 0, ph_packet_len := 42, ph_slicetype := DIRPACKET_SINGLE, ph_data_len := 0,
      ph_timestamp := t\<rparr>)" for p t
    by (simp add: response_matches_def DIRPACKET_RESPONSE_def)
  then show "ResponseSender u slack fresh tick listen_res dir_para proto_params ts pkg = Some (False, ts)"
    using reads head by (auto simp: ResponseSender_def split: prod.split bool.split)
qed

definition head_example :: tagDirPacketHead where
  "head_example = \<lparr>ph_version = 2, ph_response_code = DIRPACKET_REQUEST, ph_id = 2, ph_packet_len = 50, ph_md5sum = replicate 16 0,
     ph_session_id = 5, ph_timestamp = 9, ph_field_28 = True, ph_slicetype = DIRPACKET_MULTI_MIDDLE, ph_data_len = 24\<rparr>"

theorem responses_never_accepted_witness:
  "ResponseSender TYPE(64) 0 (replicate 33 0) 0 True \<lparr>rp_srcport = 1, rp_dstaddr = 2, rp_head = head_example\<rparr> [param_example] []
     (replicate 42 0 @ final_head (response_head head_example 7)) = Some (False, [])"
  by (rule responses_never_accepted [THEN conjunct2]) (simp_all add: head_example_def)

subsection \<open>A message of one packet\<close>

lemma packet_digest_spec:
  assumes "32 \<le> LENGTH('u::len)" and "length fresh = 33" and "fresh ! 32 = 0" and "length input < 2 ^ 29"
  shows "packet_digest TYPE('u) slack fresh input = (if slack = 0 then None else Some (md5_spec TYPE('u) input))"
  using checksum_text [where 'u = 'u and fresh = fresh and buf = input and dst = "replicate (16 + slack) 0"] assms
  by (auto simp: packet_digest_def len_simps)

text \<open>A request in one slice, with the checksum \<open>check\<close> in its head.\<close>

definition single_request :: "byte \<Rightarrow> u32 \<Rightarrow> u64 \<Rightarrow> byte list \<Rightarrow> byte list \<Rightarrow> byte list" where
  "single_request version session stamp data check = final_head \<lparr>ph_version = version, ph_response_code = DIRPACKET_REQUEST, ph_id = bswap_32 1,
     ph_packet_len = htons (of_nat (42 + length data)), ph_md5sum = check, ph_session_id = bswap_32 session,
     ph_timestamp = htonLONGLONG stamp, ph_field_28 = True, ph_slicetype = DIRPACKET_SINGLE,
     ph_data_len = bswap_32 (of_nat (length data))\<rparr> @ data"

definition single_head :: "byte \<Rightarrow> u32 \<Rightarrow> u64 \<Rightarrow> byte list \<Rightarrow> byte list \<Rightarrow> tagDirPacketHead" where
  "single_head version session stamp data check = \<lparr>ph_version = version, ph_response_code = DIRPACKET_REQUEST, ph_id = 1,
     ph_packet_len = of_nat (42 + length data), ph_md5sum = check, ph_session_id = session, ph_timestamp = stamp, ph_field_28 = True,
     ph_slicetype = DIRPACKET_SINGLE, ph_data_len = of_nat (length data)\<rparr>"

lemma length_final_head [len_simps]: "length (ph_md5sum h) = 16 \<Longrightarrow> length (final_head h) = 42"
  by (simp add: final_head_def len_simps)

lemma length_single_request [len_simps]: "length check = 16 \<Longrightarrow> length (single_request version session stamp data check) = 42 + length data"
  by (simp add: single_request_def len_simps)

lemma reads_front:
  "i + 2 \<le> length pre \<Longrightarrow> be16_at (pre @ post) i = be16_at pre i" "i + 4 \<le> length pre \<Longrightarrow> addr_at (pre @ post) i = addr_at pre i"
  by (auto simp: be16_at_def addr_at_def read_at_def)

lemma htonLONGLONG_twice: "htonLONGLONG (htonLONGLONG x) = x"
proof -
  have bytes: "bytes_le64 (bswap_64 y) = rev (bytes_le64 y)" for y
    using bytes_le64_bswap [of "bytes_le64 y"] word_le64_bytes [of y "[]"] by (simp add: len_simps)
  have "word_le64 (bytes_le64 (bswap_64 (bswap_64 x)) @ []) = word_le64 (bytes_le64 x @ [])" by (simp only: bytes rev_rev_ident)
  then show ?thesis by (simp only: htonLONGLONG_def word_le64_bytes)
qed

lemma read_head_single:
  assumes "length pre = 42" and "length check = 16"
  shows "read_head (pre @ single_request version session stamp data check) = Some (single_head version session stamp data check)"
  unfolding single_request_def single_head_def
  by (subst read_head_final) (use assms in \<open>simp_all add: swap_32_twice htonLONGLONG_twice\<close>)

lemma checksum_input_single:
  assumes "length pre = 42" and "length check = 16" and "length data < 2 ^ 16 - 42" and "ph_packet_len head = of_nat (42 + length data)"
    and "length (pp_keybuf p) = 8" and "length (pp_ivbuf p) = 8"
  shows "checksum_input p head (pre @ single_request version session stamp data check) =
    Some (single_request version session stamp data (replicate 16 0) @ pp_keybuf p @ pp_ivbuf p)"
proof -
  have n: "unat (ph_packet_len head) = 42 + length data" using assms(3) unfolding assms(4) by (subst unat_of_nat) simp
  show ?thesis using assms(1,2,5,6)
    by (simp add: checksum_input_def n read_at_def single_request_def final_head_def store_at_def memcpy_def len_simps)
qed

lemma DecryptPrivateData_False: "buflen \<noteq> 0 \<Longrightarrow> DecryptPrivateData iv key st buf buflen = Some (False, buf, st)"
  by (simp add: DecryptPrivateData_def CSuDES_new_def SetIVBuf_def)

lemma receive_slice_single:
  fixes keys :: "'u::len word des_keys"
  assumes "data \<noteq> []" and "length data \<le> 1400" and "rb_sessions b = []"
  shows "\<exists>session' keys'. receive_slice fresh tick p keys b (single_head version session stamp data check) data = Some (Inr (session', None, keys'))"
proof -
  have n: "unat (of_nat (length data) :: u32) = length data" "unat (of_nat (42 + length data) :: u16) = 42 + length data"
    using assms(2) by (simp_all only: unat_of_nat) simp_all
  have stored: "store_at (map fresh [0..<length data]) 0 data = Some data" by (simp add: store_at_def memcpy_def)
  have len: "ucast (of_nat (42 + length data) :: u16) - 42 = (of_nat (length data) :: u32)"
  proof -
    have "ucast w = (of_nat (unat w) :: u32)" for w :: u16 by simp
    then show ?thesis by (simp only: n(2)) simp
  qed
  have "(of_nat (length data) :: u32) \<noteq> 0" using n(1) assms(1) by (metis length_0_conv unat_0)
  then show ?thesis
    using assms(1,3) n(1) stored len
    by (simp add: receive_slice_def CreateSessionIfNecessary_def single_head_def first_slice_def finish_session_def read_at_def DecryptPrivateData_False Let_def)
qed

lemma SendResponse_sent:
  assumes "32 \<le> LENGTH('u::len)" and "length fresh = 33" and "fresh ! 32 = 0" and "slack \<noteq> 0" and "length srcmac = 6" and "84 \<le> length pkg"
    and "response_stamp (ph_version head) tick p ts = Some (stamp, ts')" and "length (ph_md5sum head) = 16"
    and "length (pp_keybuf p) = 8" and "length (pp_ivbuf p) = 8"
  shows "\<exists>sent. SendResponse TYPE('u) slack fresh tick p ts srcmac head a1 p1 a2 p2 pkg = Some (sent, ts') \<and>
    length sent = 84 \<and> drop 42 sent = final_head (response_head head stamp)"
proof -
  define h where "h = final_head (response_head head stamp)"
  have h: "length h = 42" using assms(8) by (simp add: h_def response_head_def len_simps)
  define input where "input = memcpy (h @ pp_keybuf p @ pp_ivbuf p) 8 (replicate 16 0)"
  have "length input = 58" using h assms(9,10) by (simp add: input_def memcpy_def)
  then have "packet_digest TYPE('u) slack fresh input = Some (md5_spec TYPE('u) input)"
    using assms(4) packet_digest_spec [OF assms(1-3), of input slack] by simp
  moreover have "store_at (h @ pp_keybuf p @ pp_ivbuf p) 8 (replicate 16 0) = Some input"
    using h assms(9,10) by (simp add: input_def store_at_def)
  moreover obtain udp where "sendudp srcmac (take 6 (drop 6 pkg)) (bytes_le32 a2) (bytes_le32 a1) p2 p1 h =
      Some (take 6 (drop 6 pkg) @ srcmac @ [0x08, 0x00] @ InitIpv4Header (bytes_le32 a2) (bytes_le32 a1) (length h) @ udp @ h)" "length udp = 8"
    using sendudp_packet [of "bytes_le32 a2" "bytes_le32 a1" "take 6 (drop 6 pkg)" srcmac h] assms(5,6) h by (auto simp: len_simps)
  moreover have "length (InitIpv4Header (bytes_le32 a2) (bytes_le32 a1) (length h)) = 20"
    using ipv4_header_checksum(1) [of "bytes_le32 a2" "bytes_le32 a1" "length h"] by (simp add: len_simps)
  moreover have "read_at pkg 6 6 = Some (take 6 (drop 6 pkg))" using assms(6) by (simp add: read_at_def)
  ultimately show ?thesis
    using h assms(5-7) by (simp add: SendResponse_def Let_def flip: h_def)
qed

text \<open>
  C14: a message in one packet of a peer, of either version of the protocol, whose time stamp is accepted:
  with the right checksum the packet is answered, with the head of a response behind the headers, and
  with any other it is rejected; nothing is posted to the receiver even then. But the checksum is always
  read into 16 bytes with a NUL behind it: when the compiler has put anything of use behind the array
  (\<open>ue_slack\<close> is 0), every such packet makes the thread write outside of it.
\<close>

theorem single_packet_answered:
  fixes e :: "'u::len word udp_env"
  assumes u: "32 \<le> LENGTH('u)" and env: "length (ue_fresh_text e) = 33" "ue_fresh_text e ! 32 = 0" "length (ue_mac e) = 6"
    and pre: "length pre = 42" "addr_at pre 26 = Some saddr" "be16_at pre 34 = Some source"
    and data: "data \<noteq> []" "length data \<le> 1400" "length check = 16"
    and param: "GetProtocalParam (ut_proto_params s) (default_param (ue_tick e)) saddr source = (True, p)"
      "length (pp_keybuf p) = 8" "length (pp_ivbuf p) = 8"
    and clock: "IsGoodAsyUTC p (ue_tick e) (ut_timestamps s) stamp = Some (True, ts)"
      "response_stamp (pp_version p) (ue_tick e) p ts = Some (reply, ts')"
    and receiver: "find_receiver (ut_gsn_pkgs s) pre = Some (Some b)" "rb_sessions b = []"
  shows "\<exists>sent. length sent = 84 \<and>
    drop 42 sent = final_head (response_head (single_head (pp_version p) session stamp data check) reply) \<and>
    RevcDirectPack e s (pre @ single_request (pp_version p) session stamp data check) =
      (if ue_slack e = 0 then None
       else if check = md5_spec TYPE('u) (single_request (pp_version p) session stamp data (replicate 16 0) @ pp_keybuf p @ pp_ivbuf p)
       then Some (True, s\<lparr>ut_timestamps := ts'\<rparr>, [Sent sent])
       else Some (False, s\<lparr>ut_timestamps := ts\<rparr>, []))"
proof -
  define pkg where "pkg = pre @ single_request (pp_version p) session stamp data check"
  define head where "head = single_head (pp_version p) session stamp data check"
  have h1: "ph_version head = pp_version p" "length (ph_md5sum head) = 16" using data(3) by (simp_all add: head_def single_head_def)
  have n: "unat (ph_packet_len head) = 42 + length data"
    unfolding head_def single_head_def using data(2) by (simp only: tagDirPacketHead.simps unat_of_nat) simp
  have "unat (of_nat (length data) :: u32) \<noteq> 0" using data(1,2) by (simp only: unat_of_nat) simp
  then have "(of_nat (length data) :: u32) \<noteq> 0" by (simp add: unat_eq_zero)
  then have ok: "request_ok p head (length pkg)" "slice_ok head"
    using data n pre(1) by (simp_all add: request_ok_def slice_ok_def head_def single_head_def pkg_def len_simps DIRPACKET_SINGLE_def
        DIRPACKET_MULTI_MIDDLE_def DIRPACKET_MULTI_END_def)
  have long: "84 < length pkg" using data pre(1) by (cases data) (simp_all add: pkg_def len_simps)
  obtain daddr dest where more_reads: "addr_at pre 30 = Some daddr" "be16_at pre 36 = Some dest"
    using pre(1) by (auto simp: addr_at_def be16_at_def read_at_def)
  have reads: "addr_at pkg 26 = Some saddr" "addr_at pkg 30 = Some daddr" "be16_at pkg 34 = Some source" "be16_at pkg 36 = Some dest"
    "find_receiver (ut_gsn_pkgs s) pkg = Some (Some b)" "read_head pkg = Some head" "read_at pkg 84 (unat (ph_packet_len head) - 42) = Some data"
    using pre data receiver(1) more_reads n read_head_single
    by (simp_all add: pkg_def head_def reads_front find_receiver_def) (simp add: single_request_def read_at_def len_simps)
  have some: "ut_gsn_pkgs s \<noteq> []" using receiver(1) more_reads pre by (auto simp: find_receiver_def)
  define input where "input = single_request (pp_version p) session stamp data (replicate 16 0) @ pp_keybuf p @ pp_ivbuf p"
  have input: "checksum_input p head pkg = Some input"
    unfolding pkg_def head_def input_def using pre data param by (intro checksum_input_single) (simp_all add: single_head_def)
  have digest: "packet_digest TYPE('u) (ue_slack e) (ue_fresh_text e) input =
      (if ue_slack e = 0 then None else Some (md5_spec TYPE('u) input))"
    using u env data param by (intro packet_digest_spec) (simp_all add: input_def len_simps)
  obtain session' keys' where slice: "receive_slice (ue_fresh e) (ue_tick e) p (ue_keys e) b head data = Some (Inr (session', None, keys'))"
    using receive_slice_single [OF data(1,2) receiver(2)] unfolding head_def by blast
  define sent where "sent = (if ue_slack e = 0 then replicate 42 0 @ final_head (response_head head reply)
      else fst (the (SendResponse TYPE('u) (ue_slack e) (ue_fresh_text e) (ue_tick e) p ts (ue_mac e) head saddr source daddr dest pkg)))"
  have sent: "length sent = 84 \<and> drop 42 sent = final_head (response_head head reply) \<and> (ue_slack e \<noteq> 0 \<longrightarrow>
      SendResponse TYPE('u) (ue_slack e) (ue_fresh_text e) (ue_tick e) p ts (ue_mac e) head saddr source daddr dest pkg = Some (sent, ts'))"
  proof (cases "ue_slack e = 0")
    case True
    then show ?thesis using h1(2) by (simp add: sent_def response_head_def len_simps)
  next
    case False
    then show ?thesis
      using SendResponse_sent [OF u env(1,2) False env(3), of pkg head "ue_tick e" p ts reply ts' saddr source daddr dest] long param clock(2) h1
      by (auto simp: sent_def)
  qed
  have "RevcDirectPack e s pkg = (if ue_slack e = 0 then None
      else if check = md5_spec TYPE('u) input then Some (True, s\<lparr>ut_timestamps := ts'\<rparr>, [Sent sent])
      else Some (False, s\<lparr>ut_timestamps := ts\<rparr>, []))"
  proof -
    have stamps: "ph_timestamp head = stamp" "ph_md5sum head = check" by (simp_all add: head_def single_head_def)
    show ?thesis
      using long some ok sent by (simp add: RevcDirectPack_def reads param(1) clock(1) stamps input digest slice)
  qed
  then show ?thesis using sent unfolding pkg_def head_def input_def by blast
qed

definition receiver_example :: tagRecvBind where
  "receiver_example = \<lparr>rb_id = 1, rb_srcaddr = 0, rb_srcport = 0, rb_dstaddr = 0, rb_dstport = 0, rb_pthread = 0, rb_mtype = 9,
     rb_sessions = []\<rparr>"

definition thread_example :: udp_thread where
  "thread_example = \<lparr>ut_proto_params = [(default_param 0)\<lparr>pp_check_timestamp := False\<rparr>], ut_timestamps = [],
     ut_gsn_pkgs = [receiver_example], ut_gsn_pkgid = 2, ut_listen_res = False,
     ut_dir_para = \<lparr>rp_srcport = 0, rp_dstaddr = 0, rp_head = head_example\<rparr>, ut_su_ipaddr = 0, ut_working_falg = True\<rparr>"

definition env_example :: "u64 udp_env" where
  "env_example = \<lparr>ue_tick = 0, ue_mac = replicate 6 0, ue_fresh_text = replicate 33 0, ue_fresh = (\<lambda>_. 0), ue_slack = 16,
     ue_keys = \<lparr>KnL = [], KnR = [], Kn3 = []\<rparr>\<rparr>"

theorem single_packet_answered_witness:
  "\<exists>check sent. length check = 16 \<and>
     RevcDirectPack env_example thread_example (replicate 42 0 @ single_request 1 5 7 [0x61] check) = Some (True, thread_example, [Sent sent]) \<and>
     RevcDirectPack (env_example\<lparr>ue_slack := 0\<rparr>) thread_example (replicate 42 0 @ single_request 1 5 7 [0x61] check) = None"
proof -
  define check where "check = md5_spec TYPE(64) (single_request 1 5 7 [0x61] (replicate 16 0) @ replicate 8 0 @ replicate 8 0)"
  have check: "length check = 16" by (simp add: check_def len_simps)
  have zeros: "addr_at (replicate 42 0) 26 = Some 0" "addr_at (replicate 42 0) 30 = Some 0" "be16_at (replicate 42 0) 34 = Some 0"
    "be16_at (replicate 42 0) 36 = Some 0"
    by (simp_all add: addr_at_def be16_at_def read_at_def word_le32_def word_le16_def htons_def)
  have receiver: "find_receiver (ut_gsn_pkgs thread_example) (replicate 42 0) = Some (Some receiver_example)" "rb_sessions receiver_example = []"
    using zeros by (simp_all add: find_receiver_def thread_example_def receiver_example_def)
  let ?p = "(default_param 0)\<lparr>pp_check_timestamp := False\<rparr>"
  have param: "GetProtocalParam (ut_proto_params thread_example) (default_param 0) 0 0 = (True, ?p)"
    by (simp add: GetProtocalParam_def thread_example_def pp_key_def default_param_def)
  have p: "pp_version ?p = 1" "pp_keybuf ?p = replicate 8 0" "pp_ivbuf ?p = replicate 8 0"
    "IsGoodAsyUTC ?p 0 ts 7 = Some (True, ts)" "response_stamp 1 0 ?p ts = Some (0, ts)" for ts
    by (simp_all add: default_param_def IsGoodAsyUTC_def response_stamp_def)
  have e: "ue_tick env_example = 0" "ue_fresh_text env_example = replicate 33 0" "ue_mac env_example = replicate 6 0" "ue_slack env_example = 16"
    by (simp_all add: env_example_def)
  have same: "thread_example\<lparr>ut_timestamps := ut_timestamps thread_example\<rparr> = thread_example" by simp
  let ?pkg = "replicate 42 0 @ single_request 1 5 7 [0x61] check"
  have run: "\<exists>sent. RevcDirectPack e thread_example ?pkg =
      (if ue_slack e = 0 then None else Some (True, thread_example, [Sent sent]))"
    if "ue_tick e = 0" "ue_fresh_text e = replicate 33 0" "ue_mac e = replicate 6 0" for e :: "u64 udp_env"
    using single_packet_answered [of e "replicate 42 0" 0 0 "[0x61]" check thread_example ?p 7 "ut_timestamps thread_example" 0
        "ut_timestamps thread_example" receiver_example 5] that check zeros receiver param
    by (simp only: p same) (auto simp: check_def)
  show ?thesis
    using run [of env_example] run [of "env_example\<lparr>ue_slack := 0\<rparr>"] check by (auto simp: e)
qed

subsection \<open>Slices are never collected\<close>

lemma finish_session_posts_nothing:
  "finish_session tick p keys head session = Some (session', posted, keys') \<Longrightarrow> ph_data_len head \<noteq> 0 \<Longrightarrow> posted = None"
  by (auto simp: finish_session_def DecryptPrivateData_False unat_eq_zero split: bind_splits if_splits)

lemma fresh_session_rejects:
  assumes "ph_id head \<noteq> 1" and "rs_cur_sliceid session = 0"
  shows "next_slice head bytes session = Some (Inl ())"
proof -
  have "0 < ph_id head - 1"
    using assms(1) by (metis eq_iff_diff_eq_0 word_gt_0)
  then show ?thesis using assms(2) by (simp add: next_slice_def)
qed

lemma receive_slice_posts_nothing:
  "receive_slice fresh tick p keys recvbind head bytes = Some (Inr (session, posted, keys')) \<Longrightarrow> ph_data_len head \<noteq> 0 \<Longrightarrow> posted = None"
  by (auto simp: receive_slice_def dest: finish_session_posts_nothing split: bind_splits sum.splits prod.splits)

lemma later_slices_rejected:
  assumes "rb_sessions recvbind = []" and "ph_slicetype head \<in> {DIRPACKET_MULTI_MIDDLE, DIRPACKET_MULTI_END}" and "ph_id head \<noteq> 1"
  shows "receive_slice fresh tick p keys recvbind head bytes = Some (Inl ())"
  using assms
  by (auto simp: receive_slice_def CreateSessionIfNecessary_def fresh_session_rejects DIRPACKET_MULTI_BEGIN_def DIRPACKET_MULTI_MIDDLE_def
      DIRPACKET_MULTI_END_def DIRPACKET_SINGLE_def Let_def)

lemma RevcDirectPack_frame:
  fixes e :: "'a::len word udp_env"
  assumes "RevcDirectPack e s pkg = Some (r, s', actions)"
  shows "ut_gsn_pkgs s' = ut_gsn_pkgs s \<and> ut_gsn_pkgid s' = ut_gsn_pkgid s \<and> (\<forall>b d. Posted b d \<notin> set actions)"
proof -
  have unposted: "posted = None"
    if "receive_slice fresh tick p keys recvbind head bytes = Some (Inr (session, posted, keys'))" "request_ok p head n"
    for p head n fresh tick recvbind bytes session posted and keys keys' :: "'a word des_keys"
    using receive_slice_posts_nothing [OF that(1)] that(2) by (simp add: request_ok_def)
  show ?thesis using assms
    by (auto simp: RevcDirectPack_def Let_def dest: unposted split: if_splits bind_splits prod.splits bool.splits option.splits sum.splits)
qed

text \<open>
  \<open>OnTimer\<close> drops the sessions that have been decrypted long enough ago, the time being that of the
  parameters of the peer; \<open>freeMemory\<close> drops the receivers.
\<close>

definition finish_time :: "u64 \<Rightarrow> tagDirectCom_ProtocalParam list \<Rightarrow> tagRecvBind \<Rightarrow> u32" where
  "finish_time tick proto_params recv_bind =
     (case GetProtocalParam proto_params (default_param tick) (rb_srcaddr recv_bind) (ucast (rb_srcport recv_bind)) of
        (True, p) \<Rightarrow> pp_timeout p * pp_retry_count p
      | (False, _) \<Rightarrow> 0)"

definition udp_OnTimer :: "u64 \<Rightarrow> bool \<Rightarrow> udp_thread \<Rightarrow> udp_thread" where
  "udp_OnTimer tick is_clear_timer s =
     (if \<not> is_clear_timer then s
      else s\<lparr>ut_gsn_pkgs := map (\<lambda>recv_bind. recv_bind\<lparr>rb_sessions := filter (\<lambda>session.
             \<not> rs_data_decrypted session \<or> tick - rs_creation_time session < ucast (finish_time tick (ut_proto_params s) recv_bind))
             (rb_sessions recv_bind)\<rparr>) (ut_gsn_pkgs s)\<rparr>)"

definition freeMemory :: "udp_thread \<Rightarrow> udp_thread" where
  "freeMemory s = s\<lparr>ut_gsn_pkgs := []\<rparr>"

text \<open>What the thread does from its start: calls of the other threads, and packets.\<close>

definition udp_init :: "u32 \<Rightarrow> udp_thread" where
  "udp_init su_ipaddr = \<lparr>ut_proto_params = [], ut_timestamps = [], ut_gsn_pkgs = [], ut_gsn_pkgid = 1, ut_listen_res = False,
     ut_dir_para = \<lparr>rp_srcport = 0, rp_dstaddr = 0, rp_head = \<lparr>ph_version = 0, ph_response_code = 0, ph_id = 0, ph_packet_len = 0,
       ph_md5sum = replicate 16 0, ph_session_id = 0, ph_timestamp = 0, ph_field_28 = False, ph_slicetype = 0, ph_data_len = 0\<rparr>\<rparr>,
     ut_su_ipaddr = su_ipaddr, ut_working_falg = False\<rparr>"

inductive udp_step :: "udp_thread \<Rightarrow> udp_action list \<Rightarrow> udp_thread \<Rightarrow> bool" where
  params: "udp_step s [] (udp_SetDirParaXieYi p s)"
| time: "udp_step s [] (snd (udp_SetProtocalParam_TimeStamp addr port utc stamp s))"
| listen: "udp_step s [] (s\<lparr>ut_listen_res := b, ut_dir_para := r\<rparr>)"
| work: "udp_step s [] (s\<lparr>ut_working_falg := b\<rparr>)"
| opened: "GSNReceiver a1 p1 a2 p2 t m (ut_gsn_pkgs s, ut_gsn_pkgid s) = (i, pkgs, next_id) \<Longrightarrow>
    udp_step s [Receiver_opened i] (s\<lparr>ut_gsn_pkgs := pkgs, ut_gsn_pkgid := next_id\<rparr>)"
| closed: "udp_step s [] (s\<lparr>ut_gsn_pkgs := CloseGSNReceiver i (ut_gsn_pkgs s)\<rparr>)"
| timer: "udp_step s [] (udp_OnTimer tick b s)"
| freed: "udp_step s [] (freeMemory s)"
| packet: "OnRecvPacketReturn (e :: u64 udp_env) s pkg = Some (s', event, actions) \<Longrightarrow> udp_step s actions s'"

abbreviation udp_run :: "udp_thread \<Rightarrow> udp_action list \<Rightarrow> udp_thread \<Rightarrow> bool" where
  "udp_run \<equiv> steps udp_step"

definition receivers_ok :: "udp_thread \<Rightarrow> bool" where
  "receivers_ok s \<longleftrightarrow> (\<forall>b \<in> set (ut_gsn_pkgs s). rb_sessions b = [])"

text \<open>Until the identifiers wrap, those that have been given are smaller than the next one.\<close>

definition idents_ok :: "udp_thread \<Rightarrow> bool" where
  "idents_ok s \<longleftrightarrow> distinct (map rb_id (ut_gsn_pkgs s)) \<and>
     (ut_gsn_pkgid s \<noteq> 0 \<longrightarrow> (\<forall>b \<in> set (ut_gsn_pkgs s). rb_id b < ut_gsn_pkgid s))"

lemma params_frame [simp]:
  "ut_gsn_pkgs (udp_SetDirParaXieYi p s) = ut_gsn_pkgs s" "ut_gsn_pkgid (udp_SetDirParaXieYi p s) = ut_gsn_pkgid s"
  "ut_gsn_pkgs (snd (udp_SetProtocalParam_TimeStamp addr port utc stamp s)) = ut_gsn_pkgs s"
  "ut_gsn_pkgid (snd (udp_SetProtocalParam_TimeStamp addr port utc stamp s)) = ut_gsn_pkgid s"
  by (simp_all add: udp_SetDirParaXieYi_def udp_SetProtocalParam_TimeStamp_def Let_def split: prod.split option.split)

lemma OnRecvPacketReturn_frame:
  "OnRecvPacketReturn e s pkg = Some (s', event, actions) \<Longrightarrow>
     ut_gsn_pkgs s' = ut_gsn_pkgs s \<and> ut_gsn_pkgid s' = ut_gsn_pkgid s \<and> (\<forall>b d. Posted b d \<notin> set actions)"
  by (auto simp: OnRecvPacketReturn_def HandlePrivateData_def Let_def dest!: RevcDirectPack_frame split: if_splits bind_splits prod.splits)

lemma udp_step_ok: "udp_step s actions s' \<Longrightarrow> receivers_ok s \<Longrightarrow> receivers_ok s' \<and> (\<forall>b d. Posted b d \<notin> set actions)"
proof (induction rule: udp_step.induct)
  case (opened a1 p1 a2 p2 t m s i pkgs next_id)
  then show ?case by (auto simp: GSNReceiver_def receivers_ok_def)
next
  case (packet e s pkg s' event actions)
  then show ?case using OnRecvPacketReturn_frame [OF packet(1)] by (auto simp: receivers_ok_def)
qed (auto simp: receivers_ok_def udp_OnTimer_def freeMemory_def CloseGSNReceiver_def)

lemma next_ident: "(i :: u32) + 1 \<noteq> 0 \<Longrightarrow> j \<le> i \<Longrightarrow> j < i + 1"
proof -
  assume "i + 1 \<noteq> 0" and j: "j \<le> i"
  then have "unat (i + 1) = Suc (unat i)" by (metis Suc_eq_plus1 unatSuc add.commute)
  then show ?thesis using j by (simp add: word_less_nat_alt word_le_nat_alt)
qed

lemma udp_step_idents:
  "udp_step s actions s' \<Longrightarrow> idents_ok s \<Longrightarrow> Receiver_opened 0 \<notin> set actions \<Longrightarrow> idents_ok s'"
proof (induction rule: udp_step.induct)
  case (opened a1 p1 a2 p2 t m s i pkgs next_id)
  then have i: "i = ut_gsn_pkgid s" "i \<noteq> 0" "next_id = i + 1" by (auto simp: GSNReceiver_def)
  have "rb_id b < i" if "b \<in> set (ut_gsn_pkgs s)" for b using opened(2) i that by (simp add: idents_ok_def)
  then have "i \<notin> rb_id ` set (ut_gsn_pkgs s)" "\<forall>b \<in> set (ut_gsn_pkgs s). rb_id b < i" by auto
  then show ?case
    using opened(1,2) i next_ident [of i] by (auto simp: GSNReceiver_def idents_ok_def less_imp_le)
next
  case (closed s i)
  then show ?case by (auto simp: CloseGSNReceiver_def idents_ok_def distinct_map_filter)
next
  case (packet e s pkg s' event actions)
  then show ?case using OnRecvPacketReturn_frame [OF packet(1)] by (auto simp: idents_ok_def)
qed (auto simp: idents_ok_def udp_OnTimer_def freeMemory_def comp_def)

text \<open>
  C15: whatever packets come, in whatever order with the calls of the other threads, the thread posts
  nothing to anybody, and its receivers never have a session, so that the second and every later slice of
  a message to them is rejected. Their identifiers are distinct as long as no receiver has been given the
  identifier 0, for which the counter, an \<open>unsigned\<close> that starts at 1, has to run through all the others.
\<close>

theorem nothing_delivered:
  assumes "udp_run (udp_init ip) actions s"
  shows "(\<forall>b d. Posted b d \<notin> set actions) \<and>
    (\<forall>b \<in> set (ut_gsn_pkgs s). \<forall>fresh tick p (keys :: u64 des_keys) head bytes. ph_id head \<noteq> 1 \<longrightarrow>
       ph_slicetype head \<in> {DIRPACKET_MULTI_MIDDLE, DIRPACKET_MULTI_END} \<longrightarrow>
       receive_slice fresh tick p keys b head bytes = Some (Inl ())) \<and>
    (Receiver_opened 0 \<notin> set actions \<longrightarrow> distinct (map rb_id (ut_gsn_pkgs s)))"
proof -
  have "receivers_ok s \<and> list_all (\<lambda>a. \<forall>b d. a \<noteq> Posted b d) actions"
    using assms by (rule steps_invariant [where P = "\<lambda>_. True"]) (auto simp: receivers_ok_def udp_init_def list_all_iff dest: udp_step_ok)
  moreover have "distinct (map rb_id (ut_gsn_pkgs s))" if "Receiver_opened 0 \<notin> set actions"
  proof -
    have "list_all (\<lambda>a. a \<noteq> Receiver_opened 0) actions" using that by (auto simp: list_all_iff)
    then have "idents_ok s \<and> list_all (\<lambda>_. True) actions"
      by (rule steps_invariant [where P = "\<lambda>a. a \<noteq> Receiver_opened 0" and R = udp_step and I = idents_ok, OF assms, rotated 2])
        (auto simp: idents_ok_def udp_init_def list_all_iff dest: udp_step_idents)
    then show ?thesis by (simp add: idents_ok_def)
  qed
  ultimately show ?thesis by (auto simp: receivers_ok_def list_all_iff intro!: later_slices_rejected)
qed

text \<open>A run with two receivers, of which the first one is closed, and a packet that is too short.\<close>

theorem nothing_delivered_witness:
  "\<exists>s b. udp_run (udp_init 7) [Receiver_opened 1, Receiver_opened 2] s \<and> ut_gsn_pkgs s = [b] \<and> rb_id b = 2 \<and>
     receive_slice (\<lambda>_. 0) 0 param_example (\<lparr>KnL = [], KnR = [], Kn3 = []\<rparr> :: u64 des_keys) b head_example [] = Some (Inl ())"
proof -
  let ?open = "\<lambda>s. s\<lparr>ut_gsn_pkgs := fst (snd (GSNReceiver 1 2 7 2 0 9 (ut_gsn_pkgs s, ut_gsn_pkgid s))),
      ut_gsn_pkgid := snd (snd (GSNReceiver 1 2 7 2 0 9 (ut_gsn_pkgs s, ut_gsn_pkgid s)))\<rparr>"
  define s1 where "s1 = (udp_init 7)\<lparr>ut_working_falg := True\<rparr>"
  define s2 where "s2 = ?open s1"
  define s3 where "s3 = ?open s2"
  define s4 where "s4 = s3\<lparr>ut_gsn_pkgs := CloseGSNReceiver 1 (ut_gsn_pkgs s3)\<rparr>"
  have opens: "udp_step s [Receiver_opened (ut_gsn_pkgid s)] (?open s)" for s
    by (rule udp_step.opened [where ?a1.0 = 1 and ?p1.0 = 2 and ?a2.0 = 7 and ?p2.0 = 2 and t = 0 and m = 9]) (simp add: GSNReceiver_def)
  have ids: "ut_gsn_pkgid s1 = 1" "ut_gsn_pkgid s2 = 2" by (simp_all add: s2_def s1_def udp_init_def GSNReceiver_def)
  have run1: "udp_run (udp_init 7) [] s1" unfolding s1_def by (intro steps_one udp_step.work)
  have run2: "udp_run (udp_init 7) [Receiver_opened 1] s2"
    by (rule steps_more [OF run1 opens [of s1, folded s2_def]]) (simp add: ids)
  have run3: "udp_run (udp_init 7) [Receiver_opened 1, Receiver_opened 2] s3"
    by (rule steps_more [OF run2 opens [of s2, folded s3_def]]) (simp add: ids)
  have run4: "udp_run (udp_init 7) [Receiver_opened 1, Receiver_opened 2] s4"
    by (rule steps_more [OF run3 udp_step.closed [of s3 1, folded s4_def]]) simp
  have "\<exists>b. ut_gsn_pkgs s4 = [b] \<and> rb_id b = 2"
    by (simp add: s4_def s3_def s2_def s1_def udp_init_def GSNReceiver_def CloseGSNReceiver_def)
  then obtain b where b: "ut_gsn_pkgs s4 = [b]" "rb_id b = 2" by blast
  have "ph_id head_example \<noteq> 1" "ph_slicetype head_example = DIRPACKET_MULTI_MIDDLE"
    by (simp_all add: head_example_def)
  then have "receive_slice (\<lambda>_. 0) 0 param_example (\<lparr>KnL = [], KnR = [], Kn3 = []\<rparr> :: u64 des_keys) b head_example [] = Some (Inl ())"
    using nothing_delivered [OF run4] b(1) by auto
  then show ?thesis using run4 b by blast
qed

end
