(* ===== verification/Frame_Check.thy ===== *)
theory Frame_Check
  imports Net_Util
begin

text \<open>
  The checks of a received frame that \<open>tuanzi/src/udplistenthread.cpp\<close> has, and does not call. A frame is
  its list of bytes; \<open>None\<close> is a failed assertion or an access outside of a buffer.
\<close>

definition CheckSumForRecv :: "byte list \<Rightarrow> u16" where
  "CheckSumForRecv buf = checksum buf"

definition IsIPHeadChecksumRight :: "byte list \<Rightarrow> bool option" where
  "IsIPHeadChecksumRight buf = map_option (\<lambda>ipheader. CheckSumForRecv ipheader = 0xFFFF) (read_at buf 14 20)"

definition IsSuExpected :: "byte list \<Rightarrow> byte list \<Rightarrow> bool option" where
  "IsSuExpected su_ipaddr buf =
     (if buf = [] then None
      else Some (42 < length buf \<and> drop_bit 4 (buf ! 14) = 4 \<and> buf ! 14 AND 0xF = 5 \<and> su_ipaddr = take 4 (drop 30 buf)))"

text \<open>The pseudo header has the length as it is in the packet; the data go into an array of 2040 bytes.\<close>

definition received_pseudo :: "byte list \<Rightarrow> byte list" where
  "received_pseudo buf = take 8 (drop 26 buf) @ [0, buf ! 23] @ take 2 (drop 38 buf) @ drop 34 buf"

definition IsUDPChecksumRight :: "byte list \<Rightarrow> bool option" where
  "IsUDPChecksumRight buf =
     (if length buf < 42 \<or> 2040 < length buf - 42 then None else Some (CheckSumForRecv (received_pseudo buf) = 0xFFFF))"

definition IsUDPPacket :: "byte list \<Rightarrow> bool option" where
  "IsUDPPacket buf =
     (if buf = [] then None else Some (42 \<le> length buf \<and> be16_at buf 12 = Some 0x0800 \<and> buf ! 23 = 17))"

lemma sum16_zero: "sum16 data = 0 \<longleftrightarrow> set data \<subseteq> {0}"
proof (induction data rule: sum16.induct)
  case (3 a b data)
  have "a = 0 \<and> b = 0" if z: "word_le16 [a, b] = 0"
  proof -
    have bits: "\<not> bit (word_le16 [a, b]) n" for n by (simp add: z)
    have "\<not> bit a n \<and> \<not> bit b n" if "n < 8" for n
      using bits [of n] bits [of "n + 8"] that by (auto simp: word_le16_def bit_simps)
    then show ?thesis by (auto intro!: bit_word_eqI)
  qed
  then have "word_le16 [a, b] = 0 \<longleftrightarrow> a = 0 \<and> b = 0" by (auto simp: word_le16_def)
  then show ?case using "3.IH" by (auto simp: unat_eq_zero)
qed (simp_all add: unat_eq_zero)

lemma CheckSumForRecv_accepts:
  assumes "length data \<le> 65536"
  shows "CheckSumForRecv data = 0xFFFF \<longleftrightarrow> set data \<subseteq> {0}"
proof -
  have swap: "checksum data = 0xFFFF \<longleftrightarrow> htons (checksum data) = 0xFFFF"
  proof -
    have "htons 0xFFFF = 0xFFFF" by (simp add: htons_def)
    then show ?thesis by (metis htons_htons)
  qed
  have minus_one_word: "(- 1 :: u16) = 0xFFFF" by simp
  have word_unat_eq: "v = w \<longleftrightarrow> unat v = unat w" for v w :: u16 by (auto simp: unsigned_word_eqI)
  have "htons (checksum data) = 0xFFFF \<longleftrightarrow> unat (htons (checksum data)) = 65535"
    using unat_minus_1 by (metis minus_one_word word_unat_eq)
  also have "\<dots> \<longleftrightarrow> ones (sum16 data) = 0" using ones_props [of "sum16 data"]
    by (cases "sum16 data = 0") (auto simp: unat_checksum [OF assms] ones_def)
  also have "\<dots> \<longleftrightarrow> sum16 data = 0" by (simp add: ones_def)
  finally show ?thesis unfolding CheckSumForRecv_def swap sum16_zero .
qed

text \<open>
  The checksum of a received header is compared with the wrong value: \<open>checksum\<close> returns a
  complement, so that only bytes that are all zero pass. Every UDP packet that is for this station fails
  both checks, whatever its checksums are.
\<close>

theorem checks_reject_all:
  assumes "IsUDPPacket buf = Some True" and "IsSuExpected su_ipaddr buf = Some True"
  shows "IsIPHeadChecksumRight buf = Some False \<and> IsUDPChecksumRight buf = (if length buf \<le> 2082 then Some False else None)"
proof
  have len: "42 < length buf" and v: "drop_bit 4 (buf ! 14) = 4" and p: "buf ! 23 = 17"
    using assms by (auto simp: IsUDPPacket_def IsSuExpected_def split: if_splits)
  have "buf ! 14 \<in> set (take 20 (drop 14 buf))" using len by (auto simp: in_set_conv_nth intro!: exI [of _ 0])
  moreover have "buf ! 14 \<noteq> 0" using v by auto
  ultimately have "\<not> set (take 20 (drop 14 buf)) \<subseteq> {0}" by blast
  then show "IsIPHeadChecksumRight buf = Some False"
    using len by (simp add: IsIPHeadChecksumRight_def read_at_def CheckSumForRecv_accepts)
  have "17 \<in> set (received_pseudo buf)" by (simp add: received_pseudo_def p)
  then have "\<not> set (received_pseudo buf) \<subseteq> {0}" by auto
  moreover have "length (received_pseudo buf) = length buf - 22" using len by (simp add: received_pseudo_def)
  ultimately show "IsUDPChecksumRight buf = (if length buf \<le> 2082 then Some False else None)"
    using len by (auto simp: IsUDPChecksumRight_def CheckSumForRecv_accepts)
qed

theorem checks_reject_all_witness:
  "\<exists>buf. IsUDPPacket buf = Some True \<and> IsIPHeadChecksumRight buf = Some False \<and> IsUDPChecksumRight buf = Some False"
proof -
  define buf where "buf = replicate 12 0 @ [0x08, 0x00] @ InitIpv4Header [10, 0, 0, 1] [10, 0, 0, 2] 1 @ InitUdpHeader 53 53 1 @ [0x61]"
  have ip: "length (InitIpv4Header [10, 0, 0, 1] [10, 0, 0, 2] 1) = 20" "take 10 (InitIpv4Header [10, 0, 0, 1] [10, 0, 0, 2] 1) =
      take 10 (ipv4_fields (of_nat (1 + 28)) [10, 0, 0, 1] [10, 0, 0, 2])" "drop 12 (InitIpv4Header [10, 0, 0, 1] [10, 0, 0, 2] 1) = [10, 0, 0, 1, 10, 0, 0, 2]"
    using ipv4_header_checksum [of "[10, 0, 0, 1]" "[10, 0, 0, 2]" 1] by (simp_all only: list.size append.simps)
  have at: "InitIpv4Header [10, 0, 0, 1] [10, 0, 0, 2] 1 ! 0 = 0x45" "InitIpv4Header [10, 0, 0, 1] [10, 0, 0, 2] 1 ! 9 = 17"
    using arg_cong [OF ip(2), of "\<lambda>l. l ! 0"] arg_cong [OF ip(2), of "\<lambda>l. l ! 9"] by (simp_all add: ipv4_fields_def bytes_le16_def)
  have len: "length buf = 43" by (simp add: buf_def ip(1) [simplified] InitUdpHeader_def len_simps)
  have "buf ! 14 = 0x45" "buf ! 23 = 17" "take 4 (drop 30 buf) = [10, 0, 0, 2]"
    using at arg_cong [OF ip(3), of "drop 4"] by (simp_all add: buf_def nth_append ip(1) [simplified])
  moreover have "be16_at buf 12 = Some 0x0800" by (simp add: buf_def be16_at_def read_at_def word_le16_def htons_def)
  ultimately have "IsUDPPacket buf = Some True" "IsSuExpected [10, 0, 0, 2] buf = Some True"
    using len by (auto simp: IsUDPPacket_def IsSuExpected_def)
  with checks_reject_all [of buf "[10, 0, 0, 2]"] len show ?thesis by auto
qed

end
