(* ===== verification/Dir_Send.thy ===== *)
theory Dir_Send
  imports Dir_Receive Vz_Api
begin

text \<open>
  The sending thread of the direct transfer, \<open>tuanzi/src/dirtranthread.cpp\<close>, with \<open>CreateDirPktHead\<close>
  (\<open>dirtransutil.cpp\<close>) and the waits of \<open>threadutil.cpp\<close>: senders, the queue of messages, the slices of a
  message, and the calls that wait for an answer. \<open>None\<close> is a failed assertion or an access outside of a
  buffer or to freed memory. What the outside decides (clock, fresh memory, the results of waits, the
  table of hardware addresses) is an argument.
\<close>

subsection \<open>Waiting\<close>

text \<open>
  \<open>WaitForSingleObject\<close>: the results of \<open>pthread_cond_timedwait\<close> or \<open>pthread_cond_wait\<close>, with the signal
  found after each, are given in order; \<open>None\<close> is a wait that has not ended with them.
\<close>

definition EBUSY :: int where "EBUSY = 16"
definition ETIMEDOUT :: int where "ETIMEDOUT = 110"

fun timed_wait :: "bool \<Rightarrow> int \<Rightarrow> (int \<times> bool) list \<Rightarrow> int option" where
  "timed_wait signal ret [] = (if \<not> signal \<and> ret \<noteq> 0 then None else Some ret)"
| "timed_wait signal ret ((r, s) # waits) = (if \<not> signal \<and> ret \<noteq> 0 then timed_wait s r waits else Some ret)"

fun untimed_wait :: "bool \<Rightarrow> int \<Rightarrow> (int \<times> bool) list \<Rightarrow> int option" where
  "untimed_wait signal ret [] = (if \<not> signal then None else Some ret)"
| "untimed_wait signal ret ((r, s) # waits) = (if \<not> signal then untimed_wait s r waits else Some ret)"

definition WaitForSingleObject :: "bool \<Rightarrow> int \<Rightarrow> nat \<Rightarrow> (int \<times> bool) list \<Rightarrow> int option" where
  "WaitForSingleObject signal trylock off_msec waits =
     (if signal then Some 0
      else if trylock \<noteq> 0 then Some trylock
      else if off_msec \<noteq> 0 then timed_wait signal 1 waits
      else untimed_wait signal 0 waits)"

subsection \<open>The thread\<close>

record tagSenderBind =
  sb_id :: u32
  sb_srcaddr :: u32
  sb_srcport :: u32
  sb_dstaddr :: u32
  sb_dstport :: u32
  sb_next :: int

text \<open>\<open>du_ret\<close> names the event and the result that the caller waits for, which are allocated together.\<close>

record tagDataSendUnit =
  du_id :: u32
  du_msg :: "byte list"
  du_totallen :: u32
  du_ret :: "nat option"
  du_need_reply :: bool
  du_session_id :: u32

text \<open>\<open>dt_live\<close> are the results that are allocated; the identifiers are those bits of an \<open>int\<close>.\<close>

record dir_tran_thread =
  dt_running :: bool
  dt_send_bind :: "tagSenderBind list"
  dt_data_send :: "tagDataSendUnit list"
  dt_proto_params :: "tagDirectCom_ProtocalParam list"
  dt_next_alloc :: u32
  dt_ret_para :: "nat list"
  dt_gateway_mac :: "byte list"
  dt_next_session :: u32
  dt_live :: "nat list"
  dt_udp :: udp_thread

record 'k dir_env =
  de_tick :: u64
  de_mac :: "byte list"
  de_fresh_text :: "byte list"
  de_fresh :: "nat \<Rightarrow> byte"
  de_slack :: nat
  de_keys :: "'k des_keys"
  de_arp :: "nat \<Rightarrow> u32 \<Rightarrow> byte list \<Rightarrow> byte list"
  de_heartbeat_flags :: u32
  de_vz :: vz_env
  de_table :: "byte list"
  de_chal :: "byte list"

datatype dir_action = Opened u32 | Transmitted "byte list" | Answered nat u32

definition GSNSender :: "u32 \<Rightarrow> u32 \<Rightarrow> u32 \<Rightarrow> u32 \<Rightarrow> dir_tran_thread \<Rightarrow> u32 \<times> dir_tran_thread" where
  "GSNSender srcaddr srcport dstaddr dstport s =
     (dt_next_alloc s, s\<lparr>dt_next_alloc := dt_next_alloc s + 1,
        dt_send_bind := dt_send_bind s @ [\<lparr>sb_id = dt_next_alloc s, sb_srcaddr = srcaddr, sb_srcport = srcport,
          sb_dstaddr = dstaddr, sb_dstport = dstport, sb_next = 1\<rparr>]\<rparr>)"

text \<open>\<open>*ret = value\<close> and \<open>SetEvent\<close>, for a unit that has a result.\<close>

definition answer :: "nat list \<Rightarrow> u32 \<Rightarrow> tagDataSendUnit \<Rightarrow> dir_action list option" where
  "answer live val unit =
     (case du_ret unit of None \<Rightarrow> Some [] | Some h \<Rightarrow> if h \<in> set live then Some [Answered h val] else None)"

fun answer_all :: "nat list \<Rightarrow> tagDataSendUnit list \<Rightarrow> dir_action list option" where
  "answer_all live [] = Some []"
| "answer_all live (unit # units) =
     Option.bind (answer live 0 unit) (\<lambda>a. map_option ((@) a) (answer_all live units))"

fun ClearRetPara :: "nat list \<Rightarrow> nat list \<Rightarrow> nat list option" where
  "ClearRetPara live [] = Some live"
| "ClearRetPara live (h # hs) = (if h \<in> set live then ClearRetPara (removeAll h live) hs else None)"

definition clear_ret_para :: "dir_tran_thread \<Rightarrow> dir_tran_thread option" where
  "clear_ret_para s = map_option (\<lambda>live. s\<lparr>dt_live := live, dt_ret_para := []\<rparr>) (ClearRetPara (dt_live s) (dt_ret_para s))"

definition CloseAllGSNSender :: "dir_tran_thread \<Rightarrow> (dir_tran_thread \<times> dir_action list) option" where
  "CloseAllGSNSender s = do {
     answers \<leftarrow> answer_all (dt_live s) (dt_data_send s);
     s \<leftarrow> clear_ret_para (s\<lparr>dt_data_send := [], dt_send_bind := []\<rparr>);
     Some (s, answers)
   }"

text \<open>
  \<open>CloseGSNSender\<close> sets the event before it writes the result: a caller in \<open>quick\<close>, whose wait ends and
  who frees the two in between, makes that a write to freed memory. The other functions write first.
\<close>

definition CloseGSNSender :: "nat list \<Rightarrow> u32 \<Rightarrow> dir_tran_thread \<Rightarrow> (dir_tran_thread \<times> dir_action list) option" where
  "CloseGSNSender quick ident s = do {
     answers \<leftarrow> answer_all (filter (\<lambda>h. h \<notin> set quick) (dt_live s)) (filter (\<lambda>u. du_id u = ident) (dt_data_send s));
     Some (s\<lparr>dt_data_send := filter (\<lambda>u. du_id u \<noteq> ident) (dt_data_send s),
       dt_send_bind := filter (\<lambda>b. sb_id b \<noteq> ident) (dt_send_bind s)\<rparr>, answers)
   }"

definition StartRun :: "dir_tran_thread \<Rightarrow> dir_tran_thread" where
  "StartRun s = s\<lparr>dt_running := True, dt_udp := (dt_udp s)\<lparr>ut_working_falg := True\<rparr>\<rparr>"

definition StopRun :: "dir_tran_thread \<Rightarrow> (dir_tran_thread \<times> dir_action list) option" where
  "StopRun s =
     (if \<not> dt_running s then Some (s, [])
      else CloseAllGSNSender (s\<lparr>dt_running := False, dt_udp := (dt_udp s)\<lparr>ut_working_falg := False\<rparr>\<rparr>))"

definition GetProtocalParamFromSenderHand ::
  "dir_tran_thread \<Rightarrow> tagDirectCom_ProtocalParam \<Rightarrow> u32 \<Rightarrow> bool \<times> tagDirectCom_ProtocalParam" where
  "GetProtocalParamFromSenderHand s proto_param ident =
     (case find (\<lambda>b. sb_id b = ident) (dt_send_bind s) of
        Some b \<Rightarrow> GetProtocalParam (dt_proto_params s) proto_param (sb_dstaddr b) (ucast (sb_dstport b))
      | None \<Rightarrow> (False, proto_param))"

text \<open>\<open>SetDirParaXieYi\<close> and \<open>SetProtocalParam_TimeStamp\<close> hand on to the other thread.\<close>

definition dir_SetDirParaXieYi :: "tagDirectCom_ProtocalParam \<Rightarrow> dir_tran_thread \<Rightarrow> dir_tran_thread" where
  "dir_SetDirParaXieYi p s = s\<lparr>dt_proto_params := set_proto_param p (dt_proto_params s),
     dt_udp := (udp_SetDirParaXieYi p (dt_udp s))\<lparr>ut_working_falg := True\<rparr>\<rparr>"

definition dir_SetProtocalParam_TimeStamp :: "u32 \<Rightarrow> u16 \<Rightarrow> u64 \<Rightarrow> u64 \<Rightarrow> dir_tran_thread \<Rightarrow> bool \<times> dir_tran_thread" where
  "dir_SetProtocalParam_TimeStamp addr port utc_time timestamp s =
     (let (found, ps) = SetProtocalParam_TimeStamp (dt_proto_params s) addr port utc_time timestamp
      in (found, s\<lparr>dt_proto_params := ps,
            dt_udp := snd (udp_SetProtocalParam_TimeStamp addr port utc_time timestamp (dt_udp s))\<rparr>))"


subsection \<open>Queueing a message\<close>

definition round_up_8 :: "u32 \<Rightarrow> u32" where
  "round_up_8 n = push_bit 3 (drop_bit 3 n + (if n AND 7 \<noteq> 0 then 1 else 0))"

text \<open>
  What the five functions that queue a message share: \<open>message\<close> fills the fresh memory of the rounded
  length, and the unit is queued even when the encryption fails.
\<close>

definition queue_unit ::
  "'u::len word dir_env \<Rightarrow> dir_tran_thread \<Rightarrow> u32 \<Rightarrow> u32 \<Rightarrow> (byte list \<Rightarrow> byte list option) \<Rightarrow> bool \<Rightarrow> nat option \<Rightarrow>
   (bool \<times> dir_tran_thread) option" where
  "queue_unit e s ident buflen message need_reply ret =
     (case GetProtocalParamFromSenderHand s (default_param (de_tick e)) ident of
        (False, _) \<Rightarrow> Some (False, s)
      | (True, proto_param) \<Rightarrow> do {
          msg \<leftarrow> message (map (de_fresh e) [0..<unat (round_up_8 buflen)]);
          (_, msg, _) \<leftarrow> EncryptPrivateData (pp_ivbuf proto_param) (pp_keybuf proto_param) (de_keys e) msg (unat (round_up_8 buflen));
          Some (True, s\<lparr>dt_data_send := dt_data_send s @ [\<lparr>du_id = ident, du_msg = msg, du_totallen = round_up_8 buflen, du_ret = ret,
                 du_need_reply = need_reply, du_session_id = dt_next_session s\<rparr>],
               dt_next_session := dt_next_session s + 1,
               dt_live := (case ret of None \<Rightarrow> [] | Some h \<Rightarrow> [h]) @ dt_live s\<rparr>)
        })"

definition copy_in :: "byte list \<Rightarrow> u32 \<Rightarrow> byte list \<Rightarrow> byte list option" where
  "copy_in buf n msg = Option.bind (read_at buf 0 (unat n)) (store_at msg 0)"

definition postMessage :: "'u::len word dir_env \<Rightarrow> u32 \<Rightarrow> byte list \<Rightarrow> u32 \<Rightarrow> dir_tran_thread \<Rightarrow> (bool \<times> dir_tran_thread) option" where
  "postMessage e ident buf buflen s = queue_unit e s ident buflen (copy_in buf buflen) True None"

definition PostPacketNoResponse :: "'u::len word dir_env \<Rightarrow> u32 \<Rightarrow> byte list \<Rightarrow> u32 \<Rightarrow> dir_tran_thread \<Rightarrow> (bool \<times> dir_tran_thread) option" where
  "PostPacketNoResponse e ident buf buflen s = queue_unit e s ident buflen (copy_in buf buflen) False None"

text \<open>
  The calls that wait, up to the wait, with the new result \<open>h\<close>: \<open>sendMessage\<close> and
  \<open>sendMessageWithTimeout\<close>, and \<open>SendPacketNoResponse\<close>, which copies the rounded length.
\<close>

definition sendMessage :: "'u::len word dir_env \<Rightarrow> nat \<Rightarrow> u32 \<Rightarrow> byte list \<Rightarrow> u32 \<Rightarrow> dir_tran_thread \<Rightarrow> (bool \<times> dir_tran_thread) option" where
  "sendMessage e h ident buf buflen s = queue_unit e s ident buflen (copy_in buf buflen) False (Some h)"

definition SendPacketNoResponse ::
  "'u::len word dir_env \<Rightarrow> nat \<Rightarrow> u32 \<Rightarrow> byte list \<Rightarrow> u32 \<Rightarrow> dir_tran_thread \<Rightarrow> (bool \<times> dir_tran_thread) option" where
  "SendPacketNoResponse e h ident buf buflen s = queue_unit e s ident buflen (copy_in buf (round_up_8 buflen)) False (Some h)"

text \<open>The rest of such a call when its wait has ended: the result is kept for later, or freed.\<close>

definition wait_ended :: "bool \<Rightarrow> nat \<Rightarrow> dir_tran_thread \<Rightarrow> bool \<times> dir_tran_thread" where
  "wait_ended timed_out h s =
     (if timed_out then (False, s\<lparr>dt_ret_para := dt_ret_para s @ [h]\<rparr>)
      else (True, s\<lparr>dt_live := removeAll h (dt_live s)\<rparr>))"

text \<open>The heartbeat appends a property of 130 bytes, before the length is rounded.\<close>

definition PostPacketSAMHeartbeatNoResponse ::
  "'u::len word dir_env \<Rightarrow> u32 \<Rightarrow> byte list \<Rightarrow> u32 \<Rightarrow> dir_tran_thread \<Rightarrow> (bool \<times> dir_tran_thread) option" where
  "PostPacketSAMHeartbeatNoResponse e ident buf buflen s =
     (if de_heartbeat_flags e = 1
      then queue_unit e s ident (buflen + 130) (\<lambda>msg. do {
             tmpbuf \<leftarrow> heartbeat_property TYPE('u) (de_vz e) (de_table e) (dt_next_session s) (de_chal e);
             msg \<leftarrow> copy_in buf buflen msg;
             store_at msg (unat buflen) tmpbuf
           }) False None
      else queue_unit e s ident buflen (copy_in buf buflen) False None)"

subsection \<open>Sending a message\<close>

text \<open>
  The address of the gateway: \<open>get_ip_mac\<close> is asked four times at most; an address that is known only at
  the fourth round is refused, and no address at all is not.
\<close>

definition mac_known :: "byte list \<Rightarrow> bool" where
  "mac_known mac \<longleftrightarrow> mac \<noteq> replicate 6 0 \<and> mac \<noteq> replicate 6 0xFF"

fun find_gateway :: "(nat \<Rightarrow> byte list \<Rightarrow> byte list) \<Rightarrow> nat list \<Rightarrow> byte list \<Rightarrow> bool \<times> byte list" where
  "find_gateway arp [] mac = (True, mac)"
| "find_gateway arp (i # is) mac = (if mac_known mac then (i \<le> 2, mac) else find_gateway arp is (arp i mac))"

text \<open>
  \<open>CreateDirPktHead\<close>: the buffer of the checksum has room for the length in the head and 16 bytes. The
  checksum goes back into that buffer only.
\<close>

definition CreateDirPktHead ::
  "'u::len itself \<Rightarrow> nat \<Rightarrow> byte list \<Rightarrow> (nat \<Rightarrow> byte) \<Rightarrow> tagDirPacketHead \<Rightarrow> byte list \<Rightarrow> byte list \<Rightarrow> byte list \<Rightarrow> byte list option" where
  "CreateDirPktHead u slack fresh_text fresh packet_head buf key iv = do {
     let final_packet_head = final_head packet_head;
     checksum_buf \<leftarrow> store_at (map fresh [0..<unat (htons (ph_packet_len packet_head)) + 16]) 0 final_packet_head;
     checksum_buf \<leftarrow> store_at checksum_buf 8 (replicate 16 0);
     checksum_buf \<leftarrow> store_at checksum_buf 42 key;
     checksum_buf \<leftarrow> store_at checksum_buf 50 iv;
     checksum_buf \<leftarrow> store_at checksum_buf 58 buf;
     input \<leftarrow> read_at checksum_buf 0 58;
     md5_checksum \<leftarrow> packet_digest u slack fresh_text input;
     checksum_buf \<leftarrow> store_at checksum_buf 8 md5_checksum;
     Some final_packet_head
   }"

definition MAX_TRANSFERRED_DATALEN :: u32 where "MAX_TRANSFERRED_DATALEN = 1358"

text \<open>
  The variables of the loop of \<open>DoSendPacket\<close>; \<open>sl_waits\<close> are the results of the waits for responses that
  are to come, and \<open>sl_data\<close> is \<open>final_packet.data\<close>.
\<close>

record slices =
  sl_remain :: u32
  sl_sent_times :: u32
  sl_started :: bool
  sl_slicetype :: byte
  sl_next :: int
  sl_data :: "byte list"
  sl_udp :: udp_thread
  sl_waits :: "int list"
  sl_sent :: "byte list list"

definition slice_type :: "bool \<Rightarrow> bool \<Rightarrow> slices \<Rightarrow> byte" where
  "slice_type multi finished sl =
     (if sl_sent_times sl \<noteq> 0 then sl_slicetype sl
      else if \<not> multi then DIRPACKET_SINGLE
      else if finished then DIRPACKET_MULTI_END
      else if sl_started sl then DIRPACKET_MULTI_MIDDLE else DIRPACKET_MULTI_BEGIN)"

text \<open>The wait for the response: \<open>None\<close> gives up.\<close>

definition after_wait :: "int \<Rightarrow> u32 \<Rightarrow> u32 \<Rightarrow> slices \<Rightarrow> slices option" where
  "after_wait wait_ret retry_count mtu sl =
     (if wait_ret = 0 then
        (let sl = sl\<lparr>sl_sent_times := 0\<rparr> in if retry_count = 0 then None else Some sl)
      else if wait_ret = ETIMEDOUT then
        (let sl = sl\<lparr>sl_sent_times := sl_sent_times sl + 1, sl_next := sl_next sl - 1, sl_remain := sl_remain sl + mtu\<rparr>
         in if retry_count = sl_sent_times sl then None else Some sl)
      else None)"


definition request_head :: "tagDirectCom_ProtocalParam \<Rightarrow> tagDataSendUnit \<Rightarrow> int \<Rightarrow> u32 \<Rightarrow> u64 \<Rightarrow> byte \<Rightarrow> tagDirPacketHead" where
  "request_head proto_param unit ident remain_len stamp slicetype =
     \<lparr>ph_version = pp_version proto_param, ph_response_code = DIRPACKET_REQUEST, ph_id = bswap_32 (of_int ident),
      ph_packet_len = htons (ucast (min 1400 (remain_len + 42))), ph_md5sum = replicate 16 0,
      ph_session_id = bswap_32 (du_session_id unit), ph_timestamp = htonLONGLONG stamp, ph_field_28 = True,
      ph_slicetype = slicetype, ph_data_len = bswap_32 (du_totallen unit)\<rparr>"

text \<open>
  A round of the loop. \<open>Send\<close> is given the length of the data for the head and the data together. The
  sender in \<open>dir_respara\<close> is never set, so that it has the address and the port 0. \<open>Inl\<close> gives up.
\<close>

definition send_slice ::
  "'u::len word dir_env \<Rightarrow> byte list \<Rightarrow> tagDirectCom_ProtocalParam \<Rightarrow> tagSenderBind \<Rightarrow> tagDataSendUnit \<Rightarrow> slices \<Rightarrow> (slices + slices) option" where
  "send_slice e dst_mac proto_param sender_bind unit sl = do {
     let mtu = min MAX_TRANSFERRED_DATALEN (sl_remain sl);
     data \<leftarrow> read_at (du_msg unit) (unat (du_totallen unit - sl_remain sl)) (unat mtu);
     let multi = (MAX_TRANSFERRED_DATALEN < du_totallen unit);
     let slicetype = slice_type multi (sl_remain sl \<le> MAX_TRANSFERRED_DATALEN) sl;
     let remain_len = sl_remain sl - mtu;
     (stamp, ts) \<leftarrow> (if pp_version proto_param = 1
       then Some (pp_utc_time proto_param + (de_tick e - pp_timestamp proto_param) div 1000, ut_timestamps (sl_udp sl))
       else GetNextTimeStampForSend (ut_timestamps (sl_udp sl)) (pp_addr proto_param) (pp_port proto_param));
     let packet_head = request_head proto_param unit (sl_next sl) remain_len stamp slicetype;
     final_head \<leftarrow> CreateDirPktHead TYPE('u) (de_slack e) (de_fresh_text e) (de_fresh e) packet_head data (pp_keybuf proto_param) (pp_ivbuf proto_param);
     let final_data = memcpy (sl_data sl) 0 data;
     packet \<leftarrow> read_at (final_head @ final_data) 0 (unat mtu);
     sent \<leftarrow> sendudp (de_mac e) dst_mac (bytes_le32 (sb_srcaddr sender_bind)) (bytes_le32 (sb_dstaddr sender_bind))
       (ucast (sb_srcport sender_bind)) (ucast (sb_dstport sender_bind)) packet;
     let sl = sl\<lparr>sl_remain := remain_len, sl_started := sl_started sl \<or> sl_sent_times sl = 0, sl_slicetype := slicetype,
       sl_next := sl_next sl + 1, sl_data := final_data, sl_sent := sl_sent sl @ [sent],
       sl_udp := (sl_udp sl)\<lparr>ut_timestamps := ts\<rparr>\<rparr>;
     if \<not> du_need_reply unit then Some (Inr sl)
     else case sl_waits sl of
         [] \<Rightarrow> None
       | w # ws \<Rightarrow>
           let sl = sl\<lparr>sl_waits := ws, sl_udp := (sl_udp sl)\<lparr>ut_dir_para := \<lparr>rp_srcport = 0, rp_dstaddr = 0, rp_head = packet_head\<rparr>,
             ut_listen_res := False\<rparr>\<rparr>
           in Some (case after_wait w (pp_retry_count proto_param) mtu sl of None \<Rightarrow> Inl sl | Some sl \<Rightarrow> Inr sl)
   }"

text \<open>Every round sends at least one byte for good, or has used up a wait.\<close>

lemma min_slice: "remain \<noteq> 0 \<Longrightarrow> unat (remain - min MAX_TRANSFERRED_DATALEN remain) < unat remain \<and> min MAX_TRANSFERRED_DATALEN remain \<le> remain"
proof -
  assume r: "remain \<noteq> 0"
  have le: "min MAX_TRANSFERRED_DATALEN remain \<le> remain" by (rule min.cobounded2)
  have "min MAX_TRANSFERRED_DATALEN remain \<noteq> 0" using r by (simp add: min_def MAX_TRANSFERRED_DATALEN_def)
  then have "0 < unat (min MAX_TRANSFERRED_DATALEN remain)" by (simp add: unat_gt_0)
  moreover have "unat (remain - min MAX_TRANSFERRED_DATALEN remain) = unat remain - unat (min MAX_TRANSFERRED_DATALEN remain)"
    using le by (rule unat_sub)
  moreover have "0 < unat remain" using r by (simp add: unat_gt_0)
  ultimately show ?thesis using le by simp
qed

lemma after_wait_remain:
  "after_wait w n mtu sl = Some sl' \<Longrightarrow> sl_waits sl' = sl_waits sl \<and> (sl_remain sl' = sl_remain sl \<or> sl_remain sl' = sl_remain sl + mtu)"
  by (auto simp: after_wait_def Let_def split: if_splits)

lemma send_slice_decreases:
  assumes "send_slice e mac p b unit sl = Some (Inr sl')" and "sl_remain sl \<noteq> 0"
  shows "length (sl_waits sl') + unat (sl_remain sl') < length (sl_waits sl) + unat (sl_remain sl)"
  using assms min_slice [OF assms(2)]
  by (auto simp: send_slice_def Let_def dest!: after_wait_remain split: bind_splits if_splits list.splits option.splits prod.splits)

function send_slices ::
  "'u::len word dir_env \<Rightarrow> byte list \<Rightarrow> tagDirectCom_ProtocalParam \<Rightarrow> tagSenderBind \<Rightarrow> tagDataSendUnit \<Rightarrow> slices \<Rightarrow> (bool \<times> slices) option" where
  "send_slices e mac p b unit sl =
     (if sl_remain sl = 0 then Some (True, sl)
      else case send_slice e mac p b unit sl of
          None \<Rightarrow> None
        | Some (Inl sl) \<Rightarrow> Some (False, sl)
        | Some (Inr sl) \<Rightarrow> send_slices e mac p b unit sl)"
  by pat_completeness auto
termination
  by (relation "measure (\<lambda>(e, mac, p, b, unit, sl). length (sl_waits sl) + unat (sl_remain sl))") (auto dest: send_slice_decreases)

declare send_slices.simps [simp del]

text \<open>
  \<open>DoSendPacket\<close>, with the waits for responses to come: the result, the bindings with their next slice,
  the thread, the packets sent and the waits that are left.
\<close>

definition DoSendPacket ::
  "'u::len word dir_env \<Rightarrow> tagSenderBind \<Rightarrow> tagDataSendUnit \<Rightarrow> int list \<Rightarrow> dir_tran_thread \<Rightarrow>
   (bool \<times> tagSenderBind \<times> dir_tran_thread \<times> byte list list \<times> int list) option" where
  "DoSendPacket e sender_bind unit waits s =
     (case GetProtocalParam (dt_proto_params s) (default_param (de_tick e)) (sb_dstaddr sender_bind) (ucast (sb_dstport sender_bind)) of
        (False, _) \<Rightarrow> Some (False, sender_bind, s, [], waits)
      | (True, proto_param) \<Rightarrow>
          let (found, mac) = find_gateway (\<lambda>i. de_arp e i (if pp_field_40 proto_param then sb_dstaddr sender_bind else pp_dstaddr proto_param))
                [0..<4] (dt_gateway_mac s);
              s = s\<lparr>dt_gateway_mac := mac\<rparr>
          in if \<not> found then Some (False, sender_bind, s, [], waits)
             else map_option (\<lambda>(ok, sl). (ok, sender_bind\<lparr>sb_next := sl_next sl\<rparr>, s\<lparr>dt_udp := sl_udp sl\<rparr>, sl_sent sl, sl_waits sl))
               (send_slices e mac proto_param sender_bind unit
                 \<lparr>sl_remain = du_totallen unit, sl_sent_times = 0, sl_started = False, sl_slicetype = 0, sl_next = sb_next sender_bind,
                  sl_data = replicate 1400 0, sl_udp = dt_udp s, sl_waits = waits, sl_sent = []\<rparr>))"

subsection \<open>The queue\<close>

text \<open>
  The search for the sender of a unit compares the identifier of the variable, not that of the entry;
  the variables keep what an earlier round has found.
\<close>

definition search_sender :: "tagSenderBind list \<Rightarrow> tagDataSendUnit \<Rightarrow> tagSenderBind \<times> bool \<Rightarrow> tagSenderBind \<times> bool" where
  "search_sender send_bind unit found =
     (case send_bind of
        [] \<Rightarrow> found
      | sender_bind_l # _ \<Rightarrow> if sb_id (fst found) = du_id unit then (sender_bind_l, True) else found)"

definition finish_unit :: "bool \<Rightarrow> tagSenderBind \<Rightarrow> tagDataSendUnit \<Rightarrow> dir_tran_thread \<Rightarrow> (dir_tran_thread \<times> dir_action list) option" where
  "finish_unit ok sender_bind unit s = do {
     answers \<leftarrow> answer (dt_live s) (if ok then 1 else 0) unit;
     Some (s\<lparr>dt_send_bind := (if ok then map (\<lambda>b. if sb_id b = du_id unit then b\<lparr>sb_next := sb_next sender_bind\<rparr> else b) (dt_send_bind s)
             else dt_send_bind s),
           dt_udp := (dt_udp s)\<lparr>ut_gsn_pkgs := CloseGSNReceiver (sb_id sender_bind) (ut_gsn_pkgs (dt_udp s))\<rparr>\<rparr>, answers)
   }"

fun trans_loop ::
  "'u::len word dir_env \<Rightarrow> tagDataSendUnit list \<Rightarrow> int list \<Rightarrow> tagSenderBind \<times> bool \<Rightarrow> dir_tran_thread \<Rightarrow> (dir_tran_thread \<times> dir_action list) option" where
  "trans_loop e [] waits found s = Some (s\<lparr>dt_data_send := []\<rparr>, [])"
| "trans_loop e (unit # units) waits found s =
     (let (sender_bind, f) = search_sender (dt_send_bind s) unit found in
      if \<not> f then do {
        a \<leftarrow> answer (dt_live s) 0 unit;
        (s, rest) \<leftarrow> trans_loop e units waits (sender_bind, f) s;
        Some (s, a @ rest)
      }
      else do {
        (ok, sender_bind, s, sent, waits) \<leftarrow> DoSendPacket e sender_bind unit waits s;
        (s, a) \<leftarrow> finish_unit ok sender_bind unit s;
        (s, rest) \<leftarrow> trans_loop e units waits (sender_bind, f) s;
        Some (s, map Transmitted sent @ a @ rest)
      })"

text \<open>\<open>OnTransPacket\<close>, while no other thread changes the queue or stops the run.\<close>

definition OnTransPacket :: "'u::len word dir_env \<Rightarrow> int list \<Rightarrow> dir_tran_thread \<Rightarrow> (dir_tran_thread \<times> dir_action list) option" where
  "OnTransPacket e waits s = do {
     s \<leftarrow> clear_ret_para s;
     if \<not> dt_running s then CloseAllGSNSender s
     else trans_loop e (dt_data_send s) waits (\<lparr>sb_id = -1, sb_srcaddr = 0, sb_srcport = 0, sb_dstaddr = 0, sb_dstport = 0, sb_next = 1\<rparr>, False) s
   }"

subsection \<open>A wait that is not answered\<close>

lemma timed_wait_timeouts:
  "timed_wait False 1 (replicate n (ETIMEDOUT, False)) = None"
  "timed_wait False 1 (replicate n (ETIMEDOUT, False) @ (ETIMEDOUT, True) # waits) = Some ETIMEDOUT"
proof -
  have e: "ETIMEDOUT \<noteq> 0" by (simp add: ETIMEDOUT_def)
  have "r \<noteq> 0 \<Longrightarrow> timed_wait False r (replicate n (ETIMEDOUT, False)) = None" for r
    by (induction n arbitrary: r) (simp_all add: e)
  moreover have "timed_wait True ETIMEDOUT waits = Some ETIMEDOUT" by (cases waits) auto
  then have "r \<noteq> 0 \<Longrightarrow> timed_wait False r (replicate n (ETIMEDOUT, False) @ (ETIMEDOUT, True) # waits) = Some ETIMEDOUT" for r
    by (induction n arbitrary: r) (simp_all add: e)
  ultimately show "timed_wait False 1 (replicate n (ETIMEDOUT, False)) = None"
    "timed_wait False 1 (replicate n (ETIMEDOUT, False) @ (ETIMEDOUT, True) # waits) = Some ETIMEDOUT" by simp_all
qed

lemma timed_wait_ends: "timed_wait signal r waits = Some res \<Longrightarrow> signal \<or> r = 0 \<or> (\<exists>(r', s) \<in> set waits. s \<or> r' = 0)"
  by (induction signal r waits rule: timed_wait.induct) (auto split: if_splits)

text \<open>
  C24: the deadline of a wait does not end it: the loop of \<open>WaitForSingleObject\<close> goes on while
  \<open>pthread_cond_timedwait\<close> returns anything but 0, so that it returns only after a signal or a wakeup;
  and a signal that comes after the deadline is reported as a timeout.
\<close>

theorem deadline_never_ends_wait:
  assumes "off_msec \<noteq> 0"
  shows "WaitForSingleObject False 0 off_msec (replicate n (ETIMEDOUT, False)) = None \<and>
    WaitForSingleObject False 0 off_msec (replicate n (ETIMEDOUT, False) @ (ETIMEDOUT, True) # more_waits) = Some ETIMEDOUT \<and>
    (WaitForSingleObject False 0 off_msec waits = Some res \<longrightarrow> (\<exists>(r, signal) \<in> set waits. signal \<or> r = 0))"
  using assms timed_wait_timeouts timed_wait_ends [of False 1 waits res] by (auto simp: WaitForSingleObject_def)

theorem deadline_never_ends_wait_witness:
  "WaitForSingleObject False 0 3000 (replicate 5 (ETIMEDOUT, False)) = None"
  using deadline_never_ends_wait [of 3000 5] by simp

subsection \<open>No message is sent\<close>

lemma length_store_at: "store_at dst i src = Some r \<Longrightarrow> length r = length dst \<and> i + length src \<le> length dst"
  by (auto simp: store_at_def memcpy_def split: if_splits)

lemma CreateDirPktHead_room:
  "CreateDirPktHead u slack fresh_text fresh head buf key iv = Some h \<Longrightarrow> 58 + length buf \<le> unat (htons (ph_packet_len head)) + 16"
  by (auto simp: CreateDirPktHead_def Let_def dest!: length_store_at split: bind_splits)

lemma send_slice_last:
  assumes "sl_remain sl \<noteq> 0" and "sl_remain sl \<le> MAX_TRANSFERRED_DATALEN"
  shows "send_slice e mac p b unit sl = None"
proof -
  have m: "min MAX_TRANSFERRED_DATALEN (sl_remain sl) = sl_remain sl" using assms(2) by (rule min.absorb2)
  have "0 < unat (sl_remain sl)" using assms(1) by (simp add: unat_gt_0)
  then have "CreateDirPktHead u sk ft f (request_head p unit i 0 stamp t) data key iv = None" if "length data = unat (sl_remain sl)"
    for u :: "'a itself" and sk ft f i stamp t data key iv
    using that CreateDirPktHead_room [of u sk ft f "request_head p unit i 0 stamp t" data key iv]
    by (cases "CreateDirPktHead u sk ft f (request_head p unit i 0 stamp t) data key iv") (auto simp: request_head_def)
  moreover have "read_at buf i n = Some d \<Longrightarrow> length d = n" for buf i n d by (auto simp: read_at_def split: if_splits)
  ultimately show ?thesis
    unfolding send_slice_def Let_def m by (auto split: bind_split)
qed

lemma send_slice_remains:
  assumes "send_slice e mac p b unit sl = Some (Inr sl')" and "sl_remain sl \<noteq> 0"
  shows "sl_remain sl' \<noteq> 0"
proof -
  have "\<not> sl_remain sl \<le> MAX_TRANSFERRED_DATALEN" using assms send_slice_last [of sl e mac p b unit] by auto
  then have "sl_remain sl - min MAX_TRANSFERRED_DATALEN (sl_remain sl) \<noteq> 0" by (auto simp: min_def)
  with assms show ?thesis
    by (auto simp: send_slice_def Let_def dest!: after_wait_remain split: bind_splits if_splits list.splits option.splits prod.splits)
qed

lemma send_slices_never:
  "sl_remain sl \<noteq> 0 \<Longrightarrow> send_slices e mac p b unit sl = Some (ok, sl') \<Longrightarrow> \<not> ok \<and> du_need_reply unit"
proof (induction e mac p b unit sl rule: send_slices.induct)
  case (1 e mac p b unit sl)
  have reply: "du_need_reply unit" if "send_slice e mac p b unit sl = Some (Inl sl1)" for sl1
    using that by (auto simp: send_slice_def Let_def split: bind_splits if_splits)
  have run: "(case send_slice e mac p b unit sl of None \<Rightarrow> None | Some (Inl sl) \<Rightarrow> Some (False, sl)
      | Some (Inr sl) \<Rightarrow> send_slices e mac p b unit sl) = Some (ok, sl')"
    using "1.prems" by (simp add: send_slices.simps [of e mac p b unit sl])
  show ?case
  proof (cases "send_slice e mac p b unit sl")
    case (Some r)
    then show ?thesis
    proof (cases r)
      case (Inl sl1)
      then show ?thesis using run Some reply by auto
    next
      case (Inr sl1)
      then have "sl_remain sl1 \<noteq> 0" using Some send_slice_remains "1.prems"(1) by blast
      then show ?thesis using "1.IH" [OF "1.prems"(1) Some Inr] run Some Inr by simp
    qed
  qed (use run in simp)
qed

text \<open>
  C19: no transfer succeeds: the last slice of a message leaves nothing to be sent, so that the length in
  its head is that of the head alone, and the copy of its data for the checksum writes past the end of
  the buffer. A message that asks for no reply is always such a write, once its peer and its gateway are
  known.
\<close>

theorem last_slice_overruns:
  assumes "du_totallen unit \<noteq> 0"
  shows "DoSendPacket e b unit waits s \<noteq> Some (True, b', s', sent, waits') \<and>
    (\<not> du_need_reply unit \<and> peer_params (dt_proto_params s) (sb_dstaddr b, ucast (sb_dstport b)) \<noteq> None \<and> mac_known (dt_gateway_mac s) \<longrightarrow>
       DoSendPacket e b unit waits s = None)"
proof -
  have never: "send_slices e mac p b unit \<lparr>sl_remain = du_totallen unit, sl_sent_times = 0, sl_started = False, sl_slicetype = 0,
      sl_next = i, sl_data = d, sl_udp = ud, sl_waits = waits, sl_sent = []\<rparr> = Some (ok, sl') \<Longrightarrow> \<not> ok \<and> du_need_reply unit" for mac p i d ud ok sl'
    by (rule send_slices_never) (simp_all add: assms)
  have "[0..<4] = [0, 1, 2, 3 :: nat]" by (simp add: upt_rec)
  then have known: "mac_known mac \<Longrightarrow> find_gateway arp [0..<4] mac = (True, mac)" for arp mac by simp
  show ?thesis
  proof (cases "GetProtocalParam (dt_proto_params s) (default_param (de_tick e)) (sb_dstaddr b) (ucast (sb_dstport b))")
    case (Pair found p)
    have found: "found" if "peer_params (dt_proto_params s) (sb_dstaddr b, ucast (sb_dstport b)) \<noteq> None"
      using Pair that by (auto simp: GetProtocalParam_def peer_params_def)
    obtain ok mac where gw: "find_gateway (\<lambda>i. de_arp e i (if pp_field_40 p then sb_dstaddr b else pp_dstaddr p)) [0..<4] (dt_gateway_mac s) = (ok, mac)"
      by fastforce
    have ok: "mac_known (dt_gateway_mac s) \<Longrightarrow> ok" using known gw by simp
    define r where "r = send_slices e mac p b unit \<lparr>sl_remain = du_totallen unit, sl_sent_times = 0, sl_started = False,
      sl_slicetype = 0, sl_next = sb_next b, sl_data = replicate 1400 0, sl_udp = dt_udp s, sl_waits = waits, sl_sent = []\<rparr>"
    have r: "r = Some (ok', sl') \<Longrightarrow> \<not> ok' \<and> du_need_reply unit" for ok' sl' unfolding r_def by (rule never)
    have "DoSendPacket e b unit waits s = (if \<not> found then Some (False, b, s, [], waits)
        else if \<not> ok then Some (False, b, s\<lparr>dt_gateway_mac := mac\<rparr>, [], waits)
        else map_option (\<lambda>(ok, sl). (ok, b\<lparr>sb_next := sl_next sl\<rparr>, s\<lparr>dt_gateway_mac := mac, dt_udp := sl_udp sl\<rparr>, sl_sent sl, sl_waits sl)) r)"
      using Pair gw by (cases found) (simp_all add: DoSendPacket_def Let_def r_def)
    with found ok r show ?thesis by (cases r) auto
  qed
qed


definition unit_example :: tagDataSendUnit where
  "unit_example = \<lparr>du_id = 1, du_msg = replicate 8 7, du_totallen = 8, du_ret = None, du_need_reply = False, du_session_id = 1\<rparr>"

definition sender_example :: tagSenderBind where
  "sender_example = \<lparr>sb_id = 1, sb_srcaddr = 0, sb_srcport = 0, sb_dstaddr = 0, sb_dstport = 0, sb_next = 1\<rparr>"

definition dir_env_example :: "u64 dir_env" where
  "dir_env_example = \<lparr>de_tick = 0, de_mac = replicate 6 0, de_fresh_text = replicate 33 0, de_fresh = (\<lambda>_. 0xCD), de_slack = 16,
     de_keys = \<lparr>KnL = [], KnR = [], Kn3 = []\<rparr>, de_arp = (\<lambda>i ip mac. mac), de_heartbeat_flags = 0, de_vz = vz_env_blank, de_table = [],
     de_chal = []\<rparr>"

definition dir_example :: dir_tran_thread where
  "dir_example = \<lparr>dt_running = True, dt_send_bind = [sender_example], dt_data_send = [], dt_proto_params = [default_param 0],
     dt_next_alloc = 2, dt_ret_para = [], dt_gateway_mac = [1, 2, 3, 4, 5, 6], dt_next_session = 1, dt_live = [], dt_udp = thread_example\<rparr>"

theorem last_slice_overruns_witness:
  "DoSendPacket dir_env_example sender_example unit_example [] dir_example = None"
proof -
  have "(0, 0) = pp_key (default_param 0)" by (simp add: pp_key_def default_param_def)
  then have "peer_params (dt_proto_params dir_example) (sb_dstaddr sender_example, ucast (sb_dstport sender_example)) \<noteq> None"
    by (simp add: peer_params_def dir_example_def sender_example_def)
  moreover have "mac_known (dt_gateway_mac dir_example)" by (auto simp: dir_example_def mac_known_def dest: arg_cong [of _ _ "\<lambda>l. l ! 1"])
  moreover have "du_totallen unit_example \<noteq> 0" "\<not> du_need_reply unit_example" by (simp_all add: unit_example_def)
  ultimately show ?thesis
    using last_slice_overruns [of unit_example dir_env_example sender_example "[]" dir_example] by blast
qed

text \<open>
  What the threads that use the object do with it, in the order of its mutexes. A result is named when
  it is allocated, and keeps its name while anything refers to it. The wait of a call can end at any
  time, whether its unit is still in the queue or not: \<open>WaitForSingleObject\<close> returns 0 after a wakeup
  without a signal, and \<open>EBUSY\<close> when it cannot take the mutex, besides its returns after a signal and
  after a late one. The call then frees its result or, \<open>timed_out\<close>, leaves it to \<open>ClearRetPara\<close>.
  A step is a whole call; a wait that ends without a signal between the write of its result and its event
  counts as one that ended before the write, since the event is freed with the result.
\<close>

definition queue_handles :: "tagDataSendUnit list \<Rightarrow> nat list" where
  "queue_handles units = concat (map (\<lambda>u. case du_ret u of None \<Rightarrow> [] | Some h \<Rightarrow> [h]) units)"

definition dir_init :: "udp_thread \<Rightarrow> dir_tran_thread" where
  "dir_init udp = \<lparr>dt_running = False, dt_send_bind = [], dt_data_send = [], dt_proto_params = [], dt_next_alloc = 1, dt_ret_para = [],
     dt_gateway_mac = replicate 6 0xFF, dt_next_session = 1, dt_live = [], dt_udp = udp\<rparr>"

inductive dir_step :: "dir_tran_thread \<Rightarrow> dir_action list \<Rightarrow> dir_tran_thread \<Rightarrow> bool" where
  opened: "GSNSender a1 p1 a2 p2 s = (i, s') \<Longrightarrow> dir_step s [Opened i] s'"
| closed: "CloseGSNSender quick i s = Some (s', acts) \<Longrightarrow> dir_step s acts s'"
| started: "dir_step s [] (StartRun s)"
| stopped: "StopRun s = Some (s', acts) \<Longrightarrow> dir_step s acts s'"
| params: "dir_step s [] (dir_SetDirParaXieYi p s)"
| time: "dir_step s [] (snd (dir_SetProtocalParam_TimeStamp addr port utc stamp s))"
| retry: "dir_step s [] (s\<lparr>dt_proto_params := snd (SetReTranPara (dt_proto_params s) addr port n timeout)\<rparr>)"
| posted: "postMessage (e :: u64 dir_env) i buf n s = Some (r, s') \<Longrightarrow> dir_step s [] s'"
| packet: "PostPacketNoResponse (e :: u64 dir_env) i buf n s = Some (r, s') \<Longrightarrow> dir_step s [] s'"
| heartbeat: "PostPacketSAMHeartbeatNoResponse (e :: u64 dir_env) i buf n s = Some (r, s') \<Longrightarrow> dir_step s [] s'"
| message: "sendMessage (e :: u64 dir_env) h i buf n s = Some (r, s') \<Longrightarrow>
    h \<notin> set (dt_live s) \<Longrightarrow> h \<notin> set (queue_handles (dt_data_send s)) \<Longrightarrow> dir_step s [] s'"
| request: "SendPacketNoResponse (e :: u64 dir_env) h i buf n s = Some (r, s') \<Longrightarrow>
    h \<notin> set (dt_live s) \<Longrightarrow> h \<notin> set (queue_handles (dt_data_send s)) \<Longrightarrow> dir_step s [] s'"
| waited: "h \<in> set (dt_live s) \<Longrightarrow> h \<notin> set (dt_ret_para s) \<Longrightarrow> dir_step s [] (snd (wait_ended timed_out h s))"
| worked: "OnTransPacket (e :: u64 dir_env) waits s = Some (s', acts) \<Longrightarrow> dir_step s acts s'"

abbreviation dir_run :: "dir_tran_thread \<Rightarrow> dir_action list \<Rightarrow> dir_tran_thread \<Rightarrow> bool" where
  "dir_run \<equiv> steps dir_step"

text \<open>
  No identifier is -1, and the results that are left to \<open>ClearRetPara\<close> are allocated. Those of the
  queue need not be.
\<close>

definition dir_ok :: "dir_tran_thread \<Rightarrow> bool" where
  "dir_ok s \<longleftrightarrow> (\<forall>b \<in> set (dt_send_bind s). sb_id b \<noteq> -1) \<and> (\<forall>u \<in> set (dt_data_send s). du_id u \<noteq> -1) \<and>
     set (dt_ret_para s) \<subseteq> set (dt_live s) \<and> distinct (dt_ret_para s)"

lemma queue_handles_simps [simp]:
  "queue_handles [] = []"
  "queue_handles (u # us) = (case du_ret u of None \<Rightarrow> [] | Some h \<Rightarrow> [h]) @ queue_handles us"
  "queue_handles (us @ vs) = queue_handles us @ queue_handles vs"
  by (simp_all add: queue_handles_def)

lemma answer_simp: "answer live v u = (if set (case du_ret u of None \<Rightarrow> [] | Some h \<Rightarrow> [h]) \<subseteq> set live
    then Some (map (\<lambda>h. Answered h v) (case du_ret u of None \<Rightarrow> [] | Some h \<Rightarrow> [h])) else None)"
  by (simp add: answer_def split: option.split)

lemma answer_all_live:
  "answer_all live us = (if set (queue_handles us) \<subseteq> set live then Some (map (\<lambda>h. Answered h 0) (queue_handles us)) else None)"
  by (induction us) (auto simp: answer_simp)

lemma answer_all_answers: "answer_all live us = Some acts \<Longrightarrow> a \<in> set acts \<Longrightarrow> \<exists>h. a = Answered h 0"
  by (auto simp: answer_all_live split: if_splits)

lemma ClearRetPara_live:
  "distinct hs \<Longrightarrow> set hs \<subseteq> set live \<Longrightarrow> ClearRetPara live hs = Some (filter (\<lambda>h. h \<notin> set hs) live)"
proof (induction hs arbitrary: live)
  case (Cons h hs)
  then have "ClearRetPara (removeAll h live) hs = Some (filter (\<lambda>x. x \<notin> set hs) (removeAll h live))"
    by (intro Cons.IH) auto
  then show ?case using Cons.prems by (simp add: removeAll_filter_not_eq conj_commute) metis
qed simp

text \<open>The results that are allocated and nobody's to free.\<close>

definition kept :: "dir_tran_thread \<Rightarrow> nat list" where
  "kept s = filter (\<lambda>h. h \<notin> set (dt_ret_para s)) (dt_live s)"

lemma clear_ret_para_ok: "dir_ok s \<Longrightarrow> clear_ret_para s = Some (s\<lparr>dt_live := kept s, dt_ret_para := []\<rparr>)"
  by (simp add: clear_ret_para_def dir_ok_def ClearRetPara_live kept_def)

lemma CloseAllGSNSender_ok:
  assumes "dir_ok s" and "CloseAllGSNSender s = Some (s', acts)"
  shows "dir_ok s' \<and> acts = map (\<lambda>h. Answered h 0) (queue_handles (dt_data_send s))"
proof -
  have "dir_ok (s\<lparr>dt_data_send := [], dt_send_bind := []\<rparr>)" using assms(1) by (simp add: dir_ok_def)
  from clear_ret_para_ok [OF this] show ?thesis
    using assms by (auto simp: CloseAllGSNSender_def answer_all_live dir_ok_def split: if_splits)
qed

lemma trans_loop_drops:
  assumes "\<forall>u \<in> set units. du_id u \<noteq> -1" and "sb_id b = -1"
  shows "trans_loop e units waits (b, False) s = (if set (queue_handles units) \<subseteq> set (dt_live s)
    then Some (s\<lparr>dt_data_send := []\<rparr>, map (\<lambda>h. Answered h 0) (queue_handles units)) else None)"
  using assms(1)
proof (induction units)
  case (Cons u us)
  have "search_sender (dt_send_bind s) u (b, False) = (b, False)"
    using Cons.prems(1) assms(2) by (auto simp: search_sender_def split: list.split)
  then show ?case using Cons by (simp add: answer_simp)
qed simp

lemma OnTransPacket_drops:
  assumes "dir_ok s"
  shows "if set (queue_handles (dt_data_send s)) \<subseteq> set (kept s)
    then \<exists>s'. OnTransPacket e waits s = Some (s', map (\<lambda>h. Answered h 0) (queue_handles (dt_data_send s))) \<and> dt_data_send s' = [] \<and> dir_ok s'
    else OnTransPacket e waits s = None"
proof (cases "dt_running s")
  case True
  then show ?thesis
    using assms clear_ret_para_ok [OF assms] by (simp add: OnTransPacket_def dir_ok_def trans_loop_drops)
next
  case False
  then have run: "OnTransPacket e waits s = CloseAllGSNSender (s\<lparr>dt_live := kept s, dt_ret_para := []\<rparr>)"
    using clear_ret_para_ok [OF assms] by (simp add: OnTransPacket_def)
  show ?thesis
    using assms unfolding run
    by (simp add: CloseAllGSNSender_def answer_all_live clear_ret_para_def dir_ok_def)
qed

lemma queue_unit_ok:
  assumes "queue_unit e s i n message reply ret = Some (r, s')" and "dir_ok s"
  shows "dir_ok s'"
proof -
  have i: "i \<noteq> -1" if "find (\<lambda>b. sb_id b = i) (dt_send_bind s) = Some b" for b
    using assms(2) find_key [OF that] that by (auto simp: dir_ok_def find_Some_iff)
  show ?thesis
    using assms i by (auto simp: queue_unit_def GetProtocalParamFromSenderHand_def dir_ok_def split: bind_splits option.splits prod.splits bool.splits)
qed

lemma dir_step_ok:
  assumes "dir_step s acts s'" and "dir_ok s" and "Opened (-1) \<notin> set acts"
  shows "dir_ok s' \<and> (\<forall>p. Transmitted p \<notin> set acts)"
  using assms
proof cases
  case (opened a1 p1 a2 p2 i)
  then show ?thesis using assms by (auto simp: GSNSender_def dir_ok_def)
next
  case (closed quick i)
  then show ?thesis using assms(2) by (auto simp: CloseGSNSender_def dir_ok_def dest: answer_all_answers split: bind_splits)
next
  case stopped
  have "dir_ok (s\<lparr>dt_running := False, dt_udp := (dt_udp s)\<lparr>ut_working_falg := False\<rparr>\<rparr>)" using assms(2) by (simp add: dir_ok_def)
  then show ?thesis using stopped assms(2) CloseAllGSNSender_ok by (fastforce simp: StopRun_def split: if_splits)
next
  case (worked e waits)
  then show ?thesis using OnTransPacket_drops [OF assms(2), of e waits] by (auto split: if_splits)
next
  case (posted e i buf n r)
  then show ?thesis by (auto simp: postMessage_def intro: queue_unit_ok [OF _ assms(2)])
next
  case (packet e i buf n r)
  then show ?thesis by (auto simp: PostPacketNoResponse_def intro: queue_unit_ok [OF _ assms(2)])
next
  case (heartbeat e i buf n r)
  then show ?thesis by (auto simp: PostPacketSAMHeartbeatNoResponse_def split: if_splits intro: queue_unit_ok [OF _ assms(2)])
next
  case (message e h i buf n r)
  then show ?thesis by (auto simp: sendMessage_def intro: queue_unit_ok [OF _ assms(2)])
next
  case (request e h i buf n r)
  then show ?thesis by (auto simp: SendPacketNoResponse_def intro: queue_unit_ok [OF _ assms(2)])
next
  case (waited h timed_out)
  then show ?thesis using assms(2) by (cases timed_out) (auto simp: wait_ended_def dir_ok_def)
qed (use assms(2) in \<open>simp_all add: StartRun_def dir_SetDirParaXieYi_def dir_SetProtocalParam_TimeStamp_def dir_ok_def split: prod.split\<close>)

text \<open>
  C13: nothing is ever sent: whatever the threads do with the object, no packet leaves it, because the
  search for the sender of a message compares the wrong identifier. In every state they reach,
  \<open>OnTransPacket\<close> drops the whole queue and answers everybody who waits once, with 0, if the results of
  the queue are still allocated, none of them left to \<open>ClearRetPara\<close>; and if a call has gone on before
  its unit was handled, after a wakeup without a signal or without the mutex, it writes to freed memory.
  (An identifier -1 would take as many calls of \<open>GSNSender\<close> as there are numbers.)
\<close>

theorem messages_never_sent:
  assumes "dir_run (dir_init udp) acts s" and "Opened (-1) \<notin> set acts"
  shows "(\<forall>p. Transmitted p \<notin> set acts) \<and>
    (if \<forall>h \<in> set (queue_handles (dt_data_send s)). h \<in> set (dt_live s) \<and> h \<notin> set (dt_ret_para s)
     then \<exists>s'. OnTransPacket e waits s = Some (s', map (\<lambda>h. Answered h 0) (queue_handles (dt_data_send s))) \<and> dt_data_send s' = []
     else OnTransPacket e waits s = None)"
proof -
  have init: "dir_ok (dir_init udp)" by (simp add: dir_ok_def dir_init_def)
  have acts: "list_all (\<lambda>a. a \<noteq> Opened (-1)) acts" using assms(2) by (auto simp: list_all_iff)
  have keep: "dir_ok s' \<and> list_all (\<lambda>a. \<forall>p. a \<noteq> Transmitted p) as"
    if "dir_step s as s'" "dir_ok s" "list_all (\<lambda>a. a \<noteq> Opened (-1)) as" for s as s'
  proof -
    have "Opened (-1) \<notin> set as" using that(3) by (auto simp: list_all_iff)
    from dir_step_ok [OF that(1,2) this] show ?thesis by (auto simp: list_all_iff)
  qed
  have "dir_ok s \<and> list_all (\<lambda>a. \<forall>p. a \<noteq> Transmitted p) acts"
    by (rule steps_invariant [where R = dir_step and I = dir_ok and P = "\<lambda>a. a \<noteq> Opened (-1)", OF assms(1) keep init acts])
  then have "dir_ok s" "\<forall>p. Transmitted p \<notin> set acts" by (auto simp: list_all_iff)
  then show ?thesis using OnTransPacket_drops [of s e waits] by (auto simp: kept_def split: if_splits)
qed

text \<open>A message that is queued and dropped, and the same message after a wakeup without a signal.\<close>

theorem messages_never_sent_witness:
  "\<exists>s s'. dir_run (dir_init thread_example) [Opened 1] s \<and> queue_handles (dt_data_send s) = [5] \<and>
     (\<exists>s''. OnTransPacket dir_env_example [] s = Some (s'', [Answered 5 0]) \<and> dt_data_send s'' = []) \<and>
     dir_run (dir_init thread_example) [Opened 1] s' \<and> queue_handles (dt_data_send s') = [5] \<and>
     OnTransPacket dir_env_example [] s' = None"
proof -
  define s1 where "s1 = dir_SetDirParaXieYi (default_param 0) (dir_init thread_example)"
  define s2 where "s2 = snd (GSNSender 0 0 0 0 s1)"
  have s2: "dt_live s2 = []" "dt_ret_para s2 = []" "dt_data_send s2 = []"
    by (simp_all add: s2_def s1_def GSNSender_def dir_SetDirParaXieYi_def dir_init_def)
  have "(0, 0) = pp_key (default_param 0)" by (simp add: pp_key_def default_param_def)
  then have param: "GetProtocalParamFromSenderHand s2 (default_param 0) 1 = (True, (default_param 0)\<lparr>pp_addr := 0\<rparr>)"
    by (simp add: s2_def s1_def GSNSender_def dir_SetDirParaXieYi_def dir_init_def GetProtocalParamFromSenderHand_def GetProtocalParam_def
        set_proto_param_def)
  have n: "round_up_8 8 = 8" "de_tick dir_env_example = 0" by (simp_all add: round_up_8_def dir_env_example_def)
  have "\<exists>s3. sendMessage dir_env_example 5 1 (replicate 8 7) 8 s2 = Some (True, s3) \<and> queue_handles (dt_data_send s3) = [5] \<and>
      dt_live s3 = [5] \<and> dt_ret_para s3 = []"
    using param s2
    by (simp add: sendMessage_def queue_unit_def n copy_in_def read_at_def store_at_def memcpy_def EncryptPrivateData_def SetIVBuf_def CSuDES_new_def)
  then obtain s3 where s3: "sendMessage dir_env_example 5 1 (replicate 8 7) 8 s2 = Some (True, s3)" "queue_handles (dt_data_send s3) = [5]"
      "dt_live s3 = [5]" "dt_ret_para s3 = []"
    by blast
  define s4 where "s4 = snd (wait_ended False 5 s3)"
  have opened: "GSNSender 0 0 0 0 s1 = (1, s2)"
    by (simp add: s2_def GSNSender_def s1_def dir_SetDirParaXieYi_def dir_init_def)
  have fresh: "(5 :: nat) \<notin> set (dt_live s2)" "(5 :: nat) \<notin> set (queue_handles (dt_data_send s2))" by (simp_all add: s2)
  have "dir_run (dir_init thread_example) [] s1" unfolding s1_def by (intro steps_one dir_step.params)
  then have "dir_run (dir_init thread_example) [Opened 1] s2" by (rule steps_more [where R = dir_step, OF _ dir_step.opened [OF opened]]) simp
  then have run3: "dir_run (dir_init thread_example) [Opened 1] s3"
    by (rule steps_more [where R = dir_step, OF _ dir_step.message [OF s3(1) fresh]]) simp
  have "dir_step s3 [] s4" unfolding s4_def by (rule dir_step.waited) (simp_all add: s3)
  with run3 have run4: "dir_run (dir_init thread_example) [Opened 1] s4" by (rule steps_more [where R = dir_step]) simp
  have s4: "queue_handles (dt_data_send s4) = [5]" "dt_live s4 = []" using s3 by (simp_all add: s4_def wait_ended_def)
  show ?thesis
    using messages_never_sent [OF run3, of dir_env_example "[]"] messages_never_sent [OF run4, of dir_env_example "[]"] s3 s4 run3 run4
    by (intro exI [of _ s3] exI [of _ s4]) simp
qed

lemma unat_round_up_8: "n < 2 ^ 32 - 8 \<Longrightarrow> unat (round_up_8 (of_nat n)) = 8 * ((n + 7) div 8)"
proof -
  assume n: "n < 2 ^ 32 - 8"
  then have u: "unat (of_nat n :: u32) = n" by (simp add: unat_of_nat_small)
  have "unat (of_nat n AND 7 :: u32) = n mod 8"
    by (simp only: mask_simps unsigned_take_bit_eq u) (simp add: take_bit_eq_mod)
  then have odd: "(of_nat n AND 7 :: u32) \<noteq> 0 \<longleftrightarrow> n mod 8 \<noteq> 0" by (metis unat_eq_zero)
  have "unat (drop_bit 3 (of_nat n :: u32)) = n div 8" by (simp only: unat_drop_bit u) simp
  then have q: "drop_bit 3 (of_nat n :: u32) = of_nat (n div 8)" by (metis of_nat_unat ucast_id)
  have "(8 * q + r + 7) div 8 = q + (if r \<noteq> 0 then 1 else 0)" if "r < 8" for q r :: nat
    using that by (intro div_nat_eqI) auto
  from this [of "n mod 8" "n div 8"] have m: "(n + 7) div 8 = n div 8 + (if n mod 8 \<noteq> 0 then 1 else 0)" by simp
  have "round_up_8 (of_nat n) = of_nat (8 * ((n + 7) div 8))"
    by (simp add: round_up_8_def q odd m push_bit_eq_mult)
  moreover have "unat (of_nat (8 * ((n + 7) div 8)) :: u32) = 8 * ((n + 7) div 8)" using n by (intro unat_of_nat_small) simp
  ultimately show ?thesis by simp
qed

lemma EncryptPrivateData_False: "buflen \<noteq> 0 \<Longrightarrow> EncryptPrivateData iv key st buf buflen = Some (False, buf, st)"
  by (simp add: EncryptPrivateData_def CSuDES_new_def SetIVBuf_def)

text \<open>
  Messages are queued in the clear: the encryption gives up before it starts, and its result is not
  looked at, so that the bytes of a message wait as they are, with what the memory held up to the next
  multiple of eight; \<open>SendPacketNoResponse\<close> reads up to seven bytes behind the message.
\<close>

theorem messages_in_clear:
  assumes "find (\<lambda>b. sb_id b = i) (dt_send_bind s) = Some b" and "peer_params (dt_proto_params s) (sb_dstaddr b, ucast (sb_dstport b)) \<noteq> None"
    and "buf \<noteq> []" and "length buf < 2 ^ 32 - 8"
  defines "n \<equiv> 8 * ((length buf + 7) div 8)"
  shows "(\<exists>s'. PostPacketNoResponse e i buf (of_nat (length buf)) s = Some (True, s') \<and> dt_data_send s' = dt_data_send s @
      [\<lparr>du_id = i, du_msg = buf @ map (de_fresh e) [length buf..<n], du_totallen = of_nat n, du_ret = None, du_need_reply = False,
        du_session_id = dt_next_session s\<rparr>]) \<and>
    (length buf mod 8 \<noteq> 0 \<longrightarrow> SendPacketNoResponse e h i buf (of_nat (length buf)) s = None)"
proof -
  have up: "unat (round_up_8 (of_nat (length buf))) = n" unfolding n_def using assms(4) by (rule unat_round_up_8)
  then have up': "round_up_8 (of_nat (length buf)) = of_nat n" by (metis of_nat_unat ucast_id)
  have u: "unat (of_nat (length buf) :: u32) = length buf" using assms(4) by (simp add: unat_of_nat_small)
  have le: "length buf \<le> n" unfolding n_def by (simp add: le_div_geq) 
  have pos: "n \<noteq> 0" using le assms(3) by (cases buf) auto
  obtain p where p: "GetProtocalParamFromSenderHand s (default_param (de_tick e)) i = (True, p)"
    using assms(1,2) by (auto simp: GetProtocalParamFromSenderHand_def GetProtocalParam_def peer_params_def)
  have "copy_in buf (of_nat (length buf)) (map (de_fresh e) [0..<n]) = Some (buf @ map (de_fresh e) [length buf..<n])"
    using le by (simp add: copy_in_def read_at_def u store_at_def memcpy_def drop_map)
  then have post: "\<exists>s'. PostPacketNoResponse e i buf (of_nat (length buf)) s = Some (True, s') \<and> dt_data_send s' = dt_data_send s @
      [\<lparr>du_id = i, du_msg = buf @ map (de_fresh e) [length buf..<n], du_totallen = of_nat n, du_ret = None, du_need_reply = False,
        du_session_id = dt_next_session s\<rparr>]"
    using pos by (simp add: PostPacketNoResponse_def queue_unit_def p up EncryptPrivateData_False) (simp add: up')
  have "length buf < n" if "length buf mod 8 \<noteq> 0"
    using that le unfolding n_def by (metis le_neq_implies_less mod_mult_self1_is_0)
  then have "SendPacketNoResponse e h i buf (of_nat (length buf)) s = None" if "length buf mod 8 \<noteq> 0"
    using that by (simp add: SendPacketNoResponse_def queue_unit_def p copy_in_def read_at_def up)
  with post show ?thesis by blast
qed

theorem messages_in_clear_witness:
  "\<exists>s'. PostPacketNoResponse dir_env_example 1 [0x61] 1 dir_example = Some (True, s') \<and>
     map du_msg (dt_data_send s') = [[0x61, 0xCD, 0xCD, 0xCD, 0xCD, 0xCD, 0xCD, 0xCD]]"
proof -
  have "(0, 0) = pp_key (default_param 0)" by (simp add: pp_key_def default_param_def)
  then have "peer_params (dt_proto_params dir_example) (sb_dstaddr sender_example, ucast (sb_dstport sender_example)) \<noteq> None"
    by (simp add: peer_params_def dir_example_def sender_example_def)
  moreover have "find (\<lambda>b. sb_id b = 1) (dt_send_bind dir_example) = Some sender_example"
    by (simp add: dir_example_def sender_example_def)
  moreover have "map (de_fresh dir_env_example) [1..<8] = [0xCD, 0xCD, 0xCD, 0xCD, 0xCD, 0xCD, 0xCD]"
    by (simp add: dir_env_example_def upt_rec)
  moreover have "dt_data_send dir_example = []" by (simp add: dir_example_def)
  ultimately show ?thesis
    using messages_in_clear [of 1 dir_example sender_example "[0x61]" dir_env_example 0] by auto
qed

end
