(* ===== verification/Hello_Thread.thy ===== *)
theory Hello_Thread
  imports Lnx_Timer Text_Codec Wire
begin

text \<open>
  The heartbeat to the switch, \<open>tuanzi/src/hellothread.cpp\<close>: the thread with its timer (\<open>Lnx_Timer\<close>), the
  numbers of the heartbeats and the packet. \<open>e_pHelloID\<close> is global, and so a part of the state; \<open>None\<close> is
  a call that waits forever for a mutex.
\<close>

record hello_thread =
  ht_interval :: u32
  ht_para :: u32
  ht_timerid :: nat
  ht_offset :: u32
  ht_field_1F0 :: u32
  ht_ids :: "u32 list"
  ht_timers :: timer_service

text \<open>
  What a call finds outside: the addresses, the memory of a new packet, the timer functions, whether
  the threads that send are there, and whether a message can be posted.
\<close>

record hello_env =
  he_dst :: "byte list"
  he_mac :: "byte list"
  he_fresh :: "nat \<Rightarrow> byte"
  he_os :: os_timer
  he_threads :: bool
  he_post_ok :: bool

definition HELLO_TIMER_MTYPE :: int where "HELLO_TIMER_MTYPE = 0x70"

text \<open>\<open>memset\<close> fills the bytes of the identifiers.\<close>

definition cleared_ids :: "u32 list" where
  "cleared_ids = replicate 16 0x74747474"

definition hello_InitInstance :: "u32 \<Rightarrow> hello_thread \<Rightarrow> hello_thread" where
  "hello_InitInstance rand s = s\<lparr>ht_field_1F0 := rand mod 0x1001 + 0x1001, ht_ids := cleared_ids\<rparr>"

definition GetCurCRCID :: "hello_thread \<Rightarrow> u32 \<times> hello_thread" where
  "GetCurCRCID s =
     (let ident = ht_ids s ! unat (ht_offset s);
          s = (if ident = 0x74 then s else s\<lparr>ht_ids := map (\<lambda>i. if i = 0x74 then ident else i) (ht_ids s)\<rparr>)
      in (ht_field_1F0 s + 1, s\<lparr>ht_field_1F0 := ht_field_1F0 s + 1\<rparr>))"

text \<open>The packet; its members \<open>type\<close>, \<open>data\<close>, \<open>field_8\<close> (twice) and \<open>field_2C\<close> are not set.\<close>

definition CreateHelloPacket :: "hello_env \<Rightarrow> hello_thread \<Rightarrow> byte list \<times> hello_thread" where
  "CreateHelloPacket e s =
     (let (cur_crcid, s) = GetCurCRCID s;
          field_4 = ht_para s + cur_crcid;
          field_4' = cur_crcid + 0x74 - ht_ids s ! unat (ht_offset s);
          s = s\<lparr>ht_offset := (ht_offset s + 1) AND 15\<rparr>
      in (he_dst e @ he_mac e @ [0x88, 0x8E, 1, 0xBF] @ bytes_le16 (htons (45 - 15)) @
          encode ([he_fresh e 18, he_fresh e 19] @ bytes_le32 0x6011113 @ bytes_le32 (bswap_32 field_4) @ [he_fresh e 28, he_fresh e 29] @
            bytes_le32 0x6011113 @ bytes_le32 (bswap_32 field_4') @ [he_fresh e 38, he_fresh e 39] @
            bytes_le32 0x3011113 @ [he_fresh e 44]), s))"

text \<open>The handler of the timer; the list has the packet that is handed on, if any.\<close>

definition OnHelloTimer :: "hello_env \<Rightarrow> int \<Rightarrow> hello_thread \<Rightarrow> hello_thread \<times> byte list list" where
  "OnHelloTimer e tflag s =
     (let (packet, s) = CreateHelloPacket e s
      in (s\<lparr>ht_timers := OnTimerLeave (ht_timers s) tflag\<rparr>, if he_threads e \<and> he_post_ok e then [packet] else []))"

definition hello_OnTimer :: "hello_env \<Rightarrow> int \<Rightarrow> hello_thread \<Rightarrow> hello_thread \<times> bool" where
  "hello_OnTimer e tflag s =
     (let (ts, entered) = OnTimerEnter (ht_timers s) tflag;
          post = (entered \<and> tflag = HELLO_TIMER_MTYPE)
      in (s\<lparr>ht_timers := (if post \<and> \<not> he_post_ok e then OnTimerLeave ts HELLO_TIMER_MTYPE else ts)\<rparr>, post \<and> he_post_ok e))"

definition CreateHelloTimer :: "hello_env \<Rightarrow> u32 \<Rightarrow> hello_thread \<Rightarrow> (hello_thread \<times> byte list list) option" where
  "CreateHelloTimer e interval s = do {
     let s = s\<lparr>ht_ids := cleared_ids\<rparr>;
     s \<leftarrow> (if ht_timerid s \<noteq> 0
       then (if interval \<noteq> 0
         then map_option (\<lambda>(_, ts, timerid). s\<lparr>ht_interval := interval, ht_timers := ts, ht_timerid := timerid\<rparr>)
                (KillTimer (he_os e) (ht_timers s) (ht_timerid s))
         else Some s)
       else Some (s\<lparr>ht_interval := interval\<rparr>));
     let (ts, timerid) = SetTimer (he_os e) (ht_timers s) HELLO_TIMER_MTYPE (sint (ht_interval s));
     Some (OnHelloTimer e HELLO_TIMER_MTYPE (s\<lparr>ht_timers := ts, ht_timerid := timerid\<rparr>))
   }"

text \<open>\<open>OnChangeHelloPara\<close> takes both parameters from its first argument.\<close>

definition OnChangeHelloPara :: "hello_env \<Rightarrow> u32 \<Rightarrow> u32 \<Rightarrow> hello_thread \<Rightarrow> (hello_thread \<times> byte list list) option" where
  "OnChangeHelloPara e arg1 arg2 s =
     CreateHelloTimer e arg1 (if arg1 \<noteq> 0 then s\<lparr>ht_para := arg1\<rparr> else s)"

definition OnSetHelloTimerPlease :: "hello_env \<Rightarrow> hello_thread \<Rightarrow> (hello_thread \<times> byte list list) option" where
  "OnSetHelloTimerPlease e s = CreateHelloTimer e (ht_interval s) s"

text \<open>A thread as \<open>CHelloProcessor::ProcessorRun\<close> (\<open>helloprocessor.cpp\<close>) starts it.\<close>

definition hello_started :: "u32 \<Rightarrow> u32 \<Rightarrow> u32 \<Rightarrow> hello_thread" where
  "hello_started rand hello_timer_interval hello_para = hello_InitInstance rand
     \<lparr>ht_interval = hello_timer_interval, ht_para = hello_para, ht_timerid = 0, ht_offset = 0, ht_field_1F0 = 0, ht_ids = replicate 16 0,
      ht_timers = \<lparr>ts_timers = [], ts_locked = False, ts_next = 1\<rparr>\<rparr>"

subsection \<open>Heartbeats\<close>

fun hello_beats :: "hello_env \<Rightarrow> nat \<Rightarrow> hello_thread \<Rightarrow> hello_thread \<times> byte list list" where
  "hello_beats e 0 s = (s, [])"
| "hello_beats e (Suc n) s =
     (let (s, sent) = OnHelloTimer e HELLO_TIMER_MTYPE s; (s, more) = hello_beats e n s in (s, sent @ more))"

text \<open>What the receiver finds: the part behind the length, with the mask undone, has two numbers.\<close>

definition hello_numbers :: "byte list \<Rightarrow> (u32 \<times> u32) option" where
  "hello_numbers packet = do {
     field_14 \<leftarrow> be32_at (decode (drop 18 packet)) 6;
     field_1E \<leftarrow> be32_at (decode (drop 18 packet)) 16;
     Some (field_14, field_1E)
   }"

lemma CreateHelloPacket_numbers:
  assumes "length (he_dst e) = 6" and "length (he_mac e) = 6" and "CreateHelloPacket e s = (packet, s')"
    and "ht_ids s = cleared_ids" and "ht_offset s < 16"
  shows "length packet = 45 \<and> hello_numbers packet = Some (ht_para s + ht_field_1F0 s + 1, ht_field_1F0 s + 1 + 0x74 - 0x74747474) \<and>
    ht_ids s' = cleared_ids \<and> ht_para s' = ht_para s \<and> ht_field_1F0 s' = ht_field_1F0 s + 1 \<and> ht_offset s' = (ht_offset s + 1) AND 15 \<and>
    ht_timers s' = ht_timers s"
proof -
  have off: "unat (ht_offset s) < 16" using assms(5) by (simp add: word_less_nat_alt)
  then have at: "cleared_ids ! unat (ht_offset s) = 0x74747474" by (simp add: cleared_ids_def)
  have same: "map (\<lambda>i. if i = 0x74 then v else i) cleared_ids = cleared_ids" for v by (simp add: cleared_ids_def)
  define a where "a = [he_fresh e 18, he_fresh e 19] @ bytes_le32 0x6011113"
  define b where "b = [he_fresh e 28, he_fresh e 29] @ bytes_le32 0x6011113"
  define c where "c = [he_fresh e 38, he_fresh e 39] @ bytes_le32 0x3011113 @ [he_fresh e 44]"
  define x where "x = ht_para s + ht_field_1F0 s + 1"
  define y where "y = ht_field_1F0 s + 1 + 0x74 - 0x74747474"
  have len: "length a = 6" "length b = 6" "length c = 7" by (simp_all add: a_def b_def c_def len_simps)
  have crc: "GetCurCRCID s = (ht_field_1F0 s + 1, s\<lparr>ht_field_1F0 := ht_field_1F0 s + 1\<rparr>)"
    using assms(4) same by (cases s) (simp add: GetCurCRCID_def Let_def at)
  have packet: "packet = (he_dst e @ he_mac e @ [0x88, 0x8E, 1, 0xBF] @ bytes_le16 (htons (45 - 15))) @
      encode (a @ bytes_be32 x @ b @ bytes_be32 y @ c)" and s': "s' = s\<lparr>ht_field_1F0 := ht_field_1F0 s + 1, ht_offset := (ht_offset s + 1) AND 15\<rparr>"
    using assms(3,4) at by (auto simp: CreateHelloPacket_def crc bytes_le32_bswap_32 a_def b_def c_def x_def y_def add.assoc)
  have "decode (drop 18 packet) = a @ bytes_be32 x @ b @ bytes_be32 y @ c"
    using assms(1,2) decode_encode by (simp add: packet len_simps)
  moreover have "be32_at (a @ bytes_be32 x @ (b @ bytes_be32 y @ c)) 6 = Some x" using len by (intro be32_at_mid) simp
  moreover have "be32_at ((a @ bytes_be32 x @ b) @ bytes_be32 y @ c) 16 = Some y" using len by (intro be32_at_mid) (simp add: len_simps)
  ultimately have "hello_numbers packet = Some (x, y)" by (simp add: hello_numbers_def)
  moreover have "length packet = 45" using assms(1,2) len by (simp add: packet encode_def decode_def len_simps)
  ultimately show ?thesis using assms(4) by (simp add: s' x_def y_def)
qed

lemma offset_cycles: "(o1 :: u32) < 16 \<Longrightarrow> unat ((o1 + 1) AND 15) = (unat o1 + 1) mod 16 \<and> (o1 + 1) AND 15 < 16"
proof -
  assume "o1 < 16"
  then have "unat o1 < 16" by (simp add: word_less_nat_alt)
  then have "unat (o1 + 1) = unat o1 + 1" by (simp add: unat_word_ariths)
  moreover have "unat ((o1 + 1) AND 15) = unat (o1 + 1) mod 16"
    by (simp only: mask_simps unsigned_take_bit_eq) (simp add: take_bit_eq_mod)
  ultimately show ?thesis by (simp add: word_less_nat_alt)
qed

text \<open>
  Heartbeats in a row are numbered in a row: the first number of a packet is the parameter plus the
  counter, and the second is the counter plus a constant, since the identifiers, whose bytes are set and
  not whose words, never equal the marker 0x74. The index of the identifiers stays within its table.
\<close>

theorem heartbeats_numbered:
  assumes "length (he_dst e) = 6" and "length (he_mac e) = 6" and "he_threads e" and "he_post_ok e"
    and "ht_ids s = cleared_ids" and "ht_offset s < 16"
  shows "map hello_numbers (snd (hello_beats e n s)) =
      map (\<lambda>i. Some (ht_para s + ht_field_1F0 s + 1 + of_nat i, ht_field_1F0 s + 1 + of_nat i + 0x74 - 0x74747474)) [0..<n] \<and>
    unat (ht_offset (fst (hello_beats e n s))) = (unat (ht_offset s) + n) mod 16"
  using assms(5,6)
proof (induction n arbitrary: s)
  case 0
  then show ?case by (simp add: word_less_nat_alt)
next
  case (Suc n)
  obtain packet s1 where p: "CreateHelloPacket e s = (packet, s1)" by fastforce
  note h = CreateHelloPacket_numbers [OF assms(1,2) p Suc.prems]
  define s2 where "s2 = s1\<lparr>ht_timers := OnTimerLeave (ht_timers s1) HELLO_TIMER_MTYPE\<rparr>"
  have beats: "hello_beats e (Suc n) s = (fst (hello_beats e n s2), packet # snd (hello_beats e n s2))"
    using assms(3,4) by (simp add: OnHelloTimer_def p s2_def split: prod.split)
  have s2: "ht_ids s2 = cleared_ids" "ht_offset s2 < 16" "ht_para s2 = ht_para s" "ht_field_1F0 s2 = ht_field_1F0 s + 1"
    "unat (ht_offset s2) = (unat (ht_offset s) + 1) mod 16"
    using h offset_cycles [OF Suc.prems(2)] by (simp_all add: s2_def)
  have shift: "map f [0..<Suc n] = f 0 # map (\<lambda>i. f (Suc i)) [0..<n]" for f :: "nat \<Rightarrow> (u32 \<times> u32) option"
    by (simp only: upt_conv_Cons map_Suc_upt [symmetric] list.map map_map comp_def zero_less_Suc)
  then show ?case
    using Suc.IH [OF s2(1,2)] h unfolding shift beats fst_conv snd_conv list.map s2(3,4,5)
    by (simp add: algebra_simps mod_simps)
qed

definition hello_env_example :: hello_env where
  "hello_env_example = \<lparr>he_dst = replicate 6 0xFF, he_mac = replicate 6 1, he_fresh = (\<lambda>_. 0xCD),
     he_os = \<lparr>create_ok = True, settime_ok = True, delete1_ok = True, delete2_ok = True, errno_EINVAL = False\<rparr>,
     he_threads = True, he_post_ok = True\<rparr>"

theorem heartbeats_numbered_witness:
  "map hello_numbers (snd (hello_beats hello_env_example 2 (hello_started 5 30 7))) =
     [Some (0x100E, 0x1007 + 0x74 - 0x74747474), Some (0x100F, 0x1008 + 0x74 - 0x74747474)]"
  using heartbeats_numbered [of hello_env_example "hello_started 5 30 7" 2]
  by (simp add: hello_env_example_def hello_started_def hello_InitInstance_def upt_rec)

subsection \<open>The timer\<close>

lemma OnHelloTimer_frame:
  "OnHelloTimer e tflag s = (s', sent) \<Longrightarrow>
     ht_timers s' = OnTimerLeave (ht_timers s) tflag \<and> ht_para s' = ht_para s \<and> ht_timerid s' = ht_timerid s \<and> ht_interval s' = ht_interval s"
  by (auto simp: OnHelloTimer_def CreateHelloPacket_def GetCurCRCID_def Let_def split: if_splits)

text \<open>
  C25: the interval of a running heartbeat can be changed once: \<open>KillTimer\<close> deletes the old timer and
  keeps the mutex of the thread, so that the thread waits forever at the second change. The change
  itself takes the new interval for the parameter too, whatever parameter was sent with it.
\<close>

theorem second_change_blocks:
  assumes "0 < sint interval" and "0 < sint a" and "b \<noteq> 0"
    and "he_os e = \<lparr>create_ok = True, settime_ok = True, delete1_ok = True, delete2_ok = x, errno_EINVAL = y\<rparr>"
  shows "\<exists>s1 s2 sent1 sent2. OnSetHelloTimerPlease e (hello_started rand interval para) = Some (s1, sent1) \<and> ht_para s1 = para \<and>
    OnChangeHelloPara e a para1 s1 = Some (s2, sent2) \<and> ht_para s2 = a \<and> OnChangeHelloPara e' b para2 s2 = None"
proof -
  obtain s1 sent1 where s1: "OnHelloTimer e HELLO_TIMER_MTYPE ((hello_started rand interval para)
      \<lparr>ht_timers := fst (SetTimer (he_os e) (ht_timers (hello_started rand interval para)) HELLO_TIMER_MTYPE (sint interval)), ht_timerid := 1\<rparr>) = (s1, sent1)"
    by fastforce
  have set: "OnSetHelloTimerPlease e (hello_started rand interval para) = Some (s1, sent1)"
    using assms(1) s1 by (simp add: OnSetHelloTimerPlease_def CreateHelloTimer_def hello_started_def hello_InitInstance_def SetTimer_def assms(4) Let_def)
  have f1: "ht_timerid s1 = 1" "ht_para s1 = para" "\<not> ts_locked (ht_timers s1)" "ts_next (ht_timers s1) = 2"
    "find_timer (ts_timers (ht_timers s1)) 1 = Some 0" "ts_timers (ht_timers s1) \<noteq> []"
    using OnHelloTimer_frame [OF s1] assms(1)
    by (simp_all add: hello_started_def hello_InitInstance_def SetTimer_def assms(4) OnTimerLeave_def Let_def)
  define ts where "ts = (ht_timers s1)\<lparr>ts_locked := True, ts_timers := (ts_timers (ht_timers s1))[0 := (ts_timers (ht_timers s1) ! 0)\<lparr>tp_ti := 0\<rparr>]\<rparr>"
  have kill: "KillTimer (he_os e) (ht_timers s1) 1 = Some (True, ts, 0)"
    using f1 by (simp add: KillTimer_def ts_def assms(4) Let_def)
  have a: "a \<noteq> 0" using assms(2) by auto
  define ts' where "ts' = fst (SetTimer (he_os e) ts HELLO_TIMER_MTYPE (sint a))"
  have ts': "SetTimer (he_os e) ts HELLO_TIMER_MTYPE (sint a) = (ts', 2)" "ts_locked ts'"
    using assms(2) f1(4) by (simp_all add: ts'_def SetTimer_def assms(4) Let_def ts_def)
  obtain s2 sent2 where s2: "OnHelloTimer e HELLO_TIMER_MTYPE
      (s1\<lparr>ht_para := a, ht_ids := cleared_ids, ht_interval := a, ht_timers := ts', ht_timerid := 2\<rparr>) = (s2, sent2)"
    by fastforce
  have change: "OnChangeHelloPara e a para1 s1 = Some (s2, sent2)"
    using s2 kill f1(1) a ts' by (simp add: OnChangeHelloPara_def CreateHelloTimer_def)
  have "ht_para s2 = a" "ht_timerid s2 = 2" "ts_locked (ht_timers s2)"
    using OnHelloTimer_frame [OF s2] ts'(2) by (simp_all add: OnTimerLeave_def)
  moreover from this have "OnChangeHelloPara e' b para2 s2 = None"
    using assms(3) by (simp add: OnChangeHelloPara_def CreateHelloTimer_def KillTimer_def Let_def)
  ultimately show ?thesis using set f1(2) change by blast
qed

theorem second_change_blocks_witness:
  "\<exists>s1 s2 sent1 sent2. OnSetHelloTimerPlease hello_env_example (hello_started 5 30 7) = Some (s1, sent1) \<and>
     OnChangeHelloPara hello_env_example 60 8 s1 = Some (s2, sent2) \<and> ht_para s2 = 60 \<and> OnChangeHelloPara hello_env_example 90 9 s2 = None"
  using second_change_blocks [of 30 60 90 hello_env_example True False 5 7 8 hello_env_example 9]
  by (auto simp: hello_env_example_def)

end
