(* ===== verification/Encode_Util.thy ===== *)
theory Encode_Util
  imports Prelude
begin

text \<open>
  The conversion of texts from GBK to UTF-8 into a \<open>std::string\<close>, \<open>tuanzi/src/encodeutil.cpp\<close>. The
  library function \<open>iconv\<close> is an argument: the bytes that it writes to the front of the array before it
  stops, for a text that it converts and for one that it gives up. What \<open>new\<close> finds in the memory is an
  argument too, since the code reads on to the first NUL in the array, which nothing writes there; \<open>None\<close> is
  the read past the end of the array when there is no NUL in it.
\<close>

definition ConvertGBKToUtf8 :: "(nat \<Rightarrow> byte) \<Rightarrow> (byte list \<Rightarrow> byte list) \<Rightarrow> byte list \<Rightarrow> byte list option" where
  "ConvertGBKToUtf8 memory iconv inbuf =
     (let outbytes = 3 * length inbuf;
          outb = memcpy (map memory [0..<outbytes]) 0 (take outbytes (iconv inbuf))
      in c_string outb)"

text \<open>
  The result is the converted text only when the byte behind it happens to be 0; a conversion that writes
  the whole array, and any conversion of no bytes at all, reads past the end.
\<close>

lemma ConvertGBKToUtf8_empty [simp]: "ConvertGBKToUtf8 memory iconv [] = None"
  by (simp add: ConvertGBKToUtf8_def c_string_def)

lemma ConvertGBKToUtf8_clean:
  assumes "0 \<notin> set (iconv inbuf)" and "length (iconv inbuf) < 3 * length inbuf" and "memory (length (iconv inbuf)) = 0"
  shows "ConvertGBKToUtf8 memory iconv inbuf = Some (iconv inbuf)"
proof -
  let ?s = "iconv inbuf"
  have "drop (length ?s) (map memory [0..<3 * length inbuf]) = 0 # drop (Suc (length ?s)) (map memory [0..<3 * length inbuf])"
    using assms(2,3) by (subst Cons_nth_drop_Suc [symmetric]) simp_all
  then have "memcpy (map memory [0..<3 * length inbuf]) 0 ?s = ?s @ 0 # drop (Suc (length ?s)) (map memory [0..<3 * length inbuf])"
    by (simp add: memcpy_def)
  then show ?thesis
    using assms(1,2) by (simp add: ConvertGBKToUtf8_def Let_def c_string_prefix)
qed

lemma ConvertGBKToUtf8_full:
  assumes "0 \<notin> set (iconv inbuf)" and "3 * length inbuf \<le> length (iconv inbuf)"
  shows "ConvertGBKToUtf8 memory iconv inbuf = None"
proof -
  have "0 \<notin> set (take (3 * length inbuf) (iconv inbuf))" using assms(1) in_set_takeD by fast
  moreover have "memcpy (map memory [0..<3 * length inbuf]) 0 (take (3 * length inbuf) (iconv inbuf)) = take (3 * length inbuf) (iconv inbuf)"
    using assms(2) by (intro memcpy_full) simp
  ultimately show ?thesis by (simp add: ConvertGBKToUtf8_def Let_def c_string_def)
qed

end
