(* ===== verification/Server_Messages.thy ===== *)
theory Server_Messages
  imports Wire Encode_Util
begin

text \<open>
  The messages of the servers SAM and SMP, \<open>tuanzi/src/directtransrv.cpp\<close>: lists of a type, a length and
  data, with lengths of one byte from SAM and of two from SMP. What a reader does is a list of
  \<open>server_event\<close>. \<open>None\<close> is an access outside of the message or of a string, or another undefined
  operation; the loop over a message of SAM is a \<open>partial_function (option)\<close> on top of that. Positions are
  natural numbers: for a message of less than 2^32 - 2^17 bytes they fit the \<open>unsigned\<close> of the code.
\<close>

subsection \<open>What the readers do\<close>

text \<open>
  Memory from \<open>new char[n]\<close>: the position in the message at which it was allocated, which names it, and
  its bytes, \<open>None\<close> where nothing has been written.
\<close>

type_synonym buffer = "nat \<times> byte option list"

definition written :: "nat \<Rightarrow> byte list \<Rightarrow> nat \<Rightarrow> buffer" where
  "written pos bs unwritten = (pos, map Some bs @ replicate unwritten None)"

datatype server_event =
    Msg_item nat "byte list"
  | Show_notify "byte list"
  | Show_url "byte list"
  | Simulate_logoff "byte list"
  | Force_offline "byte list"
  | Switch_result "byte list"
  | Dhcp_result bool "buffer option"
  | Auth_result bool
  | Do_force_offline "buffer option" nat
  | Modify_result bool "buffer option"
  | Smp_data buffer nat

text \<open>
  What the readers find: the memory that \<open>ConvertGBKToUtf8\<close> gets for the text of the record at a position
  of the message, and what \<open>iconv\<close> writes (see \<open>Encode_Util\<close>); whether \<open>CtrlThread\<close> exists; and whether its
  queue takes messages.
\<close>

record server_env =
  sv_memory :: "nat \<Rightarrow> nat \<Rightarrow> byte"
  sv_iconv :: "byte list \<Rightarrow> byte list"
  sv_ctrl :: bool
  sv_post :: bool

definition sv_gbk :: "server_env \<Rightarrow> nat \<Rightarrow> byte list \<Rightarrow> byte list option" where
  "sv_gbk e pos text = ConvertGBKToUtf8 (sv_memory e pos) (sv_iconv e) text"

lemma sv_gbk_empty [simp]: "sv_gbk e pos [] = None"
  by (simp add: sv_gbk_def)

definition to_ctrl :: "server_env \<Rightarrow> server_event \<Rightarrow> server_event list option" where
  "to_ctrl e ev = (if sv_ctrl e then Some (if sv_post e then [ev] else []) else None)"

text \<open>\<open>memcpy(new char[n + k], s.c_str(), n)\<close>, after the conversion of \<open>n\<close> bytes at \<open>i\<close> to \<open>s\<close>.\<close>

definition converted_copy :: "server_env \<Rightarrow> byte list \<Rightarrow> nat \<Rightarrow> nat \<Rightarrow> nat \<Rightarrow> nat \<Rightarrow> buffer option" where
  "converted_copy e buf pos i n unwritten = do {
     b \<leftarrow> read_at buf i n;
     s \<leftarrow> sv_gbk e pos b;
     c \<leftarrow> read_at (s @ [0]) 0 n;
     Some (written pos c unwritten)
   }"

subsection \<open>Messages of SMP\<close>

text \<open>
  The loop that the readers for SMP share: the length that it hands to the \<open>switch\<close> is that of the record
  before, because the \<open>for\<close> statement reads it only afterwards.
\<close>

function smp_records ::
  "(byte \<Rightarrow> nat \<Rightarrow> nat \<Rightarrow> 's \<Rightarrow> 's option) \<Rightarrow> byte list \<Rightarrow> nat \<Rightarrow> nat \<Rightarrow> nat \<Rightarrow> 's \<Rightarrow> 's option" where
  "smp_records f buf buflen pos datalen s =
     (if pos + datalen + 3 \<le> buflen then do {
        t \<leftarrow> byte_at buf pos;
        s \<leftarrow> f t pos datalen s;
        n \<leftarrow> be16_at buf (pos + 1);
        smp_records f buf buflen (pos + unat n + 3) (unat n) s
      }
      else Some s)"
  by pat_completeness auto
termination
  by (relation "measure (\<lambda>(f, buf, buflen, pos, datalen, s). buflen - pos)") auto

declare smp_records.simps [simp del]

type_synonym shown = "bool \<times> byte list \<times> bool \<times> byte list"

definition msg_case :: "server_env \<Rightarrow> byte list \<Rightarrow> byte \<Rightarrow> nat \<Rightarrow> nat \<Rightarrow> shown \<Rightarrow> shown option" where
  "msg_case e buf t pos datalen s =
     (let (has_message, message, has_url, url) = s in
      if t = 0x15 then do { b \<leftarrow> read_at buf (pos + 3) datalen; m \<leftarrow> sv_gbk e pos b; Some (True, m, has_url, url) }
      else if t = 0x17 then do { b \<leftarrow> read_at buf (pos + 3) datalen; u \<leftarrow> sv_gbk e pos b; Some (has_message, message, True, u) }
      else if t = 0x16 then Some (has_message, message, True, url)
      else Some s)"

definition show_results :: "shown \<Rightarrow> server_event list" where
  "show_results s =
     (let (has_message, message, has_url, url) = s in
      (if has_message \<and> message \<noteq> [] then [Msg_item 1 message, Show_notify message] else []) @
      (if has_url then [Msg_item 0 url, Show_url url] else []))"

definition ParseMsgAndPro :: "server_env \<Rightarrow> byte list \<Rightarrow> nat \<Rightarrow> server_event list option" where
  "ParseMsgAndPro e buf buflen =
     map_option show_results (smp_records (msg_case e buf) buf buflen 0 0 (False, [], False, []))"

text \<open>
  The pointer stays from one record to the next, also when it has been posted or deleted (\<open>freed\<close>), and a
  record of length 0 posts it again.
\<close>

type_synonym logoff_state = "buffer option \<times> bool \<times> server_event list"

definition logoff_case :: "server_env \<Rightarrow> byte list \<Rightarrow> byte \<Rightarrow> nat \<Rightarrow> nat \<Rightarrow> logoff_state \<Rightarrow> logoff_state option" where
  "logoff_case e buf t pos datalen s =
     (if t \<noteq> 0x1F then Some s
      else let (p, freed, evs) = s in do {
        (p, freed) \<leftarrow> (if datalen = 0 then Some (p, freed)
          else map_option (\<lambda>b. (Some b, False)) (converted_copy e buf pos (pos + 3) datalen 2));
        if \<not> sv_ctrl e then None
        else if sv_post e then Some (p, freed, evs @ [Do_force_offline p (if datalen = 0 then 0 else datalen + 2)])
        else if freed then None
        else Some (p, p \<noteq> None, evs)
      })"

definition ParseLogoff :: "server_env \<Rightarrow> byte list \<Rightarrow> nat \<Rightarrow> server_event list option" where
  "ParseLogoff e buf buflen =
     (if buflen = 0 then Some []
      else map_option (snd \<circ> snd) (smp_records (logoff_case e buf) buf buflen 0 0 (None, False, [])))"

definition logoff_others_case :: "server_env \<Rightarrow> byte list \<Rightarrow> byte \<Rightarrow> nat \<Rightarrow> nat \<Rightarrow> server_event list \<Rightarrow> server_event list option" where
  "logoff_others_case e buf t pos datalen evs =
     (if t = 0x47 then do { b \<leftarrow> read_at buf (pos + 3) datalen; new \<leftarrow> to_ctrl e (Simulate_logoff b); Some (evs @ new) }
      else Some evs)"

definition ParseLogoffOhers :: "server_env \<Rightarrow> byte list \<Rightarrow> nat \<Rightarrow> server_event list option" where
  "ParseLogoffOhers e buf buflen =
     (if buflen = 0 then Some [] else smp_records (logoff_others_case e buf) buf buflen 0 0 [])"

type_synonym flag_text = "bool \<times> buffer option"

definition modify_case :: "byte list \<Rightarrow> byte \<Rightarrow> nat \<Rightarrow> nat \<Rightarrow> flag_text \<Rightarrow> flag_text option" where
  "modify_case buf t pos datalen s =
     (let (change_success, fail_msg) = s in
      if t = 0xC1 then map_option (\<lambda>v. (v \<noteq> 0, fail_msg)) (byte_at buf (pos + 3))
      else if t = 0xC2 then map_option (\<lambda>b. (change_success, Some (written pos b 1))) (read_at buf (pos + 3) datalen)
      else Some s)"

definition ParseModifyPWResult :: "byte list \<Rightarrow> nat \<Rightarrow> server_event list option" where
  "ParseModifyPWResult buf buflen =
     (if buflen = 0 then None
      else map_option (\<lambda>(change_success, fail_msg). [Modify_result change_success fail_msg])
        (smp_records (modify_case buf) buf buflen 0 0 (False, None)))"

definition dhcp_smp_case :: "server_env \<Rightarrow> byte list \<Rightarrow> byte \<Rightarrow> nat \<Rightarrow> nat \<Rightarrow> flag_text \<Rightarrow> flag_text option" where
  "dhcp_smp_case e buf t pos datalen s =
     (let (some_flag, some_string) = s in
      if t = 0xCE then map_option (\<lambda>v. (v \<noteq> 0, some_string)) (byte_at buf (pos + 3))
      else if t = 0xCF then map_option (\<lambda>b. (some_flag, Some b)) (converted_copy e buf pos (pos + 3) datalen 1)
      else Some s)"

text \<open>\<open>DoWithAuthResult\<close> is called when the control thread has taken the result.\<close>

definition ParseDHCPAuthResult_ForSMP :: "server_env \<Rightarrow> byte list \<Rightarrow> nat \<Rightarrow> server_event list option" where
  "ParseDHCPAuthResult_ForSMP e buf buflen =
     map_option (\<lambda>(some_flag, some_string). if sv_ctrl e \<and> sv_post e then [Dhcp_result some_flag some_string, Auth_result some_flag] else [])
       (smp_records (dhcp_smp_case e buf) buf buflen 0 0 (False, None))"

text \<open>\<open>ParseReAuth\<close> deletes \<open>&buf[4]\<close>, which \<open>new\<close> has not returned.\<close>

definition ParseReAuth :: "server_event list option" where
  "ParseReAuth = None"

definition smp_parser :: "server_env \<Rightarrow> byte \<Rightarrow> byte list \<Rightarrow> nat \<Rightarrow> server_event list option" where
  "smp_parser e command =
     (if command = 2 then ParseMsgAndPro e
      else if command = 3 then ParseLogoff e
      else if command = 4 then (\<lambda>buf buflen. ParseReAuth)
      else if command = 7 then ParseLogoffOhers e
      else if command = 42 then ParseModifyPWResult
      else if command = 46 then ParseDHCPAuthResult_ForSMP e
      else (\<lambda>buf buflen. Some []))"

definition AnalyzePrivate_SMP :: "server_env \<Rightarrow> byte list \<Rightarrow> u32 \<Rightarrow> server_event list option" where
  "AnalyzePrivate_SMP e buf buflen = do {
     t \<leftarrow> byte_at buf 0;
     if t \<noteq> 1 then Some []
     else do {
       n \<leftarrow> be16_at buf 1;
       if n \<noteq> 1 then Some []
       else do {
         command \<leftarrow> byte_at buf 3;
         if command = 1 then do {
           t \<leftarrow> byte_at buf 4;
           if t \<noteq> 11 then Some []
           else do {
             smp_datalen \<leftarrow> be16_at buf 5;
             smp_data \<leftarrow> read_at buf 7 (unat smp_datalen);
             Some [Smp_data (written 7 smp_data 1) (unat smp_datalen)]
           }
         }
         else smp_parser e command (drop 4 buf) (unat (buflen - 4))
       }
     }
   }"

subsection \<open>Messages of SAM\<close>

definition dhcp_sam_case :: "server_env \<Rightarrow> byte list \<Rightarrow> byte \<Rightarrow> nat \<Rightarrow> nat \<Rightarrow> flag_text \<Rightarrow> flag_text option" where
  "dhcp_sam_case e buf t pos n s =
     (let (some_flag, some_string) = s in
      if t = 0x02 then map_option (\<lambda>b. (some_flag, Some b)) (converted_copy e buf pos (pos + 2) n 1)
      else if t = 0x13 then map_option (\<lambda>v. (v \<noteq> 0, some_string)) (byte_at buf (pos + 2))
      else Some s)"

function dhcp_sam_loop :: "server_env \<Rightarrow> byte list \<Rightarrow> nat \<Rightarrow> nat \<Rightarrow> flag_text \<Rightarrow> (nat \<times> flag_text) option" where
  "dhcp_sam_loop e buf buflen pos s = do {
     n \<leftarrow> byte_at buf (pos + 1);
     if pos + unat n + 2 \<le> buflen then do {
       t \<leftarrow> byte_at buf pos;
       s \<leftarrow> dhcp_sam_case e buf t pos (unat n) s;
       dhcp_sam_loop e buf buflen (pos + unat n + 2) s
     }
     else Some (pos, s)
   }"
  by pat_completeness auto
termination
  by (relation "measure (\<lambda>(e, buf, buflen, pos, s). buflen - pos)") auto

declare dhcp_sam_loop.simps [simp del]

text \<open>The result is also the position, which the function has by reference.\<close>

definition ParseDHCPAuthResult_ForSAM :: "server_env \<Rightarrow> byte list \<Rightarrow> nat \<Rightarrow> nat \<Rightarrow> (server_event list \<times> nat) option" where
  "ParseDHCPAuthResult_ForSAM e buf buflen pos =
     map_option (\<lambda>(pos, some_flag, some_string). (if sv_ctrl e \<and> sv_post e then [Dhcp_result some_flag some_string] else [], pos))
       (dhcp_sam_loop e buf buflen pos (False, None))"

definition sam_command :: "server_env \<Rightarrow> nat \<Rightarrow> byte \<Rightarrow> byte list \<Rightarrow> server_event list option" where
  "sam_command e pos command b =
     (if command = 1 then map_option (\<lambda>s. [Msg_item 5 s, Show_notify s]) (sv_gbk e pos b)
      else if command = 3 then to_ctrl e (Simulate_logoff b)
      else if command = 5 then Option.bind (sv_gbk e pos b) (\<lambda>s. to_ctrl e (Force_offline s))
      else Some [Switch_result b])"

text \<open>One turn of the loop: what it does, the position, and \<open>advance_pos\<close>.\<close>

definition sam_case :: "server_env \<Rightarrow> byte list \<Rightarrow> nat \<Rightarrow> nat \<Rightarrow> (server_event list \<times> nat \<times> bool) option" where
  "sam_case e buf buflen pos = do {
     t \<leftarrow> byte_at buf pos;
     if t \<noteq> 1 then Some ([], pos, True)
     else do {
       command \<leftarrow> byte_at buf (pos + 2);
       if command \<in> {1, 3, 5, 7} then do {
         t2 \<leftarrow> byte_at buf (pos + 3);
         if t2 \<noteq> command + 1 then Some ([], pos, True)
         else do {
           n \<leftarrow> byte_at buf (pos + 4);
           b \<leftarrow> read_at buf (pos + 5) (unat n);
           map_option (\<lambda>evs. (evs, pos, True)) (sam_command e pos command b)
         }
       }
       else if command = 9 then map_option (\<lambda>(evs, pos). (evs, pos, False)) (ParseDHCPAuthResult_ForSAM e buf buflen pos)
       else Some ([], pos, True)
     }
   }"

text \<open>The outer result is \<open>None\<close> when the loop does not end, the inner one when an access is not defined.\<close>

partial_function (option) sam_loop :: "server_env \<Rightarrow> byte list \<Rightarrow> nat \<Rightarrow> nat \<Rightarrow> server_event list \<Rightarrow> server_event list option option" where
  "sam_loop e buf buflen pos evs =
     (if pos < buflen then
        (case sam_case e buf buflen pos of
           None \<Rightarrow> Some None
         | Some (new, pos, advance_pos) \<Rightarrow>
             if advance_pos then
               (case byte_at buf (pos + 1) of
                  None \<Rightarrow> Some None
                | Some n \<Rightarrow> sam_loop e buf buflen (pos + unat n + 2) (evs @ new))
             else sam_loop e buf buflen pos (evs @ new))
      else Some (Some evs))"

definition AnalyzePrivate_SAM :: "server_env \<Rightarrow> byte list \<Rightarrow> u32 \<Rightarrow> server_event list option option" where
  "AnalyzePrivate_SAM e buf buflen = sam_loop e buf (unat buflen) 0 []"

subsection \<open>What a message of SMP is read as\<close>

fun smp_tlv :: "(byte \<times> byte list) list \<Rightarrow> byte list" where
  "smp_tlv [] = []"
| "smp_tlv ((t, d) # rs) = t # bytes_be16 (of_nat (length d)) @ d @ smp_tlv rs"

text \<open>
  The same records as a reader finds them: the position of each, its type, the bytes that the reader
  takes for its data, which are as many as the record before has, and all the bytes behind its header,
  the first of which is the flag of a record that carries one.
\<close>

type_synonym found = "nat \<times> byte \<times> byte list \<times> byte list"

fun lagged :: "nat \<Rightarrow> nat \<Rightarrow> (byte \<times> byte list) list \<Rightarrow> found list" where
  "lagged pos datalen [] = []"
| "lagged pos datalen ((t, d) # rs) =
     (let behind = d @ smp_tlv rs
      in if datalen \<le> length behind then (pos, t, take datalen behind, behind) # lagged (pos + length d + 3) (length d) rs
         else [])"

text \<open>A reader that takes what it finds one by one.\<close>

fun each_record :: "(nat \<Rightarrow> byte \<Rightarrow> byte list \<Rightarrow> byte list \<Rightarrow> 's \<Rightarrow> 's option) \<Rightarrow> found list \<Rightarrow> 's \<Rightarrow> 's option" where
  "each_record g [] s = Some s"
| "each_record g ((pos, t, d, behind) # fs) s = Option.bind (g pos t d behind s) (each_record g fs)"

definition msg_record :: "server_env \<Rightarrow> nat \<Rightarrow> byte \<Rightarrow> byte list \<Rightarrow> byte list \<Rightarrow> shown \<Rightarrow> shown option" where
  "msg_record e pos t d behind s =
     (let (has_message, message, has_url, url) = s in
      if t = 0x15 then map_option (\<lambda>m. (True, m, has_url, url)) (sv_gbk e pos d)
      else if t = 0x17 then map_option (\<lambda>u. (has_message, message, True, u)) (sv_gbk e pos d)
      else if t = 0x16 then Some (has_message, message, True, url)
      else Some s)"

text \<open>The array for a converted text, of which as many bytes are copied as the text had before.\<close>

definition text_array :: "server_env \<Rightarrow> nat \<Rightarrow> byte list \<Rightarrow> nat \<Rightarrow> buffer option" where
  "text_array e pos d unwritten =
     Option.bind (sv_gbk e pos d) (\<lambda>s. map_option (\<lambda>c. written pos c unwritten) (read_at (s @ [0]) 0 (length d)))"

definition logoff_record :: "server_env \<Rightarrow> nat \<Rightarrow> byte \<Rightarrow> byte list \<Rightarrow> byte list \<Rightarrow> logoff_state \<Rightarrow> logoff_state option" where
  "logoff_record e pos t d behind s =
     (if t \<noteq> 0x1F then Some s
      else let (p, freed, evs) = s in do {
        (p, freed) \<leftarrow> (if d = [] then Some (p, freed) else map_option (\<lambda>b. (Some b, False)) (text_array e pos d 2));
        if \<not> sv_ctrl e then None
        else if sv_post e then Some (p, freed, evs @ [Do_force_offline p (if d = [] then 0 else length d + 2)])
        else if freed then None
        else Some (p, p \<noteq> None, evs)
      })"

definition others_record :: "server_env \<Rightarrow> nat \<Rightarrow> byte \<Rightarrow> byte list \<Rightarrow> byte list \<Rightarrow> server_event list \<Rightarrow> server_event list option" where
  "others_record e pos t d behind evs =
     (if t = 0x47 then map_option ((@) evs) (to_ctrl e (Simulate_logoff d)) else Some evs)"

text \<open>A result of a flag and a text: the flag is the first byte behind the header, whatever the data are.\<close>

definition result_record ::
  "byte \<Rightarrow> byte \<Rightarrow> (nat \<Rightarrow> byte list \<Rightarrow> buffer option) \<Rightarrow> nat \<Rightarrow> byte \<Rightarrow> byte list \<Rightarrow> byte list \<Rightarrow> flag_text \<Rightarrow> flag_text option" where
  "result_record flag_type text_type text pos t d behind s =
     (if t = flag_type then map_option (\<lambda>v. (v \<noteq> 0, snd s)) (byte_at behind 0)
      else if t = text_type then map_option (\<lambda>b. (fst s, Some b)) (text pos d)
      else Some s)"

abbreviation short_records :: "(byte \<times> byte list) list \<Rightarrow> bool" where
  "short_records rs \<equiv> list_all (\<lambda>(t, d). length d < 2 ^ 16) rs"

lemma smp_records_lagged:
  assumes "\<And>t pos n s. pos + 3 + n \<le> length buf \<Longrightarrow>
    f t pos n s = g pos t (take n (drop (pos + 3) buf)) (drop (pos + 3) buf) s"
  shows "short_records rs \<Longrightarrow> buf = pre @ smp_tlv rs \<Longrightarrow>
    smp_records f buf (length buf) (length pre) datalen s = each_record g (lagged (length pre) datalen rs) s"
proof (induction rs arbitrary: pre datalen s)
  case Nil
  then show ?case by (subst smp_records.simps) simp
next
  case (Cons r rs)
  obtain t d where r: "r = (t, d)" by (cases r)
  let ?head = "t # bytes_be16 (of_nat (length d))"
  have buf: "buf = pre @ ?head @ d @ smp_tlv rs" using Cons.prems(2) r by simp
  have n: "unat (of_nat (length d) :: u16) = length d" using Cons.prems(1) r by (simp add: unat_of_nat_small)
  have head: "byte_at buf (length pre) = Some t" "be16_at buf (length pre + 1) = Some (of_nat (length d))"
    using be16_at_mid [of "length pre + 1" "pre @ [t]" "of_nat (length d)" "d @ smp_tlv rs"] by (simp_all add: buf byte_at_def)
  have behind: "drop (length pre + 3) buf = d @ smp_tlv rs" by (simp add: buf len_simps numeral_3_eq_3)
  have room: "length pre + datalen + 3 \<le> length buf \<longleftrightarrow> datalen \<le> length (d @ smp_tlv rs)" by (simp add: buf len_simps)
  have IH: "smp_records f buf (length buf) (length pre + length d + 3) (length d) s' =
      each_record g (lagged (length pre + length d + 3) (length d) rs) s'" for s'
  proof -
    have len: "length (pre @ ?head @ d) = length pre + length d + 3" by (simp add: len_simps)
    have "short_records rs" "buf = (pre @ ?head @ d) @ smp_tlv rs" using Cons.prems(1) buf r by simp_all
    from Cons.IH [OF this, of "length d" s'] show ?thesis by (simp only: len)
  qed
  show ?case
  proof (cases "datalen \<le> length (d @ smp_tlv rs)")
    case True
    then have "f t (length pre) datalen s = g (length pre) t (take datalen (d @ smp_tlv rs)) (d @ smp_tlv rs) s"
      using assms [of "length pre" datalen t s] room behind by simp
    then show ?thesis
      using True room head n IH r
      by (subst smp_records.simps) (cases "g (length pre) t (take datalen (d @ smp_tlv rs)) (d @ smp_tlv rs) s"; simp add: Let_def)
  next
    case False
    then show ?thesis using room r by (subst smp_records.simps) (simp add: Let_def)
  qed
qed

lemma read_behind: "pos + 3 + n \<le> length buf \<Longrightarrow> read_at buf (pos + 3) n = Some (take n (drop (pos + 3) buf))"
  by (simp add: read_at_def)

lemma byte_behind: "byte_at (drop i buf) 0 = byte_at buf i"
  by (auto simp: byte_at_def)

lemma converted_copy_behind:
  "pos + 3 + n \<le> length buf \<Longrightarrow> converted_copy e buf pos (pos + 3) n k = text_array e pos (take n (drop (pos + 3) buf)) k"
  by (simp add: converted_copy_def text_array_def read_behind map_conv_bind_option o_def)

lemma msg_case_record:
  "pos + 3 + n \<le> length buf \<Longrightarrow>
     msg_case e buf t pos n s = msg_record e pos t (take n (drop (pos + 3) buf)) (drop (pos + 3) buf) s"
  by (simp add: msg_case_def msg_record_def read_behind map_conv_bind_option o_def Let_def split: prod.split)

lemma logoff_case_record:
  assumes "pos + 3 + n \<le> length buf"
  shows "logoff_case e buf t pos n s = logoff_record e pos t (take n (drop (pos + 3) buf)) (drop (pos + 3) buf) s"
proof -
  define d where "d = take n (drop (pos + 3) buf)"
  have n: "n = length d" using assms by (simp add: d_def)
  show ?thesis
    unfolding logoff_case_def logoff_record_def converted_copy_behind [OF assms] d_def [symmetric]
    unfolding n by simp
qed

lemma logoff_others_case_record:
  "pos + 3 + n \<le> length buf \<Longrightarrow>
     logoff_others_case e buf t pos n s = others_record e pos t (take n (drop (pos + 3) buf)) (drop (pos + 3) buf) s"
  by (simp add: logoff_others_case_def others_record_def read_behind map_conv_bind_option o_def)

lemma modify_case_record:
  "pos + 3 + n \<le> length buf \<Longrightarrow> modify_case buf t pos n s =
     result_record 0xC1 0xC2 (\<lambda>pos d. Some (written pos d 1)) pos t (take n (drop (pos + 3) buf)) (drop (pos + 3) buf) s"
  by (simp add: modify_case_def result_record_def read_behind byte_behind case_prod_unfold Let_def)

lemma dhcp_smp_case_record:
  "pos + 3 + n \<le> length buf \<Longrightarrow> dhcp_smp_case e buf t pos n s =
     result_record 0xCE 0xCF (\<lambda>pos d. text_array e pos d 1) pos t (take n (drop (pos + 3) buf)) (drop (pos + 3) buf) s"
  by (simp add: dhcp_smp_case_def result_record_def converted_copy_behind byte_behind case_prod_unfold Let_def)

text \<open>
  C12: the five readers of messages from SMP take the length of each record from the record before it. On
  a list of records that is not empty each of them does what a correct reader does on the records with
  their data cut or run on to that length, from the first one with none, and up to the first one after
  which too little is left. Only the flags are what was sent, unless their record is empty: a flag is the
  first byte behind the header, whatever the length.
\<close>

theorem smp_lengths_lag:
  assumes "short_records rs" and "rs \<noteq> []"
  shows "ParseMsgAndPro e (smp_tlv rs) (length (smp_tlv rs)) =
      map_option show_results (each_record (msg_record e) (lagged 0 0 rs) (False, [], False, [])) \<and>
    ParseLogoff e (smp_tlv rs) (length (smp_tlv rs)) =
      map_option (snd \<circ> snd) (each_record (logoff_record e) (lagged 0 0 rs) (None, False, [])) \<and>
    ParseLogoffOhers e (smp_tlv rs) (length (smp_tlv rs)) = each_record (others_record e) (lagged 0 0 rs) [] \<and>
    ParseModifyPWResult (smp_tlv rs) (length (smp_tlv rs)) =
      map_option (\<lambda>(flag, text). [Modify_result flag text])
        (each_record (result_record 0xC1 0xC2 (\<lambda>pos d. Some (written pos d 1))) (lagged 0 0 rs) (False, None)) \<and>
    ParseDHCPAuthResult_ForSMP e (smp_tlv rs) (length (smp_tlv rs)) =
      map_option (\<lambda>(flag, text). if sv_ctrl e \<and> sv_post e then [Dhcp_result flag text, Auth_result flag] else [])
        (each_record (result_record 0xCE 0xCF (\<lambda>pos d. text_array e pos d 1)) (lagged 0 0 rs) (False, None))"
proof -
  have some: "smp_tlv rs \<noteq> []" using assms(2) by (cases rs rule: smp_tlv.cases) auto
  note reads = smp_records_lagged [where pre = "[]" and buf = "smp_tlv rs" and rs = rs and datalen = 0, OF _ assms(1), simplified]
  show ?thesis
    using reads [where f = "msg_case e (smp_tlv rs)" and g = "msg_record e", OF msg_case_record]
      reads [where f = "logoff_case e (smp_tlv rs)" and g = "logoff_record e", OF logoff_case_record]
      reads [where f = "logoff_others_case e (smp_tlv rs)" and g = "others_record e", OF logoff_others_case_record]
      reads [where f = "modify_case (smp_tlv rs)" and g = "result_record 0xC1 0xC2 (\<lambda>pos d. Some (written pos d 1))", OF modify_case_record]
      reads [where f = "dhcp_smp_case e (smp_tlv rs)" and g = "result_record 0xCE 0xCF (\<lambda>pos d. text_array e pos d 1)", OF dhcp_smp_case_record] some
    by (simp add: ParseMsgAndPro_def ParseLogoff_def ParseLogoffOhers_def ParseModifyPWResult_def ParseDHCPAuthResult_ForSMP_def)
qed

definition plain_env :: server_env where
  "plain_env = \<lparr>sv_memory = (\<lambda>pos i. 0), sv_iconv = (\<lambda>text. text), sv_ctrl = True, sv_post = True\<rparr>"

lemma plain_gbk: "0 \<notin> set text \<Longrightarrow> text \<noteq> [] \<Longrightarrow> sv_gbk plain_env pos text = Some text"
  unfolding sv_gbk_def by (subst ConvertGBKToUtf8_clean) (simp_all add: plain_env_def)

theorem smp_lengths_lag_witness:
  "let rs = [(0x16 :: byte, [0x40]), (0x17, [0x43, 0x44, 0x45]), (0xC1, [1]), (0xC2, [0x45, 0x46])] in
   ParseMsgAndPro plain_env (smp_tlv rs) (length (smp_tlv rs)) = Some [Msg_item 0 [0x43], Show_url [0x43]] \<and>
   ParseLogoff plain_env (smp_tlv rs) (length (smp_tlv rs)) = Some [] \<and>
   ParseLogoffOhers plain_env (smp_tlv rs) (length (smp_tlv rs)) = Some [] \<and>
   ParseModifyPWResult (smp_tlv rs) (length (smp_tlv rs)) = Some [Modify_result True (Some (written 14 [0x45] 1))] \<and>
   ParseDHCPAuthResult_ForSMP plain_env (smp_tlv rs) (length (smp_tlv rs)) = Some [Dhcp_result False None, Auth_result False]"
proof -
  define rs where "rs = [(0x16 :: byte, [0x40]), (0x17, [0x43, 0x44, 0x45]), (0xC1, [1]), (0xC2, [0x45, 0x46 :: byte])]"
  have rs: "short_records rs" "rs \<noteq> []" by (simp_all add: rs_def)
  have "smp_tlv rs = [0x16, 0, 1, 0x40, 0x17, 0, 3, 0x43, 0x44, 0x45, 0xC1, 0, 1, 1, 0xC2, 0, 2, 0x45, 0x46]"
    by (simp add: rs_def bytes_be16_def bytes_le16_def)
  have found: "lagged 0 0 rs = [(0, 0x16, [], 0x40 # smp_tlv (tl rs)), (4, 0x17, [0x43], [0x43, 0x44, 0x45] @ smp_tlv (tl (tl rs))),
      (10, 0xC1, [1, 0xC2, 0], 1 # smp_tlv (tl (tl (tl rs)))), (14, 0xC2, [0x45], [0x45, 0x46])]"
    by (simp add: rs_def bytes_be16_def bytes_le16_def Let_def)
  have "ParseMsgAndPro plain_env (smp_tlv rs) (length (smp_tlv rs)) = Some [Msg_item 0 [0x43], Show_url [0x43]] \<and>
    ParseLogoff plain_env (smp_tlv rs) (length (smp_tlv rs)) = Some [] \<and>
    ParseLogoffOhers plain_env (smp_tlv rs) (length (smp_tlv rs)) = Some [] \<and>
    ParseModifyPWResult (smp_tlv rs) (length (smp_tlv rs)) = Some [Modify_result True (Some (written 14 [0x45] 1))] \<and>
    ParseDHCPAuthResult_ForSMP plain_env (smp_tlv rs) (length (smp_tlv rs)) = Some [Dhcp_result False None, Auth_result False]"
    using smp_lengths_lag [OF rs, of plain_env] unfolding found
    by (simp add: msg_record_def logoff_record_def others_record_def result_record_def show_results_def plain_gbk byte_at_def)
      (simp add: plain_env_def)
  then show ?thesis by (simp only: Let_def rs_def [symmetric])
qed

lemma smp_records_single:
  assumes "length d < 2 ^ 16"
  shows "smp_records f (smp_tlv [(t, d)]) (length (smp_tlv [(t, d)])) 0 0 s = f t 0 0 s"
proof -
  have n: "unat (of_nat (length d) :: u16) = length d" using assms by (simp add: unat_of_nat_small)
  define m where "m = smp_tlv [(t, d)]"
  have m: "be16_at m 1 = Some (of_nat (length d))" "length m = length d + 3" "byte_at m 0 = Some t"
    using be16_at_mid [of 1 "[t]" "of_nat (length d)" d] by (simp_all add: m_def len_simps byte_at_def)
  have "smp_records f m (length d + 3) (length d + 3) (length d) s' = Some s'" for s'
    by (subst smp_records.simps) simp
  with m n show ?thesis
    unfolding m_def [symmetric] by (subst smp_records.simps) (cases "f t 0 0 s"; simp)
qed

lemma AnalyzePrivate_SMP_records:
  assumes "command \<noteq> 1" and "4 + length (smp_tlv rs) < 2 ^ 32"
  shows "AnalyzePrivate_SMP e ([1, 0, 1, command] @ smp_tlv rs) (of_nat (4 + length (smp_tlv rs))) =
    smp_parser e command (smp_tlv rs) (length (smp_tlv rs))"
proof -
  have "be16_at ([1] @ bytes_be16 1 @ command # smp_tlv rs) 1 = Some 1" by (rule be16_at_mid) simp
  then have "be16_at ([1, 0, 1, command] @ smp_tlv rs) 1 = Some 1" by (simp add: bytes_be16_def bytes_le16_def)
  moreover have "unat (of_nat (4 + length (smp_tlv rs)) - 4 :: u32) = length (smp_tlv rs)"
    using assms(2) by (simp add: unat_of_nat_small)
  ultimately show ?thesis using assms(1) by (simp add: AnalyzePrivate_SMP_def byte_at_def)
qed

lemma smp_records_first:
  assumes "f t 0 0 s = None"
  shows "smp_records f (smp_tlv ((t, d) # rs)) (length (smp_tlv ((t, d) # rs))) 0 0 s = None"
proof -
  have "byte_at (smp_tlv ((t, d) # rs)) 0 = Some t" "3 \<le> length (smp_tlv ((t, d) # rs))"
    by (simp_all add: byte_at_def len_simps)
  then show ?thesis using assms by (subst smp_records.simps) (simp del: smp_tlv.simps)
qed

text \<open>
  C23: the first text of a message of SMP is lost. A notice or an address at the start of a message, with
  whatever records behind it, is converted as no bytes at all, which reads an array of length 0 as a string,
  so that the client reads memory that it does not own; a message of one record that logs the user off comes
  without its reason; and the user whose logoff is simulated by a message of one record is the empty one.
\<close>

theorem smp_texts_lost:
  assumes "t \<in> {0x15, 0x17}" and "length (smp_tlv ((t, notice) # rs)) < 2 ^ 31" and "length d < 2 ^ 16"
    and "sv_ctrl e" and "sv_post e"
  shows "AnalyzePrivate_SMP e ([1, 0, 1, 2] @ smp_tlv ((t, notice) # rs)) (of_nat (4 + length (smp_tlv ((t, notice) # rs)))) = None \<and>
    AnalyzePrivate_SMP e ([1, 0, 1, 3] @ smp_tlv [(0x1F, d)]) (of_nat (7 + length d)) = Some [Do_force_offline None 0] \<and>
    AnalyzePrivate_SMP e ([1, 0, 1, 7] @ smp_tlv [(0x47, d)]) (of_nat (7 + length d)) = Some [Simulate_logoff []]"
proof -
  have first: "read_at (smp_tlv ((t, d) # rs)) 3 0 = Some []" for t d rs by (simp add: read_at_def len_simps)
  have "msg_case e (smp_tlv ((t, notice) # rs)) t 0 0 (False, [], False, []) = None"
    using assms(1) first [of t notice rs] by (auto simp: msg_case_def simp del: smp_tlv.simps)
  then have "AnalyzePrivate_SMP e ([1, 0, 1, 2] @ smp_tlv ((t, notice) # rs)) (of_nat (4 + length (smp_tlv ((t, notice) # rs)))) = None"
    using AnalyzePrivate_SMP_records [of 2 "(t, notice) # rs" e] assms(2) smp_records_first [where f = "msg_case e (smp_tlv ((t, notice) # rs))"]
    by (simp add: smp_parser_def ParseMsgAndPro_def del: smp_tlv.simps)
  moreover have len: "4 + length (smp_tlv [(t, d)]) = 7 + length d" for t by (simp add: len_simps)
  have read: "AnalyzePrivate_SMP e ([1, 0, 1, command] @ smp_tlv [(t, d)]) (of_nat (7 + length d)) =
      smp_parser e command (smp_tlv [(t, d)]) (length (smp_tlv [(t, d)]))" if "command \<noteq> 1" for command t
    using AnalyzePrivate_SMP_records [OF that, of "[(t, d)]" e, unfolded len] assms(3) by simp
  have some: "length (smp_tlv [(t, d)]) \<noteq> 0" for t by (simp add: len_simps)
  have "AnalyzePrivate_SMP e ([1, 0, 1, 3] @ smp_tlv [(0x1F, d)]) (of_nat (7 + length d)) = Some [Do_force_offline None 0]"
    using assms(4,5) some read [of 3 "0x1F"]
    by (simp add: smp_records_single [OF assms(3)] smp_parser_def ParseLogoff_def logoff_case_def del: smp_tlv.simps)
  moreover have "AnalyzePrivate_SMP e ([1, 0, 1, 7] @ smp_tlv [(0x47, d)]) (of_nat (7 + length d)) = Some [Simulate_logoff []]"
    using assms(4,5) some first [of "0x47" d "[]"] read [of 7 "0x47"]
    by (simp add: smp_records_single [OF assms(3)] smp_parser_def ParseLogoffOhers_def logoff_others_case_def to_ctrl_def del: smp_tlv.simps)
  ultimately show ?thesis by blast
qed

theorem smp_texts_lost_witness:
  "AnalyzePrivate_SMP plain_env ([1, 0, 1, 2] @ smp_tlv [(0x15, [0x41, 0x42]), (0x16, [])])
     (of_nat (4 + length (smp_tlv [(0x15, [0x41, 0x42]), (0x16, [])]))) = None \<and>
   AnalyzePrivate_SMP plain_env ([1, 0, 1, 3] @ smp_tlv [(0x1F, [0x41, 0x42])]) (of_nat (7 + length [0x41 :: byte, 0x42])) =
     Some [Do_force_offline None 0] \<and>
   AnalyzePrivate_SMP plain_env ([1, 0, 1, 7] @ smp_tlv [(0x47, [0x41, 0x42])]) (of_nat (7 + length [0x41 :: byte, 0x42])) =
     Some [Simulate_logoff []]"
  by (rule smp_texts_lost) (simp_all add: plain_env_def len_simps)

subsection \<open>What a message of SAM does\<close>

fun sam_tlv :: "(byte \<times> byte list) list \<Rightarrow> byte list" where
  "sam_tlv [] = []"
| "sam_tlv ((t, d) # rs) = t # of_nat (length d) # d @ sam_tlv rs"

lemma byte_at_Cons [simp]:
  "byte_at (x # xs) 0 = Some x" "byte_at (x # xs) (Suc i) = byte_at xs i" "byte_at (x # xs) (numeral k) = byte_at xs (pred_numeral k)"
  by (simp_all add: byte_at_def numeral_eq_Suc)

lemma sam_loop_end: "buflen \<le> pos \<Longrightarrow> sam_loop e buf buflen pos evs = Some (Some evs)"
  by (subst sam_loop.simps) simp

text \<open>
  C11: the four commands of SAM that carry a text of up to 255 bytes are carried out, once and with the
  whole text.
\<close>

theorem sam_commands_handled:
  assumes "command \<in> {1, 3, 5, 7}" and "length d < 256"
  shows "AnalyzePrivate_SAM e (sam_tlv [(1, [command]), (command + 1, d)]) (of_nat (5 + length d)) = Some (sam_command e 0 command d)"
proof -
  have n: "unat (of_nat (length d) :: byte) = length d" "unat (of_nat (5 + length d) :: u32) = 5 + length d"
    using assms(2) by (simp_all add: unat_of_nat_small del: of_nat_add)
  define m where "m = sam_tlv [(1, [command]), (command + 1, d)]"
  have m: "byte_at m 0 = Some 1" "byte_at m 1 = Some 1" "byte_at m (Suc (Suc 0)) = Some command" "byte_at m 3 = Some (command + 1)"
      "byte_at m 4 = Some (of_nat (length d))" "read_at m 5 (length d) = Some d"
    by (simp_all add: m_def read_at_def numeral_eq_Suc)
  have "command + 1 \<noteq> 1" using assms(1) by auto
  then have second: "sam_case e m buflen 3 = Some ([], 3, True)" for buflen using m by (simp add: sam_case_def)
  have first: "sam_case e m buflen 0 = map_option (\<lambda>evs. (evs, 0, True)) (sam_command e 0 command d)" for buflen
    using m n assms(1) by (simp add: sam_case_def)
  have "sam_loop e m (5 + length d) 3 evs = Some (Some evs)" for evs
    using second m n by (subst sam_loop.simps) (simp add: sam_loop_end)
  then have "sam_loop e m (5 + length d) 0 [] = Some (sam_command e 0 command d)"
    using first m by (subst sam_loop.simps) (cases "sam_command e 0 command d"; simp add: numeral_3_eq_3)
  then show ?thesis by (simp only: AnalyzePrivate_SAM_def n(2) m_def)
qed

theorem sam_commands_handled_witness:
  "AnalyzePrivate_SAM plain_env (sam_tlv [(1, [1]), (2, [0x41, 0x42])]) 7 = Some (Some [Msg_item 5 [0x41, 0x42], Show_notify [0x41, 0x42]])"
  using sam_commands_handled [of 1 "[0x41, 0x42]" plain_env] by (simp add: sam_command_def plain_gbk del: sam_tlv.simps)

















end
