(* ===== verification/Control_Packets.thy ===== *)
theory Control_Packets
  imports Server_Messages Client_Md5 Su_Des Eapol_Parse
begin

text \<open>
  Packets from the network: the callback of \<open>tuanzi/src/rxpacketthread.cpp\<close>, and what the control thread does
  with a packet, \<open>OnPacketReturn\<close> of \<open>contextcontrolthread.cpp\<close>: the tests of its addresses, the encrypted and the plain messages
  of SAM, and the frames that go to the state machine; and the reasons of a logoff. \<open>None\<close> is an access
  outside of the packet, or of a string without an end.
\<close>

subsection \<open>Packets from the network\<close>

text \<open>
  The callback of the receiving thread, \<open>CRxPacketThread::RecvPacketCallBack\<close> of \<open>rxpacketthread.cpp\<close>, with
  the number of captured bytes and the memory that it gets: the messages that it posts, each the
  queue, the kind, the length and the packet. The kind of a packet for the control thread is also
  \<open>PACKET_RETURN_MTYPE\<close>, which that thread hands to \<open>OnPacketReturn\<close>.
\<close>

record rx_msgids =
  direct_msgid :: int
  proxy_msgid :: int
  main_msgid :: int

definition rx_msgids_new :: rx_msgids where
  "rx_msgids_new = \<lparr>direct_msgid = -1, proxy_msgid = -1, main_msgid = -1\<rparr>"

definition RECV_PAE_PACKET_MTYPE :: nat where "RECV_PAE_PACKET_MTYPE = 0x6B"
definition RECV_PACKET_RETURN_MTYPE :: nat where "RECV_PACKET_RETURN_MTYPE = 0x7D1"

datatype rx_post = Rx_post int nat u32 "byte list"

definition RecvPacketCallBack :: "byte list \<Rightarrow> rx_msgids \<Rightarrow> u32 \<Rightarrow> byte list \<Rightarrow> rx_post list option" where
  "RecvPacketCallBack mac msgids caplen bytes =
     (if caplen < 14 then Some []
      else let alloc_size = max caplen 1999 in do {
        pkg \<leftarrow> read_at bytes 0 (unat alloc_size);
        let dst = take 6 pkg;
        let src = take 6 (drop 6 pkg);
        ether_type \<leftarrow> be16_at pkg 12;
        if ether_type = ETH_P_PAE
        then Some (if \<not> IsLoopBack mac src then [Rx_post (main_msgid msgids) RECV_PAE_PACKET_MTYPE alloc_size pkg] else [])
        else do {
          protocol \<leftarrow> byte_at pkg 23;
          Some ((if proxy_msgid msgids \<noteq> -1 then [Rx_post (proxy_msgid msgids) RECV_PACKET_RETURN_MTYPE alloc_size pkg] else []) @
            (if ether_type = 0x0800 \<and> protocol = 17 \<and> direct_msgid msgids \<noteq> -1 \<and> \<not> IsLoopBack mac src \<and> \<not> IsHostDstMac mac dst
             then [Rx_post (direct_msgid msgids) RECV_PACKET_RETURN_MTYPE alloc_size pkg] else []))
        }
      })"

subsection \<open>The interface and the switch\<close>

record auth_kind =
  ak_eap_type :: byte
  ak_if_type :: u32
  ak_ruijie_nas :: bool

definition EAP_TYPE_INVALID :: byte where "EAP_TYPE_INVALID = 0"
definition EAP_TYPE_MD5 :: byte where "EAP_TYPE_MD5 = 4"

definition IS_EAP_TYPE :: "auth_kind \<Rightarrow> byte \<Rightarrow> bool" where
  "IS_EAP_TYPE k t \<longleftrightarrow> ak_eap_type k = t"

definition IS_WIRED :: "auth_kind \<Rightarrow> byte \<Rightarrow> bool" where
  "IS_WIRED k t \<longleftrightarrow>
     (if t = EAP_TYPE_INVALID then ak_if_type k = 1
      else if ak_if_type k = 1 then ak_eap_type k = t else False)"

definition IS_WLAN :: "auth_kind \<Rightarrow> byte \<Rightarrow> bool" where
  "IS_WLAN k t \<longleftrightarrow>
     (if t = EAP_TYPE_INVALID then ak_if_type k = 2
      else if ak_if_type k = 2 then ak_eap_type k = t else False)"

definition IsRuijieNas :: "auth_kind \<Rightarrow> bool" where
  "IsRuijieNas k \<longleftrightarrow> (if IS_WIRED k EAP_TYPE_MD5 then ak_ruijie_nas k else False)"

subsection \<open>Reasons of a logoff\<close>

text \<open>The values of \<open>enum LOGOFF_REASON\<close>; the enumeration is an \<open>unsigned\<close>.\<close>

definition LOGOFF_REASONS :: "u32 list" where
  "LOGOFF_REASONS = [0, 1, 2, 3, 4, 6, 8, 17, 20, 25, 26, 27, 28, 102, 103, 104, 106, 108, 117, 120, 125, 126, 127, 128,
     1001, 1002, 1003, 1004, 1005, 1006, 1007, 1008, 2000]"

definition ModifyLogoffReason :: "auth_kind \<Rightarrow> u32 \<Rightarrow> u32" where
  "ModifyLogoffReason k reason =
     (let reason =
        (if reason = 1006 then 102
         else if reason = 1004 then 117
         else if reason = 1007 \<or> reason = 1008 then 103
         else if reason = 1001 \<or> reason = 1002 \<or> reason = 1003 \<or> reason = 1005 then 1
         else reason)
      in if IsRuijieNas k \<and> reason \<noteq> 1 then reason - 100 else reason)"

subsection \<open>Messages of SAM in packets\<close>

text \<open>
  What \<open>ConvertUtf8ToGBK\<close> leaves in an array of 128 zeros, for a name and the length that it is told, an
  \<open>int\<close>: the length of the name when there is an \<open>@\<close> in it, and otherwise \<open>npos\<close>.
\<close>

record packet_env =
  pe_mac :: "byte list"
  pe_username :: "byte list"
  pe_gbk_array :: "byte list \<Rightarrow> int \<Rightarrow> byte list"
  pe_chal :: "byte list"
  pe_fresh :: EAPOLFrame
  pe_conv :: conversions
  pe_server :: server_env
  pe_machine :: bool

definition girls :: "byte list" where
  "girls = map of_char ''all pretty girls love linym''"

definition ssam_name :: "packet_env \<Rightarrow> byte list option" where
  "ssam_name e = c_string (pe_gbk_array e (pe_username e) (if 0x40 \<in> set (pe_username e) then int (length (pe_username e)) else -1))"

definition CheckSSAMessPacket :: "'u::len itself \<Rightarrow> packet_env \<Rightarrow> byte list \<Rightarrow> nat \<Rightarrow> bool option" where
  "CheckSSAMessPacket u e buf buflen =
     (if buflen < 32 then Some False
      else do {
        data \<leftarrow> read_at buf 0 (buflen - 16);
        name \<leftarrow> ssam_name e;
        md5_buf \<leftarrow> md5_digest (md5_zeroed :: 'u word MD5_CTX) [data, name, girls];
        sent \<leftarrow> read_at buf (buflen - 16) 16;
        Some (sent = md5_buf)
      })"

definition ssam_deskey :: "byte list" where
  "ssam_deskey = map of_char ''womendou''"

definition ssam_xorkey :: "byte list" where
  "ssam_xorkey = map of_char ''LiuBin&U''"

fun ssam_blocks :: "'u::len word des_keys \<Rightarrow> byte list \<Rightarrow> nat \<Rightarrow> nat \<Rightarrow> byte list \<Rightarrow> byte list option" where
  "ssam_blocks st xorkey 0 pos buf = Some buf"
| "ssam_blocks st xorkey (Suc n) pos buf = do {
     tmpibuf \<leftarrow> read_at buf pos 8;
     buf \<leftarrow> store_at buf pos (map2 (XOR) (des st tmpibuf) xorkey);
     ssam_blocks st tmpibuf n (pos + 8) buf
   }"

definition SSAMessPrivParse :: "'u::len word des_keys \<Rightarrow> byte list \<Rightarrow> u32 \<Rightarrow> (bool \<times> byte list) option" where
  "SSAMessPrivParse st buf buflen =
     (let buflen = buflen - 25 in
      if buflen AND 7 \<noteq> 0 then Some (False, buf)
      else map_option (Pair True) (ssam_blocks (deskey st ssam_deskey DE1) ssam_xorkey (unat (drop_bit 3 buflen)) 25 buf))"

definition GetSAMMessBuff :: "'u::len itself \<Rightarrow> packet_env \<Rightarrow> byte list \<Rightarrow> nat \<Rightarrow> byte list option" where
  "GetSAMMessBuff u e buf buflen =
     (if buflen \<le> 295 then Some []
      else do {
        head \<leftarrow> read_at buf 22 3;
        if head \<noteq> [0x1C, 0x03, 0x08] then Some []
        else do {
          data \<leftarrow> read_at buf 0 (buflen - 16);
          md5_buf \<leftarrow> md5_digest (md5_zeroed :: 'u word MD5_CTX) [data, pe_chal e];
          sent \<leftarrow> read_at buf (buflen - 16) 16;
          if sent \<noteq> md5_buf then Some []
          else do {
            text \<leftarrow> c_string (drop 27 buf);
            sv_gbk (pe_server e) 27 text
          }
        }
      })"

subsection \<open>Packets\<close>

text \<open>What becomes of the packet; \<open>Pkt_decrypted\<close> is kept by nobody, and neither is \<open>Pkt_leaked\<close>.\<close>

datatype packet_result =
    Pkt_leaked
  | Pkt_deleted
  | Pkt_decrypted "byte list"
  | Pkt_shown "server_event list"
  | Pkt_frame EAPOLFrame

definition ruijie_macs :: "byte list list" where
  "ruijie_macs = [[0x14, 0x14, 0x4B], [0x58, 0x69, 0x6C], [0x00, 0xD0, 0xF8], [0x00, 0x1A, 0xA9]]"

definition packet_message :: "'u::len word des_keys \<Rightarrow> packet_env \<Rightarrow> byte list \<Rightarrow> u32 \<Rightarrow> EAPOLFrame \<Rightarrow> packet_result option" where
  "packet_message st e pkt n fr =
     (if ef_packet_type fr = 0xC0 then do {
        good \<leftarrow> CheckSSAMessPacket TYPE('u) e pkt (unat n);
        if \<not> good then Some Pkt_deleted
        else do {
          (ok, pkt) \<leftarrow> SSAMessPrivParse st pkt n;
          Some (if ok then Pkt_decrypted pkt else Pkt_deleted)
        }
      }
      else if ef_packet_type fr = 0xBF then do {
        msgbuf \<leftarrow> GetSAMMessBuff TYPE('u) e pkt (unat n);
        Some (if msgbuf = [] then Pkt_deleted else Pkt_shown [Msg_item 5 msgbuf, Show_notify msgbuf])
      }
      else Some (if pe_machine e then Pkt_frame fr else Pkt_deleted))"

definition OnPacketReturn ::
  "'u::len word des_keys \<Rightarrow> packet_env \<Rightarrow> auth_kind \<Rightarrow> ctrl_state \<Rightarrow> u32 \<Rightarrow> byte list \<Rightarrow> (auth_kind \<times> ctrl_state \<times> packet_result) option" where
  "OnPacketReturn st e k s n pkt =
     (if \<not> IS_WIRED k EAP_TYPE_MD5 then Some (k, s, Pkt_leaked)
      else if n \<le> 13 then Some (k, s, Pkt_deleted)
      else do {
        src \<leftarrow> read_at pkt 6 6;
        dst \<leftarrow> read_at pkt 0 6;
        if IsLoopBack (pe_mac e) src then Some (k, s, Pkt_deleted)
        else if \<not> IsHostDstMac (pe_mac e) dst \<and> \<not> Is8021xGroupAddr dst \<and> \<not> IsStarGroupDstMac dst then Some (k, s, Pkt_deleted)
        else do {
          code \<leftarrow> byte_at pkt 18;
          let k = (if code = 1 then k\<lparr>ak_ruijie_nas := take 3 src \<in> set ruijie_macs\<rparr> else k);
          (s, frame) \<leftarrow> ChangeToEAPOLFrame (pe_conv e) (IsRuijieNas k) (pe_mac e) (pe_fresh e) pkt (unat n) s;
          case frame of
            None \<Rightarrow> Some (k, s, Pkt_leaked)
          | Some fr \<Rightarrow> map_option (\<lambda>r. (k, s, r)) (packet_message st e pkt n fr)
        }
      })"

subsection \<open>What becomes of received packets\<close>

lemma packet_too_long:
  assumes "OnPacketReturn st e k s n pkt = Some (k', s', r)" and "1514 < n"
  shows "s' = s \<and> r \<in> {Pkt_leaked, Pkt_deleted}"
proof -
  have "1514 < unat n" using assms(2) by (simp add: word_less_nat_alt)
  then have "ChangeToEAPOLFrame v nas mac fresh pkt (unat n) s = Some (s, None)" for v nas mac fresh
    by (simp add: ChangeToEAPOLFrame_def)
  then show ?thesis using assms(1) by (auto simp: OnPacketReturn_def Let_def split: if_splits bind_splits)
qed

text \<open>
  C9: no packet that the receiving thread hands on gets anywhere. The length of a packet is not the number
  of captured bytes but 1999 at least, more than \<open>ChangeToEAPOLFrame\<close> takes, so that the control thread makes
  no frame of an EAPOL packet and shows no message; and a UDP packet goes to the thread of the direct
  transfer only when it is addressed to another machine.
\<close>

theorem received_packets_lost:
  assumes "RecvPacketCallBack mac msgids caplen bytes = Some posts" and "Rx_post i kind n pkg \<in> set posts"
  shows "(OnPacketReturn st e k s n pkg = Some (k', s', r) \<longrightarrow> s' = s \<and> r \<in> {Pkt_leaked, Pkt_deleted}) \<and>
    (i = direct_msgid msgids \<and> i \<noteq> main_msgid msgids \<and> i \<noteq> proxy_msgid msgids \<longrightarrow> take 6 pkg \<noteq> mac)"
proof -
  have n: "n = max caplen 1999" using assms by (auto simp: RecvPacketCallBack_def Let_def split: if_splits bind_splits)
  have "(1514 :: u32) < 1999" by simp
  then have "1514 < n" unfolding n by (rule less_max_iff_disj [THEN iffD2, OF disjI2])
  moreover have "take 6 pkg \<noteq> mac" if "i = direct_msgid msgids" "i \<noteq> main_msgid msgids" "i \<noteq> proxy_msgid msgids"
    using assms that by (auto simp: RecvPacketCallBack_def Let_def IsHostDstMac_def split: if_splits bind_splits)
  ultimately show ?thesis using packet_too_long by blast
qed

text \<open>The request for the identity of \<open>Eapol_Parse\<close>, as it comes from the network.\<close>

definition identity_memory :: "byte list" where
  "identity_memory = identity_request @ replicate 1974 0"

definition packet_env_example :: packet_env where
  "packet_env_example = \<lparr>pe_mac = replicate 6 2, pe_username = [0x61, 0x40], pe_gbk_array = (\<lambda>s n. s @ replicate (128 - length s) 0),
     pe_chal = replicate 16 0, pe_fresh = frame_example, pe_conv = plain_conversions, pe_server = plain_env, pe_machine = True\<rparr>"

definition wired_md5 :: auth_kind where
  "wired_md5 = \<lparr>ak_eap_type = 4, ak_if_type = 1, ak_ruijie_nas = False\<rparr>"

lemma IS_WIRED_wired_md5: "IS_WIRED wired_md5 EAP_TYPE_MD5"
  by (simp add: IS_WIRED_def wired_md5_def EAP_TYPE_MD5_def EAP_TYPE_INVALID_def)

theorem received_packets_lost_witness:
  "RecvPacketCallBack (replicate 6 2) (rx_msgids_new\<lparr>main_msgid := 7\<rparr>) 25 identity_memory = Some [Rx_post 7 0x6B 1999 identity_memory] \<and>
   (\<exists>k r. OnPacketReturn (\<lparr>KnL = [], KnR = [], Kn3 = []\<rparr> :: u64 des_keys) packet_env_example wired_md5 ctrl_example 1999 identity_memory = Some (k, ctrl_example, r) \<and>
     r \<in> {Pkt_leaked, Pkt_deleted})"
proof -
  have len: "length identity_request = 25" "length identity_memory = 1999" by (simp_all add: identity_memory_def identity_request_def)
  have front: "take 6 identity_memory = replicate 6 2" "take 6 (drop 6 identity_memory) = replicate 6 3" "be16_at identity_memory 12 = Some ETH_P_PAE"
      "byte_at identity_memory 18 = Some 1"
    using identity_fields by (simp_all add: identity_memory_def read_at_def be16_at_def byte_at_def nth_append len(1))
  have "max 25 1999 = (1999 :: u32)" by (simp add: max_def)
  then have rx: "RecvPacketCallBack (replicate 6 2) (rx_msgids_new\<lparr>main_msgid := 7\<rparr>) 25 identity_memory = Some [Rx_post 7 0x6B 1999 identity_memory]"
    using front len by (simp add: RecvPacketCallBack_def IsLoopBack_def RECV_PAE_PACKET_MTYPE_def rx_msgids_new_def read_at_def)
  have "\<exists>k. OnPacketReturn (\<lparr>KnL = [], KnR = [], Kn3 = []\<rparr> :: u64 des_keys) packet_env_example wired_md5 ctrl_example 1999 identity_memory =
      Some (k, ctrl_example, Pkt_leaked)"
    using front len IS_WIRED_wired_md5
    by (simp add: OnPacketReturn_def packet_env_example_def IsLoopBack_def IsHostDstMac_def ChangeToEAPOLFrame_def read_at_def Let_def)
  with rx show ?thesis
    using received_packets_lost [OF rx, of 7 "0x6B" 1999 identity_memory "\<lparr>KnL = [], KnR = [], Kn3 = []\<rparr> :: u64 des_keys" packet_env_example] by auto
qed

subsection \<open>Encrypted messages of SAM\<close>

lemma store_at_append: "length new = length old \<Longrightarrow> store_at (pre @ old @ post) (length pre) new = Some (pre @ new @ post)"
  by (simp add: store_at_def memcpy_def)

lemma ssam_blocks_decrypt:
  "length xorkey = 8 \<Longrightarrow> length body = 8 * n \<Longrightarrow>
     ssam_blocks st xorkey n (length pre) (pre @ body @ post) = Some (pre @ decrypt_blocks st xorkey n body @ post)"
proof (induction n arbitrary: xorkey body pre)
  case (Suc n)
  define b where "b = take 8 body"
  have b: "length b = 8" "body = b @ drop 8 body" using Suc.prems(2) by (simp_all add: b_def)
  let ?plain = "map2 (XOR) (des st b) xorkey"
  have plain: "length ?plain = 8" using Suc.prems(1) by (simp add: len_simps)
  have "read_at (pre @ body @ post) (length pre) 8 = Some b"
    using read_at_mid [of "length pre" pre 8 b "drop 8 body @ post"] b by (metis append_assoc)
  moreover have "store_at (pre @ body @ post) (length pre) ?plain = Some ((pre @ ?plain) @ drop 8 body @ post)"
    using store_at_append [of ?plain b pre "drop 8 body @ post"] b plain by (metis append_assoc)
  moreover have "ssam_blocks st b n (length pre + 8) ((pre @ ?plain) @ drop 8 body @ post) =
      Some ((pre @ ?plain) @ decrypt_blocks st b n (drop 8 body) @ post)"
    using Suc.IH [of b "drop 8 body" "pre @ ?plain"] Suc.prems(2) b(1) plain by simp
  ultimately show ?case by (simp add: b_def Let_def)
qed simp

lemma encrypt_blocks_append:
  "8 * n \<le> length a \<Longrightarrow> encrypt_blocks st iv n (a @ b) = encrypt_blocks st iv n a @ b"
  by (induction n arbitrary: iv a) (simp_all add: Let_def)

lemma decrypt_blocks_append:
  "length a = 8 * n \<Longrightarrow> \<exists>iv'. length iv = 8 \<longrightarrow> decrypt_blocks st iv (n + m) (a @ b) = decrypt_blocks st iv n a @ decrypt_blocks st iv' m b"
proof (induction n arbitrary: iv a)
  case (Suc n)
  then have "length (drop 8 a) = 8 * n" "length (take 8 a) = 8" by simp_all
  from Suc.IH [OF this(1), of "take 8 a"] this(2) show ?case by (auto simp: Let_def)
qed auto

lemma length_encrypt_blocks: "8 * n \<le> length a \<Longrightarrow> length (encrypt_blocks st iv n a) = length a"
  by (induction n arbitrary: iv a) (simp_all add: Let_def len_simps)

lemma length_decrypt_blocks: "8 * n \<le> length a \<Longrightarrow> length iv = 8 \<Longrightarrow> length (decrypt_blocks st iv n a) = length a"
  by (induction n arbitrary: iv a) (simp_all add: Let_def len_simps)

lemma SSAMessPrivParse_blocks:
  assumes "length pre = 25" and "length body = 8 * n" and "n < 2 ^ 25"
  shows "SSAMessPrivParse st (pre @ body) (of_nat (25 + 8 * n)) = Some (True, pre @ decrypt_blocks (deskey st ssam_deskey DE1) ssam_xorkey n body)"
proof -
  have n: "of_nat (25 + 8 * n) - 25 = (of_nat (8 * n) :: u32)" by simp
  have u: "unat (of_nat (8 * n) :: u32) = 8 * n" using assms(3) by (intro unat_of_nat_small) simp
  have "unat (of_nat (8 * n) AND 7 :: u32) = 0"
    by (simp only: mask_simps unsigned_take_bit_eq u) (simp add: take_bit_eq_mod)
  then have even: "of_nat (8 * n) AND 7 = (0 :: u32)" by (simp add: unat_eq_zero)
  have "unat (drop_bit 3 (of_nat (8 * n)) :: u32) = n" by (simp only: unat_drop_bit u) simp
  moreover have "length ssam_xorkey = 8" by (simp add: ssam_xorkey_def)
  ultimately show ?thesis
    using ssam_blocks_decrypt [of ssam_xorkey body n "deskey st ssam_deskey DE1" pre "[]"] assms(1,2) even
    by (simp only: SSAMessPrivParse_def n Let_def) simp
qed

text \<open>
  C20: the encrypted messages of SAM: a packet is taken exactly when it ends with the digest of what comes
  before it, the name of the user and the phrase of the protocol, and decrypting it gives back the blocks
  that were encrypted with the fixed key and vector, in place, whatever the key registers held. (The
  digest itself is decrypted too.)
\<close>

theorem ssam_message_opened:
  fixes st st' :: "'u::len word des_keys"
  assumes "32 \<le> LENGTH('u)" and "length pre = 25" and "length plain = 8 * n" and "n < 2 ^ 20"
    and "ssam_name e = Some name" and "length name < 2 ^ 29" and "length digest = 16"
    and "cipher = encrypt_blocks (deskey st' ssam_deskey EN0) ssam_xorkey n plain"
  shows "CheckSSAMessPacket TYPE('u) e (pre @ cipher @ digest) (41 + 8 * n) =
      Some (digest = md5_spec TYPE('u) (pre @ cipher @ name @ girls)) \<and>
    (\<exists>tail. length tail = 16 \<and> SSAMessPrivParse st (pre @ cipher @ digest) (of_nat (41 + 8 * n)) = Some (True, pre @ plain @ tail))"
proof
  have cipher: "length cipher = 8 * n" using assms(3,8) by (simp add: length_encrypt_blocks)
  have key: "length ssam_xorkey = 8" by (simp add: ssam_xorkey_def)
  have "length girls < 2 ^ 29" by (simp add: girls_def)
  then have "md5_digest (md5_zeroed :: 'u word MD5_CTX) [pre @ cipher, name, girls] = Some (md5_spec TYPE('u) (concat [pre @ cipher, name, girls]))"
    using assms(1,2,4,6) cipher by (intro md5_digest_of_chunks(1)) (simp_all add: md5_zeroed_def)
  moreover have "read_at (pre @ cipher @ digest) 0 (41 + 8 * n - 16) = Some (pre @ cipher)"
    "read_at (pre @ cipher @ digest) (41 + 8 * n - 16) 16 = Some digest"
    using assms(2,7) cipher by (simp_all add: read_at_def)
  ultimately show "CheckSSAMessPacket TYPE('u) e (pre @ cipher @ digest) (41 + 8 * n) =
      Some (digest = md5_spec TYPE('u) (pre @ cipher @ name @ girls))"
    using assms(5) by (simp add: CheckSSAMessPacket_def)
  obtain iv' where split: "decrypt_blocks (deskey st ssam_deskey DE1) ssam_xorkey (n + 2) (cipher @ digest) =
      decrypt_blocks (deskey st ssam_deskey DE1) ssam_xorkey n cipher @ decrypt_blocks (deskey st ssam_deskey DE1) iv' 2 digest"
    using decrypt_blocks_append [OF cipher, of ssam_xorkey "deskey st ssam_deskey DE1" 2 digest] key by blast
  define tail where "tail = decrypt_blocks (deskey st ssam_deskey DE1) iv' 2 digest"
  have "decrypt_blocks (deskey st ssam_deskey DE1) ssam_xorkey n cipher = plain"
    unfolding assms(8) by (rule decrypt_encrypt_blocks [OF assms(1) key]) (simp add: assms(3))
  with split have body: "decrypt_blocks (deskey st ssam_deskey DE1) ssam_xorkey (n + 2) (cipher @ digest) = plain @ tail" by (simp add: tail_def)
  have "length (decrypt_blocks (deskey st ssam_deskey DE1) ssam_xorkey (n + 2) (cipher @ digest)) = 8 * n + 16"
    using cipher assms(7) key by (subst length_decrypt_blocks) simp_all
  with body have "length tail = 16" using assms(3) by simp
  moreover have "41 + 8 * n = 25 + 8 * (n + 2)" by simp
  then have "SSAMessPrivParse st (pre @ cipher @ digest) (of_nat (41 + 8 * n)) = Some (True, pre @ plain @ tail)"
    using SSAMessPrivParse_blocks [OF assms(2), of "cipher @ digest" "n + 2" st] cipher assms(4,7) body by (simp only:) simp
  ultimately show "\<exists>tail. length tail = 16 \<and> SSAMessPrivParse st (pre @ cipher @ digest) (of_nat (41 + 8 * n)) = Some (True, pre @ plain @ tail)"
    by blast
qed

theorem ssam_message_opened_witness:
  "\<exists>cipher tail. length tail = 16 \<and>
     SSAMessPrivParse (\<lparr>KnL = [], KnR = [], Kn3 = []\<rparr> :: u64 des_keys) (replicate 25 0 @ cipher @ replicate 16 0) 49 =
       Some (True, replicate 25 0 @ replicate 8 0x41 @ tail)"
proof -
  define cipher where "cipher = encrypt_blocks (deskey (\<lparr>KnL = [], KnR = [], Kn3 = []\<rparr> :: u64 des_keys) ssam_deskey EN0) ssam_xorkey 1 (replicate 8 0x41)"
  have "ssam_name packet_env_example = Some [0x61, 0x40]"
    by (simp add: ssam_name_def packet_env_example_def) (simp add: c_string_def)
  then show ?thesis
    using ssam_message_opened [OF _ _ _ _ _ _ _ cipher_def, of "replicate 25 0" packet_env_example "[0x61, 0x40]" "replicate 16 0"
      "\<lparr>KnL = [], KnR = [], Kn3 = []\<rparr>"] by auto
qed

subsection \<open>What a logoff is reported as\<close>

text \<open>
  The reasons that have a counterpart for the switches of Ruijie are 101 to 199; the code subtracts 100
  from all others too, except from the normal logoff, and leaves the enumeration with them.
\<close>

lemma logoff_reason_in_enumeration:
  assumes "reason \<in> set LOGOFF_REASONS"
  shows "ModifyLogoffReason k reason \<in> set LOGOFF_REASONS \<longleftrightarrow>
    \<not> IsRuijieNas k \<or> reason \<notin> {0, 2, 3, 4, 6, 8, 17, 20, 25, 26, 27, 28, 2000}"
proof -
  have "list_all (\<lambda>r. ModifyLogoffReason k r \<in> set LOGOFF_REASONS \<longleftrightarrow>
      \<not> IsRuijieNas k \<or> r \<notin> {0, 2, 3, 4, 6, 8, 17, 20, 25, 26, 27, 28, 2000}) LOGOFF_REASONS"
    by (cases "IsRuijieNas k") (simp_all add: ModifyLogoffReason_def LOGOFF_REASONS_def)
  then show ?thesis using assms by (simp add: list_all_iff)
qed

end
