(* ===== verification/Server_Requests.thy ===== *)
theory Server_Requests
  imports Dir_Send Eapol_Build Control_Packets
begin

text \<open>
  What the client sends to the servers: the heartbeats and the request for the data of SMP
  (\<open>tuanzi/src/directtransrv.cpp\<close>) and the user information after an authentication by DHCP
  (\<open>contextcontrolthread.cpp\<close>), written with macros into arrays of fixed sizes and queued in the object of
  \<open>Dir_Send\<close>. \<open>None\<close> is an access outside of an array. Functions that wait for an answer are modelled up to
  the wait; what they do with the answer is an argument or a definition of its own.
\<close>

subsection \<open>Heartbeats\<close>

record tagDirectTranSrvPara =
  sam_username :: "byte list"
  sam_su_ipaddr :: u32
  sam_adapter_mac :: "byte list"
  sam_ipaddr :: u32
  sam_port :: u32
  sam_su_port :: u32

record tagSmpParaDir =
  smp_username :: "byte list"
  smp_su_ipaddr :: u32
  smp_diskid :: "byte list"
  smp_diskid_len :: u32
  smp_server_ipaddr :: u32
  smp_port :: u32
  smp_su_port :: u32
  smp_hello_response :: bool
  smp_hello_fail_time :: u32
  smp_success :: bool

text \<open>A sender that is open is closed before a new one is opened; \<open>quick\<close> is that of \<^const>\<open>CloseGSNSender\<close>.\<close>

definition reopen :: "nat list \<Rightarrow> u32 \<Rightarrow> u32 \<Rightarrow> u32 \<Rightarrow> u32 \<Rightarrow> u32 \<Rightarrow> dir_tran_thread \<Rightarrow> (u32 \<times> dir_tran_thread \<times> dir_action list) option" where
  "reopen quick ident srcaddr srcport dstaddr dstport s = do {
     (s, answers) \<leftarrow> (if ident \<noteq> -1 then CloseGSNSender quick ident s else Some (s, []));
     let (ident, s) = GSNSender srcaddr srcport dstaddr dstport s;
     Some (ident, s, answers @ [Opened ident])
   }"

definition reopen_sam :: "nat list \<Rightarrow> tagDirectTranSrvPara \<Rightarrow> u32 \<Rightarrow> dir_tran_thread \<Rightarrow> (u32 \<times> dir_tran_thread \<times> dir_action list) option" where
  "reopen_sam quick p ident = reopen quick ident (sam_su_ipaddr p) (sam_su_port p) (sam_ipaddr p) (sam_port p)"

definition reopen_smp :: "nat list \<Rightarrow> tagSmpParaDir \<Rightarrow> u32 \<Rightarrow> dir_tran_thread \<Rightarrow> (u32 \<times> dir_tran_thread \<times> dir_action list) option" where
  "reopen_smp quick p ident = reopen quick ident (smp_su_ipaddr p) (smp_su_port p) (smp_server_ipaddr p) (smp_port p)"

definition sam_heartbeat :: "tagDirectTranSrvPara \<Rightarrow> (byte list \<times> nat) option" where
  "sam_heartbeat p = do {
     name \<leftarrow> c_string (sam_username p);
     emit (replicate 1024 0) 0 ([1, 1, 2, 3, of_nat (length name)] @ name @ [4, 4] @ bytes_le32 (sam_su_ipaddr p) @ [5, 6] @ sam_adapter_mac p)
   }"

definition HandshakeToSAM ::
  "'u::len word dir_env \<Rightarrow> nat list \<Rightarrow> tagDirectTranSrvPara \<Rightarrow> u32 \<Rightarrow> dir_tran_thread \<Rightarrow> (u32 \<times> dir_tran_thread \<times> dir_action list) option" where
  "HandshakeToSAM e quick p ident s = do {
     (ident, s, acts) \<leftarrow> reopen_sam quick p ident s;
     (handshake_buf, cur_pos) \<leftarrow> sam_heartbeat p;
     (_, s) \<leftarrow> PostPacketSAMHeartbeatNoResponse e ident handshake_buf (of_nat cur_pos) s;
     Some (ident, s, acts)
   }"

text \<open>The message of the heartbeat to SMP is also the one that asks for the initial data, with another command.\<close>

definition smp_request :: "byte \<Rightarrow> tagSmpParaDir \<Rightarrow> (byte list \<times> nat) option" where
  "smp_request command p = do {
     name \<leftarrow> c_string (smp_username p);
     diskid \<leftarrow> read_at (smp_diskid p) 0 (unat (smp_diskid_len p));
     emit (replicate 1024 0) 0 ([1] @ bytes_be16 1 @ [command, 2] @ bytes_be16 (of_nat (length name)) @ name @
       [3] @ bytes_be16 (of_nat (length diskid)) @ diskid)
   }"

definition HandshakeToSMP ::
  "'u::len word dir_env \<Rightarrow> nat list \<Rightarrow> nat \<Rightarrow> tagSmpParaDir \<Rightarrow> u32 \<Rightarrow> dir_tran_thread \<Rightarrow> (u32 \<times> dir_tran_thread \<times> dir_action list) option" where
  "HandshakeToSMP e quick h p ident s = do {
     (ident, s, acts) \<leftarrow> reopen_smp quick p ident s;
     (handshake_buf, cur_pos) \<leftarrow> smp_request 35 p;
     (_, s) \<leftarrow> (if \<not> smp_hello_response p then PostPacketNoResponse e ident handshake_buf (of_nat cur_pos) s
       else sendMessage e h ident handshake_buf (of_nat cur_pos) s);
     Some (ident, s, acts)
   }"

text \<open>
  When the answer to a heartbeat counts: the parameters, whether the timer of the heartbeats is stopped,
  and whether the control thread is asked to authenticate again.
\<close>

definition HandshakeToSMP_answer :: "bool \<Rightarrow> tagSmpParaDir \<Rightarrow> tagSmpParaDir \<times> bool \<times> bool" where
  "HandshakeToSMP_answer answered p =
     (if answered then (p\<lparr>smp_hello_fail_time := 0\<rparr>, False, False)
      else let p = p\<lparr>smp_hello_fail_time := smp_hello_fail_time p + 1\<rparr> in
           if 2 < smp_hello_fail_time p then (p, True, \<not> smp_success p) else (p, False, False))"

definition AskForSmpInitData ::
  "'u::len word dir_env \<Rightarrow> nat list \<Rightarrow> nat \<Rightarrow> tagSmpParaDir \<Rightarrow> u32 \<Rightarrow> dir_tran_thread \<Rightarrow> (u32 \<times> dir_tran_thread \<times> dir_action list) option" where
  "AskForSmpInitData e quick h p ident s = do {
     (ident, s, acts) \<leftarrow> reopen_smp quick p ident s;
     (ask_buf, cur_pos) \<leftarrow> smp_request 41 p;
     (_, s) \<leftarrow> sendMessage e h ident ask_buf (of_nat cur_pos) s;
     Some (ident, s, acts)
   }"

text \<open>\<open>SendToSam\<close> and \<open>SendToSmp\<close>: the result says whether there is something to wait for.\<close>

definition SendToSam ::
  "'u::len word dir_env \<Rightarrow> nat \<Rightarrow> bool \<Rightarrow> tagDirectTranSrvPara \<Rightarrow> byte list \<Rightarrow> u32 \<Rightarrow> dir_tran_thread \<Rightarrow> (bool \<times> dir_tran_thread) option" where
  "SendToSam e h inited p buf buflen s =
     (if \<not> inited then Some (False, s)
      else let (ident, s) = GSNSender (sam_su_ipaddr p) (sam_su_port p) (sam_ipaddr p) (sam_port p) s
           in sendMessage e h ident buf buflen s)"

definition SendToSmp ::
  "'u::len word dir_env \<Rightarrow> nat \<Rightarrow> bool \<Rightarrow> tagSmpParaDir \<Rightarrow> byte list \<Rightarrow> u32 \<Rightarrow> dir_tran_thread \<Rightarrow> (bool \<times> dir_tran_thread) option" where
  "SendToSmp e h inited p buf buflen s =
     (if \<not> inited then Some (False, s)
      else let (ident, s) = GSNSender (smp_su_ipaddr p) (smp_su_port p) (smp_server_ipaddr p) (smp_port p) s
           in sendMessage e h ident buf buflen s)"

subsection \<open>The user information\<close>

text \<open>
  What the control thread knows. \<open>ConvertUtf8ToGBK\<close> writes what \<open>uc_to_gbk\<close> makes of a string to the front of
  an array, as far as there is room, and no NUL behind it.
\<close>

record user_conf =
  uc_to_gbk :: "byte list \<Rightarrow> byte list"
  uc_username :: "byte list"
  uc_diskid :: "byte list"
  uc_info :: DHCPIPInfo
  uc_resolv :: "byte list option"

definition gbk_into :: "user_conf \<Rightarrow> byte list \<Rightarrow> byte list \<Rightarrow> byte list" where
  "gbk_into c tmpbuf str = memcpy tmpbuf 0 (take (length tmpbuf) (uc_to_gbk c str))"

definition user_info_sam :: "user_conf \<Rightarrow> (byte list \<times> nat) option" where
  "user_info_sam c = do {
     let info = uc_info c;
     name \<leftarrow> c_string (gbk_into c (replicate 128 0) (uc_username c));
     (buf, len) \<leftarrow> emit (replicate 200 0) 0 ([0x01, 0x01, 0x08, 0x03, of_nat (length name)] @ name);
     (buf, len) \<leftarrow> emit buf len ([0x04, 4] @ bytes_le32 (ip4_ipaddr info) @ [0x05, 6] @ adapter_mac info @
       [0x0B, 4] @ bytes_le32 (ip4_netmask info) @ [0x0C, 4] @ bytes_le32 (gateway info) @ [0x0D, 4] @ bytes_le32 (dns info));
     if ipaddr6_count info = 0 then Some (buf, len)
     else emit buf len ([0x0E, 16] @ ip6_link_local_ipaddr info @ [0x0F, 16] @ ip6_ipaddr info @ [0x11, 16] @ ip6_my_ipaddr info @
       [0x12, 1, ucast (ipaddr6_count info)])
   }"

text \<open>
  For SMP both strings are converted into the same array, and the length of the name servers is written
  in front of them when they are there.
\<close>

definition user_info_smp :: "user_conf \<Rightarrow> (byte list \<times> nat) option" where
  "user_info_smp c = do {
     let info = uc_info c;
     let tmpbuf = gbk_into c (replicate 128 0) (uc_username c);
     name \<leftarrow> c_string tmpbuf;
     (buf, len) \<leftarrow> emit (replicate 200 0) 0 ([0x01, 0x00, 0x01, 0x2D, 0x02] @ bytes_be16 (of_nat (length name)) @ name);
     diskid \<leftarrow> c_string (gbk_into c tmpbuf (uc_diskid c));
     (buf, len) \<leftarrow> emit buf len ([0x03] @ bytes_be16 (of_nat (length diskid)) @ diskid);
     (buf, len) \<leftarrow> emit buf len ([0xCD] @ bytes_be16 6 @ adapter_mac info @ [0xC9] @ bytes_be16 4 @ bytes_le32 (ip4_ipaddr info) @
       [0xCA] @ bytes_be16 4 @ bytes_le32 (ip4_netmask info) @ [0xCB] @ bytes_be16 4 @ bytes_le32 (gateway info) @
       [0xCC] @ bytes_be16 4 @ bytes_le32 (dns info) @ [0xD3]);
     if length buf < len + 2 then None
     else do {
       (servers, dnsbuflen) \<leftarrow> get_alternate_dns (uc_resolv c) (drop (len + 2) buf) 0;
       (buf, len) \<leftarrow> emit (take (len + 2) buf @ servers) len (bytes_be16 (of_nat dnsbuflen));
       Some (buf, len + dnsbuflen)
     }
   }"

text \<open>
  The two senders; \<open>srv\<close> is the object of the direct transfer, when there is one, \<open>answered\<close> what the wait
  gives, and the state is the one at the wait.
\<close>

definition SendUserinfoToAuthSvr_ForSAM ::
  "'u::len word dir_env \<Rightarrow> nat \<Rightarrow> user_conf \<Rightarrow> (bool \<times> tagDirectTranSrvPara) option \<Rightarrow> bool \<Rightarrow> dir_tran_thread \<Rightarrow> (bool \<times> dir_tran_thread) option" where
  "SendUserinfoToAuthSvr_ForSAM e h c srv answered s = do {
     (finalbuf, finalbuflen) \<leftarrow> user_info_sam c;
     case srv of
       None \<Rightarrow> Some (False, s)
     | Some (inited, p) \<Rightarrow>
         map_option (\<lambda>(sent, s). (sent \<and> answered, s)) (SendToSam e h inited p finalbuf (of_nat finalbuflen) s)
   }"

definition SendUserinfoToAuthSvr_ForSMP ::
  "'u::len word dir_env \<Rightarrow> nat \<Rightarrow> user_conf \<Rightarrow> (bool \<times> tagSmpParaDir) option \<Rightarrow> bool \<Rightarrow> dir_tran_thread \<Rightarrow> (bool \<times> dir_tran_thread) option" where
  "SendUserinfoToAuthSvr_ForSMP e h c srv answered s = do {
     (finalbuf, finalbuflen) \<leftarrow> user_info_smp c;
     case srv of
       None \<Rightarrow> Some (False, s)
     | Some (inited, p) \<Rightarrow>
         map_option (\<lambda>(sent, s). (\<not> (sent \<and> answered), s)) (SendToSmp e h inited p finalbuf (of_nat finalbuflen) s)
   }"

subsection \<open>What the messages are\<close>

lemma emit_behind:
  "emit (out @ rest) (length out) bs =
     (if length bs \<le> length rest then Some ((out @ bs) @ drop (length bs) rest, length (out @ bs)) else None)"
  by (simp add: emit_def store_at_def memcpy_def)

lemma emit_zeros:
  "length out + m = room \<Longrightarrow> emit (out @ replicate m 0) (length out) bs =
     (if length (out @ bs) \<le> room then Some ((out @ bs) @ replicate (room - length (out @ bs)) 0, length (out @ bs)) else None)"
  by (auto simp: emit_behind)

lemmas emit_first = emit_zeros [where out = "[]", simplified]

lemma gbk_into_zeros: "length s < 128 \<Longrightarrow> uc_to_gbk c str = s \<Longrightarrow> gbk_into c (replicate 128 0) str = s @ replicate (128 - length s) 0"
  by (simp add: gbk_into_def memcpy_def)

text \<open>Each heartbeat is a list of records, whatever the name, and fits its array.\<close>

lemma sam_heartbeat_records:
  assumes "c_string (sam_username p) = Some name" and "length name < 128" and "length (sam_adapter_mac p) = 6"
  shows "\<exists>rest. sam_heartbeat p = Some (sam_tlv [(1, [2]), (3, name), (4, bytes_le32 (sam_su_ipaddr p)), (5, sam_adapter_mac p)] @ rest,
    length (sam_tlv [(1, [2]), (3, name), (4, bytes_le32 (sam_su_ipaddr p)), (5, sam_adapter_mac p)]))"
  using assms by (simp add: sam_heartbeat_def emit_first len_simps)

lemma smp_request_records:
  assumes "c_string (smp_username p) = Some name" and "length name < 128" and "read_at (smp_diskid p) 0 (unat (smp_diskid_len p)) = Some diskid"
    and "length diskid \<le> 128"
  shows "\<exists>rest. smp_request command p = Some (smp_tlv [(1, [command]), (2, name), (3, diskid)] @ rest,
    length (smp_tlv [(1, [command]), (2, name), (3, diskid)]))"
  using assms by (simp add: smp_request_def emit_first len_simps)

definition sam_ip4_records :: "DHCPIPInfo \<Rightarrow> byte list \<Rightarrow> (byte \<times> byte list) list" where
  "sam_ip4_records info name = [(0x01, [0x08]), (0x03, name), (0x04, bytes_le32 (ip4_ipaddr info)), (0x05, adapter_mac info),
     (0x0B, bytes_le32 (ip4_netmask info)), (0x0C, bytes_le32 (gateway info)), (0x0D, bytes_le32 (dns info))]"

definition sam_ip6_records :: "DHCPIPInfo \<Rightarrow> (byte \<times> byte list) list" where
  "sam_ip6_records info = [(0x0E, ip6_link_local_ipaddr info), (0x0F, ip6_ipaddr info), (0x11, ip6_my_ipaddr info),
     (0x12, [ucast (ipaddr6_count info)])]"

lemma sam_tlv_append: "sam_tlv (a @ b) = sam_tlv a @ sam_tlv b"
  by (induction a rule: sam_tlv.induct) simp_all

text \<open>
  C21: the user information for SAM is the list of its records, and fits the array without IPv6; with the
  four records of IPv6 it is written past the end of the array when the name of the user has more than
  106 bytes.
\<close>

theorem user_info_for_sam:
  assumes "uc_to_gbk c (uc_username c) = name" and "0 \<notin> set name" and "length name < 128" and "dhcp_ok (uc_info c)"
  defines "ip4 \<equiv> sam_tlv (sam_ip4_records (uc_info c) name)"
    and "ip46 \<equiv> sam_tlv (sam_ip4_records (uc_info c) name @ sam_ip6_records (uc_info c))"
  shows "user_info_sam c =
    (if ipaddr6_count (uc_info c) = 0 then Some (ip4 @ replicate (163 - length name) 0, length ip4)
     else if length name \<le> 106 then Some (ip46 @ replicate (106 - length name) 0, length ip46)
     else None)"
proof -
  let ?i = "uc_info c"
  define a where "a = [0x01, 0x01, 0x08, 0x03, of_nat (length name)] @ name"
  define b where "b = [0x04, 4] @ bytes_le32 (ip4_ipaddr ?i) @ [0x05, 6] @ adapter_mac ?i @
     [0x0B, 4] @ bytes_le32 (ip4_netmask ?i) @ [0x0C, 4] @ bytes_le32 (gateway ?i) @ [0x0D, 4] @ bytes_le32 (dns ?i)"
  define d where "d = [0x0E, 16] @ ip6_link_local_ipaddr ?i @ [0x0F, 16] @ ip6_ipaddr ?i @ [0x11, 16] @ ip6_my_ipaddr ?i @
       [0x12, 1, ucast (ipaddr6_count ?i)]"
  have len: "length a = length name + 5" "length b = 32" "length d = 57" using assms(4) by (simp_all add: a_def b_def d_def dhcp_ok_def len_simps)
  have ip: "ip4 = a @ b" "ip46 = a @ b @ d"
    using assms(4) by (simp_all add: dhcp_ok_def ip4_def ip46_def a_def b_def d_def sam_ip4_records_def sam_ip6_records_def len_simps)
  have name: "c_string (gbk_into c (replicate 128 0) (uc_username c)) = Some name"
    using c_string_padded [OF assms(2), of "128 - length name"] gbk_into_zeros [OF assms(3,1)] assms(3) by simp
  have first: "emit (replicate 200 0) 0 a = Some (a @ replicate (195 - length name) 0, length a)"
    using assms(3) len(1) by (simp add: emit_first)
  have second: "emit (a @ replicate (195 - length name) 0) (length a) b = Some ((a @ b) @ replicate (163 - length name) 0, length (a @ b))"
    using assms(3) len emit_zeros [of a "195 - length name" 200 b] by simp
  have third: "emit ((a @ b) @ replicate (163 - length name) 0) (length (a @ b)) d =
      (if length name \<le> 106 then Some ((a @ b @ d) @ replicate (106 - length name) 0, length (a @ b @ d)) else None)"
    using assms(3) len emit_zeros [of "a @ b" "163 - length name" 200 d] by simp
  have "user_info_sam c = (if ipaddr6_count ?i = 0 then Some ((a @ b) @ replicate (163 - length name) 0, length (a @ b))
      else emit ((a @ b) @ replicate (163 - length name) 0) (length (a @ b)) d)"
    unfolding user_info_sam_def Let_def name bind.bind_lunit a_def [symmetric] b_def [symmetric] d_def [symmetric] using first second by simp
  then show ?thesis by (simp only: third [unfolded append_assoc] ip append_assoc)
qed

definition user_conf_example :: user_conf where
  "user_conf_example = \<lparr>uc_to_gbk = id, uc_username = replicate 107 0x61, uc_diskid = [0x64],
     uc_info = ef_dhcp identity_answer\<lparr>ipaddr6_count := 1\<rparr>, uc_resolv = None\<rparr>"

theorem user_info_for_sam_witness:
  "user_info_sam user_conf_example = None"
proof -
  have "dhcp_ok (uc_info user_conf_example)"
    by (simp add: user_conf_example_def dhcp_ok_def identity_answer_def frame_example_def)
  then show ?thesis
    using user_info_for_sam [of user_conf_example "replicate 107 0x61"] by (simp add: user_conf_example_def)
qed

text \<open>\<open>ConvertUtf8ToGBK\<close> into an array that still holds another string.\<close>

lemma gbk_into_twice:
  assumes "uc_to_gbk c str = s" and "0 \<notin> set s" and "0 \<notin> set old" and "length s < 128" and "length old < 128"
  shows "c_string (gbk_into c (old @ replicate (128 - length old) 0) str) = Some (s @ drop (length s) old)"
proof -
  have "gbk_into c (old @ replicate (128 - length old) 0) str = s @ drop (length s) (old @ replicate (128 - length old) 0)"
    using assms(1,4,5) by (simp add: gbk_into_def memcpy_def)
  also have "\<dots> = (s @ drop (length s) old) @ replicate (128 - max (length s) (length old)) 0"
    using assms(4,5) by (auto simp: max_def)
  finally have array: "gbk_into c (old @ replicate (128 - length old) 0) str = (s @ drop (length s) old) @ replicate (128 - max (length s) (length old)) 0" .
  show ?thesis
    unfolding array by (rule c_string_padded) (use assms(2-5) in \<open>auto dest: in_set_dropD\<close>)
qed

text \<open>
  C22: the user information for SMP names the wrong disk: the identifier of the disk is followed by what
  is left of a longer user name; and the function says that it has failed exactly when the message has been
  queued and answered, or when there is no object to send it with.
\<close>

theorem user_info_for_smp:
  assumes "uc_to_gbk c (uc_username c) = name" and "0 \<notin> set name" and "length name < 128"
    and "uc_to_gbk c (uc_diskid c) = diskid" and "0 \<notin> set diskid" and "length diskid < 128"
    and "SendUserinfoToAuthSvr_ForSMP e h c srv answered s = Some (r, s')"
  defines "records \<equiv> smp_tlv [(0x01, [0x2D]), (0x02, name), (0x03, diskid @ drop (length diskid) name)]"
  shows "\<exists>buf len. user_info_smp c = Some (buf, len) \<and> take (length records) buf = records \<and>
    (r \<longleftrightarrow> (\<exists>inited p. srv = Some (inited, p) \<and> (answered \<longrightarrow> SendToSmp e h inited p buf (of_nat len) s = Some (False, s'))))"
proof -
  obtain buf len where info: "user_info_smp c = Some (buf, len)"
    and sent: "(case srv of None \<Rightarrow> Some (False, s)
     | Some (inited, p) \<Rightarrow> map_option (\<lambda>(sent, s). (\<not> (sent \<and> answered), s)) (SendToSmp e h inited p buf (of_nat len) s)) = Some (r, s')"
    using assms(7) by (auto simp: SendUserinfoToAuthSvr_ForSMP_def split: bind_splits)
  define k where "k = diskid @ drop (length diskid) name"
  define a where "a = [0x01, 0x00, 0x01, 0x2D, 0x02] @ bytes_be16 (of_nat (length name)) @ name"
  define b where "b = [0x03] @ bytes_be16 (of_nat (length k)) @ k"
  have tmp: "gbk_into c (replicate 128 0) (uc_username c) = name @ replicate (128 - length name) 0" by (rule gbk_into_zeros [OF assms(3,1)])
  have name: "c_string (name @ replicate (128 - length name) 0) = Some name" using c_string_padded [OF assms(2)] assms(3) by simp
  have diskid: "c_string (gbk_into c (name @ replicate (128 - length name) 0) (uc_diskid c)) = Some k"
    unfolding k_def by (rule gbk_into_twice [OF assms(4,5,2,6,3)])
  have records: "records = a @ b" by (simp add: records_def a_def b_def k_def bytes_be16_def bytes_le16_def)
  have k: "length k < 128" using assms(3,6) by (simp add: k_def)
  have "take (length (a @ b)) buf = a @ b"
  proof -
    have la: "length a = length name + 7" "length b = length k + 3" by (simp_all add: a_def b_def len_simps)
    have first: "emit (replicate 200 0) 0 a = Some (a @ replicate (200 - length a) 0, length a)"
      using assms(3) la by (simp add: emit_first)
    have second: "b2 = (a @ b) @ replicate (200 - length (a @ b)) 0 \<and> l2 = length (a @ b)"
      if "emit (a @ replicate (200 - length a) 0) (length a) b = Some (b2, l2)" for b2 l2
      using that emit_zeros [of a "200 - length a" 200 b] assms(3) la by (simp split: if_splits)
    have parts: "\<exists>b2 l2 b3 l3 x y servers n. emit (a @ replicate (200 - length a) 0) (length a) b = Some (b2, l2) \<and> emit b2 l2 x = Some (b3, l3) \<and>
        l3 + 2 \<le> length b3 \<and> emit (take (l3 + 2) b3 @ servers) l3 y = Some (buf, n)"
      using info unfolding user_info_smp_def Let_def tmp name diskid bind.bind_lunit a_def [symmetric] b_def [symmetric] first
      by (auto split: bind_splits if_splits simp: not_less) blast
    then obtain b2 l2 b3 l3 x y servers n where e: "emit (a @ replicate (200 - length a) 0) (length a) b = Some (b2, l2)" "emit b2 l2 x = Some (b3, l3)"
        "l3 + 2 \<le> length b3" "emit (take (l3 + 2) b3 @ servers) l3 y = Some (buf, n)" by blast
    have three: "take l2 b3 = take l2 b2 \<and> l3 = l2 + length x" using emit_take [OF e(2), of l2] by simp
    then have "take l2 buf = take l2 (take (l3 + 2) b3 @ servers)" using emit_take [OF e(4), of l2] by simp
    also have "\<dots> = take l2 b2" using three e(3) by simp
    finally show ?thesis using second [OF e(1)] by simp
  qed
  then have "take (length records) buf = records" by (simp add: records)
  moreover have "r \<longleftrightarrow> (\<exists>inited p. srv = Some (inited, p) \<and> (answered \<longrightarrow> SendToSmp e h inited p buf (of_nat len) s = Some (False, s')))"
    using sent by (auto split: option.splits)
  ultimately show ?thesis using info by blast
qed

lemma user_info_smp_example:
  "\<exists>buf len. user_info_smp (user_conf_example\<lparr>uc_username := [0x61, 0x62, 0x63]\<rparr>) = Some (buf, len)"
proof -
  let ?c = "user_conf_example\<lparr>uc_username := [0x61, 0x62, 0x63]\<rparr>"
  have tmp: "gbk_into ?c (replicate 128 0) (uc_username ?c) = [0x61, 0x62, 0x63] @ replicate 125 0"
    using gbk_into_zeros [of "[0x61, 0x62, 0x63]" ?c] by (simp add: user_conf_example_def)
  have name: "c_string ([0x61, 0x62, 0x63] @ replicate 125 0) = Some [0x61, 0x62, 0x63]" by (rule c_string_padded) simp_all
  have "c_string (gbk_into ?c ([0x61, 0x62, 0x63] @ replicate (128 - length [0x61, 0x62, 0x63 :: byte]) 0) (uc_diskid ?c)) = Some ([0x64] @ drop (length [0x64 :: byte]) [0x61, 0x62, 0x63])"
    by (rule gbk_into_twice) (simp_all add: user_conf_example_def)
  then have diskid: "c_string (gbk_into ?c ([0x61, 0x62, 0x63] @ replicate 125 0) (uc_diskid ?c)) = Some [0x64, 0x62, 0x63]" by simp
  have dns: "get_alternate_dns (uc_resolv ?c) d 0 = Some (d, 0)" for d by (simp add: get_alternate_dns_def user_conf_example_def)
  have mac: "length (adapter_mac (uc_info ?c)) = 6" by (simp add: user_conf_example_def identity_answer_def frame_example_def)
  have fits: "\<exists>b. emit buf n bs = Some (b, n + length bs) \<and> length b = length buf" if "n + length bs \<le> length buf" for buf :: "byte list" and n bs
    using emit_fits [OF that] .
  obtain b1 where b1: "emit (replicate 200 0) 0 ([0x01, 0x00, 0x01, 0x2D, 0x02] @ bytes_be16 (of_nat 3) @ [0x61, 0x62, 0x63]) = Some (b1, 10)" "length b1 = 200"
    using fits [of 0 "[0x01, 0x00, 0x01, 0x2D, 0x02] @ bytes_be16 (of_nat 3) @ [0x61, 0x62, 0x63]" "replicate 200 0"] by (auto simp: len_simps)
  obtain b2 where b2: "emit b1 10 ([0x03] @ bytes_be16 (of_nat 3) @ [0x64, 0x62, 0x63]) = Some (b2, 16)" "length b2 = 200"
    using fits [of 10 "[0x03] @ bytes_be16 (of_nat 3) @ [0x64, 0x62, 0x63]" b1] b1(2) by (auto simp: len_simps)
  define x where "x = [0xCD] @ bytes_be16 6 @ adapter_mac (uc_info ?c) @ [0xC9] @ bytes_be16 4 @ bytes_le32 (ip4_ipaddr (uc_info ?c)) @
       [0xCA] @ bytes_be16 4 @ bytes_le32 (ip4_netmask (uc_info ?c)) @ [0xCB] @ bytes_be16 4 @ bytes_le32 (gateway (uc_info ?c)) @
       [0xCC] @ bytes_be16 4 @ bytes_le32 (dns (uc_info ?c)) @ [0xD3]"
  have x: "length x = 38" using mac by (simp add: x_def len_simps)
  obtain b3 where b3: "emit b2 16 x = Some (b3, 54)" "length b3 = 200" using fits [of 16 x b2] b2(2) x by auto
  obtain b4 where b4: "emit b3 54 (bytes_be16 0) = Some (b4, 56)" using fits [of 54 "bytes_be16 0" b3] b3(2) by (auto simp: len_simps)
  show ?thesis
    unfolding user_info_smp_def Let_def tmp name bind.bind_lunit diskid x_def [symmetric] using b1 b2 b3 b4 dns by simp
qed

theorem user_info_for_smp_witness:
  "\<exists>buf len. user_info_smp (user_conf_example\<lparr>uc_username := [0x61, 0x62, 0x63]\<rparr>) = Some (buf, len) \<and>
     take 16 buf = smp_tlv [(0x01, [0x2D]), (0x02, [0x61, 0x62, 0x63]), (0x03, [0x64, 0x62, 0x63])]"
proof -
  obtain buf len where "user_info_smp (user_conf_example\<lparr>uc_username := [0x61, 0x62, 0x63]\<rparr>) = Some (buf, len)"
    using user_info_smp_example by blast
  then have "SendUserinfoToAuthSvr_ForSMP dir_env_example 1 (user_conf_example\<lparr>uc_username := [0x61, 0x62, 0x63]\<rparr>) None False dir_example = Some (False, dir_example)"
    by (simp add: SendUserinfoToAuthSvr_ForSMP_def)
  from user_info_for_smp [OF _ _ _ _ _ _ this, of "[0x61, 0x62, 0x63]" "[0x64]"]
  show ?thesis by (auto simp: user_conf_example_def len_simps)
qed

end
