(* ===== verification/Spec2Isabelle.thy ===== *)
theory Spec2Isabelle
  imports Prelude Stream_Hash Crc16 Rc4 Md5 D3des Rhash Sha1 Tiger Whirlpool
    Dictionary Iniparser Lnx_Timer Auth_Machine Text_Codec Encryption Su_Des
    Ripemd128 Client_Md5 Vz_Api Wire Net_Util Radius_Private Vendor_Seg Eapol_Parse
    Eapol_Build Dir_Params Dir_Receive Frame_Check Dir_Send Hello_Thread
    Encode_Util Server_Messages Control_Packets Server_Requests
begin

text \<open>
  \<^bold>\<open>The program.\<close> The repository is an 802.1X supplicant for Ruijie networks, reconstructed from the
  vendor's client. The client itself is under \<open>src/tuanzi\<close>; it is linked with libraries that the
  repository holds beside it. The client reads its configuration with \<open>iniparser\<close>, starts a set of
  threads with message queues and timers (\<open>lnxthread.cpp\<close>), and authenticates with the state machine
  of \<open>statemachinethread.cpp\<close>, \<open>states.cpp\<close> and \<open>statedata.cpp\<close>. It answers the challenges of the access
  server with digests: MD5 (\<open>md5\<close>), SHA-1, Tiger and Whirlpool (\<open>rhash\<close>), each also in a variant that
  the vendor changed (suffix \<open>_Vz\<close>), and it protects passwords and messages with RC4, DES and a CRC.

  \<^bold>\<open>The theories.\<close>

  \<^item> \<open>Prelude\<close>: bytes, bits of words and the conversions between byte lists and words that the
    components share. \<open>Stream_Hash\<close>: a locale for digests that collect their input in blocks; each
    digest interprets it, and gets from it that the way the input is cut into calls of the update
    function does not matter.
  \<^item> \<open>Crc16\<close> (\<open>src/crc16\<close>): the table and the bitwise routine are division of polynomials over GF(2);
    residue, detection of bursts, check value.
  \<^item> \<open>Rc4\<close> (\<open>src/rc4\<close>): key schedule and output; what a call puts out is the text under the key
    stream of the published algorithm, the state stays a permutation, and what the key as a C string means.
  \<^item> \<open>Md5\<close> (\<open>src/md5\<close>): \<open>MD5_CTX\<close> with its bit counter and buffer, on words of 32 bits as the algorithm
    means them and of 64 bits as \<open>unsigned long\<close> has them on the target; the digest equals a
    specification written after RFC 1321 for the first and not for the second; the same for MD5_Vz.
  \<^item> \<open>D3des\<close> (\<open>src/d3des\<close>): DES with cooked key schedules, double and triple length keys; decryption
    inverts encryption, keys are saved and restored, the validation set.
  \<^item> \<open>Rhash\<close>, \<open>Sha1\<close>, \<open>Tiger_Sbox\<close>, \<open>Tiger\<close>, \<open>Whirlpool_Sbox\<close>, \<open>Whirlpool\<close> (\<open>src/rhash\<close>): byte order
    routines, the three digests and their \<open>_Vz\<close> variants against specifications on lists of words.
  \<^item> \<open>Ripemd128\<close> (\<open>src/ampheck/src/ripemd128.c\<close>): both transformations with the tables of their
    macro calls, update and finish; equality with the hash function of the paper.
  \<^item> \<open>Dictionary\<close> (\<open>src/iniparser/src/dictionary.c\<close>): the arrays of keys, values and hashes with
    their free slots; a dictionary refines a map with a counter and a capacity, whatever the
    allocations of each call do. The outcome of an allocation is an argument of the operations that allocate. The locale \<open>string_map\<close> states what the parser needs of it.
  \<^item> \<open>Iniparser\<close> (\<open>src/iniparser/src/iniparser.c\<close>): the line grammar with its \<open>sscanf\<close> patterns, the
    loader with its line buffer, the getters, and the writer. The loader refines the list of
    updates that the lines stand for, it returns for every file, and loading what the writer has
    written gives the dictionary back.
  \<^item> \<open>Lnx_Timer\<close> (\<open>src/tuanzi/src/lnxthread.cpp\<close>): the timers of a thread and their mutexes. A call
    that waits for a mutex its own thread holds is \<open>None\<close>.
  \<^item> \<open>Auth_Machine\<close> (\<open>src/tuanzi/src/statemachinethread.cpp\<close>, \<open>states.cpp\<close>, \<open>statedata.cpp\<close>): the
    record of the machine's data, \<open>Initlize\<close> and \<open>MoveState\<close> of the seven states, and the handlers of
    the thread's messages. A call gives \<open>Ok\<close>, \<open>Crash\<close> or \<open>Blocked\<close>, and which of
    them is shown for every reachable machine and every message.
  \<^item> \<open>Text_Codec\<close> (\<open>src/tuanzi/src/util.cpp\<close>): hexadecimal codecs, the mask of the private
    properties, splitting, searching and replacing. \<open>Encryption\<close> (\<open>encryption.cpp\<close>, \<open>userconfig.cpp\<close>):
    the stored user name and password. \<open>Su_Des\<close> (\<open>sudes.cpp\<close>, \<open>dirtranthread.cpp\<close>): DES in chains of
    blocks for the direct transfer.
  \<^item> \<open>Client_Md5\<close> (\<open>md5checksum.cpp\<close>, \<open>md5forvz.cpp\<close>, \<open>util.cpp\<close>): the texts of digests, the digest of a
    file, and the chain of blocks that carries the password to the server, with the decryption of
    the server as its inverse. \<open>Vz_Api\<close> (\<open>vz_apiapp.cpp\<close>, \<open>dirtranthread.cpp\<close>): the answers to the
    challenges out of the pairs of modified digests, and the heartbeat that carries one. Memory is
    a list of bytes there and an access outside of a buffer is \<open>None\<close>.
  \<^item> \<open>Wire\<close>: words in network byte order, and the locale \<open>segment_reader\<close> of the loops over typed
    segments. \<open>Net_Util\<close> (\<open>netutil.cpp\<close>, \<open>directtransfer.cpp\<close>): headers and checksums of the direct
    transfer, tests on addresses, the name servers. \<open>Radius_Private\<close> (\<open>rgprivateproc.cpp\<close>, \<open>util.cpp\<close>): the
    private properties, the reader of the segments of other vendors' switches, and the list of
    services. \<open>Vendor_Seg\<close> (\<open>rgprivateproc.cpp\<close>): the writers of these segments. \<open>Eapol_Parse\<close>
    (\<open>eapolutil.cpp\<close>): frames from packets with the properties of a result, and what is freed. The
    properties of the control thread, \<open>CtrlThread->private_properties\<close>, are the record \<open>ctrl_state\<close>.
    \<open>Eapol_Build\<close> (\<open>eapolutil.cpp\<close>): packets from frames, and which of them come back when they are read.
  \<^item> The direct transfer, messages over UDP beside the authentication. \<open>Dir_Params\<close>: the parameters of the
    peers, and the locale \<open>keyed_store\<close> of the lists that are used as maps. \<open>Dir_Receive\<close>
    (\<open>udplistenthread.cpp\<close>, \<open>dirtransutil.cpp\<close>): the receiving thread as the record \<open>udp_thread\<close>, with time
    stamps, receivers, sessions, checks and responses; the relation \<open>udp_step\<close> has its packets and the calls
    of the other threads. \<open>Frame_Check\<close>: its checks of headers, which nothing calls. \<open>Dir_Send\<close>
    (\<open>dirtranthread.cpp\<close>, \<open>threadutil.cpp\<close>): the sending thread as the record \<open>dir_tran_thread\<close>, with senders,
    the queue, slices and calls that wait; the relation \<open>dir_step\<close> has the calls of the other threads
    and the ends of their waits, which need no signal.
  \<^item> \<open>Hello_Thread\<close> (\<open>hellothread.cpp\<close>, \<open>helloprocessor.cpp\<close>): the heartbeat to the switch, on the timers of
    \<open>Lnx_Timer\<close>.
  \<^item> \<open>Encode_Util\<close> (\<open>encodeutil.cpp\<close>): the conversion of GBK into a string, which reads an array without a NUL.
    \<open>Server_Messages\<close> (\<open>directtransrv.cpp\<close>): the readers of the messages of the servers SAM and SMP, which come
    over the direct transfer, with what they do as a list of events. \<open>Control_Packets\<close> (\<open>rxpacketthread.cpp\<close>,
    \<open>contextcontrolthread.cpp\<close>): packets from the capture, and what the control thread makes of them: frames for
    the state machine, encrypted and plain messages of SAM; the reasons of a logoff. \<open>Server_Requests\<close>
    (\<open>directtransrv.cpp\<close>, \<open>contextcontrolthread.cpp\<close>): heartbeats, requests and user information for the
    servers, queued in the objects of \<open>Dir_Send\<close>.

  \<^bold>\<open>What the lemmas show.\<close> For the libraries: equality with a specification that is not the code
  (digests, CRC, RC4), inverses (RC4, DES, saved keys, the configuration file), independence from
  the way the input is cut, and the refinement of a map. For the state machine: the recursion
  between \<open>OnStateMove\<close> and \<open>MoveState\<close> ends from every machine, which messages leave the thread waiting
  for ever or crash it, what the handlers of requests would answer with, and what goes wrong: the start branch that logs off at once, the mutex that stays locked, the null
  pointer in the answer to an MD5 challenge. For the direct transfer: invariants of all runs, by which
  nothing is ever sent and nothing is ever delivered and a wait that ends early leaves its result in the queue, next to the checks of a packet, which do what they
  should; for the heartbeat the numbers of its packets and the change of interval that blocks. For the
  servers: which messages are carried out and which are read wrongly or for ever, that no packet from the
  capture gets to the state machine, that encrypted messages are opened, and where the requests are
  written past their arrays. Test vectors of the standards are evaluated by the
  kernel. The findings of the manifest list where the code differs from what it means.

  \<^bold>\<open>Bounds and fuel.\<close> No definition uses fuel. Machine integers are words of their width; the block
  counters of the digests wrap as in the code, and the theorems about digests bound the input so
  that they do not, where it matters. The loops of the loader and of the tables are structural or
  have a measure, that of \<open>send_slices\<close> being the bytes that remain and the waits to come; what the
  operating system decides is a list or a function that the definitions take. \<open>OnStateMove\<close> is a
  \<open>partial_function (option)\<close> with a theorem that it returns, and so is the loop over a message of SAM, which
  does not return for some messages.

  \<^bold>\<open>Not modelled.\<close> Allocation failures outside the dictionary, floating point getters, log messages,
  the creation of threads and their queues, sockets and files, conversions of character sets
  but for the one in \<open>Encode_Util\<close> (arguments of the definitions that use them; \<open>Radius_Private\<close>, \<open>Vendor_Seg\<close>
  and \<open>Eapol_Parse\<close> take that one, too, as a function of the text), the rest of the control thread \<open>contextcontrolthread.cpp\<close>
  and of the service of the direct transfer \<open>directtransrv.cpp\<close>, which configure, log and start the parts above,
  call the system between them or read XML with a library, the user interface, and the third party code under \<open>src/openssl\<close>, \<open>src/pcap\<close>,
  \<open>src/tinyxml\<close>, the rest of \<open>src/ampheck\<close> and \<open>src/wpa_supplicant\<close>.
\<close>

end
